(* ===== verification/Atlas_Prelude.thy ===== *)
theory Atlas_Prelude
  imports Main "HOL-Library.AList" "HOL-Library.Char_ord" "HOL-Library.List_Lexorder"
begin

text \<open>
  Shared vocabulary of the development: the types that stand for Python and PostgreSQL
  values (UUIDs, timestamps, JSON documents), keyed tables with the lookup and update
  operations that SQLAlchemy sessions perform on them, and the string functions of the
  Python standard library that the components call, with the lemmas the component
  theories share.
\<close>

section \<open>Proof collections\<close>

named_theorems table_simps \<open>lookup and update laws of keyed tables\<close>
named_theorems json_simps \<open>reading and writing JSON objects\<close>

section \<open>Base types\<close>

text \<open>
  A UUID is its canonical text, so that \<^verbatim>\<open>str(uuid)\<close> is the identity and f-strings that
  embed one are concatenations. Timestamps count microseconds as unbounded integers.
  Python strings are lists of characters (code points below 256).
\<close>

type_synonym uuid = string
type_synonym time = int

text \<open>JSON documents. Objects keep insertion order, as Python dictionaries do. A float
  is carried as the text that \<^verbatim>\<open>repr\<close> prints for it.\<close>

datatype json =
    JNull
  | JBool bool
  | JInt int
  | JFloat string
  | JStr string
  | JList "json list"
  | JObj "(string \<times> json) list"

type_synonym json_obj = "(string \<times> json) list"

definition json_get :: "string \<Rightarrow> json_obj \<Rightarrow> json option" where
  "json_get k kvs = map_of kvs k"

definition json_put :: "string \<Rightarrow> json \<Rightarrow> json_obj \<Rightarrow> json_obj" where
  "json_put k v kvs = AList.update k v kvs"

text \<open>\<open>json_merge d u\<close> is \<^verbatim>\<open>{**d, **u}\<close> (and \<^verbatim>\<open>d.update(u)\<close>).\<close>

definition json_merge :: "json_obj \<Rightarrow> json_obj \<Rightarrow> json_obj" where
  "json_merge d u = foldl (\<lambda>acc (k, v). json_put k v acc) d u"

lemma json_get_put [simp, json_simps]:
  "json_get k (json_put k' v d) = (if k = k' then Some v else json_get k d)"
  by (simp add: json_get_def json_put_def update_conv')

lemma json_get_Nil [simp, json_simps]: "json_get k [] = None"
  by (simp add: json_get_def)

lemma json_get_Cons [simp, json_simps]:
  "json_get k ((k', v) # d) = (if k = k' then Some v else json_get k d)"
  by (simp add: json_get_def)

lemma json_merge_Nil [simp]: "json_merge d [] = d"
  by (simp add: json_merge_def)

lemma json_merge_Cons [simp]: "json_merge d ((k, v) # u) = json_merge (json_put k v d) u"
  by (simp add: json_merge_def)

text \<open>Python truthiness of a JSON value; a missing key reads as \<^verbatim>\<open>None\<close>.\<close>

fun truthy :: "json \<Rightarrow> bool" where
  "truthy JNull = False"
| "truthy (JBool b) = b"
| "truthy (JInt i) = (i \<noteq> 0)"
| "truthy (JFloat r) = (r \<notin> {''0.0'', ''-0.0''})"
| "truthy (JStr s) = (s \<noteq> [])"
| "truthy (JList xs) = (xs \<noteq> [])"
| "truthy (JObj kvs) = (kvs \<noteq> [])"

text \<open>\<^verbatim>\<open>d.get(key)\<close> read where a false value counts as absent (\<^verbatim>\<open>d.get(key) or ...\<close>).\<close>

definition json_true :: "string \<Rightarrow> json_obj \<Rightarrow> json option" where
  "json_true k d = (case json_get k d of None \<Rightarrow> None | Some v \<Rightarrow> if truthy v then Some v else None)"

definition opt_json :: "string option \<Rightarrow> json" where
  "opt_json x = (case x of None \<Rightarrow> JNull | Some s \<Rightarrow> JStr s)"

section \<open>Keyed tables\<close>

text \<open>
  A table is the list of its rows. \<open>tget\<close> is \<^verbatim>\<open>session.get\<close> (or a query on the primary
  key), \<open>tset\<close> writes through an ORM row or runs \<^verbatim>\<open>UPDATE ... WHERE id = k\<close>, and
  \<open>tadd\<close> is \<^verbatim>\<open>session.add\<close>; \<open>keyed\<close> is the primary-key constraint.
\<close>

definition tget :: "('r \<Rightarrow> 'k) \<Rightarrow> 'k \<Rightarrow> 'r list \<Rightarrow> 'r option" where
  "tget key k rows = find (\<lambda>r. key r = k) rows"

definition tset :: "('r \<Rightarrow> 'k) \<Rightarrow> 'k \<Rightarrow> ('r \<Rightarrow> 'r) \<Rightarrow> 'r list \<Rightarrow> 'r list" where
  "tset key k f rows = map (\<lambda>r. if key r = k then f r else r) rows"

definition tadd :: "'r \<Rightarrow> 'r list \<Rightarrow> 'r list" where
  "tadd r rows = rows @ [r]"

definition keyed :: "('r \<Rightarrow> 'k) \<Rightarrow> 'r list \<Rightarrow> bool" where
  "keyed key rows = distinct (map key rows)"

lemma tget_Nil [simp]: "tget key k [] = None"
  by (simp add: tget_def)

lemma tget_Cons [simp]:
  "tget key k (r # rs) = (if key r = k then Some r else tget key k rs)"
  by (simp add: tget_def)

lemma tset_Nil [simp]: "tset key k f [] = []"
  by (simp add: tset_def)

lemma tset_Cons [simp]:
  "tset key k f (r # rs) = (if key r = k then f r else r) # tset key k f rs"
  by (simp add: tset_def)

lemma tget_key: "tget key k rows = Some r \<Longrightarrow> key r = k \<and> r \<in> set rows"
  by (induction rows) (auto split: if_splits)

lemma tget_None_iff: "tget key k rows = None \<longleftrightarrow> k \<notin> key ` set rows"
  by (induction rows) auto

lemma tget_tset [table_simps]:
  assumes "\<And>r. key (f r) = key r"
  shows "tget key k (tset key k' f rows) =
    (if k = k' then map_option f (tget key k rows) else tget key k rows)"
  by (induction rows) (auto simp: assms)

lemma tget_tadd [table_simps]:
  "tget key k (tadd r rows) =
    (case tget key k rows of None \<Rightarrow> (if key r = k then Some r else None) | Some x \<Rightarrow> Some x)"
  by (induction rows) (auto simp: tadd_def)

lemma keyed_tset [simp]:
  assumes "\<And>r. key (f r) = key r"
  shows "keyed key (tset key k f rows) = keyed key rows"
proof -
  have "map key (tset key k f rows) = map key rows"
    by (simp add: tset_def assms)
  then show ?thesis by (simp add: keyed_def)
qed

lemma keyed_tadd [simp]: "keyed key (tadd r rows) = (keyed key rows \<and> key r \<notin> key ` set rows)"
  by (auto simp: keyed_def tadd_def)

lemma keyed_tget: "keyed key rows \<Longrightarrow> r \<in> set rows \<Longrightarrow> tget key (key r) rows = Some r"
  by (induction rows) (auto simp: keyed_def image_iff)

lemma keyed_inj:
  "keyed key rows \<Longrightarrow> r \<in> set rows \<Longrightarrow> q \<in> set rows \<Longrightarrow> key r = key q \<Longrightarrow> r = q"
  by (auto simp: keyed_def distinct_map dest: inj_onD)

lemma set_tset: "set (tset key k f rows) = (\<lambda>r. if key r = k then f r else r) ` set rows"
  by (simp add: tset_def)

lemma set_tadd [simp]: "set (tadd r rows) = insert r (set rows)"
  by (simp add: tadd_def)

lemma length_tset [simp]: "length (tset key k f rows) = length rows"
  by (simp add: tset_def)

lemma tset_tset: "(\<And>r. key (g r) = key r) \<Longrightarrow> tset key k f (tset key k g rows) = tset key k (\<lambda>r. f (g r)) rows"
  by (simp add: tset_def)

lemma tset_id: "(\<And>r. r \<in> set rows \<Longrightarrow> key r = k \<Longrightarrow> f r = r) \<Longrightarrow> tset key k f rows = rows"
  by (induction rows) auto

lemma tget_map: "(\<And>r. key (f r) = key r) \<Longrightarrow> tget key k (map f rows) = map_option f (tget key k rows)"
  by (induction rows) simp_all

lemma keyed_map: "(\<And>r. key (f r) = key r) \<Longrightarrow> keyed key (map f rows) = keyed key rows"
  by (simp add: keyed_def comp_def)

section \<open>Errors as values\<close>

text \<open>
  \<open>ebind\<close> is sequencing: a raise (\<open>Inl\<close>) ends the operation. \<open>require\<close> is an
  \<^verbatim>\<open>if not ...: raise\<close> guard and \<open>the_row\<close> the guard that a row was found.
\<close>

definition ebind :: "'e + 'a \<Rightarrow> ('a \<Rightarrow> 'e + 'b) \<Rightarrow> 'e + 'b" where
  "ebind m f = (case m of Inl e \<Rightarrow> Inl e | Inr x \<Rightarrow> f x)"

definition require :: "bool \<Rightarrow> 'e \<Rightarrow> 'e + unit" where
  "require b e = (if b then Inr () else Inl e)"

definition the_row :: "'a option \<Rightarrow> 'e \<Rightarrow> 'e + 'a" where
  "the_row r e = (case r of None \<Rightarrow> Inl e | Some x \<Rightarrow> Inr x)"

lemma ebind_simps [simp]: "ebind (Inl e) f = Inl e" "ebind (Inr x) f = f x"
  by (simp_all add: ebind_def)

lemma ebind_Inr [simp]: "ebind m f = Inr y \<longleftrightarrow> (\<exists>x. m = Inr x \<and> f x = Inr y)"
  by (cases m) simp_all

lemma ebind_Inl: "ebind m f = Inl e \<longleftrightarrow> m = Inl e \<or> (\<exists>x. m = Inr x \<and> f x = Inl e)"
  by (cases m) simp_all

lemma require_Inr [simp]: "require b e = Inr u \<longleftrightarrow> b"
  by (simp add: require_def)

lemma require_Inl [simp]: "require b e = Inl x \<longleftrightarrow> \<not> b \<and> x = e"
  by (auto simp: require_def)

lemma require_simps [simp]: "require True e = Inr ()" "require False e = Inl e"
  by (simp_all add: require_def)

lemma the_row_Inr [simp]: "the_row r e = Inr x \<longleftrightarrow> r = Some x"
  by (cases r) (auto simp: the_row_def)

lemma the_row_simps [simp]: "the_row None e = Inl e" "the_row (Some x) e = Inr x"
  by (simp_all add: the_row_def)

text \<open>A loop over rows that may raise.\<close>

fun efold :: "('a \<Rightarrow> 's \<Rightarrow> 'e + 's) \<Rightarrow> 'a list \<Rightarrow> 's \<Rightarrow> 'e + 's" where
  "efold f [] s = Inr s"
| "efold f (x # xs) s = ebind (f x s) (efold f xs)"

lemma efold_inv:
  assumes "efold f xs s = Inr t" "P s" "\<And>x s t. x \<in> set xs \<Longrightarrow> P s \<Longrightarrow> f x s = Inr t \<Longrightarrow> P t"
  shows "P t"
  using assms
proof (induction xs arbitrary: s)
  case (Cons x xs)
  then obtain u where "f x s = Inr u" "efold f xs u = Inr t" by auto
  with Cons show ?case by (metis list.set_intros)
qed simp

lemma efold_total:
  assumes "P s" "\<And>x s. x \<in> set xs \<Longrightarrow> P s \<Longrightarrow> \<exists>t. f x s = Inr t \<and> P t"
  shows "\<exists>t. efold f xs s = Inr t \<and> P t"
  using assms
proof (induction xs arbitrary: s)
  case (Cons x xs)
  obtain u where "f x s = Inr u" "P u" using Cons.prems by (meson list.set_intros(1))
  with Cons show ?case by auto
qed simp

section \<open>Ordered queries\<close>

text \<open>The first row of \<^verbatim>\<open>ORDER BY key ASC\<close> and of \<^verbatim>\<open>ORDER BY key DESC\<close>.\<close>

definition first_by :: "('a \<Rightarrow> 'k::linorder) \<Rightarrow> 'a list \<Rightarrow> 'a option" where
  "first_by key xs = (case sort_key key xs of [] \<Rightarrow> None | x # _ \<Rightarrow> Some x)"

definition latest_by :: "('a \<Rightarrow> 'k::linorder) \<Rightarrow> 'a list \<Rightarrow> 'a option" where
  "latest_by key xs = (case rev (sort_key key xs) of [] \<Rightarrow> None | x # _ \<Rightarrow> Some x)"

lemma sort_key_Nil_iff [simp]: "sort_key key xs = [] \<longleftrightarrow> xs = []"
  by (metis length_0_conv length_sort)

lemma first_by_None [simp]: "first_by key xs = None \<longleftrightarrow> xs = []"
proof (cases "sort_key key xs")
  case Nil
  then show ?thesis using sort_key_Nil_iff [of key xs] by (simp add: first_by_def)
next
  case (Cons y ys)
  then show ?thesis using sort_key_Nil_iff [of key xs] by (auto simp: first_by_def)
qed

lemma first_by_in: "first_by key xs = Some x \<Longrightarrow> x \<in> set xs"
proof -
  assume "first_by key xs = Some x"
  then have "x \<in> set (sort_key key xs)"
    unfolding first_by_def by (cases "sort_key key xs") (simp_all del: set_sort)
  then show ?thesis by simp
qed

lemma latest_by_in: "latest_by key xs = Some x \<Longrightarrow> x \<in> set xs"
proof -
  assume "latest_by key xs = Some x"
  then have "x \<in> set (rev (sort_key key xs))"
    unfolding latest_by_def by (cases "rev (sort_key key xs)") (simp_all del: set_sort set_rev)
  then show ?thesis by simp
qed

section \<open>Histories of guarded steps\<close>

text \<open>
  The contract of a component whose state changes only through its operations: each step
  keeps an invariant and advances the state along a preorder. A history then does both.
\<close>

locale guarded_steps =
  fixes step :: "'s \<Rightarrow> 's \<Rightarrow> bool" and inv :: "'s \<Rightarrow> bool" and le :: "'s \<Rightarrow> 's \<Rightarrow> bool"
  assumes keeps: "step s t \<Longrightarrow> inv s \<Longrightarrow> inv t"
    and advances: "step s t \<Longrightarrow> inv s \<Longrightarrow> le s t"
    and le_refl: "le s s"
    and le_trans: "le s t \<Longrightarrow> le t u \<Longrightarrow> le s u"
begin

lemma history: "step\<^sup>*\<^sup>* s t \<Longrightarrow> inv s \<Longrightarrow> inv t \<and> le s t"
proof (induction rule: rtranclp_induct)
  case base
  then show ?case by (simp add: le_refl)
next
  case (step t u)
  then show ?case using keeps advances le_trans by blast
qed

lemma reachable_inv: "step\<^sup>*\<^sup>* s t \<Longrightarrow> inv s \<Longrightarrow> inv t"
  using history by blast

lemma reachable_le: "step\<^sup>*\<^sup>* s t \<Longrightarrow> inv s \<Longrightarrow> le s t"
  using history by blast

end

end
