(* ===== verification/Python_Text.thy ===== *)
theory Python_Text
  imports Atlas_Prelude
begin

text \<open>
  The Python string functions the components call (\<^verbatim>\<open>str.split\<close>, \<^verbatim>\<open>str.join\<close>,
  \<^verbatim>\<open>str.strip\<close>, slicing, \<^verbatim>\<open>casefold\<close>, \<^verbatim>\<open>startswith\<close>) and
  \<^verbatim>\<open>json.dumps(value, sort_keys=True, separators=(",", ":"), ensure_ascii=False)\<close>, with
  the laws used by the components: whitespace folding is idempotent and clipped texts
  respect their bound.
\<close>

section \<open>Whitespace\<close>

text \<open>\<^verbatim>\<open>str.isspace\<close> on code points below 256.\<close>

definition is_space :: "char \<Rightarrow> bool" where
  "is_space c = (let n = (of_char c :: nat)
     in (9 \<le> n \<and> n \<le> 13) \<or> (28 \<le> n \<and> n \<le> 32) \<or> n = 133 \<or> n = 160)"

lemma is_space_blank [simp]: "is_space CHR '' ''"
  by (simp add: is_space_def)

definition lstrip :: "string \<Rightarrow> string" where
  "lstrip s = dropWhile is_space s"

definition strip :: "string \<Rightarrow> string" where
  "strip s = rev (lstrip (rev (lstrip s)))"

lemma length_lstrip: "length (lstrip s) \<le> length s"
  by (simp add: lstrip_def length_dropWhile_le)

lemma length_strip: "length (strip s) \<le> length s"
  using length_lstrip [of "rev (lstrip s)"] length_lstrip [of s] by (simp add: strip_def)

text \<open>\<^verbatim>\<open>str.split()\<close>: the maximal runs of non-space characters.\<close>

function split_ws :: "string \<Rightarrow> string list" where
  "split_ws s = (case lstrip s of [] \<Rightarrow> []
     | c # cs \<Rightarrow> takeWhile (\<lambda>x. \<not> is_space x) (c # cs)
                 # split_ws (dropWhile (\<lambda>x. \<not> is_space x) (c # cs)))"
  by pat_completeness auto
termination
proof (relation "measure length")
  fix s :: string and c cs
  assume s: "lstrip s = c # cs"
  then have "\<not> is_space c"
    using hd_dropWhile [of is_space s] by (simp add: lstrip_def)
  then have "length (dropWhile (\<lambda>x. \<not> is_space x) (c # cs)) < length (c # cs)"
    by (simp add: length_dropWhile_le le_imp_less_Suc)
  with s length_lstrip [of s]
  show "(dropWhile (\<lambda>x. \<not> is_space x) (c # cs), s) \<in> measure length"
    by simp
qed simp

declare split_ws.simps [simp del]

text \<open>\<^verbatim>\<open>" ".join(words)\<close> and \<^verbatim>\<open>" ".join(text.split())\<close>.\<close>

fun join_with :: "string \<Rightarrow> string list \<Rightarrow> string" where
  "join_with sep [] = []"
| "join_with sep [w] = w"
| "join_with sep (w # v # ws) = w @ sep @ join_with sep (v # ws)"

definition squash :: "string \<Rightarrow> string" where
  "squash s = join_with '' '' (split_ws s)"

definition word :: "string \<Rightarrow> bool" where
  "word w = (w \<noteq> [] \<and> (\<forall>c \<in> set w. \<not> is_space c))"

lemma split_ws_words: "\<forall>w \<in> set (split_ws s). word w"
proof (induction s rule: split_ws.induct)
  case (1 s)
  show ?case
  proof (cases "lstrip s")
    case Nil
    then show ?thesis by (simp add: split_ws.simps [of s])
  next
    case (Cons c cs)
    then have "\<not> is_space c"
      using hd_dropWhile [of is_space s] by (simp add: lstrip_def)
    then have "word (takeWhile (\<lambda>x. \<not> is_space x) (c # cs))"
      by (auto simp: word_def dest: set_takeWhileD)
    with 1 [OF Cons] Cons show ?thesis by (simp add: split_ws.simps [of s])
  qed
qed

lemma split_ws_Nil [simp]: "split_ws [] = []"
  by (simp add: split_ws.simps [of "[]"] lstrip_def)

lemma split_ws_nonspace:
  "\<not> is_space c \<Longrightarrow> split_ws (c # cs) =
     (c # takeWhile (\<lambda>x. \<not> is_space x) cs) # split_ws (dropWhile (\<lambda>x. \<not> is_space x) cs)"
  by (simp add: split_ws.simps [of "c # cs"] lstrip_def)

lemma split_ws_word: "word w \<Longrightarrow> split_ws w = [w]"
  by (cases w) (simp_all add: word_def split_ws_nonspace dropWhile_eq_Nil_conv [THEN iffD2])

lemma split_ws_append:
  assumes w: "word w" and sp: "is_space c"
  shows "split_ws (w @ c # r) = w # split_ws (c # r)"
  using assms by (cases w) (simp_all add: word_def split_ws_nonspace takeWhile_append2 dropWhile_append2)

lemma split_ws_blank: "split_ws (CHR '' '' # s) = split_ws s"
  by (simp add: split_ws.simps [of "CHR '' '' # s"] split_ws.simps [of s] lstrip_def)

lemma split_join: "\<forall>w \<in> set ws. word w \<Longrightarrow> split_ws (join_with '' '' ws) = ws"
proof (induction "'' ''" ws rule: join_with.induct)
  case 1
  then show ?case by (simp)
next
  case (2 w)
  then show ?case by (simp add: split_ws_word)
next
  case (3 w v ws)
  then show ?case by (simp add: split_ws_append split_ws_blank)
qed

lemma split_squash [simp]: "split_ws (squash s) = split_ws s"
  by (simp add: squash_def split_join split_ws_words)

lemma squash_squash [simp]: "squash (squash s) = squash s"
  by (simp add: squash_def [of "squash s"]) (simp add: squash_def)

lemma join_with_Nil_iff: "\<forall>w \<in> set ws. w \<noteq> [] \<Longrightarrow> join_with sep ws = [] \<longleftrightarrow> ws = []"
  by (induction sep ws rule: join_with.induct) auto

lemma squash_Nil_iff: "squash s = [] \<longleftrightarrow> split_ws s = []"
  using split_ws_words [of s] by (auto simp: squash_def word_def join_with_Nil_iff)

section \<open>Case, prefixes and decimal numerals\<close>

text \<open>\<^verbatim>\<open>str.casefold\<close> on ASCII; other code points are left unchanged.\<close>

definition lower_char :: "char \<Rightarrow> char" where
  "lower_char c = (let n = (of_char c :: nat) in if 65 \<le> n \<and> n \<le> 90 then char_of (n + 32) else c)"

definition casefold :: "string \<Rightarrow> string" where
  "casefold s = map lower_char s"

lemma length_casefold [simp]: "length (casefold s) = length s"
  by (simp add: casefold_def)

definition startswith :: "string \<Rightarrow> string \<Rightarrow> bool" where
  "startswith s p = (take (length p) s = p)"

fun show_nat :: "nat \<Rightarrow> string" where
  "show_nat n = (if n < 10 then [char_of (48 + n)] else show_nat (n div 10) @ [char_of (48 + n mod 10)])"

declare show_nat.simps [simp del]

definition show_int :: "int \<Rightarrow> string" where
  "show_int i = (if i < 0 then CHR ''-'' # show_nat (nat (- i)) else show_nat (nat i))"

section \<open>Canonical JSON\<close>

text \<open>
  String escapes of \<^verbatim>\<open>json.dumps\<close> with \<^verbatim>\<open>ensure_ascii=False\<close>: the quote, the backslash
  and the control characters.
\<close>

definition hex_digit :: "nat \<Rightarrow> char" where
  "hex_digit n = (if n < 10 then char_of (48 + n) else char_of (87 + n))"

definition escape_char :: "char \<Rightarrow> string" where
  "escape_char c = (let n = (of_char c :: nat) in
     if n = 34 then [CHR 0x5C, CHR 0x22]
     else if n = 92 then [CHR 0x5C, CHR 0x5C]
     else if n = 10 then [CHR 0x5C, CHR ''n'']
     else if n = 13 then [CHR 0x5C, CHR ''r'']
     else if n = 9 then [CHR 0x5C, CHR ''t'']
     else if n = 12 then [CHR 0x5C, CHR ''f'']
     else if n = 8 then [CHR 0x5C, CHR ''b'']
     else if n < 32 then [CHR 0x5C, CHR ''u'', CHR ''0'', CHR ''0'', hex_digit (n div 16), hex_digit (n mod 16)]
     else [c])"

definition quote :: "string \<Rightarrow> string" where
  "quote s = CHR 0x22 # concat (map escape_char s) @ [CHR 0x22]"

fun dumps :: "json \<Rightarrow> string" where
  "dumps JNull = ''null''"
| "dumps (JBool b) = (if b then ''true'' else ''false'')"
| "dumps (JInt i) = show_int i"
| "dumps (JFloat r) = r"
| "dumps (JStr s) = quote s"
| "dumps (JList xs) = ''['' @ join_with '','' (map dumps xs) @ '']''"
| "dumps (JObj kvs) = ''{'' @ join_with '',''
     (map (\<lambda>(k, v). quote k @ '':'' @ v) (sort_key fst (map (\<lambda>(k, v). (k, dumps v)) kvs))) @ ''}''"

text \<open>
  \<^verbatim>\<open>str(value)\<close> of a JSON value. A string is itself; inside containers \<^verbatim>\<open>repr\<close> quotes it with
  single quotes unless it holds one and no double quote.
\<close>

definition repr_char :: "char \<Rightarrow> char \<Rightarrow> string" where
  "repr_char q c = (let n = (of_char c :: nat) in
     if c = q \<or> n = 92 then [CHR 0x5C, c]
     else if n = 10 then [CHR 0x5C, CHR ''n'']
     else if n = 13 then [CHR 0x5C, CHR ''r'']
     else if n = 9 then [CHR 0x5C, CHR ''t'']
     else if n < 32 \<or> (127 \<le> n \<and> n \<le> 160) \<or> n = 173
       then [CHR 0x5C, CHR ''x'', hex_digit (n div 16), hex_digit (n mod 16)]
     else [c])"

definition repr_str :: "string \<Rightarrow> string" where
  "repr_str s = (let q = (if CHR 0x27 \<in> set s \<and> CHR 0x22 \<notin> set s then CHR 0x22 else CHR 0x27)
     in q # concat (map (repr_char q) s) @ [q])"

fun py_repr :: "json \<Rightarrow> string" where
  "py_repr JNull = ''None''"
| "py_repr (JBool b) = (if b then ''True'' else ''False'')"
| "py_repr (JInt i) = show_int i"
| "py_repr (JFloat r) = r"
| "py_repr (JStr s) = repr_str s"
| "py_repr (JList xs) = ''['' @ join_with '', '' (map py_repr xs) @ '']''"
| "py_repr (JObj kvs) = ''{'' @ join_with '', '' (map (\<lambda>(k, v). repr_str k @ '': '' @ py_repr v) kvs) @ ''}''"

definition py_str :: "json \<Rightarrow> string" where
  "py_str v = (case v of JStr s \<Rightarrow> s | _ \<Rightarrow> py_repr v)"

text \<open>\<^verbatim>\<open>str(d.get(k) or v)\<close>.\<close>

definition json_or :: "string \<Rightarrow> json_obj \<Rightarrow> string \<Rightarrow> string" where
  "json_or k d v = (case json_true k d of Some x \<Rightarrow> py_str x | None \<Rightarrow> v)"

lemma py_str_JStr [simp]: "py_str (JStr s) = s"
  by (simp add: py_str_def)

text \<open>
  \<^verbatim>\<open>json.dumps\<close> with the other settings the sources use: the quoting function, the two
  separators and whether keys are sorted.
\<close>

definition escape_ascii :: "char \<Rightarrow> string" where
  "escape_ascii c = (let n = (of_char c :: nat) in
     if 127 \<le> n then [CHR 0x5C, CHR ''u'', CHR ''0'', CHR ''0'', hex_digit (n div 16), hex_digit (n mod 16)]
     else escape_char c)"

definition quote_ascii :: "string \<Rightarrow> string" where
  "quote_ascii s = CHR 0x22 # concat (map escape_ascii s) @ [CHR 0x22]"

fun dumps_gen :: "(string \<Rightarrow> string) \<Rightarrow> string \<Rightarrow> string \<Rightarrow> bool \<Rightarrow> json \<Rightarrow> string" where
  "dumps_gen q isep ksep srt JNull = ''null''"
| "dumps_gen q isep ksep srt (JBool b) = (if b then ''true'' else ''false'')"
| "dumps_gen q isep ksep srt (JInt i) = show_int i"
| "dumps_gen q isep ksep srt (JFloat r) = r"
| "dumps_gen q isep ksep srt (JStr s) = q s"
| "dumps_gen q isep ksep srt (JList xs) = ''['' @ join_with isep (map (dumps_gen q isep ksep srt) xs) @ '']''"
| "dumps_gen q isep ksep srt (JObj kvs) = (let rendered = map (\<lambda>(k, v). (k, dumps_gen q isep ksep srt v)) kvs
     in ''{'' @ join_with isep (map (\<lambda>(k, v). q k @ ksep @ v) (if srt then sort_key fst rendered else rendered)) @ ''}'')"

text \<open>\<^verbatim>\<open>json.dumps(v, sort_keys=True)\<close>.\<close>

definition dumps_default_sorted :: "json \<Rightarrow> string" where
  "dumps_default_sorted = dumps_gen quote_ascii '', '' '': '' True"

text \<open>\<^verbatim>\<open>json.dumps(v, ensure_ascii=False, separators=(",", ":"))\<close>.\<close>

definition dumps_plain :: "json \<Rightarrow> string" where
  "dumps_plain = dumps_gen quote '','' '':'' False"

end
