(* ===== verification/Shared_Writes.thy ===== *)
theory Shared_Writes
  imports Python_Text
begin

text \<open>
  The shared-state write boundary of \<^verbatim>\<open>backend/atlas/persistence/shared_writes.py\<close>: an
  operation ledger with idempotent replay and one optimistic version fence per resource.
  The tables the mutation callback writes are the type parameter \<open>'p\<close>; a raise inside
  the callback is a value of \<open>'e\<close>. The digest function is an argument of the model.
\<close>

section \<open>Rows, envelopes and receipts\<close>

record envelope =
  e_operation_id :: uuid
  e_resource_type :: string
  e_resource_id :: string
  e_operation :: string
  e_expected_version :: "int option"
  e_payload :: json_obj
  e_actor :: string
  e_source_transcript_id :: "uuid option"
  e_source_turn_id :: "uuid option"
  e_source_run_id :: "uuid option"

text \<open>The field constraints of the pydantic model.\<close>

definition envelope_valid :: "envelope \<Rightarrow> bool" where
  "envelope_valid e =
    (1 \<le> length (e_resource_type e) \<and> length (e_resource_type e) \<le> 64
   \<and> 1 \<le> length (e_resource_id e) \<and> length (e_resource_id e) \<le> 255
   \<and> 1 \<le> length (e_operation e) \<and> length (e_operation e) \<le> 64
   \<and> (case e_expected_version e of None \<Rightarrow> True | Some v \<Rightarrow> 0 \<le> v)
   \<and> 1 \<le> length (e_actor e) \<and> length (e_actor e) \<le> 64)"

record mutation =
  m_mutated :: bool
  m_result :: json_obj

record op_row =
  o_id :: uuid
  o_resource_type :: string
  o_resource_id :: string
  o_operation :: string
  o_expected_version :: "int option"
  o_payload_hash :: string
  o_actor :: string
  o_source_transcript_id :: "uuid option"
  o_source_turn_id :: "uuid option"
  o_source_run_id :: "uuid option"
  o_status :: string
  o_outcome :: string
  o_observed_version :: int
  o_committed_version :: "int option"
  o_result_json :: json_obj

record ver_row =
  v_resource :: "string \<times> string"
  v_version :: int

record receipt =
  r_operation_id :: uuid
  r_status :: string
  r_outcome :: string
  r_resource_type :: string
  r_resource_id :: string
  r_observed_version :: int
  r_committed_version :: "int option"
  r_replayed :: bool
  r_result :: json_obj

record 'p shared_db =
  sd_ops :: "op_row list"
  sd_versions :: "ver_row list"
  sd_payload :: 'p

datatype 'e write_error =
    IdempotencyConflict
  | AssertionFailed
  | MutationRaised 'e

section \<open>The operations\<close>

definition payload_hash :: "(string \<Rightarrow> string) \<Rightarrow> json_obj \<Rightarrow> string" where
  "payload_hash sha payload = sha (dumps (JObj payload))"

definition receipt_of :: "op_row \<Rightarrow> bool \<Rightarrow> receipt" where
  "receipt_of row replayed =
    \<lparr>r_operation_id = o_id row, r_status = o_status row, r_outcome = o_outcome row,
     r_resource_type = o_resource_type row, r_resource_id = o_resource_id row,
     r_observed_version = o_observed_version row, r_committed_version = o_committed_version row,
     r_replayed = replayed, r_result = o_result_json row\<rparr>"

definition pending_row :: "envelope \<Rightarrow> string \<Rightarrow> op_row" where
  "pending_row e h =
    \<lparr>o_id = e_operation_id e, o_resource_type = e_resource_type e, o_resource_id = e_resource_id e,
     o_operation = e_operation e, o_expected_version = e_expected_version e, o_payload_hash = h,
     o_actor = e_actor e, o_source_transcript_id = e_source_transcript_id e,
     o_source_turn_id = e_source_turn_id e, o_source_run_id = e_source_run_id e,
     o_status = ''pending'', o_outcome = ''pending'', o_observed_version = 0,
     o_committed_version = None, o_result_json = []\<rparr>"

text \<open>\<^verbatim>\<open>INSERT ... ON CONFLICT (id) DO NOTHING RETURNING id\<close>: true when the row was new.\<close>

definition claim :: "envelope \<Rightarrow> string \<Rightarrow> 'p shared_db \<Rightarrow> bool \<times> 'p shared_db" where
  "claim e h db = (case tget o_id (e_operation_id e) (sd_ops db) of
      Some _ \<Rightarrow> (False, db)
    | None \<Rightarrow> (True, db\<lparr>sd_ops := tadd (pending_row e h) (sd_ops db)\<rparr>))"

definition same_operation :: "op_row \<Rightarrow> envelope \<Rightarrow> string \<Rightarrow> bool" where
  "same_operation row e h =
    ((o_resource_type row, o_resource_id row, o_operation row, o_expected_version row, o_payload_hash row,
      o_actor row, o_source_transcript_id row, o_source_turn_id row, o_source_run_id row)
   = (e_resource_type e, e_resource_id e, e_operation e, e_expected_version e, h,
      e_actor e, e_source_transcript_id e, e_source_turn_id e, e_source_run_id e))"

definition resource_of :: "envelope \<Rightarrow> string \<times> string" where
  "resource_of e = (e_resource_type e, e_resource_id e)"

definition ensure_version :: "envelope \<Rightarrow> 'p shared_db \<Rightarrow> 'p shared_db" where
  "ensure_version e db = (case tget v_resource (resource_of e) (sd_versions db) of
      Some _ \<Rightarrow> db
    | None \<Rightarrow> db\<lparr>sd_versions := tadd \<lparr>v_resource = resource_of e, v_version = 0\<rparr> (sd_versions db)\<rparr>)"

text \<open>The version of a resource; an absent row reads as version 0.\<close>

definition version_of :: "string \<times> string \<Rightarrow> 'p shared_db \<Rightarrow> int" where
  "version_of r db = (case tget v_resource r (sd_versions db) of None \<Rightarrow> 0 | Some v \<Rightarrow> v_version v)"

definition set_version :: "string \<times> string \<Rightarrow> int \<Rightarrow> 'p shared_db \<Rightarrow> 'p shared_db" where
  "set_version r n db = db\<lparr>sd_versions := tset v_resource r (\<lambda>v. v\<lparr>v_version := n\<rparr>) (sd_versions db)\<rparr>"

definition finish_row ::
  "uuid \<Rightarrow> (op_row \<Rightarrow> op_row) \<Rightarrow> 'p shared_db \<Rightarrow> (receipt \<times> 'p shared_db) option" where
  "finish_row i f db = (case tget o_id i (sd_ops db) of
      None \<Rightarrow> None
    | Some row \<Rightarrow> Some (receipt_of (f row) False, db\<lparr>sd_ops := tset o_id i f (sd_ops db)\<rparr>))"

definition asserted :: "'a option \<Rightarrow> 'e write_error + 'a" where
  "asserted x = (case x of None \<Rightarrow> Inl AssertionFailed | Some y \<Rightarrow> Inr y)"

definition repository_execute ::
  "(string \<Rightarrow> string) \<Rightarrow> envelope \<Rightarrow> ('p \<Rightarrow> int \<Rightarrow> 'e + ('p \<times> mutation)) \<Rightarrow> 'p shared_db
   \<Rightarrow> 'e write_error + (receipt \<times> 'p shared_db)" where
  "repository_execute sha e mut db =
    (let h = payload_hash sha (e_payload e); (created, db1) = claim e h db in
     if \<not> created then
       (case tget o_id (e_operation_id e) (sd_ops db1) of
          None \<Rightarrow> Inl AssertionFailed
        | Some row \<Rightarrow>
            if same_operation row e h then Inr (receipt_of row True, db1) else Inl IdempotencyConflict)
     else
       (let db2 = ensure_version e db1; current = version_of (resource_of e) db2 in
        if e_expected_version e \<noteq> None \<and> e_expected_version e \<noteq> Some current then
          asserted (finish_row (e_operation_id e)
            (\<lambda>row. row\<lparr>o_status := ''conflict'', o_outcome := ''version_conflict'',
                       o_observed_version := current, o_committed_version := None\<rparr>) db2)
        else
          (case mut (sd_payload db2) current of
             Inl err \<Rightarrow> Inl (MutationRaised err)
           | Inr (p, outcome) \<Rightarrow>
               (let nxt = (if m_mutated outcome then current + 1 else current);
                    db3 = db2\<lparr>sd_payload := p\<rparr>;
                    db4 = (if m_mutated outcome then set_version (resource_of e) nxt db3 else db3)
                in asserted (finish_row (e_operation_id e)
                     (\<lambda>row. row\<lparr>o_status := ''committed'',
                                o_outcome := (if m_mutated outcome then ''applied'' else ''no_change''),
                                o_observed_version := current, o_committed_version := Some nxt,
                                o_result_json := m_result outcome\<rparr>) db4)))))"

text \<open>
  \<^verbatim>\<open>SharedStateWriter.execute\<close> owns the transaction: a raise rolls every table back.
\<close>

definition writer_execute ::
  "(string \<Rightarrow> string) \<Rightarrow> envelope \<Rightarrow> ('p \<Rightarrow> int \<Rightarrow> 'e + ('p \<times> mutation)) \<Rightarrow> 'p shared_db
   \<Rightarrow> ('e write_error + receipt) \<times> 'p shared_db" where
  "writer_execute sha e mut db = (case repository_execute sha e mut db of
      Inl err \<Rightarrow> (Inl err, db)
    | Inr (rc, db') \<Rightarrow> (Inr rc, db'))"

section \<open>An abstract specification\<close>

text \<open>
  What the boundary promises, without rows: a map from operation identities to what was
  asked and the receipt it got, a version per resource, and the payload. The write either
  answers from the map, or compares versions and runs the callback once.
\<close>

datatype op_identity =
  Identity string string string "int option" string string "uuid option" "uuid option" "uuid option"

record 'p ledger =
  l_ops :: "uuid \<rightharpoonup> op_identity \<times> receipt"
  l_version :: "string \<times> string \<Rightarrow> int"
  l_payload :: 'p

definition row_identity :: "op_row \<Rightarrow> op_identity" where
  "row_identity row = Identity (o_resource_type row) (o_resource_id row) (o_operation row) (o_expected_version row)
     (o_payload_hash row) (o_actor row) (o_source_transcript_id row) (o_source_turn_id row) (o_source_run_id row)"

definition env_identity :: "envelope \<Rightarrow> string \<Rightarrow> op_identity" where
  "env_identity e h = Identity (e_resource_type e) (e_resource_id e) (e_operation e) (e_expected_version e) h
     (e_actor e) (e_source_transcript_id e) (e_source_turn_id e) (e_source_run_id e)"

definition abs_db :: "'p shared_db \<Rightarrow> 'p ledger" where
  "abs_db db = \<lparr>l_ops = (\<lambda>i. map_option (\<lambda>row. (row_identity row, receipt_of row False)) (tget o_id i (sd_ops db))),
     l_version = (\<lambda>r. version_of r db), l_payload = sd_payload db\<rparr>"

definition spec_receipt ::
  "envelope \<Rightarrow> string \<Rightarrow> string \<Rightarrow> int \<Rightarrow> int option \<Rightarrow> json_obj \<Rightarrow> receipt" where
  "spec_receipt e st oc seen committed res =
    \<lparr>r_operation_id = e_operation_id e, r_status = st, r_outcome = oc,
     r_resource_type = e_resource_type e, r_resource_id = e_resource_id e,
     r_observed_version = seen, r_committed_version = committed, r_replayed = False, r_result = res\<rparr>"

definition record_receipt :: "envelope \<Rightarrow> string \<Rightarrow> receipt \<Rightarrow> 'p ledger \<Rightarrow> receipt \<times> 'p ledger" where
  "record_receipt e h rc s =
    (rc, s\<lparr>l_ops := (l_ops s)(e_operation_id e \<mapsto> (env_identity e h, rc))\<rparr>)"

definition spec_execute ::
  "(string \<Rightarrow> string) \<Rightarrow> envelope \<Rightarrow> ('p \<Rightarrow> int \<Rightarrow> 'e + ('p \<times> mutation)) \<Rightarrow> 'p ledger
   \<Rightarrow> 'e write_error + (receipt \<times> 'p ledger)" where
  "spec_execute sha e mut s =
    (let h = payload_hash sha (e_payload e); v = l_version s (resource_of e) in
     case l_ops s (e_operation_id e) of
       Some (ident, rc) \<Rightarrow>
         if ident = env_identity e h then Inr (rc\<lparr>r_replayed := True\<rparr>, s) else Inl IdempotencyConflict
     | None \<Rightarrow>
         if e_expected_version e \<noteq> None \<and> e_expected_version e \<noteq> Some v
         then Inr (record_receipt e h (spec_receipt e ''conflict'' ''version_conflict'' v None []) s)
         else (case mut (l_payload s) v of
             Inl err \<Rightarrow> Inl (MutationRaised err)
           | Inr (p, out) \<Rightarrow>
               if m_mutated out
               then Inr (record_receipt e h (spec_receipt e ''committed'' ''applied'' v (Some (v + 1)) (m_result out))
                      (s\<lparr>l_payload := p, l_version := (l_version s)(resource_of e := v + 1)\<rparr>))
               else Inr (record_receipt e h (spec_receipt e ''committed'' ''no_change'' v (Some v) (m_result out))
                      (s\<lparr>l_payload := p\<rparr>))))"

section \<open>Refinement\<close>

lemma same_operation_iff: "same_operation row e h \<longleftrightarrow> row_identity row = env_identity e h"
  by (simp add: same_operation_def row_identity_def env_identity_def)

lemma version_of_ensure [simp]: "version_of r (ensure_version e db) = version_of r db"
  by (auto simp: ensure_version_def version_of_def table_simps split: option.splits)

lemma ensure_version_present:
  "tget v_resource (resource_of e) (sd_versions (ensure_version e db)) \<noteq> None"
  by (auto simp: ensure_version_def table_simps split: option.splits)

lemma version_of_set_version:
  assumes "tget v_resource r (sd_versions db) \<noteq> None"
  shows "version_of q (set_version r n db) = (if q = r then n else version_of q db)"
  using assms by (auto simp: set_version_def version_of_def table_simps split: option.splits)

lemma frame_simps [simp]:
  "sd_ops (ensure_version e db) = sd_ops db"
  "sd_payload (ensure_version e db) = sd_payload db"
  "sd_ops (set_version r n db) = sd_ops db"
  "sd_payload (set_version r n db) = sd_payload db"
  by (simp_all add: ensure_version_def set_version_def split: option.splits)

lemma version_of_update [simp]:
  "version_of r (db\<lparr>sd_ops := x\<rparr>) = version_of r db"
  "version_of r (db\<lparr>sd_payload := p\<rparr>) = version_of r db"
  by (simp_all add: version_of_def)

lemma abs_db_sel [simp]:
  "l_ops (abs_db db) i = map_option (\<lambda>row. (row_identity row, receipt_of row False)) (tget o_id i (sd_ops db))"
  "l_version (abs_db db) r = version_of r db"
  "l_payload (abs_db db) = sd_payload db"
  by (simp_all add: abs_db_def)

lemma claim_fresh:
  "tget o_id (e_operation_id e) (sd_ops db) = None \<Longrightarrow>
   claim e h db = (True, db\<lparr>sd_ops := tadd (pending_row e h) (sd_ops db)\<rparr>)"
  by (simp add: claim_def)

lemma finish_pending:
  assumes f: "\<And>r. o_id (f r) = o_id r"
    and ops: "sd_ops db = tadd (pending_row e h) ops" and fresh: "tget o_id (e_operation_id e) ops = None"
    and i: "row_identity (f (pending_row e h)) = env_identity e h"
  shows "\<exists>db'. finish_row (e_operation_id e) f db = Some (receipt_of (f (pending_row e h)) False, db')
    \<and> abs_db db' = snd (record_receipt e h (receipt_of (f (pending_row e h)) False)
        (abs_db (db\<lparr>sd_ops := ops\<rparr>)))"
proof -
  have id: "o_id (pending_row e h) = e_operation_id e" by (simp add: pending_row_def)
  have g: "tget o_id (e_operation_id e) (sd_ops db) = Some (pending_row e h)"
    using fresh id by (simp add: ops table_simps)
  show ?thesis
    by (simp add: finish_row_def g abs_db_def record_receipt_def fun_eq_iff table_simps f i)
       (simp add: ops fresh id table_simps split: option.splits)
qed

lemma execute_refines:
  "map_sum (\<lambda>x. x) (map_prod (\<lambda>x. x) abs_db) (repository_execute sha e mut db) = spec_execute sha e mut (abs_db db)"
proof (cases "tget o_id (e_operation_id e) (sd_ops db)")
  case (Some row)
  then show ?thesis
    by (simp add: repository_execute_def spec_execute_def claim_def abs_db_def same_operation_iff receipt_of_def)
next
  case None
  let ?h = "payload_hash sha (e_payload e)" and ?v = "version_of (resource_of e) db"
  let ?db2 = "ensure_version e (db\<lparr>sd_ops := tadd (pending_row e ?h) (sd_ops db)\<rparr>)"
  have abs2: "abs_db (?db2\<lparr>sd_ops := sd_ops db\<rparr>) = abs_db db"
    by (simp add: abs_db_def)
  have here: "tget v_resource (resource_of e) (sd_versions ?db2) \<noteq> None"
    by (rule ensure_version_present)
  show ?thesis
  proof (cases "e_expected_version e \<noteq> None \<and> e_expected_version e \<noteq> Some ?v")
    case True
    let ?f = "\<lambda>row. row\<lparr>o_status := ''conflict'', o_outcome := ''version_conflict'',
                       o_observed_version := ?v, o_committed_version := None\<rparr>"
    have "row_identity (?f (pending_row e ?h)) = env_identity e ?h"
      by (simp add: row_identity_def env_identity_def pending_row_def)
    with finish_pending [of ?f ?db2 e ?h "sd_ops db"] None obtain db' where
      "finish_row (e_operation_id e) ?f ?db2 = Some (receipt_of (?f (pending_row e ?h)) False, db')"
      "abs_db db' = snd (record_receipt e ?h (receipt_of (?f (pending_row e ?h)) False) (abs_db db))"
      by (auto simp: abs2)
    moreover have "receipt_of (?f (pending_row e ?h)) False =
        spec_receipt e ''conflict'' ''version_conflict'' ?v None []"
      by (simp add: receipt_of_def pending_row_def spec_receipt_def)
    ultimately show ?thesis using True None
      by (simp add: repository_execute_def claim_fresh spec_execute_def record_receipt_def asserted_def Let_def)
  next
    case False
    show ?thesis
    proof (cases "mut (sd_payload db) ?v")
      case (Inl err)
      with False None show ?thesis
        by (auto simp: repository_execute_def claim_fresh spec_execute_def Let_def)
    next
      case (Inr po)
      obtain p out where po: "po = (p, out)" by (cases po)
      let ?n = "if m_mutated out then ?v + 1 else ?v"
      let ?f = "\<lambda>row. row\<lparr>o_status := ''committed'',
                 o_outcome := (if m_mutated out then ''applied'' else ''no_change''),
                 o_observed_version := ?v, o_committed_version := Some ?n, o_result_json := m_result out\<rparr>"
      let ?db4 = "if m_mutated out then set_version (resource_of e) ?n (?db2\<lparr>sd_payload := p\<rparr>)
                  else ?db2\<lparr>sd_payload := p\<rparr>"
      have abs4: "abs_db (?db4\<lparr>sd_ops := sd_ops db\<rparr>) = (if m_mutated out
          then (abs_db db)\<lparr>l_payload := p, l_version := (l_version (abs_db db))(resource_of e := ?v + 1)\<rparr>
          else (abs_db db)\<lparr>l_payload := p\<rparr>)"
        using here by (simp add: abs_db_def fun_eq_iff version_of_set_version)
      have "\<exists>db'. finish_row (e_operation_id e) ?f ?db4 = Some (receipt_of (?f (pending_row e ?h)) False, db')
          \<and> abs_db db' = snd (record_receipt e ?h (receipt_of (?f (pending_row e ?h)) False)
              (abs_db (?db4\<lparr>sd_ops := sd_ops db\<rparr>)))"
        by (rule finish_pending)
           (use None in \<open>simp_all add: row_identity_def env_identity_def pending_row_def\<close>)
      then obtain db' where
        "finish_row (e_operation_id e) ?f ?db4 = Some (receipt_of (?f (pending_row e ?h)) False, db')"
        "abs_db db' = snd (record_receipt e ?h (receipt_of (?f (pending_row e ?h)) False)
           (abs_db (?db4\<lparr>sd_ops := sd_ops db\<rparr>)))"
        by blast
      moreover have "receipt_of (?f (pending_row e ?h)) False =
          spec_receipt e ''committed'' (if m_mutated out then ''applied'' else ''no_change'') ?v (Some ?n) (m_result out)"
        by (simp add: receipt_of_def pending_row_def spec_receipt_def)
      ultimately show ?thesis using False None Inr po abs4
        by (cases "m_mutated out")
           (auto simp: repository_execute_def claim_fresh spec_execute_def record_receipt_def asserted_def Let_def)
    qed
  qed
qed

section \<open>Consequences of the refinement\<close>

lemma execute_abs:
  "repository_execute sha e mut db = Inr (rc, db') \<Longrightarrow>
   spec_execute sha e mut (abs_db db) = Inr (rc, abs_db db')"
  using execute_refines [of sha e mut db] by simp

lemma writer_abs:
  "writer_execute sha e mut db = (Inr rc, db') \<Longrightarrow>
   spec_execute sha e mut (abs_db db) = Inr (rc, abs_db db')"
  by (auto simp: writer_execute_def intro: execute_abs split: sum.splits)

lemma writer_recorded:
  "tget o_id (e_operation_id e) (sd_ops db) \<noteq> None \<Longrightarrow> snd (writer_execute sha e mut db) = db"
  by (auto simp: writer_execute_def repository_execute_def claim_def split: sum.splits if_splits)

lemma writer_cases:
  obtains (rolled_back) err where "writer_execute sha e mut db = (Inl err, db)"
  | (answered) rc db' where "writer_execute sha e mut db = (Inr rc, db')"
      "spec_execute sha e mut (abs_db db) = Inr (rc, abs_db db')"
  by (cases "repository_execute sha e mut db") (auto simp: writer_execute_def dest: execute_abs)

lemma recorded_abs: "tget o_id i (sd_ops db) \<noteq> None \<longleftrightarrow> l_ops (abs_db db) i \<noteq> None"
  by simp

text \<open>Every branch of the specification that answers has recorded the operation.\<close>

lemma spec_records:
  "spec_execute sha e mut s = Inr (rc, s') \<Longrightarrow>
   l_ops s' (e_operation_id e) = Some (env_identity e (payload_hash sha (e_payload e)), rc\<lparr>r_replayed := False\<rparr>)
   \<or> (\<exists>ident old. l_ops s (e_operation_id e) = Some (ident, old) \<and> s' = s \<and> rc = old\<lparr>r_replayed := True\<rparr>
        \<and> ident = env_identity e (payload_hash sha (e_payload e)))"
  by (auto simp: spec_execute_def record_receipt_def spec_receipt_def Let_def
      split: option.splits sum.splits prod.splits if_splits)

lemma spec_keeps:
  "spec_execute sha e mut s = Inr (rc, s') \<Longrightarrow> l_ops s i \<noteq> None \<Longrightarrow> l_ops s' i = l_ops s i"
  by (auto simp: spec_execute_def record_receipt_def Let_def
      split: option.splits sum.splits prod.splits if_splits)

lemma spec_version:
  "spec_execute sha e mut s = Inr (rc, s') \<Longrightarrow>
   l_version s' r = (if r = resource_of e \<and> r_outcome rc = ''applied'' \<and> \<not> r_replayed rc
                     then l_version s r + 1 else l_version s r)"
  by (auto simp: spec_execute_def record_receipt_def spec_receipt_def Let_def
      split: option.splits sum.splits prod.splits if_splits)

lemma writer_version:
  "writer_execute sha e mut db = (Inr rc, db') \<Longrightarrow>
   version_of r db' = (if r = resource_of e \<and> r_outcome rc = ''applied'' \<and> \<not> r_replayed rc
                       then version_of r db + 1 else version_of r db)"
  by (drule writer_abs, drule spec_version [where r = r]) simp

text \<open>What a write does to the payload: nothing, or exactly what the callback returned for the version it expected.\<close>

lemma spec_payload:
  assumes "spec_execute sha e mut s = Inr (rc, s')"
  obtains (replayed) "r_replayed rc" "s' = s"
  | (conflict) "r_outcome rc = ''version_conflict''" "\<not> r_replayed rc" "l_payload s' = l_payload s"
  | (ran) p out where "mut (l_payload s) (l_version s (resource_of e)) = Inr (p, out)" "l_payload s' = p" "\<not> r_replayed rc"
      "r_outcome rc = (if m_mutated out then ''applied'' else ''no_change'')" "r_result rc = m_result out"
      "e_expected_version e = None \<or> e_expected_version e = Some (l_version s (resource_of e))"
proof (cases "l_ops s (e_operation_id e)")
  case (Some x)
  then have "r_replayed rc \<and> s' = s" using assms by (auto simp: spec_execute_def Let_def split: prod.splits if_splits)
  then show ?thesis using replayed by simp
next
  case None
  let ?v = "l_version s (resource_of e)"
  show ?thesis
  proof (cases "e_expected_version e \<noteq> None \<and> e_expected_version e \<noteq> Some ?v")
    case True
    then have "r_outcome rc = ''version_conflict'' \<and> \<not> r_replayed rc \<and> l_payload s' = l_payload s"
      using assms None by (auto simp: spec_execute_def record_receipt_def spec_receipt_def Let_def)
    then show ?thesis using conflict by simp
  next
    case False
    then obtain p out where m: "mut (l_payload s) ?v = Inr (p, out)"
      using assms None by (cases "mut (l_payload s) ?v") (auto simp: spec_execute_def Let_def)
    then have "l_payload s' = p \<and> \<not> r_replayed rc \<and> r_result rc = m_result out
        \<and> r_outcome rc = (if m_mutated out then ''applied'' else ''no_change'')"
      using assms None False by (cases "m_mutated out") (auto simp: spec_execute_def record_receipt_def spec_receipt_def Let_def)
    then show ?thesis using ran [OF m] False by blast
  qed
qed

lemma writer_payload:
  assumes "writer_execute sha e mut db = (res, db')"
  obtains (failed) err where "res = Inl err" "db' = db"
  | (replayed) rc where "res = Inr rc" "r_replayed rc" "sd_payload db' = sd_payload db" "version_of r db' = version_of r db"
  | (conflict) rc where "res = Inr rc" "\<not> r_replayed rc" "r_outcome rc = ''version_conflict''" "sd_payload db' = sd_payload db"
      "version_of r db' = version_of r db"
  | (ran) rc p out where "res = Inr rc" "\<not> r_replayed rc" "mut (sd_payload db) (version_of (resource_of e) db) = Inr (p, out)"
      "sd_payload db' = p" "r_outcome rc = (if m_mutated out then ''applied'' else ''no_change'')" "r_result rc = m_result out"
      "e_expected_version e = None \<or> e_expected_version e = Some (version_of (resource_of e) db)"
      "version_of r db' = (if r = resource_of e \<and> m_mutated out then version_of r db + 1 else version_of r db)"
proof (cases sha e mut db rule: writer_cases)
  case (rolled_back err)
  then show ?thesis using failed assms by simp
next
  case (answered rc db1)
  then have eq: "res = Inr rc" "db1 = db'" using assms by simp_all
  note v = writer_version [OF answered(1), of r]
  from answered(2) show ?thesis
  proof (cases rule: spec_payload)
    case replayed
    then show ?thesis using eq v by (intro that(2)) (simp_all add: abs_db_def)
  next
    case conflict
    then show ?thesis using eq v by (intro that(3)) simp_all
  next
    case (ran p out)
    then show ?thesis using eq v by (intro that(4) [of rc p out]) simp_all
  qed
qed

section \<open>The contract as an interface\<close>

text \<open>
  What the clients of the boundary rely on: an attempt whose identity is on record changes
  nothing, records are never lost, an attempt that leaves no record changed nothing, and
  the version of a resource moves by at most one per attempt.
\<close>

locale fenced_ledger =
  fixes run :: "'o \<Rightarrow> 's \<Rightarrow> 's"
    and op_key :: "'o \<Rightarrow> 'k"
    and recorded :: "'s \<Rightarrow> 'k \<Rightarrow> bool"
    and ver :: "'s \<Rightarrow> int"
  assumes replay: "recorded s (op_key x) \<Longrightarrow> run x s = s"
    and keeps: "recorded s k \<Longrightarrow> recorded (run x s) k"
    and rollback: "\<not> recorded (run x s) (op_key x) \<Longrightarrow> run x s = s"
    and fence: "ver (run x s) = ver s \<or> ver (run x s) = ver s + 1"
begin

definition run_all :: "'o list \<Rightarrow> 's \<Rightarrow> 's" where
  "run_all xs s = fold run xs s"

lemma run_all_simps [simp]:
  "run_all [] s = s" "run_all (x # xs) s = run_all xs (run x s)"
  "run_all (xs @ ys) s = run_all ys (run_all xs s)"
  by (simp_all add: run_all_def)

lemma run_all_keeps: "recorded s k \<Longrightarrow> recorded (run_all xs s) k"
  by (induction xs arbitrary: s) (auto intro: keeps)

lemma run_all_version: "ver s \<le> ver (run_all xs s) \<and> ver (run_all xs s) \<le> ver s + int (length xs)"
proof (induction xs arbitrary: s)
  case Nil
  then show ?case by simp
next
  case (Cons x xs)
  from fence [of x s] Cons [of "run x s"] show ?case by auto
qed

text \<open>A retry of an operation that was recorded earlier in the history has no effect.\<close>

lemma retry_has_no_effect:
  "recorded (run x s) (op_key x) \<Longrightarrow> run_all (x # ys @ x # zs) s = run_all (x # ys @ zs) s"
  using run_all_keeps [of "run x s" "op_key x" ys] by (simp add: replay)

end

definition write_step ::
  "(string \<Rightarrow> string) \<Rightarrow> envelope \<times> ('p \<Rightarrow> int \<Rightarrow> 'e + ('p \<times> mutation)) \<Rightarrow> 'p shared_db \<Rightarrow> 'p shared_db" where
  "write_step sha w db = snd (writer_execute sha (fst w) (snd w) db)"

definition write_key :: "envelope \<times> ('p \<Rightarrow> int \<Rightarrow> 'e + ('p \<times> mutation)) \<Rightarrow> uuid" where
  "write_key w = e_operation_id (fst w)"

definition on_record :: "'p shared_db \<Rightarrow> uuid \<Rightarrow> bool" where
  "on_record db i = (tget o_id i (sd_ops db) \<noteq> None)"

lemma on_record_abs: "on_record db i \<longleftrightarrow> l_ops (abs_db db) i \<noteq> None"
  by (simp add: on_record_def)

interpretation sw: fenced_ledger "write_step sha" write_key on_record "version_of r"
  for sha :: "string \<Rightarrow> string" and r :: "string \<times> string"
proof
  fix db :: "'p shared_db" and w :: "envelope \<times> ('p \<Rightarrow> int \<Rightarrow> 'e + ('p \<times> mutation))" and k
  show "write_step sha w db = db" if "on_record db (write_key w)"
    using that by (simp add: write_step_def write_key_def on_record_def writer_recorded)
  show "on_record (write_step sha w db) k" if "on_record db k"
    using that
    by (cases sha "fst w" "snd w" db rule: writer_cases)
       (auto simp: write_step_def on_record_abs dest: spec_keeps simp del: abs_db_sel)
  show "write_step sha w db = db" if "\<not> on_record (write_step sha w db) (write_key w)"
    using that
    by (cases sha "fst w" "snd w" db rule: writer_cases)
       (auto simp: write_step_def write_key_def on_record_abs dest!: spec_records simp del: abs_db_sel)
  show "version_of r (write_step sha w db) = version_of r db
      \<or> version_of r (write_step sha w db) = version_of r db + 1"
    by (cases sha "fst w" "snd w" db rule: writer_cases)
       (auto simp: write_step_def writer_version [where r = r])
qed

section \<open>Properties\<close>

text \<open>A concrete resource, two writers and a counter as payload, for the witnesses.\<close>

definition sample_envelope :: "uuid \<Rightarrow> int \<Rightarrow> envelope" where
  "sample_envelope i v = \<lparr>e_operation_id = i, e_resource_type = ''memory_state'', e_resource_id = ''owner'',
     e_operation = ''upsert'', e_expected_version = Some v, e_payload = [], e_actor = ''worker'',
     e_source_transcript_id = None, e_source_turn_id = None, e_source_run_id = None\<rparr>"

definition sample_bump :: "int \<Rightarrow> int \<Rightarrow> string + (int \<times> mutation)" where
  "sample_bump p v = Inr (p + 1, \<lparr>m_mutated = True, m_result = []\<rparr>)"

definition sample_db :: "int shared_db" where
  "sample_db = \<lparr>sd_ops = [], sd_versions = [], sd_payload = 7\<rparr>"

lemmas sample_defs = sample_envelope_def sample_bump_def sample_db_def resource_of_def
  writer_execute_def repository_execute_def claim_def ensure_version_def version_of_def set_version_def
  finish_row_def asserted_def pending_row_def receipt_of_def tadd_def

text \<open>C1: The repository refines the abstract ledger: on every database state, envelope and
  callback, executing the write and then forgetting the rows gives exactly the result of
  the abstract write (same receipt or error, same recorded identities, versions and payload).\<close>

theorem shared_write_refines:
  "map_sum (\<lambda>x. x) (map_prod (\<lambda>x. x) abs_db) (repository_execute sha e mut db)
   = spec_execute sha e mut (abs_db db)"
  by (rule execute_refines)

text \<open>C2: Once a write has answered, retrying the same envelope with any callback returns the
  stored receipt marked as replayed and changes nothing.\<close>

theorem shared_write_replay:
  assumes "writer_execute sha e mut db = (Inr rc, db')"
  shows "writer_execute sha e mut' db' = (Inr (rc\<lparr>r_replayed := True\<rparr>), db')"
proof -
  let ?h = "payload_hash sha (e_payload e)"
  from writer_abs [OF assms] have "\<exists>old. l_ops (abs_db db') (e_operation_id e) = Some (env_identity e ?h, old)
      \<and> old\<lparr>r_replayed := True\<rparr> = rc\<lparr>r_replayed := True\<rparr>"
    by (auto dest!: spec_records simp del: abs_db_sel)
  then obtain row where row: "tget o_id (e_operation_id e) (sd_ops db') = Some row"
      "same_operation row e ?h" "(receipt_of row False)\<lparr>r_replayed := True\<rparr> = rc\<lparr>r_replayed := True\<rparr>"
    by (auto simp: same_operation_iff)
  moreover have "receipt_of row True = (receipt_of row False)\<lparr>r_replayed := True\<rparr>"
    by (simp add: receipt_of_def)
  ultimately show ?thesis
    by (simp add: writer_execute_def repository_execute_def claim_def)
qed

theorem shared_write_replay_witness:
  "\<exists>rc db'. writer_execute (\<lambda>x. x) (sample_envelope ''a'' 0) sample_bump sample_db = (Inr rc, db')
     \<and> r_outcome rc = ''applied''
     \<and> writer_execute (\<lambda>x. x) (sample_envelope ''a'' 0) (\<lambda>p v. Inl ''boom'') db' = (Inr (rc\<lparr>r_replayed := True\<rparr>), db')"
proof -
  obtain rc db' where h: "writer_execute (\<lambda>x. x) (sample_envelope ''a'' 0) sample_bump sample_db = (Inr rc, db')"
      "r_outcome rc = ''applied''"
    by (simp add: sample_defs)
  then show ?thesis using shared_write_replay [OF h(1)] by blast
qed

text \<open>Of two writers that evaluated the same version of a resource, only one is applied:
  after the first was applied, the second (another operation identity) is answered with a
  version conflict that shows the new version, its callback does not run and the payload and
  the version stay as the first writer left them.\<close>

theorem shared_write_one_winner:
  assumes first: "writer_execute sha e1 mut1 db = (Inr rc1, db1)" "r_outcome rc1 = ''applied''" "\<not> r_replayed rc1"
    and second: "resource_of e2 = resource_of e1" "e_expected_version e2 = Some (version_of (resource_of e1) db)"
      "\<not> on_record db1 (e_operation_id e2)"
  shows "\<exists>rc2 db2. writer_execute sha e2 mut2 db1 = (Inr rc2, db2) \<and> r_outcome rc2 = ''version_conflict''
    \<and> r_observed_version rc2 = version_of (resource_of e1) db + 1 \<and> r_committed_version rc2 = None
    \<and> sd_payload db2 = sd_payload db1 \<and> (\<forall>r. version_of r db2 = version_of r db1)"
proof -
  have v: "version_of (resource_of e2) db1 = version_of (resource_of e1) db + 1"
    using writer_version [OF first(1), of "resource_of e2"] first second by simp
  have spec: "spec_execute sha e2 mut2 (abs_db db1) = Inr (record_receipt e2 (payload_hash sha (e_payload e2))
      (spec_receipt e2 ''conflict'' ''version_conflict'' (version_of (resource_of e2) db1) None []) (abs_db db1))"
    using second v by (simp add: spec_execute_def on_record_def Let_def)
  show ?thesis
  proof (cases sha e2 mut2 db1 rule: writer_cases)
    case (rolled_back err)
    with spec execute_refines [of sha e2 mut2 db1] show ?thesis
      by (auto simp: writer_execute_def split: sum.splits)
  next
    case (answered rc2 db2)
    with spec have
      "rc2 = spec_receipt e2 ''conflict'' ''version_conflict'' (version_of (resource_of e2) db1) None []"
      "l_payload (abs_db db2) = l_payload (abs_db db1)" "l_version (abs_db db2) = l_version (abs_db db1)"
      by (simp_all add: record_receipt_def del: abs_db_sel)
    with answered v show ?thesis
      by (auto simp: spec_receipt_def fun_eq_iff dest: fun_cong)
  qed
qed

theorem shared_write_one_winner_witness:
  "\<exists>rc1 db1 rc2 db2. writer_execute (\<lambda>x. x) (sample_envelope ''a'' 0) sample_bump sample_db = (Inr rc1, db1)
     \<and> writer_execute (\<lambda>x. x) (sample_envelope ''b'' 0) sample_bump db1 = (Inr rc2, db2)
     \<and> r_outcome rc2 = ''version_conflict'' \<and> r_observed_version rc2 = 1 \<and> sd_payload db2 = 8"
proof -
  obtain rc1 db1 where h: "writer_execute (\<lambda>x. x) (sample_envelope ''a'' 0) sample_bump sample_db = (Inr rc1, db1)"
      "r_outcome rc1 = ''applied''" "\<not> r_replayed rc1" "\<not> on_record db1 ''b''" "sd_payload db1 = 8"
    by (simp add: sample_defs on_record_def)
  have "version_of (resource_of (sample_envelope ''a'' 0)) sample_db = 0"
    by (simp add: sample_defs)
  then show ?thesis
    using shared_write_one_winner [OF h(1,2,3), of "sample_envelope ''b'' 0" sample_bump] h
    by (auto simp: sample_envelope_def resource_of_def)
qed

text \<open>C3: In any sequence of writes the version of a resource never decreases, it grows by at
  most one per write, and repeating anywhere later an operation that was recorded earlier
  does not change the final state.\<close>

theorem shared_write_history:
  assumes "on_record (write_step sha w db) (write_key w)"
  shows "version_of r db \<le> version_of r (fold (write_step sha) ws db)
       \<and> version_of r (fold (write_step sha) ws db) \<le> version_of r db + int (length ws)
       \<and> fold (write_step sha) (w # ys @ w # zs) db = fold (write_step sha) (w # ys @ zs) db"
  using sw.run_all_version [of r db sha ws] sw.retry_has_no_effect [OF assms, of ys zs]
  by (simp add: sw.run_all_def)

theorem shared_write_history_witness:
  "on_record (write_step (\<lambda>x. x) (sample_envelope ''a'' 0, sample_bump) sample_db) ''a''
   \<and> fold (write_step (\<lambda>x. x)) [(sample_envelope ''a'' 0, sample_bump), (sample_envelope ''b'' 1, sample_bump),
        (sample_envelope ''a'' 0, sample_bump)] sample_db
     = fold (write_step (\<lambda>x. x)) [(sample_envelope ''a'' 0, sample_bump), (sample_envelope ''b'' 1, sample_bump)] sample_db"
proof -
  have h: "on_record (write_step (\<lambda>x. x) (sample_envelope ''a'' 0, sample_bump) sample_db)
      (write_key (sample_envelope ''a'' 0, sample_bump))"
    by (simp add: sample_defs on_record_def write_step_def write_key_def)
  then show ?thesis
    using shared_write_history [OF h, where ys = "[(sample_envelope ''b'' 1, sample_bump)]" and zs = "[]"
        and ws = "[]" and r = "(''memory_state'', ''owner'')"]
    by (simp add: write_key_def sample_envelope_def)
qed

end
