(* ===== verification/Action_Authority.thy ===== *)
theory Action_Authority
  imports Python_Text
begin

text \<open>
  The action ledger of \<^verbatim>\<open>backend/atlas/actions/authority.py\<close>: durable runs, prepared and
  executing actions, owner attention, and the proposal an approval is bound to. Every
  operation of \<^verbatim>\<open>AuthorityStore\<close> that writes is a state transformer on \<open>auth_db\<close>; a raise
  is a value of \<open>auth_error\<close> and leaves the caller's transaction to roll back. Row locks
  serialize the operations, so a call is one atomic step. Fresh row identities and the
  clock reading are arguments; the digest and the ISO 8601 text of a timestamp are the
  \<open>lib\<close> argument.
\<close>

section \<open>Data\<close>

datatype run_kind = FOREGROUND | SCHEDULED | BACKGROUND

datatype run_status =
    QUEUED | INTERRUPTED | RUNNING | SUCCEEDED | FAILED | CANCELLED | WAITING_FOR_OWNER | UNCERTAIN

datatype action_status =
    PREPARED | EXECUTING | ASUCCEEDED | AFAILED | ACANCELLED | AUNCERTAIN

fun run_status_value :: "run_status \<Rightarrow> string" where
  "run_status_value QUEUED = ''queued''"
| "run_status_value INTERRUPTED = ''interrupted''"
| "run_status_value RUNNING = ''running''"
| "run_status_value SUCCEEDED = ''succeeded''"
| "run_status_value FAILED = ''failed''"
| "run_status_value CANCELLED = ''cancelled''"
| "run_status_value WAITING_FOR_OWNER = ''waiting_for_owner''"
| "run_status_value UNCERTAIN = ''uncertain''"

record run_row =
  rn_id :: uuid
  rn_kind :: run_kind
  rn_status :: run_status
  rn_transcript_id :: "uuid option"
  rn_intent :: "string option"
  rn_finished_at :: "time option"
  rn_inference_active :: bool
  rn_inference_status :: string
  rn_heartbeat_at :: "time option"
  rn_schedule_id :: "uuid option"
  rn_scheduled_for :: "time option"
  rn_trigger_snapshot :: json_obj

record action_row =
  ac_id :: uuid
  ac_run_id :: uuid
  ac_operation :: string
  ac_target_hash :: string
  ac_status :: action_status
  ac_idempotency_key :: "string option"
  ac_evidence :: json_obj
  ac_execution_started_at :: "time option"
  ac_updated_at :: time

record attention_row =
  at_id :: uuid
  at_run_id :: "uuid option"
  at_action_id :: "uuid option"
  at_state :: string
  at_title :: string
  at_detail :: json_obj
  at_resolved :: bool
  at_resolved_at :: "time option"

record chat_row =
  ch_id :: uuid
  ch_active_task_state :: json

record sched_row =
  sc_id :: uuid
  sc_title :: string
  sc_prompt :: string
  sc_schedule_kind :: string
  sc_schedule_value :: string
  sc_timezone :: string
  sc_enabled :: bool
  sc_next_run_at :: time
  sc_last_run_at :: "time option"
  sc_last_status :: "string option"
  sc_last_result :: "string option"
  sc_created_at :: time

record auth_db =
  db_runs :: "run_row list"
  db_actions :: "action_row list"
  db_attention :: "attention_row list"
  db_transcripts :: "chat_row list"
  db_schedules :: "sched_row list"

record lib =
  sha256 :: "string \<Rightarrow> string"
  isoformat :: "time \<Rightarrow> string"
  fromisoformat :: "string \<Rightarrow> time option"

datatype auth_error =
    ProposalIntegrityError string
  | ForegroundBusy string
  | LookupError string
  | ValueError string
  | IntegrityError
  | MultipleResultsFound
  | AttributeError

definition OWNER_PRINCIPAL :: string where
  "OWNER_PRINCIPAL = ''owner:jaco''"

text \<open>One hour in microseconds.\<close>

definition DEFAULT_PROPOSAL_TTL :: time where
  "DEFAULT_PROPOSAL_TTL = 3600000000"

section \<open>Queries and row updates\<close>

definition scalar_one_or_none :: "'a list \<Rightarrow> auth_error + 'a option" where
  "scalar_one_or_none xs = (case xs of [] \<Rightarrow> Inr None | [x] \<Rightarrow> Inr (Some x) | _ \<Rightarrow> Inl MultipleResultsFound)"

definition get_run :: "uuid \<Rightarrow> 'x auth_db_scheme \<Rightarrow> run_row option" where
  "get_run i db = tget rn_id i (db_runs db)"

definition get_action :: "uuid \<Rightarrow> 'x auth_db_scheme \<Rightarrow> action_row option" where
  "get_action i db = tget ac_id i (db_actions db)"

definition upd_run :: "uuid \<Rightarrow> (run_row \<Rightarrow> run_row) \<Rightarrow> 'x auth_db_scheme \<Rightarrow> 'x auth_db_scheme" where
  "upd_run i f db = db\<lparr>db_runs := tset rn_id i f (db_runs db)\<rparr>"

definition upd_action :: "uuid \<Rightarrow> (action_row \<Rightarrow> action_row) \<Rightarrow> 'x auth_db_scheme \<Rightarrow> 'x auth_db_scheme" where
  "upd_action i f db = db\<lparr>db_actions := tset ac_id i f (db_actions db)\<rparr>"

definition upd_attention :: "uuid \<Rightarrow> (attention_row \<Rightarrow> attention_row) \<Rightarrow> 'x auth_db_scheme \<Rightarrow> 'x auth_db_scheme" where
  "upd_attention i f db = db\<lparr>db_attention := tset at_id i f (db_attention db)\<rparr>"

text \<open>Inserts flush at once: the primary key and the foreign keys are checked.\<close>

definition insert_action :: "action_row \<Rightarrow> 'x auth_db_scheme \<Rightarrow> auth_error + 'x auth_db_scheme" where
  "insert_action a db =
    (if get_action (ac_id a) db \<noteq> None \<or> get_run (ac_run_id a) db = None then Inl IntegrityError
     else Inr (db\<lparr>db_actions := tadd a (db_actions db)\<rparr>))"

definition insert_attention :: "attention_row \<Rightarrow> 'x auth_db_scheme \<Rightarrow> auth_error + 'x auth_db_scheme" where
  "insert_attention a db =
    (if tget at_id (at_id a) (db_attention db) \<noteq> None
        \<or> (case at_run_id a of None \<Rightarrow> False | Some r \<Rightarrow> get_run r db = None)
        \<or> (case at_action_id a of None \<Rightarrow> False | Some x \<Rightarrow> get_action x db = None) then Inl IntegrityError
     else Inr (db\<lparr>db_attention := tadd a (db_attention db)\<rparr>))"

definition open_attention :: "uuid \<Rightarrow> 'x auth_db_scheme \<Rightarrow> attention_row list" where
  "open_attention i db = filter (\<lambda>a. at_action_id a = Some i \<and> \<not> at_resolved a) (db_attention db)"

section \<open>Proposal integrity\<close>

definition target_hash ::
  "lib \<Rightarrow> string \<Rightarrow> json_obj \<Rightarrow> string \<Rightarrow> string \<Rightarrow> string \<Rightarrow> string \<Rightarrow> string" where
  "target_hash L operation arguments prin created_at expires_at capability_id =
    sha256 L (dumps (JObj [(''operation'', JStr operation), (''arguments'', JObj arguments),
      (''principal'', JStr prin), (''created_at'', JStr created_at),
      (''expires_at'', JStr expires_at), (''capability_id'', JStr capability_id)]))"

text \<open>\<^verbatim>\<open>operation.split(".", 1)[0]\<close>.\<close>

definition operation_family :: "string \<Rightarrow> string" where
  "operation_family operation = takeWhile (\<lambda>c. c \<noteq> CHR ''.'') operation"

definition verify_proposal :: "lib \<Rightarrow> time \<Rightarrow> action_row \<Rightarrow> auth_error + json_obj" where
  "verify_proposal L now a =
    (case json_get ''proposal'' (ac_evidence a) of
       Some (JObj p) \<Rightarrow>
         (case (json_get ''operation'' p, json_get ''arguments'' p, json_get ''principal'' p,
                json_get ''created_at'' p, json_get ''expires_at'' p, json_get ''capability_id'' p) of
            (Some opn, Some (JObj args), Some prin, Some created, Some expires, Some cap) \<Rightarrow>
              if opn \<noteq> JStr (ac_operation a) \<or> prin \<noteq> JStr OWNER_PRINCIPAL
              then Inl (ProposalIntegrityError ''Action proposal identity no longer matches'')
              else (case fromisoformat L (py_str expires) of
                  None \<Rightarrow> Inl (ProposalIntegrityError ''Action proposal expiry is invalid'')
                | Some t \<Rightarrow>
                    if t \<le> now then Inl (ProposalIntegrityError ''Action proposal has expired'')
                    else if target_hash L (py_str opn) args (py_str prin) (py_str created) (py_str expires) (py_str cap)
                            \<noteq> ac_target_hash a
                    then Inl (ProposalIntegrityError ''Action proposal integrity check failed'')
                    else Inr p)
          | _ \<Rightarrow> Inl (ProposalIntegrityError ''Action proposal payload is incomplete''))
     | _ \<Rightarrow> Inl (ProposalIntegrityError ''Action proposal payload is missing''))"

section \<open>Runs\<close>

definition require_managed_task_active :: "run_row option \<Rightarrow> 'x auth_db_scheme \<Rightarrow> auth_error + unit" where
  "require_managed_task_active run db =
    (case run of None \<Rightarrow> Inr ()
     | Some r \<Rightarrow> (case rn_transcript_id r of None \<Rightarrow> Inr ()
       | Some t \<Rightarrow> (case tget ch_id t (db_transcripts db) of None \<Rightarrow> Inr ()
         | Some ch \<Rightarrow> (case ch_active_task_state ch of
             JObj st \<Rightarrow>
               if json_get ''mode'' st = Some (JStr ''managed'') \<and> json_get ''status'' st \<noteq> Some (JStr ''active'')
               then Inl (ProposalIntegrityError
                 ''Managed task is no longer active; no new effects may be proposed or dispatched'')
               else Inr ()
           | _ \<Rightarrow> Inr ()))))"

definition active_foreground :: "uuid \<Rightarrow> 'x auth_db_scheme \<Rightarrow> run_row list" where
  "active_foreground t db =
    filter (\<lambda>r. rn_transcript_id r = Some t \<and> rn_kind r = FOREGROUND \<and> rn_inference_active r) (db_runs db)"

definition create_run ::
  "time \<Rightarrow> uuid \<Rightarrow> uuid option \<Rightarrow> string \<Rightarrow> run_kind \<Rightarrow> 'x auth_db_scheme \<Rightarrow> auth_error + (uuid \<times> 'x auth_db_scheme)" where
  "create_run now new_id transcript_id intent kind db =
    (let run = \<lparr>rn_id = new_id, rn_kind = kind, rn_status = RUNNING, rn_transcript_id = transcript_id,
        rn_intent = Some intent, rn_finished_at = None, rn_inference_active = True,
        rn_inference_status = ''running'', rn_heartbeat_at = Some now, rn_schedule_id = None,
        rn_scheduled_for = None, rn_trigger_snapshot = []\<rparr>;
      busy = (case transcript_id of
          None \<Rightarrow> Inr None
        | Some t \<Rightarrow> if kind = FOREGROUND then scalar_one_or_none (active_foreground t db) else Inr None)
     in case busy of
          Inl err \<Rightarrow> Inl err
        | Inr (Some _) \<Rightarrow>
            Inl (ForegroundBusy ''Atlas is still handling the previous message in this conversation'')
        | Inr None \<Rightarrow>
            if get_run new_id db \<noteq> None
               \<or> (case transcript_id of None \<Rightarrow> False | Some t \<Rightarrow> tget ch_id t (db_transcripts db) = None)
            then Inl IntegrityError
            else Inr (new_id, db\<lparr>db_runs := tadd run (db_runs db)\<rparr>))"

text \<open>The outcome of a run from its actions and its inference.\<close>

definition aggregate_status :: "action_status set \<Rightarrow> run_row \<Rightarrow> run_status" where
  "aggregate_status statuses run =
    (if AUNCERTAIN \<in> statuses then UNCERTAIN
     else if EXECUTING \<in> statuses then RUNNING
     else if PREPARED \<in> statuses then WAITING_FOR_OWNER
     else if rn_inference_active run then RUNNING
     else if AFAILED \<in> statuses \<or> rn_inference_status run \<in> {''failed'', ''interrupted''}
       then (if rn_inference_status run \<noteq> ''interrupted'' then FAILED else INTERRUPTED)
     else if ACANCELLED \<in> statuses then CANCELLED
     else SUCCEEDED)"

definition action_statuses :: "uuid \<Rightarrow> 'x auth_db_scheme \<Rightarrow> action_status set" where
  "action_statuses i db = set (map ac_status (filter (\<lambda>a. ac_run_id a = i) (db_actions db)))"

definition set_schedule_status :: "uuid option \<Rightarrow> string \<Rightarrow> 'x auth_db_scheme \<Rightarrow> 'x auth_db_scheme" where
  "set_schedule_status sid st db = (case sid of None \<Rightarrow> db
     | Some i \<Rightarrow> db\<lparr>db_schedules := tset sc_id i (\<lambda>s. s\<lparr>sc_last_status := Some st\<rparr>) (db_schedules db)\<rparr>)"

definition recompute_run :: "time \<Rightarrow> uuid \<Rightarrow> 'x auth_db_scheme \<Rightarrow> 'x auth_db_scheme" where
  "recompute_run now i db = (case get_run i db of None \<Rightarrow> db
     | Some run \<Rightarrow>
         (let status = aggregate_status (action_statuses i db) run;
              finished = (if status \<in> {SUCCEEDED, FAILED, CANCELLED, INTERRUPTED} then Some now else None)
          in set_schedule_status (rn_schedule_id run) (run_status_value status)
               (upd_run i (\<lambda>r. r\<lparr>rn_status := status, rn_finished_at := finished\<rparr>) db)))"

definition finish_run :: "time \<Rightarrow> uuid \<Rightarrow> bool \<Rightarrow> 'x auth_db_scheme \<Rightarrow> auth_error + 'x auth_db_scheme" where
  "finish_run now i succeeded db = (case get_run i db of None \<Rightarrow> Inr db
     | Some run \<Rightarrow>
         if \<not> rn_inference_active run \<or> rn_inference_status run \<noteq> ''running''
         then Inl (ProposalIntegrityError ''Inference no longer owns this run'')
         else Inr (recompute_run now i (upd_run i (\<lambda>r. r\<lparr>rn_inference_active := False,
                 rn_inference_status := (if succeeded then ''succeeded'' else ''failed'')\<rparr>) db)))"

section \<open>Owner attention\<close>

definition resolve_attention_and_run :: "time \<Rightarrow> action_row \<Rightarrow> 'x auth_db_scheme \<Rightarrow> auth_error + 'x auth_db_scheme" where
  "resolve_attention_and_run now a db =
    ebind (scalar_one_or_none (open_attention (ac_id a) db)) (\<lambda>att.
    Inr (recompute_run now (ac_run_id a) (case att of None \<Rightarrow> db
        | Some t \<Rightarrow> upd_attention (at_id t) (\<lambda>x. x\<lparr>at_resolved := True, at_resolved_at := Some now\<rparr>) db)))"

definition uncertain_detail :: "lib \<Rightarrow> action_row \<Rightarrow> string option \<Rightarrow> json_obj" where
  "uncertain_detail L a reason =
    [(''operation'', JStr (ac_operation a)), (''action_id'', JStr (ac_id a)), (''run_id'', JStr (ac_run_id a)),
     (''message'', JStr (case reason of Some r \<Rightarrow> if r = [] then
         ''Atlas started this action but cannot confirm whether it completed.'' else r
       | None \<Rightarrow> ''Atlas started this action but cannot confirm whether it completed.'')),
     (''execution_started_at'', opt_json (map_option (isoformat L) (ac_execution_started_at a)))]
    @ (case json_true ''external_id'' (ac_evidence a) of None \<Rightarrow> [] | Some x \<Rightarrow> [(''external_id'', x)])"

definition uncertain_attention :: "lib \<Rightarrow> uuid \<Rightarrow> action_row \<Rightarrow> string option \<Rightarrow> attention_row" where
  "uncertain_attention L new_id a reason =
    \<lparr>at_id = new_id, at_run_id = Some (ac_run_id a), at_action_id = Some (ac_id a), at_state = ''uncertain'',
     at_title = ''Uncertain action: '' @ ac_operation a, at_detail = uncertain_detail L a reason,
     at_resolved = False, at_resolved_at = None\<rparr>"

definition mark_uncertain ::
  "lib \<Rightarrow> uuid \<Rightarrow> action_row \<Rightarrow> string option \<Rightarrow> 'x auth_db_scheme \<Rightarrow> auth_error + 'x auth_db_scheme" where
  "mark_uncertain L new_id a reason db =
    ebind (scalar_one_or_none (open_attention (ac_id a) db)) (\<lambda>att.
    ebind (case att of None \<Rightarrow> insert_attention (uncertain_attention L new_id a reason) db
       | Some t \<Rightarrow> Inr (upd_attention (at_id t) (\<lambda>x. x\<lparr>at_state := ''uncertain'',
           at_title := ''Uncertain action: '' @ ac_operation a, at_detail := uncertain_detail L a reason\<rparr>) db)) (\<lambda>db1.
    Inr (case get_run (ac_run_id a) db1 of None \<Rightarrow> db1
       | Some run \<Rightarrow> set_schedule_status (rn_schedule_id run) ''uncertain''
           (upd_run (rn_id run) (\<lambda>r. r\<lparr>rn_status := UNCERTAIN, rn_finished_at := None\<rparr>) db1))))"

section \<open>Actions\<close>

definition set_idempotency_key :: "uuid \<Rightarrow> 'x auth_db_scheme \<Rightarrow> 'x auth_db_scheme" where
  "set_idempotency_key i db = upd_action i (\<lambda>a. a\<lparr>ac_idempotency_key := Some (''atlas:'' @ i)\<rparr>) db"

text \<open>\<^verbatim>\<open>UPDATE actions SET ... WHERE id = i AND status = st\<close>; \<open>None\<close> when no row matched.\<close>

definition cas_action ::
  "uuid \<Rightarrow> action_status \<Rightarrow> (action_row \<Rightarrow> action_row) \<Rightarrow> 'x auth_db_scheme \<Rightarrow> 'x auth_db_scheme option" where
  "cas_action i st f db = (case get_action i db of
      Some a \<Rightarrow> if ac_status a = st then Some (upd_action i f db) else None
    | None \<Rightarrow> None)"

definition executed_action ::
  "lib \<Rightarrow> time \<Rightarrow> uuid \<Rightarrow> uuid \<Rightarrow> string \<Rightarrow> json_obj \<Rightarrow> string \<Rightarrow> string \<Rightarrow> json \<Rightarrow> action_row" where
  "executed_action L now new_id run_id operation arguments status summary output =
    (let created_at = isoformat L now
     in \<lparr>ac_id = new_id, ac_run_id = run_id, ac_operation = operation,
          ac_target_hash = target_hash L operation arguments OWNER_PRINCIPAL created_at created_at
            (operation_family operation),
          ac_status = (if status = ''succeeded'' then ASUCCEEDED else AFAILED), ac_idempotency_key = None,
          ac_evidence = [(''summary'', JStr summary), (''result_status'', JStr status),
            (''arguments'', JObj arguments), (''output'', output)],
          ac_execution_started_at = None, ac_updated_at = now\<rparr>)"

definition record_execution ::
  "lib \<Rightarrow> time \<Rightarrow> uuid \<Rightarrow> uuid \<Rightarrow> string \<Rightarrow> json_obj \<Rightarrow> string \<Rightarrow> string \<Rightarrow> json \<Rightarrow> 'x auth_db_scheme
   \<Rightarrow> auth_error + (uuid \<times> 'x auth_db_scheme)" where
  "record_execution L now new_id run_id operation arguments status summary output db =
    ebind (insert_action (executed_action L now new_id run_id operation arguments status summary output) db) (\<lambda>db1.
    Inr (new_id, set_idempotency_key new_id db1))"

definition make_proposal :: "lib \<Rightarrow> time \<Rightarrow> string \<Rightarrow> json_obj \<Rightarrow> string \<Rightarrow> string \<Rightarrow> json_obj" where
  "make_proposal L now operation arguments title capability_id =
    [(''operation'', JStr operation), (''arguments'', JObj arguments), (''principal'', JStr OWNER_PRINCIPAL),
     (''created_at'', JStr (isoformat L now)), (''expires_at'', JStr (isoformat L (now + DEFAULT_PROPOSAL_TTL))),
     (''capability_id'', JStr (if capability_id \<noteq> [] then capability_id else operation_family operation)),
     (''title'', JStr title)]"

definition prepared_action ::
  "lib \<Rightarrow> time \<Rightarrow> uuid \<Rightarrow> uuid \<Rightarrow> string \<Rightarrow> json_obj \<Rightarrow> string \<Rightarrow> string \<Rightarrow> action_row" where
  "prepared_action L now new_id run_id operation arguments title capability_id =
    (let cap = (if capability_id \<noteq> [] then capability_id else operation_family operation);
         expires_at = isoformat L (now + DEFAULT_PROPOSAL_TTL)
     in \<lparr>ac_id = new_id, ac_run_id = run_id, ac_operation = operation,
          ac_target_hash = target_hash L operation arguments OWNER_PRINCIPAL (isoformat L now) expires_at cap,
          ac_status = PREPARED, ac_idempotency_key = None,
          ac_evidence = [(''proposal'', JObj (make_proposal L now operation arguments title capability_id)),
            (''summary'', JStr title)],
          ac_execution_started_at = None, ac_updated_at = now\<rparr>)"

definition approval_attention ::
  "lib \<Rightarrow> time \<Rightarrow> uuid \<Rightarrow> uuid \<Rightarrow> uuid \<Rightarrow> string \<Rightarrow> json_obj \<Rightarrow> string \<Rightarrow> attention_row" where
  "approval_attention L now att_id action_id run_id operation arguments title =
    \<lparr>at_id = att_id, at_run_id = Some run_id, at_action_id = Some action_id,
     at_state = ''approval_required'', at_title = title,
     at_detail = [(''operation'', JStr operation), (''arguments'', JObj arguments),
       (''expires_at'', JStr (isoformat L (now + DEFAULT_PROPOSAL_TTL)))],
     at_resolved = False, at_resolved_at = None\<rparr>"

definition prepare_proposal ::
  "lib \<Rightarrow> time \<Rightarrow> uuid \<Rightarrow> uuid \<Rightarrow> uuid \<Rightarrow> string \<Rightarrow> json_obj \<Rightarrow> string \<Rightarrow> string \<Rightarrow> 'x auth_db_scheme
   \<Rightarrow> auth_error + (uuid \<times> 'x auth_db_scheme)" where
  "prepare_proposal L now new_id att_id run_id operation arguments title capability_id db =
    ebind (require_managed_task_active (get_run run_id db) db) (\<lambda>_.
    ebind (insert_action (prepared_action L now new_id run_id operation arguments title capability_id) db) (\<lambda>db1.
    ebind (insert_attention (approval_attention L now att_id new_id run_id operation arguments title)
        (set_idempotency_key new_id db1)) (\<lambda>db2.
    Inr (new_id, recompute_run now run_id db2))))"

definition begin_execution ::
  "lib \<Rightarrow> time \<Rightarrow> action_row \<Rightarrow> string option \<Rightarrow> 'x auth_db_scheme \<Rightarrow> auth_error + (json_obj \<times> 'x auth_db_scheme)" where
  "begin_execution L now given reviewed db =
    ebind (require_managed_task_active (get_run (ac_run_id given) db) db) (\<lambda>_.
    ebind (the_row (get_action (ac_id given) db) AttributeError) (\<lambda>a.
    ebind (verify_proposal L now a) (\<lambda>p.
    ebind (require (reviewed = None \<or> reviewed = Some (ac_target_hash a))
        (ProposalIntegrityError ''The proposal changed after review; reload its exact details'')) (\<lambda>_.
    ebind (the_row (cas_action (ac_id a) PREPARED
          (\<lambda>x. x\<lparr>ac_status := EXECUTING, ac_execution_started_at := Some now, ac_updated_at := now\<rparr>) db)
        (ProposalIntegrityError ''Action proposal is no longer executable'')) (\<lambda>db1.
    Inr (p, recompute_run now (ac_run_id a) db1))))))"

definition automatic_action ::
  "lib \<Rightarrow> time \<Rightarrow> uuid \<Rightarrow> uuid \<Rightarrow> string \<Rightarrow> json_obj \<Rightarrow> string \<Rightarrow> string \<Rightarrow> action_row" where
  "automatic_action L now new_id run_id operation arguments summary capability_id =
    (let created_at = isoformat L now
     in \<lparr>ac_id = new_id, ac_run_id = run_id, ac_operation = operation,
          ac_target_hash = target_hash L operation arguments OWNER_PRINCIPAL created_at created_at capability_id,
          ac_status = EXECUTING, ac_idempotency_key = None,
          ac_evidence = [(''summary'', JStr summary), (''arguments'', JObj arguments), (''automatic'', JBool True),
            (''started_at'', JStr created_at), (''capability_id'', JStr capability_id)],
          ac_execution_started_at = Some now, ac_updated_at = now\<rparr>)"

definition begin_automatic_execution ::
  "lib \<Rightarrow> time \<Rightarrow> uuid \<Rightarrow> uuid \<Rightarrow> string \<Rightarrow> json_obj \<Rightarrow> string \<Rightarrow> string \<Rightarrow> 'x auth_db_scheme
   \<Rightarrow> auth_error + (uuid \<times> 'x auth_db_scheme)" where
  "begin_automatic_execution L now new_id run_id operation arguments summary capability_id db =
    ebind (require_managed_task_active (get_run run_id db) db) (\<lambda>_.
    ebind (insert_action (automatic_action L now new_id run_id operation arguments summary capability_id) db) (\<lambda>db1.
    Inr (new_id, set_idempotency_key new_id db1)))"

definition cancel :: "time \<Rightarrow> action_row \<Rightarrow> 'x auth_db_scheme \<Rightarrow> auth_error + 'x auth_db_scheme" where
  "cancel now given db = (case get_action (ac_id given) db of None \<Rightarrow> Inl AttributeError
     | Some a \<Rightarrow>
         (case cas_action (ac_id a) PREPARED (\<lambda>x. x\<lparr>ac_status := ACANCELLED, ac_updated_at := now,
                 ac_evidence := json_put ''decision'' (JStr ''cancelled'') (ac_evidence a)\<rparr>) db of
            None \<Rightarrow> Inl (ProposalIntegrityError ''Only a prepared action can be cancelled'')
          | Some db1 \<Rightarrow> resolve_attention_and_run now a db1))"

definition completion_evidence :: "action_row \<Rightarrow> json_obj \<Rightarrow> string \<Rightarrow> json_obj" where
  "completion_evidence a result external_id =
    (let decision = (if json_true ''automatic'' (ac_evidence a) \<noteq> None then ''automatic'' else ''approved'');
         ev = json_merge (ac_evidence a) [(''decision'', JStr decision), (''result'', JObj result)]
     in if external_id \<noteq> [] then json_put ''external_id'' (JStr external_id) ev else ev)"

definition complete ::
  "lib \<Rightarrow> time \<Rightarrow> uuid \<Rightarrow> uuid \<Rightarrow> action_status \<Rightarrow> json_obj \<Rightarrow> string \<Rightarrow> 'x auth_db_scheme \<Rightarrow> auth_error + 'x auth_db_scheme" where
  "complete L now att_id action_id status result external_id db =
    (if status \<notin> {ASUCCEEDED, AFAILED, AUNCERTAIN}
     then Inl (ValueError ''Execution must end as succeeded, failed, or uncertain'')
     else (case get_action action_id db of
         None \<Rightarrow> Inl (ProposalIntegrityError ''Executing action state was lost'')
       | Some a \<Rightarrow>
           (let ev = completion_evidence a result external_id;
                f = (\<lambda>x. x\<lparr>ac_status := status, ac_updated_at := now, ac_evidence := ev\<rparr>)
            in case cas_action action_id EXECUTING f db of
                 None \<Rightarrow> Inl (ProposalIntegrityError ''Executing action state was lost'')
               | Some db1 \<Rightarrow> if status = AUNCERTAIN then mark_uncertain L att_id (f a) None db1
                   else resolve_attention_and_run now (f a) db1)))"

section \<open>Reconciliation and acknowledgement\<close>

definition stale_reason :: string where
  "stale_reason = ''Execution was abandoned before Atlas could confirm the external outcome.''"

definition still_alive :: "time \<Rightarrow> run_row option \<Rightarrow> bool" where
  "still_alive stale_before run = (case run of None \<Rightarrow> False
     | Some r \<Rightarrow> rn_inference_active r \<and> (case rn_heartbeat_at r of None \<Rightarrow> False | Some h \<Rightarrow> stale_before \<le> h))"

text \<open>
  The loop of \<^verbatim>\<open>reconcile_stale_executions\<close> over the rows selected at its start.
  \<open>ids\<close> gives the identity of an attention row that has to be added; \<open>sink\<close> is the
  observation callback.
\<close>

fun reconcile_loop ::
  "lib \<Rightarrow> time \<Rightarrow> time \<Rightarrow> (uuid \<Rightarrow> uuid) \<Rightarrow> (action_row \<Rightarrow> run_row option \<Rightarrow> 'x auth_db_scheme \<Rightarrow> auth_error + 'x auth_db_scheme)
   \<Rightarrow> action_row list \<Rightarrow> 'x auth_db_scheme \<Rightarrow> auth_error + (nat \<times> 'x auth_db_scheme)" where
  "reconcile_loop L now stale_before ids sink [] db = Inr (0, db)"
| "reconcile_loop L now stale_before ids sink (a # rest) db =
    (let run = get_run (ac_run_id a) db;
         f = (\<lambda>x. x\<lparr>ac_status := AUNCERTAIN, ac_updated_at := now\<rparr>)
     in if still_alive stale_before run then reconcile_loop L now stale_before ids sink rest db
        else (case cas_action (ac_id a) EXECUTING f db of
            None \<Rightarrow> reconcile_loop L now stale_before ids sink rest db
          | Some db1 \<Rightarrow>
              ebind (mark_uncertain L (ids (ac_id a)) (f a) (Some stale_reason) db1) (\<lambda>db2.
              ebind (sink (f a) run db2) (\<lambda>db3.
              ebind (reconcile_loop L now stale_before ids sink rest db3) (\<lambda>(n, db4).
              Inr (Suc n, db4))))))"

definition reconcile_stale_executions ::
  "lib \<Rightarrow> time \<Rightarrow> time \<Rightarrow> (uuid \<Rightarrow> uuid) \<Rightarrow> (action_row \<Rightarrow> run_row option \<Rightarrow> 'x auth_db_scheme \<Rightarrow> auth_error + 'x auth_db_scheme)
   \<Rightarrow> 'x auth_db_scheme \<Rightarrow> auth_error + (nat \<times> 'x auth_db_scheme)" where
  "reconcile_stale_executions L now stale_before ids sink db =
    reconcile_loop L now stale_before ids sink
      (filter (\<lambda>a. ac_status a = EXECUTING
         \<and> (case ac_execution_started_at a of None \<Rightarrow> False | Some t \<Rightarrow> t < stale_before)) (db_actions db)) db"

definition dismissable :: "attention_row \<Rightarrow> bool" where
  "dismissable a = (at_state a \<in> {''interrupted'', ''staged_change''} \<and> at_action_id a = None)"

definition dismiss_interruption :: "time \<Rightarrow> uuid \<Rightarrow> 'x auth_db_scheme \<Rightarrow> auth_error + 'x auth_db_scheme" where
  "dismiss_interruption now i db = (case tget at_id i (db_attention db) of
      None \<Rightarrow> Inl (LookupError ''Attention item not found'')
    | Some a \<Rightarrow>
        if \<not> dismissable a then Inl (ProposalIntegrityError ''Only informational notices can be dismissed'')
        else if at_resolved a then Inr db
        else Inr (upd_attention i (\<lambda>x. x\<lparr>at_resolved := True, at_resolved_at := Some now\<rparr>) db))"

definition dismiss_informational_notices :: "time \<Rightarrow> 'x auth_db_scheme \<Rightarrow> nat \<times> 'x auth_db_scheme" where
  "dismiss_informational_notices now db =
    (let hit = (\<lambda>a. \<not> at_resolved a \<and> dismissable a)
     in (length (filter hit (db_attention db)),
         db\<lparr>db_attention := map (\<lambda>a. if hit a then a\<lparr>at_resolved := True, at_resolved_at := Some now\<rparr> else a)
              (db_attention db)\<rparr>))"

definition acknowledge_uncertain :: "lib \<Rightarrow> time \<Rightarrow> uuid \<Rightarrow> 'x auth_db_scheme \<Rightarrow> auth_error + 'x auth_db_scheme" where
  "acknowledge_uncertain L now action_id db =
    ebind (the_row (get_action action_id db) (LookupError ''Action not found'')) (\<lambda>a.
    ebind (require (ac_status a = AUNCERTAIN)
        (ProposalIntegrityError ''Only uncertain actions can be acknowledged'')) (\<lambda>_.
    ebind (scalar_one_or_none (open_attention (ac_id a) db)) (\<lambda>att.
    ebind (the_row att (LookupError ''Unresolved attention item not found'')) (\<lambda>t.
    Inr (upd_action (ac_id a)
      (\<lambda>x. x\<lparr>ac_evidence := json_put ''owner_acknowledged_at'' (JStr (isoformat L now)) (ac_evidence a)\<rparr>)
      (upd_attention (at_id t) (\<lambda>x. x\<lparr>at_resolved := True, at_resolved_at := Some now\<rparr>) db))))))"

section \<open>Frame lemmas\<close>

lemma upd_frames [simp]:
  "db_runs (upd_action i f db) = db_runs db" "db_attention (upd_action i f db) = db_attention db"
  "db_transcripts (upd_action i f db) = db_transcripts db" "db_schedules (upd_action i f db) = db_schedules db"
  "db_actions (upd_run i g db) = db_actions db" "db_attention (upd_run i g db) = db_attention db"
  "db_transcripts (upd_run i g db) = db_transcripts db"
  "db_actions (upd_attention i h db) = db_actions db" "db_runs (upd_attention i h db) = db_runs db"
  "db_transcripts (upd_attention i h db) = db_transcripts db"
  "db_attention (upd_attention i h db) = tset at_id i h (db_attention db)"
  by (simp_all add: upd_action_def upd_run_def upd_attention_def)

lemma schedule_frames [simp]:
  "db_runs (set_schedule_status x st db) = db_runs db" "db_actions (set_schedule_status x st db) = db_actions db"
  "db_attention (set_schedule_status x st db) = db_attention db"
  "db_transcripts (set_schedule_status x st db) = db_transcripts db"
  by (simp_all add: set_schedule_status_def split: option.splits)

lemma recompute_frames [simp]:
  "db_actions (recompute_run now i db) = db_actions db"
  "db_attention (recompute_run now i db) = db_attention db"
  "db_transcripts (recompute_run now i db) = db_transcripts db"
  by (simp_all add: recompute_run_def Let_def split: option.splits)

lemma recompute_runs:
  "db_runs (recompute_run now i db) = tset rn_id i (\<lambda>r. r
     \<lparr>rn_status := aggregate_status (action_statuses i db) (the (get_run i db)),
      rn_finished_at := (if aggregate_status (action_statuses i db) (the (get_run i db))
          \<in> {SUCCEEDED, FAILED, CANCELLED, INTERRUPTED} then Some now else None)\<rparr>) (db_runs db)"
proof (cases "get_run i db")
  case None
  then have "tset rn_id i f (db_runs db) = db_runs db" for f
    by (auto simp: get_run_def tget_None_iff intro!: tset_id)
  with None show ?thesis by (simp add: recompute_run_def)
next
  case (Some r)
  then show ?thesis by (simp add: recompute_run_def Let_def upd_run_def)
qed

lemma get_cong [simp]:
  "get_action i (upd_run k g db) = get_action i db" "get_action i (upd_attention k h db) = get_action i db"
  "get_action i (recompute_run now k db) = get_action i db"
  "get_action i (set_schedule_status x st db) = get_action i db"
  "open_attention i (upd_run k g db) = open_attention i db" "open_attention i (upd_action k f db) = open_attention i db"
  "open_attention i (recompute_run now k db) = open_attention i db"
  "open_attention i (set_schedule_status x st db) = open_attention i db"
  "get_run i (upd_action k f db) = get_run i db" "get_run i (upd_attention k h db) = get_run i db"
  "get_run i (set_schedule_status x st db) = get_run i db"
  by (simp_all add: get_action_def open_attention_def get_run_def)

lemma get_action_upd:
  "(\<And>a. ac_id (f a) = ac_id a) \<Longrightarrow>
   get_action i (upd_action k f db) = (if i = k then map_option f (get_action i db) else get_action i db)"
  by (simp add: get_action_def upd_action_def tget_tset)

lemma get_action_id: "get_action i db = Some a \<Longrightarrow> ac_id a = i"
  by (auto simp: get_action_def dest: tget_key)

lemma get_run_id: "get_run i db = Some r \<Longrightarrow> rn_id r = i"
  by (auto simp: get_run_def dest: tget_key)

lemma open_resolve:
  "open_attention i (upd_attention k (\<lambda>x. x\<lparr>at_resolved := True, at_resolved_at := w\<rparr>) db)
   = filter (\<lambda>t. at_id t \<noteq> k) (open_attention i db)"
proof -
  have "filter (\<lambda>a. at_action_id a = Some i \<and> \<not> at_resolved a)
          (tset at_id k (\<lambda>x. x\<lparr>at_resolved := True, at_resolved_at := w\<rparr>) xs)
      = filter (\<lambda>t. at_id t \<noteq> k) (filter (\<lambda>a. at_action_id a = Some i \<and> \<not> at_resolved a) xs)" for xs
    by (induction xs) auto
  then show ?thesis by (simp add: open_attention_def upd_attention_def)
qed

lemma open_restate:
  assumes "\<And>x. at_action_id (f x) = at_action_id x" "\<And>x. at_resolved (f x) = at_resolved x"
  shows "open_attention i (upd_attention k f db) = tset at_id k f (open_attention i db)"
proof -
  have "filter (\<lambda>a. at_action_id a = Some i \<and> \<not> at_resolved a) (tset at_id k f xs)
      = tset at_id k f (filter (\<lambda>a. at_action_id a = Some i \<and> \<not> at_resolved a) xs)" for xs
    by (induction xs) (auto simp: assms)
  then show ?thesis by (simp add: open_attention_def upd_attention_def)
qed

lemma open_mem:
  "t \<in> set (open_attention i db) \<longleftrightarrow> t \<in> set (db_attention db) \<and> at_action_id t = Some i \<and> \<not> at_resolved t"
  by (auto simp: open_attention_def)

lemma scalar_one_or_none_simps [simp]:
  "scalar_one_or_none [] = Inr None" "scalar_one_or_none [x] = Inr (Some x)"
  by (simp_all add: scalar_one_or_none_def)

lemma scalar_one_or_none_cases:
  "scalar_one_or_none xs = Inr None \<longleftrightarrow> xs = []"
  "scalar_one_or_none xs = Inr (Some x) \<longleftrightarrow> xs = [x]"
  "scalar_one_or_none xs = Inl err \<longleftrightarrow> err = MultipleResultsFound \<and> 2 \<le> length xs"
  by (auto simp: scalar_one_or_none_def split: list.splits)

section \<open>The attention invariant\<close>

text \<open>
  Attention rows are consistent with the ledger: an action has at most one unresolved
  row, a prepared action always has one, and an uncertain action stays in front of the
  owner until the owner acknowledged it.
\<close>

definition shown :: "'x auth_db_scheme \<Rightarrow> action_row \<Rightarrow> bool" where
  "shown db a =
    ((ac_status a = PREPARED \<longrightarrow> open_attention (ac_id a) db \<noteq> [])
   \<and> (ac_status a = AUNCERTAIN \<longrightarrow> (\<exists>t \<in> set (open_attention (ac_id a) db). at_state t = ''uncertain'')
        \<or> json_get ''owner_acknowledged_at'' (ac_evidence a) \<noteq> None))"

definition attention_inv :: "'x auth_db_scheme \<Rightarrow> bool" where
  "attention_inv db =
    (keyed at_id (db_attention db)
   \<and> (\<forall>i. length (open_attention i db) \<le> 1)
   \<and> (\<forall>t \<in> set (db_attention db). \<forall>i. at_action_id t = Some i \<longrightarrow> get_action i db \<noteq> None)
   \<and> (\<forall>i a. get_action i db = Some a \<longrightarrow> shown db a))"

lemma attention_invD:
  assumes "attention_inv db"
  shows "keyed at_id (db_attention db)" "length (open_attention i db) \<le> 1"
    "t \<in> set (db_attention db) \<Longrightarrow> at_action_id t = Some i \<Longrightarrow> get_action i db \<noteq> None"
    "get_action i db = Some a \<Longrightarrow> shown db a"
  using assms by (auto simp: attention_inv_def)

text \<open>The invariant reads two tables only.\<close>

lemma attention_inv_cong:
  assumes "db_actions db' = db_actions db" "db_attention db' = db_attention db"
  shows "attention_inv db' = attention_inv db"
  using assms by (simp add: attention_inv_def shown_def open_attention_def get_action_def)

lemma recompute_inv: "attention_inv (recompute_run now i db) = attention_inv db"
  by (rule attention_inv_cong) simp_all

lemma keyed_open_unique:
  "attention_inv db \<Longrightarrow> t \<in> set (open_attention i db) \<Longrightarrow> x \<in> set (open_attention k db) \<Longrightarrow> at_id x = at_id t \<Longrightarrow> k = i"
  using keyed_inj [OF attention_invD(1), of db x t] by (auto simp: open_mem)

text \<open>
  Every write changes at most one action \<open>i\<close> and the unresolved rows of that action;
  the invariant then reduces to that action.
\<close>

lemma attention_change:
  assumes inv: "attention_inv db"
    and acts: "\<And>k. get_action k db' = (if k = i then Some b else get_action k db)"
    and opened: "\<And>k. open_attention k db' = (if k = i then rows else open_attention k db)"
    and keys: "keyed at_id (db_attention db')"
    and refs: "\<And>x k. x \<in> set (db_attention db') \<Longrightarrow> at_action_id x = Some k \<Longrightarrow>
        k = i \<or> (\<exists>y \<in> set (db_attention db). at_action_id y = Some k)"
    and one: "length rows \<le> 1"
    and here: "ac_status b = PREPARED \<Longrightarrow> rows \<noteq> []"
      "ac_status b = AUNCERTAIN \<Longrightarrow> (\<exists>t \<in> set rows. at_state t = ''uncertain'')
         \<or> json_get ''owner_acknowledged_at'' (ac_evidence b) \<noteq> None"
  shows "attention_inv db'"
proof -
  have bi: "ac_id b = i" using acts [of i] by (simp add: get_action_id)
  have "shown db' c" if c: "get_action k db' = Some c" for k c
  proof (cases "k = i")
    case True
    with c acts bi here show ?thesis by (auto simp: shown_def opened)
  next
    case False
    with c acts have "get_action k db = Some c" by simp
    with False inv show ?thesis
      using get_action_id [of k db c] by (auto simp: shown_def opened dest!: attention_invD(4))
  qed
  moreover have "get_action k db' \<noteq> None" if "x \<in> set (db_attention db')" "at_action_id x = Some k" for x k
    using refs [OF that] attention_invD(3) [OF inv, of _ k] by (auto simp: acts)
  ultimately show ?thesis
    using attention_invD(2) [OF inv] one keys by (auto simp: attention_inv_def opened)
qed

lemma open_resolve_one:
  assumes inv: "attention_inv db" and o: "open_attention i db = [t]"
  shows "open_attention k (upd_attention (at_id t) (\<lambda>x. x\<lparr>at_resolved := True, at_resolved_at := w\<rparr>) db)
    = (if k = i then [] else open_attention k db)"
proof -
  have "filter (\<lambda>x. at_id x \<noteq> at_id t) (open_attention k db) = open_attention k db" if "k \<noteq> i"
    using keyed_open_unique [OF inv, of t i _ k] o that by (auto simp: filter_id_conv)
  with o show ?thesis by (simp add: open_resolve)
qed

lemma open_restate_one:
  assumes inv: "attention_inv db" and o: "open_attention i db = [t]"
    and f: "\<And>x. at_action_id (f x) = at_action_id x" "\<And>x. at_resolved (f x) = at_resolved x"
  shows "open_attention k (upd_attention (at_id t) f db) = (if k = i then [f t] else open_attention k db)"
proof -
  have "tset at_id (at_id t) f (open_attention k db) = open_attention k db" if "k \<noteq> i"
    using keyed_open_unique [OF inv, of t i _ k] o that by (auto intro!: tset_id)
  with o f show ?thesis by (simp add: open_restate)
qed

text \<open>An update of one action whose row needs no change of attention.\<close>

lemma upd_action_inv:
  assumes inv: "attention_inv db" and f: "\<And>x. ac_id (f x) = ac_id x"
    and ok: "\<And>a. get_action i db = Some a \<Longrightarrow> shown db (f a)"
  shows "attention_inv (upd_action i f db)"
proof -
  have "shown (upd_action i f db) b" if "get_action k (upd_action i f db) = Some b" for k b
    using that ok inv f by (cases "k = i") (auto simp: shown_def get_action_upd dest!: attention_invD(4))
  moreover have "get_action k (upd_action i f db) \<noteq> None \<longleftrightarrow> get_action k db \<noteq> None" for k
    by (simp add: get_action_upd f)
  ultimately show ?thesis
    using inv by (auto simp: attention_inv_def)
qed

text \<open>Closing an action: a new status outside \<open>PREPARED\<close> and \<open>AUNCERTAIN\<close>, its row resolved.\<close>

lemma close_action_inv:
  assumes inv: "attention_inv db" and a: "get_action i db = Some a"
    and f: "\<And>x. ac_id (f x) = ac_id x" "ac_status (f a) \<notin> {PREPARED, AUNCERTAIN}"
    and res: "resolve_attention_and_run now (f a) (upd_action i f db) = Inr db'"
  shows "attention_inv db'"
proof -
  let ?db1 = "upd_action i f db"
  have inv1: "attention_inv ?db1"
    by (rule upd_action_inv [OF inv f(1)]) (use a f(2) in \<open>auto simp: shown_def\<close>)
  have i: "ac_id (f a) = i" using a f(1) by (simp add: get_action_id)
  obtain att where att: "scalar_one_or_none (open_attention i ?db1) = Inr att"
      and db': "db' = recompute_run now (ac_run_id (f a)) (case att of None \<Rightarrow> ?db1
        | Some t \<Rightarrow> upd_attention (at_id t) (\<lambda>x. x\<lparr>at_resolved := True, at_resolved_at := Some now\<rparr>) ?db1)"
    using res unfolding resolve_attention_and_run_def i ebind_Inr by blast
  show ?thesis
  proof (cases att)
    case None
    with inv1 db' show ?thesis by (simp add: recompute_inv)
  next
    case (Some t)
    with att have o: "open_attention i ?db1 = [t]" by (simp add: scalar_one_or_none_cases)
    show ?thesis
    proof (rule attention_change [OF inv1, of db' i "f a" "[]"])
      show "open_attention k db' = (if k = i then [] else open_attention k ?db1)" for k
        using open_resolve_one [OF inv1 o] Some db' by simp
    qed (use Some db' a f attention_invD(1) [OF inv1] in
         \<open>auto simp: get_action_upd set_tset\<close>)
  qed
qed

lemma insert_attention_Inr:
  "insert_attention t db = Inr db' \<Longrightarrow> db' = db\<lparr>db_attention := tadd t (db_attention db)\<rparr>
     \<and> tget at_id (at_id t) (db_attention db) = None"
  by (auto simp: insert_attention_def split: if_splits)

lemma open_add:
  "open_attention k (db\<lparr>db_attention := tadd t (db_attention db)\<rparr>)
   = open_attention k db @ (if at_action_id t = Some k \<and> \<not> at_resolved t then [t] else [])"
  by (simp add: open_attention_def tadd_def)

text \<open>An action that became uncertain is shown by \<open>mark_uncertain\<close>.\<close>

lemma mark_uncertain_inv:
  assumes inv: "attention_inv db" and a: "get_action i db = Some a"
    and f: "\<And>x. ac_id (f x) = ac_id x" "ac_status (f a) = AUNCERTAIN"
    and mk: "mark_uncertain L new_id b reason (upd_action i f db) = Inr db'" and b: "ac_id b = i"
  shows "attention_inv db'"
proof -
  let ?db1 = "upd_action i f db"
  let ?g = "\<lambda>x. x\<lparr>at_state := ''uncertain'', at_title := ''Uncertain action: '' @ ac_operation b,
      at_detail := uncertain_detail L b reason\<rparr>"
  define row where "row = uncertain_attention L new_id b reason"
  obtain att db2 where att: "scalar_one_or_none (open_attention i ?db1) = Inr att"
    and step: "(case att of None \<Rightarrow> insert_attention row ?db1
        | Some t \<Rightarrow> Inr (upd_attention (at_id t) ?g ?db1)) = Inr db2"
    and db': "db' = (case get_run (ac_run_id b) db2 of None \<Rightarrow> db2
       | Some run \<Rightarrow> set_schedule_status (rn_schedule_id run) ''uncertain''
           (upd_run (rn_id run) (\<lambda>r. r\<lparr>rn_status := UNCERTAIN, rn_finished_at := None\<rparr>) db2))"
    using mk unfolding mark_uncertain_def b row_def ebind_Inr by blast
  have acts: "db_actions db' = db_actions db2" "db_attention db' = db_attention db2"
    by (simp_all add: db' split: option.splits)
  have db2: "(open_attention i ?db1 = [] \<and> insert_attention row ?db1 = Inr db2)
            \<or> (\<exists>t. open_attention i ?db1 = [t] \<and> db2 = upd_attention (at_id t) ?g ?db1)"
    using att step by (cases att) (simp_all add: scalar_one_or_none_cases)
  have row: "at_action_id row = Some i" "\<not> at_resolved row" "at_state row = ''uncertain''"
    by (simp_all add: row_def uncertain_attention_def b)
  have eq: "get_action k db' = get_action k db2" "open_attention k db' = open_attention k db2" for k
    by (simp_all add: get_action_def open_attention_def acts)
  have act: "get_action k db2 = (if k = i then Some (f a) else get_action k db)" for k
    using db2 a f by (auto simp: get_action_upd get_action_def upd_action_def tget_tset dest!: insert_attention_Inr)
  from db2 consider (new) "open_attention i db = []" "insert_attention row ?db1 = Inr db2"
      | (old) t where "open_attention i db = [t]" "db2 = upd_attention (at_id t) ?g ?db1" by auto
  then show ?thesis
  proof cases
    case new
    then have att: "db_attention db2 = tadd row (db_attention db)" "tget at_id (at_id row) (db_attention db) = None"
      by (auto dest!: insert_attention_Inr)
    have "open_attention k db2 = (if k = i then [row] else open_attention k db)" for k
      using new row by (auto simp: open_attention_def att tadd_def)
    then show ?thesis
      by (intro attention_change [OF inv, of db' i "f a" "[row]"])
         (use row att act f attention_invD(1) [OF inv] in \<open>auto simp: eq acts tget_None_iff\<close>)
  next
    case (old t)
    have "open_attention k (upd_attention (at_id t) ?g ?db1) = (if k = i then [?g t] else open_attention k db)" for k
      using open_restate_one [OF inv old(1), of ?g] by (simp add: open_restate)
    with old(2) show ?thesis
      by (intro attention_change [OF inv, of db' i "f a" "[?g t]"])
         (use act f attention_invD(1) [OF inv] in \<open>auto simp: eq acts set_tset\<close>)
  qed
qed

end
