(* ===== verification/Action_Ledger.thy ===== *)
theory Action_Ledger
  imports Action_Authority
begin

text \<open>
  The operations of \<^verbatim>\<open>AuthorityStore\<close> as one step relation, and what every history of
  them keeps: the attention invariant, the outcome of runs with an uncertain effect, one
  active foreground inference per conversation, and the one-way life of an action.
\<close>

section \<open>What each operation does to the attention rows\<close>

lemma cas_action_Some:
  "cas_action i st f db = Some db' \<longleftrightarrow>
     (\<exists>a. get_action i db = Some a \<and> ac_status a = st \<and> db' = upd_action i f db)"
  by (auto simp: cas_action_def split: option.splits)

lemma insert_action_Inr:
  "insert_action a db = Inr db' \<longleftrightarrow>
     get_action (ac_id a) db = None \<and> get_run (ac_run_id a) db \<noteq> None
     \<and> db' = db\<lparr>db_actions := tadd a (db_actions db)\<rparr>"
  by (auto simp: insert_action_def split: if_splits)

lemma get_action_add:
  "get_action (ac_id a) db = None \<Longrightarrow>
   get_action k (db\<lparr>db_actions := tadd a (db_actions db)\<rparr>) = (if k = ac_id a then Some a else get_action k db)"
  by (auto simp: get_action_def tget_tadd split: option.splits)

lemma open_other [simp]: "open_attention k (db\<lparr>db_actions := xs\<rparr>) = open_attention k db"
  by (simp add: open_attention_def)

lemma open_fresh: "attention_inv db \<Longrightarrow> get_action i db = None \<Longrightarrow> open_attention i db = []"
  by (metis attention_invD(3) list.set_intros(1) neq_Nil_conv open_mem)

lemma set_idempotency_key_get:
  "get_action k (set_idempotency_key i db) =
    (if k = i then map_option (\<lambda>a. a\<lparr>ac_idempotency_key := Some (''atlas:'' @ i)\<rparr>) (get_action k db)
     else get_action k db)"
  by (simp add: set_idempotency_key_def get_action_upd)

lemma set_idempotency_key_frames [simp]:
  "db_attention (set_idempotency_key i db) = db_attention db" "db_runs (set_idempotency_key i db) = db_runs db"
  "db_transcripts (set_idempotency_key i db) = db_transcripts db"
  "open_attention k (set_idempotency_key i db) = open_attention k db"
  by (simp_all add: set_idempotency_key_def)

text \<open>A fresh action that needs no attention row, with its idempotency key.\<close>

lemma insert_action_inv:
  assumes inv: "attention_inv db" and ins: "insert_action a db = Inr db1"
    and st: "ac_status a \<notin> {PREPARED, AUNCERTAIN}"
  shows "attention_inv (set_idempotency_key (ac_id a) db1)"
proof (rule attention_change [OF inv, of _ "ac_id a" "a\<lparr>ac_idempotency_key := Some (''atlas:'' @ ac_id a)\<rparr>" "[]"])
  show "open_attention k (set_idempotency_key (ac_id a) db1) = (if k = ac_id a then [] else open_attention k db)" for k
    using ins open_fresh [OF inv] by (auto simp: insert_action_Inr)
qed (use ins st attention_invD(1) [OF inv] in
     \<open>auto simp: insert_action_Inr set_idempotency_key_get get_action_add\<close>)

lemma built_action_sel [simp]:
  "ac_id (executed_action L now n r opn args st summary out) = n"
  "ac_status (executed_action L now n r opn args st summary out) \<in> {ASUCCEEDED, AFAILED}"
  "ac_id (automatic_action L now n r opn args summary cap) = n"
  "ac_status (automatic_action L now n r opn args summary cap) = EXECUTING"
  by (simp_all add: executed_action_def automatic_action_def Let_def)

lemma executed_action_status:
  "ac_status (executed_action L now n r opn args st summary out) \<notin> {PREPARED, AUNCERTAIN}"
  by (simp add: executed_action_def Let_def)

lemma insert_ops_inv:
  assumes inv: "attention_inv db"
  shows "record_execution L now n r opn args st summary out db = Inr (x, db') \<Longrightarrow> attention_inv db'"
    "begin_automatic_execution L now n r opn args summary cap db = Inr (x, db') \<Longrightarrow> attention_inv db'"
proof -
  show "record_execution L now n r opn args st summary out db = Inr (x, db') \<Longrightarrow> attention_inv db'"
    using insert_action_inv [OF inv _ executed_action_status [of L now n r opn args st summary out]]
    unfolding record_execution_def by auto
  show "begin_automatic_execution L now n r opn args summary cap db = Inr (x, db') \<Longrightarrow> attention_inv db'"
    using insert_action_inv [OF inv, of "automatic_action L now n r opn args summary cap"]
    unfolding begin_automatic_execution_def by auto
qed

lemma prepare_proposal_Inr:
  "prepare_proposal L now new_id att_id run_id operation arguments title cap db = Inr (r, db') \<longleftrightarrow>
    r = new_id \<and> require_managed_task_active (get_run run_id db) db = Inr ()
    \<and> (\<exists>db1 db2. insert_action (prepared_action L now new_id run_id operation arguments title cap) db = Inr db1
        \<and> insert_attention (approval_attention L now att_id new_id run_id operation arguments title)
            (set_idempotency_key new_id db1) = Inr db2
        \<and> db' = recompute_run now run_id db2)"
  unfolding prepare_proposal_def by auto

lemma prepared_action_sel [simp]:
  "ac_id (prepared_action L now n r opn args title cap) = n"
  "ac_run_id (prepared_action L now n r opn args title cap) = r"
  "ac_status (prepared_action L now n r opn args title cap) = PREPARED"
  "ac_operation (prepared_action L now n r opn args title cap) = opn"
  by (simp_all add: prepared_action_def Let_def)

lemma prepare_proposal_inv:
  assumes inv: "attention_inv db"
    and prep: "prepare_proposal L now new_id att_id run_id operation arguments title cap db = Inr (r, db')"
  shows "attention_inv db'"
proof -
  define a where "a = prepared_action L now new_id run_id operation arguments title cap"
  define t where "t = approval_attention L now att_id new_id run_id operation arguments title"
  obtain db1 db2 where ins: "insert_action a db = Inr db1"
    and att: "insert_attention t (set_idempotency_key new_id db1) = Inr db2"
    and db': "db' = recompute_run now run_id db2"
    using prep unfolding prepare_proposal_Inr a_def t_def by blast
  have sel: "ac_id a = new_id" "ac_status a = PREPARED" "at_action_id t = Some new_id" "\<not> at_resolved t"
    by (simp_all add: a_def t_def approval_attention_def)
  let ?b = "a\<lparr>ac_idempotency_key := Some (''atlas:'' @ new_id)\<rparr>"
  have db1: "db1 = db\<lparr>db_actions := tadd a (db_actions db)\<rparr>" "get_action new_id db = None"
    using ins sel by (auto simp: insert_action_Inr)
  have db2: "db_attention db2 = tadd t (db_attention db)" "tget at_id (at_id t) (db_attention db) = None"
      "get_action k db2 = get_action k (set_idempotency_key new_id db1)" for k
    using insert_attention_Inr [OF att] db1 by (auto simp: get_action_def)
  have "attention_inv db2"
  proof (rule attention_change [OF inv, of db2 new_id ?b "[t]"])
    show "open_attention k db2 = (if k = new_id then [t] else open_attention k db)" for k
      using open_fresh [OF inv db1(2)] sel by (auto simp: open_attention_def db2 tadd_def)
  qed (use db1 db2 sel attention_invD(1) [OF inv] in
       \<open>auto simp: set_idempotency_key_get get_action_add tget_None_iff\<close>)
  then show ?thesis by (simp add: db' recompute_inv)
qed

lemma acknowledge_Inr:
  "acknowledge_uncertain L now i db = Inr db' \<longleftrightarrow>
   (\<exists>a t. get_action i db = Some a \<and> ac_status a = AUNCERTAIN \<and> open_attention i db = [t]
     \<and> db' = upd_action i (\<lambda>x. x\<lparr>ac_evidence := json_put ''owner_acknowledged_at''
          (JStr (isoformat L now)) (ac_evidence a)\<rparr>)
        (upd_attention (at_id t) (\<lambda>x. x\<lparr>at_resolved := True, at_resolved_at := Some now\<rparr>) db))"
proof (cases "get_action i db")
  case (Some a)
  then show ?thesis using get_action_id [OF Some]
    unfolding acknowledge_uncertain_def by (auto simp: scalar_one_or_none_cases)
qed (simp add: acknowledge_uncertain_def)

lemma acknowledge_inv:
  assumes inv: "attention_inv db" and ack: "acknowledge_uncertain L now i db = Inr db'"
  shows "attention_inv db'"
proof -
  obtain a t where a: "get_action i db = Some a" "ac_status a = AUNCERTAIN" "ac_id a = i"
    and o: "open_attention i db = [t]"
    and db': "db' = upd_action i (\<lambda>x. x\<lparr>ac_evidence := json_put ''owner_acknowledged_at''
          (JStr (isoformat L now)) (ac_evidence a)\<rparr>)
        (upd_attention (at_id t) (\<lambda>x. x\<lparr>at_resolved := True, at_resolved_at := Some now\<rparr>) db)"
    using ack get_action_id [of i db] unfolding acknowledge_Inr by blast
  show ?thesis
  proof (rule attention_change [OF inv, of db' i
        "a\<lparr>ac_evidence := json_put ''owner_acknowledged_at'' (JStr (isoformat L now)) (ac_evidence a)\<rparr>" "[]"])
    show "open_attention k db' = (if k = i then [] else open_attention k db)" for k
      using open_resolve_one [OF inv o] by (simp add: db')
  qed (use a attention_invD(1) [OF inv] in \<open>auto simp: db' get_action_upd set_tset json_simps\<close>)
qed

text \<open>Dismissing touches only rows without an action.\<close>

lemma dismiss_inv_aux:
  assumes inv: "attention_inv db" and acts: "db_actions db' = db_actions db"
    and rows: "db_attention db' = map (\<lambda>x. if P x then x\<lparr>at_resolved := True, at_resolved_at := w\<rparr> else x) (db_attention db)"
    and P: "\<And>x. x \<in> set (db_attention db) \<Longrightarrow> P x \<Longrightarrow> at_action_id x = None"
  shows "attention_inv db'"
proof -
  have "filter (\<lambda>a. at_action_id a = Some i \<and> \<not> at_resolved a)
          (map (\<lambda>x. if P x then x\<lparr>at_resolved := True, at_resolved_at := w\<rparr> else x) xs)
      = filter (\<lambda>a. at_action_id a = Some i \<and> \<not> at_resolved a) xs"
    if "\<And>x. x \<in> set xs \<Longrightarrow> P x \<Longrightarrow> at_action_id x = None" for xs i
    using that by (induction xs) auto
  with P have "open_attention i db' = open_attention i db" for i
    by (simp add: open_attention_def rows)
  moreover have "map at_id (db_attention db') = map at_id (db_attention db)"
    by (simp add: rows)
  moreover have "get_action i db' = get_action i db" for i
    by (simp add: get_action_def acts)
  moreover have "get_action i db \<noteq> None" if "x \<in> set (db_attention db')" "at_action_id x = Some i" for x i
    using that attention_invD(3) [OF inv, of _ i] by (auto simp: rows split: if_splits)
  ultimately show ?thesis
    using inv by (simp add: attention_inv_def shown_def keyed_def)
qed

lemma dismiss_interruption_inv:
  assumes inv: "attention_inv db" and d: "dismiss_interruption now i db = Inr db'"
  shows "attention_inv db'"
proof (cases "db' = db")
  case False
  with d obtain a where a: "tget at_id i (db_attention db) = Some a" "dismissable a"
    and db': "db' = upd_attention i (\<lambda>x. x\<lparr>at_resolved := True, at_resolved_at := Some now\<rparr>) db"
    by (auto simp: dismiss_interruption_def split: option.splits if_splits)
  show ?thesis
  proof (rule dismiss_inv_aux [OF inv, of db' "\<lambda>x. at_id x = i" "Some now"])
    show "at_action_id x = None" if "x \<in> set (db_attention db)" "at_id x = i" for x
      using that a keyed_inj [OF attention_invD(1) [OF inv], of x a] tget_key [OF a(1)]
      by (auto simp: dismissable_def)
  qed (simp_all add: db' tset_def)
qed (use inv in simp)

lemma dismiss_notices_inv:
  "attention_inv db \<Longrightarrow> dismiss_informational_notices now db = (n, db') \<Longrightarrow> attention_inv db'"
  by (rule dismiss_inv_aux [of db db' "\<lambda>a. \<not> at_resolved a \<and> dismissable a" "Some now"])
     (auto simp: dismiss_informational_notices_def Let_def dismissable_def)

text \<open>The four operations that move an action.\<close>

lemma begin_execution_Inr:
  "begin_execution L now given reviewed db = Inr (p, db') \<longleftrightarrow>
   (\<exists>a. get_action (ac_id given) db = Some a \<and> ac_status a = PREPARED
      \<and> verify_proposal L now a = Inr p \<and> (reviewed = None \<or> reviewed = Some (ac_target_hash a))
      \<and> require_managed_task_active (get_run (ac_run_id given) db) db = Inr ()
      \<and> db' = recompute_run now (ac_run_id a) (upd_action (ac_id given)
          (\<lambda>x. x\<lparr>ac_status := EXECUTING, ac_execution_started_at := Some now, ac_updated_at := now\<rparr>) db))"
proof (cases "get_action (ac_id given) db")
  case (Some a)
  then show ?thesis using get_action_id [OF Some]
    unfolding begin_execution_def by (auto simp: cas_action_Some)
qed (simp add: begin_execution_def)

lemma cancel_Inr:
  "cancel now given db = Inr db' \<longleftrightarrow>
   (\<exists>a. get_action (ac_id given) db = Some a \<and> ac_status a = PREPARED
      \<and> resolve_attention_and_run now a (upd_action (ac_id given) (\<lambda>x. x\<lparr>ac_status := ACANCELLED, ac_updated_at := now,
           ac_evidence := json_put ''decision'' (JStr ''cancelled'') (ac_evidence a)\<rparr>) db) = Inr db')"
proof (cases "get_action (ac_id given) db")
  case (Some a)
  then show ?thesis using get_action_id [OF Some]
    by (cases "ac_status a = PREPARED") (simp_all add: cancel_def cas_action_def)
qed (simp add: cancel_def)

definition completed_row :: "time \<Rightarrow> action_status \<Rightarrow> json_obj \<Rightarrow> action_row \<Rightarrow> action_row" where
  "completed_row now status ev x = x\<lparr>ac_status := status, ac_updated_at := now, ac_evidence := ev\<rparr>"

lemma completed_row_sel [simp]:
  "ac_id (completed_row now st ev x) = ac_id x" "ac_run_id (completed_row now st ev x) = ac_run_id x"
  "ac_status (completed_row now st ev x) = st" "ac_evidence (completed_row now st ev x) = ev"
  "ac_operation (completed_row now st ev x) = ac_operation x"
  "ac_target_hash (completed_row now st ev x) = ac_target_hash x"
  "ac_idempotency_key (completed_row now st ev x) = ac_idempotency_key x"
  by (simp_all add: completed_row_def)

lemma complete_Inr:
  "complete L now att_id i status result ext db = Inr db' \<longleftrightarrow>
   (\<exists>a f. get_action i db = Some a \<and> ac_status a = EXECUTING \<and> status \<in> {ASUCCEEDED, AFAILED, AUNCERTAIN}
      \<and> f = completed_row now status (completion_evidence a result ext)
      \<and> (if status = AUNCERTAIN then mark_uncertain L att_id (f a) None (upd_action i f db)
         else resolve_attention_and_run now (f a) (upd_action i f db)) = Inr db')"
proof (cases "get_action i db")
  case (Some a)
  then show ?thesis
    unfolding complete_def completed_row_def [abs_def] Let_def
    by (cases "ac_status a = EXECUTING") (simp_all add: cas_action_def)
qed (simp add: complete_def)

lemma begin_execution_inv:
  assumes inv: "attention_inv db" and beg: "begin_execution L now given reviewed db = Inr (p, db')"
  shows "attention_inv db'"
proof -
  obtain a where "get_action (ac_id given) db = Some a"
    "db' = recompute_run now (ac_run_id a) (upd_action (ac_id given)
          (\<lambda>x. x\<lparr>ac_status := EXECUTING, ac_execution_started_at := Some now, ac_updated_at := now\<rparr>) db)"
    using beg unfolding begin_execution_Inr by blast
  then show ?thesis
    using upd_action_inv [OF inv, of "\<lambda>x. x\<lparr>ac_status := EXECUTING, ac_execution_started_at := Some now, ac_updated_at := now\<rparr>"]
    by (simp add: recompute_inv shown_def)
qed

lemma resolve_id_cong:
  "ac_id a = ac_id b \<Longrightarrow> ac_run_id a = ac_run_id b \<Longrightarrow>
   resolve_attention_and_run now a db = resolve_attention_and_run now b db"
  by (simp add: resolve_attention_and_run_def)

lemma cancel_inv:
  assumes inv: "attention_inv db" and c: "cancel now given db = Inr db'"
  shows "attention_inv db'"
proof -
  obtain a where a: "get_action (ac_id given) db = Some a"
    and res: "resolve_attention_and_run now a (upd_action (ac_id given) (\<lambda>x. x\<lparr>ac_status := ACANCELLED, ac_updated_at := now,
           ac_evidence := json_put ''decision'' (JStr ''cancelled'') (ac_evidence a)\<rparr>) db) = Inr db'"
    using c unfolding cancel_Inr by blast
  let ?f = "\<lambda>x. x\<lparr>ac_status := ACANCELLED, ac_updated_at := now,
       ac_evidence := json_put ''decision'' (JStr ''cancelled'') (ac_evidence a)\<rparr>"
  have "resolve_attention_and_run now (?f a) (upd_action (ac_id given) ?f db) = Inr db'"
    using res by (simp add: resolve_id_cong [of "?f a" a])
  then show ?thesis by (rule close_action_inv [OF inv a, rotated 2]) simp_all
qed

lemma complete_inv:
  assumes inv: "attention_inv db" and c: "complete L now att_id i status result ext db = Inr db'"
  shows "attention_inv db'"
proof -
  obtain a f where a: "get_action i db = Some a" and st: "status \<in> {ASUCCEEDED, AFAILED, AUNCERTAIN}"
    and f: "f = completed_row now status (completion_evidence a result ext)"
    and res: "(if status = AUNCERTAIN then mark_uncertain L att_id (f a) None (upd_action i f db)
         else resolve_attention_and_run now (f a) (upd_action i f db)) = Inr db'"
    using c unfolding complete_Inr by blast
  note sel = get_action_id [OF a] f
  show ?thesis
  proof (cases "status = AUNCERTAIN")
    case True
    with res sel show ?thesis
      by (intro mark_uncertain_inv [OF inv a, of f L att_id "f a" None db']) simp_all
  next
    case False
    with res st sel show ?thesis
      by (intro close_action_inv [OF inv a, of f now db']) auto
  qed
qed


section \<open>The run invariant\<close>

text \<open>
  Actions have distinct identities and a run; a run with an uncertain action is reported
  as uncertain and unfinished; a conversation has one active foreground inference.
\<close>

definition marked :: "'x auth_db_scheme \<Rightarrow> uuid \<Rightarrow> bool" where
  "marked db i = (case get_run i db of None \<Rightarrow> False | Some r \<Rightarrow> rn_status r = UNCERTAIN \<and> rn_finished_at r = None)"

definition run_inv :: "'x auth_db_scheme \<Rightarrow> bool" where
  "run_inv db =
    (keyed ac_id (db_actions db)
   \<and> (\<forall>a \<in> set (db_actions db). get_run (ac_run_id a) db \<noteq> None)
   \<and> (\<forall>a \<in> set (db_actions db). ac_status a = AUNCERTAIN \<longrightarrow> marked db (ac_run_id a))
   \<and> (\<forall>t. length (active_foreground t db) \<le> 1))"

lemma run_invD:
  assumes "run_inv db"
  shows "keyed ac_id (db_actions db)" "a \<in> set (db_actions db) \<Longrightarrow> get_run (ac_run_id a) db \<noteq> None"
    "a \<in> set (db_actions db) \<Longrightarrow> ac_status a = AUNCERTAIN \<Longrightarrow> marked db (ac_run_id a)"
    "length (active_foreground t db) \<le> 1"
  using assms by (auto simp: run_inv_def)

lemma run_inv_cong:
  "db_actions db' = db_actions db \<Longrightarrow> db_runs db' = db_runs db \<Longrightarrow> run_inv db' = run_inv db"
  by (simp add: run_inv_def marked_def get_run_def active_foreground_def)

text \<open>A write of a run that starts no inference.\<close>

lemma active_foreground_upd:
  assumes "\<And>r. rn_transcript_id (f r) = rn_transcript_id r" "\<And>r. rn_kind (f r) = rn_kind r"
    "\<And>r. rn_inference_active (f r) \<Longrightarrow> rn_inference_active r"
  shows "length (active_foreground t (upd_run i f db)) \<le> length (active_foreground t db)"
proof -
  let ?P = "\<lambda>r. rn_transcript_id r = Some t \<and> rn_kind r = FOREGROUND \<and> rn_inference_active r"
  have "length (filter ?P (tset rn_id i f xs)) \<le> length (filter ?P xs)" for xs
    by (induction xs) (auto simp: assms)
  then show ?thesis by (simp add: active_foreground_def upd_run_def)
qed

lemma get_run_upd:
  "(\<And>r. rn_id (f r) = rn_id r) \<Longrightarrow>
   get_run i (upd_run k f db) = (if i = k then map_option f (get_run i db) else get_run i db)"
  by (simp add: get_run_def upd_run_def tget_tset)

lemma active_foreground_cong [simp]:
  "active_foreground t (upd_action i g db) = active_foreground t db"
  "active_foreground t (upd_attention i h db) = active_foreground t db"
  "active_foreground t (set_schedule_status x st db) = active_foreground t db"
  by (simp_all add: active_foreground_def)

lemma upd_run_inv:
  assumes inv: "run_inv db" and f: "\<And>r. rn_id (f r) = rn_id r" "\<And>r. rn_transcript_id (f r) = rn_transcript_id r"
    "\<And>r. rn_kind (f r) = rn_kind r" "\<And>r. rn_inference_active (f r) \<Longrightarrow> rn_inference_active r"
    and ok: "marked db i \<Longrightarrow> marked (upd_run i f db) i"
  shows "run_inv (upd_run i f db)"
proof -
  have "marked (upd_run i f db) k" if "marked db k" for k
    using that ok by (cases "k = i") (auto simp: marked_def get_run_upd f)
  moreover have "length (active_foreground t (upd_run i f db)) \<le> 1" for t
    using active_foreground_upd [of f t i db] f run_invD(4) [OF inv, of t] by simp
  ultimately show ?thesis
    using inv by (auto simp: run_inv_def get_run_upd f)
qed

text \<open>Recomputing a run: the uncertain actions of the run decide.\<close>

lemma recompute_get_run:
  "get_run k (recompute_run now i db) = (if k = i then map_option (\<lambda>r. r
     \<lparr>rn_status := aggregate_status (action_statuses i db) r,
      rn_finished_at := (if aggregate_status (action_statuses i db) r
          \<in> {SUCCEEDED, FAILED, CANCELLED, INTERRUPTED} then Some now else None)\<rparr>) (get_run k db)
   else get_run k db)"
  by (auto simp: recompute_run_def Let_def get_run_upd split: option.splits)

lemma recompute_run_inv:
  assumes keys: "keyed ac_id (db_actions db)"
    and refs: "\<And>a. a \<in> set (db_actions db) \<Longrightarrow> get_run (ac_run_id a) db \<noteq> None"
    and unc: "\<And>a. a \<in> set (db_actions db) \<Longrightarrow> ac_status a = AUNCERTAIN \<Longrightarrow> ac_run_id a \<noteq> i \<Longrightarrow> marked db (ac_run_id a)"
    and one: "\<And>t. length (active_foreground t db) \<le> 1"
  shows "run_inv (recompute_run now i db)"
proof -
  have "marked (recompute_run now i db) (ac_run_id a)"
    if a: "a \<in> set (db_actions db)" "ac_status a = AUNCERTAIN" for a
  proof (cases "ac_run_id a = i")
    case True
    with a have "AUNCERTAIN \<in> action_statuses i db" by (force simp: action_statuses_def)
    then have "aggregate_status (action_statuses i db) r = UNCERTAIN" for r
      by (simp add: aggregate_status_def)
    with True refs [OF a(1)] show ?thesis by (auto simp: marked_def recompute_get_run)
  next
    case False
    with unc a show ?thesis by (simp add: marked_def recompute_get_run)
  qed
  moreover have "length (active_foreground t (recompute_run now i db)) \<le> 1" for t
  proof (cases "get_run i db")
    case (Some r)
    then show ?thesis
      using one [of t] le_trans [OF active_foreground_upd [of "\<lambda>r. r\<lparr>rn_status := s, rn_finished_at := w\<rparr>" t i db for s w]]
      by (simp add: recompute_run_def Let_def)
  qed (simp add: recompute_run_def one [simplified])
  ultimately show ?thesis
    using keys refs by (auto simp: run_inv_def recompute_get_run)
qed

lemma recompute_keeps_run_inv: "run_inv db \<Longrightarrow> run_inv (recompute_run now i db)"
  by (rule recompute_run_inv) (auto simp: run_inv_def)

lemma upd_action_set: "x \<in> set (db_actions (upd_action i f db)) \<Longrightarrow>
    \<exists>a \<in> set (db_actions db). x = a \<and> ac_id a \<noteq> i \<or> x = f a \<and> ac_id a = i"
  by (auto simp: upd_action_def set_tset split: if_splits)

lemma upd_action_run_inv:
  assumes inv: "run_inv db" and f: "\<And>x. ac_id (f x) = ac_id x" "\<And>x. ac_run_id (f x) = ac_run_id x"
    and st: "\<And>a. get_action i db = Some a \<Longrightarrow> ac_status (f a) = AUNCERTAIN \<Longrightarrow> ac_status a = AUNCERTAIN"
  shows "run_inv (upd_action i f db)"
proof -
  have here: "get_action i db = Some a" if "a \<in> set (db_actions db)" "ac_id a = i" for a
    using that keyed_tget [OF run_invD(1) [OF inv], of a] by (simp add: get_action_def)
  have "keyed ac_id (db_actions (upd_action i f db))"
    using run_invD(1) [OF inv] f by (simp add: upd_action_def)
  then show ?thesis
    using inv f st here by (auto simp: run_inv_def marked_def dest!: upd_action_set)
qed

lemma insert_action_run_inv:
  assumes inv: "run_inv db" and ins: "insert_action a db = Inr db1" and st: "ac_status a \<noteq> AUNCERTAIN"
  shows "run_inv (set_idempotency_key (ac_id a) db1)"
proof -
  have "run_inv db1"
    using inv ins st
    by (auto simp: run_inv_def insert_action_Inr marked_def get_run_def active_foreground_def
        get_action_def tget_None_iff)
  then show ?thesis
    unfolding set_idempotency_key_def by (rule upd_action_run_inv) simp_all
qed

lemma resolve_run_inv:
  assumes inv: "run_inv db" and res: "resolve_attention_and_run now a db = Inr db'"
  shows "run_inv db'"
proof -
  obtain att where "scalar_one_or_none (open_attention (ac_id a) db) = Inr att"
    and db': "db' = recompute_run now (ac_run_id a) (case att of None \<Rightarrow> db
        | Some t \<Rightarrow> upd_attention (at_id t) (\<lambda>x. x\<lparr>at_resolved := True, at_resolved_at := Some now\<rparr>) db)"
    using res unfolding resolve_attention_and_run_def ebind_Inr by blast
  have "run_inv (upd_attention k f db)" for k f
    using run_inv_cong [of "upd_attention k f db" db] inv by simp
  with inv show ?thesis by (auto simp: db' intro!: recompute_keeps_run_inv split: option.splits)
qed

text \<open>What \<open>mark_uncertain\<close> leaves of the actions and the runs.\<close>

lemma mark_uncertain_frames:
  assumes mk: "mark_uncertain L new_id b reason db = Inr db'"
  shows "db_actions db' = db_actions db"
    "db_runs db' = tset rn_id (ac_run_id b) (\<lambda>r. r\<lparr>rn_status := UNCERTAIN, rn_finished_at := None\<rparr>) (db_runs db)"
proof -
  obtain att db1 where "scalar_one_or_none (open_attention (ac_id b) db) = Inr att"
    and step: "(case att of None \<Rightarrow> insert_attention (uncertain_attention L new_id b reason) db
        | Some t \<Rightarrow> Inr (upd_attention (at_id t) (\<lambda>x. x\<lparr>at_state := ''uncertain'',
           at_title := ''Uncertain action: '' @ ac_operation b, at_detail := uncertain_detail L b reason\<rparr>) db)) = Inr db1"
    and db': "db' = (case get_run (ac_run_id b) db1 of None \<Rightarrow> db1
       | Some run \<Rightarrow> set_schedule_status (rn_schedule_id run) ''uncertain''
           (upd_run (rn_id run) (\<lambda>r. r\<lparr>rn_status := UNCERTAIN, rn_finished_at := None\<rparr>) db1))"
    using mk unfolding mark_uncertain_def ebind_Inr by blast
  have db1: "db_actions db1 = db_actions db" "db_runs db1 = db_runs db"
    using step insert_attention_Inr [of "uncertain_attention L new_id b reason" db db1] by (cases att; auto)+
  show "db_actions db' = db_actions db"
    by (simp add: db' db1 split: option.splits)
  have "tset rn_id (ac_run_id b) f (db_runs db) = db_runs db" if "get_run (ac_run_id b) db1 = None" for f
    using that by (intro tset_id) (auto simp: get_run_def db1 tget_None_iff image_iff)
  then show "db_runs db' = tset rn_id (ac_run_id b) (\<lambda>r. r\<lparr>rn_status := UNCERTAIN, rn_finished_at := None\<rparr>) (db_runs db)"
    by (auto simp: db' db1 upd_run_def dest: get_run_id split: option.splits)
qed

lemma mark_uncertain_run_inv:
  assumes inv: "run_inv db" and f: "\<And>x. ac_id (f x) = ac_id x" "\<And>x. ac_run_id (f x) = ac_run_id x"
    and a: "get_action i db = Some a" and b: "ac_run_id b = ac_run_id a"
    and mk: "mark_uncertain L new_id b reason (upd_action i f db) = Inr db'"
  shows "run_inv db'"
proof -
  let ?g = "\<lambda>r. r\<lparr>rn_status := UNCERTAIN, rn_finished_at := None\<rparr>"
  note fr = mark_uncertain_frames [OF mk, unfolded b upd_frames]
  have runs: "get_run k db' = get_run k (upd_run (ac_run_id a) ?g db)" for k
    by (simp add: get_run_def fr upd_run_def)
  have here: "x = a" if "x \<in> set (db_actions db)" "ac_id x = i" for x
    using that a keyed_tget [OF run_invD(1) [OF inv], of x] by (simp add: get_action_def)
  have some: "get_run (ac_run_id a) db \<noteq> None"
    using a run_invD(2) [OF inv] by (auto simp: get_action_def dest!: tget_key)
  have "marked db' (ac_run_id x)" if "x \<in> set (db_actions db)" "ac_id x = i \<or> ac_status x = AUNCERTAIN" for x
    using that here [of x] run_invD(3) [OF inv, of x] some
    by (cases "ac_run_id x = ac_run_id a") (auto simp: marked_def runs get_run_upd)
  moreover have "length (active_foreground t db') \<le> 1" for t
    using active_foreground_upd [of ?g t "ac_run_id a" db] run_invD(4) [OF inv, of t]
    by (simp add: active_foreground_def fr upd_run_def)
  moreover have "get_run (ac_run_id x) db' \<noteq> None" if "x \<in> set (db_actions db)" for x
    using run_invD(2) [OF inv that] by (auto simp: runs get_run_upd)
  moreover have "keyed ac_id (db_actions (upd_action i f db))"
    using run_invD(1) [OF inv] f(1) by (simp add: upd_action_def)
  ultimately show ?thesis
    using f by (auto simp: run_inv_def fr(1) dest!: upd_action_set)
qed

section \<open>Operations keep the run invariant\<close>

lemma create_run_Inr:
  assumes "create_run now i tr intent kind db = Inr (x, db')"
  obtains run where "db' = db\<lparr>db_runs := tadd run (db_runs db)\<rparr>" "get_run i db = None" "rn_id run = i"
    "rn_transcript_id run = tr" "rn_kind run = kind"
    "\<And>t. tr = Some t \<Longrightarrow> kind = FOREGROUND \<Longrightarrow> active_foreground t db = []"
proof
  let ?run = "\<lparr>rn_id = i, rn_kind = kind, rn_status = RUNNING, rn_transcript_id = tr,
        rn_intent = Some intent, rn_finished_at = None, rn_inference_active = True,
        rn_inference_status = ''running'', rn_heartbeat_at = Some now, rn_schedule_id = None,
        rn_scheduled_for = None, rn_trigger_snapshot = []\<rparr>"
  show "db' = db\<lparr>db_runs := tadd ?run (db_runs db)\<rparr>" "get_run i db = None"
    using assms by (auto simp: create_run_def Let_def split: sum.splits option.splits if_splits)
  show "active_foreground t db = []" if "tr = Some t" "kind = FOREGROUND" for t
    using assms that by (auto simp: create_run_def Let_def scalar_one_or_none_cases split: sum.splits option.splits if_splits)
qed simp_all

lemma create_run_run_inv:
  assumes inv: "run_inv db" and c: "create_run now i tr intent kind db = Inr (x, db')"
  shows "run_inv db'"
proof -
  obtain run where db': "db' = db\<lparr>db_runs := tadd run (db_runs db)\<rparr>" and fresh: "get_run i db = None"
    and run: "rn_id run = i" "rn_transcript_id run = tr" "rn_kind run = kind"
    and free: "\<And>t. tr = Some t \<Longrightarrow> kind = FOREGROUND \<Longrightarrow> active_foreground t db = []"
    using create_run_Inr [OF c] by metis
  have get: "get_run k db' = (if k = i then Some run else get_run k db)" for k
    using fresh run by (auto simp: db' get_run_def tget_tadd split: option.splits)
  have "length (active_foreground t db') \<le> 1" for t
    using free [of t] run run_invD(4) [OF inv, of t] by (auto simp: active_foreground_def db' tadd_def)
  moreover have "marked db' k" if "marked db k" for k
    using that fresh by (auto simp: marked_def get)
  moreover have "get_run k db' \<noteq> None" if "get_run k db \<noteq> None" for k
    using that by (simp add: get)
  moreover have "db_actions db' = db_actions db" by (simp add: db')
  ultimately show ?thesis using inv by (simp add: run_inv_def)
qed

lemma finish_run_run_inv:
  assumes inv: "run_inv db" and fin: "finish_run now i ok db = Inr db'"
  shows "run_inv db'"
proof -
  let ?f = "\<lambda>r. r\<lparr>rn_inference_active := False, rn_inference_status := (if ok then ''succeeded'' else ''failed'')\<rparr>"
  have "db' = db \<or> db' = recompute_run now i (upd_run i ?f db)"
    using fin by (auto simp: finish_run_def split: option.splits if_splits)
  moreover have "run_inv (upd_run i ?f db)"
    by (rule upd_run_inv [OF inv]) (auto simp: marked_def get_run_upd split: option.splits)
  ultimately show ?thesis using inv recompute_keeps_run_inv by blast
qed

lemma action_ops_run_inv:
  assumes inv: "run_inv db"
  shows
    "record_execution L now n r opn args st summary out db = Inr (x, db') \<Longrightarrow> run_inv db'"
    "begin_automatic_execution L now n r opn args summary cap db = Inr (x, db') \<Longrightarrow> run_inv db'"
    "begin_execution L now given reviewed db = Inr (p, db') \<Longrightarrow> run_inv db'"
    "cancel now given db = Inr db' \<Longrightarrow> run_inv db'"
    "acknowledge_uncertain L now i db = Inr db' \<Longrightarrow> run_inv db'"
proof -
  show "record_execution L now n r opn args st summary out db = Inr (x, db') \<Longrightarrow> run_inv db'"
    using insert_action_run_inv [OF inv, of "executed_action L now n r opn args st summary out"]
      executed_action_status [of L now n r opn args st summary out] unfolding record_execution_def by auto
  show "begin_automatic_execution L now n r opn args summary cap db = Inr (x, db') \<Longrightarrow> run_inv db'"
    using insert_action_run_inv [OF inv, of "automatic_action L now n r opn args summary cap"]
    unfolding begin_automatic_execution_def by auto
  show "begin_execution L now given reviewed db = Inr (p, db') \<Longrightarrow> run_inv db'"
    unfolding begin_execution_Inr
    by (auto intro!: recompute_keeps_run_inv upd_action_run_inv [OF inv])
  show "cancel now given db = Inr db' \<Longrightarrow> run_inv db'"
    unfolding cancel_Inr by (elim exE conjE, erule resolve_run_inv [rotated]) (rule upd_action_run_inv [OF inv]; simp)
  have att: "run_inv (upd_attention k f db)" for k f
    using run_inv_cong [of "upd_attention k f db" db] inv by simp
  show "acknowledge_uncertain L now i db = Inr db' \<Longrightarrow> run_inv db'"
    unfolding acknowledge_Inr by (elim exE conjE, hypsubst) (rule upd_action_run_inv [OF att]; simp)
qed

lemma complete_run_inv:
  assumes inv: "run_inv db" and c: "complete L now att_id i status result ext db = Inr db'"
  shows "run_inv db'"
proof -
  obtain a f where a: "get_action i db = Some a"
    and f: "f = completed_row now status (completion_evidence a result ext)"
    and res: "(if status = AUNCERTAIN then mark_uncertain L att_id (f a) None (upd_action i f db)
         else resolve_attention_and_run now (f a) (upd_action i f db)) = Inr db'"
    using c unfolding complete_Inr by blast
  show ?thesis
  proof (cases "status = AUNCERTAIN")
    case True
    with res f show ?thesis
      by (intro mark_uncertain_run_inv [OF inv _ _ a, of f "f a" L att_id None db']) simp_all
  next
    case False
    with res f show ?thesis
      by (intro resolve_run_inv [OF upd_action_run_inv [OF inv, of f i], of now "f a" db']) simp_all
  qed
qed

lemma prepare_proposal_run_inv:
  assumes inv: "run_inv db"
    and prep: "prepare_proposal L now n att r opn args title cap db = Inr (x, db')"
  shows "run_inv db'"
proof -
  obtain db1 db2 where ins: "insert_action (prepared_action L now n r opn args title cap) db = Inr db1"
    and att: "insert_attention (approval_attention L now att n r opn args title) (set_idempotency_key n db1) = Inr db2"
    and db': "db' = recompute_run now r db2"
    using prep unfolding prepare_proposal_Inr by blast
  have "run_inv (set_idempotency_key n db1)"
    using insert_action_run_inv [OF inv ins] by simp
  then have "run_inv db2"
    using insert_attention_Inr [OF att] run_inv_cong [of db2 "set_idempotency_key n db1"] by simp
  then show ?thesis by (simp add: db' recompute_keeps_run_inv)
qed

section \<open>The life of an action\<close>

text \<open>One transition of an action, and what a history of them can reach.\<close>

fun edge :: "action_status \<Rightarrow> action_status \<Rightarrow> bool" where
  "edge PREPARED t = (t \<in> {PREPARED, EXECUTING, ACANCELLED})"
| "edge EXECUTING t = (t \<in> {EXECUTING, ASUCCEEDED, AFAILED, AUNCERTAIN})"
| "edge s t = (s = t)"

fun advances :: "action_status \<Rightarrow> action_status \<Rightarrow> bool" where
  "advances PREPARED t = True"
| "advances EXECUTING t = (t \<notin> {PREPARED, ACANCELLED})"
| "advances s t = (s = t)"

lemma edge_advances: "edge s t \<Longrightarrow> advances s t"
  by (cases s) auto

lemma edge_refl [simp]: "edge s s"
  by (cases s) auto

lemma advances_refl [simp]: "advances s s"
  by (cases s) auto

lemma advances_trans: "advances s t \<Longrightarrow> advances t u \<Longrightarrow> advances s u"
  by (cases s; cases t) auto

text \<open>What the owner reviewed does not change: the operation, its digest and its proposal.\<close>

definition same_effect :: "action_row \<Rightarrow> action_row \<Rightarrow> bool" where
  "same_effect a b = (ac_id b = ac_id a \<and> ac_run_id b = ac_run_id a \<and> ac_operation b = ac_operation a
     \<and> ac_target_hash b = ac_target_hash a \<and> ac_idempotency_key b = ac_idempotency_key a
     \<and> json_get ''proposal'' (ac_evidence b) = json_get ''proposal'' (ac_evidence a))"

definition moves :: "(action_status \<Rightarrow> action_status \<Rightarrow> bool) \<Rightarrow> 'x auth_db_scheme \<Rightarrow> 'x auth_db_scheme \<Rightarrow> bool" where
  "moves R db db' = (\<forall>i a. get_action i db = Some a \<longrightarrow>
     (\<exists>b. get_action i db' = Some b \<and> same_effect a b \<and> R (ac_status a) (ac_status b)))"

lemma same_effect_refl [simp]: "same_effect a a"
  by (simp add: same_effect_def)

lemma same_effect_trans: "same_effect a b \<Longrightarrow> same_effect b c \<Longrightarrow> same_effect a c"
  by (simp add: same_effect_def)

lemma moves_trans:
  assumes "\<And>s t u. R s t \<Longrightarrow> R t u \<Longrightarrow> R s u" "moves R db db'" "moves R db' db''"
  shows "moves R db db''"
  unfolding moves_def
proof (intro allI impI)
  fix i a
  assume "get_action i db = Some a"
  with assms(2) obtain b where b: "get_action i db' = Some b" "same_effect a b" "R (ac_status a) (ac_status b)"
    unfolding moves_def by blast
  with assms(3) obtain c where "get_action i db'' = Some c" "same_effect b c" "R (ac_status b) (ac_status c)"
    unfolding moves_def by blast
  with b assms(1) show "\<exists>c. get_action i db'' = Some c \<and> same_effect a c \<and> R (ac_status a) (ac_status c)"
    by (blast intro: same_effect_trans)
qed

lemma moves_mono: "(\<And>s t. R s t \<Longrightarrow> S s t) \<Longrightarrow> moves R db db' \<Longrightarrow> moves S db db'"
  unfolding moves_def by metis

lemma moves_same:
  "(\<And>s. R s s) \<Longrightarrow> db_actions db' = db_actions db \<Longrightarrow> moves R db db'"
  by (auto simp: moves_def get_action_def)

lemma moves_cong: "db_actions db'' = db_actions db' \<Longrightarrow> moves R db db'' = moves R db db'"
  by (simp add: moves_def get_action_def)

lemma moves_cong_left: "db_actions d = db_actions db \<Longrightarrow> moves R d db' = moves R db db'"
  by (simp add: moves_def get_action_def)

lemma moves_upd:
  assumes "\<And>s. R s s" "\<And>x. ac_id (f x) = ac_id x" "get_action i db = Some a"
    "same_effect a (f a)" "R (ac_status a) (ac_status (f a))"
  shows "moves R db (upd_action i f db)"
  using assms by (auto simp: moves_def get_action_upd)

lemma moves_insert:
  assumes "\<And>s. R s s" "insert_action a db = Inr db1"
  shows "moves R db (set_idempotency_key (ac_id a) db1)"
  using assms by (auto simp: moves_def insert_action_Inr set_idempotency_key_get get_action_add)

lemma completion_proposal [simp]:
  "json_get ''proposal'' (completion_evidence a result ext) = json_get ''proposal'' (ac_evidence a)"
  by (simp add: completion_evidence_def Let_def json_simps)

lemma resolve_actions: "resolve_attention_and_run now a db = Inr db' \<Longrightarrow> db_actions db' = db_actions db"
  unfolding resolve_attention_and_run_def ebind_Inr sum.inject
  by (elim exE conjE, hypsubst) (simp split: option.split)

text \<open>The heartbeat of \<^verbatim>\<open>maintain_heartbeat\<close>; the flag says whether a row matched.\<close>

definition heartbeat :: "time \<Rightarrow> uuid \<Rightarrow> 'x auth_db_scheme \<Rightarrow> bool \<times> 'x auth_db_scheme" where
  "heartbeat now i db = (case get_run i db of
      Some r \<Rightarrow> if rn_inference_active r then (True, upd_run i (\<lambda>r. r\<lparr>rn_heartbeat_at := Some now\<rparr>) db) else (False, db)
    | None \<Rightarrow> (False, db))"

text \<open>
  An observation sink records evidence elsewhere: it leaves the ledger tables alone.
\<close>

definition quiet :: "(action_row \<Rightarrow> run_row option \<Rightarrow> 'x auth_db_scheme \<Rightarrow> auth_error + 'x auth_db_scheme) \<Rightarrow> bool" where
  "quiet sink = (\<forall>a r db db'. sink a r db = Inr db' \<longrightarrow> db_actions db' = db_actions db
     \<and> db_runs db' = db_runs db \<and> db_attention db' = db_attention db)"

inductive auth_step :: "lib \<Rightarrow> 'x auth_db_scheme \<Rightarrow> 'x auth_db_scheme \<Rightarrow> bool" for L where
  create: "create_run now i tr intent kind db = Inr (x, db') \<Longrightarrow> auth_step L db db'"
| recorded: "record_execution L now n r opn args st summary out db = Inr (x, db') \<Longrightarrow> auth_step L db db'"
| prepare: "prepare_proposal L now n att r opn args title cap db = Inr (x, db') \<Longrightarrow> auth_step L db db'"
| begun: "begin_execution L now given reviewed db = Inr (p, db') \<Longrightarrow> auth_step L db db'"
| automatic: "begin_automatic_execution L now n r opn args summary cap db = Inr (x, db') \<Longrightarrow> auth_step L db db'"
| cancelled: "cancel now given db = Inr db' \<Longrightarrow> auth_step L db db'"
| completed: "complete L now att i st result ext db = Inr db' \<Longrightarrow> auth_step L db db'"
| finish: "finish_run now i ok db = Inr db' \<Longrightarrow> auth_step L db db'"
| reconcile: "reconcile_stale_executions L now stale ids sink db = Inr (k, db') \<Longrightarrow> quiet sink \<Longrightarrow> auth_step L db db'"
| dismiss: "dismiss_interruption now i db = Inr db' \<Longrightarrow> auth_step L db db'"
| dismiss_all: "dismiss_informational_notices now db = (k, db') \<Longrightarrow> auth_step L db db'"
| acknowledge: "acknowledge_uncertain L now i db = Inr db' \<Longrightarrow> auth_step L db db'"
| beat: "heartbeat now i db = (ok, db') \<Longrightarrow> auth_step L db db'"

definition ledger_inv :: "'x auth_db_scheme \<Rightarrow> bool" where
  "ledger_inv db = (attention_inv db \<and> run_inv db)"

lemma ledger_inv_cong:
  "db_actions db' = db_actions db \<Longrightarrow> db_runs db' = db_runs db \<Longrightarrow> db_attention db' = db_attention db \<Longrightarrow>
   ledger_inv db' = ledger_inv db"
  by (simp add: ledger_inv_def attention_inv_cong [of db' db] run_inv_cong [of db' db])

text \<open>One effect abandoned: the row of the loop is the stored row, so both halves apply.\<close>

definition gives_up :: "action_status \<Rightarrow> action_status \<Rightarrow> bool" where
  "gives_up s t = (t = s \<or> s = EXECUTING \<and> t = AUNCERTAIN)"

lemma abandon_step:
  assumes inv: "ledger_inv db" and a: "get_action i db = Some a" "ac_status a = EXECUTING"
    and f: "f = (\<lambda>x. x\<lparr>ac_status := AUNCERTAIN, ac_updated_at := now\<rparr>)"
    and b: "ac_id b = i" "ac_run_id b = ac_run_id a"
    and mk: "mark_uncertain L n b reason (upd_action i f db) = Inr db'"
  shows "ledger_inv db'" "moves gives_up db db'"
proof -
  have "attention_inv db'"
    using inv by (intro mark_uncertain_inv [OF _ a(1) _ _ mk b(1)]) (simp_all add: ledger_inv_def f)
  moreover have "run_inv db'"
    using inv by (intro mark_uncertain_run_inv [OF _ _ _ a(1) b(2) mk]) (simp_all add: ledger_inv_def f)
  ultimately show "ledger_inv db'" by (simp add: ledger_inv_def)
  have "moves gives_up db (upd_action i f db)"
    by (rule moves_upd [OF _ _ a(1)]) (simp_all add: f a same_effect_def gives_up_def)
  then show "moves gives_up db db'"
    using moves_cong [of db' "upd_action i f db"] mark_uncertain_frames(1) [OF mk] by simp
qed

text \<open>The rows the loop works on are rows of the table, up to what happened since.\<close>

definition tracked :: "action_row list \<Rightarrow> 'x auth_db_scheme \<Rightarrow> bool" where
  "tracked rows db = (\<forall>a \<in> set rows. \<exists>b. get_action (ac_id a) db = Some b \<and> ac_run_id b = ac_run_id a)"

lemma tracked_moves: "tracked rows db \<Longrightarrow> moves R db db' \<Longrightarrow> tracked rows db'"
  unfolding tracked_def moves_def same_effect_def by metis

lemma gives_up_trans: "gives_up s t \<Longrightarrow> gives_up t u \<Longrightarrow> gives_up s u"
  by (auto simp: gives_up_def)

lemma reconcile_loop_keeps:
  assumes "reconcile_loop L now stale ids sink rows db = Inr (n, db')" "ledger_inv db" "tracked rows db" "quiet sink"
  shows "ledger_inv db' \<and> moves gives_up db db'"
  using assms
proof (induction rows arbitrary: db n)
  case Nil
  then show ?case by (simp add: moves_same gives_up_def)
next
  case (Cons a rest)
  let ?f = "\<lambda>x. x\<lparr>ac_status := AUNCERTAIN, ac_updated_at := now\<rparr>"
  have rest: "tracked rest db" using Cons.prems by (simp add: tracked_def)
  consider (skip) "reconcile_loop L now stale ids sink rest db = Inr (n, db')"
    | (hit) b db2 db3 m where "get_action (ac_id a) db = Some b" "ac_status b = EXECUTING"
        "mark_uncertain L (ids (ac_id a)) (?f a) (Some stale_reason) (upd_action (ac_id a) ?f db) = Inr db2"
        "sink (?f a) (get_run (ac_run_id a) db) db2 = Inr db3"
        "reconcile_loop L now stale ids sink rest db3 = Inr (m, db')"
    using Cons.prems(1)
    by (auto simp: Let_def cas_action_Some split: if_splits option.splits)
  then show ?case
  proof cases
    case skip
    with Cons rest show ?thesis by blast
  next
    case hit
    have run: "ac_run_id (?f a) = ac_run_id b" using Cons.prems(3) hit(1) by (auto simp: tracked_def)
    note two = abandon_step [OF Cons.prems(2) hit(1,2) refl _ run hit(3)]
    have eq: "db_actions db3 = db_actions db2" "db_runs db3 = db_runs db2" "db_attention db3 = db_attention db2"
      using Cons.prems(4) hit(4) unfolding quiet_def by blast+
    have three: "ledger_inv db3" "moves gives_up db db3"
      using two ledger_inv_cong [OF eq] moves_cong [OF eq(1)] by simp_all
    then show ?thesis
      using Cons.IH [OF hit(5) three(1) tracked_moves [OF rest three(2)] Cons.prems(4)]
        moves_trans [of gives_up db db3 db'] gives_up_trans by blast
  qed
qed

lemma reconcile_keeps:
  assumes "reconcile_stale_executions L now stale ids sink db = Inr (n, db')" "ledger_inv db" "quiet sink"
  shows "ledger_inv db' \<and> moves gives_up db db'"
proof (rule reconcile_loop_keeps [OF assms(1) [unfolded reconcile_stale_executions_def] assms(2) _ assms(3)])
  have "get_action (ac_id a) db = Some a" if "a \<in> set (db_actions db)" for a
    using assms(2) that keyed_tget [of ac_id "db_actions db" a]
    by (simp add: ledger_inv_def run_inv_def get_action_def)
  then show "tracked (filter P (db_actions db)) db" for P by (simp add: tracked_def)
qed

lemma heartbeat_keeps:
  assumes "ledger_inv db" "heartbeat now i db = (ok, db')"
  shows "ledger_inv db'" "db_actions db' = db_actions db"
proof -
  let ?f = "\<lambda>r. r\<lparr>rn_heartbeat_at := Some now\<rparr>"
  have db': "db' = db \<or> db' = upd_run i ?f db"
    using assms(2) by (auto simp: heartbeat_def split: option.splits if_splits)
  then show "db_actions db' = db_actions db" by auto
  have "run_inv (upd_run i ?f db)"
    using assms(1) by (intro upd_run_inv) (auto simp: ledger_inv_def marked_def get_run_upd split: option.splits)
  then show "ledger_inv db'"
    using db' assms(1) attention_inv_cong [of "upd_run i ?f db" db] by (auto simp: ledger_inv_def)
qed

lemma dismiss_frames:
  "dismiss_interruption now i db = Inr db' \<Longrightarrow> db_actions db' = db_actions db \<and> db_runs db' = db_runs db"
  "dismiss_informational_notices now db = (k, db') \<Longrightarrow> db_actions db' = db_actions db \<and> db_runs db' = db_runs db"
  by (auto simp: dismiss_interruption_def dismiss_informational_notices_def Let_def split: option.splits if_splits)

text \<open>Creating and finishing a run leave the actions and the attention rows.\<close>

lemma run_ops_frames:
  "create_run now i tr intent kind db = Inr (x, db') \<Longrightarrow>
     db_actions db' = db_actions db \<and> db_attention db' = db_attention db"
  "finish_run now i ok db = Inr db' \<Longrightarrow>
     db_actions db' = db_actions db \<and> db_attention db' = db_attention db"
  by (auto elim!: create_run_Inr simp: finish_run_def split: option.splits if_splits)

lemma auth_step_ledger_inv:
  assumes "auth_step L db db'" "ledger_inv db"
  shows "ledger_inv db'"
  using assms
proof cases
  case (create now i tr intent kind x)
  with assms(2) show ?thesis
    using create_run_run_inv [OF _ create] run_ops_frames(1) [OF create] attention_inv_cong [of db' db]
    by (auto simp: ledger_inv_def)
next
  case (finish now i ok)
  with assms(2) show ?thesis
    using finish_run_run_inv [OF _ finish] run_ops_frames(2) [OF finish] attention_inv_cong [of db' db]
    by (auto simp: ledger_inv_def)
next
  case (dismiss now i)
  with assms(2) show ?thesis
    using dismiss_interruption_inv [OF _ dismiss] dismiss_frames(1) [OF dismiss] run_inv_cong [of db' db]
    by (auto simp: ledger_inv_def)
next
  case (dismiss_all now k)
  with assms(2) show ?thesis
    using dismiss_notices_inv [OF _ dismiss_all] dismiss_frames(2) [OF dismiss_all] run_inv_cong [of db' db]
    by (auto simp: ledger_inv_def)
next
  case (beat now i ok)
  with assms(2) show ?thesis using heartbeat_keeps(1) by blast
next
  case (reconcile now stale ids sink k)
  with assms(2) show ?thesis using reconcile_keeps by blast
qed (unfold ledger_inv_def,
     (blast intro: prepare_proposal_inv prepare_proposal_run_inv begin_execution_inv cancel_inv complete_inv
       acknowledge_inv action_ops_run_inv complete_run_inv insert_ops_inv)+)

lemma action_ops_moves:
  "record_execution L now n r opn args st summary out db = Inr (x, db') \<Longrightarrow> moves edge db db'"
  "begin_automatic_execution L now n r opn args summary cap db = Inr (x, db') \<Longrightarrow> moves edge db db'"
  "prepare_proposal L now n att r opn args title cap db = Inr (x, db') \<Longrightarrow> moves edge db db'"
  "begin_execution L now given reviewed db = Inr (p, db') \<Longrightarrow> moves edge db db'"
  "cancel now given db = Inr db' \<Longrightarrow> moves edge db db'"
  "complete L now att i st' result ext db = Inr db' \<Longrightarrow> moves edge db db'"
  "acknowledge_uncertain L now i db = Inr db' \<Longrightarrow> moves edge db db'"
proof -
  show "record_execution L now n r opn args st summary out db = Inr (x, db') \<Longrightarrow> moves edge db db'"
    using moves_insert [of edge "executed_action L now n r opn args st summary out" db]
    unfolding record_execution_def by auto
  show "begin_automatic_execution L now n r opn args summary cap db = Inr (x, db') \<Longrightarrow> moves edge db db'"
    using moves_insert [of edge "automatic_action L now n r opn args summary cap" db]
    unfolding begin_automatic_execution_def by auto
  show "moves edge db db'" if prep: "prepare_proposal L now n att r opn args title cap db = Inr (x, db')"
  proof -
    obtain db1 db2 where ins: "insert_action (prepared_action L now n r opn args title cap) db = Inr db1"
      and att: "insert_attention (approval_attention L now att n r opn args title) (set_idempotency_key n db1) = Inr db2"
      and db': "db' = recompute_run now r db2"
      using prep unfolding prepare_proposal_Inr by blast
    then show ?thesis
      using moves_insert [of edge, OF _ ins] insert_attention_Inr [OF att]
        moves_cong [of db' "set_idempotency_key n db1" edge db] by simp
  qed
  show "moves edge db db'" if "begin_execution L now given reviewed db = Inr (p, db')"
    using that unfolding begin_execution_Inr
  proof (elim exE conjE)
    fix a :: action_row
    let ?d = "upd_action (ac_id given) (\<lambda>x. x\<lparr>ac_status := EXECUTING, ac_execution_started_at := Some now, ac_updated_at := now\<rparr>) db"
    assume a: "get_action (ac_id given) db = Some a" "ac_status a = PREPARED" "db' = recompute_run now (ac_run_id a) ?d"
    have "moves edge db ?d" by (rule moves_upd [OF _ _ a(1)]) (simp_all add: a same_effect_def)
    with a(3) moves_cong [of db' ?d edge db] show ?thesis by simp
  qed
  show "moves edge db db'" if "cancel now given db = Inr db'"
    using that unfolding cancel_Inr
  proof (elim exE conjE)
    fix a :: action_row
    let ?d = "upd_action (ac_id given) (\<lambda>x. x\<lparr>ac_status := ACANCELLED, ac_updated_at := now,
           ac_evidence := json_put ''decision'' (JStr ''cancelled'') (ac_evidence a)\<rparr>) db"
    assume a: "get_action (ac_id given) db = Some a" "ac_status a = PREPARED"
      "resolve_attention_and_run now a ?d = Inr db'"
    have "moves edge db ?d" by (rule moves_upd [OF _ _ a(1)]) (simp_all add: a same_effect_def json_simps)
    with resolve_actions [OF a(3)] moves_cong [of db' ?d edge db] show ?thesis by simp
  qed
  show "moves edge db db'" if "complete L now att i st' result ext db = Inr db'"
    using that unfolding complete_Inr
  proof (elim exE conjE)
    fix a f
    let ?d = "upd_action i f db"
    assume a: "get_action i db = Some a" "ac_status a = EXECUTING" "st' \<in> {ASUCCEEDED, AFAILED, AUNCERTAIN}"
      "f = completed_row now st' (completion_evidence a result ext)"
      "(if st' = AUNCERTAIN then mark_uncertain L att (f a) None ?d else resolve_attention_and_run now (f a) ?d) = Inr db'"
    have "moves edge db ?d" by (rule moves_upd [OF _ _ a(1)]) (use a(2-4) in \<open>auto simp: same_effect_def\<close>)
    moreover have "db_actions db' = db_actions ?d"
      using a(5) resolve_actions mark_uncertain_frames(1) by (cases "st' = AUNCERTAIN") auto
    ultimately show ?thesis using moves_cong [of db' ?d edge db] by simp
  qed
  show "moves edge db db'" if "acknowledge_uncertain L now i db = Inr db'"
    using that unfolding acknowledge_Inr
  proof (elim exE conjE)
    fix a :: action_row and t
    let ?d = "upd_attention (at_id t) (\<lambda>x. x\<lparr>at_resolved := True, at_resolved_at := Some now\<rparr>) db"
    assume a: "get_action i db = Some a" "ac_status a = AUNCERTAIN"
      "db' = upd_action i (\<lambda>x. x\<lparr>ac_evidence := json_put ''owner_acknowledged_at''
          (JStr (isoformat L now)) (ac_evidence a)\<rparr>) ?d"
    have "get_action i ?d = Some a" by (simp add: a)
    then have "moves edge ?d db'"
      unfolding a(3) by (rule moves_upd [rotated 2]) (simp_all add: same_effect_def json_simps)
    then show ?thesis using moves_cong_left [of ?d db] by simp
  qed
qed

lemma run_ops_moves:
  "create_run now i tr intent kind db = Inr (x, db') \<Longrightarrow> moves edge db db'"
  "finish_run now i ok db = Inr db' \<Longrightarrow> moves edge db db'"
  "dismiss_interruption now i db = Inr db' \<Longrightarrow> moves edge db db'"
  "dismiss_informational_notices now db = (k, db') \<Longrightarrow> moves edge db db'"
  by (rule moves_same, simp, drule run_ops_frames dismiss_frames, simp)+

lemma auth_step_moves:
  assumes "auth_step L db db'" "ledger_inv db"
  shows "moves edge db db'"
  using assms
proof cases
  case (reconcile now stale ids sink k)
  with assms(2) have "moves gives_up db db'" using reconcile_keeps by blast
  then show ?thesis by (rule moves_mono [rotated]) (auto simp: gives_up_def)
next
  case (beat now i ok)
  with assms(2) show ?thesis using heartbeat_keeps(2) by (metis moves_same edge_refl)
qed (erule action_ops_moves run_ops_moves)+

interpretation ledger: guarded_steps "auth_step L" ledger_inv "moves advances" for L
proof
  show "moves advances db db'" if "auth_step L db db'" "ledger_inv db" for L db db'
    using auth_step_moves [OF that] by (rule moves_mono [rotated]) (rule edge_advances)
  show "moves advances db db" for db
    by (rule moves_same) simp_all
  show "moves advances db db''" if "moves advances db db'" "moves advances db' db''" for db db' db''
    using advances_trans by (rule moves_trans [OF _ that])
qed (rule auth_step_ledger_inv)

end
