(* ===== verification/Action_Properties.thy ===== *)
theory Action_Properties
  imports Action_Ledger
begin

text \<open>
  What the action ledger promises: the gate between a reviewed proposal and its one
  execution, the invariants of every history, and which effects an abandoned execution has.
  The witnesses run the operations on a small database with a concrete digest and clock text.
\<close>

section \<open>A concrete library and database\<close>

definition demo_lib :: lib where
  "demo_lib = \<lparr>sha256 = (\<lambda>s. s), isoformat = (\<lambda>t. if t = 100 then ''start'' else ''later''),
     fromisoformat = (\<lambda>s. if s = ''start'' then Some 100 else Some 3600000100)\<rparr>"

text \<open>A clock text that reads back: a sign and as many marks as microseconds.\<close>

definition unary_lib :: lib where
  "unary_lib = \<lparr>sha256 = (\<lambda>s. s),
     isoformat = (\<lambda>t. (if t < 0 then CHR ''-'' else CHR ''+'') # replicate (nat \<bar>t\<bar>) (CHR ''1'')),
     fromisoformat = (\<lambda>s. case s of [] \<Rightarrow> None
       | c # cs \<Rightarrow> Some (if c = CHR ''-'' then - int (length cs) else int (length cs)))\<rparr>"

lemma unary_lib_reads_back: "\<forall>t. fromisoformat unary_lib (isoformat unary_lib t) = Some t"
  by (simp add: unary_lib_def)

definition demo_empty :: auth_db where
  "demo_empty = \<lparr>db_runs = [], db_actions = [], db_attention = [],
     db_transcripts = [\<lparr>ch_id = ''t'', ch_active_task_state = JNull\<rparr>], db_schedules = []\<rparr>"

definition demo_db :: auth_db where
  "demo_db = demo_empty\<lparr>db_runs := [\<lparr>rn_id = ''r'', rn_kind = FOREGROUND, rn_status = RUNNING,
        rn_transcript_id = Some ''t'', rn_intent = Some ''hi'', rn_finished_at = None, rn_inference_active = True,
        rn_inference_status = ''running'', rn_heartbeat_at = Some 100, rn_schedule_id = None,
        rn_scheduled_for = None, rn_trigger_snapshot = []\<rparr>]\<rparr>"

definition demo_prepared :: auth_db where
  "demo_prepared = (case prepare_proposal demo_lib 100 ''a'' ''n'' ''r'' ''gmail.message.send''
      [(''to'', JStr ''x'')] ''Send'' [] demo_db of Inr (_, db) \<Rightarrow> db | Inl _ \<Rightarrow> demo_db)"

definition demo_executing :: auth_db where
  "demo_executing = (case begin_automatic_execution demo_lib 100 ''a'' ''r'' ''files.read'' [] ''Read'' ''files'' demo_db of
      Inr (_, db) \<Rightarrow> db | Inl _ \<Rightarrow> demo_db)"

section \<open>The approval gate\<close>

lemma verify_proposal_Inr:
  assumes "verify_proposal L now a = Inr p"
  obtains args created expires cap t where
    "json_get ''proposal'' (ac_evidence a) = Some (JObj p)"
    "json_get ''operation'' p = Some (JStr (ac_operation a))" "json_get ''arguments'' p = Some (JObj args)"
    "json_get ''principal'' p = Some (JStr OWNER_PRINCIPAL)" "json_get ''created_at'' p = Some created"
    "json_get ''expires_at'' p = Some expires" "json_get ''capability_id'' p = Some cap"
    "fromisoformat L (py_str expires) = Some t" "now < t"
    "target_hash L (ac_operation a) args OWNER_PRINCIPAL (py_str created) (py_str expires) (py_str cap) = ac_target_hash a"
  using assms by (auto simp: verify_proposal_def split: option.splits json.splits if_splits prod.splits)




text \<open>C5: What the owner reviews is what runs. A proposal that was prepared is accepted by
  \<open>begin_execution\<close> during its hour, with its digest as the reviewed one, and yields exactly
  the prepared operation, arguments and capability; from its expiry on it is refused.\<close>

theorem prepared_is_executable:
  assumes iso: "\<forall>t. fromisoformat L (isoformat L t) = Some t"
    and prep: "prepare_proposal L now i att run operation arguments title cap db = Inr (i, db')"
    and given: "get_action i db' = Some given"
    and active: "require_managed_task_active (get_run run db') db' = Inr ()"
  shows "(later < now + DEFAULT_PROPOSAL_TTL \<longrightarrow> (\<exists>db''.
            begin_execution L later given (Some (ac_target_hash given)) db'
              = Inr (make_proposal L now operation arguments title cap, db'')))
       \<and> (now + DEFAULT_PROPOSAL_TTL \<le> later \<longrightarrow>
            begin_execution L later given (Some (ac_target_hash given)) db'
              = Inl (ProposalIntegrityError ''Action proposal has expired''))"
proof -
  let ?a = "prepared_action L now i run operation arguments title cap"
  obtain db1 db2 where ins: "insert_action ?a db = Inr db1"
    and att: "insert_attention (approval_attention L now att i run operation arguments title) (set_idempotency_key i db1) = Inr db2"
    and db': "db' = recompute_run now run db2"
    using prep unfolding prepare_proposal_Inr by blast
  have "get_action i db2 = get_action i (set_idempotency_key i db1)"
    using insert_attention_Inr [OF att] by (simp add: get_action_def)
  then have g: "given = ?a\<lparr>ac_idempotency_key := Some (''atlas:'' @ i)\<rparr>"
    using given ins by (simp add: db' insert_action_Inr set_idempotency_key_get get_action_add)
  have v: "verify_proposal L later given = (if now + DEFAULT_PROPOSAL_TTL \<le> later
      then Inl (ProposalIntegrityError ''Action proposal has expired'')
      else Inr (make_proposal L now operation arguments title cap))"
    by (simp add: g verify_proposal_def prepared_action_def make_proposal_def Let_def iso)
  have sel: "ac_id given = i" "ac_run_id given = run" "ac_status given = PREPARED"
    by (simp_all add: g)
  show ?thesis
    using active given by (simp add: begin_execution_def sel v cas_action_def)
qed

lemma demo_prepare:
  "\<exists>db'. prepare_proposal L 100 ''a'' ''n'' ''r'' operation arguments title cap demo_db = Inr (''a'', db')
     \<and> get_action ''a'' db' = Some ((prepared_action L 100 ''a'' ''r'' operation arguments title cap)
          \<lparr>ac_idempotency_key := Some ''atlas:a''\<rparr>)
     \<and> require_managed_task_active (get_run ''r'' db') db' = Inr ()"
  by (simp add: prepare_proposal_def demo_db_def demo_empty_def insert_action_def insert_attention_def
      get_action_def get_run_def tadd_def require_managed_task_active_def set_idempotency_key_def upd_action_def
      approval_attention_def recompute_run_def Let_def upd_run_def set_schedule_status_def)

theorem prepared_is_executable_witness:
  "\<exists>db' given db''. prepare_proposal unary_lib 100 ''a'' ''n'' ''r'' ''gmail.message.send'' [] ''Send'' [] demo_db = Inr (''a'', db')
     \<and> begin_execution unary_lib 200 given (Some (ac_target_hash given)) db'
         = Inr (make_proposal unary_lib 100 ''gmail.message.send'' [] ''Send'' [], db'')"
proof -
  obtain db' given where
    d: "prepare_proposal unary_lib 100 ''a'' ''n'' ''r'' ''gmail.message.send'' [] ''Send'' [] demo_db = Inr (''a'', db')"
       "get_action ''a'' db' = Some given" "require_managed_task_active (get_run ''r'' db') db' = Inr ()"
    using demo_prepare [of unary_lib "''gmail.message.send''" "[]" "''Send''" "[]"] by blast
  show ?thesis
    using prepared_is_executable [OF unary_lib_reads_back d(1) d(2) d(3), of 200] d(1)
    by (auto simp: DEFAULT_PROPOSAL_TTL_def)
qed

section \<open>Every history of the ledger\<close>

definition empty_ledger :: "'x auth_db_scheme \<Rightarrow> bool" where
  "empty_ledger db = (db_runs db = [] \<and> db_actions db = [] \<and> db_attention db = [])"

lemma empty_ledger_inv: "empty_ledger db \<Longrightarrow> ledger_inv db"
  by (simp add: empty_ledger_def ledger_inv_def attention_inv_def run_inv_def keyed_def open_attention_def
      get_action_def active_foreground_def)

text \<open>C6: In every state the ledger can reach from an empty one: an action has at most one
  unresolved attention row, a prepared action is in front of the owner, an uncertain action
  stays in front of the owner as uncertain until the owner acknowledged it, the run of an
  uncertain action is reported uncertain and unfinished, and a conversation has at most one
  active foreground inference.\<close>

theorem ledger_history:
  assumes "(auth_step L)\<^sup>*\<^sup>* db0 db" and "empty_ledger db0"
  shows "(\<forall>i. length (open_attention i db) \<le> 1)
    \<and> (\<forall>i a. get_action i db = Some a \<longrightarrow>
         (ac_status a = PREPARED \<longrightarrow> open_attention i db \<noteq> [])
       \<and> (ac_status a = AUNCERTAIN \<longrightarrow>
            ((\<exists>t. open_attention i db = [t] \<and> at_state t = ''uncertain'')
              \<or> json_get ''owner_acknowledged_at'' (ac_evidence a) \<noteq> None)
          \<and> (\<exists>r. get_run (ac_run_id a) db = Some r \<and> rn_status r = UNCERTAIN \<and> rn_finished_at r = None)))
    \<and> (\<forall>t. length (active_foreground t db) \<le> 1)"
proof -
  have inv: "attention_inv db" "run_inv db"
    using ledger.reachable_inv [OF assms(1)] empty_ledger_inv [OF assms(2)] by (auto simp: ledger_inv_def)
  have one: "\<exists>t. open_attention i db = [t] \<and> at_state t = ''uncertain''"
    if "t \<in> set (open_attention i db)" "at_state t = ''uncertain''" for i t
    using that attention_invD(2) [OF inv(1), of i] by (cases "open_attention i db") auto
  have act: "(ac_status a = PREPARED \<longrightarrow> open_attention i db \<noteq> [])
      \<and> (ac_status a = AUNCERTAIN \<longrightarrow> (\<exists>t. open_attention i db = [t] \<and> at_state t = ''uncertain'')
              \<or> json_get ''owner_acknowledged_at'' (ac_evidence a) \<noteq> None)" if "get_action i db = Some a" for i a
    using that attention_invD(4) [OF inv(1) that] get_action_id [OF that] one [of _ i] unfolding shown_def by blast
  have "marked db (ac_run_id a)" if "get_action i db = Some a" "ac_status a = AUNCERTAIN" for i a
    using that run_invD(3) [OF inv(2), of a] by (auto simp: get_action_def dest!: tget_key)
  then have run: "\<exists>r. get_run (ac_run_id a) db = Some r \<and> rn_status r = UNCERTAIN \<and> rn_finished_at r = None"
    if "get_action i db = Some a" "ac_status a = AUNCERTAIN" for i a
    using that unfolding marked_def by (fastforce split: option.splits)
  show ?thesis
    using attention_invD(2) [OF inv(1)] run_invD(4) [OF inv(2)] act run by blast
qed

definition demo_uncertain :: auth_db where
  "demo_uncertain = (case complete demo_lib 300 ''n'' ''a'' AUNCERTAIN [] [] demo_executing of
      Inr db \<Rightarrow> db | Inl _ \<Rightarrow> demo_executing)"

lemma ok_Inr: "\<not> isl x \<Longrightarrow> x = Inr (projr x)"
  by simp

lemma demo_history:
  "(auth_step demo_lib)\<^sup>*\<^sup>* demo_empty demo_db" "(auth_step demo_lib)\<^sup>*\<^sup>* demo_db demo_executing"
  "auth_step demo_lib demo_executing demo_uncertain"
proof -
  have "create_run 100 ''r'' (Some ''t'') ''hi'' FOREGROUND demo_empty = Inr (''r'', demo_db)"
    by (simp add: create_run_def demo_db_def demo_empty_def active_foreground_def get_run_def tadd_def)
  then show "(auth_step demo_lib)\<^sup>*\<^sup>* demo_empty demo_db" by (blast intro: auth_step.create)
  have "\<not> isl (begin_automatic_execution demo_lib 100 ''a'' ''r'' ''files.read'' [] ''Read'' ''files'' demo_db)"
    by code_simp
  then have "begin_automatic_execution demo_lib 100 ''a'' ''r'' ''files.read'' [] ''Read'' ''files'' demo_db
      = Inr (''a'', demo_executing)"
    by (auto simp: demo_executing_def begin_automatic_execution_def split: sum.splits)
  then show "(auth_step demo_lib)\<^sup>*\<^sup>* demo_db demo_executing" by (blast intro: auth_step.automatic)
  have "\<not> isl (complete demo_lib 300 ''n'' ''a'' AUNCERTAIN [] [] demo_executing)" by code_simp
  then have "complete demo_lib 300 ''n'' ''a'' AUNCERTAIN [] [] demo_executing = Inr demo_uncertain"
    unfolding demo_uncertain_def by (cases "complete demo_lib 300 ''n'' ''a'' AUNCERTAIN [] [] demo_executing") simp_all
  then show "auth_step demo_lib demo_executing demo_uncertain" by (rule auth_step.completed)
qed

lemma demo_empty_ledger: "empty_ledger demo_empty"
  by (simp add: demo_empty_def empty_ledger_def)

lemma demo_executing_inv: "ledger_inv demo_executing"
  using ledger.reachable_inv [OF demo_history(2)] ledger.reachable_inv [OF demo_history(1)]
    empty_ledger_inv [OF demo_empty_ledger] by blast

theorem ledger_history_witness:
  "\<exists>t r. open_attention ''a'' demo_uncertain = [t] \<and> at_state t = ''uncertain''
     \<and> get_run ''r'' demo_uncertain = Some r \<and> rn_status r = UNCERTAIN"
proof -
  have "(auth_step demo_lib)\<^sup>*\<^sup>* demo_empty demo_uncertain" using demo_history by (meson rtranclp_trans rtranclp.rtrancl_into_rtrancl)
  note h = ledger_history [OF this demo_empty_ledger]
  have "map_option (\<lambda>a. (ac_status a, ac_run_id a, json_get ''owner_acknowledged_at'' (ac_evidence a)))
      (get_action ''a'' demo_uncertain) = Some (AUNCERTAIN, ''r'', None)" by code_simp
  then obtain a where "get_action ''a'' demo_uncertain = Some a" "ac_status a = AUNCERTAIN" "ac_run_id a = ''r''"
      "json_get ''owner_acknowledged_at'' (ac_evidence a) = None" by auto
  with h show ?thesis by metis
qed

text \<open>The life of an action is one-way. From any reachable state, one operation moves an
  action at most one edge (prepared to executing or cancelled, executing to an outcome), any
  later history keeps to those edges, and nothing the owner reviewed ever changes: the run,
  the operation, the digest, the idempotency key and the proposal stay as they are.\<close>

theorem action_life:
  assumes "(auth_step L)\<^sup>*\<^sup>* db0 db" "empty_ledger db0" "get_action i db = Some a"
    and "auth_step L db db1" "(auth_step L)\<^sup>*\<^sup>* db db2"
  shows "(\<exists>b. get_action i db1 = Some b \<and> same_effect a b \<and> edge (ac_status a) (ac_status b))
       \<and> (\<exists>c. get_action i db2 = Some c \<and> same_effect a c \<and> advances (ac_status a) (ac_status c))"
proof -
  have inv: "ledger_inv db"
    using ledger.reachable_inv [OF assms(1)] empty_ledger_inv [OF assms(2)] by blast
  show ?thesis
    using auth_step_moves [OF assms(4) inv] ledger.reachable_le [OF assms(5) inv] assms(3)
    unfolding moves_def by blast
qed

theorem action_life_witness:
  "\<exists>a b. get_action ''a'' demo_executing = Some a \<and> get_action ''a'' demo_uncertain = Some b
     \<and> same_effect a b \<and> edge (ac_status a) (ac_status b)"
proof -
  have start: "(auth_step demo_lib)\<^sup>*\<^sup>* demo_empty demo_executing"
    using demo_history by (meson rtranclp_trans)
  have "get_action ''a'' demo_executing \<noteq> None" by code_simp
  then obtain a where a: "get_action ''a'' demo_executing = Some a" by blast
  show ?thesis
    using action_life [OF start demo_empty_ledger a demo_history(3) rtranclp.rtrancl_refl] a by blast
qed

text \<open>A row of the loop does not bring its run back to life, nor end it.\<close>

lemma mark_uncertain_alive:
  assumes "mark_uncertain L n b reason db = Inr db'"
  shows "still_alive stale (get_run k db') = still_alive stale (get_run k db)"
  using mark_uncertain_frames(2) [OF assms]
  by (auto simp: get_run_def tget_tset still_alive_def split: option.splits)

definition abandoned :: "time \<Rightarrow> 'x auth_db_scheme \<Rightarrow> action_row \<Rightarrow> bool" where
  "abandoned stale db a = (ac_status a = EXECUTING \<and> \<not> still_alive stale (get_run (ac_run_id a) db))"

lemma reconcile_loop_exact:
  assumes "reconcile_loop L now stale ids sink rows db = Inr (n, db')" "quiet sink" "tracked rows db"
    "get_action i db = Some a"
  shows "get_action i db' = Some (if i \<in> ac_id ` set rows \<and> abandoned stale db a
      then a\<lparr>ac_status := AUNCERTAIN, ac_updated_at := now\<rparr> else a)"
  using assms
proof (induction rows arbitrary: db n a)
  case (Cons x rest)
  let ?f = "\<lambda>x. x\<lparr>ac_status := AUNCERTAIN, ac_updated_at := now\<rparr>"
  have rest: "tracked rest db" using Cons.prems by (simp add: tracked_def)
  have same: "ac_run_id b = ac_run_id x" if "get_action (ac_id x) db = Some b" for b
    using Cons.prems(3) that by (auto simp: tracked_def)
  consider (skip) "reconcile_loop L now stale ids sink rest db = Inr (n, db')"
      "\<And>b. get_action (ac_id x) db = Some b \<Longrightarrow> \<not> abandoned stale db b"
    | (hit) b db2 db3 m where "get_action (ac_id x) db = Some b" "abandoned stale db b"
        "mark_uncertain L (ids (ac_id x)) (?f x) (Some stale_reason) (upd_action (ac_id x) ?f db) = Inr db2"
        "sink (?f x) (get_run (ac_run_id x) db) db2 = Inr db3"
        "reconcile_loop L now stale ids sink rest db3 = Inr (m, db')"
    using Cons.prems(1) same
    by (auto simp: Let_def cas_action_def abandoned_def split: if_splits option.splits)
  then show ?case
  proof cases
    case skip
    with Cons rest show ?thesis by auto
  next
    case hit
    have eq: "db_actions db3 = db_actions db2" "db_runs db3 = db_runs db2"
      using Cons.prems(2) hit(4) unfolding quiet_def by blast+
    have acts: "get_action k db3 = get_action k (upd_action (ac_id x) ?f db)" for k
      by (simp add: get_action_def eq mark_uncertain_frames(1) [OF hit(3)])
    have alive: "still_alive stale (get_run k db3) = still_alive stale (get_run k db)" for k
      using mark_uncertain_alive [OF hit(3), of stale k] by (simp add: get_run_def eq)
    have "moves gives_up db (upd_action (ac_id x) ?f db)"
      using hit(2) by (intro moves_upd [OF _ _ hit(1)]) (simp_all add: gives_up_def same_effect_def abandoned_def)
    then have "tracked rest db3"
      using tracked_moves [OF rest] by (simp add: tracked_def acts)
    note ih = Cons.IH [OF hit(5) Cons.prems(2) this]
    show ?thesis
    proof (cases "i = ac_id x")
      case True
      then show ?thesis
        using ih [of "?f a"] Cons.prems(4) hit(1,2) by (simp add: acts get_action_upd abandoned_def)
    next
      case False
      then show ?thesis
        using ih [of a] Cons.prems(4) by (simp add: acts get_action_upd abandoned_def alive)
    qed
  qed
qed simp

text \<open>C7: Reconciliation gives up exactly the abandoned effects. An action that is executing,
  started before the cutoff and whose run has no live inference becomes uncertain; every
  other action is left as it is, nothing is dispatched again, and the ledger invariant
  stays, so each effect given up is in front of the owner.\<close>

theorem stale_effects_given_up:
  assumes "reconcile_stale_executions L now stale ids sink db = Inr (n, db')"
    and "quiet sink" "ledger_inv db" "get_action i db = Some a"
  shows "get_action i db' = Some
      (if ac_status a = EXECUTING \<and> (\<exists>t < stale. ac_execution_started_at a = Some t)
          \<and> \<not> (\<exists>r h. get_run (ac_run_id a) db = Some r \<and> rn_inference_active r \<and> rn_heartbeat_at r = Some h \<and> stale \<le> h)
       then a\<lparr>ac_status := AUNCERTAIN, ac_updated_at := now\<rparr> else a) \<and> ledger_inv db'"
proof -
  let ?P = "\<lambda>a. ac_status a = EXECUTING
      \<and> (case ac_execution_started_at a of None \<Rightarrow> False | Some t \<Rightarrow> t < stale)"
  have keys: "keyed ac_id (db_actions db)" using assms(3) by (simp add: ledger_inv_def run_inv_def)
  then have "tracked (filter ?P (db_actions db)) db"
    by (auto simp: tracked_def get_action_def dest: keyed_tget)
  note res = reconcile_loop_exact [OF assms(1) [unfolded reconcile_stale_executions_def] assms(2) this assms(4)]
  have a: "a \<in> set (db_actions db)" "ac_id a = i"
    using assms(4) by (auto simp: get_action_def dest!: tget_key)
  then have "i \<in> ac_id ` set (filter ?P (db_actions db)) \<longleftrightarrow> ?P a"
    using keyed_inj [OF keys] by (auto simp: image_iff)
  then show ?thesis
    using res reconcile_keeps [OF assms(1,3,2)] by (auto simp: abandoned_def still_alive_def split: option.splits)
qed

definition no_sink :: "action_row \<Rightarrow> run_row option \<Rightarrow> auth_db \<Rightarrow> auth_error + auth_db" where
  "no_sink a r db = Inr db"

theorem stale_effects_given_up_witness:
  "\<exists>n db' b. reconcile_stale_executions demo_lib 900 500 (\<lambda>i. i) no_sink demo_executing = Inr (n, db')
     \<and> get_action ''a'' db' = Some b \<and> ac_status b = AUNCERTAIN"
proof -
  have "\<not> isl (reconcile_stale_executions demo_lib 900 500 (\<lambda>i. i) no_sink demo_executing)" by code_simp
  then obtain n db' where ok: "reconcile_stale_executions demo_lib 900 500 (\<lambda>i. i) no_sink demo_executing = Inr (n, db')"
    by (metis prod.collapse sum.collapse(2))
  have quiet: "quiet no_sink" by (simp add: quiet_def no_sink_def)
  note inv = demo_executing_inv
  have "map_option (\<lambda>a. ac_status a = EXECUTING \<and> ac_execution_started_at a = Some 100
       \<and> \<not> still_alive 500 (get_run (ac_run_id a) demo_executing)) (get_action ''a'' demo_executing) = Some True"
    by code_simp
  then obtain a where a: "get_action ''a'' demo_executing = Some a" "ac_status a = EXECUTING"
    "ac_execution_started_at a = Some 100" "\<not> still_alive 500 (get_run (ac_run_id a) demo_executing)" by auto
  show ?thesis
    using stale_effects_given_up [OF ok quiet inv a(1)] ok a by (auto simp: still_alive_def)
qed

text \<open>The owner's decisions never fail on the state of the attention rows. In a ledger
  that satisfies its invariant, cancelling fails exactly when the action is not prepared,
  recording an outcome exactly when it is not executing (or the new attention identity is
  taken), and acknowledging exactly when the action is not uncertain or already closed; the
  query for one unresolved row never meets two.\<close>

theorem decisions_total:
  assumes "ledger_inv db" "get_action (ac_id given) db = Some a" "status \<in> {ASUCCEEDED, AFAILED, AUNCERTAIN}"
    and "tget at_id att (db_attention db) = None"
  shows "(isl (cancel now given db) \<longleftrightarrow> ac_status a \<noteq> PREPARED)
    \<and> (isl (complete L now att (ac_id given) status result ext db) \<longleftrightarrow> ac_status a \<noteq> EXECUTING)
    \<and> (isl (acknowledge_uncertain L now (ac_id given) db) \<longleftrightarrow>
         ac_status a \<noteq> AUNCERTAIN \<or> open_attention (ac_id given) db = [])"
proof -
  let ?i = "ac_id given"
  have inv: "attention_inv db" "run_inv db" using assms(1) by (simp_all add: ledger_inv_def)
  have id: "ac_id a = ?i" using assms(2) by (rule get_action_id)
  obtain r where r: "get_run (ac_run_id a) db = Some r"
    using run_invD(2) [OF inv(2), of a] assms(2) by (auto simp: get_action_def dest!: tget_key)
  obtain o' where o': "scalar_one_or_none (open_attention ?i db) = Inr o'"
    and cases: "o' = None \<longleftrightarrow> open_attention ?i db = []"
  proof (cases "open_attention ?i db")
    case (Cons t ts)
    with attention_invD(2) [OF inv(1), of ?i] have "ts = []" by simp
    with Cons that [of "Some t"] show ?thesis by simp
  qed (use that [of None] in simp)
  have res: "resolve_attention_and_run now b (upd_action ?i f db) \<noteq> Inl e" if "ac_id b = ?i" for b f e
    using that o' by (simp add: resolve_attention_and_run_def)
  have mark: "mark_uncertain L att (completed_row now st ev a) None (upd_action ?i (completed_row now st ev) db) \<noteq> Inl e" for st ev e
    using o' assms(2,4) r
    by (auto simp: mark_uncertain_def id ebind_Inl insert_attention_def uncertain_attention_def get_action_upd
        split: option.splits)
  have "isl (cancel now given db) \<longleftrightarrow> ac_status a \<noteq> PREPARED"
    using res [of a] by (auto simp: cancel_def assms(2) cas_action_def id isl_def)
  moreover have "isl (complete L now att ?i status result ext db) \<longleftrightarrow> ac_status a \<noteq> EXECUTING"
    using assms(2,3) mark res [of "completed_row now status ev a" for ev]
    by (auto simp: complete_def cas_action_def Let_def isl_def id completed_row_def [abs_def])
  moreover have "isl (acknowledge_uncertain L now ?i db) \<longleftrightarrow> ac_status a \<noteq> AUNCERTAIN \<or> open_attention ?i db = []"
    using o' cases by (cases o') (auto simp: acknowledge_uncertain_def assms(2) id require_def)
  ultimately show ?thesis by blast
qed

theorem decisions_total_witness:
  "isl (cancel 300 (the (get_action ''a'' demo_executing)) demo_executing)
     \<and> \<not> isl (complete demo_lib 300 ''n'' ''a'' ASUCCEEDED [] [] demo_executing)"
proof -
  have "map_option (\<lambda>a. (ac_id a, ac_status a)) (get_action ''a'' demo_executing) = Some (''a'', EXECUTING)" by code_simp
  then obtain a where a: "get_action ''a'' demo_executing = Some a" "ac_id a = ''a''" "ac_status a = EXECUTING" by auto
  have "tget at_id ''n'' (db_attention demo_executing) = None" by code_simp
  then show ?thesis
    using decisions_total [OF demo_executing_inv, of a a ASUCCEEDED "''n''" 300 demo_lib "[]" "[]"] a by simp
qed

end
