(* ===== verification/Task_State.thy ===== *)
theory Task_State
  imports Python_Text
begin

text \<open>
  The task checkpoint of \<^verbatim>\<open>backend/atlas/runtime/task_state.py\<close>: the JSON document kept with a
  conversation, the runtime facts recorded in it, and the semantic changes the model may
  propose. A state is the JSON object the code keeps (the empty object is \<^verbatim>\<open>None\<close> or
  \<^verbatim>\<open>{}\<close>, which the code treats alike); fresh UUIDs are arguments. A sub-document read at a
  key has the type the module writes there; another type reads as absent.
\<close>

section \<open>Reading and writing sub-documents\<close>

definition obj_at :: "string \<Rightarrow> json_obj \<Rightarrow> json_obj" where
  "obj_at k d = (case json_get k d of Some (JObj o') \<Rightarrow> o' | _ \<Rightarrow> [])"

definition list_at :: "string \<Rightarrow> json_obj \<Rightarrow> json list" where
  "list_at k d = (case json_get k d of Some (JList xs) \<Rightarrow> xs | _ \<Rightarrow> [])"

definition int_at :: "string \<Rightarrow> json_obj \<Rightarrow> int" where
  "int_at k d = (case json_get k d of Some (JInt i) \<Rightarrow> i | _ \<Rightarrow> 0)"

definition get_or_null :: "string \<Rightarrow> json_obj \<Rightarrow> json" where
  "get_or_null k d = (case json_get k d of None \<Rightarrow> JNull | Some v \<Rightarrow> v)"

text \<open>\<^verbatim>\<open>sub = d.setdefault(k, {})\<close> followed by writes through \<open>sub\<close>.\<close>

definition within :: "string \<Rightarrow> (json_obj \<Rightarrow> json_obj) \<Rightarrow> json_obj \<Rightarrow> json_obj" where
  "within k f d = json_put k (JObj (f (obj_at k d))) d"

lemma at_put [simp, json_simps]:
  "obj_at k (json_put k' v d) = (if k = k' then (case v of JObj o' \<Rightarrow> o' | _ \<Rightarrow> []) else obj_at k d)"
  "list_at k (json_put k' v d) = (if k = k' then (case v of JList xs \<Rightarrow> xs | _ \<Rightarrow> []) else list_at k d)"
  "int_at k (json_put k' v d) = (if k = k' then (case v of JInt i \<Rightarrow> i | _ \<Rightarrow> 0) else int_at k d)"
  by (simp_all add: obj_at_def list_at_def int_at_def)

lemma within_get [simp, json_simps]:
  "json_get k (within k' f d) = (if k = k' then Some (JObj (f (obj_at k' d))) else json_get k d)"
  "obj_at k (within k' f d) = (if k = k' then f (obj_at k' d) else obj_at k d)"
  "k \<noteq> k' \<Longrightarrow> list_at k (within k' f d) = list_at k d"
  by (simp_all add: within_def)

section \<open>Clipping\<close>

text \<open>The ellipsis U+2026 lies outside the 8-bit alphabet; a code point stands for it.\<close>

definition ellipsis :: char where
  "ellipsis = CHR 0x1A"

definition clip :: "nat \<Rightarrow> string \<Rightarrow> string" where
  "clip limit value = (let text = strip value in if length text \<le> limit then text else take (limit - 1) text @ [ellipsis])"

fun bounded_loop :: "nat \<Rightarrow> string list \<Rightarrow> string list \<Rightarrow> string list" where
  "bounded_loop limit result [] = result"
| "bounded_loop limit result (v # vs) =
    (let text = clip 300 v; result' = (if text \<noteq> [] \<and> text \<notin> set result then result @ [text] else result)
     in if limit \<le> length result' then result' else bounded_loop limit result' vs)"

definition bounded_strings :: "nat \<Rightarrow> string list \<Rightarrow> string list" where
  "bounded_strings limit values = bounded_loop limit [] values"

definition MAX_OWNER_REQUEST :: nat where "MAX_OWNER_REQUEST = 4000"

definition MAX_LIST :: nat where "MAX_LIST = 5"

definition MAX_EVENTS :: nat where "MAX_EVENTS = 32"

definition MAX_WORKING_SET :: nat where "MAX_WORKING_SET = 16"

definition MAX_ERRORS :: nat where "MAX_ERRORS = 8"

definition MAX_AUTHORITY_GRANTS :: nat where "MAX_AUTHORITY_GRANTS = 64"

text \<open>\<^verbatim>\<open>xs[-n:]\<close>.\<close>

definition last_n :: "nat \<Rightarrow> 'a list \<Rightarrow> 'a list" where
  "last_n n xs = drop (length xs - n) xs"

lemma length_last_n [simp]: "length (last_n n xs) = min n (length xs)"
  by (simp add: last_n_def)

lemma set_last_n: "set (last_n n xs) \<subseteq> set xs"
  by (simp add: last_n_def set_drop_subset)

section \<open>New checkpoints\<close>

definition new_semantic :: json_obj where
  "new_semantic = [(''objective'', JNull), (''constraints'', JList []), (''decisions'', JList []),
     (''findings'', JList []), (''open_questions'', JList []), (''next_step'', JNull)]"

definition new_task_state :: "uuid \<Rightarrow> string \<Rightarrow> json_obj" where
  "new_task_state task_id owner_request =
    [(''version'', JInt 3), (''mode'', JStr ''conversation''), (''task_id'', JStr task_id), (''revision'', JInt 0),
     (''status'', JStr ''active''),
     (''runtime'', JObj [(''owner_request'', JStr (clip MAX_OWNER_REQUEST owner_request)), (''owner_turns'', JInt 1),
        (''recent_events'', JList []), (''working_set'', JList []), (''pending_actions'', JList []), (''errors'', JList [])]),
     (''semantic'', JObj new_semantic)]"

record managed_spec =
  ms_title :: string
  ms_objective :: string
  ms_scope :: "string list"
  ms_acceptance_criteria :: "string list"
  ms_checkpoints :: "string list"
  ms_source_chat_id :: "string option"
  ms_policy_preset :: "string option"
  ms_project_id :: "string option"
  ms_handoff :: string
  ms_authority_grants :: "string list"

definition numbered :: "char \<Rightarrow> nat \<Rightarrow> (nat \<times> string) \<Rightarrow> json_obj" where
  "numbered prefix limit = (\<lambda>(index, text). [(''id'', JStr (prefix # show_nat index)),
     (''text'', JStr (clip limit text)), (''status'', JStr ''pending'')])"

definition numbered_texts :: "string list \<Rightarrow> (nat \<times> string) list" where
  "numbered_texts xs = filter (\<lambda>(_, text). strip text \<noteq> []) (zip [1..<Suc (length xs)] xs)"

definition new_criteria :: "string list \<Rightarrow> json list" where
  "new_criteria xs = map (\<lambda>x. JObj (numbered (CHR ''A'') 500 x @ [(''evidence_refs'', JList [])])) (numbered_texts xs)"

definition new_checkpoints :: "string list \<Rightarrow> json list" where
  "new_checkpoints xs = map (\<lambda>x. JObj (numbered (CHR ''C'') 300 x)) (numbered_texts xs)"

definition strs :: "string list \<Rightarrow> json" where
  "strs xs = JList (map JStr xs)"

definition managed_fields :: "uuid \<Rightarrow> managed_spec \<Rightarrow> json_obj" where
  "managed_fields project_uuid m =
    [(''mode'', JStr ''managed''),
     (''project_id'', JStr (case ms_project_id m of Some p \<Rightarrow> if p \<noteq> [] then p else project_uuid | None \<Rightarrow> project_uuid)),
     (''project_title'', JStr (clip 160 (if ms_title m \<noteq> [] then ms_title m else ms_objective m))),
     (''source_chat_id'', opt_json (ms_source_chat_id m)), (''policy_preset'', opt_json (ms_policy_preset m)),
     (''authority_grants'', strs (bounded_strings MAX_AUTHORITY_GRANTS (ms_authority_grants m))),
     (''scope'', strs (bounded_strings 16 (ms_scope m))),
     (''acceptance_criteria'', JList (new_criteria (ms_acceptance_criteria m))),
     (''checkpoints'', JList (new_checkpoints (ms_checkpoints m))),
     (''progress'', JObj [(''percent'', JInt 0), (''current_checkpoint'', JNull), (''completed_checkpoints'', JList []),
        (''coding_session_id'', JNull), (''updates'', JList [])])]"

definition new_managed_task_state :: "uuid \<Rightarrow> uuid \<Rightarrow> managed_spec \<Rightarrow> string + json_obj" where
  "new_managed_task_state task_id project_uuid m =
    ebind (require (strip (ms_objective m) \<noteq> []) ''Managed task objective is required'') (\<lambda>_.
    ebind (require (ms_acceptance_criteria m \<noteq> []) ''Managed tasks require at least one acceptance criterion'') (\<lambda>_.
    let state = json_merge (new_task_state task_id (if ms_handoff m \<noteq> [] then ms_handoff m else ms_objective m))
          (managed_fields project_uuid m);
        state1 = within ''semantic'' (\<lambda>s. json_merge s [(''objective'', JStr (clip 800 (ms_objective m))),
          (''constraints'', strs (bounded_strings 8 (ms_scope m))),
          (''next_step'', JStr ''Begin the agreed task and advance the first checkpoint.'')]) state;
        state2 = within ''runtime'' (\<lambda>r. json_merge r [(''managed_turns'', JInt 0), (''retry_count'', JInt 0),
          (''last_event_evidence_id'', JNull), (''completion_rejected'', JNull)]) state1
    in ebind (require (list_at ''acceptance_criteria'' state2 \<noteq> [])
         ''Managed tasks require at least one non-empty acceptance criterion'') (\<lambda>_. Inr state2)))"

definition begin_owner_turn :: "uuid \<Rightarrow> json_obj \<Rightarrow> string \<Rightarrow> json_obj" where
  "begin_owner_turn task_id state owner_request =
    (if state = [] \<or> json_get ''status'' state = Some (JStr ''complete'')
     then let result = new_task_state task_id owner_request
          in if state \<noteq> [] then within ''runtime'' (\<lambda>r. json_put ''pending_actions''
               (JList (list_at ''pending_actions'' (obj_at ''runtime'' state))) r) result
             else result
     else json_put ''status'' (JStr ''active'') (within ''runtime'' (\<lambda>r.
            json_put ''owner_turns'' (JInt (int_at ''owner_turns'' r + 1))
              (json_put ''owner_request'' (JStr (clip MAX_OWNER_REQUEST owner_request)) r)) state))"

definition item_str :: "string \<Rightarrow> json \<Rightarrow> string" where
  "item_str k item = (case item of JObj o' \<Rightarrow> (case json_true k o' of None \<Rightarrow> [] | Some v \<Rightarrow> py_str v) | _ \<Rightarrow> [])"

definition remove_resolved_pending_actions :: "uuid \<Rightarrow> json_obj \<Rightarrow> string set \<Rightarrow> json_obj" where
  "remove_resolved_pending_actions task_id state resolved_action_ids =
    (let result = (if state \<noteq> [] then state else new_task_state task_id [])
     in if resolved_action_ids = {} then result
        else within ''runtime'' (\<lambda>r. json_put ''pending_actions''
          (JList (filter (\<lambda>item. item_str ''action_id'' item \<notin> resolved_action_ids) (list_at ''pending_actions'' r))) r) result)"

section \<open>Runtime events\<close>

definition SAFE_KEYS :: "string list" where
  "SAFE_KEYS = [''project'', ''path'', ''source_path'', ''target_path'', ''name'', ''message_id'', ''event_id'',
     ''folder_id'', ''file_id'', ''sha256'', ''session_id'', ''codex_thread_id'']"

definition scalar_text :: "json \<Rightarrow> string option" where
  "scalar_text v = (case v of JStr s \<Rightarrow> Some s | JInt i \<Rightarrow> Some (show_int i)
     | JBool b \<Rightarrow> Some (if b then ''True'' else ''False'') | _ \<Rightarrow> None)"

text \<open>The value clipped is \<^verbatim>\<open>str(item or "")\<close>.\<close>

fun inspect_keys :: "json_obj \<Rightarrow> string list \<Rightarrow> (string \<times> string) list \<Rightarrow> (string \<times> string) list" where
  "inspect_keys value [] found = found"
| "inspect_keys value (key # keys) found =
    (if 6 \<le> length found then found
     else inspect_keys value keys (case json_get key value of None \<Rightarrow> found
       | Some item \<Rightarrow> (case scalar_text item of None \<Rightarrow> found
         | Some text \<Rightarrow> if strip text \<noteq> [] \<and> map_of found key = None
             then found @ [(key, clip 160 (if truthy item then text else []))] else found)))"

lemma json_get_size: "json_get k d = Some v \<Longrightarrow> size v < Suc (size_list (size_prod (\<lambda>_. 0) size) d)"
proof -
  assume "json_get k d = Some v"
  then have "(k, v) \<in> set d" by (auto simp: json_get_def dest: map_of_SomeD)
  then have "size_prod (\<lambda>_. 0) size (k, v) \<le> size_list (size_prod (\<lambda>_. 0) size) d"
    by (rule size_list_estimation') simp
  then show ?thesis by simp
qed

text \<open>The nested documents a walk enters, in order.\<close>

definition nested_docs :: "json_obj \<Rightarrow> json_obj list" where
  "nested_docs value = concat (map (\<lambda>k. case json_get k value of Some (JObj o') \<Rightarrow> [o'] | _ \<Rightarrow> [])
     [''output'', ''resource'', ''result''])"

lemma nested_size: "o' \<in> set (nested_docs value) \<Longrightarrow> size (JObj o') < size (JObj value)"
  using json_get_size [of _ "value" "JObj o'"] by (auto simp: nested_docs_def split: option.splits json.splits)

function inspect :: "json_obj \<Rightarrow> (string \<times> string) list \<Rightarrow> (string \<times> string) list" where
  "inspect value found =
    fold (\<lambda>o' found. inspect o' found) (nested_docs value) (inspect_keys value SAFE_KEYS found)"
  by pat_completeness auto
termination
  by (relation "measure (\<lambda>(value, _). size (JObj value))") (auto dest: nested_size)

declare inspect.simps [simp del]

definition safe_targets :: "json_obj \<Rightarrow> json_obj \<Rightarrow> (string \<times> string) list" where
  "safe_targets arguments detail = inspect detail (inspect arguments [])"

definition str_obj :: "(string \<times> string) list \<Rightarrow> json_obj" where
  "str_obj kvs = map (\<lambda>(k, v). (k, JStr v)) kvs"

definition working_key :: "json \<Rightarrow> string" where
  "working_key item = (case item of
      JObj o' \<Rightarrow> dumps_default_sorted (JObj (filter (\<lambda>(k, _). k \<noteq> ''evidence_id'') o')) | _ \<Rightarrow> [])"

record runtime_event =
  ev_operation :: string
  ev_phase :: string
  ev_evidence_id :: string
  ev_arguments :: json_obj
  ev_detail :: json_obj
  ev_action_id :: "string option"

text \<open>A missing and an empty action identity are both false.\<close>

definition event_action :: "runtime_event \<Rightarrow> string option" where
  "event_action e = (case ev_action_id e of Some a \<Rightarrow> if a \<noteq> [] then Some a else None | None \<Rightarrow> None)"

definition event_targets :: "runtime_event \<Rightarrow> (string \<times> string) list" where
  "event_targets e = safe_targets (ev_arguments e) (ev_detail e)"

definition event_json :: "runtime_event \<Rightarrow> json" where
  "event_json e = JObj ([(''operation'', JStr (ev_operation e)), (''phase'', JStr (ev_phase e)),
      (''evidence_id'', JStr (ev_evidence_id e)), (''targets'', JObj (str_obj (event_targets e)))]
    @ (case event_action e of None \<Rightarrow> [] | Some a \<Rightarrow> [(''action_id'', JStr a)]))"

definition working_item :: "runtime_event \<Rightarrow> json" where
  "working_item e = JObj (json_put ''evidence_id'' (JStr (ev_evidence_id e))
     (json_merge [(''operation'', JStr (ev_operation e))] (str_obj (event_targets e))))"

definition update_working_set :: "runtime_event \<Rightarrow> json list \<Rightarrow> json list" where
  "update_working_set e items =
    last_n MAX_WORKING_SET (filter (\<lambda>item. working_key item \<noteq> working_key (working_item e)) items @ [working_item e])"

definition of_action :: "string \<Rightarrow> json \<Rightarrow> bool" where
  "of_action a item = (case item of JObj o' \<Rightarrow> json_get ''action_id'' o' = Some (JStr a) | _ \<Rightarrow> False)"

definition pending_json :: "runtime_event \<Rightarrow> string \<Rightarrow> json" where
  "pending_json e a = JObj ([(''action_id'', JStr a), (''operation'', JStr (ev_operation e)),
      (''phase'', JStr (ev_phase e)), (''evidence_id'', JStr (ev_evidence_id e))]
    @ (if ev_phase e = ''uncertain'' then [] else [(''targets'', JObj (str_obj (event_targets e)))]))"

definition update_pending :: "runtime_event \<Rightarrow> json list \<Rightarrow> json list" where
  "update_pending e pending = (case event_action e of None \<Rightarrow> pending
     | Some a \<Rightarrow>
         let others = filter (\<lambda>item. \<not> of_action a item) pending
         in if ev_phase e \<in> {''prepared'', ''approval_required'', ''executing'', ''uncertain''}
            then others @ [pending_json e a]
            else if ev_phase e \<in> {''succeeded'', ''failed'', ''cancelled'', ''rejected''} then others
            else pending)"

definition error_json :: "runtime_event \<Rightarrow> json" where
  "error_json e = JObj [(''operation'', JStr (ev_operation e)), (''phase'', JStr (ev_phase e)),
     (''evidence_id'', JStr (ev_evidence_id e)),
     (''message'', JStr (case json_get ''message'' (ev_detail e) of Some (JStr m) \<Rightarrow> clip 500 m | _ \<Rightarrow> []))]"

definition update_errors :: "runtime_event \<Rightarrow> json list \<Rightarrow> json list" where
  "update_errors e errors = last_n MAX_ERRORS (errors @ [error_json e])"

definition record_in_runtime :: "bool \<Rightarrow> runtime_event \<Rightarrow> json_obj \<Rightarrow> json_obj" where
  "record_in_runtime managed e r =
    (let r1 = json_put ''recent_events'' (JList (last_n MAX_EVENTS (list_at ''recent_events'' r @ [event_json e]))) r;
         r2 = (if managed then json_put ''last_event_evidence_id'' (JStr (ev_evidence_id e)) r1 else r1);
         r3 = (if event_targets e \<noteq> []
           then json_put ''working_set'' (JList (update_working_set e (list_at ''working_set'' r2))) r2 else r2);
         r4 = json_put ''pending_actions'' (JList (update_pending e (list_at ''pending_actions'' r3))) r3
     in if ev_phase e \<in> {''failed'', ''uncertain'', ''unavailable'', ''forbidden''}
        then json_put ''errors'' (JList (update_errors e (list_at ''errors'' r4))) r4 else r4)"

definition is_managed :: "json_obj \<Rightarrow> bool" where
  "is_managed state = (json_get ''mode'' state = Some (JStr ''managed''))"

definition record_runtime_event :: "uuid \<Rightarrow> json_obj \<Rightarrow> runtime_event \<Rightarrow> json_obj" where
  "record_runtime_event task_id state e =
    (let result = (if state \<noteq> [] then state else new_task_state task_id [])
     in within ''runtime'' (record_in_runtime (is_managed result) e) result)"

section \<open>Semantic changes\<close>

datatype delta_status = DActive | DComplete

datatype criterion_status = CPending | CPassed | CFailed

fun criterion_value :: "criterion_status \<Rightarrow> string" where
  "criterion_value CPending = ''pending''"
| "criterion_value CPassed = ''passed''"
| "criterion_value CFailed = ''failed''"

record acceptance_update =
  au_id :: string
  au_status :: criterion_status
  au_evidence_refs :: "string list"

record task_delta =
  td_objective :: "string option"
  td_constraints :: "string list option"
  td_decisions :: "(string \<times> string option) list option"
  td_findings :: "string list option"
  td_open_questions :: "string list option"
  td_next_step :: "string option"
  td_progress :: "int option"
  td_current_checkpoint :: "string option"
  td_completed_checkpoints :: "string list option"
  td_acceptance_updates :: "acceptance_update list option"
  td_coding_session_id :: "string option"
  td_status :: "delta_status option"
  td_replace :: bool

text \<open>What the two Pydantic models accept.\<close>

definition opt_all :: "('a \<Rightarrow> bool) \<Rightarrow> 'a option \<Rightarrow> bool" where
  "opt_all P x = (case x of None \<Rightarrow> True | Some y \<Rightarrow> P y)"

definition task_texts :: "string list \<Rightarrow> bool" where
  "task_texts xs = (length xs \<le> 5 \<and> (\<forall>x \<in> set xs. 1 \<le> length x \<and> length x \<le> 300))"

definition update_valid :: "acceptance_update \<Rightarrow> bool" where
  "update_valid u = (1 \<le> length (au_id u) \<and> length (au_id u) \<le> 80 \<and> length (au_evidence_refs u) \<le> 8
     \<and> (au_status u = CPassed \<longrightarrow> au_evidence_refs u \<noteq> []))"

definition delta_valid :: "task_delta \<Rightarrow> bool" where
  "delta_valid d =
    (opt_all (\<lambda>s. length s \<le> 800) (td_objective d) \<and> opt_all task_texts (td_constraints d)
   \<and> opt_all (\<lambda>xs. length xs \<le> 5 \<and> (\<forall>(t, r) \<in> set xs. 1 \<le> length t \<and> length t \<le> 400 \<and> opt_all (\<lambda>s. length s \<le> 400) r))
       (td_decisions d)
   \<and> opt_all task_texts (td_findings d) \<and> opt_all task_texts (td_open_questions d)
   \<and> opt_all (\<lambda>s. length s \<le> 500) (td_next_step d) \<and> opt_all (\<lambda>i. 0 \<le> i \<and> i \<le> 100) (td_progress d)
   \<and> opt_all (\<lambda>s. length s \<le> 120) (td_current_checkpoint d) \<and> opt_all (\<lambda>xs. length xs \<le> 32) (td_completed_checkpoints d)
   \<and> opt_all (\<lambda>us. length us \<le> 32 \<and> (\<forall>u \<in> set us. update_valid u)) (td_acceptance_updates d)
   \<and> opt_all (\<lambda>s. length s \<le> 120) (td_coding_session_id d)
   \<and> (td_status d = Some DActive \<longrightarrow> (case td_next_step d of None \<Rightarrow> False | Some s \<Rightarrow> strip s \<noteq> [])))"

definition known_evidence_ids :: "json_obj \<Rightarrow> string set" where
  "known_evidence_ids state =
    set (filter (\<lambda>s. s \<noteq> []) (map (item_str ''evidence_id'') (list_at ''recent_events'' (obj_at ''runtime'' state))))"

definition has_id :: "string \<Rightarrow> json \<Rightarrow> bool" where
  "has_id i item = (case item of JObj o' \<Rightarrow> py_str (get_or_null ''id'' o') = i | _ \<Rightarrow> False)"

text \<open>\<^verbatim>\<open>by_id\<close> keeps the last item of an identity.\<close>

definition criterion_index :: "string \<Rightarrow> json list \<Rightarrow> nat option" where
  "criterion_index i criteria =
    (let hits = filter (\<lambda>j. has_id i (criteria ! j)) [0..<length criteria] in if hits = [] then None else Some (last hits))"

definition set_criterion :: "string \<Rightarrow> string list \<Rightarrow> json \<Rightarrow> json" where
  "set_criterion status evidence item = (case item of
      JObj o' \<Rightarrow> JObj (json_put ''evidence_refs'' (strs evidence) (json_put ''status'' (JStr status) o')) | _ \<Rightarrow> item)"

definition apply_update :: "string set \<Rightarrow> acceptance_update \<Rightarrow> json list \<Rightarrow> json list" where
  "apply_update known u criteria = (case criterion_index (au_id u) criteria of None \<Rightarrow> criteria
     | Some j \<Rightarrow>
         let evidence = filter (\<lambda>r. r \<in> known) (au_evidence_refs u)
         in if au_status u = CPassed \<and> evidence = [] then criteria
            else criteria[j := set_criterion (criterion_value (au_status u)) evidence (criteria ! j)])"

definition apply_acceptance_updates :: "json_obj \<Rightarrow> acceptance_update list \<Rightarrow> json_obj" where
  "apply_acceptance_updates state updates = (case json_get ''acceptance_criteria'' state of
      Some (JList criteria) \<Rightarrow> json_put ''acceptance_criteria''
        (JList (fold (apply_update (known_evidence_ids state)) updates criteria)) state
    | _ \<Rightarrow> state)"

definition criterion_passed :: "json \<Rightarrow> bool" where
  "criterion_passed item = (case item of
      JObj o' \<Rightarrow> json_get ''status'' o' = Some (JStr ''passed'') \<and> json_true ''evidence_refs'' o' \<noteq> None
    | _ \<Rightarrow> False)"

definition all_acceptance_passed :: "json_obj \<Rightarrow> bool" where
  "all_acceptance_passed state =
    (list_at ''acceptance_criteria'' state \<noteq> [] \<and> (\<forall>item \<in> set (list_at ''acceptance_criteria'' state). criterion_passed item))"

definition put_opt :: "string \<Rightarrow> ('a \<Rightarrow> json) \<Rightarrow> 'a option \<Rightarrow> json_obj \<Rightarrow> json_obj" where
  "put_opt k f x d = (case x of None \<Rightarrow> d | Some y \<Rightarrow> json_put k (f y) d)"

definition decision_json :: "string \<times> string option \<Rightarrow> json" where
  "decision_json = (\<lambda>(text, rationale). JObj ((''text'', JStr (clip 400 text)) #
     (case rationale of Some r \<Rightarrow> if r \<noteq> [] then [(''rationale'', JStr (clip 400 r))] else [] | None \<Rightarrow> [])))"

definition merge_semantic :: "task_delta \<Rightarrow> json_obj \<Rightarrow> json_obj" where
  "merge_semantic d s =
    put_opt ''next_step'' (\<lambda>t. JStr (clip 500 t)) (td_next_step d)
    (put_opt ''decisions'' (\<lambda>xs. JList (map decision_json (take MAX_LIST xs))) (td_decisions d)
    (put_opt ''open_questions'' (\<lambda>xs. strs (bounded_strings MAX_LIST xs)) (td_open_questions d)
    (put_opt ''findings'' (\<lambda>xs. strs (bounded_strings MAX_LIST xs)) (td_findings d)
    (put_opt ''constraints'' (\<lambda>xs. strs (bounded_strings MAX_LIST xs)) (td_constraints d)
    (put_opt ''objective'' (\<lambda>t. JStr (clip 800 t)) (td_objective d) s)))))"

definition complete_checkpoint :: "string list \<Rightarrow> json \<Rightarrow> json" where
  "complete_checkpoint completed item = (case item of
      JObj o' \<Rightarrow> JObj (json_put ''status'' (if (\<exists>i \<in> set completed. json_get ''id'' o' = Some (JStr i)) then JStr ''complete''
        else (case json_get ''status'' o' of None \<Rightarrow> JStr ''pending'' | Some v \<Rightarrow> v)) o')
    | _ \<Rightarrow> item)"

definition merge_checkpoints :: "task_delta \<Rightarrow> json_obj \<Rightarrow> json_obj" where
  "merge_checkpoints d state = (case td_completed_checkpoints d of None \<Rightarrow> state
     | Some xs \<Rightarrow>
         let completed = bounded_strings 32 xs;
             state1 = within ''progress'' (json_put ''completed_checkpoints'' (strs completed)) state
         in (case json_get ''checkpoints'' state1 of
              Some (JList cs) \<Rightarrow> json_put ''checkpoints'' (JList (map (complete_checkpoint completed) cs)) state1
            | _ \<Rightarrow> state1))"

definition merge_progress :: "task_delta \<Rightarrow> json_obj \<Rightarrow> json_obj" where
  "merge_progress d state =
    (let s1 = within ''progress'' (\<lambda>p. put_opt ''current_checkpoint'' (\<lambda>t. JStr (clip 120 t)) (td_current_checkpoint d)
            (put_opt ''percent'' JInt (td_progress d) p)) state;
         s2 = merge_checkpoints d s1;
         s3 = (case td_coding_session_id d of None \<Rightarrow> s2
           | Some c \<Rightarrow> within ''progress'' (json_put ''coding_session_id'' (JStr (clip 120 c))) s2);
         s4 = (case td_acceptance_updates d of None \<Rightarrow> s3 | Some us \<Rightarrow> apply_acceptance_updates s3 us)
     in within ''runtime'' (\<lambda>r. json_put ''managed_turns'' (JInt (int_at ''managed_turns'' r + 1)) r) s4)"

definition completion_message :: string where
  "completion_message = ''Completion requires every acceptance criterion to be passed with known runtime evidence and no pending actions.''"

definition merge_status :: "task_delta \<Rightarrow> json_obj \<Rightarrow> json_obj" where
  "merge_status d state = (case td_status d of None \<Rightarrow> state
     | Some DActive \<Rightarrow> json_put ''status'' (JStr ''active'') state
     | Some DComplete \<Rightarrow>
         if is_managed state then
           if list_at ''pending_actions'' (obj_at ''runtime'' state) \<noteq> [] \<or> \<not> all_acceptance_passed state
           then within ''semantic'' (\<lambda>s. if json_true ''next_step'' s = None then json_put ''next_step''
                    (JStr ''Verify the remaining acceptance criteria and continue the task.'') s else s)
                  (within ''runtime'' (json_put ''completion_rejected'' (JStr completion_message))
                    (json_put ''status'' (JStr ''active'') state))
           else within ''progress'' (json_put ''percent'' (JInt 100))
                  (within ''semantic'' (json_put ''next_step'' JNull)
                    (within ''runtime'' (json_put ''completion_rejected'' JNull)
                      (json_put ''status'' (JStr ''complete'') state)))
         else within ''semantic'' (json_put ''next_step'' JNull) (json_put ''status'' (JStr ''complete'') state))"

definition merge_semantic_delta :: "uuid \<Rightarrow> json_obj \<Rightarrow> task_delta \<Rightarrow> json_obj" where
  "merge_semantic_delta task_id state d =
    (let result = (if state \<noteq> [] then state else new_task_state task_id []);
         replaced = (if td_replace d then json_put ''semantic'' (JObj new_semantic) result else result);
         merged = within ''semantic'' (merge_semantic d) replaced
     in merge_status d (if is_managed merged then merge_progress d merged else merged))"

section \<open>The projection a provider sees\<close>

definition project_keys :: "string list \<Rightarrow> json \<Rightarrow> json" where
  "project_keys ks item = (case item of
      JObj o' \<Rightarrow> JObj (concat (map (\<lambda>k. case json_get k o' of None \<Rightarrow> [] | Some v \<Rightarrow> [(k, v)]) ks)) | _ \<Rightarrow> item)"

definition projected_runtime :: "json_obj \<Rightarrow> json_obj" where
  "projected_runtime state =
    (let runtime = obj_at ''runtime'' state; pending = list_at ''pending_actions'' runtime
     in [(''owner_request'', get_or_null ''owner_request'' runtime),
         (''owner_turn_id'', get_or_null ''owner_turn_id'' runtime),
         (''pending_actions'', JList (map (project_keys [''action_id'', ''operation'', ''phase'', ''evidence_id'']) (take 16 pending))),
         (''pending_actions_count'', JInt (int (length pending))),
         (''pending_actions_overflow'', if 16 < length pending then JObj
            [(''operation_id'', JStr ''evidence.task.read''), (''task_id'', get_or_null ''task_id'' state),
             (''expected_revision'', JInt (int_at ''revision'' state)),
             (''message'', JStr ''Additional unresolved action references remain in the exact task checkpoint; page it before planning effects.'')]
           else JNull),
         (''errors'', JList (list_at ''errors'' runtime)),
         (''recent_events'', JList (last_n 8 (list_at ''recent_events'' runtime))),
         (''working_set'', JList (last_n 8 (list_at ''working_set'' runtime))),
         (''completion_rejected'', get_or_null ''completion_rejected'' runtime)])"

definition projected_task :: "json_obj \<Rightarrow> json_obj" where
  "projected_task state =
    [(''task_id'', get_or_null ''task_id'' state), (''revision'', JInt (int_at ''revision'' state)),
     (''status'', get_or_null ''status'' state),
     (''mode'', case json_get ''mode'' state of None \<Rightarrow> JStr ''conversation'' | Some v \<Rightarrow> v),
     (''semantic'', JObj (obj_at ''semantic'' state)), (''runtime'', JObj (projected_runtime state))]
    @ (if is_managed state then
        map (\<lambda>k. (k, get_or_null k state)) [''project_id'', ''project_title'', ''source_chat_id'', ''policy_preset'']
        @ map (\<lambda>k. (k, JList (list_at k state))) [''authority_grants'', ''scope'', ''acceptance_criteria'', ''checkpoints'']
        @ [(''progress'', JObj (obj_at ''progress'' state))]
       else [])"

definition checkpoint_prefix :: string where
  "checkpoint_prefix = ''Protected active-task checkpoint. Runtime fields are authoritative facts; semantic fields are the model'' @ [CHR 0x27] @ ''s compact task meaning. '' @
     ''Keep this task coherent even if older dialogue or tool evidence is omitted. ''"

definition managed_prefix :: string where
  "managed_prefix = ''MANAGED TASK CONTROL: this is a durable background objective, not a one-turn chat reply. '' @
     ''Continue working without asking the owner again for authority already contained in the agreed scope and central Atlas policy. '' @
     ''Exact operation IDs in authority_grants were approved with this task: the runtime may promote Ask me to Auto for those operations only; a current Control Deny or disabled capability still blocks dispatch. '' @
     ''Do not create a scheduled task merely to continue this work. Delegate coding to the Coding agent capability when appropriate, monitor it, and continue from its result. '' @
     ''Semantic findings and next_step may describe blockers observed on earlier turns; they are not immutable runtime facts. Before repeating a blocker, asking the owner for a repair, or consuming another no-progress retry, use an available safe READ capability in the current turn to verify that the blocker still exists. If a safe read can test it, do not infer continued blockage only from prior semantic text. '' @
     ''At the end of every inference set task_state_delta.status=active with next_step while anything remains, or status=complete only after every acceptance criterion is passed with runtime evidence and no action is pending. '' @
     ''The runtime, not the owner, will invoke the next Atlas turn while status remains active. ''"

definition active_task_provider_message :: "json_obj \<Rightarrow> (string \<times> string) option" where
  "active_task_provider_message state =
    (if state = [] \<or> json_get ''status'' state \<noteq> Some (JStr ''active'') then None
     else Some (''developer'', checkpoint_prefix @ (if is_managed state then managed_prefix else [])
       @ dumps_plain (JObj (projected_task state))))"

end
