(* ===== verification/Task_Properties.thy ===== *)
theory Task_Properties
  imports Task_State
begin

text \<open>
  What a task checkpoint keeps over any sequence of operations: a managed task is completed
  only on evidence the runtime recorded, the agreed contract of a managed task never
  changes, pending actions follow the events, and the model's changes stay out of the
  runtime facts.
\<close>

section \<open>Operations as a sequence\<close>

datatype task_op =
    OwnerTurn uuid string
  | Event uuid runtime_event
  | Resolve uuid "string set"
  | Delta uuid task_delta

fun apply_op :: "task_op \<Rightarrow> json_obj \<Rightarrow> json_obj" where
  "apply_op (OwnerTurn t request) st = begin_owner_turn t st request"
| "apply_op (Event t e) st = record_runtime_event t st e"
| "apply_op (Resolve t ids) st = remove_resolved_pending_actions t st ids"
| "apply_op (Delta t d) st = merge_semantic_delta t st d"

definition run_ops :: "task_op list \<Rightarrow> json_obj \<Rightarrow> json_obj" where
  "run_ops ops st = fold apply_op ops st"

abbreviation runtime :: "json_obj \<Rightarrow> json_obj" where
  "runtime st \<equiv> obj_at ''runtime'' st"

abbreviation criteria :: "json_obj \<Rightarrow> json list" where
  "criteria st \<equiv> list_at ''acceptance_criteria'' st"

section \<open>What one operation writes\<close>

lemma get_literal:
  "obj_at k ((k', v) # d) = (if k = k' then (case v of JObj o' \<Rightarrow> o' | _ \<Rightarrow> []) else obj_at k d)"
  "list_at k ((k', v) # d) = (if k = k' then (case v of JList xs \<Rightarrow> xs | _ \<Rightarrow> []) else list_at k d)"
  "obj_at k [] = []" "list_at k [] = []"
  by (simp_all add: obj_at_def list_at_def)

lemma put_opt_get [simp]:
  "json_get k (put_opt k' f x d) = (if k = k' \<and> x \<noteq> None then Some (f (the x)) else json_get k d)"
  by (simp add: put_opt_def split: option.splits)

lemma put_opt_list [simp]:
  "list_at k (put_opt k' f x d) = (if k = k' \<and> x \<noteq> None then (case f (the x) of JList xs \<Rightarrow> xs | _ \<Rightarrow> []) else list_at k d)"
  by (auto simp: list_at_def)

lemma checkpoints_get [simp]:
  "k \<notin> {''progress'', ''checkpoints''} \<Longrightarrow> json_get k (merge_checkpoints d st) = json_get k st"
  "k \<notin> {''progress'', ''checkpoints''} \<Longrightarrow> obj_at k (merge_checkpoints d st) = obj_at k st"
  "k \<notin> {''progress'', ''checkpoints''} \<Longrightarrow> list_at k (merge_checkpoints d st) = list_at k st"
  by (auto simp: merge_checkpoints_def Let_def split: option.splits json.splits)

lemma acceptance_get [simp]:
  "k \<noteq> ''acceptance_criteria'' \<Longrightarrow> json_get k (apply_acceptance_updates st us) = json_get k st"
  "k \<noteq> ''acceptance_criteria'' \<Longrightarrow> obj_at k (apply_acceptance_updates st us) = obj_at k st"
  by (auto simp: apply_acceptance_updates_def split: option.splits json.splits)

lemma merge_progress_get:
  "k \<notin> {''progress'', ''checkpoints'', ''acceptance_criteria'', ''runtime''} \<Longrightarrow>
   json_get k (merge_progress d st) = json_get k st"
  "k \<notin> {''progress'', ''checkpoints'', ''acceptance_criteria'', ''runtime''} \<Longrightarrow>
   obj_at k (merge_progress d st) = obj_at k st"
  "obj_at ''runtime'' (merge_progress d st) =
     json_put ''managed_turns'' (JInt (int_at ''managed_turns'' (runtime st) + 1)) (runtime st)"
  by (auto simp: merge_progress_def Let_def split: option.splits)

lemma merge_status_get:
  "k \<notin> {''status'', ''progress'', ''semantic'', ''runtime''} \<Longrightarrow> json_get k (merge_status d st) = json_get k st"
  "k \<noteq> ''completion_rejected'' \<Longrightarrow> json_get k (runtime (merge_status d st)) = json_get k (runtime st)"
  by (auto simp: merge_status_def split: option.splits delta_status.splits)

text \<open>Pending actions follow the recorded events and survive the owner's turns. An event of
  an action leaves the entries of other actions in place and order; an opening or uncertain
  phase leaves exactly one entry of the action, the new one, a closing phase none, another
  phase what was there. A new owner turn keeps all of them, also when it starts a new task.\<close>

theorem pending_follows_events:
  "(case event_action e of
      None \<Rightarrow> list_at ''pending_actions'' (runtime (record_runtime_event t st e)) = list_at ''pending_actions'' (runtime st)
    | Some a \<Rightarrow>
        filter (\<lambda>x. \<not> of_action a x) (list_at ''pending_actions'' (runtime (record_runtime_event t st e)))
          = filter (\<lambda>x. \<not> of_action a x) (list_at ''pending_actions'' (runtime st))
      \<and> filter (of_action a) (list_at ''pending_actions'' (runtime (record_runtime_event t st e)))
          = (if ev_phase e \<in> {''prepared'', ''approval_required'', ''executing'', ''uncertain''} then [pending_json e a]
             else if ev_phase e \<in> {''succeeded'', ''failed'', ''cancelled'', ''rejected''} then []
             else filter (of_action a) (list_at ''pending_actions'' (runtime st))))
   \<and> list_at ''pending_actions'' (runtime (begin_owner_turn t st request)) = list_at ''pending_actions'' (runtime st)"
proof -
  have rt: "list_at ''pending_actions'' (runtime (record_runtime_event t st e))
      = update_pending e (list_at ''pending_actions'' (runtime st))"
    by (simp add: record_runtime_event_def Let_def record_in_runtime_def new_task_state_def get_literal)
  have "of_action a (pending_json e a)" for a
    by (simp add: of_action_def pending_json_def)
  then show ?thesis
    unfolding rt
    by (auto simp: update_pending_def Let_def begin_owner_turn_def new_task_state_def get_literal
        split: option.splits)
qed

section \<open>The contract of a managed task\<close>

definition item_contract :: "json \<Rightarrow> json option \<times> json option" where
  "item_contract item = (case item of JObj o' \<Rightarrow> (json_get ''id'' o', json_get ''text'' o') | _ \<Rightarrow> (None, None))"

definition contract :: "json_obj \<Rightarrow> json option list \<times> (json option \<times> json option) list" where
  "contract st = (map (\<lambda>k. json_get k st) [''task_id'', ''project_id'', ''project_title'', ''source_chat_id'',
      ''policy_preset'', ''authority_grants'', ''scope''], map item_contract (criteria st))"

definition contract_kept :: "json_obj \<Rightarrow> json_obj \<Rightarrow> bool" where
  "contract_kept s t = (is_managed t \<longrightarrow> is_managed s \<and> contract t = contract s)"

lemma criterion_index_Some:
  assumes "criterion_index i cs = Some j"
  shows "j < length cs \<and> has_id i (cs ! j)"
proof -
  let ?hits = "filter (\<lambda>j. has_id i (cs ! j)) [0..<length cs]"
  have "?hits \<noteq> []" "j = last ?hits"
    using assms by (auto simp: criterion_index_def Let_def split: if_splits)
  then have "j \<in> set ?hits" using last_in_set by blast
  then show ?thesis by simp
qed

text \<open>An update changes at most one criterion, and only its status and its references.\<close>

lemma apply_update_cases:
  obtains (same) "apply_update known u cs = cs"
  | (set) j where "j < length cs" "has_id (au_id u) (cs ! j)"
      "au_status u = CPassed \<Longrightarrow> filter (\<lambda>r. r \<in> known) (au_evidence_refs u) \<noteq> []"
      "apply_update known u cs = cs[j := set_criterion (criterion_value (au_status u))
         (filter (\<lambda>r. r \<in> known) (au_evidence_refs u)) (cs ! j)]"
proof (cases "criterion_index (au_id u) cs")
  case None
  then show ?thesis using same by (simp add: apply_update_def)
next
  case (Some j)
  then show ?thesis
    using criterion_index_Some [OF Some] that
    by (cases "au_status u = CPassed \<and> filter (\<lambda>r. r \<in> known) (au_evidence_refs u) = []")
       (auto simp: apply_update_def Let_def)
qed

lemma apply_update_contract: "map item_contract (apply_update known u cs) = map item_contract cs"
proof (cases known u cs rule: apply_update_cases)
  case (set j)
  have "item_contract (set_criterion st ev item) = item_contract item" for st ev item
    by (simp add: item_contract_def set_criterion_def split: json.splits)
  with set show ?thesis by (simp add: map_update list_update_same_conv)
qed simp

lemma fold_update_contract: "map item_contract (fold (apply_update known) us cs) = map item_contract cs"
  by (induction us arbitrary: cs) (simp_all add: apply_update_contract)

lemma fold_update_Nil: "fold (apply_update known) us [] = []"
  by (induction us) (simp_all add: apply_update_def criterion_index_def)

lemma acceptance_list:
  "list_at ''acceptance_criteria'' (apply_acceptance_updates st us)
   = fold (apply_update (known_evidence_ids st)) us (list_at ''acceptance_criteria'' st)"
  by (auto simp: apply_acceptance_updates_def fold_update_Nil list_at_def split: option.splits json.splits)

lemma known_cong: "obj_at ''runtime'' st' = obj_at ''runtime'' st \<Longrightarrow> known_evidence_ids st' = known_evidence_ids st"
  by (simp add: known_evidence_ids_def)

lemma merge_progress_criteria:
  "list_at ''acceptance_criteria'' (merge_progress d st) = (case td_acceptance_updates d of
      None \<Rightarrow> list_at ''acceptance_criteria'' st
    | Some us \<Rightarrow> fold (apply_update (known_evidence_ids st)) us (list_at ''acceptance_criteria'' st))"
  by (simp add: merge_progress_def Let_def acceptance_list known_evidence_ids_def split: option.split)

lemma merge_status_criteria:
  "list_at ''acceptance_criteria'' (merge_status d st) = list_at ''acceptance_criteria'' st"
  by (simp add: list_at_def merge_status_get)

text \<open>The state between the two halves of \<open>merge_semantic_delta\<close>.\<close>

definition merged_semantic :: "json_obj \<Rightarrow> task_delta \<Rightarrow> json_obj" where
  "merged_semantic st d = within ''semantic'' (merge_semantic d)
     (if td_replace d then json_put ''semantic'' (JObj new_semantic) st else st)"

lemma merged_semantic_get [simp]:
  "k \<noteq> ''semantic'' \<Longrightarrow> json_get k (merged_semantic st d) = json_get k st"
  "k \<noteq> ''semantic'' \<Longrightarrow> obj_at k (merged_semantic st d) = obj_at k st"
  "k \<noteq> ''semantic'' \<Longrightarrow> list_at k (merged_semantic st d) = list_at k st"
  by (simp_all add: merged_semantic_def)

lemma merge_semantic_delta_eq:
  "st \<noteq> [] \<Longrightarrow> merge_semantic_delta t st d = merge_status d
     (if is_managed st then merge_progress d (merged_semantic st d) else merged_semantic st d)"
  by (simp add: merge_semantic_delta_def Let_def merged_semantic_def is_managed_def)

lemma delta_criteria:
  assumes "st \<noteq> []" "is_managed st"
  shows "criteria (merge_semantic_delta t st d) = (case td_acceptance_updates d of None \<Rightarrow> criteria st
    | Some us \<Rightarrow> fold (apply_update (known_evidence_ids st)) us (criteria st))"
  using assms known_cong [of "merged_semantic st d" st]
  by (simp add: merge_semantic_delta_eq merge_status_criteria merge_progress_criteria split: option.splits)

lemma delta_runtime_get:
  "st \<noteq> [] \<Longrightarrow> k \<notin> {''managed_turns'', ''completion_rejected''} \<Longrightarrow>
   json_get k (runtime (merge_semantic_delta t st d)) = json_get k (runtime st)"
  by (auto simp: merge_semantic_delta_eq merge_status_get merge_progress_get)

lemma delta_other_get:
  "st \<noteq> [] \<Longrightarrow> k \<notin> {''semantic'', ''runtime'', ''status'', ''progress'', ''checkpoints'', ''acceptance_criteria''} \<Longrightarrow>
   json_get k (merge_semantic_delta t st d) = json_get k st"
  by (simp add: merge_semantic_delta_eq merge_status_get merge_progress_get)

definition demo_delta :: task_delta where
  "demo_delta = \<lparr>td_objective = Some ''goal'', td_constraints = None, td_decisions = None, td_findings = None,
     td_open_questions = None, td_next_step = Some ''go'', td_progress = None, td_current_checkpoint = None,
     td_completed_checkpoints = None, td_acceptance_updates = None, td_coding_session_id = None,
     td_status = Some DActive, td_replace = False\<rparr>"

text \<open>A semantic change leaves the runtime facts alone. Of the runtime section a delta of the
  model can change only the turn counter and the note on a refused completion; outside the
  semantic section, the progress, the checkpoints, the criteria and the status it can
  change nothing, so not the mode, the scope or the granted authority.\<close>

theorem delta_keeps_runtime:
  assumes "st \<noteq> []"
  shows "(k \<notin> {''managed_turns'', ''completion_rejected''} \<longrightarrow>
            json_get k (runtime (merge_semantic_delta t st d)) = json_get k (runtime st))
       \<and> (k \<notin> {''semantic'', ''runtime'', ''status'', ''progress'', ''checkpoints'', ''acceptance_criteria''} \<longrightarrow>
            json_get k (merge_semantic_delta t st d) = json_get k st)"
  using assms by (intro conjI impI delta_runtime_get delta_other_get)

theorem delta_keeps_runtime_witness:
  "json_get ''owner_turns'' (runtime (merge_semantic_delta ''t'' (new_task_state ''t'' ''hi'') demo_delta)) = Some (JInt 1)"
  using delta_keeps_runtime [of "new_task_state ''t'' ''hi''" "''owner_turns''" "''t''" demo_delta]
  by (simp add: new_task_state_def get_literal)

lemma new_task_not_managed [simp]: "\<not> is_managed (new_task_state t r)"
  by (simp add: is_managed_def new_task_state_def)

lemma runtime_only_contract:
  "is_managed (within ''runtime'' f st) = is_managed st" "contract (within ''runtime'' f st) = contract st"
  by (simp_all add: is_managed_def contract_def)

lemma delta_managed: "st \<noteq> [] \<Longrightarrow> is_managed (merge_semantic_delta t st d) = is_managed st"
  using merge_status_get(1) [of "''mode''"] merge_progress_get(1) [of "''mode''"]
  by (auto simp: merge_semantic_delta_eq is_managed_def)

lemma delta_empty: "merge_semantic_delta t [] d = merge_semantic_delta t (new_task_state t []) d"
  by (simp add: merge_semantic_delta_def new_task_state_def)

lemma new_task_not_empty [simp]: "new_task_state t r \<noteq> []"
  by (simp add: new_task_state_def)

lemma apply_op_contract: "contract_kept st (apply_op op st)"
proof (cases op)
  case (OwnerTurn t r)
  have "is_managed (json_put ''status'' v x) = is_managed x \<and> contract (json_put ''status'' v x) = contract x" for v x
    by (simp add: is_managed_def contract_def)
  then show ?thesis
    using OwnerTurn by (auto simp: contract_kept_def begin_owner_turn_def runtime_only_contract Let_def)
next
  case (Event t e)
  then show ?thesis
    by (auto simp: contract_kept_def record_runtime_event_def runtime_only_contract Let_def)
next
  case (Resolve t ids)
  then show ?thesis
    by (auto simp: contract_kept_def remove_resolved_pending_actions_def runtime_only_contract Let_def)
next
  case (Delta t d)
  show ?thesis
  proof (cases "st = []")
    case True
    then show ?thesis
      using Delta delta_managed [of "new_task_state t []" t d] delta_empty [of t d]
      by (simp add: contract_kept_def)
  next
    case False
    have "map item_contract (criteria (merge_semantic_delta t st d)) = map item_contract (criteria st)" if "is_managed st"
      using delta_criteria [OF False that, of t d] by (auto simp: fold_update_contract split: option.splits)
    then show ?thesis
      using Delta delta_managed [OF False] by (simp add: contract_kept_def contract_def delta_other_get [OF False])
  qed
qed

section \<open>Bounds\<close>

definition bounded :: "json_obj \<Rightarrow> bool" where
  "bounded st =
    (length (list_at ''recent_events'' (runtime st)) \<le> MAX_EVENTS
   \<and> length (list_at ''working_set'' (runtime st)) \<le> MAX_WORKING_SET
   \<and> length (list_at ''errors'' (runtime st)) \<le> MAX_ERRORS)"

lemma bounded_new [simp]: "bounded (new_task_state t r)"
  by (simp add: bounded_def new_task_state_def get_literal)

lemma record_bounded: "bounded st \<Longrightarrow> bounded (within ''runtime'' (record_in_runtime m e) st)"
  by (auto simp: bounded_def record_in_runtime_def Let_def update_working_set_def update_errors_def)

lemma apply_op_bounded: "bounded st \<Longrightarrow> bounded (apply_op op st)"
proof (cases op)
  case (OwnerTurn t r)
  then show "bounded st \<Longrightarrow> ?thesis"
    by (auto simp: begin_owner_turn_def Let_def bounded_def new_task_state_def get_literal)
next
  case (Event t e)
  then show "bounded st \<Longrightarrow> ?thesis"
    by (auto simp: record_runtime_event_def Let_def intro: record_bounded)
next
  case (Resolve t ids)
  then show "bounded st \<Longrightarrow> ?thesis"
    by (auto simp: remove_resolved_pending_actions_def Let_def bounded_def new_task_state_def get_literal)
next
  case (Delta t d)
  have "bounded (merge_semantic_delta t x d) = bounded x" if "x \<noteq> []" for x
    using that by (simp add: bounded_def list_at_def delta_runtime_get)
  then show "bounded st \<Longrightarrow> ?thesis"
    using Delta delta_empty by (cases "st = []") auto
qed

interpretation checkpoint: guarded_steps "\<lambda>s t. \<exists>op. t = apply_op op s" bounded contract_kept
proof
  show "contract_kept s s" for s by (simp add: contract_kept_def)
  show "contract_kept s u" if "contract_kept s t" "contract_kept t u" for s t u
    using that by (auto simp: contract_kept_def)
qed (use apply_op_bounded apply_op_contract in auto)

lemma run_ops_history: "(\<lambda>s t. \<exists>op. t = apply_op op s)\<^sup>*\<^sup>* st (run_ops ops st)"
  unfolding run_ops_def
proof (induction ops arbitrary: st)
  case (Cons op ops)
  let ?R = "\<lambda>s t. \<exists>op. t = apply_op op s"
  have "?R st (apply_op op st)" by blast
  moreover have "?R\<^sup>*\<^sup>* (apply_op op st) (fold apply_op ops (apply_op op st))" by (rule Cons.IH)
  ultimately have "?R\<^sup>*\<^sup>* st (fold apply_op ops (apply_op op st))"
    by (rule converse_rtranclp_into_rtranclp)
  then show ?case by simp
qed simp

text \<open>C14: The checkpoint of a conversation stays bounded and a managed contract stays as
  agreed. Over any sequence of owner turns, runtime events, resolutions and semantic
  changes the event window, the working set and the errors keep their limits; and a state
  that is managed at the end was managed at the start with the same task, project, policy,
  scope, granted authority and acceptance criteria texts.\<close>

theorem checkpoint_history:
  assumes "bounded st"
  shows "bounded (run_ops ops st) \<and> contract_kept st (run_ops ops st)"
  using checkpoint.history [OF run_ops_history assms] .

section \<open>Completion on recorded evidence\<close>

text \<open>The evidence identities a sequence of operations recorded.\<close>

fun op_evidence :: "task_op \<Rightarrow> string set" where
  "op_evidence (Event t e) = {ev_evidence_id e}"
| "op_evidence _ = {}"

definition recorded :: "task_op list \<Rightarrow> string set" where
  "recorded ops = (\<Union>op \<in> set ops. op_evidence op)"

definition passed_on :: "string set \<Rightarrow> json \<Rightarrow> bool" where
  "passed_on E item = (\<forall>o'. item = JObj o' \<longrightarrow> json_get ''status'' o' = Some (JStr ''passed'') \<longrightarrow>
     (\<exists>refs. json_get ''evidence_refs'' o' = Some (strs refs) \<and> refs \<noteq> [] \<and> set refs \<subseteq> E))"

definition evidence_inv :: "string set \<Rightarrow> json_obj \<Rightarrow> bool" where
  "evidence_inv E st = (known_evidence_ids st \<subseteq> E
     \<and> (is_managed st \<longrightarrow> (\<forall>item \<in> set (criteria st). passed_on E item)))"

lemma passed_on_mono: "passed_on E item \<Longrightarrow> E \<subseteq> F \<Longrightarrow> passed_on F item"
  unfolding passed_on_def by blast

lemma set_criterion_passed_on:
  assumes "known \<subseteq> E" "au_status u = CPassed \<Longrightarrow> filter (\<lambda>r. r \<in> known) (au_evidence_refs u) \<noteq> []"
    "passed_on E item"
  shows "passed_on E (set_criterion (criterion_value (au_status u)) (filter (\<lambda>r. r \<in> known) (au_evidence_refs u)) item)"
proof (cases item)
  case (JObj o')
  then show ?thesis
    using assms(1,2)
    by (cases "au_status u") (auto simp: set_criterion_def passed_on_def intro!: exI [of _ "filter (\<lambda>r. r \<in> known) (au_evidence_refs u)"])
qed (use assms(3) in \<open>simp_all add: set_criterion_def\<close>)

lemma apply_update_passed_on:
  assumes "known \<subseteq> E" "\<forall>item \<in> set cs. passed_on E item"
  shows "\<forall>item \<in> set (apply_update known u cs). passed_on E item"
proof (cases known u cs rule: apply_update_cases)
  case (set j)
  have "passed_on E (cs ! j)" using assms(2) set(1) by simp
  from set_criterion_passed_on [OF assms(1) set(3) this] assms(2) show ?thesis
    unfolding set(4) using set_update_subset_insert by fast
qed (use assms in simp)

lemma fold_update_passed_on:
  "known \<subseteq> E \<Longrightarrow> \<forall>item \<in> set cs. passed_on E item \<Longrightarrow>
   \<forall>item \<in> set (fold (apply_update known) us cs). passed_on E item"
proof (induction us arbitrary: cs)
  case (Cons u us)
  then show ?case using apply_update_passed_on [of known E cs u] by simp
qed simp

lemma known_recent:
  "known_evidence_ids st = item_str ''evidence_id'' ` set (list_at ''recent_events'' (runtime st)) - {[]}"
  by (auto simp: known_evidence_ids_def)

lemma known_new [simp]: "known_evidence_ids (new_task_state t r) = {}"
  by (simp add: known_recent new_task_state_def get_literal)

lemma event_evidence: "item_str ''evidence_id'' (event_json e) = ev_evidence_id e"
  by (simp add: item_str_def event_json_def json_true_def)

lemma record_known:
  "known_evidence_ids (within ''runtime'' (record_in_runtime m e) st) \<subseteq> insert (ev_evidence_id e) (known_evidence_ids st)"
proof -
  have "list_at ''recent_events'' (record_in_runtime m e r) = last_n MAX_EVENTS (list_at ''recent_events'' r @ [event_json e])" for r
    by (auto simp: record_in_runtime_def Let_def)
  then show ?thesis
    using set_last_n [of MAX_EVENTS "list_at ''recent_events'' (runtime st) @ [event_json e]"]
    by (auto simp: known_recent event_evidence)
qed

lemma apply_op_evidence:
  assumes "evidence_inv E st"
  shows "evidence_inv (E \<union> op_evidence op) (apply_op op st)"
proof (cases op)
  case (OwnerTurn t r)
  then show ?thesis
    using assms by (auto simp: evidence_inv_def begin_owner_turn_def Let_def known_recent is_managed_def new_task_state_def get_literal)
next
  case (Event t e)
  then show ?thesis
    using assms record_known [of "is_managed st" e st] record_known [of "is_managed (new_task_state t [])" e "new_task_state t []"]
    by (auto simp: evidence_inv_def record_runtime_event_def Let_def runtime_only_contract intro: passed_on_mono)
next
  case (Resolve t ids)
  then show ?thesis
    using assms by (auto simp: evidence_inv_def remove_resolved_pending_actions_def Let_def known_recent is_managed_def
        new_task_state_def get_literal)
next
  case (Delta t d)
  show ?thesis
  proof (cases "st = []")
    case True
    have "known_evidence_ids (merge_semantic_delta t (new_task_state t []) d) = {}"
      using known_new [of t "[]"] by (simp add: known_recent list_at_def delta_runtime_get)
    then show ?thesis
      using Delta True delta_empty [of t d] delta_managed [of "new_task_state t []" t d] by (simp add: evidence_inv_def)
  next
    case False
    have "known_evidence_ids (merge_semantic_delta t st d) = known_evidence_ids st"
      using False by (simp add: known_recent list_at_def delta_runtime_get)
    then show ?thesis
      using Delta assms delta_managed [OF False, of t d] delta_criteria [OF False, of t d]
        fold_update_passed_on [of "known_evidence_ids st" E "criteria st"]
      by (auto simp: evidence_inv_def split: option.splits)
  qed
qed

lemma run_ops_evidence:
  "evidence_inv E st \<Longrightarrow> evidence_inv (E \<union> recorded ops) (run_ops ops st)"
proof (induction ops arbitrary: E st)
  case (Cons op ops)
  from Cons.IH [OF apply_op_evidence [OF Cons.prems, of op]]
  show ?case by (simp add: run_ops_def recorded_def Un_assoc)
qed (simp add: run_ops_def recorded_def)

lemma new_criteria_pending: "item \<in> set (new_criteria xs) \<Longrightarrow> passed_on E item"
  by (auto simp: new_criteria_def numbered_def passed_on_def)

lemma new_managed_Inr:
  assumes "new_managed_task_state t p m = Inr st"
  shows "is_managed st" "bounded st" "criteria st = new_criteria (ms_acceptance_criteria m)" "criteria st \<noteq> []"
    "known_evidence_ids st = {}" "json_get ''status'' st = Some (JStr ''active'')"
  using assms
  by (auto simp: new_managed_task_state_def Let_def is_managed_def bounded_def known_recent managed_fields_def
      new_task_state_def get_literal)

lemma new_managed_evidence: "new_managed_task_state t p m = Inr st \<Longrightarrow> evidence_inv {} st"
  using new_managed_Inr [of t p m st] new_criteria_pending by (simp add: evidence_inv_def)

lemma merge_status_complete:
  assumes "json_get ''status'' (merge_status d st) = Some (JStr ''complete'')"
    "json_get ''status'' st \<noteq> Some (JStr ''complete'')" "is_managed st"
  shows "td_status d = Some DComplete \<and> list_at ''pending_actions'' (runtime st) = [] \<and> all_acceptance_passed st"
  using assms by (auto simp: merge_status_def split: option.splits delta_status.splits if_splits)

text \<open>C13: A managed task is completed only on evidence the runtime recorded. Whatever sequence of
  operations led from the agreed task to an uncompleted state, when a delta of the model
  turns the status to complete then the delta asked for it, no action is pending, the
  criteria are the agreed ones, and every one of them is passed with at least one evidence
  reference, each of which is the identity of a runtime event of that sequence.\<close>

theorem managed_completion:
  assumes new: "new_managed_task_state t p m = Inr st0"
    and st: "st = run_ops ops st0" "is_managed st" "json_get ''status'' st \<noteq> Some (JStr ''complete'')"
    and fin: "json_get ''status'' (merge_semantic_delta t' st d) = Some (JStr ''complete'')"
  shows "td_status d = Some DComplete
    \<and> list_at ''pending_actions'' (runtime (merge_semantic_delta t' st d)) = []
    \<and> map item_contract (criteria (merge_semantic_delta t' st d)) = map item_contract (new_criteria (ms_acceptance_criteria m))
    \<and> (\<forall>item \<in> set (criteria (merge_semantic_delta t' st d)). \<exists>o' refs. item = JObj o'
         \<and> json_get ''status'' o' = Some (JStr ''passed'')
         \<and> json_get ''evidence_refs'' o' = Some (strs refs) \<and> refs \<noteq> [] \<and> set refs \<subseteq> recorded ops)"
proof -
  let ?r = "merge_semantic_delta t' st d"
  have ne: "st \<noteq> []" using st(2) by (auto simp: is_managed_def)
  let ?x = "merge_progress d (merged_semantic st d)"
  have r: "?r = merge_status d ?x" using ne st(2) by (simp add: merge_semantic_delta_eq)
  have x: "is_managed ?x" "json_get ''status'' ?x = json_get ''status'' st"
    using st(2) by (simp_all add: is_managed_def merge_progress_get)
  have gate: "td_status d = Some DComplete" "list_at ''pending_actions'' (runtime ?x) = []" "all_acceptance_passed ?x"
    using merge_status_complete [of d ?x] fin st(3) x r by auto
  have crit: "criteria ?r = criteria ?x" by (simp add: r merge_status_criteria)
  have pend: "list_at ''pending_actions'' (runtime ?r) = list_at ''pending_actions'' (runtime ?x)"
    by (simp add: r list_at_def merge_status_get)
  have "evidence_inv (recorded ops) ?r"
    using apply_op_evidence [OF run_ops_evidence [OF new_managed_evidence [OF new]], of ops "Delta t' d"] st(1) by simp
  then have ev: "\<forall>item \<in> set (criteria ?r). passed_on (recorded ops) item"
    using delta_managed [OF ne] st(2) by (simp add: evidence_inv_def)
  have "contract_kept st0 st"
    using checkpoint.history [OF run_ops_history, of st0 ops] new_managed_Inr(2) [OF new] st(1) by simp
  moreover have "contract_kept st ?r" using apply_op_contract [of st "Delta t' d"] by simp
  ultimately have "contract ?r = contract st0"
    using st(2) delta_managed [OF ne] by (simp add: contract_kept_def)
  then have "map item_contract (criteria ?r) = map item_contract (new_criteria (ms_acceptance_criteria m))"
    using new_managed_Inr(3) [OF new] by (simp add: contract_def)
  moreover have "\<exists>o' refs. item = JObj o' \<and> json_get ''status'' o' = Some (JStr ''passed'')
         \<and> json_get ''evidence_refs'' o' = Some (strs refs) \<and> refs \<noteq> [] \<and> set refs \<subseteq> recorded ops"
    if item: "item \<in> set (criteria ?r)" for item
  proof -
    have "criterion_passed item" using item gate(3) by (simp add: crit all_acceptance_passed_def)
    then obtain o' where o': "item = JObj o'" "json_get ''status'' o' = Some (JStr ''passed'')"
      by (auto simp: criterion_passed_def split: json.splits)
    with ev item show ?thesis by (auto simp: passed_on_def)
  qed
  ultimately show ?thesis using gate pend by auto
qed

definition demo_spec :: managed_spec where
  "demo_spec = \<lparr>ms_title = ''Ship'', ms_objective = ''Ship it'', ms_scope = [''repo''], ms_acceptance_criteria = [''tests pass''],
     ms_checkpoints = [], ms_source_chat_id = None, ms_policy_preset = None, ms_project_id = None, ms_handoff = [],
     ms_authority_grants = [''coding.run'']\<rparr>"

definition demo_ops :: "task_op list" where
  "demo_ops = [Event ''t'' \<lparr>ev_operation = ''coding.run'', ev_phase = ''succeeded'', ev_evidence_id = ''E1'',
     ev_arguments = [], ev_detail = [], ev_action_id = None\<rparr>]"

definition demo_done :: task_delta where
  "demo_done = demo_delta\<lparr>td_status := Some DComplete,
     td_acceptance_updates := Some [\<lparr>au_id = ''A1'', au_status = CPassed, au_evidence_refs = [''E1'', ''made up'']\<rparr>]\<rparr>"

definition demo_task :: json_obj where
  "demo_task = projr (new_managed_task_state ''t'' ''p'' demo_spec)"

theorem managed_completion_witness:
  "\<exists>item o' refs. item \<in> set (criteria (merge_semantic_delta ''t'' (run_ops demo_ops demo_task) demo_done))
     \<and> item = JObj o' \<and> json_get ''evidence_refs'' o' = Some (strs refs) \<and> refs \<noteq> [] \<and> set refs \<subseteq> {''E1''}"
proof -
  have new: "new_managed_task_state ''t'' ''p'' demo_spec = Inr demo_task"
    unfolding demo_task_def by (rule sum.collapse(2) [symmetric]) code_simp
  have "is_managed (run_ops demo_ops demo_task)" by code_simp
  moreover have "json_get ''status'' (run_ops demo_ops demo_task) \<noteq> Some (JStr ''complete'')" by code_simp
  moreover have "json_get ''status'' (merge_semantic_delta ''t'' (run_ops demo_ops demo_task) demo_done) = Some (JStr ''complete'')"
    by code_simp
  ultimately have all: "\<forall>item \<in> set (criteria (merge_semantic_delta ''t'' (run_ops demo_ops demo_task) demo_done)).
      \<exists>o' refs. item = JObj o' \<and> json_get ''status'' o' = Some (JStr ''passed'')
         \<and> json_get ''evidence_refs'' o' = Some (strs refs) \<and> refs \<noteq> [] \<and> set refs \<subseteq> recorded demo_ops"
    using managed_completion [OF new refl] by blast
  have "criteria (merge_semantic_delta ''t'' (run_ops demo_ops demo_task) demo_done) \<noteq> []" by code_simp
  then obtain item where "item \<in> set (criteria (merge_semantic_delta ''t'' (run_ops demo_ops demo_task) demo_done))"
    using list.set_sel(1) by blast
  moreover have "recorded demo_ops = {''E1''}" by (simp add: recorded_def demo_ops_def)
  ultimately show ?thesis using all by metis
qed

theorem checkpoint_history_witness:
  "json_get ''authority_grants'' (run_ops demo_ops demo_task) = Some (strs [''coding.run''])"
proof -
  have b: "bounded demo_task" by code_simp
  have "is_managed (run_ops demo_ops demo_task)" by code_simp
  then have "contract (run_ops demo_ops demo_task) = contract demo_task"
    using checkpoint_history [OF b, of demo_ops] by (simp add: contract_kept_def)
  then have "json_get ''authority_grants'' (run_ops demo_ops demo_task) = json_get ''authority_grants'' demo_task"
    by (simp add: contract_def)
  also have "\<dots> = Some (strs [''coding.run''])" by code_simp
  finally show ?thesis .
qed

end
