(* ===== verification/Memory_Store.thy ===== *)
theory Memory_Store
  imports Complex_Main Python_Text "HOL-Library.Product_Lexorder"
begin

text \<open>
  The memory tables of \<^verbatim>\<open>backend/atlas/persistence/models.py\<close> that the candidate pipeline reads
  and writes, the state and outcome enumerations of \<^verbatim>\<open>memory/state_machine.py\<close>, and the
  durable memory repository of \<^verbatim>\<open>memory/durable.py\<close>. The unique indexes and check constraints
  are enforced where the session flushes. Columns no modelled code reads are left out;
  one reading of the clock stands for the readings of one operation.
\<close>

section \<open>Enumerations\<close>

datatype candidate_state =
    Absent | Pending | Leased | Retained_short_term | Awaiting_owner | Reconciled | Discarded
  | Blocked | Invalidated | Expired | Failed | Rejected

datatype publication_bucket =
    B_reconciled | B_retained_short_term | B_discarded | B_blocked | B_source_conflict
  | B_lease_conflict | B_version_conflict

datatype publication_terminality = Terminal_success | Terminal_failure | Nonterminal | Retry

datatype publication_outcome =
    O_created | O_merge | O_supersede | O_historical_predecessor | O_historical_lineage_added
  | O_historical_already_represented | O_legacy_grounded | O_lineage_added | O_already_represented
  | O_retained_short_term | O_discarded | O_blocked | O_invalidated | O_awaiting_owner | O_conflict
  | O_source_conflict | O_lease_conflict | O_version_conflict

fun outcome_value :: "publication_outcome \<Rightarrow> string" where
  "outcome_value O_created = ''created''"
| "outcome_value O_merge = ''merge''"
| "outcome_value O_supersede = ''supersede''"
| "outcome_value O_historical_predecessor = ''historical_predecessor''"
| "outcome_value O_historical_lineage_added = ''historical_lineage_added''"
| "outcome_value O_historical_already_represented = ''historical_already_represented''"
| "outcome_value O_legacy_grounded = ''legacy_grounded''"
| "outcome_value O_lineage_added = ''lineage_added''"
| "outcome_value O_already_represented = ''already_represented''"
| "outcome_value O_retained_short_term = ''retained_short_term''"
| "outcome_value O_discarded = ''discarded''"
| "outcome_value O_blocked = ''blocked''"
| "outcome_value O_invalidated = ''invalidated''"
| "outcome_value O_awaiting_owner = ''awaiting_owner''"
| "outcome_value O_conflict = ''conflict''"
| "outcome_value O_source_conflict = ''source_conflict''"
| "outcome_value O_lease_conflict = ''lease_conflict''"
| "outcome_value O_version_conflict = ''version_conflict''"

fun outcome_bucket :: "publication_outcome \<Rightarrow> publication_bucket" where
  "outcome_bucket O_retained_short_term = B_retained_short_term"
| "outcome_bucket O_discarded = B_discarded"
| "outcome_bucket O_blocked = B_blocked"
| "outcome_bucket O_invalidated = B_blocked"
| "outcome_bucket O_awaiting_owner = B_blocked"
| "outcome_bucket O_conflict = B_blocked"
| "outcome_bucket O_source_conflict = B_source_conflict"
| "outcome_bucket O_lease_conflict = B_lease_conflict"
| "outcome_bucket O_version_conflict = B_version_conflict"
| "outcome_bucket _ = B_reconciled"

fun outcome_terminality :: "publication_outcome \<Rightarrow> publication_terminality" where
  "outcome_terminality O_retained_short_term = Nonterminal"
| "outcome_terminality O_blocked = Terminal_failure"
| "outcome_terminality O_invalidated = Terminal_failure"
| "outcome_terminality O_awaiting_owner = Nonterminal"
| "outcome_terminality O_conflict = Nonterminal"
| "outcome_terminality O_source_conflict = Retry"
| "outcome_terminality O_lease_conflict = Retry"
| "outcome_terminality O_version_conflict = Retry"
| "outcome_terminality _ = Terminal_success"

definition all_outcomes :: "publication_outcome list" where
  "all_outcomes = [O_created, O_merge, O_supersede, O_historical_predecessor, O_historical_lineage_added,
     O_historical_already_represented, O_legacy_grounded, O_lineage_added, O_already_represented,
     O_retained_short_term, O_discarded, O_blocked, O_invalidated, O_awaiting_owner, O_conflict,
     O_source_conflict, O_lease_conflict, O_version_conflict]"

text \<open>\<^verbatim>\<open>PublicationOutcome(value)\<close>; \<open>None\<close> is the \<^verbatim>\<open>ValueError\<close>.\<close>

definition outcome_of :: "string \<Rightarrow> publication_outcome option" where
  "outcome_of v = find (\<lambda>x. outcome_value x = v) all_outcomes"

datatype memory_status = ACTIVE | SUPERSEDED | RETIRED | DELETED

datatype obligation_status = Open | Resolved

datatype command_status = CPENDING | APPLIED | CFAILED

section \<open>Rows\<close>

record turn_row =
  tu_id :: uuid
  tu_transcript_id :: uuid
  tu_actor :: string
  tu_sequence :: int
  tu_blocks :: "json list"
  tu_created_at :: time
  tu_deleted_at :: "time option"
  tu_deletion_operation_id :: "uuid option"

record transcript_row =
  tr_id :: uuid
  tr_kind :: string
  tr_retention_policy :: string
  tr_title :: "string option"
  tr_closed_at :: "time option"
  tr_context_summary :: "string option"
  tr_summarized_through_turn_id :: "uuid option"
  tr_active_task_state :: json_obj
  tr_active_task_revision :: int
  tr_next_turn_sequence :: int
  tr_content_revision :: int
  tr_created_at :: time
  tr_updated_at :: time

record candidate_row =
  cd_id :: uuid
  cd_status :: candidate_state
  cd_kind :: string
  cd_content :: "string option"
  cd_scope :: string
  cd_scope_key :: "string option"
  cd_confidence :: rat
  cd_durability :: string
  cd_subject :: "string option"
  cd_namespace :: "string option"
  cd_fingerprint :: "string option"
  cd_evidence_set_hash :: "string option"
  cd_proposer_model :: "string option"
  cd_intake_path :: string
  cd_origin :: string
  cd_temporal_horizon_at :: "time option"
  cd_state_version :: int
  cd_invalidated_at :: "time option"
  cd_lease_token :: "uuid option"
  cd_leased_until :: "time option"
  cd_attempt_count :: int
  cd_review_after :: "time option"
  cd_expires_at :: "time option"
  cd_source_transcript_id :: uuid
  cd_source_turn_id :: uuid
  cd_source_provider_evidence_id :: "uuid option"
  cd_evidence :: "string option"
  cd_invalidation_operation_id :: "uuid option"
  cd_decision :: json_obj
  cd_created_at :: time
  cd_processed_at :: "time option"

record evidence_row =
  ce_candidate_id :: uuid
  ce_turn_id :: uuid
  ce_principal :: string
  ce_ordinal :: nat
  ce_span_ref :: string

record attempt_row =
  ap_id :: uuid
  ap_candidate_id :: uuid
  ap_lease_token :: uuid
  ap_number :: int
  ap_candidate_state_version :: int
  ap_evaluated_memory_revision :: "int option"
  ap_evaluated_source_revision :: "int option"
  ap_semantic_decision :: "string option"
  ap_target_memory_id :: "uuid option"
  ap_operation_id :: "uuid option"
  ap_status :: string
  ap_evidence :: json_obj
  ap_result :: json_obj
  ap_error :: "string option"
  ap_completed_at :: "time option"

record memory_row =
  mm_id :: uuid
  mm_status :: memory_status
  mm_record_kind :: string
  mm_origin :: string
  mm_grounding_status :: string
  mm_verification_record_id :: "uuid option"
  mm_owner_assertion_turn_id :: "uuid option"
  mm_originating_candidate_id :: "uuid option"
  mm_memory_kind :: "string option"
  mm_scope :: string
  mm_scope_key :: "string option"
  mm_durability :: string
  mm_subject :: "string option"
  mm_namespace :: "string option"
  mm_content :: "string option"
  mm_fingerprint :: "string option"
  mm_suppresses_recall :: bool
  mm_embedding :: "string option"
  mm_embedding_model :: "string option"
  mm_embedding_dimensions :: "int option"
  mm_embedded_at :: "time option"
  mm_source_transcript_id :: "uuid option"
  mm_source_turn_id :: "uuid option"
  mm_supersedes_id :: "uuid option"
  mm_superseded_by_id :: "uuid option"
  mm_valid_from :: "time option"
  mm_valid_to :: "time option"
  mm_retired_at :: "time option"
  mm_deleted_at :: "time option"
  mm_deletion_operation_id :: "uuid option"
  mm_created_at :: time
  mm_updated_at :: time

record command_row =
  cm_id :: uuid
  cm_operation :: string
  cm_status :: command_status
  cm_arguments :: json_obj
  cm_source_transcript_id :: "uuid option"
  cm_source_turn_id :: "uuid option"
  cm_target_memory_id :: "uuid option"
  cm_replacement_memory_id :: "uuid option"
  cm_error :: "string option"
  cm_applied_at :: "time option"
  cm_failed_at :: "time option"

record obligation_row =
  ob_id :: uuid
  ob_kind :: string
  ob_status :: obligation_status
  ob_subject_type :: string
  ob_subject_id :: "uuid option"
  ob_origin :: string
  ob_command_id :: "uuid option"
  ob_source_transcript_id :: "uuid option"
  ob_source_turn_id :: "uuid option"
  ob_resolution_source_transcript_id :: "uuid option"
  ob_resolution_source_turn_id :: "uuid option"
  ob_resolution_code :: "string option"
  ob_resolution :: json_obj
  ob_expires_at :: "time option"
  ob_created_at :: time
  ob_resolved_at :: "time option"

record conflict_row =
  cf_id :: uuid
  cf_candidate_id :: uuid
  cf_reconciliation_id :: uuid
  cf_target_memory_id :: uuid
  cf_status :: string
  cf_proposed_content :: "string option"
  cf_reason_code :: "string option"
  cf_tombstoned_at :: "time option"
  cf_tombstone_operation_id :: "uuid option"
  cf_resolved_at :: "time option"

record provenance_row =
  pv_memory_id :: uuid
  pv_relationship :: string
  pv_source_turn_id :: "uuid option"
  pv_source_candidate_id :: "uuid option"
  pv_source_memory_id :: "uuid option"

record mem_db =
  md_turns :: "turn_row list"
  md_transcripts :: "transcript_row list"
  md_candidates :: "candidate_row list"
  md_evidence :: "evidence_row list"
  md_attempts :: "attempt_row list"
  md_memories :: "memory_row list"
  md_commands :: "command_row list"
  md_obligations :: "obligation_row list"
  md_conflicts :: "conflict_row list"
  md_provenance :: "provenance_row list"

datatype mem_error =
    MValueError string
  | MValidationError string string
  | MTypeError
  | MIntegrityError
  | MMultipleResults
  | CandidateSnapshotError string
  | MAssertionError
  | MLookupError string

section \<open>Queries and row updates\<close>

definition get_cand :: "uuid \<Rightarrow> 'x mem_db_scheme \<Rightarrow> candidate_row option" where
  "get_cand i db = tget cd_id i (md_candidates db)"

definition upd_cand :: "uuid \<Rightarrow> (candidate_row \<Rightarrow> candidate_row) \<Rightarrow> 'x mem_db_scheme \<Rightarrow> 'x mem_db_scheme" where
  "upd_cand i f db = db\<lparr>md_candidates := tset cd_id i f (md_candidates db)\<rparr>"

definition upd_attempt :: "uuid \<Rightarrow> (attempt_row \<Rightarrow> attempt_row) \<Rightarrow> 'x mem_db_scheme \<Rightarrow> 'x mem_db_scheme" where
  "upd_attempt i f db = db\<lparr>md_attempts := tset ap_id i f (md_attempts db)\<rparr>"

definition get_memory :: "uuid \<Rightarrow> 'x mem_db_scheme \<Rightarrow> memory_row option" where
  "get_memory i db = tget mm_id i (md_memories db)"

definition upd_memory :: "uuid \<Rightarrow> (memory_row \<Rightarrow> memory_row) \<Rightarrow> 'x mem_db_scheme \<Rightarrow> 'x mem_db_scheme" where
  "upd_memory i f db = db\<lparr>md_memories := tset mm_id i f (md_memories db)\<rparr>"

definition upd_obligation :: "uuid \<Rightarrow> (obligation_row \<Rightarrow> obligation_row) \<Rightarrow> 'x mem_db_scheme \<Rightarrow> 'x mem_db_scheme" where
  "upd_obligation i f db = db\<lparr>md_obligations := tset ob_id i f (md_obligations db)\<rparr>"

definition upd_command :: "uuid \<Rightarrow> (command_row \<Rightarrow> command_row) \<Rightarrow> 'x mem_db_scheme \<Rightarrow> 'x mem_db_scheme" where
  "upd_command i f db = db\<lparr>md_commands := tset cm_id i f (md_commands db)\<rparr>"

definition upd_conflict :: "uuid \<Rightarrow> (conflict_row \<Rightarrow> conflict_row) \<Rightarrow> 'x mem_db_scheme \<Rightarrow> 'x mem_db_scheme" where
  "upd_conflict i f db = db\<lparr>md_conflicts := tset cf_id i f (md_conflicts db)\<rparr>"

definition add_provenance :: "provenance_row \<Rightarrow> 'x mem_db_scheme \<Rightarrow> 'x mem_db_scheme" where
  "add_provenance p db = db\<lparr>md_provenance := tadd p (md_provenance db)\<rparr>"

definition one_or_none :: "'a list \<Rightarrow> mem_error + 'a option" where
  "one_or_none xs = (case xs of [] \<Rightarrow> Inr None | [x] \<Rightarrow> Inr (Some x) | _ \<Rightarrow> Inl MMultipleResults)"

section \<open>Constraints\<close>

definition memory_row_ok :: "memory_row \<Rightarrow> bool" where
  "memory_row_ok m =
    ((mm_status m = DELETED \<longrightarrow> mm_content m = None \<and> mm_fingerprint m = None \<and> mm_embedding m = None
        \<and> mm_embedding_model m = None \<and> mm_embedding_dimensions m = None \<and> mm_embedded_at m = None
        \<and> mm_deleted_at m \<noteq> None \<and> mm_deletion_operation_id m \<noteq> None \<and> mm_suppresses_recall m)
   \<and> (mm_status m \<noteq> DELETED \<longrightarrow> mm_content m \<noteq> None \<and> mm_fingerprint m \<noteq> None)
   \<and> (mm_grounding_status m = ''verified'' \<longrightarrow>
        mm_verification_record_id m \<noteq> None \<or> mm_owner_assertion_turn_id m \<noteq> None))"

text \<open>A partial unique index: the rows that have a key have distinct keys.\<close>

definition unique_index :: "('r \<Rightarrow> 'k option) \<Rightarrow> 'r list \<Rightarrow> bool" where
  "unique_index key rows = distinct (filter (\<lambda>k. k \<noteq> None) (map key rows))"

definition active_fingerprint :: "memory_row \<Rightarrow> string option" where
  "active_fingerprint m = (if mm_status m = ACTIVE then mm_fingerprint m else None)"

definition memories_ok :: "memory_row list \<Rightarrow> bool" where
  "memories_ok ms = (keyed mm_id ms \<and> (\<forall>m \<in> set ms. memory_row_ok m)
     \<and> unique_index active_fingerprint ms \<and> unique_index mm_originating_candidate_id ms)"

definition reconcilable :: "candidate_state set" where
  "reconcilable = {Pending, Leased, Retained_short_term, Awaiting_owner}"

definition open_evidence_hash :: "candidate_row \<Rightarrow> string option" where
  "open_evidence_hash c = (if cd_status c \<in> reconcilable then cd_evidence_set_hash c else None)"

definition candidate_row_ok :: "candidate_row \<Rightarrow> bool" where
  "candidate_row_ok c = (cd_status c \<in> reconcilable \<longrightarrow> cd_content c \<noteq> None \<and> cd_fingerprint c \<noteq> None)"

definition candidates_ok :: "candidate_row list \<Rightarrow> bool" where
  "candidates_ok cs = (keyed cd_id cs \<and> (\<forall>c \<in> set cs. candidate_row_ok c) \<and> unique_index open_evidence_hash cs)"

text \<open>What a flush checks.\<close>

definition db_ok :: "'x mem_db_scheme \<Rightarrow> bool" where
  "db_ok db = (memories_ok (md_memories db) \<and> candidates_ok (md_candidates db))"

definition flush :: "'x mem_db_scheme \<Rightarrow> mem_error + 'x mem_db_scheme" where
  "flush db = (if db_ok db then Inr db else Inl MIntegrityError)"

section \<open>Durable memory\<close>

definition clean_memory_content :: "string \<Rightarrow> mem_error + string" where
  "clean_memory_content value =
    (let content = squash value in
     ebind (require (content \<noteq> []) (MValueError ''content cannot be empty'')) (\<lambda>_.
     ebind (require (length content \<le> 4000) (MValueError ''content exceeds 4000 characters'')) (\<lambda>_. Inr content)))"

definition memory_fingerprint :: "(string \<Rightarrow> string) \<Rightarrow> string \<Rightarrow> string" where
  "memory_fingerprint sha content = sha (squash (casefold content))"

definition active_by_fingerprint :: "string \<Rightarrow> 'x mem_db_scheme \<Rightarrow> mem_error + memory_row option" where
  "active_by_fingerprint fp db =
    one_or_none (filter (\<lambda>m. mm_status m = ACTIVE \<and> mm_fingerprint m = Some fp) (md_memories db))"

definition retired_by_fingerprint :: "string \<Rightarrow> 'x mem_db_scheme \<Rightarrow> memory_row option" where
  "retired_by_fingerprint fp db = latest_by (\<lambda>m. (mm_updated_at m, mm_id m))
     (filter (\<lambda>m. mm_status m = RETIRED \<and> mm_fingerprint m = Some fp) (md_memories db))"

definition guards_fingerprint :: "string \<Rightarrow> memory_row \<Rightarrow> bool" where
  "guards_fingerprint fp m = (mm_fingerprint m = Some fp \<and> mm_suppresses_recall m \<and> mm_status m \<noteq> DELETED)"

definition clear_guards :: "time \<Rightarrow> string \<Rightarrow> 'x mem_db_scheme \<Rightarrow> bool \<times> 'x mem_db_scheme" where
  "clear_guards now fp db = ((\<exists>m \<in> set (md_memories db). guards_fingerprint fp m),
     db\<lparr>md_memories := map (\<lambda>m. if guards_fingerprint fp m
         then m\<lparr>mm_suppresses_recall := False, mm_updated_at := now\<rparr> else m) (md_memories db)\<rparr>)"

text \<open>The arguments of \<^verbatim>\<open>create_active\<close> that differ between callers.\<close>

record new_memory =
  nm_source_transcript_id :: "uuid option"
  nm_source_turn_id :: "uuid option"
  nm_supersedes_id :: "uuid option"
  nm_record_kind :: string
  nm_origin :: string
  nm_memory_kind :: "string option"
  nm_scope :: string
  nm_scope_key :: "string option"
  nm_durability :: string
  nm_subject :: "string option"
  nm_namespace :: "string option"
  nm_valid_from :: "time option"
  nm_valid_to :: "time option"
  nm_grounding_status :: string
  nm_verification_record_id :: "uuid option"
  nm_owner_assertion_turn_id :: "uuid option"
  nm_originating_candidate_id :: "uuid option"

definition memory_of :: "time \<Rightarrow> uuid \<Rightarrow> memory_status \<Rightarrow> string \<Rightarrow> string \<Rightarrow> bool \<Rightarrow> new_memory \<Rightarrow> memory_row" where
  "memory_of now i st content fp suppresses n =
    \<lparr>mm_id = i, mm_status = st, mm_record_kind = nm_record_kind n, mm_origin = nm_origin n,
     mm_grounding_status = nm_grounding_status n, mm_verification_record_id = nm_verification_record_id n,
     mm_owner_assertion_turn_id = nm_owner_assertion_turn_id n,
     mm_originating_candidate_id = nm_originating_candidate_id n, mm_memory_kind = nm_memory_kind n,
     mm_scope = nm_scope n, mm_scope_key = nm_scope_key n, mm_durability = nm_durability n,
     mm_subject = nm_subject n, mm_namespace = nm_namespace n, mm_content = Some content,
     mm_fingerprint = Some fp, mm_suppresses_recall = suppresses, mm_embedding = None, mm_embedding_model = None,
     mm_embedding_dimensions = None, mm_embedded_at = None, mm_source_transcript_id = nm_source_transcript_id n,
     mm_source_turn_id = nm_source_turn_id n, mm_supersedes_id = nm_supersedes_id n, mm_superseded_by_id = None,
     mm_valid_from = nm_valid_from n, mm_valid_to = nm_valid_to n, mm_retired_at = None, mm_deleted_at = None,
     mm_deletion_operation_id = None, mm_created_at = now, mm_updated_at = now\<rparr>"

definition add_memory :: "memory_row \<Rightarrow> 'x mem_db_scheme \<Rightarrow> mem_error + 'x mem_db_scheme" where
  "add_memory m db = flush (db\<lparr>md_memories := tadd m (md_memories db)\<rparr>)"

definition create_active ::
  "(string \<Rightarrow> string) \<Rightarrow> time \<Rightarrow> uuid \<Rightarrow> string \<Rightarrow> new_memory \<Rightarrow> 'x mem_db_scheme
   \<Rightarrow> mem_error + (memory_row \<times> bool \<times> 'x mem_db_scheme)" where
  "create_active sha now i content n db =
    (let fp = memory_fingerprint sha content; row = memory_of now i ACTIVE content fp False n in
     ebind (active_by_fingerprint fp db) (\<lambda>existing.
     case existing of Some m \<Rightarrow> Inr (m, False, db)
     | None \<Rightarrow> ebind (add_memory row db) (\<lambda>db1. Inr (row, True, db1))))"

definition create_guard ::
  "(string \<Rightarrow> string) \<Rightarrow> time \<Rightarrow> uuid \<Rightarrow> string \<Rightarrow> memory_status \<Rightarrow> string \<Rightarrow> uuid option \<Rightarrow> uuid option
   \<Rightarrow> 'x mem_db_scheme \<Rightarrow> mem_error + (memory_row \<times> bool \<times> 'x mem_db_scheme)" where
  "create_guard sha now i content st record_kind transcript_id turn_id db =
    (let fp = memory_fingerprint sha content;
         row = (memory_of now i st content fp True
           \<lparr>nm_source_transcript_id = transcript_id, nm_source_turn_id = turn_id, nm_supersedes_id = None,
            nm_record_kind = record_kind, nm_origin = ''owner_lifecycle'', nm_memory_kind = None,
            nm_scope = ''cross_chat'', nm_scope_key = None, nm_durability = ''long_term'', nm_subject = None,
            nm_namespace = None, nm_valid_from = None, nm_valid_to = None,
            nm_grounding_status = (if turn_id \<noteq> None then ''verified'' else ''legacy_unverified''),
            nm_verification_record_id = None, nm_owner_assertion_turn_id = turn_id, nm_originating_candidate_id = None\<rparr>)
           \<lparr>mm_retired_at := (if st = RETIRED then Some now else None)\<rparr>;
         same = filter (\<lambda>m. mm_fingerprint m = Some fp \<and> mm_status m = st \<and> mm_suppresses_recall m) (md_memories db)
     in ebind (require (st \<in> {SUPERSEDED, RETIRED}) (MValueError ''guards may only be superseded or retired'')) (\<lambda>_.
        case latest_by (\<lambda>m. (mm_created_at m, mm_id m)) same of Some m \<Rightarrow> Inr (m, False, db)
        | None \<Rightarrow> ebind (add_memory row db) (\<lambda>db1. Inr (row, True, db1))))"

end
