(* ===== verification/Memory_Explicit.thy ===== *)
theory Memory_Explicit
  imports Memory_Store
begin

text \<open>
  The owner's explicit memory requests (\<^verbatim>\<open>memory/explicit.py\<close>): an obligation row stays open until
  the candidate that carries the request reaches a terminal state, and every writer of
  such a state reflects it on the obligation and its command in the same transaction.
\<close>

section \<open>Settling an obligation\<close>

definition EXPLICIT_OBLIGATION_KINDS :: "string list" where
  "EXPLICIT_OBLIGATION_KINDS = [''explicit_remember'', ''explicit_correct'']"

definition EXPLICIT_ORIGINS :: "string list" where
  "EXPLICIT_ORIGINS = [''explicit_owner_request'', ''explicit_owner_correction'']"

definition OWNER_RETRY_BUDGET :: int where "OWNER_RETRY_BUDGET = 3"

definition terminal_resolution :: "candidate_state \<Rightarrow> string option" where
  "terminal_resolution st = (case st of
      Reconciled \<Rightarrow> Some ''published'' | Discarded \<Rightarrow> Some ''discarded'' | Blocked \<Rightarrow> Some ''blocked''
    | Invalidated \<Rightarrow> Some ''invalidated'' | Expired \<Rightarrow> Some ''expired'' | Rejected \<Rightarrow> Some ''rejected''
    | _ \<Rightarrow> None)"

definition obligation_kind_for :: "string \<Rightarrow> string" where
  "obligation_kind_for operation = (if operation = ''remember'' then ''explicit_remember'' else ''explicit_correct'')"

definition origin_for :: "string \<Rightarrow> string" where
  "origin_for operation = (if operation = ''remember'' then ''explicit_owner_request'' else ''explicit_owner_correction'')"

definition explicit_for :: "uuid \<Rightarrow> obligation_row \<Rightarrow> bool" where
  "explicit_for i ob = (ob_subject_type ob = ''memory_candidate'' \<and> ob_subject_id ob = Some i
     \<and> ob_kind ob \<in> set EXPLICIT_OBLIGATION_KINDS)"

definition pending_explicit_obligation :: "uuid \<Rightarrow> 'x mem_db_scheme \<Rightarrow> obligation_row option" where
  "pending_explicit_obligation i db =
    first_by ob_created_at (filter (\<lambda>ob. explicit_for i ob \<and> ob_status ob = Open) (md_obligations db))"

definition carry :: "obligation_row \<Rightarrow> json_obj" where
  "carry ob = concat (map (\<lambda>k. case json_get k (ob_resolution ob) of None \<Rightarrow> [] | Some v \<Rightarrow> [(k, v)])
     [''failure_count'', ''failure_budget'', ''owner_retries'', ''last_error''])"

text \<open>\<^verbatim>\<open>str(code or decision.get("code") or decision.get("result") or decision.get("decision") or "")\<close>.\<close>

definition settle_detail :: "string option \<Rightarrow> json_obj \<Rightarrow> string" where
  "settle_detail code decision = (case code of
      Some (c # cs) \<Rightarrow> c # cs
    | _ \<Rightarrow> (case json_true ''code'' decision of Some v \<Rightarrow> py_str v
      | None \<Rightarrow> (case json_true ''result'' decision of Some v \<Rightarrow> py_str v
        | None \<Rightarrow> (case json_true ''decision'' decision of Some v \<Rightarrow> py_str v | None \<Rightarrow> []))))"

definition int_or :: "int \<Rightarrow> json option \<Rightarrow> int" where
  "int_or d v = (case v of Some (JInt i) \<Rightarrow> i | _ \<Rightarrow> d)"

definition failure_count :: "obligation_row \<Rightarrow> int" where
  "failure_count ob = int_or 0 (json_get ''failure_count'' (carry ob))"

text \<open>The obligation and the command after a published, a failed and another terminal candidate.\<close>

definition resolve_published :: "time \<Rightarrow> uuid \<Rightarrow> uuid option \<Rightarrow> string \<Rightarrow> obligation_row \<Rightarrow> obligation_row" where
  "resolve_published now cid memory_id detail ob = ob\<lparr>ob_status := Resolved, ob_resolution_code := Some ''published'',
     ob_resolution := json_merge (carry ob) [(''candidate_id'', JStr cid), (''memory_id'', opt_json memory_id),
       (''result'', JStr detail)], ob_resolved_at := Some now\<rparr>"

definition count_failure :: "time \<Rightarrow> uuid \<Rightarrow> string \<Rightarrow> obligation_row \<Rightarrow> obligation_row" where
  "count_failure now cid detail ob =
    (let n = failure_count ob + 1;
         ob1 = ob\<lparr>ob_resolution := json_merge (carry ob) [(''candidate_id'', JStr cid), (''failure_count'', JInt n),
           (''failure_budget'', JInt OWNER_RETRY_BUDGET), (''last_error'', JStr detail)]\<rparr>
     in if OWNER_RETRY_BUDGET \<le> n
        then ob1\<lparr>ob_status := Resolved, ob_resolution_code := Some ''failed_retry_exhausted'', ob_resolved_at := Some now\<rparr>
        else ob1)"

definition resolve_terminal :: "time \<Rightarrow> uuid \<Rightarrow> string \<Rightarrow> string \<Rightarrow> obligation_row \<Rightarrow> obligation_row" where
  "resolve_terminal now cid res detail ob = ob\<lparr>ob_status := Resolved, ob_resolution_code := Some res,
     ob_resolution := json_merge (carry ob) [(''candidate_id'', JStr cid), (''code'', JStr detail)],
     ob_resolved_at := Some now\<rparr>"

definition apply_command :: "time \<Rightarrow> uuid option \<Rightarrow> command_row \<Rightarrow> command_row" where
  "apply_command now memory_id cm = cm\<lparr>cm_status := APPLIED, cm_applied_at := Some now, cm_failed_at := None,
     cm_error := None, cm_replacement_memory_id := memory_id\<rparr>"

definition fail_command :: "time \<Rightarrow> string \<Rightarrow> string \<Rightarrow> command_row \<Rightarrow> command_row" where
  "fail_command now res detail cm = cm\<lparr>cm_status := CFAILED, cm_failed_at := Some now,
     cm_error := Some (take 2000 (res @ '': '' @ detail))\<rparr>"

definition on_command :: "obligation_row \<Rightarrow> (command_row \<Rightarrow> command_row) \<Rightarrow> 'x mem_db_scheme \<Rightarrow> 'x mem_db_scheme" where
  "on_command ob f db = (case ob_command_id ob of None \<Rightarrow> db | Some i \<Rightarrow> upd_command i f db)"

definition settle_explicit_obligation ::
  "time \<Rightarrow> uuid option \<Rightarrow> string option \<Rightarrow> string option \<Rightarrow> candidate_row \<Rightarrow> 'x mem_db_scheme
   \<Rightarrow> mem_error + 'x mem_db_scheme" where
  "settle_explicit_obligation now memory_id code resolution cand db =
    (case pending_explicit_obligation (cd_id cand) db of None \<Rightarrow> Inr db
     | Some ob \<Rightarrow>
         let detail = settle_detail code (cd_decision cand) in
         if cd_status cand = Reconciled then
           ebind (if memory_id \<noteq> None then Inr memory_id
              else ebind (one_or_none (filter (\<lambda>m. mm_originating_candidate_id m = Some (cd_id cand)) (md_memories db)))
                     (\<lambda>m. Inr (map_option mm_id m))) (\<lambda>mid.
           Inr (on_command ob (apply_command now mid)
             (upd_obligation (ob_id ob) (resolve_published now (cd_id cand) mid detail) db)))
         else if cd_status cand = Failed then
           let ob1 = count_failure now (cd_id cand) detail ob;
               db1 = upd_obligation (ob_id ob) (count_failure now (cd_id cand) detail) db
           in Inr (if ob_status ob1 = Resolved then on_command ob (fail_command now ''failed_retry_exhausted'' detail) db1 else db1)
         else
           (case (case resolution of Some (c # cs) \<Rightarrow> Some (c # cs) | _ \<Rightarrow> terminal_resolution (cd_status cand)) of
              None \<Rightarrow> Inr db
            | Some res \<Rightarrow> Inr (on_command ob (fail_command now res detail)
                (upd_obligation (ob_id ob) (resolve_terminal now (cd_id cand) res detail) db))))"

section \<open>Frames\<close>

lemma mem_upd_frames [simp]:
  "md_candidates (upd_obligation i f db) = md_candidates db" "md_memories (upd_obligation i f db) = md_memories db"
  "md_commands (upd_obligation i f db) = md_commands db" "md_attempts (upd_obligation i f db) = md_attempts db"
  "md_evidence (upd_obligation i f db) = md_evidence db" "md_turns (upd_obligation i f db) = md_turns db"
  "md_candidates (upd_command i g db) = md_candidates db" "md_memories (upd_command i g db) = md_memories db"
  "md_obligations (upd_command i g db) = md_obligations db" "md_attempts (upd_command i g db) = md_attempts db"
  "md_evidence (upd_command i g db) = md_evidence db" "md_turns (upd_command i g db) = md_turns db"
  "md_obligations (upd_obligation i f db) = tset ob_id i f (md_obligations db)"
  "md_commands (upd_command i g db) = tset cm_id i g (md_commands db)"
  by (simp_all add: upd_obligation_def upd_command_def)

lemma on_command_frames [simp]:
  "md_candidates (on_command ob f db) = md_candidates db" "md_memories (on_command ob f db) = md_memories db"
  "md_obligations (on_command ob f db) = md_obligations db" "md_attempts (on_command ob f db) = md_attempts db"
  "md_evidence (on_command ob f db) = md_evidence db" "md_turns (on_command ob f db) = md_turns db"
  by (simp_all add: on_command_def split: option.splits)

lemma settle_frames:
  assumes "settle_explicit_obligation now mid code res cand db = Inr db'"
  shows "md_candidates db' = md_candidates db" "md_memories db' = md_memories db" "md_attempts db' = md_attempts db"
    "md_evidence db' = md_evidence db" "md_turns db' = md_turns db"
  using assms
  by (auto simp: settle_explicit_obligation_def Let_def split: option.splits if_splits list.splits)

lemma carry_count:
  "json_get ''failure_count'' (carry ob) = json_get ''failure_count'' (ob_resolution ob)"
  by (auto simp: carry_def split: option.splits)

lemma count_failure_sel [simp]:
  "ob_id (count_failure now cid d ob) = ob_id ob" "ob_command_id (count_failure now cid d ob) = ob_command_id ob"
  "explicit_for i (count_failure now cid d ob) = explicit_for i ob"
  "ob_subject_id (count_failure now cid d ob) = ob_subject_id ob"
  by (simp_all add: count_failure_def Let_def explicit_for_def)

lemma failure_count_step: "failure_count (count_failure now cid d ob) = failure_count ob + 1"
  by (simp add: failure_count_def count_failure_def Let_def carry_count int_or_def)

lemma count_failure_status:
  "ob_status (count_failure now cid d ob) = (if OWNER_RETRY_BUDGET \<le> failure_count ob + 1 then Resolved else ob_status ob)"
  by (simp add: count_failure_def Let_def)

text \<open>The row that \<open>pending_explicit_obligation\<close> finds.\<close>

lemma pending_explicit_Some:
  "pending_explicit_obligation i db = Some ob \<Longrightarrow>
   ob \<in> set (md_obligations db) \<and> explicit_for i ob \<and> ob_status ob = Open"
  unfolding pending_explicit_obligation_def by (drule first_by_in) simp

lemma pending_explicit_None:
  "pending_explicit_obligation i db = None \<longleftrightarrow> (\<forall>ob \<in> set (md_obligations db). explicit_for i ob \<longrightarrow> ob_status ob \<noteq> Open)"
  by (auto simp: pending_explicit_obligation_def filter_empty_conv)

end
