(* ===== verification/Memory_Leases.thy ===== *)
theory Memory_Leases
  imports Memory_Explicit
begin

text \<open>
  Leasing memory candidates to the reconciliation worker and handing them back
  (\<^verbatim>\<open>memory/reconciliation.py\<close>: \<^verbatim>\<open>MemoryCandidateLeaseRepository\<close> and the worker transitions of
  \<^verbatim>\<open>MemoryReconciliationService\<close>). Each operation is one transaction: the error leaves the
  database as it was, and the constraints are checked when it commits. Candidates that
  another transaction holds locked are those other transactions' steps.
\<close>

section \<open>Evidence\<close>

definition evidence_turn_admissible :: "candidate_row \<Rightarrow> turn_row \<Rightarrow> bool" where
  "evidence_turn_admissible cand turn =
    (tu_deleted_at turn = None
   \<and> (tu_transcript_id turn = cd_source_transcript_id cand
      \<or> (case json_true ''owner_assertion_turn_id'' (cd_decision cand) of None \<Rightarrow> False
         | Some v \<Rightarrow> tu_id turn = py_str v \<and> tu_actor turn = ''owner'')))"

definition evidence_refs :: "uuid \<Rightarrow> 'x mem_db_scheme \<Rightarrow> evidence_row list" where
  "evidence_refs i db = filter (\<lambda>r. ce_candidate_id r = i) (md_evidence db)"

definition refs_live :: "candidate_row \<Rightarrow> evidence_row list \<Rightarrow> 'x mem_db_scheme \<Rightarrow> bool" where
  "refs_live cand refs db = (\<forall>r \<in> set refs. case tget tu_id (ce_turn_id r) (md_turns db) of
      None \<Rightarrow> False | Some t \<Rightarrow> evidence_turn_admissible cand t)"

definition evidence_live :: "candidate_row \<Rightarrow> 'x mem_db_scheme \<Rightarrow> bool" where
  "evidence_live cand db =
    (cd_evidence_set_hash cand \<notin> {None, Some []} \<and> evidence_refs (cd_id cand) db \<noteq> []
   \<and> refs_live cand (evidence_refs (cd_id cand) db) db)"

section \<open>Claiming\<close>

record lease_config =
  lc_lease_seconds :: int
  lc_max_attempts :: int

text \<open>The constructor's bounds; a second is a million ticks of the clock.\<close>

definition clamp :: "int \<Rightarrow> int \<Rightarrow> int \<Rightarrow> int" where
  "clamp lo hi x = max lo (min x hi)"

definition lease_repository :: "int \<Rightarrow> int \<Rightarrow> lease_config" where
  "lease_repository lease_seconds max_attempts =
    \<lparr>lc_lease_seconds = clamp 30 1800 lease_seconds, lc_max_attempts = clamp 1 10 max_attempts\<rparr>"

definition seconds :: "int \<Rightarrow> time" where "seconds n = n * 1000000"

record candidate_lease =
  cl_candidate_id :: uuid
  cl_attempt_id :: uuid
  cl_lease_token :: uuid
  cl_attempt_number :: int

definition due :: "time \<Rightarrow> time option \<Rightarrow> bool" where
  "due now t = (case t of None \<Rightarrow> False | Some x \<Rightarrow> x \<le> now)"

definition close_attempt :: "time \<Rightarrow> string \<Rightarrow> attempt_row \<Rightarrow> attempt_row" where
  "close_attempt now status a = a\<lparr>ap_status := status, ap_completed_at := Some now, ap_result := [(''result'', JStr status)]\<rparr>"

definition close_stale_attempts :: "uuid \<Rightarrow> time \<Rightarrow> string \<Rightarrow> 'x mem_db_scheme \<Rightarrow> 'x mem_db_scheme" where
  "close_stale_attempts i now status db = db\<lparr>md_attempts := map (\<lambda>a.
      if ap_candidate_id a = i \<and> ap_completed_at a = None then close_attempt now status a else a) (md_attempts db)\<rparr>"

text \<open>A write of a candidate and the settlement of its obligation in the same transaction.\<close>

definition write_and_settle ::
  "time \<Rightarrow> string \<Rightarrow> (candidate_row \<Rightarrow> candidate_row) \<Rightarrow> candidate_row \<Rightarrow> 'x mem_db_scheme \<Rightarrow> mem_error + 'x mem_db_scheme" where
  "write_and_settle now code f cand db =
    settle_explicit_obligation now None (Some code) None (f cand) (upd_cand (cd_id cand) f db)"

definition expire_candidate :: "time \<Rightarrow> json_obj \<Rightarrow> candidate_row \<Rightarrow> candidate_row" where
  "expire_candidate now decision c = c\<lparr>cd_state_version := cd_state_version c + 1, cd_status := Expired,
     cd_lease_token := None, cd_leased_until := None, cd_review_after := None, cd_processed_at := Some now,
     cd_decision := decision\<rparr>"

text \<open>The conflict branch leaves the lease and review columns as they are.\<close>

definition expire_conflicted :: "time \<Rightarrow> json_obj \<Rightarrow> candidate_row \<Rightarrow> candidate_row" where
  "expire_conflicted now decision c = c\<lparr>cd_state_version := cd_state_version c + 1, cd_status := Expired,
     cd_processed_at := Some now, cd_decision := decision\<rparr>"

definition expire_obligation_row :: "time \<Rightarrow> obligation_row \<Rightarrow> obligation_row" where
  "expire_obligation_row now ob = ob\<lparr>ob_status := Resolved, ob_resolution_code := Some ''expired_unconfirmed'',
     ob_resolution := [], ob_resolved_at := Some now\<rparr>"

definition expire_obligation :: "time \<Rightarrow> obligation_row \<Rightarrow> 'x mem_db_scheme \<Rightarrow> mem_error + 'x mem_db_scheme" where
  "expire_obligation now ob db =
    (let db1 = upd_obligation (ob_id ob) (expire_obligation_row now) db in
     case ob_subject_id ob of None \<Rightarrow> Inr db1
     | Some sid \<Rightarrow>
         if ob_subject_type ob = ''memory_candidate'' then
           (case get_cand sid db1 of None \<Rightarrow> Inr db1
            | Some c \<Rightarrow> if cd_status c = Awaiting_owner
                then write_and_settle now ''owner_confirmation_expired''
                  (expire_candidate now [(''decision'', JStr ''expired''), (''code'', JStr ''owner_confirmation_expired'')]) c db1
                else Inr db1)
         else if ob_subject_type ob = ''memory_conflict'' then
           (case tget cf_id sid (md_conflicts db1) of None \<Rightarrow> Inr db1
            | Some cf \<Rightarrow> if cf_status cf = ''open'' then
                let db2 = upd_conflict sid (\<lambda>x. x\<lparr>cf_status := ''expired_unresolved'', cf_resolved_at := Some now\<rparr>) db1
                in (case get_cand (cf_candidate_id cf) db2 of None \<Rightarrow> Inr db2
                   | Some c \<Rightarrow> if cd_status c = Awaiting_owner
                       then write_and_settle now ''owner_confirmation_expired''
                         (expire_conflicted now [(''decision'', JStr ''conflicts_with''),
                           (''code'', JStr ''owner_confirmation_expired''), (''conflict_id'', JStr sid)]) c db2
                       else Inr db2)
              else Inr db1)
         else Inr db1)"

definition expire_due_obligations :: "time \<Rightarrow> 'x mem_db_scheme \<Rightarrow> mem_error + (nat \<times> 'x mem_db_scheme)" where
  "expire_due_obligations now db =
    (let obs = filter (\<lambda>ob. ob_status ob = Open \<and> due now (ob_expires_at ob)) (md_obligations db)
     in ebind (efold (expire_obligation now) obs db) (\<lambda>db1. Inr (length obs, db1)))"

definition retained_expired :: "time \<Rightarrow> candidate_row \<Rightarrow> bool" where
  "retained_expired now c = (cd_status c = Retained_short_term \<and> due now (cd_expires_at c))"

definition lease_lapsed :: "time \<Rightarrow> candidate_row \<Rightarrow> bool" where
  "lease_lapsed now c = (cd_status c = Leased \<and> due now (cd_leased_until c))"

definition exhausted :: "lease_config \<Rightarrow> time \<Rightarrow> candidate_row \<Rightarrow> bool" where
  "exhausted cfg now c = ((lease_lapsed now c \<or> cd_status c = Pending) \<and> lc_max_attempts cfg \<le> cd_attempt_count c)"

definition fail_exhausted :: "time \<Rightarrow> candidate_row \<Rightarrow> candidate_row" where
  "fail_exhausted now c = c\<lparr>cd_state_version := cd_state_version c + 1, cd_status := Failed, cd_lease_token := None,
     cd_leased_until := None, cd_processed_at := Some now,
     cd_decision := [(''decision'', JStr ''failed''), (''code'', JStr ''attempt_limit'')]\<rparr>"

definition eligible :: "lease_config \<Rightarrow> time \<Rightarrow> candidate_row \<Rightarrow> bool" where
  "eligible cfg now c =
    ((cd_status c = Pending \<and> cd_attempt_count c < lc_max_attempts cfg)
   \<or> (lease_lapsed now c \<and> cd_attempt_count c < lc_max_attempts cfg)
   \<or> (cd_status c = Retained_short_term \<and> due now (cd_review_after c)
        \<and> (case cd_expires_at c of None \<Rightarrow> True | Some t \<Rightarrow> now < t)))"

definition claimable :: "lease_config \<Rightarrow> time \<Rightarrow> candidate_row \<Rightarrow> bool" where
  "claimable cfg now c = (eligible cfg now c \<and> cd_invalidated_at c = None \<and> cd_content c \<noteq> None \<and> cd_fingerprint c \<noteq> None)"

definition invalidate_candidate :: "time \<Rightarrow> candidate_row \<Rightarrow> candidate_row" where
  "invalidate_candidate now c = c\<lparr>cd_state_version := cd_state_version c + 1, cd_status := Invalidated,
     cd_invalidated_at := Some now, cd_lease_token := None, cd_leased_until := None, cd_review_after := None,
     cd_processed_at := Some now,
     cd_decision := [(''decision'', JStr ''invalidated''), (''code'', JStr ''evidence_unavailable'')]\<rparr>"

definition next_attempt_number :: "uuid \<Rightarrow> 'x mem_db_scheme \<Rightarrow> int" where
  "next_attempt_number i db = fold max (map ap_number (filter (\<lambda>a. ap_candidate_id a = i) (md_attempts db))) 0 + 1"

definition lease_candidate :: "lease_config \<Rightarrow> time \<Rightarrow> uuid \<Rightarrow> candidate_row \<Rightarrow> candidate_row" where
  "lease_candidate cfg now token c = c\<lparr>cd_state_version := cd_state_version c + 1, cd_status := Leased,
     cd_lease_token := Some token, cd_leased_until := Some (now + seconds (lc_lease_seconds cfg)),
     cd_attempt_count := cd_attempt_count c + 1, cd_review_after := None\<rparr>"

definition new_attempt :: "uuid \<Rightarrow> uuid \<Rightarrow> int \<Rightarrow> candidate_row \<Rightarrow> attempt_row" where
  "new_attempt aid token number c = \<lparr>ap_id = aid, ap_candidate_id = cd_id c, ap_lease_token = token, ap_number = number,
     ap_candidate_state_version = cd_state_version c, ap_evaluated_memory_revision = None,
     ap_evaluated_source_revision = None, ap_semantic_decision = None, ap_target_memory_id = None,
     ap_operation_id = None, ap_status = ''claimed'', ap_evidence = [], ap_result = [], ap_error = None,
     ap_completed_at = None\<rparr>"

text \<open>\<open>fresh\<close> gives the attempt identity and the lease token drawn for a candidate.\<close>

definition claim_row ::
  "lease_config \<Rightarrow> time \<Rightarrow> (uuid \<Rightarrow> uuid \<times> uuid) \<Rightarrow> candidate_row \<Rightarrow> candidate_lease list \<times> 'x mem_db_scheme
   \<Rightarrow> mem_error + (candidate_lease list \<times> 'x mem_db_scheme)" where
  "claim_row cfg now fresh c acc = (case acc of (claimed, db) \<Rightarrow>
    if \<not> evidence_live c db then
      ebind (write_and_settle now ''evidence_unavailable'' (invalidate_candidate now) c
        (close_stale_attempts (cd_id c) now ''evidence_unavailable'' db)) (\<lambda>db1. Inr (claimed, db1))
    else
      let db1 = (if cd_status c = Leased then close_stale_attempts (cd_id c) now ''lease_expired'' db else db);
          number = next_attempt_number (cd_id c) db1;
          (aid, token) = fresh (cd_id c);
          c' = lease_candidate cfg now token c;
          db2 = upd_cand (cd_id c) (lease_candidate cfg now token)
            (db1\<lparr>md_attempts := tadd (new_attempt aid token number c') (md_attempts db1)\<rparr>)
      in if aid \<in> ap_id ` set (md_attempts db1) then Inl MIntegrityError
         else Inr (claimed @ [\<lparr>cl_candidate_id = cd_id c, cl_attempt_id = aid, cl_lease_token = token,
           cl_attempt_number = number\<rparr>], db2))"

definition claim_batch ::
  "lease_config \<Rightarrow> time \<Rightarrow> (uuid \<Rightarrow> uuid \<times> uuid) \<Rightarrow> int \<Rightarrow> 'x mem_db_scheme
   \<Rightarrow> mem_error + (candidate_lease list \<times> nat \<times> 'x mem_db_scheme)" where
  "claim_batch cfg now fresh limit db =
    ebind (expire_due_obligations now db) (\<lambda>(n, db1).
    let expired = filter (retained_expired now) (md_candidates db1) in
    ebind (efold (write_and_settle now ''retention_expired'' (expire_candidate now [(''decision'', JStr ''expired'')]))
      expired db1) (\<lambda>db2.
    ebind (efold (\<lambda>c d. write_and_settle now ''attempt_limit'' (fail_exhausted now) c
        (close_stale_attempts (cd_id c) now ''attempt_limit'' d))
      (filter (exhausted cfg now) (md_candidates db2)) db2) (\<lambda>db3.
    ebind (efold (claim_row cfg now fresh)
      (take (nat (clamp 1 32 limit)) (sort_key (\<lambda>c. (cd_created_at c, cd_id c)) (filter (claimable cfg now) (md_candidates db3))))
      ([], db3)) (\<lambda>(claimed, db4).
    ebind (flush db4) (\<lambda>db5. Inr (claimed, length expired + n, db5))))))"

section \<open>Worker transitions\<close>

definition advance_candidate_state ::
  "candidate_row \<Rightarrow> attempt_row \<Rightarrow> 'x mem_db_scheme \<Rightarrow> mem_error + 'x mem_db_scheme" where
  "advance_candidate_state c a db =
    ebind (require (cd_state_version c = ap_candidate_state_version a)
      (CandidateSnapshotError ''candidate state changed during worker advance'')) (\<lambda>_.
    Inr (upd_attempt (ap_id a) (\<lambda>x. x\<lparr>ap_candidate_state_version := cd_state_version c + 1\<rparr>)
      (upd_cand (cd_id c) (\<lambda>x. x\<lparr>cd_state_version := cd_state_version c + 1\<rparr>) db)))"

definition live_claim :: "time \<Rightarrow> candidate_lease \<Rightarrow> candidate_row \<Rightarrow> attempt_row \<Rightarrow> 'x mem_db_scheme \<Rightarrow> bool" where
  "live_claim now cl c a db =
    (cd_status c = Leased \<and> cd_lease_token c = Some (cl_lease_token cl) \<and> ap_lease_token a = cl_lease_token cl
   \<and> ap_completed_at a = None \<and> cd_state_version c = ap_candidate_state_version a
   \<and> (case cd_leased_until c of None \<Rightarrow> False | Some t \<Rightarrow> now < t) \<and> cd_invalidated_at c = None
   \<and> evidence_live c db)"

definition locked_live_claim ::
  "time \<Rightarrow> candidate_lease \<Rightarrow> 'x mem_db_scheme \<Rightarrow> mem_error + (candidate_row \<times> attempt_row)" where
  "locked_live_claim now cl db =
    (case (get_cand (cl_candidate_id cl) db, tget ap_id (cl_attempt_id cl) (md_attempts db)) of
       (Some c, Some a) \<Rightarrow> if live_claim now cl c a db then Inr (c, a)
         else Inl (CandidateSnapshotError ''candidate lease/evidence is no longer live'')
     | _ \<Rightarrow> Inl (CandidateSnapshotError ''candidate lease/evidence is no longer live''))"

text \<open>The guard of the three hand-back transitions.\<close>

definition owned_attempt :: "candidate_lease \<Rightarrow> 'x mem_db_scheme \<Rightarrow> (candidate_row \<times> attempt_row) option" where
  "owned_attempt cl db =
    (case (get_cand (cl_candidate_id cl) db, tget ap_id (cl_attempt_id cl) (md_attempts db)) of
       (Some c, Some a) \<Rightarrow> if ap_completed_at a = None \<and> cd_status c = Leased
           \<and> cd_lease_token c = Some (cl_lease_token cl) \<and> cd_state_version c = ap_candidate_state_version a
         then Some (c, a) else None
     | _ \<Rightarrow> None)"

definition close_candidate :: "candidate_state \<Rightarrow> time \<Rightarrow> json_obj \<Rightarrow> candidate_row \<Rightarrow> candidate_row" where
  "close_candidate st now decision c = c\<lparr>cd_status := st, cd_lease_token := None, cd_leased_until := None,
     cd_processed_at := Some now, cd_decision := decision\<rparr>"

definition commit_attempt :: "string \<Rightarrow> time \<Rightarrow> json_obj \<Rightarrow> attempt_row \<Rightarrow> attempt_row" where
  "commit_attempt status now result a = a\<lparr>ap_status := status, ap_completed_at := Some now, ap_result := result\<rparr>"

definition bumped :: "candidate_row \<Rightarrow> candidate_row" where
  "bumped c = c\<lparr>cd_state_version := cd_state_version c + 1\<rparr>"

definition finish_epistemic_rejection ::
  "time \<Rightarrow> candidate_lease \<Rightarrow> string \<Rightarrow> 'x mem_db_scheme \<Rightarrow> mem_error + 'x mem_db_scheme" where
  "finish_epistemic_rejection now cl code db =
    ebind (locked_live_claim now cl db) (\<lambda>(c, a).
    ebind (advance_candidate_state c a db) (\<lambda>db1.
    ebind (write_and_settle now code
        (close_candidate Discarded now [(''decision'', JStr ''discard''), (''code'', JStr code)]) (bumped c)
        (upd_attempt (ap_id a) (\<lambda>x. (commit_attempt ''committed'' now [(''result'', JStr ''discarded''), (''code'', JStr code)] x)
           \<lparr>ap_semantic_decision := Some ''discard''\<rparr>) db1)) flush))"

definition finish_policy_block ::
  "time \<Rightarrow> candidate_lease \<Rightarrow> string \<Rightarrow> 'x mem_db_scheme \<Rightarrow> mem_error + 'x mem_db_scheme" where
  "finish_policy_block now cl code db =
    ebind (locked_live_claim now cl db) (\<lambda>(c, a).
    ebind (advance_candidate_state c a db) (\<lambda>db1.
    ebind (write_and_settle now code
        (close_candidate Blocked now [(''decision'', JStr ''blocked''), (''code'', JStr code)]) (bumped c)
        (upd_attempt (ap_id a) (commit_attempt ''committed'' now [(''result'', JStr ''blocked''), (''code'', JStr code)]) db1))
      flush))"

definition requeue_after_version_conflict ::
  "time \<Rightarrow> candidate_lease \<Rightarrow> int \<Rightarrow> 'x mem_db_scheme \<Rightarrow> mem_error + 'x mem_db_scheme" where
  "requeue_after_version_conflict now cl memory_revision db = (case owned_attempt cl db of None \<Rightarrow> Inr db
     | Some (c, a) \<Rightarrow>
         ebind (advance_candidate_state c a db) (\<lambda>db1.
         flush (upd_cand (cd_id c) (\<lambda>x. x\<lparr>cd_status := Pending, cd_lease_token := None, cd_leased_until := None,
             cd_decision := [(''decision'', JStr ''reconcile_retry_needed''), (''code'', JStr ''version_conflict'')]\<rparr>)
           (upd_attempt (ap_id a) (commit_attempt ''version_conflict'' now
             [(''result'', JStr ''version_conflict''), (''expected_revision'', JInt memory_revision)]) db1))))"

definition requeue_or_fail ::
  "lease_config \<Rightarrow> time \<Rightarrow> string option \<Rightarrow> candidate_row \<Rightarrow> 'x mem_db_scheme \<Rightarrow> mem_error + 'x mem_db_scheme" where
  "requeue_or_fail cfg now code c db =
    (let error = (case code of Some (x # xs) \<Rightarrow> Some (x # xs) | _ \<Rightarrow> None) in
     if lc_max_attempts cfg \<le> cd_attempt_count c
     then write_and_settle now (case error of Some e \<Rightarrow> e | None \<Rightarrow> ''attempt_limit'')
       (close_candidate Failed now ([(''decision'', JStr ''failed''), (''code'', JStr ''attempt_limit'')]
          @ (case error of Some e \<Rightarrow> [(''last_error'', JStr e)] | None \<Rightarrow> []))) c db
     else Inr (upd_cand (cd_id c) (\<lambda>x. x\<lparr>cd_status := Pending, cd_lease_token := None, cd_leased_until := None\<rparr>) db))"

definition release_after_conflict ::
  "lease_config \<Rightarrow> time \<Rightarrow> candidate_lease \<Rightarrow> string \<Rightarrow> 'x mem_db_scheme \<Rightarrow> mem_error + 'x mem_db_scheme" where
  "release_after_conflict cfg now cl code db = (case owned_attempt cl db of None \<Rightarrow> Inr db
     | Some (c, a) \<Rightarrow>
         ebind (advance_candidate_state c a db) (\<lambda>db1.
         ebind (requeue_or_fail cfg now None (bumped c)
           (upd_attempt (ap_id a) (commit_attempt code now [(''result'', JStr code)]) db1)) flush))"

definition release_failed ::
  "lease_config \<Rightarrow> time \<Rightarrow> candidate_lease \<Rightarrow> string \<Rightarrow> 'x mem_db_scheme \<Rightarrow> mem_error + 'x mem_db_scheme" where
  "release_failed cfg now cl code db = (case owned_attempt cl db of None \<Rightarrow> Inr db
     | Some (c, a) \<Rightarrow>
         ebind (advance_candidate_state c a db) (\<lambda>db1.
         ebind (requeue_or_fail cfg now (Some code) (bumped c)
           (upd_attempt (ap_id a) (\<lambda>x. (commit_attempt ''failed'' now [(''result'', JStr ''failed''), (''code'', JStr code)] x)
              \<lparr>ap_error := Some code\<rparr>) db1)) flush))"

end
