(* ===== verification/Memory_Candidates.thy ===== *)
theory Memory_Candidates
  imports Memory_Leases
begin

text \<open>
  Intake of memory candidates (\<^verbatim>\<open>memory/candidates.py\<close>): folding of protocol tokens, the
  normalized proposal, its fingerprint and the digest of its evidence, and the enqueueing
  that deduplicates proposals on the same evidence. Validation of a raw proposal is pydantic's;
  it is the argument \<open>validate\<close> of the intake. A validation error carries the field and the
  type of its first entry.
\<close>

section \<open>Proposals\<close>

record evidence_ref =
  er_handle :: "string option"
  er_turn_id :: "uuid option"
  er_span_ref :: string

record memory_candidate =
  mc_kind :: string
  mc_content :: string
  mc_scope :: string
  mc_confidence :: rat
  mc_durability :: string
  mc_subject :: "string option"
  mc_namespace :: "string option"
  mc_evidence_refs :: "evidence_ref list"

definition sized :: "nat \<Rightarrow> nat \<Rightarrow> 'a list \<Rightarrow> bool" where
  "sized lo hi xs = (lo \<le> length xs \<and> length xs \<le> hi)"

definition ref_valid :: "evidence_ref \<Rightarrow> bool" where
  "ref_valid r = ((case er_handle r of None \<Rightarrow> True | Some h \<Rightarrow> sized 1 32 h) \<and> length (er_span_ref r) \<le> 160
     \<and> (er_handle r = None) \<noteq> (er_turn_id r = None))"

definition candidate_kinds :: "string list" where
  "candidate_kinds = [''identity'', ''preference'', ''fact'', ''decision'', ''relationship'', ''procedure'', ''project_state'', ''intent'']"

definition candidate_valid :: "memory_candidate \<Rightarrow> bool" where
  "candidate_valid c =
    (mc_kind c \<in> set candidate_kinds \<and> sized 1 2000 (mc_content c) \<and> mc_scope c \<in> {''chat'', ''project'', ''cross_chat''}
   \<and> 0 \<le> mc_confidence c \<and> mc_confidence c \<le> 1 \<and> mc_durability c \<in> {''short_term'', ''long_term''}
   \<and> (case mc_subject c of None \<Rightarrow> True | Some s \<Rightarrow> length s \<le> 160)
   \<and> (case mc_namespace c of None \<Rightarrow> True | Some s \<Rightarrow> length s \<le> 160)
   \<and> sized 1 8 (mc_evidence_refs c) \<and> (\<forall>r \<in> set (mc_evidence_refs c). ref_valid r))"

definition hyphen_blank :: "char \<Rightarrow> char" where
  "hyphen_blank c = (if c = CHR ''-'' then CHR '' '' else c)"

definition protocol_token :: "string \<Rightarrow> string" where
  "protocol_token v = join_with ''_'' (split_ws (map hyphen_blank (casefold v)))"

definition fold_token :: "string \<Rightarrow> json_obj \<Rightarrow> json_obj" where
  "fold_token k d = (case json_get k d of Some (JStr v) \<Rightarrow> json_put k (JStr (protocol_token v)) d | _ \<Rightarrow> d)"

definition normalize_candidate_payload :: "json \<Rightarrow> json" where
  "normalize_candidate_payload raw = (case raw of
      JObj d \<Rightarrow> let d1 = fold_token ''durability'' (fold_token ''scope'' (fold_token ''kind'' d))
        in JObj (if json_get ''scope'' d1 = Some (JStr ''global'') then json_put ''scope'' (JStr ''cross_chat'') d1 else d1)
    | _ \<Rightarrow> raw)"

section \<open>Normalized proposals\<close>

definition or_none :: "string \<Rightarrow> string option" where
  "or_none s = (if s = [] then None else Some s)"

definition text_of :: "string option \<Rightarrow> string" where
  "text_of x = (case x of None \<Rightarrow> [] | Some s \<Rightarrow> s)"

definition normalized_ref :: "evidence_ref \<Rightarrow> evidence_ref" where
  "normalized_ref r = \<lparr>er_handle = or_none (take 32 (squash (text_of (er_handle r)))),
     er_turn_id = or_none (text_of (er_turn_id r)), er_span_ref = take 160 (squash (er_span_ref r))\<rparr>"

text \<open>First occurrences, in order (\<^verbatim>\<open>dict.fromkeys\<close> and the \<^verbatim>\<open>seen\<close> set).\<close>

fun firsts :: "'a list \<Rightarrow> 'a list" where
  "firsts [] = []"
| "firsts (x # xs) = x # filter (\<lambda>y. y \<noteq> x) (firsts xs)"

definition normalized :: "memory_candidate \<Rightarrow> mem_error + memory_candidate" where
  "normalized c =
    (let content = squash (mc_content c); refs = firsts (map normalized_ref (mc_evidence_refs c)) in
     ebind (require (content \<noteq> []) (MValueError ''candidate content cannot be empty'')) (\<lambda>_.
     ebind (require (refs \<noteq> []) (MValueError ''candidate requires canonical evidence references'')) (\<lambda>_.
     ebind (require (\<forall>r \<in> set refs. ref_valid r) (MValidationError ''evidence_refs'' ''value_error'')) (\<lambda>_.
     Inr (c\<lparr>mc_content := content, mc_subject := or_none (squash (text_of (mc_subject c))),
       mc_namespace := or_none (squash (text_of (mc_namespace c))), mc_evidence_refs := refs\<rparr>)))))"

definition candidate_scope_key :: "memory_candidate \<Rightarrow> uuid \<Rightarrow> string" where
  "candidate_scope_key c transcript_id = (if mc_scope c = ''cross_chat'' then ''owner''
     else if mc_scope c = ''chat'' then ''chat:'' @ transcript_id else ''project-unresolved:'' @ transcript_id)"

text \<open>\<^verbatim>\<open>json.dumps(payload, sort_keys=True, separators=(",", ":"))\<close>.\<close>

definition dumps_compact :: "json \<Rightarrow> string" where
  "dumps_compact = dumps_gen quote_ascii '','' '':'' True"

definition candidate_fingerprint :: "(string \<Rightarrow> string) \<Rightarrow> memory_candidate \<Rightarrow> string \<Rightarrow> string" where
  "candidate_fingerprint sha c scope_key = sha (dumps_compact (JObj
     [(''kind'', JStr (mc_kind c)), (''content'', JStr (casefold (mc_content c))), (''scope'', JStr (mc_scope c)),
      (''scope_key'', JStr scope_key), (''subject'', JStr (casefold (text_of (mc_subject c)))),
      (''namespace'', JStr (casefold (text_of (mc_namespace c))))]))"

type_synonym resolved_ref = "uuid \<times> string"

definition evidence_set_hash :: "(string \<Rightarrow> string) \<Rightarrow> resolved_ref list \<Rightarrow> string" where
  "evidence_set_hash sha refs = sha (join_with [CHR 0x0A] (sort (map (\<lambda>(t, s). t @ '':'' @ s) refs)))"

definition principal_of :: "string \<Rightarrow> string" where
  "principal_of actor = (if actor = ''owner'' then ''owner'' else if actor = ''atlas'' then ''assistant''
     else if actor = ''tool'' then ''tool'' else ''other'')"

section \<open>Spans\<close>

definition digit_value :: "char \<Rightarrow> int option" where
  "digit_value c = (let n = (of_char c :: nat) in if 48 \<le> n \<and> n \<le> 57 then Some (int n - 48) else None)"

text \<open>Decimal digits, single underscores between them allowed, as \<^verbatim>\<open>int\<close> reads them.\<close>

fun digits :: "int \<Rightarrow> string \<Rightarrow> int option" where
  "digits acc [] = Some acc"
| "digits acc (c # cs) = (if c = CHR ''_''
     then (case cs of [] \<Rightarrow> None | d # ds \<Rightarrow> (case digit_value d of None \<Rightarrow> None | Some v \<Rightarrow> digits (acc * 10 + v) ds))
     else (case digit_value c of None \<Rightarrow> None | Some v \<Rightarrow> digits (acc * 10 + v) cs))"

definition unsigned :: "string \<Rightarrow> int option" where
  "unsigned s = (case s of [] \<Rightarrow> None | c # cs \<Rightarrow> (case digit_value c of None \<Rightarrow> None | Some v \<Rightarrow> digits v cs))"

definition py_int :: "string \<Rightarrow> int option" where
  "py_int s = (case strip s of [] \<Rightarrow> None
     | c # cs \<Rightarrow> if c = CHR ''-'' then map_option uminus (unsigned cs) else if c = CHR ''+'' then unsigned cs else unsigned (c # cs))"

text \<open>\<^verbatim>\<open>kind, raw_index = span_ref.split(":", 1)\<close> and the index.\<close>

definition split_colon :: "string \<Rightarrow> (string \<times> string) option" where
  "split_colon s = (case dropWhile (\<lambda>c. c \<noteq> CHR '':'') s of [] \<Rightarrow> None | _ # r \<Rightarrow> Some (takeWhile (\<lambda>c. c \<noteq> CHR '':'') s, r))"

definition parse_span :: "string \<Rightarrow> (string \<times> int) option" where
  "parse_span s = (case split_colon s of None \<Rightarrow> None
     | Some (k, r) \<Rightarrow> (case py_int r of None \<Rightarrow> None | Some i \<Rightarrow> Some (k, i)))"

definition text_block :: "json \<Rightarrow> bool" where
  "text_block b = (case b of JObj d \<Rightarrow> json_get ''type'' d = Some (JStr ''text'') | _ \<Rightarrow> False)"

definition check_span :: "turn_row \<Rightarrow> string \<Rightarrow> mem_error + unit" where
  "check_span turn sp = (if sp = [] then Inr ()
     else ebind (the_row (parse_span sp) (MValueError ''candidate evidence span is malformed'')) (\<lambda>(kind, index).
       ebind (require (kind = ''text'' \<and> 0 \<le> index \<and> index < int (length (tu_blocks turn)))
         (MValueError ''candidate evidence span is unavailable'')) (\<lambda>_.
       require (text_block (tu_blocks turn ! nat index)) (MValueError ''candidate evidence span is not canonical text''))))"

section \<open>Enqueueing\<close>

record intake =
  ik_sha :: "string \<Rightarrow> string"
  ik_now :: time
  ik_source_transcript_id :: uuid
  ik_source_turn_id :: uuid
  ik_source_provider_evidence_id :: "uuid option"
  ik_allowed_turn_ids :: "uuid list option"
  ik_handle_map :: "(string \<times> resolved_ref) list option"
  ik_proposer_model :: "string option"
  ik_intake_path :: string
  ik_origin :: string
  ik_temporal_horizon_at :: "time option"

definition resolve_ref :: "intake \<Rightarrow> evidence_ref \<Rightarrow> resolved_ref list \<Rightarrow> mem_error + resolved_ref list" where
  "resolve_ref ik r acc = (case er_handle r of
      Some h \<Rightarrow>
        (case ik_handle_map ik of None \<Rightarrow> Inl (MValueError ''candidate referenced an unknown evidence handle'')
         | Some m \<Rightarrow> (case map_of m h of None \<Rightarrow> Inl (MValueError ''candidate referenced an unknown evidence handle'')
             | Some (t, sp) \<Rightarrow>
                 ebind (require (er_span_ref r = [] \<or> er_span_ref r = sp)
                   (MValueError ''candidate evidence handle/span mismatch'')) (\<lambda>_. Inr (acc @ [(t, sp)]))))
    | None \<Rightarrow>
        ebind (require (ik_handle_map ik = None) (MValueError ''model candidates must use runtime evidence handles'')) (\<lambda>_.
        ebind (the_row (er_turn_id r) MAssertionError) (\<lambda>t. Inr (acc @ [(t, er_span_ref r)]))))"

definition check_ref :: "intake \<Rightarrow> 'x mem_db_scheme \<Rightarrow> resolved_ref \<Rightarrow> unit \<Rightarrow> mem_error + unit" where
  "check_ref ik db r u = (case r of (t, sp) \<Rightarrow>
    ebind (the_row (tget tu_id t (md_turns db)) (MValueError ''candidate referenced unknown canonical evidence'')) (\<lambda>turn.
    ebind (require (tu_deleted_at turn = None) (MValueError ''candidate referenced deleted canonical evidence'')) (\<lambda>_.
    ebind (require (tu_transcript_id turn = ik_source_transcript_id ik)
      (MValueError ''candidate evidence must belong to the source transcript'')) (\<lambda>_. check_span turn sp))))"

definition resolve_evidence :: "intake \<Rightarrow> memory_candidate \<Rightarrow> 'x mem_db_scheme \<Rightarrow> mem_error + resolved_ref list" where
  "resolve_evidence ik c db =
    ebind (efold (resolve_ref ik) (mc_evidence_refs c) []) (\<lambda>all_refs.
    let refs = firsts all_refs in
    ebind (require (case ik_allowed_turn_ids ik of None \<Rightarrow> True | Some ids \<Rightarrow> fst ` set refs \<subseteq> set ids)
      (MValueError ''candidate referenced evidence outside the model-visible context'')) (\<lambda>_.
    ebind (require (\<forall>r \<in> set refs. tget tu_id (fst r) (md_turns db) \<noteq> None)
      (MValueError ''candidate referenced unknown canonical evidence'')) (\<lambda>_.
    ebind (efold (check_ref ik db) refs ()) (\<lambda>_. Inr refs))))"

definition squash_or :: "nat \<Rightarrow> string \<Rightarrow> string \<Rightarrow> string" where
  "squash_or n s d = (let t = take n (squash (if s = [] then d else s)) in if t = [] then d else t)"

definition candidate_of :: "intake \<Rightarrow> uuid \<Rightarrow> memory_candidate \<Rightarrow> string \<Rightarrow> candidate_row" where
  "candidate_of ik i c h =
    (let key = candidate_scope_key c (ik_source_transcript_id ik) in
     \<lparr>cd_id = i, cd_status = Pending, cd_kind = mc_kind c, cd_content = Some (mc_content c), cd_scope = mc_scope c,
      cd_scope_key = Some key, cd_confidence = mc_confidence c, cd_durability = mc_durability c, cd_subject = mc_subject c,
      cd_namespace = mc_namespace c, cd_fingerprint = Some (candidate_fingerprint (ik_sha ik) c key),
      cd_evidence_set_hash = Some h, cd_proposer_model = or_none (take 128 (squash (text_of (ik_proposer_model ik)))),
      cd_intake_path = squash_or 32 (ik_intake_path ik) ''foreground'', cd_origin = squash_or 64 (ik_origin ik) ''conversation'',
      cd_temporal_horizon_at = ik_temporal_horizon_at ik, cd_state_version = 0, cd_invalidated_at = None, cd_lease_token = None,
      cd_leased_until = None, cd_attempt_count = 0, cd_review_after = None, cd_expires_at = None,
      cd_source_transcript_id = ik_source_transcript_id ik, cd_source_turn_id = ik_source_turn_id ik,
      cd_source_provider_evidence_id = ik_source_provider_evidence_id ik,
      cd_evidence = None, cd_invalidation_operation_id = None, cd_decision = [], cd_created_at = ik_now ik,
      cd_processed_at = None\<rparr>)"

definition evidence_rows :: "uuid \<Rightarrow> resolved_ref list \<Rightarrow> 'x mem_db_scheme \<Rightarrow> evidence_row list" where
  "evidence_rows i refs db = map (\<lambda>(n, t, sp). \<lparr>ce_candidate_id = i, ce_turn_id = t,
      ce_principal = principal_of (case tget tu_id t (md_turns db) of None \<Rightarrow> [] | Some turn \<Rightarrow> tu_actor turn),
      ce_ordinal = n, ce_span_ref = sp\<rparr>) (enumerate 0 refs)"

definition open_with_hash :: "string \<Rightarrow> 'x mem_db_scheme \<Rightarrow> candidate_row list" where
  "open_with_hash h db = filter (\<lambda>c. cd_status c \<in> reconcilable \<and> cd_evidence_set_hash c = Some h) (md_candidates db)"

text \<open>\<open>i\<close> is the fresh identity; the result tells whether a row was created.\<close>

definition enqueue ::
  "intake \<Rightarrow> uuid \<Rightarrow> memory_candidate \<Rightarrow> 'x mem_db_scheme \<Rightarrow> mem_error + (candidate_row \<times> bool \<times> 'x mem_db_scheme)" where
  "enqueue ik i proposal db =
    ebind (normalized proposal) (\<lambda>c.
    ebind (resolve_evidence ik c db) (\<lambda>refs.
    let h = evidence_set_hash (ik_sha ik) refs; row = candidate_of ik i c h in
    (case latest_by cd_created_at (open_with_hash h db) of
       Some existing \<Rightarrow> Inr (existing, False, db)
     | None \<Rightarrow>
         ebind (flush (db\<lparr>md_candidates := tadd row (md_candidates db), md_evidence := md_evidence db @ evidence_rows i refs db\<rparr>))
           (\<lambda>db1. Inr (row, True, db1)))))"

definition candidate_rejection_category :: "mem_error \<Rightarrow> string option" where
  "candidate_rejection_category e = (case e of
      MValidationError field kind \<Rightarrow> Some (if kind = ''missing'' then ''missing_'' @ field
        else if kind = ''extra_forbidden'' then ''unexpected_field'' else ''invalid_'' @ field)
    | MValueError msg \<Rightarrow> Some (let t = take 64 (protocol_token msg) in if t = [] then ''intake_error'' else t)
    | MTypeError \<Rightarrow> Some ''type_error''
    | _ \<Rightarrow> None)"

record intake_report =
  ir_accepted :: nat
  ir_duplicate :: nat
  ir_rejected :: nat
  ir_rejections :: "(string \<times> nat) list"

definition count_rejection :: "string \<Rightarrow> intake_report \<Rightarrow> intake_report" where
  "count_rejection k r = r\<lparr>ir_rejected := ir_rejected r + 1,
     ir_rejections := AList.update k ((case map_of (ir_rejections r) k of None \<Rightarrow> 0 | Some n \<Rightarrow> n) + 1) (ir_rejections r)\<rparr>"

definition enqueue_one ::
  "(json \<Rightarrow> mem_error + memory_candidate) \<Rightarrow> intake \<Rightarrow> uuid \<times> json \<Rightarrow> intake_report \<times> 'x mem_db_scheme
   \<Rightarrow> mem_error + (intake_report \<times> 'x mem_db_scheme)" where
  "enqueue_one validate ik item s = (case (item, s) of ((i, raw), (r, db)) \<Rightarrow>
    (case ebind (validate (normalize_candidate_payload raw)) (\<lambda>c. enqueue ik i c db) of
       Inr (_, created, db1) \<Rightarrow>
         Inr (if created then r\<lparr>ir_accepted := ir_accepted r + 1\<rparr> else r\<lparr>ir_duplicate := ir_duplicate r + 1\<rparr>, db1)
     | Inl e \<Rightarrow> (case candidate_rejection_category e of Some k \<Rightarrow> Inr (count_rejection k r, db) | None \<Rightarrow> Inl e)))"

definition enqueue_many ::
  "(json \<Rightarrow> mem_error + memory_candidate) \<Rightarrow> intake \<Rightarrow> (uuid \<times> json) list \<Rightarrow> 'x mem_db_scheme
   \<Rightarrow> mem_error + (intake_report \<times> 'x mem_db_scheme)" where
  "enqueue_many validate ik raws db = efold (enqueue_one validate ik) (take 8 raws)
     (\<lparr>ir_accepted = 0, ir_duplicate = 0, ir_rejected = 0, ir_rejections = []\<rparr>, db)"

end
