(* ===== verification/Memory_Publisher.thy ===== *)
theory Memory_Publisher
  imports Memory_Leases Shared_Writes
begin

text \<open>
  \<^verbatim>\<open>DerivedMemoryPublisher\<close> of \<^verbatim>\<open>memory/reconciliation.py\<close>: the only path from a candidate to
  derived durable memory. The mutation runs inside the shared-state writer, so it is fenced
  by the memory revision the worker evaluated and rolled back when it raises. Identities
  drawn by \<^verbatim>\<open>uuid4\<close> and the clock are arguments. Identities that the snapshot carries as
  text are the UUIDs themselves.
\<close>

section \<open>Decisions and snapshots\<close>

datatype semantic_decision =
    D_discard | D_retain_short_term | D_create | D_equivalent | D_merge | D_supersede
  | D_historical_predecessor | D_ground_legacy | D_conflict | D_await_owner

fun decision_value :: "semantic_decision \<Rightarrow> string" where
  "decision_value D_discard = ''discard''"
| "decision_value D_retain_short_term = ''retain_short_term''"
| "decision_value D_create = ''create''"
| "decision_value D_equivalent = ''equivalent''"
| "decision_value D_merge = ''merge''"
| "decision_value D_supersede = ''supersede''"
| "decision_value D_historical_predecessor = ''historical_predecessor''"
| "decision_value D_ground_legacy = ''ground_legacy''"
| "decision_value D_conflict = ''conflict''"
| "decision_value D_await_owner = ''await_owner''"

record reconciliation_decision =
  rd_decision :: semantic_decision
  rd_target_memory_id :: "uuid option"
  rd_content :: "string option"
  rd_reason :: "string option"
  rd_event_valid_from :: "time option"
  rd_event_valid_to :: "time option"
  rd_memory_kind :: "string option"
  rd_scope :: "string option"
  rd_durability :: "string option"

definition targeted :: "semantic_decision set" where
  "targeted = {D_equivalent, D_merge, D_supersede, D_historical_predecessor, D_ground_legacy, D_conflict}"

definition opt_len :: "nat \<Rightarrow> string option \<Rightarrow> bool" where
  "opt_len n x = (case x of None \<Rightarrow> True | Some s \<Rightarrow> length s \<le> n)"

text \<open>The field constraints and \<^verbatim>\<open>validate_shape\<close>.\<close>

definition decision_valid :: "reconciliation_decision \<Rightarrow> bool" where
  "decision_valid d =
    (opt_len 4000 (rd_content d) \<and> opt_len 500 (rd_reason d) \<and> opt_len 64 (rd_memory_kind d)
   \<and> rd_scope d \<in> {None, Some ''chat'', Some ''project'', Some ''cross_chat''}
   \<and> rd_durability d \<in> {None, Some ''short_term'', Some ''long_term''}
   \<and> (rd_decision d \<in> targeted) = (rd_target_memory_id d \<noteq> None)
   \<and> (rd_decision d \<in> {D_merge, D_supersede, D_historical_predecessor, D_ground_legacy} \<longrightarrow>
        strip (case rd_content d of None \<Rightarrow> [] | Some s \<Rightarrow> s) \<noteq> []))"

record evaluation_snapshot =
  es_source_transcript_id :: uuid
  es_source_turn_id :: uuid
  es_source_revision :: int
  es_memory_revision :: int
  es_publication_allowed :: bool
  es_active_memory_ids :: "uuid list"
  es_legacy_target_ids :: "uuid list"
  es_reconciliation_record_id :: "uuid option"
  es_explicit_operation :: string
  es_explicit_change_type :: string
  es_explicit_target_memory_id :: "uuid option"

text \<open>What one call draws from outside: digest, clock, fresh identities, configuration.\<close>

record publish_env =
  pe_sha :: "string \<Rightarrow> string"
  pe_now :: time
  pe_operation_id :: uuid
  pe_memory_id :: uuid
  pe_obligation_id :: uuid
  pe_conflict_id :: uuid
  pe_review_hours :: int
  pe_expiry_days :: int

definition hours :: "int \<Rightarrow> time" where "hours n = seconds (n * 3600)"

definition days :: "int \<Rightarrow> time" where "days n = hours (n * 24)"

definition publisher_hours :: "int \<Rightarrow> int" where "publisher_hours n = clamp 1 168 n"

definition publisher_days :: "int \<Rightarrow> int" where "publisher_days n = clamp 1 90 n"

text \<open>\<^verbatim>\<open>a or b\<close> on strings.\<close>

definition or_str :: "string option \<Rightarrow> string \<Rightarrow> string" where
  "or_str a b = (case a of Some (c # cs) \<Rightarrow> c # cs | _ \<Rightarrow> b)"

definition owner_directed :: "memory_row \<Rightarrow> bool" where
  "owner_directed m = (mm_record_kind m = ''owner_directed'' \<or> take 6 (mm_record_kind m) = ''owner_'')"

definition derived_kind :: "memory_row \<Rightarrow> bool" where
  "derived_kind m = (take 7 (mm_record_kind m) = ''derived'')"

definition clear_embedding :: "memory_row \<Rightarrow> memory_row" where
  "clear_embedding m = m\<lparr>mm_embedding := None, mm_embedding_model := None, mm_embedding_dimensions := None, mm_embedded_at := None\<rparr>"

section \<open>Helpers of the mutation\<close>

definition ordered_refs :: "uuid \<Rightarrow> 'x mem_db_scheme \<Rightarrow> evidence_row list" where
  "ordered_refs i db = sort_key ce_ordinal (evidence_refs i db)"

definition live_evidence_rows :: "candidate_row \<Rightarrow> 'x mem_db_scheme \<Rightarrow> evidence_row list" where
  "live_evidence_rows c db =
    (if cd_evidence_set_hash c \<in> {None, Some []} then []
     else let refs = ordered_refs (cd_id c) db in if refs_live c refs db then refs else [])"

definition lineage_rows :: "uuid \<Rightarrow> candidate_row \<Rightarrow> evidence_row list \<Rightarrow> provenance_row list" where
  "lineage_rows i c missing =
    \<lparr>pv_memory_id = i, pv_relationship = ''candidate_source'', pv_source_turn_id = None,
       pv_source_candidate_id = Some (cd_id c), pv_source_memory_id = None\<rparr>
    # map (\<lambda>r. \<lparr>pv_memory_id = i, pv_relationship = ''evidence_source'', pv_source_turn_id = Some (ce_turn_id r),
       pv_source_candidate_id = Some (cd_id c), pv_source_memory_id = None\<rparr>) missing"

definition missing_refs :: "uuid \<Rightarrow> candidate_row \<Rightarrow> 'x mem_db_scheme \<Rightarrow> evidence_row list" where
  "missing_refs i c db = filter (\<lambda>r. \<forall>p \<in> set (md_provenance db).
      \<not> (pv_memory_id p = i \<and> pv_relationship p = ''evidence_source'' \<and> pv_source_turn_id p = Some (ce_turn_id r)))
    (ordered_refs (cd_id c) db)"

definition add_candidate_lineage :: "uuid \<Rightarrow> candidate_row \<Rightarrow> 'x mem_db_scheme \<Rightarrow> bool \<times> 'x mem_db_scheme" where
  "add_candidate_lineage i c db = (let missing = missing_refs i c db in
     if missing = [] then (False, db)
     else (True, db\<lparr>md_provenance := md_provenance db @ lineage_rows i c missing\<rparr>))"

definition memory_source :: "uuid \<Rightarrow> string \<Rightarrow> uuid \<Rightarrow> provenance_row" where
  "memory_source i relationship source = \<lparr>pv_memory_id = i, pv_relationship = relationship, pv_source_turn_id = None,
     pv_source_candidate_id = None, pv_source_memory_id = Some source\<rparr>"

type_synonym 'x published = "mem_error + ('x mem_db_scheme \<times> mutation)"

text \<open>The last writes to the two rows the worker holds, and the outcome.\<close>

definition finish_rows ::
  "bool \<Rightarrow> json_obj \<Rightarrow> (candidate_row \<Rightarrow> candidate_row) \<Rightarrow> (attempt_row \<Rightarrow> attempt_row)
   \<Rightarrow> candidate_row \<Rightarrow> attempt_row \<Rightarrow> 'x mem_db_scheme \<Rightarrow> 'x published" where
  "finish_rows mutated result f h c a db =
    Inr (upd_attempt (ap_id a) h (upd_cand (cd_id c) f db), \<lparr>m_mutated = mutated, m_result = result\<rparr>)"

definition block :: "time \<Rightarrow> string \<Rightarrow> candidate_row \<Rightarrow> attempt_row \<Rightarrow> 'x mem_db_scheme \<Rightarrow> 'x published" where
  "block now code c a db = finish_rows False [(''result'', JStr ''blocked''), (''code'', JStr code)]
     (close_candidate Blocked now [(''decision'', JStr ''blocked''), (''code'', JStr code)])
     (commit_attempt ''committed'' now [(''result'', JStr ''blocked''), (''code'', JStr code)]) c a db"

definition complete_row :: "time \<Rightarrow> string \<Rightarrow> string \<Rightarrow> candidate_row \<Rightarrow> candidate_row" where
  "complete_row now decision result = close_candidate (if decision \<noteq> ''discard'' then Reconciled else Discarded) now
     [(''decision'', JStr decision), (''result'', JStr result)]"

definition complete_attempt :: "time \<Rightarrow> string \<Rightarrow> attempt_row \<Rightarrow> attempt_row" where
  "complete_attempt now result = commit_attempt ''committed'' now [(''result'', JStr result)]"

definition aim :: "uuid \<Rightarrow> (attempt_row \<Rightarrow> attempt_row) \<Rightarrow> attempt_row \<Rightarrow> attempt_row" where
  "aim target h a = (h a)\<lparr>ap_target_memory_id := Some target\<rparr>"

definition scope_key_for :: "string \<Rightarrow> candidate_row \<Rightarrow> string" where
  "scope_key_for scope c = (if scope = ''cross_chat'' then ''owner''
     else if scope = ''chat'' then ''chat:'' @ cd_source_transcript_id c
     else ''project-unresolved:'' @ cd_source_transcript_id c)"

definition target_applicable :: "string option \<Rightarrow> memory_row \<Rightarrow> candidate_row \<Rightarrow> bool" where
  "target_applicable decision_scope target c =
    (let scope = or_str decision_scope (cd_scope c) in
     if scope = ''cross_chat'' then mm_scope target = ''cross_chat''
     else if scope = ''chat'' then mm_scope target = ''cross_chat''
       \<or> (mm_scope target = ''chat'' \<and> mm_scope_key target = Some (''chat:'' @ cd_source_transcript_id c))
     else False)"

definition same_scope :: "string option \<Rightarrow> memory_row \<Rightarrow> candidate_row \<Rightarrow> bool" where
  "same_scope decision_scope target c =
    (let scope = or_str decision_scope (cd_scope c) in
     mm_scope target = scope \<and> mm_scope_key target = Some (scope_key_for scope c))"

definition add_obligation :: "obligation_row \<Rightarrow> 'x mem_db_scheme \<Rightarrow> mem_error + 'x mem_db_scheme" where
  "add_obligation ob db = ebind (require (ob_id ob \<notin> ob_id ` set (md_obligations db)) MIntegrityError)
     (\<lambda>_. flush (db\<lparr>md_obligations := tadd ob (md_obligations db)\<rparr>))"

definition add_conflict :: "conflict_row \<Rightarrow> 'x mem_db_scheme \<Rightarrow> mem_error + 'x mem_db_scheme" where
  "add_conflict cf db = ebind (require (cf_id cf \<notin> cf_id ` set (md_conflicts db)) MIntegrityError)
     (\<lambda>_. flush (db\<lparr>md_conflicts := tadd cf (md_conflicts db)\<rparr>))"

section \<open>The branches of the mutation\<close>

text \<open>Each takes the candidate and the attempt after the state version was advanced.\<close>

definition retain_row :: "publish_env \<Rightarrow> candidate_row \<Rightarrow> candidate_row" where
  "retain_row e c =
    (let expires = (case cd_expires_at c of None \<Rightarrow> pe_now e + days (pe_expiry_days e) | Some t \<Rightarrow> t)
     in c\<lparr>cd_status := Retained_short_term, cd_lease_token := None, cd_leased_until := None, cd_attempt_count := 0,
          cd_review_after := Some (min (pe_now e + hours (pe_review_hours e)) expires), cd_expires_at := Some expires,
          cd_processed_at := Some (pe_now e), cd_decision := [(''decision'', JStr ''retain_short_term'')]\<rparr>)"

definition owner_assertion :: "candidate_row \<Rightarrow> uuid option" where
  "owner_assertion c = map_option py_str (json_true ''owner_assertion_turn_id'' (cd_decision c))"

definition assertion_valid :: "uuid option \<Rightarrow> 'x mem_db_scheme \<Rightarrow> bool" where
  "assertion_valid i db = (case i of None \<Rightarrow> True
     | Some t \<Rightarrow> (case tget tu_id t (md_turns db) of None \<Rightarrow> False
         | Some turn \<Rightarrow> tu_deleted_at turn = None \<and> tu_actor turn = ''owner''))"

definition await_row :: "time \<Rightarrow> json_obj \<Rightarrow> candidate_row \<Rightarrow> candidate_row" where
  "await_row now decision c = c\<lparr>cd_status := Awaiting_owner, cd_lease_token := None, cd_leased_until := None,
     cd_processed_at := Some now, cd_decision := decision\<rparr>"

definition new_obligation ::
  "uuid \<Rightarrow> time \<Rightarrow> string \<Rightarrow> string \<Rightarrow> uuid \<Rightarrow> candidate_row \<Rightarrow> json_obj \<Rightarrow> time option \<Rightarrow> obligation_row" where
  "new_obligation i now kind subject_type subject c resolution expires =
    \<lparr>ob_id = i, ob_kind = kind, ob_status = Open, ob_subject_type = subject_type, ob_subject_id = Some subject,
     ob_origin = cd_origin c, ob_command_id = None, ob_source_transcript_id = Some (cd_source_transcript_id c),
     ob_source_turn_id = Some (cd_source_turn_id c), ob_resolution_source_transcript_id = None,
     ob_resolution_source_turn_id = None, ob_resolution_code = None, ob_resolution = resolution,
     ob_expires_at = expires, ob_created_at = now, ob_resolved_at = None\<rparr>"

definition publish_await ::
  "publish_env \<Rightarrow> reconciliation_decision \<Rightarrow> candidate_row \<Rightarrow> attempt_row \<Rightarrow> 'x mem_db_scheme \<Rightarrow> 'x published" where
  "publish_await e d c a db =
    (let now = pe_now e;
         imported = cd_origin c \<notin> {''conversation'', ''owner_statement'', ''owner_review_confirmation''};
         ob = new_obligation (pe_obligation_id e) now (if imported then ''memory_review'' else ''memory_confirmation'')
           ''memory_candidate'' (cd_id c) c [] (if imported then None else Some (now + days 7))
     in ebind (add_obligation ob db) (\<lambda>db1.
        finish_rows True [(''result'', JStr ''awaiting_owner''), (''obligation_id'', JStr (ob_id ob))]
          (await_row now [(''decision'', JStr ''awaiting_owner''), (''obligation_id'', JStr (ob_id ob)),
             (''reason_code'', opt_json (rd_reason d))])
          (commit_attempt ''awaiting_owner'' now [(''result'', JStr ''awaiting_owner''), (''obligation_id'', JStr (ob_id ob)),
             (''reason_code'', opt_json (rd_reason d))]) c a db1))"

text \<open>The memory a decision names, when the worker evaluated it.\<close>

definition evaluated :: "uuid list \<Rightarrow> reconciliation_decision \<Rightarrow> uuid option" where
  "evaluated ids d = (case rd_target_memory_id d of None \<Rightarrow> None | Some t \<Rightarrow> if t \<in> set ids then Some t else None)"

definition content_of :: "reconciliation_decision \<Rightarrow> candidate_row \<Rightarrow> string" where
  "content_of d c = or_str (rd_content d) (case cd_content c of None \<Rightarrow> [] | Some s \<Rightarrow> s)"

definition publish_conflict ::
  "publish_env \<Rightarrow> evaluation_snapshot \<Rightarrow> reconciliation_decision \<Rightarrow> candidate_row \<Rightarrow> attempt_row \<Rightarrow> 'x mem_db_scheme
   \<Rightarrow> 'x published" where
  "publish_conflict e sn d c a db =
    (let now = pe_now e in
     case evaluated (es_active_memory_ids sn) d of None \<Rightarrow> block now ''target_not_in_evaluated_snapshot'' c a db
     | Some t \<Rightarrow>
         (case get_memory t db of None \<Rightarrow> block now ''conflict_target_invalid'' c a db
          | Some target \<Rightarrow>
              if mm_status target \<noteq> ACTIVE then block now ''conflict_target_invalid'' c a db
              else
                ebind (the_row (es_reconciliation_record_id sn) (MValueError ''badly formed hexadecimal UUID string'')) (\<lambda>rid.
                ebind (clean_memory_content (content_of d c)) (\<lambda>content.
                let cf = \<lparr>cf_id = pe_conflict_id e, cf_candidate_id = cd_id c, cf_reconciliation_id = rid,
                      cf_target_memory_id = mm_id target, cf_status = ''open'', cf_proposed_content = Some content,
                      cf_reason_code = rd_reason d, cf_tombstoned_at = None,
                      cf_tombstone_operation_id = None, cf_resolved_at = None\<rparr>;
                    ob = new_obligation (pe_obligation_id e) now ''memory_conflict'' ''memory_conflict'' (cf_id cf) c
                      (case rd_reason d of Some (r # rs) \<Rightarrow> [(''trigger_reason'', JStr (r # rs))] | _ \<Rightarrow> []) (Some (now + days 14));
                    ids = [(''target_memory_id'', JStr (mm_id target)), (''conflict_id'', JStr (cf_id cf)),
                      (''obligation_id'', JStr (ob_id ob))]
                in ebind (add_conflict cf db) (\<lambda>db1. ebind (add_obligation ob db1) (\<lambda>db2.
                   finish_rows True ((''result'', JStr ''conflict'') # ids)
                     (await_row now ((''decision'', JStr ''conflicts_with'') # ids))
                     (aim (mm_id target) (commit_attempt ''awaiting_owner'' now ((''result'', JStr ''conflict'') # ids)))
                     c a db2))))))"

definition confirm_target :: "uuid option \<Rightarrow> uuid \<Rightarrow> 'x mem_db_scheme \<Rightarrow> 'x mem_db_scheme" where
  "confirm_target assertion i db = (case assertion of None \<Rightarrow> db
     | Some t \<Rightarrow> add_provenance \<lparr>pv_memory_id = i, pv_relationship = ''owner_confirmation'', pv_source_turn_id = Some t,
           pv_source_candidate_id = None, pv_source_memory_id = None\<rparr>
         (upd_memory i (\<lambda>m. m\<lparr>mm_owner_assertion_turn_id := Some t\<rparr>) db))"

definition publish_equivalent ::
  "publish_env \<Rightarrow> evaluation_snapshot \<Rightarrow> reconciliation_decision \<Rightarrow> uuid option \<Rightarrow> candidate_row \<Rightarrow> attempt_row
   \<Rightarrow> 'x mem_db_scheme \<Rightarrow> 'x published" where
  "publish_equivalent e sn d assertion c a db =
    (let now = pe_now e in
     case evaluated (es_active_memory_ids sn) d of None \<Rightarrow> block now ''target_not_in_evaluated_snapshot'' c a db
     | Some t \<Rightarrow>
         (case get_memory t db of None \<Rightarrow> block now ''equivalent_target_invalid'' c a db
          | Some target \<Rightarrow>
              if mm_status target \<noteq> ACTIVE \<or> \<not> target_applicable (rd_scope d) target c
              then block now ''equivalent_target_invalid'' c a db
              else
                let (lineage, db1) = add_candidate_lineage (mm_id target) c db;
                    db2 = confirm_target assertion (mm_id target) db1;
                    added = (lineage \<or> assertion \<noteq> None);
                    result = (if added then ''lineage_added'' else ''already_represented'')
                in finish_rows added [(''result'', JStr result), (''memory_id'', JStr (mm_id target))]
                     (complete_row now ''equivalent'' result) (aim (mm_id target) (complete_attempt now result)) c a db2))"

text \<open>What the content branches share: the content, its fingerprint, the owner's restriction on it.\<close>

definition restriction_for :: "string \<Rightarrow> 'x mem_db_scheme \<Rightarrow> memory_row option" where
  "restriction_for fp db = latest_by (\<lambda>m. (mm_updated_at m, mm_id m))
     (filter (\<lambda>m. mm_fingerprint m = Some fp \<and> mm_grounding_status m = ''verified'' \<and> mm_suppresses_recall m
        \<and> mm_status m \<in> {RETIRED, SUPERSEDED}) (md_memories db))"

record publication =
  pn_content :: string
  pn_fingerprint :: string
  pn_restriction :: "memory_row option"
  pn_assertion :: "uuid option"
  pn_primary_turn :: uuid

definition derived_memory ::
  "evaluation_snapshot \<Rightarrow> reconciliation_decision \<Rightarrow> publication \<Rightarrow> candidate_row \<Rightarrow> uuid option \<Rightarrow> time option \<Rightarrow> time option
   \<Rightarrow> new_memory" where
  "derived_memory sn d pn c supersedes valid_from valid_to =
    (let scope = or_str (rd_scope d) (cd_scope c) in
     \<lparr>nm_source_transcript_id = Some (cd_source_transcript_id c), nm_source_turn_id = Some (pn_primary_turn pn),
      nm_supersedes_id = supersedes, nm_record_kind = ''derived'', nm_origin = ''conversation_verification'',
      nm_memory_kind = Some (or_str (rd_memory_kind d) (cd_kind c)), nm_scope = scope,
      nm_scope_key = Some (scope_key_for scope c), nm_durability = or_str (rd_durability d) (cd_durability c),
      nm_subject = cd_subject c, nm_namespace = cd_namespace c, nm_valid_from = valid_from, nm_valid_to = valid_to,
      nm_grounding_status = ''verified'', nm_verification_record_id = es_reconciliation_record_id sn,
      nm_owner_assertion_turn_id = pn_assertion pn, nm_originating_candidate_id = Some (cd_id c)\<rparr>)"

definition ground_row ::
  "publish_env \<Rightarrow> evaluation_snapshot \<Rightarrow> reconciliation_decision \<Rightarrow> publication \<Rightarrow> candidate_row \<Rightarrow> memory_row \<Rightarrow> memory_row" where
  "ground_row e sn d pn c m =
    (let scope = or_str (rd_scope d) (cd_scope c) in
     clear_embedding (m\<lparr>mm_content := Some (pn_content pn), mm_fingerprint := Some (pn_fingerprint pn),
       mm_grounding_status := ''verified'', mm_verification_record_id := es_reconciliation_record_id sn,
       mm_owner_assertion_turn_id := pn_assertion pn, mm_memory_kind := Some (or_str (rd_memory_kind d) (cd_kind c)),
       mm_scope := scope, mm_scope_key := Some (scope_key_for scope c),
       mm_durability := or_str (rd_durability d) (cd_durability c), mm_subject := cd_subject c, mm_namespace := cd_namespace c,
       mm_source_transcript_id := Some (cd_source_transcript_id c), mm_source_turn_id := Some (pn_primary_turn pn),
       mm_valid_from := rd_event_valid_from d, mm_valid_to := rd_event_valid_to d, mm_updated_at := pe_now e\<rparr>))"

definition pending_review :: "uuid \<Rightarrow> 'x mem_db_scheme \<Rightarrow> mem_error + obligation_row option" where
  "pending_review i db = one_or_none (filter (\<lambda>ob. ob_kind ob = ''memory_review'' \<and> ob_status ob = Open
     \<and> ob_subject_type ob = ''durable_memory'' \<and> ob_subject_id ob = Some i) (md_obligations db))"

definition resolve_review :: "time \<Rightarrow> candidate_row \<Rightarrow> obligation_row option \<Rightarrow> 'x mem_db_scheme \<Rightarrow> 'x mem_db_scheme" where
  "resolve_review now c review db = (case review of None \<Rightarrow> db
     | Some ob \<Rightarrow> upd_obligation (ob_id ob) (\<lambda>x. x\<lparr>ob_status := Resolved, ob_resolution_code := Some ''grounded_by_evidence'',
         ob_resolution := [(''candidate_id'', JStr (cd_id c))], ob_resolved_at := Some now\<rparr>) db)"

definition publish_ground ::
  "publish_env \<Rightarrow> evaluation_snapshot \<Rightarrow> reconciliation_decision \<Rightarrow> publication \<Rightarrow> candidate_row \<Rightarrow> attempt_row
   \<Rightarrow> 'x mem_db_scheme \<Rightarrow> 'x published" where
  "publish_ground e sn d pn c a db =
    (let now = pe_now e in
     case evaluated (es_legacy_target_ids sn) d of None \<Rightarrow> block now ''legacy_target_not_in_evaluated_snapshot'' c a db
     | Some t \<Rightarrow>
         (case get_memory t db of None \<Rightarrow> block now ''legacy_grounding_target_invalid'' c a db
          | Some target \<Rightarrow>
              if mm_status target \<noteq> ACTIVE \<or> mm_grounding_status target \<noteq> ''legacy_unverified'' \<or> owner_directed target
                 \<or> \<not> derived_kind target \<or> \<not> same_scope (rd_scope d) target c
              then block now ''legacy_grounding_target_invalid'' c a db
              else ebind (active_by_fingerprint (pn_fingerprint pn) db) (\<lambda>existing.
                if existing \<noteq> None \<and> map_option mm_id existing \<noteq> Some (mm_id target)
                then block now ''legacy_grounding_duplicate_exists'' c a db
                else
                  let db1 = snd (add_candidate_lineage (mm_id target) c (upd_memory (mm_id target) (ground_row e sn d pn c) db)) in
                  ebind (pending_review (mm_id target) db1) (\<lambda>review.
                  finish_rows True [(''result'', JStr ''legacy_grounded''), (''memory_id'', JStr (mm_id target))]
                    (complete_row now ''ground_legacy'' ''legacy_grounded'')
                    (aim (mm_id target) (complete_attempt now ''legacy_grounded'')) c a (resolve_review now c review db1)))))"

definition historical_admissible :: "reconciliation_decision \<Rightarrow> candidate_row \<Rightarrow> memory_row \<Rightarrow> memory_row \<Rightarrow> bool" where
  "historical_admissible d c target r =
    (mm_status r = SUPERSEDED \<and> \<not> owner_directed r \<and> derived_kind r \<and> target_applicable (rd_scope d) r c
   \<and> (mm_superseded_by_id r = Some (mm_id target) \<or> mm_supersedes_id target = Some (mm_id r)))"

definition publish_historical ::
  "publish_env \<Rightarrow> evaluation_snapshot \<Rightarrow> reconciliation_decision \<Rightarrow> publication \<Rightarrow> candidate_row \<Rightarrow> attempt_row
   \<Rightarrow> 'x mem_db_scheme \<Rightarrow> 'x published" where
  "publish_historical e sn d pn c a db =
    (let now = pe_now e in
     case evaluated (es_active_memory_ids sn) d of None \<Rightarrow> block now ''target_not_in_evaluated_snapshot'' c a db
     | Some t \<Rightarrow>
         (case get_memory t db of None \<Rightarrow> block now ''historical_target_invalid'' c a db
          | Some target \<Rightarrow>
              if mm_status target \<noteq> ACTIVE \<or> \<not> target_applicable (rd_scope d) target c
              then block now ''historical_target_invalid'' c a db
              else (case pn_restriction pn of
                Some r \<Rightarrow>
                  if \<not> historical_admissible d c target r then block now ''historical_lifecycle_restriction'' c a db
                  else
                    let (lineage, db1) = add_candidate_lineage (mm_id r) c db;
                        result = (if lineage then ''historical_lineage_added'' else ''historical_already_represented'')
                    in finish_rows lineage [(''result'', JStr result), (''memory_id'', JStr (mm_id r)),
                         (''target_memory_id'', JStr (mm_id target))]
                       (complete_row now ''historical_predecessor'' result)
                       (aim (mm_id target) (complete_attempt now result)) c a db1
              | None \<Rightarrow>
                  let m = (memory_of now (pe_memory_id e) SUPERSEDED (pn_content pn) (pn_fingerprint pn) True
                        (derived_memory sn d pn c None (rd_event_valid_from d) (mm_valid_from target)))
                        \<lparr>mm_superseded_by_id := Some (mm_id target)\<rparr>
                  in ebind (add_memory m db) (\<lambda>db1.
                     finish_rows True [(''result'', JStr ''historical_predecessor''), (''memory_id'', JStr (mm_id m)),
                         (''target_memory_id'', JStr (mm_id target))]
                       (complete_row now ''historical_predecessor'' ''historical_predecessor'')
                       (aim (mm_id target) (complete_attempt now ''historical_predecessor'')) c a
                       (add_provenance (memory_source (mm_id m) ''historical_predecessor'' (mm_id target))
                         (snd (add_candidate_lineage (mm_id m) c db1)))))))"

definition corrects :: "evaluation_snapshot \<Rightarrow> bool" where
  "corrects sn = (es_explicit_operation sn = ''correct'' \<and> es_explicit_change_type sn = ''correction'')"

text \<open>The row an explicit correction names, when it concerns the correction: a guard or an active memory.\<close>

definition correction_target :: "evaluation_snapshot \<Rightarrow> 'x mem_db_scheme \<Rightarrow> memory_row option" where
  "correction_target sn db =
    (if es_explicit_operation sn \<noteq> ''correct'' then None
     else case es_explicit_target_memory_id sn of None \<Rightarrow> None | Some t \<Rightarrow> get_memory t db)"

definition is_correction_guard :: "memory_row \<Rightarrow> bool" where
  "is_correction_guard m = (mm_status m \<in> {RETIRED, SUPERSEDED} \<and> mm_record_kind m = ''owner_correction_guard'')"

definition link_guard :: "evaluation_snapshot \<Rightarrow> memory_row option \<Rightarrow> uuid \<Rightarrow> 'x mem_db_scheme \<Rightarrow> 'x mem_db_scheme" where
  "link_guard sn guard i db = (case guard of None \<Rightarrow> db
     | Some g \<Rightarrow> add_provenance (memory_source i (if es_explicit_change_type sn = ''correction'' then ''corrects'' else ''supersedes'') (mm_id g))
         (upd_memory (mm_id g) (\<lambda>m. m\<lparr>mm_superseded_by_id := Some i\<rparr>) db))"

definition publish_create ::
  "publish_env \<Rightarrow> evaluation_snapshot \<Rightarrow> reconciliation_decision \<Rightarrow> publication \<Rightarrow> candidate_row \<Rightarrow> attempt_row
   \<Rightarrow> 'x mem_db_scheme \<Rightarrow> 'x published" where
  "publish_create e sn d pn c a db =
    (let now = pe_now e in
     ebind (active_by_fingerprint (pn_fingerprint pn) db) (\<lambda>existing.
     if existing \<noteq> None then block now ''create_target_already_exists'' c a db
     else
       let named = correction_target sn db;
           guard = (case named of None \<Rightarrow> None | Some m \<Rightarrow> if is_correction_guard m then Some m else None)
       in if guard = None \<and> map_option mm_status named = Some ACTIVE
          then block now ''explicit_correction_target_not_reconciled'' c a db
          else
            ebind (create_active (pe_sha e) now (pe_memory_id e) (pn_content pn)
              (derived_memory sn d pn c (map_option mm_id guard)
                (if corrects sn then None else rd_event_valid_from d) (rd_event_valid_to d)) db) (\<lambda>(memory, created, db1).
            if \<not> created \<or> mm_record_kind memory \<noteq> ''derived'' then block now ''derived_create_refused'' c a db1
            else finish_rows True [(''result'', JStr ''created''), (''memory_id'', JStr (mm_id memory))]
                (complete_row now ''create'' ''created'') (aim (mm_id memory) (complete_attempt now ''created'')) c a
                (link_guard sn guard (mm_id memory) (snd (add_candidate_lineage (mm_id memory) c db1))))))"

definition supersede_row ::
  "publish_env \<Rightarrow> evaluation_snapshot \<Rightarrow> reconciliation_decision \<Rightarrow> uuid \<Rightarrow> memory_row \<Rightarrow> memory_row" where
  "supersede_row e sn d replacement m =
    clear_embedding (m\<lparr>mm_status := SUPERSEDED, mm_suppresses_recall := True, mm_superseded_by_id := Some replacement,
      mm_valid_to := (if corrects sn then mm_valid_to m
        else Some (case rd_event_valid_from d of None \<Rightarrow> pe_now e | Some t \<Rightarrow> t)), mm_updated_at := pe_now e\<rparr>)"

definition explicit_mismatch :: "evaluation_snapshot \<Rightarrow> reconciliation_decision \<Rightarrow> bool" where
  "explicit_mismatch sn d = (es_explicit_operation sn = ''correct'' \<and> es_explicit_target_memory_id sn \<noteq> None
     \<and> rd_target_memory_id d \<noteq> es_explicit_target_memory_id sn)"

definition explicit_correction_of_target :: "evaluation_snapshot \<Rightarrow> reconciliation_decision \<Rightarrow> bool" where
  "explicit_correction_of_target sn d = (es_explicit_operation sn = ''correct'' \<and> es_explicit_target_memory_id sn \<noteq> None
     \<and> rd_target_memory_id d = es_explicit_target_memory_id sn)"

definition replaceable :: "evaluation_snapshot \<Rightarrow> reconciliation_decision \<Rightarrow> candidate_row \<Rightarrow> memory_row \<Rightarrow> bool" where
  "replaceable sn d c target =
    (mm_status target = ACTIVE
   \<and> (explicit_correction_of_target sn d \<or> (\<not> owner_directed target \<and> derived_kind target))
   \<and> same_scope (rd_scope d) target c
   \<and> (mm_memory_kind target = None \<or> mm_memory_kind target = Some (or_str (rd_memory_kind d) (cd_kind c))))"

definition publish_replace ::
  "publish_env \<Rightarrow> evaluation_snapshot \<Rightarrow> reconciliation_decision \<Rightarrow> publication \<Rightarrow> candidate_row \<Rightarrow> attempt_row
   \<Rightarrow> 'x mem_db_scheme \<Rightarrow> 'x published" where
  "publish_replace e sn d pn c a db =
    (let now = pe_now e in
     if rd_decision d \<notin> {D_merge, D_supersede} then block now ''unsupported_semantic_decision'' c a db
     else case evaluated (es_active_memory_ids sn) d of None \<Rightarrow> block now ''target_not_in_evaluated_snapshot'' c a db
     | Some t \<Rightarrow>
         if explicit_mismatch sn d then block now ''explicit_correction_target_mismatch'' c a db
         else (case get_memory t db of None \<Rightarrow> block now ''derived_target_invalid'' c a db
          | Some target \<Rightarrow>
              if \<not> replaceable sn d c target then block now ''derived_target_invalid'' c a db
              else ebind (active_by_fingerprint (pn_fingerprint pn) db) (\<lambda>existing.
                if existing \<noteq> None \<and> map_option mm_id existing \<noteq> Some (mm_id target)
                then block now ''replacement_already_exists'' c a db
                else if existing \<noteq> None then block now ''replacement_unchanged'' c a db
                else
                  ebind (create_active (pe_sha e) now (pe_memory_id e) (pn_content pn)
                    (derived_memory sn d pn c (Some (mm_id target)) (if corrects sn then None else rd_event_valid_from d)
                      (rd_event_valid_to d)) db) (\<lambda>(replacement, created, db1).
                  if \<not> created \<or> mm_id replacement = mm_id target then block now ''derived_replacement_refused'' c a db1
                  else finish_rows True [(''result'', JStr (decision_value (rd_decision d))), (''memory_id'', JStr (mm_id replacement)),
                        (''target_memory_id'', JStr (mm_id target))]
                      (complete_row now (decision_value (rd_decision d)) ''created'')
                      (aim (mm_id replacement) (complete_attempt now ''created'')) c a
                      (add_provenance (memory_source (mm_id replacement)
                          (if corrects sn then ''corrects'' else if rd_decision d = D_merge then ''merged_from'' else ''supersedes'')
                          (mm_id target))
                        (snd (add_candidate_lineage (mm_id replacement) c
                          (upd_memory (mm_id target) (supersede_row e sn d (mm_id replacement)) db1))))))))"

definition publish_content ::
  "publish_env \<Rightarrow> evaluation_snapshot \<Rightarrow> reconciliation_decision \<Rightarrow> uuid \<Rightarrow> uuid option \<Rightarrow> candidate_row \<Rightarrow> attempt_row
   \<Rightarrow> 'x mem_db_scheme \<Rightarrow> 'x published" where
  "publish_content e sn d primary assertion c a db =
    ebind (clean_memory_content (content_of d c)) (\<lambda>content.
    let fp = memory_fingerprint (pe_sha e) content;
        restriction = restriction_for fp db;
        pn = \<lparr>pn_content = content, pn_fingerprint = fp, pn_restriction = restriction, pn_assertion = assertion,
              pn_primary_turn = primary\<rparr>
    in if restriction \<noteq> None \<and> (map_option mm_status restriction = Some RETIRED \<or> rd_decision d \<noteq> D_historical_predecessor)
       then block (pe_now e) ''owner_lifecycle_restriction'' c a db
       else if rd_decision d = D_ground_legacy then publish_ground e sn d pn c a db
       else if rd_decision d = D_historical_predecessor then publish_historical e sn d pn c a db
       else if rd_decision d = D_create then publish_create e sn d pn c a db
       else publish_replace e sn d pn c a db)"

text \<open>From the check of the source on; the lease was checked and the state version advanced.\<close>

definition source_moved :: "evaluation_snapshot \<Rightarrow> 'x mem_db_scheme \<Rightarrow> bool" where
  "source_moved sn db = (case tget tr_id (es_source_transcript_id sn) (md_transcripts db) of None \<Rightarrow> True
     | Some t \<Rightarrow> tget tu_id (es_source_turn_id sn) (md_turns db) = None \<or> tr_content_revision t \<noteq> es_source_revision sn)"

definition publish_leased ::
  "publish_env \<Rightarrow> evaluation_snapshot \<Rightarrow> reconciliation_decision \<Rightarrow> uuid \<Rightarrow> candidate_row \<Rightarrow> attempt_row
   \<Rightarrow> 'x mem_db_scheme \<Rightarrow> 'x published" where
  "publish_leased e sn d primary c a db =
    (let now = pe_now e; assertion = owner_assertion c in
     if source_moved sn db then
       finish_rows False [(''result'', JStr ''source_conflict'')]
         (\<lambda>x. x\<lparr>cd_status := Pending, cd_lease_token := None, cd_leased_until := None\<rparr>)
         (commit_attempt ''source_conflict'' now [(''result'', JStr ''source_conflict'')]) c a db
     else if rd_decision d = D_discard then
       finish_rows False [(''result'', JStr ''discarded'')] (complete_row now ''discard'' ''discarded'')
         (complete_attempt now ''discarded'') c a db
     else if rd_decision d = D_retain_short_term then
       finish_rows False [(''result'', JStr ''retained_short_term'')] (retain_row e)
         (commit_attempt ''committed'' now [(''result'', JStr ''retained_short_term'')]) c a db
     else if \<not> es_publication_allowed sn then block now ''scope_not_publishable'' c a db
     else if or_str (rd_durability d) (cd_durability c) = ''short_term'' \<and> rd_decision d \<in> {D_create, D_merge, D_supersede}
     then block now ''short_term_not_durable'' c a db
     else if \<not> assertion_valid assertion db then block now ''owner_assertion_evidence_invalid'' c a db
     else if rd_decision d = D_await_owner then publish_await e d c a db
     else if rd_decision d = D_conflict then publish_conflict e sn d c a db
     else if rd_decision d = D_equivalent then publish_equivalent e sn d assertion c a db
     else publish_content e sn d primary assertion c a db)"

definition stamp_attempt :: "publish_env \<Rightarrow> reconciliation_decision \<Rightarrow> attempt_row \<Rightarrow> attempt_row" where
  "stamp_attempt e d a = a\<lparr>ap_operation_id := Some (pe_operation_id e),
     ap_semantic_decision := Some (decision_value (rd_decision d)), ap_target_memory_id := rd_target_memory_id d\<rparr>"

definition primary_turn :: "evidence_row list \<Rightarrow> uuid" where
  "primary_turn refs = (case find (\<lambda>r. ce_principal r = ''owner'') refs of Some r \<Rightarrow> ce_turn_id r | None \<Rightarrow> ce_turn_id (hd refs))"

definition scrubbed :: "candidate_row \<Rightarrow> bool" where
  "scrubbed c = (cd_invalidated_at c \<noteq> None \<or> cd_content c = None \<or> cd_fingerprint c = None \<or> cd_status c = Invalidated)"

definition invalidated_row :: "time \<Rightarrow> candidate_row \<Rightarrow> candidate_row" where
  "invalidated_row now c = c\<lparr>cd_status := Invalidated, cd_lease_token := None, cd_leased_until := None,
     cd_review_after := None, cd_processed_at := Some now\<rparr>"

definition invalid_evidence_row :: "time \<Rightarrow> candidate_row \<Rightarrow> candidate_row" where
  "invalid_evidence_row now c = (invalidated_row now c)\<lparr>cd_invalidated_at := Some now,
     cd_decision := [(''decision'', JStr ''invalidated''), (''code'', JStr ''evidence_unavailable'')]\<rparr>"

definition lapsed :: "time \<Rightarrow> candidate_lease \<Rightarrow> candidate_row \<Rightarrow> bool" where
  "lapsed now cl c = (cd_status c \<noteq> Leased \<or> cd_lease_token c \<noteq> Some (cl_lease_token cl)
     \<or> (case cd_leased_until c of None \<Rightarrow> True | Some t \<Rightarrow> t \<le> now))"

definition lease_conflict :: mutation where
  "lease_conflict = \<lparr>m_mutated = False, m_result = [(''result'', JStr ''lease_conflict'')]\<rparr>"

definition mutate ::
  "publish_env \<Rightarrow> candidate_lease \<Rightarrow> evaluation_snapshot \<Rightarrow> reconciliation_decision \<Rightarrow> 'x mem_db_scheme \<Rightarrow> 'x published" where
  "mutate e cl sn d db =
    (let now = pe_now e; cand = get_cand (cl_candidate_id cl) db in
     ebind (the_row (tget ap_id (cl_attempt_id cl) (md_attempts db)) (MValueError ''reconciliation attempt disappeared'')) (\<lambda>a.
     if ap_lease_token a \<noteq> cl_lease_token cl \<or> ap_completed_at a \<noteq> None
        \<or> (case cand of None \<Rightarrow> False | Some c \<Rightarrow> cd_state_version c \<noteq> ap_candidate_state_version a)
     then Inr (db, lease_conflict)
     else
       let db1 = upd_attempt (ap_id a) (stamp_attempt e d) db;
           close = (\<lambda>st result. upd_attempt (ap_id a) (commit_attempt st now result))
       in case cand of
         None \<Rightarrow> Inr (close ''lease_conflict'' (m_result lease_conflict) db1, lease_conflict)
       | Some c \<Rightarrow>
           if scrubbed c then
             Inr (close ''invalidated'' [(''result'', JStr ''invalidated'')]
               (if cd_lease_token c = Some (cl_lease_token cl) then upd_cand (cd_id c) (invalidated_row now) db1 else db1),
               \<lparr>m_mutated = False, m_result = [(''result'', JStr ''invalidated'')]\<rparr>)
           else if lapsed now cl c then Inr (close ''lease_conflict'' (m_result lease_conflict) db1, lease_conflict)
           else if live_evidence_rows c db1 = [] then
             finish_rows False [(''result'', JStr ''invalidated''), (''code'', JStr ''evidence_unavailable'')]
               (invalid_evidence_row now)
               (commit_attempt ''invalidated'' now [(''result'', JStr ''invalidated''), (''code'', JStr ''evidence_unavailable'')]) c a db1
           else ebind (advance_candidate_state c a db1) (\<lambda>db2.
             publish_leased e sn d (primary_turn (live_evidence_rows c db1)) (bumped c) a db2)))"

definition settle_outcome ::
  "time \<Rightarrow> candidate_lease \<Rightarrow> json_obj \<Rightarrow> 'x mem_db_scheme \<Rightarrow> mem_error + 'x mem_db_scheme" where
  "settle_outcome now cl result db =
    (case outcome_of (case json_get ''result'' result of None \<Rightarrow> ''None'' | Some v \<Rightarrow> py_str v) of
       None \<Rightarrow> Inr db
     | Some oc \<Rightarrow>
         if outcome_terminality oc \<notin> {Terminal_success, Terminal_failure} then Inr db
         else case get_cand (cl_candidate_id cl) db of None \<Rightarrow> Inr db
           | Some c \<Rightarrow> settle_explicit_obligation now
               (case json_true ''memory_id'' result of Some v \<Rightarrow> Some (py_str v)
                | None \<Rightarrow> map_option py_str (json_true ''replacement_memory_id'' result))
               (map_option py_str (json_true ''code'' result)) None c db)"

definition mutate_and_settle ::
  "publish_env \<Rightarrow> candidate_lease \<Rightarrow> evaluation_snapshot \<Rightarrow> reconciliation_decision \<Rightarrow> 'x mem_db_scheme \<Rightarrow> int \<Rightarrow> 'x published" where
  "mutate_and_settle e cl sn d db version =
    ebind (mutate e cl sn d db) (\<lambda>(db1, outcome).
    ebind (settle_outcome (pe_now e) cl (m_result outcome) db1) (\<lambda>db2.
    ebind (flush db2) (\<lambda>db3. Inr (db3, outcome))))"

definition MEMORY_RESOURCE_TYPE :: string where "MEMORY_RESOURCE_TYPE = ''memory_state''"

definition MEMORY_RESOURCE_ID :: string where "MEMORY_RESOURCE_ID = ''owner''"

definition publish_envelope ::
  "publish_env \<Rightarrow> candidate_lease \<Rightarrow> evaluation_snapshot \<Rightarrow> reconciliation_decision \<Rightarrow> envelope" where
  "publish_envelope e cl sn d =
    \<lparr>e_operation_id = pe_operation_id e, e_resource_type = MEMORY_RESOURCE_TYPE, e_resource_id = MEMORY_RESOURCE_ID,
     e_operation = ''reconcile_candidate'', e_expected_version = Some (es_memory_revision sn),
     e_payload = [(''candidate_id'', JStr (cl_candidate_id cl)), (''attempt_id'', JStr (cl_attempt_id cl)),
       (''lease_token'', JStr (cl_lease_token cl)), (''semantic_decision'', JStr (decision_value (rd_decision d))),
       (''target_memory_id'', opt_json (rd_target_memory_id d))],
     e_actor = ''memory_reconciler'', e_source_transcript_id = Some (es_source_transcript_id sn),
     e_source_turn_id = Some (es_source_turn_id sn), e_source_run_id = None\<rparr>"

definition publish ::
  "publish_env \<Rightarrow> candidate_lease \<Rightarrow> evaluation_snapshot \<Rightarrow> reconciliation_decision \<Rightarrow> 'x mem_db_scheme shared_db
   \<Rightarrow> (mem_error write_error + receipt) \<times> 'x mem_db_scheme shared_db" where
  "publish e cl sn d = writer_execute (pe_sha e) (publish_envelope e cl sn d) (mutate_and_settle e cl sn d)"

end
