(* ===== verification/Memory_Policy.thy ===== *)
theory Memory_Policy
  imports Memory_Candidates Memory_Publisher
begin

text \<open>
  The pure part of the verification worker (\<^verbatim>\<open>memory/reconciliation.py\<close>): folding of the
  model's stage outputs, the effective classification of a claim, the chronology guard on
  supersession, the owner policy and the publication decision it leads to. Timestamps arrive
  as datetimes or as ISO text; the reader of ISO text is the argument \<open>parse_iso\<close>.
\<close>

section \<open>Folding stage outputs\<close>

type_synonym note_counts = "(string \<times> nat) list"

definition add_note :: "string \<Rightarrow> note_counts \<Rightarrow> note_counts" where
  "add_note k ns = AList.update k ((case map_of ns k of None \<Rightarrow> 0 | Some n \<Rightarrow> n) + 1) ns"

definition READING_TOKENS :: "(string \<times> string list) list" where
  "READING_TOKENS = [(''scope'', [''chat'', ''project'', ''cross_chat'']), (''durability'', [''short_term'', ''long_term'']),
     (''claim_principal'', [''owner'', ''external'', ''mixed'', ''unknown''])]"

definition MAX_READING_CLAIMS :: nat where "MAX_READING_CLAIMS = 8"

definition hint_token :: "string \<Rightarrow> string \<Rightarrow> string" where
  "hint_token key value = (let t = protocol_token value in if key = ''scope'' \<and> t = ''global'' then ''cross_chat'' else t)"

definition fold_optional_token :: "string \<times> string list \<Rightarrow> json_obj \<times> note_counts \<Rightarrow> json_obj \<times> note_counts" where
  "fold_optional_token entry state = (case (entry, state) of ((key, allowed), (d, ns)) \<Rightarrow>
    (case json_get key d of
       None \<Rightarrow> (d, ns)
     | Some JNull \<Rightarrow> (d, ns)
     | Some (JStr value) \<Rightarrow>
         let t = hint_token key value in
         if t \<in> set allowed then (json_put key (JStr t) d, ns)
         else if t \<in> {'''', ''null'', ''none''} then (json_put key JNull d, ns)
         else (json_put key JNull d, add_note (''invalid_'' @ key) ns)
     | Some _ \<Rightarrow> (json_put key JNull d, add_note (''invalid_'' @ key) ns)))"

text \<open>\<^verbatim>\<open>_fold_required_token\<close> is \<open>fold_token\<close> of the intake.\<close>

definition nonblank :: "json \<Rightarrow> bool" where
  "nonblank j = (case j of JStr s \<Rightarrow> strip s \<noteq> [] | _ \<Rightarrow> False)"

definition fold_claims :: "json_obj \<times> note_counts \<Rightarrow> json_obj \<times> note_counts" where
  "fold_claims state = (case state of (d, ns) \<Rightarrow>
    (case json_get ''extracted_claims'' d of
       Some (JList claims) \<Rightarrow>
         let kept = filter nonblank claims;
             ns1 = (if length kept < length claims then AList.update ''claim_dropped'' (length claims - length kept) ns else ns);
             ns2 = (if MAX_READING_CLAIMS < length kept
                    then AList.update ''claims_truncated'' (length kept - MAX_READING_CLAIMS) ns1 else ns1)
         in (json_put ''extracted_claims'' (JList (take MAX_READING_CLAIMS kept)) d, ns2)
     | _ \<Rightarrow> (d, ns)))"

definition normalize_reading_payload :: "json \<Rightarrow> json \<times> note_counts" where
  "normalize_reading_payload raw = (case raw of
      JObj d \<Rightarrow> (case fold fold_optional_token READING_TOKENS (fold_claims (d, [])) of (d', ns) \<Rightarrow> (JObj d', ns))
    | _ \<Rightarrow> (raw, []))"

definition normalize_comparison_payload :: "json \<Rightarrow> json \<times> note_counts" where
  "normalize_comparison_payload raw = (case raw of
      JObj d \<Rightarrow> (case fold fold_optional_token (take 2 READING_TOKENS) (fold_token ''verdict'' d, []) of (d', ns) \<Rightarrow> (JObj d', ns))
    | _ \<Rightarrow> (raw, []))"

definition normalize_relation_payload :: "json \<Rightarrow> json \<times> note_counts" where
  "normalize_relation_payload raw = (case raw of JObj d \<Rightarrow> (JObj (fold_token ''relation'' d), []) | _ \<Rightarrow> (raw, []))"

section \<open>Stage results\<close>

record reading =
  rg_extracted_claims :: "string list"
  rg_category :: "string option"
  rg_scope :: "string option"
  rg_durability :: "string option"
  rg_claim_principal :: "string option"
  rg_event_valid_from :: "time option"
  rg_event_valid_to :: "time option"

record comparison =
  cv_verdict :: string
  cv_normalized_content :: "string option"
  cv_category :: "string option"
  cv_scope :: "string option"
  cv_durability :: "string option"

datatype relation =
    R_new | R_duplicate_of | R_narrows | R_supersedes | R_historical_predecessor | R_grounds_legacy | R_conflicts_with

record relation_decision =
  rl_relation :: relation
  rl_target_memory_id :: "uuid option"
  rl_replacement_content :: "string option"
  rl_temporal_guard :: "string option"

definition relation_valid :: "relation_decision \<Rightarrow> bool" where
  "relation_valid r = (opt_len 4000 (rl_replacement_content r) \<and> opt_len 64 (rl_temporal_guard r)
     \<and> (rl_relation r \<noteq> R_new) = (rl_target_memory_id r \<noteq> None))"

datatype stamp = At time | Iso string | Unstamped

definition read_stamp :: "(string \<Rightarrow> time option) \<Rightarrow> stamp \<Rightarrow> time option" where
  "read_stamp parse_iso s = (case s of At t \<Rightarrow> Some t | Iso x \<Rightarrow> parse_iso x | Unstamped \<Rightarrow> None)"

text \<open>What the decisions read of the evaluation snapshot.\<close>

record claim_context =
  cc_content :: "string option"
  cc_kind :: "string option"
  cc_scope :: "string option"
  cc_durability :: "string option"
  cc_origin :: "string option"
  cc_intake_path :: string
  cc_temporal_horizon :: stamp
  cc_owner_confirmation_granted :: bool
  cc_explicit_operation :: "string option"
  cc_explicit_target_memory_id :: "uuid option"
  cc_evidence_times :: "stamp list"
  cc_targets :: "(uuid \<times> string \<times> stamp) list"

section \<open>Effective classification\<close>

definition SENSITIVE_CATEGORIES :: "string list" where
  "SENSITIVE_CATEGORIES = [''health'', ''credential'', ''credentials'', ''financial'', ''legal'']"

definition SUPPORTED_KINDS :: "string list" where
  "SUPPORTED_KINDS = [''identity'', ''preference'', ''fact'', ''decision'', ''relationship'', ''procedure'', ''project_state'', ''intent'']"

definition first_true :: "string option list \<Rightarrow> string \<Rightarrow> string" where
  "first_true xs d = (case find (\<lambda>x. x \<notin> {None, Some []}) xs of Some (Some s) \<Rightarrow> s | _ \<Rightarrow> d)"

definition effective_content :: "claim_context \<Rightarrow> reading \<Rightarrow> comparison \<Rightarrow> mem_error + string" where
  "effective_content cc rg cv = clean_memory_content (first_true
     [cv_normalized_content cv, (case rg_extracted_claims rg of [] \<Rightarrow> None | x # _ \<Rightarrow> Some x), cc_content cc] [])"

definition policy_category :: "claim_context \<Rightarrow> reading \<Rightarrow> comparison \<Rightarrow> string" where
  "policy_category cc rg cv = strip (first_true [cv_category cv, rg_category rg, cc_kind cc] ''fact'')"

definition effective_kind :: "claim_context \<Rightarrow> reading \<Rightarrow> comparison \<Rightarrow> string" where
  "effective_kind cc rg cv = (let v = policy_category cc rg cv; p = strip (or_str (cc_kind cc) ''fact'') in
     if v \<in> set SUPPORTED_KINDS then v else if p \<in> set SUPPORTED_KINDS then p else ''fact'')"

definition effective_scope :: "claim_context \<Rightarrow> reading \<Rightarrow> comparison \<Rightarrow> string" where
  "effective_scope cc rg cv = first_true [cv_scope cv, rg_scope rg, cc_scope cc] ''chat''"

definition effective_durability :: "claim_context \<Rightarrow> reading \<Rightarrow> comparison \<Rightarrow> string" where
  "effective_durability cc rg cv = first_true [cv_durability cv, rg_durability rg, cc_durability cc] ''short_term''"

section \<open>Chronology\<close>

definition explicit_correction :: "claim_context \<Rightarrow> relation_decision \<Rightarrow> bool" where
  "explicit_correction cc r = (or_str (cc_explicit_operation cc) '''' = ''correct''
     \<and> or_str (cc_explicit_target_memory_id cc) '''' = (case rl_target_memory_id r of None \<Rightarrow> ''None'' | Some t \<Rightarrow> t))"

definition max_time :: "time list \<Rightarrow> time option" where
  "max_time ts = (case ts of [] \<Rightarrow> None | t # us \<Rightarrow> Some (fold max us t))"

definition evidence_horizon :: "(string \<Rightarrow> time option) \<Rightarrow> claim_context \<Rightarrow> time option" where
  "evidence_horizon parse_iso cc =
    (let cited = max_time (List.map_filter (read_stamp parse_iso) (cc_evidence_times cc)) in
     case (if cc_intake_path cc = ''sweep'' then read_stamp parse_iso (cc_temporal_horizon cc) else None) of
       None \<Rightarrow> cited
     | Some sweep \<Rightarrow> (case cited of None \<Rightarrow> Some sweep | Some t \<Rightarrow> Some (min t sweep)))"

definition guarded :: "relation \<Rightarrow> string \<Rightarrow> relation_decision \<Rightarrow> relation_decision" where
  "guarded rel g r = r\<lparr>rl_relation := rel, rl_temporal_guard := Some g\<rparr>"

definition enforce_temporal_order ::
  "(string \<Rightarrow> time option) \<Rightarrow> claim_context \<Rightarrow> reading \<Rightarrow> relation_decision \<Rightarrow> mem_error + relation_decision" where
  "enforce_temporal_order parse_iso cc rg r =
    (if rl_relation r \<notin> {R_supersedes, R_historical_predecessor} then Inr r
     else
       ebind (the_row (find (\<lambda>(i, _). Some i = rl_target_memory_id r) (cc_targets cc))
         (MValueError ''temporal target disappeared from evaluated graph'')) (\<lambda>(_, authority, target_stamp).
       if authority = ''owner_directed'' \<and> \<not> explicit_correction cc r then Inr (r\<lparr>rl_relation := R_conflicts_with\<rparr>)
       else
         let candidate_time = rg_event_valid_from rg; horizon = evidence_horizon parse_iso cc in
         if (case (candidate_time, horizon) of (Some t, Some h) \<Rightarrow> h < t | _ \<Rightarrow> False)
         then Inr (guarded R_conflicts_with ''beyond_evidence_horizon'' r)
         else if explicit_correction cc r \<and> rl_relation r = R_supersedes
         then Inr (guarded R_supersedes ''explicit_owner_correction'' r)
         else (case (candidate_time, read_stamp parse_iso target_stamp) of
             (Some t, Some u) \<Rightarrow>
               Inr (if u < t then guarded R_supersedes ''event_order_checked'' r
                 else if t < u then guarded R_historical_predecessor ''event_order_checked'' r
                 else guarded R_conflicts_with ''event_times_equal'' r)
           | _ \<Rightarrow> Inr (guarded R_conflicts_with ''event_order_unknown'' r))))"

section \<open>Owner policy\<close>

datatype policy = Allow | Require_owner_confirmation | Block_policy

definition owner_policy :: "claim_context \<Rightarrow> reading \<Rightarrow> comparison \<Rightarrow> relation_decision \<Rightarrow> policy \<times> string option" where
  "owner_policy cc rg cv r =
    (let category = policy_category cc rg cv; origin = or_str (cc_origin cc) ''conversation'';
         granted = cc_owner_confirmation_granted cc in
     if effective_scope cc rg cv = ''project'' then (Block_policy, Some ''project_identity_unresolved'')
     else if origin \<in> {''explicit_owner_request'', ''explicit_owner_correction''} then
       (if rg_claim_principal rg = Some ''owner'' then (Allow, Some ''explicit_owner_storage_intent'')
        else if granted then (Allow, Some ''owner_confirmed_external_claim'')
        else (Require_owner_confirmation, Some ''explicit_intent_external_claim''))
     else if origin \<notin> {''conversation'', ''owner_statement'', ''sweep''} then
       (if granted then (Allow, Some ''owner_confirmed_import'')
        else (Require_owner_confirmation, Some ''external_origin_requires_review''))
     else if casefold category \<in> set SENSITIVE_CATEGORIES then
       (if granted then (Allow, Some ''owner_confirmed'') else (Require_owner_confirmation, Some ''sensitive_category''))
     else (Allow, None))"

fun action_for :: "relation \<Rightarrow> semantic_decision" where
  "action_for R_new = D_create"
| "action_for R_duplicate_of = D_equivalent"
| "action_for R_narrows = D_merge"
| "action_for R_supersedes = D_supersede"
| "action_for R_historical_predecessor = D_historical_predecessor"
| "action_for R_grounds_legacy = D_ground_legacy"
| "action_for R_conflicts_with = D_conflict"

text \<open>The decision is validated when it is built.\<close>

definition publication_decision ::
  "claim_context \<Rightarrow> reading \<Rightarrow> comparison \<Rightarrow> relation_decision \<Rightarrow> policy \<Rightarrow> mem_error + reconciliation_decision" where
  "publication_decision cc rg cv r pol =
    ebind (case rl_replacement_content r of Some (x # xs) \<Rightarrow> Inr (x # xs) | _ \<Rightarrow> effective_content cc rg cv) (\<lambda>content.
    let durability = effective_durability cc rg cv;
        (action, target) = (if pol = Require_owner_confirmation then (D_await_owner, None)
          else if durability = ''short_term'' \<and> rl_relation r \<noteq> R_duplicate_of then (D_retain_short_term, None)
          else (action_for (rl_relation r), if rl_relation r = R_new then None else rl_target_memory_id r));
        d = \<lparr>rd_decision = action, rd_target_memory_id = target,
             rd_content = (if action \<in> {D_merge, D_supersede, D_historical_predecessor, D_ground_legacy, D_conflict} then Some content else None),
             rd_reason = (if action = D_conflict then rl_temporal_guard r else None),
             rd_event_valid_from = rg_event_valid_from rg, rd_event_valid_to = rg_event_valid_to rg,
             rd_memory_kind = Some (effective_kind cc rg cv), rd_scope = Some (effective_scope cc rg cv),
             rd_durability = Some durability\<rparr>
    in ebind (require (decision_valid d) (MValidationError ''decision'' ''value_error'')) (\<lambda>_. Inr d))"

end
