(* ===== verification/Memory_Fencing.thy ===== *)
theory Memory_Fencing
  imports Memory_Leases
begin

text \<open>
  Leases fence the memory pipeline: an attempt that is open belongs to the current lease of
  its candidate and carries its state version, a closed attempt stays closed, and a worker
  whose attempt is closed can change nothing. The retry budget bounds the attempts.
\<close>

section \<open>The lease invariant\<close>

definition holds_lease :: "attempt_row \<Rightarrow> candidate_row \<Rightarrow> bool" where
  "holds_lease a c = (cd_status c = Leased \<and> cd_lease_token c = Some (ap_lease_token a)
     \<and> cd_state_version c = ap_candidate_state_version a)"

definition leased_ok :: "candidate_row \<Rightarrow> bool" where
  "leased_ok c = ((cd_lease_token c \<noteq> None) = (cd_status c = Leased))"

definition open_attempts :: "'x mem_db_scheme \<Rightarrow> attempt_row set" where
  "open_attempts db = {a \<in> set (md_attempts db). ap_completed_at a = None}"

definition lease_inv :: "'x mem_db_scheme \<Rightarrow> bool" where
  "lease_inv db = (keyed cd_id (md_candidates db) \<and> keyed ap_id (md_attempts db)
     \<and> (\<forall>c \<in> set (md_candidates db). leased_ok c)
     \<and> inj_on ap_candidate_id (open_attempts db)
     \<and> (\<forall>a \<in> open_attempts db. \<exists>c. get_cand (ap_candidate_id a) db = Some c \<and> holds_lease a c))"

lemma lease_invD:
  assumes "lease_inv db"
  shows "keyed cd_id (md_candidates db)" "keyed ap_id (md_attempts db)"
    "c \<in> set (md_candidates db) \<Longrightarrow> leased_ok c" "inj_on ap_candidate_id (open_attempts db)"
    "a \<in> open_attempts db \<Longrightarrow> \<exists>c. get_cand (ap_candidate_id a) db = Some c \<and> holds_lease a c"
  using assms by (auto simp: lease_inv_def)

lemma get_cand_id: "get_cand i db = Some c \<Longrightarrow> cd_id c = i"
  by (auto simp: get_cand_def dest: tget_key)

lemma get_cand_in: "get_cand i db = Some c \<Longrightarrow> c \<in> set (md_candidates db)"
  by (auto simp: get_cand_def dest: tget_key)

lemma get_cand_tset:
  assumes "md_candidates db' = tset cd_id i g (md_candidates db)" "\<And>c. cd_id (g c) = cd_id c"
  shows "get_cand k db' = (if k = i then map_option g (get_cand k db) else get_cand k db)"
  using assms by (simp add: get_cand_def tget_tset)

section \<open>The order of progress\<close>

text \<open>A candidate row that changes gets a larger state version unless the publisher invalidates
  it, and no settled candidate changes; an attempt that is closed keeps its row, and an open one its identity.\<close>

definition advanced :: "candidate_row \<Rightarrow> candidate_row \<Rightarrow> bool" where
  "advanced c c' = (c' = c \<or> (cd_status c \<in> reconcilable \<and> (cd_state_version c < cd_state_version c'
     \<or> (cd_state_version c = cd_state_version c' \<and> cd_status c = Leased \<and> cd_status c' = Invalidated))))"

definition attempt_le :: "attempt_row \<Rightarrow> attempt_row \<Rightarrow> bool" where
  "attempt_le a b = (b = a \<or> (ap_completed_at a = None \<and> ap_id b = ap_id a
     \<and> ap_candidate_id b = ap_candidate_id a \<and> ap_lease_token b = ap_lease_token a))"

definition mem_le :: "'x mem_db_scheme \<Rightarrow> 'x mem_db_scheme \<Rightarrow> bool" where
  "mem_le db db' = ((\<forall>a \<in> set (md_attempts db). \<exists>b \<in> set (md_attempts db'). attempt_le a b)
     \<and> (\<forall>i c. get_cand i db = Some c \<longrightarrow> (\<exists>c'. get_cand i db' = Some c' \<and> advanced c c')))"

lemma advanced_trans: "advanced a b \<Longrightarrow> advanced b c \<Longrightarrow> advanced a c"
  by (auto simp: advanced_def reconcilable_def)

lemma attempt_le_trans: "attempt_le a b \<Longrightarrow> attempt_le b c \<Longrightarrow> attempt_le a c"
  by (auto simp: attempt_le_def)

lemma attempt_le_refl [simp]: "attempt_le a a"
  by (simp add: attempt_le_def)

lemma attempt_kept: "a \<in> A \<Longrightarrow> A \<subseteq> B \<Longrightarrow> \<exists>b \<in> B. attempt_le a b"
  using attempt_le_refl by blast

lemma mem_le_refl [simp]: "mem_le db db"
  unfolding mem_le_def advanced_def using attempt_le_refl by blast

lemma mem_le_trans: "mem_le a b \<Longrightarrow> mem_le b c \<Longrightarrow> mem_le a c"
  unfolding mem_le_def by (meson advanced_trans attempt_le_trans)

definition progress :: "'x mem_db_scheme \<Rightarrow> 'x mem_db_scheme \<Rightarrow> bool" where
  "progress db db' = (lease_inv db' \<and> mem_le db db')"

lemma progress_refl: "lease_inv db \<Longrightarrow> progress db db"
  by (simp add: progress_def)

lemma progress_trans: "progress a b \<Longrightarrow> progress b c \<Longrightarrow> progress a c"
  unfolding progress_def using mem_le_trans by blast

lemma progress_cong:
  assumes "progress db db1" "md_candidates db2 = md_candidates db1" "md_attempts db2 = md_attempts db1"
  shows "progress db db2"
  using assms by (simp add: progress_def lease_inv_def mem_le_def get_cand_def open_attempts_def)

text \<open>
  Every operation writes one candidate \<open>i\<close>. Progress then reduces to the row written and to
  the attempts of that candidate.
\<close>

lemma lease_change:
  assumes inv: "lease_inv db" and cands: "md_candidates db' = tset cd_id i g (md_candidates db)"
    and g: "\<And>c. cd_id (g c) = cd_id c" "\<And>c. get_cand i db = Some c \<Longrightarrow> leased_ok (g c) \<and> advanced c (g c)"
    and keys: "keyed ap_id (md_attempts db')"
    and closed: "\<And>a. a \<in> set (md_attempts db) \<Longrightarrow> \<exists>b \<in> set (md_attempts db'). attempt_le a b"
    and others: "\<And>a. a \<in> open_attempts db' \<Longrightarrow> ap_candidate_id a \<noteq> i \<Longrightarrow> a \<in> open_attempts db"
    and own: "\<And>a. a \<in> open_attempts db' \<Longrightarrow> ap_candidate_id a = i \<Longrightarrow>
        a = own_a \<and> (\<exists>c. get_cand i db = Some c \<and> holds_lease a (g c))"
  shows "progress db db'"
proof -
  note get = get_cand_tset [OF cands g(1)]
  have "leased_ok c'" if c': "c' \<in> set (md_candidates db')" for c'
  proof -
    obtain c where c: "c \<in> set (md_candidates db)" "c' = (if cd_id c = i then g c else c)"
      using c' unfolding cands set_tset by blast
    then show ?thesis
      using lease_invD(3) [OF inv, of c] g(2) [of c] keyed_tget [OF lease_invD(1) [OF inv] c(1)]
      by (auto simp: get_cand_def)
  qed
  moreover have "inj_on ap_candidate_id (open_attempts db')"
    using lease_invD(4) [OF inv] others own unfolding inj_on_def by metis
  moreover have "\<exists>c. get_cand (ap_candidate_id a) db' = Some c \<and> holds_lease a c" if "a \<in> open_attempts db'" for a
    using others [OF that] own [OF that] lease_invD(5) [OF inv, of a] by (cases "ap_candidate_id a = i") (auto simp: get)
  moreover have "mem_le db db'"
    unfolding mem_le_def using closed g(2) by (auto simp: get advanced_def)
  ultimately show ?thesis using keys lease_invD(1) [OF inv] g(1) by (simp add: progress_def lease_inv_def cands)
qed

text \<open>Rows of a query are current until their turn comes.\<close>

definition current :: "'x mem_db_scheme \<Rightarrow> candidate_row \<Rightarrow> bool" where
  "current db c = (get_cand (cd_id c) db = Some c)"

lemma current_rows: "keyed cd_id (md_candidates db) \<Longrightarrow> c \<in> set (md_candidates db) \<Longrightarrow> current db c"
  by (simp add: current_def get_cand_def keyed_tget)

lemma efold_rows:
  assumes "efold f rows s = Inr t" "distinct (map cd_id rows)" "\<forall>c \<in> set rows. current (D s) c" "I s"
    and step: "\<And>c s t. c \<in> set rows \<Longrightarrow> current (D s) c \<Longrightarrow> I s \<Longrightarrow> f c s = Inr t \<Longrightarrow>
        I t \<and> (\<forall>d. cd_id d \<noteq> cd_id c \<longrightarrow> current (D s) d \<longrightarrow> current (D t) d)"
  shows "I t"
  using assms(1-4) step
proof (induction rows arbitrary: s)
  case (Cons c rows)
  obtain u where u: "f c s = Inr u" "efold f rows u = Inr t" using Cons.prems(1) by auto
  have next': "I u" "\<forall>d. cd_id d \<noteq> cd_id c \<longrightarrow> current (D s) d \<longrightarrow> current (D u) d"
    using Cons.prems(5) [OF _ _ Cons.prems(4) u(1)] Cons.prems(3) by auto
  have rest: "\<forall>d \<in> set rows. current (D u) d"
  proof
    fix d assume d: "d \<in> set rows"
    then have "cd_id d \<noteq> cd_id c" using Cons.prems(2) by (metis distinct.simps(2) image_eqI list.simps(9) set_map)
    then show "current (D u) d" using next'(2) Cons.prems(3) d by simp
  qed
  have step': "I t' \<and> (\<forall>e. cd_id e \<noteq> cd_id d \<longrightarrow> current (D s') e \<longrightarrow> current (D t') e)"
    if "d \<in> set rows" "current (D s') d" "I s'" "f d s' = Inr t'" for d s' t'
    using Cons.prems(5) [of d s' t'] that by simp
  have "distinct (map cd_id rows)" using Cons.prems(2) by simp
  from Cons.IH [OF u(2) this rest next'(1) step'] show ?case .
qed simp

definition row_step :: "candidate_row \<Rightarrow> 'x mem_db_scheme \<Rightarrow> 'x mem_db_scheme \<Rightarrow> bool" where
  "row_step c db db' = (progress db db' \<and> (\<forall>d. cd_id d \<noteq> cd_id c \<longrightarrow> current db d \<longrightarrow> current db' d))"

lemma efold_progress:
  assumes "efold f rows s = Inr t" "distinct (map cd_id rows)" "\<forall>c \<in> set rows. current (D s) c" "lease_inv (D s)"
    and step: "\<And>c s t. c \<in> set rows \<Longrightarrow> current (D s) c \<Longrightarrow> lease_inv (D s) \<Longrightarrow> f c s = Inr t \<Longrightarrow> row_step c (D s) (D t)"
  shows "progress (D s) (D t)"
proof (rule efold_rows [where D = D and I = "\<lambda>u. progress (D s) (D u)", OF assms(1-3)])
  show "progress (D s) (D s)" using assms(4) by (rule progress_refl)
  fix c u v assume "c \<in> set rows" "current (D u) c" "progress (D s) (D u)" "f c u = Inr v"
  then show "progress (D s) (D v) \<and> (\<forall>d. cd_id d \<noteq> cd_id c \<longrightarrow> current (D u) d \<longrightarrow> current (D v) d)"
    using step [of c u v] progress_trans [of "D s" "D u" "D v"] by (auto simp: row_step_def progress_def)
qed

lemma mem_frames [simp]:
  "md_candidates (close_stale_attempts i now st db) = md_candidates db"
  "md_obligations (close_stale_attempts i now st db) = md_obligations db"
  "md_commands (close_stale_attempts i now st db) = md_commands db"
  "md_memories (close_stale_attempts i now st db) = md_memories db"
  "md_attempts (upd_cand i f db) = md_attempts db" "md_obligations (upd_cand i f db) = md_obligations db"
  "md_commands (upd_cand i f db) = md_commands db" "md_memories (upd_cand i f db) = md_memories db"
  "md_candidates (upd_attempt i h db) = md_candidates db" "md_obligations (upd_attempt i h db) = md_obligations db"
  "md_commands (upd_attempt i h db) = md_commands db" "md_memories (upd_attempt i h db) = md_memories db"
  "md_candidates (upd_conflict i k db) = md_candidates db" "md_attempts (upd_conflict i k db) = md_attempts db"
  "md_obligations (upd_conflict i k db) = md_obligations db" "md_commands (upd_conflict i k db) = md_commands db"
  "md_memories (upd_conflict i k db) = md_memories db"
  "md_candidates (upd_cand i f db) = tset cd_id i f (md_candidates db)"
  "md_attempts (upd_attempt i h db) = tset ap_id i h (md_attempts db)"
  by (simp_all add: close_stale_attempts_def upd_cand_def upd_attempt_def upd_conflict_def)

lemma write_and_settle_frames:
  assumes "write_and_settle now code f c db = Inr db'"
  shows "md_candidates db' = tset cd_id (cd_id c) f (md_candidates db)" "md_attempts db' = md_attempts db"
    "md_memories db' = md_memories db"
  using settle_frames [OF assms [unfolded write_and_settle_def]] by simp_all

lemma current_tset:
  assumes "md_candidates db' = tset cd_id i g (md_candidates db)" "\<And>c. cd_id (g c) = cd_id c"
    "cd_id d \<noteq> i" "current db d"
  shows "current db' d"
  using get_cand_tset [OF assms(1,2)] assms(3,4) by (simp add: current_def)

lemma closed_attempts:
  "a \<in> open_attempts (close_stale_attempts i now st db) \<longleftrightarrow> a \<in> open_attempts db \<and> ap_candidate_id a \<noteq> i"
  by (auto simp: open_attempts_def close_stale_attempts_def close_attempt_def image_iff split: if_splits)

lemma closed_keep:
  assumes "a \<in> set (md_attempts db)"
  shows "\<exists>b \<in> set (md_attempts (close_stale_attempts i now st db)). attempt_le a b"
proof
  let ?b = "if ap_candidate_id a = i \<and> ap_completed_at a = None then close_attempt now st a else a"
  show "?b \<in> set (md_attempts (close_stale_attempts i now st db))"
    using assms by (simp add: close_stale_attempts_def)
  show "attempt_le a ?b" by (simp add: attempt_le_def close_attempt_def)
qed

lemma closed_keyed [simp]: "keyed ap_id (md_attempts (close_stale_attempts i now st db)) = keyed ap_id (md_attempts db)"
proof -
  have "map ap_id (md_attempts (close_stale_attempts i now st db)) = map ap_id (md_attempts db)"
    by (simp add: close_stale_attempts_def close_attempt_def)
  then show ?thesis by (simp add: keyed_def)
qed

lemma open_attempts_cong: "md_attempts db' = md_attempts db \<Longrightarrow> open_attempts db' = open_attempts db"
  by (simp add: open_attempts_def)

text \<open>A candidate that is not leased has no open attempt.\<close>

lemma not_leased_no_open:
  assumes "lease_inv db" "get_cand i db = Some c" "cd_status c \<noteq> Leased" "a \<in> open_attempts db"
  shows "ap_candidate_id a \<noteq> i"
  using lease_invD(5) [OF assms(1,4)] assms(2,3) by (auto simp: holds_lease_def)

section \<open>The shapes of candidate writes\<close>

text \<open>Off the lease, closing the attempts, opening one, and by the owner of the attempt.\<close>

lemma write_unleased:
  assumes inv: "lease_inv db" and c: "get_cand i db = Some c" "cd_status c \<noteq> Leased"
    and f: "\<And>x. cd_id (f x) = cd_id x" "leased_ok (f c)" "advanced c (f c)"
    and db': "md_candidates db' = tset cd_id i f (md_candidates db)" "md_attempts db' = md_attempts db"
  shows "progress db db'"
proof (rule lease_change [OF inv db'(1) f(1)])
  show "a = undefined \<and> (\<exists>c. get_cand i db = Some c \<and> holds_lease a (f c))"
    if "a \<in> open_attempts db'" "ap_candidate_id a = i" for a
    using that not_leased_no_open [OF inv c, of a] open_attempts_cong [OF db'(2)] by simp
qed (use c f open_attempts_cong [OF db'(2)] lease_invD(2) [OF inv] in \<open>auto simp: db' intro: attempt_kept\<close>)

lemma write_closing:
  assumes inv: "lease_inv db" and c: "get_cand i db = Some c"
    and f: "\<And>x. cd_id (f x) = cd_id x" "leased_ok (f c)" "advanced c (f c)"
    and db': "md_candidates db' = tset cd_id i f (md_candidates db)"
      "md_attempts db' = md_attempts (close_stale_attempts i now st db)"
  shows "progress db db'"
proof (rule lease_change [OF inv db'(1) f(1)])
  note op = open_attempts_cong [OF db'(2)]
  show "a = undefined \<and> (\<exists>c. get_cand i db = Some c \<and> holds_lease a (f c))"
    if "a \<in> open_attempts db'" "ap_candidate_id a = i" for a
    using that by (simp add: op closed_attempts)
  show "a \<in> open_attempts db" if "a \<in> open_attempts db'" for a
    using that by (simp add: op closed_attempts)
  show "\<exists>b \<in> set (md_attempts db'). attempt_le a b" if "a \<in> set (md_attempts db)" for a
    using closed_keep [OF that] by (simp add: db')
qed (use c f lease_invD(2) [OF inv] in \<open>auto simp: db'\<close>)

lemma write_opening:
  assumes inv: "lease_inv db" and c: "get_cand i db = Some c"
    and f: "\<And>x. cd_id (f x) = cd_id x" "leased_ok (f c)" "advanced c (f c)"
    and a: "ap_candidate_id a = i" "ap_id a \<notin> ap_id ` set (md_attempts db1)" "holds_lease a (f c)"
    and db1: "db1 = db \<and> cd_status c \<noteq> Leased \<or> db1 = close_stale_attempts i now st db"
    and db': "md_candidates db' = tset cd_id i f (md_candidates db)" "md_attempts db' = tadd a (md_attempts db1)"
  shows "progress db db'"
proof -
  have old: "b \<in> open_attempts db \<and> ap_candidate_id b \<noteq> i" if "b \<in> open_attempts db1" for b
    using db1 that not_leased_no_open [OF inv c, of b] closed_attempts by blast
  have op: "b \<in> open_attempts db' \<Longrightarrow> b = a \<or> b \<in> open_attempts db1" for b
    by (auto simp: open_attempts_def db')
  have closed: "\<exists>b \<in> set (md_attempts db'). attempt_le x b" if "x \<in> set (md_attempts db)" for x
    using db1
  proof
    assume "db1 = db \<and> cd_status c \<noteq> Leased"
    then show ?thesis using attempt_kept [OF that] by (auto simp: db')
  qed (use closed_keep [OF that, of i now st] in \<open>auto simp: db'\<close>)
  have keys: "keyed ap_id (md_attempts db')"
    using db1 a(2) lease_invD(2) [OF inv] by (auto simp: db')
  show ?thesis
  proof (rule lease_change [OF inv db'(1) f(1) _ keys closed])
    show "b \<in> open_attempts db" if "b \<in> open_attempts db'" "ap_candidate_id b \<noteq> i" for b
      using op [OF that(1)] old a(1) that(2) by blast
    show "b = a \<and> (\<exists>c. get_cand i db = Some c \<and> holds_lease b (f c))"
      if "b \<in> open_attempts db'" "ap_candidate_id b = i" for b
      using op [OF that(1)] old [of b] a(3) c that(2) by blast
  qed (use c f in auto)
qed

lemma write_committing:
  assumes inv: "lease_inv db" and c: "get_cand i db = Some c" "\<And>x. cd_id (f x) = cd_id x" "leased_ok (f c)" "advanced c (f c)"
    and a: "a \<in> open_attempts db" "ap_candidate_id a = i" "\<And>x. ap_id (h x) = ap_id x" "\<And>x. ap_completed_at (h x) \<noteq> None"
      "\<And>x. ap_candidate_id (h x) = ap_candidate_id x" "\<And>x. ap_lease_token (h x) = ap_lease_token x"
    and db': "md_candidates db' = tset cd_id i f (md_candidates db)" "md_attempts db' = tset ap_id (ap_id a) h (md_attempts db)"
  shows "progress db db'"
proof -
  have op: "b \<in> open_attempts db \<and> b \<noteq> a" if b: "b \<in> open_attempts db'" for b
  proof -
    obtain x where x: "x \<in> set (md_attempts db)" "b = (if ap_id x = ap_id a then h x else x)"
      using b unfolding open_attempts_def db' set_tset by blast
    have "ap_id x \<noteq> ap_id a" using x(2) a(4) [of x] b by (auto simp: open_attempts_def)
    then show ?thesis using x b by (auto simp: open_attempts_def)
  qed
  have other: "ap_candidate_id b \<noteq> i" if "b \<in> open_attempts db'" for b
    using op [OF that] a(1,2) inj_onD [OF lease_invD(4) [OF inv], of b a] by metis
  have closed: "\<exists>b \<in> set (md_attempts db'). attempt_le x b" if x: "x \<in> set (md_attempts db)" for x
  proof
    let ?b = "if ap_id x = ap_id a then h x else x"
    show "?b \<in> set (md_attempts db')" using x unfolding db' set_tset by blast
    show "attempt_le x ?b"
      using keyed_inj [OF lease_invD(2) [OF inv] x, of a] a(1,3,5,6) by (auto simp: open_attempts_def attempt_le_def)
  qed
  have keys: "keyed ap_id (md_attempts db')" using lease_invD(2) [OF inv] a(3) by (simp add: db')
  show ?thesis
    by (rule lease_change [where own_a = a, OF inv db'(1) c(2) _ keys closed]) (use c op other in auto)
qed

section \<open>Claiming makes progress\<close>

lemma row_stepI:
  assumes "progress db db'" "md_candidates db' = tset cd_id (cd_id c) f (md_candidates db)" "\<And>x. cd_id (f x) = cd_id x"
  shows "row_step c db db'"
  using assms current_tset [OF assms(2,3)] by (simp add: row_step_def)

lemma row_fun_ids [simp]:
  "cd_id (expire_candidate now d c) = cd_id c" "cd_id (expire_conflicted now d c) = cd_id c"
  "cd_id (fail_exhausted now c) = cd_id c" "cd_id (invalidate_candidate now c) = cd_id c"
  "cd_id (lease_candidate cfg now tk c) = cd_id c" "cd_id (bumped c) = cd_id c" "cd_id (close_candidate st now d c) = cd_id c"
  by (simp_all add: expire_candidate_def expire_conflicted_def fail_exhausted_def invalidate_candidate_def
      lease_candidate_def bumped_def close_candidate_def)

lemma row_fun_leased:
  "leased_ok (expire_candidate now d c)" "leased_ok (fail_exhausted now c)" "leased_ok (invalidate_candidate now c)"
  "leased_ok (lease_candidate cfg now tk c)"
  "leased_ok c \<Longrightarrow> cd_status c \<noteq> Leased \<Longrightarrow> leased_ok (expire_conflicted now d c)"
  by (simp_all add: leased_ok_def expire_candidate_def expire_conflicted_def fail_exhausted_def invalidate_candidate_def
      lease_candidate_def)

lemma row_fun_advanced:
  assumes "cd_status c \<in> reconcilable"
  shows "advanced c (expire_candidate now d c)" "advanced c (expire_conflicted now d c)" "advanced c (fail_exhausted now c)"
    "advanced c (invalidate_candidate now c)" "advanced c (lease_candidate cfg now tk c)"
  using assms by (simp_all add: advanced_def expire_candidate_def expire_conflicted_def fail_exhausted_def
      invalidate_candidate_def lease_candidate_def)

lemma settle_unleased:
  assumes "lease_inv db" "md_candidates db0 = md_candidates db" "md_attempts db0 = md_attempts db"
    "get_cand i db0 = Some c" "cd_status c \<in> reconcilable - {Leased}"
    "\<And>x. cd_id (f x) = cd_id x" "leased_ok (f c)" "advanced c (f c)" "write_and_settle now code f c db0 = Inr db'"
  shows "progress db db'" "row_step c db db'"
proof -
  note fr = write_and_settle_frames [OF assms(9)]
  have c: "get_cand (cd_id c) db = Some c" using assms(2,4) get_cand_id [OF assms(4)] by (simp add: get_cand_def)
  show p: "progress db db'"
    by (rule write_unleased [OF assms(1) c _ assms(6-8)]) (use assms(2,3,5) fr in simp_all)
  show "row_step c db db'" by (rule row_stepI [OF p _ assms(6)]) (use fr assms(2) in simp)
qed

lemma settle_closing:
  assumes "lease_inv db" "current db c" "\<And>x. cd_id (f x) = cd_id x" "leased_ok (f c)" "advanced c (f c)"
    "write_and_settle now code f c (close_stale_attempts (cd_id c) now st db) = Inr db'"
  shows "row_step c db db'"
proof -
  note fr = write_and_settle_frames [OF assms(6)]
  have "progress db db'"
    by (rule write_closing [OF assms(1) assms(2) [unfolded current_def] assms(3-5)]) (use fr in simp_all)
  then show ?thesis by (rule row_stepI [OF _ _ assms(3)]) (use fr in simp)
qed

lemma expire_obligation_progress:
  assumes inv: "lease_inv db" and r: "expire_obligation now ob db = Inr db'"
  shows "progress db db'"
proof -
  have same: "progress db d" if "md_candidates d = md_candidates db" "md_attempts d = md_attempts db" for d :: "'a mem_db_scheme"
    using progress_cong [OF progress_refl [OF inv] that] .
  have exp: "progress db d'" if "md_candidates d = md_candidates db" "md_attempts d = md_attempts db" "get_cand i d = Some c"
    "cd_status c = Awaiting_owner" "write_and_settle now code (expire_candidate now j) c d = Inr d'" for d d' :: "'a mem_db_scheme" and i c code j
    by (rule settle_unleased(1) [OF inv that(1-3) _ _ _ _ that(5)])
       (use that(4) in \<open>auto simp: reconcilable_def row_fun_leased intro: row_fun_advanced\<close>)
  have con: "progress db d'" if "md_candidates d = md_candidates db" "md_attempts d = md_attempts db" "get_cand i d = Some c"
    "cd_status c = Awaiting_owner" "write_and_settle now code (expire_conflicted now j) c d = Inr d'" for d d' :: "'a mem_db_scheme" and i c code j
    by (rule settle_unleased(1) [OF inv that(1-3) _ _ _ _ that(5)])
       (use that(1,4) lease_invD(3) [OF inv, of c] get_cand_in [OF that(3)]
        in \<open>auto simp: reconcilable_def intro: row_fun_advanced row_fun_leased\<close>)
  show ?thesis using r unfolding expire_obligation_def Let_def
    by (auto simp: same split: option.splits if_splits dest: exp [rotated 4] con [rotated 4])
qed

lemma expire_due_progress:
  assumes "lease_inv db" "expire_due_obligations now db = Inr (n, db')"
  shows "progress db db'"
proof -
  have "efold (expire_obligation now) (filter (\<lambda>ob. ob_status ob = Open \<and> due now (ob_expires_at ob)) (md_obligations db)) db = Inr db'"
    using assms(2) by (auto simp: expire_due_obligations_def Let_def)
  then show ?thesis
  proof (rule efold_inv)
    show "progress db db" using assms(1) by (rule progress_refl)
    fix ob d d' assume "progress db d" "expire_obligation now ob d = Inr d'"
    then show "progress db d'"
      using expire_obligation_progress progress_trans unfolding progress_def by blast
  qed
qed

text \<open>The two results of claiming one row.\<close>

lemma claim_row_cases:
  assumes "claim_row cfg now fresh c (claimed, db) = Inr (claimed', db')"
  obtains (dead) "\<not> evidence_live c db" "claimed' = claimed"
      "write_and_settle now ''evidence_unavailable'' (invalidate_candidate now) c
        (close_stale_attempts (cd_id c) now ''evidence_unavailable'' db) = Inr db'"
  | (lease) db1 a where "evidence_live c db"
      "db1 = (if cd_status c = Leased then close_stale_attempts (cd_id c) now ''lease_expired'' db else db)"
      "a = new_attempt (fst (fresh (cd_id c))) (snd (fresh (cd_id c))) (next_attempt_number (cd_id c) db1)
         (lease_candidate cfg now (snd (fresh (cd_id c))) c)"
      "ap_id a \<notin> ap_id ` set (md_attempts db1)"
      "claimed' = claimed @ [\<lparr>cl_candidate_id = cd_id c, cl_attempt_id = ap_id a, cl_lease_token = ap_lease_token a,
         cl_attempt_number = ap_number a\<rparr>]"
      "db' = upd_cand (cd_id c) (lease_candidate cfg now (ap_lease_token a)) (db1\<lparr>md_attempts := tadd a (md_attempts db1)\<rparr>)"
proof (cases "evidence_live c db")
  case True
  then show ?thesis using assms lease
    by (auto simp: claim_row_def Let_def new_attempt_def split_beta split: if_splits)
next
  case False
  then show ?thesis using assms dead by (auto simp: claim_row_def)
qed

lemma new_attempt_sel [simp]:
  "ap_id (new_attempt aid tk n c) = aid" "ap_candidate_id (new_attempt aid tk n c) = cd_id c"
  "ap_lease_token (new_attempt aid tk n c) = tk" "ap_completed_at (new_attempt aid tk n c) = None"
  "ap_number (new_attempt aid tk n c) = n" "ap_candidate_state_version (new_attempt aid tk n c) = cd_state_version c"
  by (simp_all add: new_attempt_def)

lemma lease_candidate_sel [simp]:
  "cd_status (lease_candidate cfg now tk c) = Leased" "cd_lease_token (lease_candidate cfg now tk c) = Some tk"
  "cd_leased_until (lease_candidate cfg now tk c) = Some (now + seconds (lc_lease_seconds cfg))"
  "cd_attempt_count (lease_candidate cfg now tk c) = cd_attempt_count c + 1"
  "cd_invalidated_at (lease_candidate cfg now tk c) = cd_invalidated_at c"
  by (simp_all add: lease_candidate_def)

lemma claimable_open: "claimable cfg now c \<Longrightarrow> cd_status c \<in> reconcilable"
  by (auto simp: claimable_def eligible_def lease_lapsed_def reconcilable_def)

lemma claim_row_step:
  assumes inv: "lease_inv db" and c: "current db c" "claimable cfg now c"
    and r: "claim_row cfg now fresh c (claimed, db) = Inr (claimed', db')"
  shows "row_step c db db'"
  using r
proof (cases rule: claim_row_cases)
  case dead
  show ?thesis
    by (rule settle_closing [OF inv c(1) _ _ _ dead(3)])
       (simp_all add: row_fun_leased row_fun_advanced claimable_open [OF c(2)])
next
  case (lease db1 a)
  have db': "md_candidates db' = tset cd_id (cd_id c) (lease_candidate cfg now (ap_lease_token a)) (md_candidates db)"
    "md_attempts db' = tadd a (md_attempts db1)" by (simp_all add: lease(2,6) upd_cand_def)
  have "progress db db'"
    by (rule write_opening [OF inv c(1) [unfolded current_def] _ _ _ _ lease(4) _ _ db', of now "''lease_expired''"])
       (simp_all add: lease(2,3) row_fun_leased row_fun_advanced claimable_open [OF c(2)] holds_lease_def)
  then show ?thesis by (rule row_stepI [OF _ db'(1)]) simp
qed

lemma queried_rows:
  assumes "lease_inv db" "set rows \<subseteq> set (md_candidates db)"
  shows "\<forall>c \<in> set rows. current db c"
  using current_rows [OF lease_invD(1) [OF assms(1)]] assms(2) by blast

lemma keyed_filter: "keyed key rows \<Longrightarrow> distinct (map key (filter P rows))"
  by (simp add: keyed_def distinct_map_filter)

lemma distinct_page:
  assumes "keyed cd_id rows"
  shows "distinct (map cd_id (take n (sort_key k (filter P rows))))"
proof -
  have "distinct (map cd_id (sort_key k (filter P rows)))"
    using keyed_filter [OF assms, of P] by (simp add: distinct_map)
  then show ?thesis by (simp add: take_map [symmetric])
qed

definition page :: "lease_config \<Rightarrow> time \<Rightarrow> int \<Rightarrow> 'x mem_db_scheme \<Rightarrow> candidate_row list" where
  "page cfg now limit db = take (nat (clamp 1 32 limit))
     (sort_key (\<lambda>c. (cd_created_at c, cd_id c)) (filter (claimable cfg now) (md_candidates db)))"

lemma page_set: "set (page cfg now limit db) \<subseteq> {c \<in> set (md_candidates db). claimable cfg now c}"
  unfolding page_def by (rule order_trans [OF set_take_subset]) auto

lemma page_rows:
  assumes "lease_inv db"
  shows "distinct (map cd_id (page cfg now limit db))" "\<forall>c \<in> set (page cfg now limit db). current db c"
proof -
  show "distinct (map cd_id (page cfg now limit db))"
    unfolding page_def by (rule distinct_page [OF lease_invD(1) [OF assms]])
  show "\<forall>c \<in> set (page cfg now limit db). current db c"
    by (rule queried_rows [OF assms]) (use page_set [of cfg now limit db] in blast)
qed

text \<open>The three sweeps before the page of claimable rows is taken, and the page.\<close>

lemma claim_batch_Inr:
  "claim_batch cfg now fresh limit db = Inr (claimed, n, db') \<longleftrightarrow>
   (\<exists>m db1 db2 db3. expire_due_obligations now db = Inr (m, db1)
     \<and> efold (write_and_settle now ''retention_expired'' (expire_candidate now [(''decision'', JStr ''expired'')]))
         (filter (retained_expired now) (md_candidates db1)) db1 = Inr db2
     \<and> efold (\<lambda>c d. write_and_settle now ''attempt_limit'' (fail_exhausted now) c
         (close_stale_attempts (cd_id c) now ''attempt_limit'' d)) (filter (exhausted cfg now) (md_candidates db2)) db2 = Inr db3
     \<and> efold (claim_row cfg now fresh) (page cfg now limit db3) ([], db3) = Inr (claimed, db')
     \<and> db_ok db' \<and> n = length (filter (retained_expired now) (md_candidates db1)) + m)"
  unfolding claim_batch_def page_def flush_def Let_def by (auto split: if_splits)

lemma retained_sweep:
  assumes inv: "lease_inv db"
    and r: "efold (write_and_settle now code (expire_candidate now j)) (filter (retained_expired now) (md_candidates db)) db = Inr db'"
  shows "progress db db'"
proof (rule efold_progress [where D = "\<lambda>d. d", OF r keyed_filter [OF lease_invD(1) [OF inv]] _ inv])
  show "\<forall>c \<in> set (filter (retained_expired now) (md_candidates db)). current db c"
    by (rule queried_rows [OF inv]) auto
  fix c d d' assume "c \<in> set (filter (retained_expired now) (md_candidates db))" "current d c" "lease_inv d"
    and w: "write_and_settle now code (expire_candidate now j) c d = Inr d'"
  then show "row_step c d d'"
    by (intro settle_unleased(2) [OF _ refl refl _ _ _ _ _ w])
       (auto simp: retained_expired_def current_def reconcilable_def row_fun_leased intro: row_fun_advanced)
qed

lemma exhausted_sweep:
  assumes inv: "lease_inv db"
    and r: "efold (\<lambda>c d. write_and_settle now code (fail_exhausted now) c (close_stale_attempts (cd_id c) now st d))
      (filter (exhausted cfg now) (md_candidates db)) db = Inr db'"
  shows "progress db db'"
proof (rule efold_progress [where D = "\<lambda>d. d", OF r keyed_filter [OF lease_invD(1) [OF inv]] _ inv])
  show "\<forall>c \<in> set (filter (exhausted cfg now) (md_candidates db)). current db c"
    by (rule queried_rows [OF inv]) auto
  fix c d d' assume "c \<in> set (filter (exhausted cfg now) (md_candidates db))" "current d c" "lease_inv d"
    and w: "write_and_settle now code (fail_exhausted now) c (close_stale_attempts (cd_id c) now st d) = Inr d'"
  then show "row_step c d d'"
    by (intro settle_closing [OF _ _ _ _ _ w])
       (auto simp: exhausted_def lease_lapsed_def reconcilable_def row_fun_leased intro: row_fun_advanced)
qed

lemma page_progress:
  assumes inv: "lease_inv db" and r: "efold (claim_row cfg now fresh) (page cfg now limit db) ([], db) = Inr (claimed, db')"
  shows "progress db db'"
proof -
  have "progress (snd ([] :: candidate_lease list, db)) (snd (claimed, db'))"
  proof (rule efold_progress [where D = snd, OF r page_rows(1) [OF inv]])
    fix c s t assume c: "c \<in> set (page cfg now limit db)" "current (snd s) c" "lease_inv (snd s)" "claim_row cfg now fresh c s = Inr t"
    then show "row_step c (snd s) (snd t)"
      using claim_row_step [OF c(3,2), of cfg now fresh "fst s" "fst t" "snd t"] page_set [of cfg now limit db] by auto
  qed (use inv page_rows(2) [OF inv] in simp_all)
  then show ?thesis by simp
qed

lemma claim_batch_progress:
  assumes "lease_inv db" "claim_batch cfg now fresh limit db = Inr (claimed, n, db')"
  shows "progress db db'"
proof -
  obtain m db1 db2 db3 where steps: "expire_due_obligations now db = Inr (m, db1)"
    "efold (write_and_settle now ''retention_expired'' (expire_candidate now [(''decision'', JStr ''expired'')]))
       (filter (retained_expired now) (md_candidates db1)) db1 = Inr db2"
    "efold (\<lambda>c d. write_and_settle now ''attempt_limit'' (fail_exhausted now) c
       (close_stale_attempts (cd_id c) now ''attempt_limit'' d)) (filter (exhausted cfg now) (md_candidates db2)) db2 = Inr db3"
    "efold (claim_row cfg now fresh) (page cfg now limit db3) ([], db3) = Inr (claimed, db')"
    using assms(2) unfolding claim_batch_Inr by blast
  have p1: "progress db db1" by (rule expire_due_progress [OF assms(1) steps(1)])
  then have p2: "progress db1 db2" by (intro retained_sweep [OF _ steps(2)]) (simp add: progress_def)
  then have p3: "progress db2 db3" by (intro exhausted_sweep [OF _ steps(3)]) (simp add: progress_def)
  then have "progress db3 db'" by (intro page_progress [OF _ steps(4)]) (simp add: progress_def)
  with p1 p2 p3 show ?thesis using progress_trans by blast
qed

section \<open>Handing back makes progress\<close>

text \<open>A lease that \<open>claim_batch\<close> gave out names its attempt row; no step takes that away.\<close>

definition lease_of :: "candidate_lease \<Rightarrow> attempt_row \<Rightarrow> bool" where
  "lease_of cl a = (ap_id a = cl_attempt_id cl \<and> ap_candidate_id a = cl_candidate_id cl \<and> ap_lease_token a = cl_lease_token cl)"

definition issued :: "candidate_lease \<Rightarrow> 'x mem_db_scheme \<Rightarrow> bool" where
  "issued cl db = (\<exists>a \<in> set (md_attempts db). lease_of cl a)"

lemma issued_mono: "mem_le db db' \<Longrightarrow> issued cl db \<Longrightarrow> issued cl db'"
  unfolding issued_def mem_le_def attempt_le_def lease_of_def by metis

lemma owned_Some:
  "owned_attempt cl db = Some (c, a) \<longleftrightarrow> get_cand (cl_candidate_id cl) db = Some c
     \<and> tget ap_id (cl_attempt_id cl) (md_attempts db) = Some a \<and> ap_completed_at a = None \<and> cd_status c = Leased
     \<and> cd_lease_token c = Some (cl_lease_token cl) \<and> cd_state_version c = ap_candidate_state_version a"
  by (auto simp: owned_attempt_def split: option.splits)

lemma live_owned: "locked_live_claim now cl db = Inr (c, a) \<Longrightarrow> owned_attempt cl db = Some (c, a)"
  by (auto simp: locked_live_claim_def owned_Some live_claim_def split: option.splits if_splits)

lemma owned_open:
  assumes "lease_inv db" "issued cl db" "owned_attempt cl db = Some (c, a)"
  shows "a \<in> open_attempts db" "ap_candidate_id a = cd_id c" "get_cand (cd_id c) db = Some c" "cd_status c = Leased"
proof -
  obtain b where b: "b \<in> set (md_attempts db)" "lease_of cl b" using assms(2) by (auto simp: issued_def)
  have own: "get_cand (cl_candidate_id cl) db = Some c" "tget ap_id (cl_attempt_id cl) (md_attempts db) = Some a"
    "ap_completed_at a = None" "cd_status c = Leased" using assms(3) by (simp_all add: owned_Some)
  have a: "a \<in> set (md_attempts db)" "ap_id a = cl_attempt_id cl" using tget_key [OF own(2)] by simp_all
  have "a = b" using keyed_inj [OF lease_invD(2) [OF assms(1)] a(1) b(1)] a(2) b(2) by (simp add: lease_of_def)
  then show "a \<in> open_attempts db" "ap_candidate_id a = cd_id c" "get_cand (cd_id c) db = Some c" "cd_status c = Leased"
    using a b own get_cand_id [OF own(1)] by (simp_all add: open_attempts_def lease_of_def)
qed

lemma owned_version: "owned_attempt cl db = Some (c, a) \<Longrightarrow> cd_state_version c = ap_candidate_state_version a"
  by (simp add: owned_Some)

text \<open>The owner's write: the row function \<open>f\<close> runs after the version was advanced.\<close>

definition versioned :: "(candidate_row \<Rightarrow> candidate_row) \<Rightarrow> bool" where
  "versioned f = (\<forall>x. cd_id (f x) = cd_id x \<and> cd_state_version (f x) = cd_state_version x)"

definition closes :: "(attempt_row \<Rightarrow> attempt_row) \<Rightarrow> bool" where
  "closes h = (\<forall>x. ap_id (h x) = ap_id x \<and> ap_completed_at (h x) \<noteq> None
     \<and> ap_candidate_id (h x) = ap_candidate_id x \<and> ap_lease_token (h x) = ap_lease_token x)"

lemma advance_Inr:
  "advance_candidate_state c a db = Inr db1 \<longleftrightarrow> cd_state_version c = ap_candidate_state_version a
   \<and> db1 = upd_attempt (ap_id a) (\<lambda>x. x\<lparr>ap_candidate_state_version := cd_state_version c + 1\<rparr>)
      (upd_cand (cd_id c) (\<lambda>x. x\<lparr>cd_state_version := cd_state_version c + 1\<rparr>) db)"
  by (auto simp: advance_candidate_state_def)

text \<open>A claim is closed when its attempt row is completed: that worker has nothing left to do.\<close>

definition claim_closed :: "candidate_lease \<Rightarrow> 'x mem_db_scheme \<Rightarrow> bool" where
  "claim_closed cl db = (case tget ap_id (cl_attempt_id cl) (md_attempts db) of None \<Rightarrow> False | Some a \<Rightarrow> ap_completed_at a \<noteq> None)"

definition handed_back :: "candidate_lease \<Rightarrow> 'x mem_db_scheme \<Rightarrow> 'x mem_db_scheme \<Rightarrow> bool" where
  "handed_back cl db db' = (progress db db' \<and> claim_closed cl db')"

lemma handed_back_cong:
  assumes "handed_back cl db db1" "md_candidates db2 = md_candidates db1" "md_attempts db2 = md_attempts db1"
  shows "handed_back cl db db2"
  using assms progress_cong [of db db1 db2] by (simp add: handed_back_def claim_closed_def)

lemma owned_iff_open:
  assumes inv: "lease_inv db" "issued cl db" and a: "tget ap_id (cl_attempt_id cl) (md_attempts db) = Some a" "ap_completed_at a = None"
  obtains c where "owned_attempt cl db = Some (c, a)" "ap_lease_token a = cl_lease_token cl"
proof -
  obtain b where b: "b \<in> set (md_attempts db)" "lease_of cl b" using inv(2) by (auto simp: issued_def)
  have "a = b" using keyed_inj [OF lease_invD(2) [OF inv(1)] _ b(1)] tget_key [OF a(1)] b(2) by (simp add: lease_of_def)
  then have "lease_of cl a" "a \<in> open_attempts db" using b a(2) by (simp_all add: open_attempts_def)
  then show ?thesis
    using that a lease_invD(5) [OF inv(1), of a] by (auto simp: owned_Some holds_lease_def lease_of_def)
qed

lemma issued_attempt:
  assumes "lease_inv db" "issued cl db"
  obtains a where "tget ap_id (cl_attempt_id cl) (md_attempts db) = Some a" "lease_of cl a"
  using assms keyed_tget [OF lease_invD(2) [OF assms(1)]] by (force simp: issued_def lease_of_def)

lemma unowned_closed:
  assumes "lease_inv db" "issued cl db" "owned_attempt cl db = None"
  shows "claim_closed cl db"
proof -
  obtain a where a: "tget ap_id (cl_attempt_id cl) (md_attempts db) = Some a" using issued_attempt [OF assms(1,2)] .
  have "ap_completed_at a \<noteq> None" using owned_iff_open [OF assms(1,2) a] assms(3) by auto
  with a show ?thesis by (simp add: claim_closed_def)
qed

lemma closed_unowned: "claim_closed cl db \<Longrightarrow> owned_attempt cl db = None"
  by (auto simp: claim_closed_def owned_attempt_def split: option.splits)

lemma closed_mono:
  assumes "lease_inv db" "progress db db'" "claim_closed cl db"
  shows "claim_closed cl db'"
proof -
  obtain a where a: "tget ap_id (cl_attempt_id cl) (md_attempts db) = Some a" "ap_completed_at a \<noteq> None"
    using assms(3) by (auto simp: claim_closed_def split: option.splits)
  then have "a \<in> set (md_attempts db')" using assms(2) tget_key [OF a(1)] by (auto simp: progress_def mem_le_def attempt_le_def)
  then have "tget ap_id (cl_attempt_id cl) (md_attempts db') = Some a"
    using keyed_tget [of ap_id _ a] tget_key [OF a(1)] assms(2) lease_invD(2) by (auto simp: progress_def)
  with a show ?thesis by (simp add: claim_closed_def)
qed

lemma closes_claim:
  assumes "owned_attempt cl db = Some (c, a)" "closes h" "md_attempts db' = tset ap_id (ap_id a) (\<lambda>x. h (k x)) (md_attempts db)"
    "\<And>x. ap_id (k x) = ap_id x"
  shows "claim_closed cl db'"
proof -
  have "tget ap_id (cl_attempt_id cl) (md_attempts db) = Some a" using assms(1) by (simp add: owned_Some)
  then show ?thesis using tget_key assms by (fastforce simp: claim_closed_def closes_def tget_tset)
qed

lemma owner_write:
  assumes own: "lease_inv db" "issued cl db" "owned_attempt cl db = Some (c, a)"
    and adv: "advance_candidate_state c a db = Inr db1"
    and f: "versioned f" "leased_ok (f (bumped c))" and h: "closes h"
    and db': "md_candidates db' = tset cd_id (cd_id c) f (md_candidates db1)"
      "md_attempts db' = tset ap_id (ap_id a) h (md_attempts db1)"
  shows "handed_back cl db db'"
proof -
  note o = owned_open [OF own]
  let ?f = "\<lambda>x. f (x\<lparr>cd_state_version := cd_state_version c + 1\<rparr>)"
  let ?h = "\<lambda>x. h (x\<lparr>ap_candidate_state_version := cd_state_version c + 1\<rparr>)"
  have cands: "md_candidates db' = tset cd_id (cd_id c) ?f (md_candidates db)"
    using db'(1) adv by (simp add: advance_Inr tset_tset)
  have atts: "md_attempts db' = tset ap_id (ap_id a) ?h (md_attempts db)"
    using db'(2) adv by (simp add: advance_Inr tset_tset)
  have adv': "advanced c (?f c)" using f(1) o(4) by (simp add: advanced_def versioned_def reconcilable_def)
  have lok: "leased_ok (?f c)" using f(2) by (simp add: bumped_def)
  have "progress db db'"
    by (rule write_committing [OF own(1) o(3) _ lok adv' o(1,2) _ _ _ _ cands atts])
       (use f(1) h in \<open>simp_all add: versioned_def closes_def\<close>)
  moreover have "claim_closed cl db'" by (rule closes_claim [OF own(3) h atts]) simp
  ultimately show ?thesis by (simp add: handed_back_def)
qed

lemma unowned_back: "lease_inv db \<Longrightarrow> issued cl db \<Longrightarrow> owned_attempt cl db = None \<Longrightarrow> handed_back cl db db"
  by (simp add: handed_back_def progress_refl unowned_closed)

lemma owner_settle:
  assumes own: "lease_inv db" "issued cl db" "owned_attempt cl db = Some (c, a)"
    and adv: "advance_candidate_state c a db = Inr db1"
    and f: "versioned f" "leased_ok (f (bumped c))" and h: "closes h"
    and w: "write_and_settle now code f (bumped c) (upd_attempt (ap_id a) h db1) = Inr db'"
  shows "handed_back cl db db'"
  by (rule owner_write [OF own adv f h]) (use write_and_settle_frames [OF w] in simp_all)

lemma flush_Inr [simp]: "flush db = Inr db' \<longleftrightarrow> db' = db \<and> db_ok db"
  by (auto simp: flush_def)

lemma commit_closes [simp]: "closes (commit_attempt st now r)" "closes (\<lambda>x. (commit_attempt st now r x)\<lparr>ap_semantic_decision := sd\<rparr>)"
  "closes (\<lambda>x. (commit_attempt st now r x)\<lparr>ap_error := e\<rparr>)"
  by (simp_all add: closes_def commit_attempt_def)

lemma close_versioned [simp]: "versioned (close_candidate st now d)"
  by (simp add: versioned_def close_candidate_def)

lemma close_leased [simp]: "leased_ok (close_candidate st now d c) = (st \<noteq> Leased)"
  by (simp add: leased_ok_def close_candidate_def)

lemma finish_epistemic_rejection_back:
  assumes "lease_inv db" "issued cl db" "finish_epistemic_rejection now cl code db = Inr db'"
  shows "handed_back cl db db'"
proof -
  obtain c a db1 where s: "locked_live_claim now cl db = Inr (c, a)" "advance_candidate_state c a db = Inr db1"
    "write_and_settle now code (close_candidate Discarded now [(''decision'', JStr ''discard''), (''code'', JStr code)]) (bumped c)
        (upd_attempt (ap_id a) (\<lambda>x. (commit_attempt ''committed'' now [(''result'', JStr ''discarded''), (''code'', JStr code)] x)
           \<lparr>ap_semantic_decision := Some ''discard''\<rparr>) db1) = Inr db'"
    using assms(3) by (auto simp: finish_epistemic_rejection_def)
  show ?thesis by (rule owner_settle [OF assms(1,2) live_owned [OF s(1)] s(2) _ _ _ s(3)]) simp_all
qed

lemma finish_policy_block_back:
  assumes "lease_inv db" "issued cl db" "finish_policy_block now cl code db = Inr db'"
  shows "handed_back cl db db'"
proof -
  obtain c a db1 where s: "locked_live_claim now cl db = Inr (c, a)" "advance_candidate_state c a db = Inr db1"
    "write_and_settle now code (close_candidate Blocked now [(''decision'', JStr ''blocked''), (''code'', JStr code)]) (bumped c)
        (upd_attempt (ap_id a) (commit_attempt ''committed'' now [(''result'', JStr ''blocked''), (''code'', JStr code)]) db1) = Inr db'"
    using assms(3) by (auto simp: finish_policy_block_def)
  show ?thesis by (rule owner_settle [OF assms(1,2) live_owned [OF s(1)] s(2) _ _ _ s(3)]) simp_all
qed

lemma requeue_back:
  assumes "lease_inv db" "issued cl db" "requeue_after_version_conflict now cl mrev db = Inr db'"
  shows "handed_back cl db db'"
proof (cases "owned_attempt cl db")
  case None
  then show ?thesis using assms by (simp add: requeue_after_version_conflict_def unowned_back)
next
  case (Some ca)
  obtain c a where ca: "ca = (c, a)" by force
  obtain db1 where s: "advance_candidate_state c a db = Inr db1"
    "db' = upd_cand (cd_id c) (\<lambda>x. x\<lparr>cd_status := Pending, cd_lease_token := None, cd_leased_until := None,
             cd_decision := [(''decision'', JStr ''reconcile_retry_needed''), (''code'', JStr ''version_conflict'')]\<rparr>)
           (upd_attempt (ap_id a) (commit_attempt ''version_conflict'' now
             [(''result'', JStr ''version_conflict''), (''expected_revision'', JInt mrev)]) db1)"
    using assms(3) by (auto simp: requeue_after_version_conflict_def Some ca)
  show ?thesis
    by (rule owner_write [OF assms(1,2) Some [unfolded ca] s(1), where h = "commit_attempt ''version_conflict'' now
             [(''result'', JStr ''version_conflict''), (''expected_revision'', JInt mrev)]"])
       (auto simp: s(2) versioned_def leased_ok_def)
qed

lemma requeue_or_fail_back:
  assumes own: "lease_inv db" "issued cl db" "owned_attempt cl db = Some (c, a)"
    and adv: "advance_candidate_state c a db = Inr db1" and h: "closes h"
    and r: "requeue_or_fail cfg now code (bumped c) (upd_attempt (ap_id a) h db1) = Inr db'"
  shows "handed_back cl db db'"
proof (cases "lc_max_attempts cfg \<le> cd_attempt_count (bumped c)")
  case True
  show ?thesis
    by (rule owner_settle [OF own adv _ _ h]) (use r True in \<open>simp_all add: requeue_or_fail_def Let_def\<close>)
next
  case False
  then have db': "db' = upd_cand (cd_id c) (\<lambda>x. x\<lparr>cd_status := Pending, cd_lease_token := None, cd_leased_until := None\<rparr>)
      (upd_attempt (ap_id a) h db1)" using r by (simp add: requeue_or_fail_def Let_def)
  show ?thesis by (rule owner_write [OF own adv _ _ h]) (auto simp: db' versioned_def leased_ok_def)
qed

lemma release_back:
  assumes "lease_inv db" "issued cl db"
  shows "release_after_conflict cfg now cl code db = Inr db' \<Longrightarrow> handed_back cl db db'"
    "release_failed cfg now cl code db = Inr db' \<Longrightarrow> handed_back cl db db'"
proof -
  note pr = requeue_or_fail_back [OF assms]
  show "handed_back cl db db'" if "release_after_conflict cfg now cl code db = Inr db'"
    using that assms
    by (auto simp: release_after_conflict_def split: option.splits intro: unowned_back pr [OF _ _ commit_closes(1)])
  show "handed_back cl db db'" if "release_failed cfg now cl code db = Inr db'"
    using that assms
    by (auto simp: release_failed_def split: option.splits intro: unowned_back pr [OF _ _ commit_closes(3)])
qed

end
