(* ===== verification/Memory_Publication.thy ===== *)
theory Memory_Publication
  imports Memory_Fencing Memory_Publisher
begin

text \<open>
  What a publication may do. On the pipeline: it writes the candidate it holds a lease on and
  closes its attempt. On durable memory: it changes nothing unless it reports a mutation, it
  keeps every memory or retires it along the allowed moves, and what it adds is derived,
  verified, free of owner restrictions and cites the evidence of its candidate.
\<close>

section \<open>Frames\<close>

lemma flush_keeps: "flush db = Inr db' \<Longrightarrow> db' = db"
  by (simp add: flush_def split: if_splits)

lemma add_obligation_Inr:
  "add_obligation ob db = Inr db' \<longleftrightarrow> ob_id ob \<notin> ob_id ` set (md_obligations db)
   \<and> db' = db\<lparr>md_obligations := tadd ob (md_obligations db)\<rparr> \<and> db_ok db'"
  by (auto simp: add_obligation_def)

lemma add_conflict_Inr:
  "add_conflict cf db = Inr db' \<longleftrightarrow> cf_id cf \<notin> cf_id ` set (md_conflicts db)
   \<and> db' = db\<lparr>md_conflicts := tadd cf (md_conflicts db)\<rparr> \<and> db_ok db'"
  by (auto simp: add_conflict_def)

lemma add_memory_Inr: "add_memory m db = Inr db' \<longleftrightarrow> db' = db\<lparr>md_memories := tadd m (md_memories db)\<rparr> \<and> db_ok db'"
  by (auto simp: add_memory_def)

definition pipeline_same :: "'x mem_db_scheme \<Rightarrow> 'x mem_db_scheme \<Rightarrow> bool" where
  "pipeline_same db db' = (md_candidates db' = md_candidates db \<and> md_attempts db' = md_attempts db)"

lemma lineage_frames [simp]:
  "md_candidates (snd (add_candidate_lineage i c db)) = md_candidates db"
  "md_attempts (snd (add_candidate_lineage i c db)) = md_attempts db"
  "md_memories (snd (add_candidate_lineage i c db)) = md_memories db"
  "md_obligations (snd (add_candidate_lineage i c db)) = md_obligations db"
  "md_commands (snd (add_candidate_lineage i c db)) = md_commands db"
  "md_evidence (snd (add_candidate_lineage i c db)) = md_evidence db"
  by (simp_all add: add_candidate_lineage_def Let_def)

lemma publisher_frames [simp]:
  "md_candidates (upd_memory i f db) = md_candidates db" "md_attempts (upd_memory i f db) = md_attempts db"
  "md_provenance (upd_memory i f db) = md_provenance db" "md_obligations (upd_memory i f db) = md_obligations db"
  "md_memories (upd_memory i f db) = tset mm_id i f (md_memories db)" "md_evidence (upd_memory i f db) = md_evidence db"
  "md_candidates (add_provenance p db) = md_candidates db" "md_attempts (add_provenance p db) = md_attempts db"
  "md_memories (add_provenance p db) = md_memories db" "md_obligations (add_provenance p db) = md_obligations db"
  "md_provenance (add_provenance p db) = md_provenance db @ [p]" "md_evidence (add_provenance p db) = md_evidence db"
  "md_provenance (upd_cand j g db) = md_provenance db" "md_provenance (upd_attempt k h db) = md_provenance db"
  "md_provenance (upd_obligation j q db) = md_provenance db" "md_evidence (upd_cand j g db) = md_evidence db"
  "md_evidence (upd_attempt k h db) = md_evidence db" "md_turns (upd_cand j g db) = md_turns db"
  "md_turns (upd_attempt k h db) = md_turns db"
  by (simp_all add: upd_memory_def add_provenance_def upd_cand_def upd_attempt_def upd_obligation_def tadd_def)

lemma confirm_frames [simp]:
  "md_candidates (confirm_target t i db) = md_candidates db" "md_attempts (confirm_target t i db) = md_attempts db"
  "md_evidence (confirm_target t i db) = md_evidence db"
  by (simp_all add: confirm_target_def split: option.splits)

lemma link_frames [simp]:
  "md_candidates (link_guard sn g i db) = md_candidates db" "md_attempts (link_guard sn g i db) = md_attempts db"
  "md_evidence (link_guard sn g i db) = md_evidence db"
  by (simp_all add: link_guard_def split: option.splits)

lemma resolve_review_frames [simp]:
  "md_candidates (resolve_review now c r db) = md_candidates db" "md_attempts (resolve_review now c r db) = md_attempts db"
  "md_memories (resolve_review now c r db) = md_memories db" "md_provenance (resolve_review now c r db) = md_provenance db"
  "md_evidence (resolve_review now c r db) = md_evidence db"
  by (simp_all add: resolve_review_def split: option.splits)

section \<open>The pipeline rows\<close>

definition finished :: "candidate_row \<Rightarrow> attempt_row \<Rightarrow> 'x mem_db_scheme \<Rightarrow> 'x mem_db_scheme \<Rightarrow> bool" where
  "finished c a db db' = (\<exists>f h. versioned f \<and> leased_ok (f c) \<and> closes h
     \<and> md_candidates db' = tset cd_id (cd_id c) f (md_candidates db)
     \<and> md_attempts db' = tset ap_id (ap_id a) h (md_attempts db))"

lemma finish_rows_Inr:
  "finish_rows m r f h c a db = Inr (db', out) \<longleftrightarrow> db' = upd_attempt (ap_id a) h (upd_cand (cd_id c) f db)
   \<and> out = \<lparr>m_mutated = m, m_result = r\<rparr>"
  by (auto simp: finish_rows_def)

lemma complete_sel [simp]:
  "versioned (complete_row now d r)" "leased_ok (complete_row now d r c)" "closes (complete_attempt now r)"
  by (simp_all add: complete_row_def complete_attempt_def)

lemma aim_closes [simp]: "closes (aim t h) = closes h"
  by (simp add: closes_def aim_def)

lemma await_sel [simp]: "versioned (await_row now j)" "leased_ok (await_row now j c)"
  by (simp_all add: await_row_def versioned_def leased_ok_def)

lemma retain_sel [simp]: "versioned (retain_row e)" "leased_ok (retain_row e c)"
  by (simp_all add: retain_row_def versioned_def leased_ok_def Let_def)

lemma requeue_sel [simp]:
  "versioned (\<lambda>x. x\<lparr>cd_status := Pending, cd_lease_token := None, cd_leased_until := None\<rparr>)"
  "leased_ok (c\<lparr>cd_status := Pending, cd_lease_token := None, cd_leased_until := None\<rparr>)"
  by (simp_all add: versioned_def leased_ok_def)

section \<open>Durable memory\<close>

definition superseded_from :: "evaluation_snapshot \<Rightarrow> reconciliation_decision \<Rightarrow> memory_row \<Rightarrow> memory_row \<Rightarrow> bool" where
  "superseded_from sn d m m' = (mm_status m = ACTIVE \<and> mm_status m' = SUPERSEDED \<and> mm_suppresses_recall m'
     \<and> mm_content m' = mm_content m \<and> rd_target_memory_id d = Some (mm_id m)
     \<and> (explicit_correction_of_target sn d \<or> \<not> owner_directed m))"

definition grounded_from :: "evaluation_snapshot \<Rightarrow> reconciliation_decision \<Rightarrow> memory_row \<Rightarrow> memory_row \<Rightarrow> bool" where
  "grounded_from sn d m m' = (mm_status m = ACTIVE \<and> mm_status m' = ACTIVE \<and> \<not> owner_directed m
     \<and> mm_grounding_status m = ''legacy_unverified'' \<and> mm_grounding_status m' = ''verified''
     \<and> rd_decision d = D_ground_legacy \<and> rd_target_memory_id d = Some (mm_id m))"

definition memory_kept :: "evaluation_snapshot \<Rightarrow> reconciliation_decision \<Rightarrow> memory_row \<Rightarrow> memory_row \<Rightarrow> bool" where
  "memory_kept sn d m m' = (mm_id m' = mm_id m \<and> mm_record_kind m' = mm_record_kind m
     \<and> ((mm_status m' = mm_status m \<and> mm_content m' = mm_content m \<and> mm_fingerprint m' = mm_fingerprint m
          \<and> mm_suppresses_recall m' = mm_suppresses_recall m \<and> mm_grounding_status m' = mm_grounding_status m)
        \<or> superseded_from sn d m m' \<or> grounded_from sn d m m'))"

definition cited :: "uuid \<Rightarrow> uuid \<Rightarrow> 'x mem_db_scheme \<Rightarrow> bool" where
  "cited i cid db = (\<forall>r \<in> set (evidence_refs cid db). \<exists>p \<in> set (md_provenance db).
     pv_memory_id p = i \<and> pv_relationship p = ''evidence_source'' \<and> pv_source_turn_id p = Some (ce_turn_id r))"

definition removed_content :: "string \<Rightarrow> 'x mem_db_scheme \<Rightarrow> bool" where
  "removed_content fp db = (\<exists>m \<in> set (md_memories db). mm_fingerprint m = Some fp \<and> mm_grounding_status m = ''verified''
     \<and> mm_suppresses_recall m \<and> mm_status m \<in> {RETIRED, SUPERSEDED})"

lemma restriction_for_None: "restriction_for fp db = None \<longleftrightarrow> \<not> removed_content fp db"
proof -
  have "latest_by key xs = None \<longleftrightarrow> xs = []" for key :: "memory_row \<Rightarrow> time \<times> uuid" and xs
    using sort_key_Nil_iff [of key xs] by (auto simp: latest_by_def split: list.splits)
  then show ?thesis by (auto simp: restriction_for_def removed_content_def filter_empty_conv)
qed

definition new_memory_ok :: "publish_env \<Rightarrow> evaluation_snapshot \<Rightarrow> uuid \<Rightarrow> 'x mem_db_scheme \<Rightarrow> 'x mem_db_scheme \<Rightarrow> memory_row \<Rightarrow> bool" where
  "new_memory_ok e sn cid db db' m = (mm_record_kind m = ''derived'' \<and> mm_grounding_status m = ''verified''
     \<and> mm_verification_record_id m = es_reconciliation_record_id sn \<and> mm_originating_candidate_id m = Some cid
     \<and> (mm_status m = ACTIVE \<or> (mm_status m = SUPERSEDED \<and> mm_suppresses_recall m))
     \<and> (\<exists>content. mm_content m = Some content \<and> mm_fingerprint m = Some (memory_fingerprint (pe_sha e) content)
          \<and> \<not> removed_content (memory_fingerprint (pe_sha e) content) db)
     \<and> cited (mm_id m) cid db')"

definition memory_effect ::
  "publish_env \<Rightarrow> evaluation_snapshot \<Rightarrow> reconciliation_decision \<Rightarrow> uuid \<Rightarrow> 'x mem_db_scheme \<Rightarrow> 'x mem_db_scheme \<Rightarrow> mutation \<Rightarrow> bool" where
  "memory_effect e sn d cid db db' out =
    ((\<not> m_mutated out \<longrightarrow> md_memories db' = md_memories db \<and> md_provenance db' = md_provenance db)
   \<and> (\<forall>m \<in> set (md_memories db). \<exists>m' \<in> set (md_memories db'). memory_kept sn d m m')
   \<and> (\<forall>m' \<in> set (md_memories db'). mm_id m' \<notin> mm_id ` set (md_memories db) \<longrightarrow> new_memory_ok e sn cid db db' m'))"

lemma memory_kept_refl [simp]: "memory_kept sn d m m"
  by (simp add: memory_kept_def)

lemma effect_same:
  "md_memories db' = md_memories db \<Longrightarrow> m_mutated out \<or> md_provenance db' = md_provenance db \<Longrightarrow> memory_effect e sn d cid db db' out"
  unfolding memory_effect_def using memory_kept_refl by (auto intro!: bexI)

text \<open>Rewriting one memory \<open>target\<close>, possibly beside a new row \<open>n\<close>.\<close>

lemma effect_tset:
  assumes keys: "keyed mm_id (md_memories db)" and t: "target \<in> set (md_memories db)" "memory_kept sn d target (f target)"
    and db': "set (md_memories db') = (\<lambda>m. if mm_id m = mm_id target then f m else m) ` set (md_memories db) \<union> N"
    and N: "\<And>n. n \<in> N \<Longrightarrow> new_memory_ok e sn cid db db' n" and out: "m_mutated out"
  shows "memory_effect e sn d cid db db' out"
proof -
  have uniq: "m = target" if "m \<in> set (md_memories db)" "mm_id m = mm_id target" for m
    using keyed_inj [OF keys that(1) t(1) that(2)] .
  have "\<exists>m' \<in> set (md_memories db'). memory_kept sn d m m'" if m: "m \<in> set (md_memories db)" for m
  proof
    show "(if mm_id m = mm_id target then f m else m) \<in> set (md_memories db')" unfolding db' using m by blast
    show "memory_kept sn d m (if mm_id m = mm_id target then f m else m)" using uniq [OF m] t(2) by auto
  qed
  moreover have "new_memory_ok e sn cid db db' m'"
    if m': "m' \<in> set (md_memories db')" "mm_id m' \<notin> mm_id ` set (md_memories db)" for m'
  proof -
    consider m where "m \<in> set (md_memories db)" "m' = (if mm_id m = mm_id target then f m else m)" | "m' \<in> N"
      using m'(1) unfolding db' by blast
    then show ?thesis
    proof cases
      case 1
      then have "mm_id m' = mm_id m" using uniq [of m] t(2) by (auto simp: memory_kept_def)
      then show ?thesis using m'(2) 1(1) by blast
    qed (rule N)
  qed
  ultimately show ?thesis using out by (simp add: memory_effect_def)
qed

lemma effect_add:
  assumes "md_memories db' = tadd n (md_memories db)" "new_memory_ok e sn cid db db' n" "m_mutated out"
  shows "memory_effect e sn d cid db db' out"
  unfolding memory_effect_def using assms memory_kept_refl by (auto intro!: bexI)

section \<open>Lineage\<close>

lemma lineage_cites: "cited i (cd_id c) (snd (add_candidate_lineage i c db))"
proof -
  have "\<exists>p \<in> set (md_provenance (snd (add_candidate_lineage i c db))).
      pv_memory_id p = i \<and> pv_relationship p = ''evidence_source'' \<and> pv_source_turn_id p = Some (ce_turn_id r)"
    if r: "r \<in> set (evidence_refs (cd_id c) db)" for r
  proof (cases "r \<in> set (missing_refs i c db)")
    case True
    then have "missing_refs i c db \<noteq> []" by auto
    then show ?thesis using True by (auto simp: add_candidate_lineage_def Let_def lineage_rows_def intro!: bexI)
  next
    case False
    then have "\<exists>p \<in> set (md_provenance db).
        pv_memory_id p = i \<and> pv_relationship p = ''evidence_source'' \<and> pv_source_turn_id p = Some (ce_turn_id r)"
      using r by (auto simp: missing_refs_def ordered_refs_def)
    then show ?thesis by (auto simp: add_candidate_lineage_def Let_def)
  qed
  then show ?thesis by (simp add: cited_def evidence_refs_def)
qed

lemma cited_mono:
  "cited i (cd_id c) db \<Longrightarrow> md_evidence db' = md_evidence db \<Longrightarrow> set (md_provenance db) \<subseteq> set (md_provenance db') \<Longrightarrow> cited i (cd_id c) db'"
  unfolding cited_def evidence_refs_def by (simp, blast)

lemma unlined: "\<not> fst (add_candidate_lineage i c db) \<Longrightarrow> snd (add_candidate_lineage i c db) = db"
  by (auto simp: add_candidate_lineage_def Let_def split: if_splits)

section \<open>The branches\<close>

definition branch_ok ::
  "publish_env \<Rightarrow> evaluation_snapshot \<Rightarrow> reconciliation_decision \<Rightarrow> candidate_row \<Rightarrow> attempt_row
   \<Rightarrow> 'x mem_db_scheme \<Rightarrow> 'x mem_db_scheme \<Rightarrow> mutation \<Rightarrow> bool" where
  "branch_ok e sn d c a db db' out = (finished c a db db' \<and> memory_effect e sn d (cd_id c) db db' out)"

lemma memory_effect_cong:
  assumes "memory_effect e sn d cid db db1 out" "md_memories db' = md_memories db1" "md_provenance db' = md_provenance db1"
    "md_evidence db' = md_evidence db1"
  shows "memory_effect e sn d cid db db' out"
  using assms by (simp add: memory_effect_def new_memory_ok_def cited_def evidence_refs_def)

lemma branch_finish:
  assumes r: "finish_rows m r f h c a db1 = Inr (db', out)" and f: "versioned f" "leased_ok (f c)" "closes h"
    and same: "md_candidates db1 = md_candidates db" "md_attempts db1 = md_attempts db"
    and eff: "memory_effect e sn d (cd_id c) db db1 \<lparr>m_mutated = m, m_result = r\<rparr>"
  shows "branch_ok e sn d c a db db' out"
proof -
  have db': "db' = upd_attempt (ap_id a) h (upd_cand (cd_id c) f db1)" "out = \<lparr>m_mutated = m, m_result = r\<rparr>"
    using r by (simp_all add: finish_rows_Inr)
  have "finished c a db db'" unfolding finished_def
    by (rule exI [of _ f], rule exI [of _ h]) (simp add: f same db'(1))
  moreover have "memory_effect e sn d (cd_id c) db db' out"
    by (rule memory_effect_cong [OF eff [folded db'(2)]]) (simp_all add: db'(1))
  ultimately show ?thesis by (simp add: branch_ok_def)
qed

lemma block_ok: "block now code c a db = Inr (db', out) \<Longrightarrow> branch_ok e sn d c a db db' out"
  unfolding block_def by (erule branch_finish) (simp_all add: effect_same)

lemma publish_await_ok: "publish_await e d c a db = Inr (db', out) \<Longrightarrow> branch_ok e sn d c a db db' out"
  unfolding publish_await_def Let_def ebind_Inr add_obligation_Inr
  by (elim exE conjE, erule branch_finish) (simp_all add: effect_same)

lemma publish_conflict_ok:
  assumes "publish_conflict e sn d c a db = Inr (db', out)"
  shows "branch_ok e sn d c a db db' out"
proof -
  have fin: "branch_ok e sn d c a db db' out"
    if "add_conflict cf db = Inr db1" "add_obligation ob db1 = Inr db2"
      "finish_rows True r (await_row now j) (aim t (commit_attempt st now k)) c a db2 = Inr (db', out)" for cf ob db1 db2 r j t st k now
    by (rule branch_finish [OF that(3)]) (use that(1,2) in \<open>simp_all add: add_conflict_Inr add_obligation_Inr effect_same\<close>)
  show ?thesis using assms unfolding publish_conflict_def Let_def
    by (auto split: option.splits if_splits intro: block_ok fin)
qed

lemma evaluated_Some: "evaluated ids d = Some t \<longleftrightarrow> rd_target_memory_id d = Some t \<and> t \<in> set ids"
  by (auto simp: evaluated_def split: option.splits if_splits)

lemma get_memory_Some: "get_memory t db = Some m \<Longrightarrow> m \<in> set (md_memories db) \<and> mm_id m = t"
  by (auto simp: get_memory_def dest: tget_key)

lemma confirm_effect:
  assumes "keyed mm_id (md_memories db)" "target \<in> set (md_memories db)"
    and out: "m_mutated out = (fst (add_candidate_lineage (mm_id target) c db) \<or> t \<noteq> None)"
  shows "memory_effect e sn d (cd_id c) db (confirm_target t (mm_id target) (snd (add_candidate_lineage (mm_id target) c db))) out"
proof (cases t)
  case None
  then show ?thesis using unlined [of "mm_id target" c db] out
    by (intro effect_same) (auto simp: confirm_target_def)
next
  case (Some u)
  show ?thesis
    by (rule effect_tset [OF assms(1,2), where f = "\<lambda>m. m\<lparr>mm_owner_assertion_turn_id := Some u\<rparr>" and N = "{}"])
       (use Some out in \<open>simp_all add: confirm_target_def memory_kept_def set_tset\<close>)
qed

lemma publish_equivalent_ok:
  assumes keys: "keyed mm_id (md_memories db)" and r: "publish_equivalent e sn d t c a db = Inr (db', out)"
  shows "branch_ok e sn d c a db db' out"
proof -
  have fin: "branch_ok e sn d c a db db' out"
    if m: "get_memory i db = Some m"
      "finish_rows (fst (add_candidate_lineage (mm_id m) c db) \<or> t \<noteq> None) res (complete_row now x y) (aim (mm_id m) (complete_attempt now z)) c a
        (confirm_target t (mm_id m) (snd (add_candidate_lineage (mm_id m) c db))) = Inr (db', out)" for i m res now x y z
    by (rule branch_finish [OF m(2)])
       (use confirm_effect [OF keys get_memory_Some [OF m(1), THEN conjunct1]] in simp_all)
  show ?thesis using r unfolding publish_equivalent_def Let_def
    by (auto simp: split_beta split: option.splits if_splits intro: block_ok fin)
qed

text \<open>The content branches work on a cleaned content, its digest and its restriction.\<close>

definition pn_ok :: "publish_env \<Rightarrow> publication \<Rightarrow> 'x mem_db_scheme \<Rightarrow> bool" where
  "pn_ok e pn db = (pn_fingerprint pn = memory_fingerprint (pe_sha e) (pn_content pn)
     \<and> pn_restriction pn = restriction_for (pn_fingerprint pn) db)"

lemma create_active_Inr:
  "create_active sha now i content n db = Inr (m, b, db') \<longleftrightarrow>
    (\<exists>existing. active_by_fingerprint (memory_fingerprint sha content) db = Inr existing
      \<and> (case existing of Some x \<Rightarrow> m = x \<and> \<not> b \<and> db' = db
         | None \<Rightarrow> m = memory_of now i ACTIVE content (memory_fingerprint sha content) False n \<and> b
             \<and> db' = db\<lparr>md_memories := tadd m (md_memories db)\<rparr> \<and> db_ok db'))"
  by (auto simp: create_active_def Let_def add_memory_Inr split: option.splits)

lemma new_derived_ok:
  assumes "pn_ok e pn db" "pn_restriction pn = None"
    "m = (memory_of now i st (pn_content pn) (pn_fingerprint pn) b (derived_memory sn d pn c sp vf vt))\<lparr>mm_superseded_by_id := sb\<rparr>"
    "st = ACTIVE \<or> (st = SUPERSEDED \<and> b)" "cited i (cd_id c) db'"
  shows "new_memory_ok e sn (cd_id c) db db' m"
proof -
  have "restriction_for (pn_fingerprint pn) db = None" using assms(1,2) by (metis pn_ok_def)
  then show ?thesis
    using assms by (auto simp: new_memory_ok_def pn_ok_def restriction_for_None memory_of_def derived_memory_def Let_def)
qed

lemma memory_of_sel [simp]:
  "mm_id (memory_of now i st ct fp b n) = i" "mm_record_kind (memory_of now i st ct fp b n) = nm_record_kind n"
  "mm_superseded_by_id (memory_of now i st ct fp b n) = None"
  by (simp_all add: memory_of_def)

lemma publish_ground_ok:
  assumes keys: "keyed mm_id (md_memories db)" and dec: "rd_decision d = D_ground_legacy"
    and r: "publish_ground e sn d pn c a db = Inr (db', out)"
  shows "branch_ok e sn d c a db db' out"
proof -
  let ?db = "\<lambda>m. snd (add_candidate_lineage (mm_id m) c (upd_memory (mm_id m) (ground_row e sn d pn c) db))"
  have fin: "branch_ok e sn d c a db db' out"
    if m: "get_memory t db = Some m" "rd_target_memory_id d = Some t" "mm_status m = ACTIVE"
      "mm_grounding_status m = ''legacy_unverified''" "\<not> owner_directed m"
      "finish_rows True res (complete_row now x y) (aim (mm_id m) (complete_attempt now z)) c a
        (resolve_review now' c' rv (?db m)) = Inr (db', out)" for t m res now x y z now' c' rv
  proof (rule branch_finish [OF m(6)])
    show "memory_effect e sn d (cd_id c) db (resolve_review now' c' rv (?db m)) \<lparr>m_mutated = True, m_result = res\<rparr>"
      by (rule effect_tset [OF keys get_memory_Some [OF m(1), THEN conjunct1], where f = "ground_row e sn d pn c" and N = "{}"])
         (use m(2-5) dec get_memory_Some [OF m(1)]
          in \<open>auto simp: memory_kept_def grounded_from_def ground_row_def clear_embedding_def Let_def set_tset\<close>)
  qed simp_all
  show ?thesis using r unfolding publish_ground_def Let_def
    by (auto simp: evaluated_Some split: option.splits if_splits intro: block_ok fin)
qed

lemma publish_historical_ok:
  assumes pn: "pn_ok e pn db" and r: "publish_historical e sn d pn c a db = Inr (db', out)"
  shows "branch_ok e sn d c a db db' out"
proof -
  have known: "branch_ok e sn d c a db db' out"
    if "finish_rows b res (complete_row now x y) (aim t (complete_attempt now z)) c a
        (snd (add_candidate_lineage i c db)) = Inr (db', out)" "b \<or> \<not> fst (add_candidate_lineage i c db)" for b i res now x y t z
  proof (rule branch_finish [OF that(1)])
    show "memory_effect e sn d (cd_id c) db (snd (add_candidate_lineage i c db)) \<lparr>m_mutated = b, m_result = res\<rparr>"
      by (rule effect_same) (use unlined [of i c db] that(2) in auto)
  qed simp_all
  have new: "branch_ok e sn d c a db db' out"
    if m: "add_memory m db = Inr db1" "pn_restriction pn = None"
      "m = (memory_of now i SUPERSEDED (pn_content pn) (pn_fingerprint pn) True (derived_memory sn d pn c None vf vt))\<lparr>mm_superseded_by_id := sb\<rparr>"
      "finish_rows True res (complete_row now' x y) (aim t (complete_attempt now' z)) c a
        (add_provenance p (snd (add_candidate_lineage i c db1))) = Inr (db', out)" for m db1 now i vf vt sb res now' x y t z p
  proof (rule branch_finish [OF m(4)])
    have cited: "cited i (cd_id c) (add_provenance p (snd (add_candidate_lineage i c db1)))"
      by (rule cited_mono [OF lineage_cites]) auto
    show "memory_effect e sn d (cd_id c) db (add_provenance p (snd (add_candidate_lineage i c db1))) \<lparr>m_mutated = True, m_result = res\<rparr>"
      by (rule effect_add [OF _ new_derived_ok [OF pn m(2,3) _ cited]]) (use m(1) in \<open>simp_all add: add_memory_Inr\<close>)
  qed (use m(1) in \<open>simp_all add: add_memory_Inr\<close>)
  show ?thesis using r unfolding publish_historical_def Let_def split_beta
    by (auto split: option.splits if_splits intro: block_ok known new)
qed

lemma created_row:
  assumes "create_active (pe_sha e) now i (pn_content pn) n db = Inr (m, True, db1)" "pn_ok e pn db"
  shows "m = memory_of now i ACTIVE (pn_content pn) (pn_fingerprint pn) False n" "md_memories db1 = tadd m (md_memories db)"
    "md_candidates db1 = md_candidates db" "md_attempts db1 = md_attempts db" "md_provenance db1 = md_provenance db"
    "md_evidence db1 = md_evidence db" "i \<notin> mm_id ` set (md_memories db)"
  using assms by (auto simp: create_active_Inr pn_ok_def db_ok_def memories_ok_def split: option.splits)

lemma same_superseded: "m = m\<lparr>mm_superseded_by_id := mm_superseded_by_id m\<rparr>"
  by simp

lemma publish_create_ok:
  assumes keys: "keyed mm_id (md_memories db)" and pn: "pn_ok e pn db" "pn_restriction pn = None"
    and r: "publish_create e sn d pn c a db = Inr (db', out)"
  shows "branch_ok e sn d c a db db' out"
proof -
  have fin: "branch_ok e sn d c a db db' out"
    if m: "create_active (pe_sha e) now i (pn_content pn) (derived_memory sn d pn c sp vf vt) db = Inr (m, True, db1)"
      "guard = None \<or> (\<exists>g. guard = Some g \<and> g \<in> set (md_memories db))"
      "finish_rows True res (complete_row now' x y) (aim t (complete_attempt now' z)) c a
        (link_guard sn guard (mm_id m) (snd (add_candidate_lineage (mm_id m) c db1))) = Inr (db', out)"
    for now i sp vf vt m db1 guard res now' x y t z
  proof (rule branch_finish [OF m(3)])
    note row = created_row [OF m(1) pn(1)]
    let ?db = "link_guard sn guard (mm_id m) (snd (add_candidate_lineage (mm_id m) c db1))"
    have "cited (mm_id m) (cd_id c) ?db"
      by (rule cited_mono [OF lineage_cites [of _ _ db1]]) (auto simp: link_guard_def split: option.splits)
    then have ok: "new_memory_ok e sn (cd_id c) db ?db m"
      by (intro new_derived_ok [OF pn, where st = ACTIVE and b = False and sb = None]) (simp_all add: row(1) memory_of_def)
    show "memory_effect e sn d (cd_id c) db ?db \<lparr>m_mutated = True, m_result = res\<rparr>"
    proof (cases guard)
      case None
      then show ?thesis by (intro effect_add [OF _ ok]) (simp_all add: link_guard_def row(2))
    next
      case (Some g)
      then have g: "g \<in> set (md_memories db)" using m(2) by simp
      then have "mm_id m \<noteq> mm_id g" using row(1,7) by auto
      then show ?thesis
        by (intro effect_tset [OF keys g, where f = "\<lambda>x. x\<lparr>mm_superseded_by_id := Some (mm_id m)\<rparr>" and N = "{m}"])
           (use ok Some in \<open>auto simp: link_guard_def row(2) set_tset memory_kept_def\<close>)
    qed
  qed (use created_row [OF m(1) pn(1)] in simp_all)
  define guard where "guard = (case correction_target sn db of None \<Rightarrow> None | Some m \<Rightarrow> if is_correction_guard m then Some m else None)"
  have g: "guard = None \<or> (\<exists>g. guard = Some g \<and> g \<in> set (md_memories db))"
    by (auto simp: guard_def correction_target_def dest!: get_memory_Some split: option.splits if_splits)
  consider (blocked) code where "block (pe_now e) code c a db = Inr (db', out)"
    | (create) vf m b db1 where "create_active (pe_sha e) (pe_now e) (pe_memory_id e) (pn_content pn)
          (derived_memory sn d pn c (map_option mm_id guard) vf (rd_event_valid_to d)) db = Inr (m, b, db1)"
        "(if \<not> b \<or> mm_record_kind m \<noteq> ''derived'' then block (pe_now e) ''derived_create_refused'' c a db1
          else finish_rows True [(''result'', JStr ''created''), (''memory_id'', JStr (mm_id m))]
            (complete_row (pe_now e) ''create'' ''created'') (aim (mm_id m) (complete_attempt (pe_now e) ''created'')) c a
            (link_guard sn guard (mm_id m) (snd (add_candidate_lineage (mm_id m) c db1)))) = Inr (db', out)"
    using r unfolding publish_create_def Let_def guard_def [symmetric] ebind_Inr by (auto split: if_split_asm)
  then show ?thesis
  proof cases
    case (create vf m b db1)
    show ?thesis
    proof (cases b)
      case True
      then have "mm_record_kind m = ''derived''"
        using create(1) by (auto simp: create_active_Inr derived_memory_def Let_def split: option.splits)
      then show ?thesis using create(2) True fin [OF _ g] create(1) by simp
    next
      case False
      then have "db1 = db" using create(1) by (auto simp: create_active_Inr split: option.splits)
      then show ?thesis using create(2) False block_ok by simp
    qed
  qed (rule block_ok)
qed

lemma publish_replace_ok:
  assumes keys: "keyed mm_id (md_memories db)" and pn: "pn_ok e pn db" "pn_restriction pn = None"
    and r: "publish_replace e sn d pn c a db = Inr (db', out)"
  shows "branch_ok e sn d c a db db' out"
proof -
  have fin: "branch_ok e sn d c a db db' out"
    if m: "create_active (pe_sha e) now i (pn_content pn) (derived_memory sn d pn c sp vf vt) db = Inr (m, True, db1)"
      "get_memory t db = Some target" "rd_target_memory_id d = Some t" "replaceable sn d c target"
      "finish_rows True res (complete_row now' x y) (aim t' (complete_attempt now' z)) c a
        (add_provenance p (snd (add_candidate_lineage (mm_id m) c
          (upd_memory (mm_id target) (supersede_row e sn d (mm_id m)) db1)))) = Inr (db', out)"
    for now i sp vf vt m db1 t target res now' x y t' z p
  proof (rule branch_finish [OF m(5)])
    note row = created_row [OF m(1) pn(1)]
    let ?db = "add_provenance p (snd (add_candidate_lineage (mm_id m) c (upd_memory (mm_id target) (supersede_row e sn d (mm_id m)) db1)))"
    have "cited (mm_id m) (cd_id c) ?db"
      by (rule cited_mono [OF lineage_cites [of _ _ "upd_memory (mm_id target) (supersede_row e sn d (mm_id m)) db1"]]) auto
    then have ok: "new_memory_ok e sn (cd_id c) db ?db m"
      by (intro new_derived_ok [OF pn, where st = ACTIVE and b = False and sb = None]) (simp_all add: row(1) memory_of_def)
    have t: "target \<in> set (md_memories db)" "mm_id target = t" using get_memory_Some [OF m(2)] by simp_all
    then have "mm_id m \<noteq> mm_id target" using row(1,7) by auto
    then show "memory_effect e sn d (cd_id c) db ?db \<lparr>m_mutated = True, m_result = res\<rparr>"
      by (intro effect_tset [OF keys t(1), where f = "supersede_row e sn d (mm_id m)" and N = "{m}"])
         (use ok m(3,4) t(2) in \<open>auto simp: row(2) set_tset memory_kept_def superseded_from_def supersede_row_def
             clear_embedding_def replaceable_def\<close>)
  qed (use created_row [OF m(1) pn(1)] in simp_all)
  consider (blocked) code where "block (pe_now e) code c a db = Inr (db', out)"
    | (refused) n m b db1 t target where "create_active (pe_sha e) (pe_now e) (pe_memory_id e) (pn_content pn) n db = Inr (m, b, db1)"
        "get_memory t db = Some target" "b \<longrightarrow> mm_id m = mm_id target"
        "block (pe_now e) ''derived_replacement_refused'' c a db1 = Inr (db', out)"
    | (made) sp vf vt m db1 t target res x p where "create_active (pe_sha e) (pe_now e) (pe_memory_id e) (pn_content pn)
          (derived_memory sn d pn c sp vf vt) db = Inr (m, True, db1)"
        "get_memory t db = Some target" "rd_target_memory_id d = Some t" "replaceable sn d c target"
        "finish_rows True res (complete_row (pe_now e) x ''created'') (aim (mm_id m) (complete_attempt (pe_now e) ''created'')) c a
            (add_provenance p (snd (add_candidate_lineage (mm_id m) c
              (upd_memory (mm_id target) (supersede_row e sn d (mm_id m)) db1)))) = Inr (db', out)"
    using r unfolding publish_replace_def Let_def
    by (auto simp: evaluated_Some split: if_split_asm option.split_asm)
  then show ?thesis
  proof cases
    case (refused n m b db1 t target)
    then have "db1 = db"
      using get_memory_Some [OF refused(2)]
      by (auto simp: create_active_Inr db_ok_def memories_ok_def split: option.splits)
    then show ?thesis using refused(4) block_ok by simp
  qed (auto intro: block_ok fin)
qed

lemma publish_content_ok:
  assumes keys: "keyed mm_id (md_memories db)" and r: "publish_content e sn d primary t c a db = Inr (db', out)"
  shows "branch_ok e sn d c a db db' out"
proof -
  obtain content where "clean_memory_content (content_of d c) = Inr content"
    using r unfolding publish_content_def ebind_Inr by blast
  note r' = r [unfolded publish_content_def this ebind_simps Let_def]
  let ?fp = "memory_fingerprint (pe_sha e) content"
  let ?pn = "\<lparr>pn_content = content, pn_fingerprint = ?fp, pn_restriction = restriction_for ?fp db, pn_assertion = t, pn_primary_turn = primary\<rparr>"
  have pn: "pn_ok e ?pn db" by (simp add: pn_ok_def)
  show ?thesis using r'
    by (auto split: if_split_asm intro: block_ok publish_ground_ok [OF keys] publish_historical_ok [OF pn]
        publish_create_ok [OF keys pn] publish_replace_ok [OF keys pn])
qed

lemma publish_leased_ok:
  assumes keys: "keyed mm_id (md_memories db)" and r: "publish_leased e sn d primary c a db = Inr (db', out)"
  shows "branch_ok e sn d c a db db' out"
proof -
  have fin: "finish_rows False res f h c a db = Inr (db', out) \<Longrightarrow> versioned f \<Longrightarrow> leased_ok (f c) \<Longrightarrow> closes h
      \<Longrightarrow> branch_ok e sn d c a db db' out" for res f h
    by (erule branch_finish) (simp_all add: effect_same)
  show ?thesis using r unfolding publish_leased_def Let_def
    by (auto split: if_split_asm intro: fin block_ok publish_await_ok publish_conflict_ok publish_equivalent_ok [OF keys]
        publish_content_ok [OF keys])
qed

section \<open>The whole mutation\<close>

lemma memory_effect_base:
  assumes "memory_effect e sn d cid db1 db' out" "md_memories db1 = md_memories db" "md_provenance db1 = md_provenance db"
  shows "memory_effect e sn d cid db db' out"
  using assms by (simp add: memory_effect_def new_memory_ok_def removed_content_def)

lemma stamp_sel [simp]:
  "ap_id (stamp_attempt e d x) = ap_id x" "ap_candidate_id (stamp_attempt e d x) = ap_candidate_id x"
  "ap_lease_token (stamp_attempt e d x) = ap_lease_token x"
  by (simp_all add: stamp_attempt_def)

text \<open>Closing the attempt without advancing the version: a lost lease, and an invalidated candidate.\<close>

lemma close_only:
  assumes own: "lease_inv db" "issued cl db" "owned_attempt cl db = Some (c, a)"
    and f: "versioned f" "leased_ok (f c)" "f c = c \<or> cd_status (f c) = Invalidated" and h: "closes h"
    and db': "md_candidates db' = tset cd_id (cd_id c) f (md_candidates db)"
      "md_attempts db' = tset ap_id (ap_id a) (\<lambda>x. h (stamp_attempt e d x)) (md_attempts db)"
  shows "handed_back cl db db'"
proof -
  note o = owned_open [OF own]
  have "advanced c (f c)" using f o(4) by (auto simp: advanced_def versioned_def reconcilable_def)
  then have "progress db db'"
    by (intro write_committing [OF own(1) o(3) _ f(2) _ o(1,2) _ _ _ _ db'])
       (use f(1) h in \<open>simp_all add: versioned_def closes_def\<close>)
  moreover have "claim_closed cl db'" by (rule closes_claim [OF own(3) h db'(2)]) simp
  ultimately show ?thesis by (simp add: handed_back_def)
qed

lemma finished_back:
  assumes own: "lease_inv db" "issued cl db" "owned_attempt cl db = Some (c, a)"
    and adv: "advance_candidate_state c a (upd_attempt (ap_id a) (stamp_attempt e d) db) = Inr db2"
    and fin: "finished (bumped c) a db2 db'"
  shows "handed_back cl db db'"
proof -
  note o = owned_open [OF own]
  obtain f h where fh: "versioned f" "leased_ok (f (bumped c))" "closes h"
    "md_candidates db' = tset cd_id (cd_id c) f (md_candidates db2)" "md_attempts db' = tset ap_id (ap_id a) h (md_attempts db2)"
    using fin unfolding finished_def by auto
  let ?f = "\<lambda>x. f (x\<lparr>cd_state_version := cd_state_version c + 1\<rparr>)"
  let ?h = "\<lambda>x. h ((stamp_attempt e d x)\<lparr>ap_candidate_state_version := cd_state_version c + 1\<rparr>)"
  have cands: "md_candidates db' = tset cd_id (cd_id c) ?f (md_candidates db)"
    using fh(4) adv by (simp add: advance_Inr tset_tset)
  have atts: "md_attempts db' = tset ap_id (ap_id a) ?h (md_attempts db)"
    using fh(5) adv by (simp add: advance_Inr tset_tset)
  have adv': "advanced c (?f c)" using fh(1) o(4) by (simp add: advanced_def versioned_def reconcilable_def)
  have lok: "leased_ok (?f c)" using fh(2) by (simp add: bumped_def)
  have "progress db db'"
    by (rule write_committing [OF own(1) o(3) _ lok adv' o(1,2) _ _ _ _ cands atts])
       (use fh(1,3) in \<open>simp_all add: versioned_def closes_def\<close>)
  moreover have "claim_closed cl db'" by (rule closes_claim [OF own(3) fh(3) atts]) simp
  ultimately show ?thesis by (simp add: handed_back_def)
qed

lemma live_evidence_stamp [simp]: "live_evidence_rows c (upd_attempt i h db) = live_evidence_rows c db"
proof -
  have "ordered_refs (cd_id c) (upd_attempt i h db) = ordered_refs (cd_id c) db"
    by (simp add: ordered_refs_def evidence_refs_def)
  moreover have "refs_live c rs (upd_attempt i h db) = refs_live c rs db" for rs
    by (simp add: refs_live_def)
  ultimately show ?thesis by (simp only: live_evidence_rows_def Let_def)
qed

text \<open>What \<open>mutate\<close> does with a candidate that cannot be published, and with a live lease.\<close>

definition stamped :: "publish_env \<Rightarrow> reconciliation_decision \<Rightarrow> attempt_row \<Rightarrow> 'x mem_db_scheme \<Rightarrow> 'x mem_db_scheme" where
  "stamped e d a db = upd_attempt (ap_id a) (stamp_attempt e d) db"

lemma mutate_owned:
  assumes c: "owned_attempt cl db = Some (c, a)" "ap_lease_token a = cl_lease_token cl" "leased_ok c"
    and r: "mutate e cl sn d db = Inr (db', out)"
  obtains (closed) f h where "versioned f" "leased_ok (f c)" "f c = c \<or> cd_status (f c) = Invalidated" "closes h"
      "db' = upd_attempt (ap_id a) h (upd_cand (cd_id c) f (stamped e d a db))" "\<not> m_mutated out"
  | (live) db2 where "\<not> scrubbed c" "\<not> lapsed (pe_now e) cl c" "live_evidence_rows c db \<noteq> []"
      "advance_candidate_state c a (stamped e d a db) = Inr db2"
      "publish_leased e sn d (primary_turn (live_evidence_rows c db)) (bumped c) a db2 = Inr (db', out)"
proof -
  have own: "get_cand (cl_candidate_id cl) db = Some c" "tget ap_id (cl_attempt_id cl) (md_attempts db) = Some a"
    "ap_completed_at a = None" "cd_state_version c = ap_candidate_state_version a" "cd_lease_token c = Some (cl_lease_token cl)"
    using c(1) by (simp_all add: owned_Some)
  have ids: "upd_cand (cd_id c) (\<lambda>x. x) (stamped e d a db) = stamped e d a db"
    by (simp add: upd_cand_def tset_id upd_attempt_def stamped_def)
  have "mutate e cl sn d db = (if scrubbed c then
             Inr (upd_attempt (ap_id a) (commit_attempt ''invalidated'' (pe_now e) [(''result'', JStr ''invalidated'')])
               (upd_cand (cd_id c) (invalidated_row (pe_now e)) (stamped e d a db)),
               \<lparr>m_mutated = False, m_result = [(''result'', JStr ''invalidated'')]\<rparr>)
           else if lapsed (pe_now e) cl c then
             Inr (upd_attempt (ap_id a) (commit_attempt ''lease_conflict'' (pe_now e) (m_result lease_conflict)) (stamped e d a db), lease_conflict)
           else if live_evidence_rows c db = [] then
             finish_rows False [(''result'', JStr ''invalidated''), (''code'', JStr ''evidence_unavailable'')]
               (invalid_evidence_row (pe_now e))
               (commit_attempt ''invalidated'' (pe_now e) [(''result'', JStr ''invalidated''), (''code'', JStr ''evidence_unavailable'')])
               c a (stamped e d a db)
           else ebind (advance_candidate_state c a (stamped e d a db)) (\<lambda>db2.
             publish_leased e sn d (primary_turn (live_evidence_rows c db)) (bumped c) a db2))"
    using c(2) own by (simp add: mutate_def Let_def stamped_def split del: if_split cong: if_cong)
  note r' = r [unfolded this]
  consider "scrubbed c" | "\<not> scrubbed c" "lapsed (pe_now e) cl c" | "\<not> scrubbed c" "\<not> lapsed (pe_now e) cl c" "live_evidence_rows c db = []"
    | "\<not> scrubbed c" "\<not> lapsed (pe_now e) cl c" "live_evidence_rows c db \<noteq> []" by blast
  then show ?thesis
  proof cases
    case 1
    then show ?thesis using r' by (intro closed [of "invalidated_row (pe_now e)"]) (auto simp: versioned_def invalidated_row_def leased_ok_def)
  next
    case 2
    then show ?thesis using r' ids c(3) by (intro closed [of "\<lambda>x. x"]) (auto simp: lease_conflict_def versioned_def)
  next
    case 3
    then show ?thesis using r' by (intro closed [of "invalid_evidence_row (pe_now e)"])
        (auto simp: versioned_def invalidated_row_def invalid_evidence_row_def leased_ok_def finish_rows_Inr)
  qed (use r' live in auto)
qed

lemma mutate_stale:
  assumes "tget ap_id (cl_attempt_id cl) (md_attempts db) = Some a" "ap_completed_at a \<noteq> None"
  shows "mutate e cl sn d db = Inr (db, lease_conflict)"
  using assms by (simp add: mutate_def Let_def)

lemma mutate_ok:
  assumes inv: "lease_inv db" "issued cl db" "keyed mm_id (md_memories db)" and r: "mutate e cl sn d db = Inr (db', out)"
  shows "handed_back cl db db'" "memory_effect e sn d (cl_candidate_id cl) db db' out"
proof -
  obtain a where a: "tget ap_id (cl_attempt_id cl) (md_attempts db) = Some a"
    using r by (auto simp: mutate_def Let_def)
  have "handed_back cl db db' \<and> memory_effect e sn d (cl_candidate_id cl) db db' out"
  proof (cases "ap_completed_at a")
    case (Some t)
    then have "db' = db" using mutate_stale [OF a, of e sn d] r by simp
    then show ?thesis using progress_refl [OF inv(1)] a Some by (simp add: effect_same handed_back_def claim_closed_def)
  next
    case None
    obtain c where c: "owned_attempt cl db = Some (c, a)" "ap_lease_token a = cl_lease_token cl"
      using owned_iff_open [OF inv(1,2) a None] .
    have id: "get_cand (cl_candidate_id cl) db = Some c" "cd_id c = cl_candidate_id cl"
      using c(1) get_cand_id by (auto simp: owned_Some)
    have lok: "leased_ok c" using lease_invD(3) [OF inv(1) get_cand_in [OF id(1)]] .
    show ?thesis using c lok r
    proof (cases rule: mutate_owned)
      case (closed f h)
      have "handed_back cl db db'"
        by (rule close_only [OF inv(1,2) c(1) closed(1-4)]) (simp_all add: closed(5) stamped_def tset_tset)
      moreover have "memory_effect e sn d (cl_candidate_id cl) db db' out"
        by (rule effect_same) (simp_all add: closed(5) stamped_def)
      ultimately show ?thesis ..
    next
      case (live db2)
      have same: "md_memories db2 = md_memories db" "md_provenance db2 = md_provenance db"
        using live(4) by (simp_all add: advance_Inr stamped_def)
      have b: "branch_ok e sn d (bumped c) a db2 db' out"
        by (rule publish_leased_ok [OF _ live(5)]) (simp add: same inv(3))
      have "handed_back cl db db'"
        by (rule finished_back [OF inv(1,2) c(1) live(4) [unfolded stamped_def]]) (use b in \<open>simp add: branch_ok_def\<close>)
      moreover have "memory_effect e sn d (cl_candidate_id cl) db db' out"
        by (rule memory_effect_base [OF _ same]) (use b id(2) in \<open>simp add: branch_ok_def\<close>)
      ultimately show ?thesis ..
    qed
  qed
  then show "handed_back cl db db'" "memory_effect e sn d (cl_candidate_id cl) db db' out" by simp_all
qed

lemma settle_provenance:
  "settle_explicit_obligation now mid code res c db = Inr db' \<Longrightarrow> md_provenance db' = md_provenance db"
  by (auto simp: settle_explicit_obligation_def on_command_def upd_command_def upd_obligation_def Let_def
      split: option.splits if_splits list.splits)

lemma settle_outcome_frames:
  assumes "settle_outcome now cl r db = Inr db'"
  shows "md_candidates db' = md_candidates db" "md_attempts db' = md_attempts db" "md_memories db' = md_memories db"
    "md_provenance db' = md_provenance db" "md_evidence db' = md_evidence db"
  using assms settle_frames settle_provenance
  by (auto simp: settle_outcome_def split: option.splits if_splits)

lemma mutate_and_settle_Inr:
  "mutate_and_settle e cl sn d db v = Inr (db', out) \<longleftrightarrow>
    (\<exists>db1. mutate e cl sn d db = Inr (db1, out) \<and> settle_outcome (pe_now e) cl (m_result out) db1 = Inr db' \<and> db_ok db')"
  by (auto simp: mutate_and_settle_def)

lemma mutate_and_settle_ok:
  assumes inv: "lease_inv db" "issued cl db" "keyed mm_id (md_memories db)" and r: "mutate_and_settle e cl sn d db v = Inr (db', out)"
  shows "handed_back cl db db'" "memory_effect e sn d (cl_candidate_id cl) db db' out" "db_ok db'"
proof -
  obtain db1 where s: "mutate e cl sn d db = Inr (db1, out)" "settle_outcome (pe_now e) cl (m_result out) db1 = Inr db'" "db_ok db'"
    using r unfolding mutate_and_settle_Inr by blast
  note fr = settle_outcome_frames [OF s(2)] and m = mutate_ok [OF inv s(1)]
  show "handed_back cl db db'" by (rule handed_back_cong [OF m(1) fr(1,2)])
  show "memory_effect e sn d (cl_candidate_id cl) db db' out" by (rule memory_effect_cong [OF m(2) fr(3-5)])
  show "db_ok db'" by (rule s(3))
qed

end
