(* ===== verification/Memory_Policy_Properties.thy ===== *)
theory Memory_Policy_Properties
  imports Memory_Policy Memory_Publication
begin

text \<open>
  Properties of the intake and decision functions: folding of tokens, proposals and stage
  outputs is idempotent and bounded, the chronology guard lets a claim replace a memory only on
  checked event order or the owner's explicit correction, and what needs the owner is never
  published without the owner.
\<close>

section \<open>Tokens\<close>

lemma lower_char_idem [simp]: "lower_char (lower_char c) = lower_char c"
proof (cases "65 \<le> (of_char c :: nat) \<and> (of_char c :: nat) \<le> 90")
  case True
  then have "lower_char c = char_of ((of_char c :: nat) + 32)" by (simp add: lower_char_def Let_def)
  moreover have "(of_char (char_of ((of_char c :: nat) + 32)) :: nat) = of_char c + 32"
    using True by (subst of_char_of) (simp add: take_bit_nat_eq_self)
  ultimately show ?thesis using True by (simp add: lower_char_def Let_def)
qed (auto simp: lower_char_def Let_def)

lemma casefold_idem [simp]: "casefold (casefold s) = casefold s"
  by (simp add: casefold_def)

definition plain_char :: "char \<Rightarrow> bool" where
  "plain_char c = (\<not> is_space c \<and> c \<noteq> CHR ''-'' \<and> lower_char c = c)"

lemma plain_underscore [simp]: "plain_char CHR ''_''"
  by (simp add: plain_char_def is_space_def lower_char_def)

lemma join_plain: "\<forall>w \<in> set ws. \<forall>c \<in> set w. plain_char c \<Longrightarrow> \<forall>c \<in> set (join_with ''_'' ws). plain_char c"
  by (induction "''_''" ws rule: join_with.induct) auto

lemma split_ws_chars: "w \<in> set (split_ws s) \<Longrightarrow> c \<in> set w \<Longrightarrow> c \<in> set s"
proof (induction s arbitrary: w rule: split_ws.induct)
  case (1 s)
  show ?case
  proof (cases "lstrip s")
    case Nil
    then show ?thesis using 1 by (simp add: split_ws.simps [of s])
  next
    case (Cons x xs)
    have sub: "set (x # xs) \<subseteq> set s" using set_dropWhileD [of _ is_space s] Cons unfolding lstrip_def by (metis subsetI)
    consider "w = takeWhile (\<lambda>c. \<not> is_space c) (x # xs)" | "w \<in> set (split_ws (dropWhile (\<lambda>c. \<not> is_space c) (x # xs)))"
      using 1(2) Cons by (auto simp: split_ws.simps [of s])
    then show ?thesis
    proof cases
      case 1
      then show ?thesis using \<open>c \<in> set w\<close> sub by (auto dest!: set_takeWhileD split: if_splits)
    next
      case 2
      have "c \<in> set (dropWhile (\<lambda>c. \<not> is_space c) (x # xs))" using 1(1) [OF Cons 2 1(3)] .
      then show ?thesis using sub by (auto dest!: set_dropWhileD split: if_splits)
    qed
  qed
qed

lemma protocol_token_plain: "\<forall>c \<in> set (protocol_token v). plain_char c"
  unfolding protocol_token_def
proof (rule join_plain, intro ballI)
  fix w c assume w: "w \<in> set (split_ws (map hyphen_blank (casefold v)))" and c: "c \<in> set w"
  have sp: "\<not> is_space c" using split_ws_words w c by (auto simp: word_def)
  have "c \<in> set (map hyphen_blank (casefold v))" using split_ws_chars [OF w c] .
  then obtain x where x: "c = hyphen_blank (lower_char x)" by (auto simp: casefold_def)
  with sp have "lower_char x \<noteq> CHR ''-''" by (auto simp: hyphen_blank_def)
  with x sp show "plain_char c" by (simp add: hyphen_blank_def plain_char_def)
qed

lemma protocol_token_fix:
  assumes "\<forall>c \<in> set t. plain_char c"
  shows "protocol_token t = t"
proof -
  have "map hyphen_blank (casefold t) = t"
    using assms by (induction t) (auto simp: casefold_def hyphen_blank_def plain_char_def)
  moreover have "word t" if "t \<noteq> []" using assms that by (simp add: word_def plain_char_def)
  then have "split_ws t = (if t = [] then [] else [t])" by (simp add: split_ws_word)
  ultimately show ?thesis unfolding protocol_token_def by (cases "t = []") simp_all
qed

lemma protocol_token_idem [simp]: "protocol_token (protocol_token v) = protocol_token v"
  by (rule protocol_token_fix [OF protocol_token_plain])

section \<open>Rewriting a JSON object with what it holds\<close>

lemma json_put_same: "json_get k d = Some v \<Longrightarrow> json_put k v d = d"
  unfolding json_get_def json_put_def by (induction d) auto

lemma json_put_put [simp]: "json_put k v (json_put k w d) = json_put k v d"
  unfolding json_put_def by (induction d) auto

section \<open>Folding stage outputs\<close>

lemma fold_token_get:
  "json_get k (fold_token k' d) = (if k = k' then (case json_get k d of Some (JStr v) \<Rightarrow> Some (JStr (protocol_token v)) | x \<Rightarrow> x)
     else json_get k d)"
  by (auto simp: fold_token_def split: option.splits json.splits)

definition folded :: "string \<Rightarrow> json_obj \<Rightarrow> bool" where
  "folded k d = (\<forall>v. json_get k d = Some (JStr v) \<longrightarrow> protocol_token v = v)"

lemma fold_token_fix: "folded k d \<Longrightarrow> fold_token k d = d"
  by (auto simp: folded_def fold_token_def json_put_same split: option.splits json.splits)

lemma folded_fold: "k = k' \<or> folded k d \<Longrightarrow> folded k (fold_token k' d)"
  by (auto simp: folded_def fold_token_get split: option.splits json.splits)

text \<open>Folding the spelling of a proposal's protocol tokens is idempotent: a payload that went
  through \<open>normalize_candidate_payload\<close> is left alone by it, so the second validation inside
  \<^verbatim>\<open>normalized\<close> sees the tokens of the first.\<close>

theorem payload_folding_idempotent:
  "normalize_candidate_payload (normalize_candidate_payload raw) = normalize_candidate_payload raw"
proof (cases raw)
  case (JObj d)
  define e where "e = fold_token ''durability'' (fold_token ''scope'' (fold_token ''kind'' d))"
  define f where "f = (if json_get ''scope'' e = Some (JStr ''global'') then json_put ''scope'' (JStr ''cross_chat'') e else e)"
  have cross: "protocol_token ''cross_chat'' = ''cross_chat''" by code_simp
  have "folded k e" if "k \<in> {''kind'', ''scope'', ''durability''}" for k
    using that unfolding e_def by (auto intro: folded_fold)
  then have "folded k f" if "k \<in> {''kind'', ''scope'', ''durability''}" for k
    using that cross by (simp add: f_def folded_def)
  then have "fold_token ''kind'' f = f" "fold_token ''scope'' f = f" "fold_token ''durability'' f = f"
    by (simp_all add: fold_token_fix)
  moreover have "json_get ''scope'' f \<noteq> Some (JStr ''global'')" by (simp add: f_def)
  moreover have "normalize_candidate_payload raw = JObj f"
    by (simp add: JObj normalize_candidate_payload_def Let_def f_def e_def)
  ultimately show ?thesis by (simp add: normalize_candidate_payload_def)
qed (simp_all add: normalize_candidate_payload_def)

definition hint_ok :: "string list \<Rightarrow> json option \<Rightarrow> bool" where
  "hint_ok allowed v = (v \<in> {None, Some JNull} \<or> (\<exists>t \<in> set allowed. v = Some (JStr t)))"

definition hints_stable :: bool where
  "hints_stable = (\<forall>(k, allowed) \<in> set READING_TOKENS. \<forall>t \<in> set allowed. hint_token k t = t)"

lemma hints_stable: "hints_stable"
  by code_simp

lemma fold_optional_fix:
  assumes "(k, allowed) \<in> set READING_TOKENS" "hint_ok allowed (json_get k d)"
  shows "fold_optional_token (k, allowed) (d, ns) = (d, ns)"
  using assms hints_stable
  by (auto simp: fold_optional_token_def hint_ok_def hints_stable_def Let_def json_put_same)

lemma fold_optional_get:
  "json_get k (fst (fold_optional_token (k', allowed) (d, ns))) =
     (if k = k' then json_get k (fst (fold_optional_token (k, allowed) (d, ns))) else json_get k d)"
  by (auto simp: fold_optional_token_def Let_def split: option.splits json.splits)

lemma fold_optional_ok: "hint_ok allowed (json_get k (fst (fold_optional_token (k, allowed) (d, ns))))"
  by (auto simp: fold_optional_token_def hint_ok_def Let_def split: option.splits json.splits)

lemma fold_optional_other: "k \<noteq> fst e \<Longrightarrow> json_get k (fst (fold_optional_token e s)) = json_get k (fst s)"
  by (auto simp: fold_optional_token_def Let_def split: prod.splits option.splits json.splits)

text \<open>A document in which the hints and the claims are folded.\<close>

definition claims_ok :: "json_obj \<Rightarrow> bool" where
  "claims_ok d = (\<forall>claims. json_get ''extracted_claims'' d = Some (JList claims) \<longrightarrow>
     length claims \<le> MAX_READING_CLAIMS \<and> (\<forall>x \<in> set claims. nonblank x))"

lemma fold_claims_ok: "claims_ok (fst (fold_claims (d, ns)))"
  by (auto simp: fold_claims_def claims_ok_def Let_def dest: in_set_takeD split: option.splits json.splits)

lemma fold_claims_fix:
  assumes "claims_ok d"
  shows "fold_claims (d, ns) = (d, ns)"
proof (cases "\<exists>claims. json_get ''extracted_claims'' d = Some (JList claims)")
  case True
  then obtain claims where c: "json_get ''extracted_claims'' d = Some (JList claims)" by blast
  with assms have "filter nonblank claims = claims" "length claims \<le> MAX_READING_CLAIMS"
    by (auto simp: claims_ok_def intro: filter_True)
  with c show ?thesis by (simp add: fold_claims_def json_put_same)
next
  case False
  then show ?thesis by (auto simp: fold_claims_def split: option.splits json.splits)
qed

definition hints_ok :: "(string \<times> string list) list \<Rightarrow> json_obj \<Rightarrow> bool" where
  "hints_ok es d = (\<forall>(k, allowed) \<in> set es. hint_ok allowed (json_get k d))"

lemma fold_hints_fix: "set es \<subseteq> set READING_TOKENS \<Longrightarrow> hints_ok es d \<Longrightarrow> fold fold_optional_token es (d, ns) = (d, ns)"
  by (induction es) (auto simp: hints_ok_def fold_optional_fix)

lemma fold_hints_other: "k \<notin> fst ` set es \<Longrightarrow> json_get k (fst (fold fold_optional_token es s)) = json_get k (fst s)"
  by (induction es arbitrary: s) (auto simp: fold_optional_other)

lemma fold_hints_ok: "distinct (map fst es) \<Longrightarrow> hints_ok es (fst (fold fold_optional_token es s))"
proof (induction es arbitrary: s)
  case (Cons e es)
  let ?s = "fold_optional_token e s"
  have "hint_ok (snd e) (json_get (fst e) (fst ?s))"
    using fold_optional_ok [of "snd e" "fst e" "fst s" "snd s"] by simp
  then have "hint_ok (snd e) (json_get (fst e) (fst (fold fold_optional_token es ?s)))"
    using fold_hints_other [of "fst e" es ?s] Cons.prems by simp
  then show ?case using Cons.IH [of ?s] Cons.prems by (auto simp: hints_ok_def split: prod.splits)
qed (simp add: hints_ok_def)

text \<open>The verifier's reading is folded once and for all: after \<open>normalize_reading_payload\<close> every
  hint is null or one of the allowed tokens, at most eight claims are left and none is blank,
  and a second pass changes nothing and notes nothing.\<close>

theorem reading_folding:
  "normalize_reading_payload (fst (normalize_reading_payload raw)) = (fst (normalize_reading_payload raw), [])
   \<and> (case fst (normalize_reading_payload raw) of JObj d \<Rightarrow> hints_ok READING_TOKENS d \<and> claims_ok d | _ \<Rightarrow> True)"
proof (cases raw)
  case (JObj d)
  define s where "s = fold_claims (d, [])"
  define t where "t = fold fold_optional_token READING_TOKENS s"
  have keys: "distinct (map fst READING_TOKENS)" "''extracted_claims'' \<notin> fst ` set READING_TOKENS"
    by (simp_all add: READING_TOKENS_def)
  have hints: "hints_ok READING_TOKENS (fst t)" unfolding t_def by (rule fold_hints_ok [OF keys(1)])
  have claims: "claims_ok (fst t)"
    using fold_claims_ok [of d "[]"] fold_hints_other [OF keys(2), of s] by (simp add: t_def s_def claims_ok_def)
  have n: "fst (normalize_reading_payload raw) = JObj (fst t)"
    by (simp add: normalize_reading_payload_def JObj t_def s_def split: prod.split)
  show ?thesis unfolding n
    using hints claims by (simp add: normalize_reading_payload_def fold_claims_fix fold_hints_fix)
qed (simp_all add: normalize_reading_payload_def)

section \<open>Chronology\<close>

text \<open>C40: The chronology guard. Where a supersession or a historical predecessor comes out of
  \<open>enforce_temporal_order\<close>, its target was evaluated, an owner-directed target was named by the
  owner's explicit correction, the claimed event time is within the horizon of the cited
  evidence, and unless the owner corrects, both event times are known and in the stated order.
  Target and replacement text are never altered.\<close>

theorem chronology_guard:
  assumes "enforce_temporal_order parse_iso cc rg r = Inr r'" "rl_relation r \<in> {R_supersedes, R_historical_predecessor}"
    "rl_relation r' \<in> {R_supersedes, R_historical_predecessor}"
  shows "rl_target_memory_id r' = rl_target_memory_id r \<and> rl_replacement_content r' = rl_replacement_content r
    \<and> (\<exists>i authority s. (i, authority, s) \<in> set (cc_targets cc) \<and> rl_target_memory_id r = Some i
         \<and> (authority = ''owner_directed'' \<longrightarrow> explicit_correction cc r)
         \<and> (case (rg_event_valid_from rg, evidence_horizon parse_iso cc) of (Some t, Some h) \<Rightarrow> t \<le> h | _ \<Rightarrow> True)
         \<and> (explicit_correction cc r \<and> rl_relation r' = R_supersedes
            \<or> (\<exists>t u. rg_event_valid_from rg = Some t \<and> read_stamp parse_iso s = Some u
                 \<and> (if rl_relation r' = R_supersedes then u < t else t < u))))"
proof -
  obtain i authority s where t: "find (\<lambda>(i, _). Some i = rl_target_memory_id r) (cc_targets cc) = Some (i, authority, s)"
    using assms(1,2) by (auto simp: enforce_temporal_order_def)
  then have mem: "(i, authority, s) \<in> set (cc_targets cc)" "rl_target_memory_id r = Some i"
    by (auto simp: find_Some_iff in_set_conv_nth)
  note e = assms(1) [unfolded enforce_temporal_order_def t the_row_simps ebind_simps Let_def prod.case]
  have auth: "authority = ''owner_directed'' \<longrightarrow> explicit_correction cc r"
    using e assms(2,3) by (auto split: if_splits)
  have horizon: "case (rg_event_valid_from rg, evidence_horizon parse_iso cc) of (Some t, Some h) \<Rightarrow> t \<le> h | _ \<Rightarrow> True"
    using e assms(2,3) auth by (auto simp: guarded_def split: if_splits option.splits)
  have order: "explicit_correction cc r \<and> rl_relation r' = R_supersedes
            \<or> (\<exists>t u. rg_event_valid_from rg = Some t \<and> read_stamp parse_iso s = Some u
                 \<and> (if rl_relation r' = R_supersedes then u < t else t < u))"
    using e assms(2,3) auth by (auto simp: guarded_def split: if_splits option.splits)
  have "rl_target_memory_id r' = rl_target_memory_id r" "rl_replacement_content r' = rl_replacement_content r"
    using e assms(2) by (auto simp: guarded_def split: if_splits option.splits)
  with mem auth horizon order show ?thesis by blast
qed

definition sample_context :: claim_context where
  "sample_context = \<lparr>cc_content = Some ''Lives in Oslo'', cc_kind = Some ''fact'', cc_scope = Some ''chat'',
     cc_durability = Some ''long_term'', cc_origin = None, cc_intake_path = ''foreground'', cc_temporal_horizon = Unstamped,
     cc_owner_confirmation_granted = False, cc_explicit_operation = None, cc_explicit_target_memory_id = None,
     cc_evidence_times = [At 20, Iso ''x''], cc_targets = [(''m1'', ''derived'', At 5)]\<rparr>"

definition sample_reading :: "string \<Rightarrow> reading" where
  "sample_reading category = \<lparr>rg_extracted_claims = [''Lives in Bergen''], rg_category = Some category, rg_scope = None,
     rg_durability = None, rg_claim_principal = Some ''owner'', rg_event_valid_from = Some 10, rg_event_valid_to = None\<rparr>"

definition sample_comparison :: comparison where
  "sample_comparison = \<lparr>cv_verdict = ''agree'', cv_normalized_content = None, cv_category = None, cv_scope = None, cv_durability = None\<rparr>"

definition sample_relation :: relation_decision where
  "sample_relation = \<lparr>rl_relation = R_historical_predecessor, rl_target_memory_id = Some ''m1'', rl_replacement_content = None,
     rl_temporal_guard = None\<rparr>"

lemma sample_order:
  "enforce_temporal_order (\<lambda>_. None) sample_context (sample_reading ''fact'') sample_relation
   = Inr (sample_relation\<lparr>rl_relation := R_supersedes, rl_temporal_guard := Some ''event_order_checked''\<rparr>)"
  by code_simp

theorem chronology_guard_witness:
  "\<exists>i authority s. (i, authority, s) \<in> set (cc_targets sample_context) \<and> rl_target_memory_id sample_relation = Some i
     \<and> (authority = ''owner_directed'' \<longrightarrow> explicit_correction sample_context sample_relation)"
  using chronology_guard [OF sample_order] by (auto simp: sample_relation_def)

section \<open>Owner gate\<close>

text \<open>When the owner has to confirm: a foreign claim stored on request, an origin that is not the
  owner's conversation, or a sensitive category.\<close>

definition needs_owner :: "claim_context \<Rightarrow> reading \<Rightarrow> comparison \<Rightarrow> bool" where
  "needs_owner cc rg cv = (let origin = or_str (cc_origin cc) ''conversation'' in
     if origin \<in> {''explicit_owner_request'', ''explicit_owner_correction''} then rg_claim_principal rg \<noteq> Some ''owner''
     else origin \<notin> {''conversation'', ''owner_statement'', ''sweep''} \<or> casefold (policy_category cc rg cv) \<in> set SENSITIVE_CATEGORIES)"

lemma needs_owner_policy:
  assumes "needs_owner cc rg cv" "\<not> cc_owner_confirmation_granted cc" "effective_scope cc rg cv \<noteq> ''project''"
  shows "fst (owner_policy cc rg cv r) = Require_owner_confirmation"
  using assms by (auto simp: needs_owner_def owner_policy_def Let_def split: if_splits)

lemma confirmation_awaits:
  "publication_decision cc rg cv r Require_owner_confirmation = Inr d \<Longrightarrow> rd_decision d = D_await_owner"
  by (auto simp: publication_decision_def Let_def)

lemma await_keeps_memory:
  assumes "rd_decision d = D_await_owner" "publish_leased e sn d primary c a db = Inr (db', out)"
  shows "md_memories db' = md_memories db"
  using assms
  by (auto simp: publish_leased_def block_def publish_await_def finish_rows_Inr add_obligation_Inr Let_def split: if_split_asm)

text \<open>C39: What needs the owner waits for the owner. For a claim that the policy reserves and the owner
  has not granted, whatever relation the model proposed, the decision built from the policy is
  to await the owner, and publishing it changes no durable memory.\<close>

theorem owner_gate:
  assumes "needs_owner cc rg cv" "\<not> cc_owner_confirmation_granted cc" "effective_scope cc rg cv \<noteq> ''project''"
    and "publication_decision cc rg cv r (fst (owner_policy cc rg cv r)) = Inr d"
  shows "rd_decision d = D_await_owner
    \<and> (\<forall>e sn primary c a db db' out. publish_leased e sn d primary c a db = Inr (db', out) \<longrightarrow> md_memories db' = md_memories db)"
proof -
  have "rd_decision d = D_await_owner"
    using confirmation_awaits assms(4) by (simp add: needs_owner_policy [OF assms(1-3)])
  then show ?thesis using await_keeps_memory by blast
qed

lemma sample_health:
  "needs_owner sample_context (sample_reading ''Health'') sample_comparison"
  "\<not> cc_owner_confirmation_granted sample_context"
  "effective_scope sample_context (sample_reading ''Health'') sample_comparison \<noteq> ''project''"
  "\<not> isl (publication_decision sample_context (sample_reading ''Health'') sample_comparison sample_relation
     (fst (owner_policy sample_context (sample_reading ''Health'') sample_comparison sample_relation)))"
  by code_simp+

theorem owner_gate_witness:
  "\<exists>d. publication_decision sample_context (sample_reading ''Health'') sample_comparison sample_relation
     (fst (owner_policy sample_context (sample_reading ''Health'') sample_comparison sample_relation)) = Inr d
   \<and> rd_decision d = D_await_owner"
proof -
  obtain d where d: "publication_decision sample_context (sample_reading ''Health'') sample_comparison sample_relation
     (fst (owner_policy sample_context (sample_reading ''Health'') sample_comparison sample_relation)) = Inr d"
    using sample_health(4) by (metis sum.collapse(2))
  then show ?thesis using owner_gate [OF sample_health(1-3) d] by blast
qed

end
