(* ===== verification/Memory_Intake.thy ===== *)
theory Memory_Intake
  imports Memory_Candidates Memory_Fencing
begin

text \<open>
  Properties of the candidate intake: a proposal is normalized once, an accepted proposal is
  backed by live evidence, one set of evidence has at most one open candidate, enqueueing is
  idempotent, and a batch never fails on proposals it rejects.
\<close>

section \<open>Normalization\<close>

lemma length_join_words: "\<forall>w \<in> set ws. w \<noteq> [] \<Longrightarrow> ws \<noteq> [] \<Longrightarrow> length (join_with '' '' ws) + 1 = (\<Sum>w\<leftarrow>ws. length w + 1)"
  by (induction "'' ''" ws rule: join_with.induct) auto

lemma split_ws_blank_gen: "is_space b \<Longrightarrow> split_ws (b # s) = split_ws s"
  by (simp add: split_ws.simps [of "b # s"] split_ws.simps [of s] lstrip_def)

lemma split_ws_length: "(\<Sum>w\<leftarrow>split_ws s. length w + 1) \<le> length s + 1"
proof (induction s rule: measure_induct_rule [of length])
  case (less s)
  show ?case
  proof (cases "lstrip s")
    case Nil
    then show ?thesis by (simp add: split_ws.simps [of s])
  next
    case (Cons c cs)
    let ?t = "dropWhile (\<lambda>x. \<not> is_space x) (c # cs)" and ?w = "takeWhile (\<lambda>x. \<not> is_space x) (c # cs)"
    have len: "length ?w + length ?t = length (c # cs)" by (metis length_append takeWhile_dropWhile_id)
    have le: "length (c # cs) \<le> length s" using length_lstrip [of s] Cons by simp
    have "(\<Sum>w\<leftarrow>split_ws ?t. length w + 1) \<le> length ?t"
    proof (cases ?t)
      case (Cons b bs)
      then have "is_space b" using hd_dropWhile [of "\<lambda>x. \<not> is_space x" "c # cs"] by fastforce
      moreover have "length bs < length s" using len le Cons by simp
      ultimately show ?thesis using less [of bs] unfolding Cons by (simp add: split_ws_blank_gen)
    qed simp
    then show ?thesis using Cons len le by (simp add: split_ws.simps [of s])
  qed
qed

lemma length_squash: "length (squash s) \<le> length s"
proof (cases "split_ws s")
  case Nil
  then show ?thesis by (simp add: squash_def)
next
  case (Cons w ws)
  then have "length (squash s) + 1 = (\<Sum>w\<leftarrow>split_ws s. length w + 1)"
    using length_join_words [of "split_ws s"] split_ws_words [of s] unfolding squash_def by (auto simp: word_def)
  then show ?thesis using split_ws_length [of s] by simp
qed

lemma firsts_set [simp]: "set (firsts xs) = set xs"
  by (induction xs) auto

lemma firsts_distinct [simp]: "distinct (firsts xs)"
  by (induction xs) auto

lemma firsts_fix: "distinct xs \<Longrightarrow> firsts xs = xs"
  by (induction xs) (auto intro: filter_True)

lemma firsts_length: "length (firsts xs) \<le> length xs"
  by (induction xs) (auto intro: le_trans [OF length_filter_le])

lemma firsts_Nil [simp]: "firsts xs = [] \<longleftrightarrow> xs = []"
  by (cases xs) auto

lemma text_of_simps [simp]: "text_of None = []" "text_of (Some s) = s"
  by (simp_all add: text_of_def)

lemma or_none_simps [simp]: "text_of (or_none s) = s" "or_none (text_of (or_none s)) = or_none s" "or_none [] = None"
  by (auto simp: or_none_def text_of_def)

definition ref_fits :: "evidence_ref \<Rightarrow> bool" where
  "ref_fits r = (length (text_of (er_handle r)) \<le> 32 \<and> length (er_span_ref r) \<le> 160)"

lemma ref_valid_fits: "ref_valid r \<Longrightarrow> ref_fits r"
  by (auto simp: ref_valid_def ref_fits_def text_of_def sized_def split: option.splits)

lemma normalized_ref_idem: "ref_fits r \<Longrightarrow> normalized_ref (normalized_ref r) = normalized_ref r"
  using length_squash [of "text_of (er_handle r)"] length_squash [of "er_span_ref r"]
  by (simp add: normalized_ref_def ref_fits_def)

lemma normalized_Inr:
  "normalized c = Inr c' \<longleftrightarrow> squash (mc_content c) \<noteq> [] \<and> mc_evidence_refs c \<noteq> []
     \<and> (\<forall>r \<in> set (mc_evidence_refs c). ref_valid (normalized_ref r))
     \<and> c' = c\<lparr>mc_content := squash (mc_content c), mc_subject := or_none (squash (text_of (mc_subject c))),
         mc_namespace := or_none (squash (text_of (mc_namespace c))), mc_evidence_refs := firsts (map normalized_ref (mc_evidence_refs c))\<rparr>"
  unfolding normalized_def Let_def ebind_Inr require_Inr by auto

text \<open>A valid proposal is normalized once: \<open>normalized\<close> returns a proposal that satisfies every
  field constraint, and normalizing the result again returns it unchanged.\<close>

theorem normalized_once:
  assumes "candidate_valid c" "normalized c = Inr c'"
  shows "candidate_valid c' \<and> normalized c' = Inr c'"
proof -
  let ?refs = "firsts (map normalized_ref (mc_evidence_refs c))"
  have n: "squash (mc_content c) \<noteq> []" "mc_evidence_refs c \<noteq> []" "\<forall>r \<in> set (mc_evidence_refs c). ref_valid (normalized_ref r)"
    and c': "c' = c\<lparr>mc_content := squash (mc_content c), mc_subject := or_none (squash (text_of (mc_subject c))),
         mc_namespace := or_none (squash (text_of (mc_namespace c))), mc_evidence_refs := ?refs\<rparr>"
    using assms(2) unfolding normalized_Inr by blast+
  have fits: "ref_fits r" if "r \<in> set (mc_evidence_refs c)" for r
    using assms(1) that ref_valid_fits by (simp add: candidate_valid_def)
  then have idem1: "normalized_ref (normalized_ref r) = normalized_ref r" if "r \<in> set (mc_evidence_refs c)" for r
    using that normalized_ref_idem by blast
  then have "normalized_ref r = r" if "r \<in> set ?refs" for r
    using that by auto
  then have refs: "map normalized_ref ?refs = ?refs" by (rule map_idI)
  have idem: "firsts (map normalized_ref ?refs) = ?refs" unfolding refs by (rule firsts_fix) simp
  have len: "length (text_of (or_none (squash (text_of x)))) \<le> 160" if "(case x of None \<Rightarrow> True | Some s \<Rightarrow> length s \<le> 160)" for x
    using that length_squash [of "text_of x"] by (cases x) simp_all
  have "length ?refs \<le> 8" using assms(1) firsts_length [of "map normalized_ref (mc_evidence_refs c)"]
    by (simp add: candidate_valid_def sized_def)
  then have "candidate_valid c'"
    using assms(1) n length_squash [of "mc_content c"] len [of "mc_subject c"] len [of "mc_namespace c"]
    by (auto simp: candidate_valid_def c' sized_def text_of_def Suc_le_eq split: option.splits)
  moreover have "normalized c' = Inr c'"
    unfolding normalized_Inr using n refs idem idem1 by (auto simp: c')
  ultimately show ?thesis ..
qed

section \<open>Enqueueing\<close>

lemma resolve_ref_Inr: "resolve_ref ik r acc = Inr acc' \<Longrightarrow> \<exists>x. acc' = acc @ [x]"
  by (auto simp: resolve_ref_def split: option.splits prod.splits)

lemma resolve_refs_nonempty: "efold (resolve_ref ik) rs acc = Inr out \<Longrightarrow> rs \<noteq> [] \<or> acc \<noteq> [] \<Longrightarrow> out \<noteq> []"
proof (induction rs arbitrary: acc)
  case (Cons r rs)
  then obtain acc1 where "resolve_ref ik r acc = Inr acc1" "efold (resolve_ref ik) rs acc1 = Inr out" by auto
  then show ?case using resolve_ref_Inr Cons.IH [of acc1] by blast
qed simp

lemma check_refs_Inr: "efold (check_ref ik db) refs () = Inr u \<Longrightarrow> r \<in> set refs \<Longrightarrow> check_ref ik db r () = Inr ()"
  by (induction refs arbitrary: u) auto

definition ref_live :: "intake \<Rightarrow> 'x mem_db_scheme \<Rightarrow> resolved_ref \<Rightarrow> bool" where
  "ref_live ik db r = (\<exists>turn. tget tu_id (fst r) (md_turns db) = Some turn \<and> tu_deleted_at turn = None
     \<and> tu_transcript_id turn = ik_source_transcript_id ik)"

lemma check_ref_live: "check_ref ik db r () = Inr () \<Longrightarrow> ref_live ik db r"
  by (auto simp: check_ref_def ref_live_def split: prod.splits)

lemma resolve_evidence_Inr:
  assumes "resolve_evidence ik c db = Inr refs" "mc_evidence_refs c \<noteq> []"
  shows "refs \<noteq> []" "distinct refs" "\<forall>r \<in> set refs. ref_live ik db r"
proof -
  obtain xs where x: "efold (resolve_ref ik) (mc_evidence_refs c) [] = Inr xs" "refs = firsts xs" "efold (check_ref ik db) refs () = Inr ()"
    using assms(1) by (auto simp: resolve_evidence_def Let_def)
  show "refs \<noteq> []" using resolve_refs_nonempty [OF x(1)] assms(2) x(2) by simp
  show "distinct refs" by (simp add: x(2))
  show "\<forall>r \<in> set refs. ref_live ik db r" using check_refs_Inr [OF x(3)] check_ref_live by blast
qed

lemma resolve_evidence_cong: "md_turns db' = md_turns db \<Longrightarrow> resolve_evidence ik c db' = resolve_evidence ik c db"
proof -
  assume t: "md_turns db' = md_turns db"
  have "check_ref ik db' = check_ref ik db" by (intro ext) (simp add: check_ref_def t)
  then show ?thesis by (simp add: resolve_evidence_def t)
qed

text \<open>The two outcomes of enqueueing.\<close>

lemma enqueue_cases:
  assumes "enqueue ik i p db = Inr (row, created, db')"
  obtains (new) c refs where "normalized p = Inr c" "resolve_evidence ik c db = Inr refs" "created"
      "row = candidate_of ik i c (evidence_set_hash (ik_sha ik) refs)" "open_with_hash (evidence_set_hash (ik_sha ik) refs) db = []"
      "db' = db\<lparr>md_candidates := tadd row (md_candidates db), md_evidence := md_evidence db @ evidence_rows i refs db\<rparr>" "db_ok db'"
  | (known) c refs where "normalized p = Inr c" "resolve_evidence ik c db = Inr refs" "\<not> created" "db' = db"
      "latest_by cd_created_at (open_with_hash (evidence_set_hash (ik_sha ik) refs) db) = Some row"
proof -
  obtain c refs where c: "normalized p = Inr c" "resolve_evidence ik c db = Inr refs"
    using assms unfolding enqueue_def ebind_Inr by blast
  let ?h = "evidence_set_hash (ik_sha ik) refs"
  note r = assms [unfolded enqueue_def c ebind_simps Let_def]
  show ?thesis
  proof (cases "latest_by cd_created_at (open_with_hash ?h db)")
    case None
    then have "open_with_hash ?h db = []" by (auto simp: latest_by_def split: list.splits)
    then show ?thesis using None r by (intro new [OF c]) auto
  next
    case (Some x)
    then show ?thesis using r by (intro known [OF c]) auto
  qed
qed

lemma candidate_of_sel [simp]:
  "cd_id (candidate_of ik i c h) = i" "cd_status (candidate_of ik i c h) = Pending"
  "cd_evidence_set_hash (candidate_of ik i c h) = Some h" "cd_lease_token (candidate_of ik i c h) = None"
  "cd_attempt_count (candidate_of ik i c h) = 0" "cd_content (candidate_of ik i c h) = Some (mc_content c)"
  "cd_fingerprint (candidate_of ik i c h) \<noteq> None" "cd_invalidated_at (candidate_of ik i c h) = None"
  "cd_source_transcript_id (candidate_of ik i c h) = ik_source_transcript_id ik"
  by (simp_all add: candidate_of_def Let_def)

lemma latest_by_single [simp]: "latest_by k [x] = Some x"
  by (simp add: latest_by_def)

lemma open_with_hash_tadd:
  "open_with_hash h (db\<lparr>md_candidates := tadd row (md_candidates db), md_evidence := ev\<rparr>)
   = open_with_hash h db @ (if cd_status row \<in> reconcilable \<and> cd_evidence_set_hash row = Some h then [row] else [])"
  by (simp add: open_with_hash_def tadd_def)

text \<open>Enqueueing is idempotent. Once a proposal was enqueued, enqueueing it again, under whatever
  fresh identity, answers with the candidate that stands for its evidence and changes nothing.\<close>

theorem enqueue_idempotent:
  assumes "enqueue ik i p db = Inr (row, created, db')"
  shows "enqueue ik j p db' = Inr (row, False, db')"
  using assms
proof (cases rule: enqueue_cases)
  case (new c refs)
  have "resolve_evidence ik c db' = Inr refs"
    using resolve_evidence_cong [of db' db ik c] new(2,6) by simp
  moreover have "open_with_hash (evidence_set_hash (ik_sha ik) refs) db' = [row]"
    unfolding new(6) open_with_hash_tadd using new(4,5) by (simp add: reconcilable_def)
  ultimately show ?thesis using new(1) by (simp add: enqueue_def Let_def)
next
  case (known c refs)
  then show ?thesis by (simp add: enqueue_def Let_def)
qed

text \<open>An accepted proposal is ready for the verifier: it is pending, it is claimable at any time by a
  worker whose retry budget is not zero, and all of its evidence is live. The digest function only
  has to return a non-empty text, and the identity has to be new.\<close>

theorem intake_claimable:
  assumes "enqueue ik i p db = Inr (row, True, db')" "\<And>x. ik_sha ik x \<noteq> []" "i \<notin> ce_candidate_id ` set (md_evidence db)"
    "0 < lc_max_attempts cfg"
  shows "get_cand i db' = Some row \<and> claimable cfg now row \<and> evidence_live row db'"
  using assms(1)
proof (cases rule: enqueue_cases)
  case (new c refs)
  have ne: "mc_evidence_refs c \<noteq> []" using new(1) by (auto simp: normalized_Inr)
  note ev = resolve_evidence_Inr [OF new(2) ne]
  have "keyed cd_id (md_candidates db')" using new(7) by (simp add: db_ok_def candidates_ok_def)
  then have get: "get_cand i db' = Some row"
    using keyed_tget [of cd_id "md_candidates db'" row] new(4,6) by (simp add: get_cand_def)
  have "filter (\<lambda>r. ce_candidate_id r = i) (md_evidence db) = []" using assms(3) by (auto simp: filter_empty_conv)
  moreover have "filter (\<lambda>r. ce_candidate_id r = i) (evidence_rows i refs db) = evidence_rows i refs db"
    by (rule filter_True) (auto simp: evidence_rows_def)
  moreover have nonempty: "evidence_rows i refs db \<noteq> []"
    using ev(1) length_enumerate [of 0 refs] by (auto simp: evidence_rows_def simp del: length_enumerate)
  ultimately have refs: "evidence_refs i db' = evidence_rows i refs db" by (simp add: evidence_refs_def new(6))
  have turns: "ce_turn_id r \<in> fst ` set refs" if r: "r \<in> set (evidence_rows i refs db)" for r
  proof -
    obtain n q where "(n, q) \<in> set (enumerate 0 refs)" "ce_turn_id r = fst q"
      using r by (auto simp: evidence_rows_def)
    then show ?thesis by (simp add: in_set_enumerate_eq) (metis imageI nth_mem)
  qed
  have "refs_live row (evidence_rows i refs db) db'"
    unfolding refs_live_def
  proof
    fix r assume "r \<in> set (evidence_rows i refs db)"
    then obtain q where "q \<in> set refs" "ce_turn_id r = fst q" using turns [of r] unfolding image_iff by blast
    then show "case tget tu_id (ce_turn_id r) (md_turns db') of None \<Rightarrow> False | Some t \<Rightarrow> evidence_turn_admissible row t"
      using ev(3) by (auto simp: ref_live_def new(4,6) evidence_turn_admissible_def)
  qed
  then have "evidence_live row db'"
    using refs nonempty assms(2) by (simp add: evidence_live_def new(4) evidence_set_hash_def)
  moreover have "claimable cfg now row" using assms(4) by (simp add: claimable_def eligible_def new(4))
  ultimately show ?thesis using get by simp
qed simp

section \<open>Batches\<close>

lemma unique_index_tadd:
  "unique_index key (tadd r rows) \<longleftrightarrow> unique_index key rows \<and> (key r \<noteq> None \<longrightarrow> key r \<notin> key ` set rows)"
  by (auto simp: unique_index_def tadd_def)

lemma enqueue_flushes:
  assumes ok: "db_ok db" and i: "i \<notin> cd_id ` set (md_candidates db)" and none: "open_with_hash h db = []"
  shows "db_ok (db\<lparr>md_candidates := tadd (candidate_of ik i c h) (md_candidates db), md_evidence := ev\<rparr>)"
proof -
  have "Some h \<notin> open_evidence_hash ` set (md_candidates db)"
    using none by (auto simp: open_with_hash_def open_evidence_hash_def filter_empty_conv split: if_splits)
  then show ?thesis
    using ok i by (auto simp: db_ok_def candidates_ok_def unique_index_tadd candidate_row_ok_def open_evidence_hash_def reconcilable_def)
qed

lemma normalized_valid_refs: "normalized p = Inr c \<Longrightarrow> r \<in> set (mc_evidence_refs c) \<Longrightarrow> ref_valid r"
  by (auto simp: normalized_Inr)

definition rejectable :: "mem_error \<Rightarrow> bool" where
  "rejectable e = (candidate_rejection_category e \<noteq> None)"

lemma rejectable_simps [simp]: "rejectable (MValueError m)" "rejectable (MValidationError f k)" "rejectable MTypeError"
  by (simp_all add: rejectable_def candidate_rejection_category_def)

lemma resolve_ref_rejects: "ref_valid r \<Longrightarrow> resolve_ref ik r acc = Inl e \<Longrightarrow> rejectable e"
  by (auto simp: resolve_ref_def ref_valid_def ebind_Inl split: option.splits prod.splits)

lemma efold_rejects:
  assumes "efold f xs s = Inl e" "\<And>x s e. x \<in> set xs \<Longrightarrow> f x s = Inl e \<Longrightarrow> rejectable e"
  shows "rejectable e"
  using assms
proof (induction xs arbitrary: s)
  case (Cons x xs)
  then show ?case by (cases "f x s") auto
qed simp

lemma check_ref_rejects: "check_ref ik db r u = Inl e \<Longrightarrow> rejectable e"
  by (auto simp: check_ref_def check_span_def ebind_Inl the_row_def split: prod.splits option.splits if_splits)

lemma resolve_evidence_rejects:
  assumes "\<forall>r \<in> set (mc_evidence_refs c). ref_valid r" "resolve_evidence ik c db = Inl e"
  shows "rejectable e"
proof -
  have 1: "rejectable e" if "efold (resolve_ref ik) (mc_evidence_refs c) [] = Inl e"
    using efold_rejects [OF that] resolve_ref_rejects assms(1) by blast
  have 2: "rejectable e" if "efold (check_ref ik db) refs () = Inl e" for refs
    using efold_rejects [OF that] check_ref_rejects by blast
  show ?thesis using assms(2) 1 2 unfolding resolve_evidence_def Let_def by (auto simp: ebind_Inl)
qed

text \<open>One proposal against a store that satisfies its constraints: rejected, known or added.\<close>

lemma enqueue_total:
  assumes "db_ok db" "i \<notin> cd_id ` set (md_candidates db)"
  shows "(\<exists>e. enqueue ik i p db = Inl e \<and> rejectable e) \<or> (\<exists>row. enqueue ik i p db = Inr (row, False, db))
    \<or> (\<exists>row db'. enqueue ik i p db = Inr (row, True, db') \<and> db_ok db' \<and> cd_id row = i
         \<and> md_candidates db' = tadd row (md_candidates db))"
proof (cases "enqueue ik i p db")
  case (Inl e)
  have "rejectable e"
  proof (cases "normalized p")
    case (Inr c)
    then have refs: "\<forall>r \<in> set (mc_evidence_refs c). ref_valid r" using normalized_valid_refs by blast
    show ?thesis
    proof (cases "resolve_evidence ik c db")
      case (Inr rs)
      then show ?thesis using Inl \<open>normalized p = Inr c\<close> enqueue_flushes [OF assms, where h = "evidence_set_hash (ik_sha ik) rs" and ik = ik and c = c]
        by (auto simp: enqueue_def Let_def ebind_Inl flush_def latest_by_def split: option.splits if_splits list.splits)
    qed (use Inl Inr refs resolve_evidence_rejects in \<open>auto simp: enqueue_def\<close>)
  qed (use Inl in \<open>auto simp: enqueue_def normalized_def Let_def ebind_Inl\<close>)
  then show ?thesis using Inl by blast
next
  case (Inr res)
  obtain row created db' where res: "res = (row, created, db')" by (cases res)
  from Inr [unfolded res] show ?thesis
  proof (cases rule: enqueue_cases)
    case (new c refs)
    then show ?thesis using Inr [unfolded res] by auto
  qed (use Inr [unfolded res] in auto)
qed

definition tally :: "intake_report \<Rightarrow> nat" where
  "tally r = ir_accepted r + ir_duplicate r + ir_rejected r"

definition categories :: "intake_report \<Rightarrow> nat" where
  "categories r = sum_list (map snd (ir_rejections r))"

lemma update_count:
  "distinct (map fst m) \<Longrightarrow> sum_list (map snd (AList.update k ((case map_of m k of None \<Rightarrow> 0 | Some n \<Rightarrow> n) + 1) m))
   = sum_list (map snd m) + (1 :: nat)"
  by (induction m) auto

lemma count_rejection_sel [simp]:
  "tally (count_rejection k r) = tally r + 1" "ir_accepted (count_rejection k r) = ir_accepted r"
  "ir_rejected (count_rejection k r) = ir_rejected r + 1"
  by (simp_all add: count_rejection_def tally_def)

definition report_ok :: "intake_report \<Rightarrow> bool" where
  "report_ok r = (distinct (map fst (ir_rejections r)) \<and> categories r = ir_rejected r)"

lemma report_ok_count: "report_ok r \<Longrightarrow> report_ok (count_rejection k r)"
  using update_count [of "ir_rejections r" k]
  by (simp add: report_ok_def count_rejection_def categories_def distinct_update)

text \<open>What the intake relies on of the validator: it raises value and type errors only.\<close>

definition validator_ok :: "(json \<Rightarrow> mem_error + memory_candidate) \<Rightarrow> bool" where
  "validator_ok validate = (\<forall>raw e. validate raw = Inl e \<longrightarrow> rejectable e)"

definition stepped :: "uuid \<Rightarrow> intake_report \<times> 'x mem_db_scheme \<Rightarrow> intake_report \<times> 'x mem_db_scheme \<Rightarrow> bool" where
  "stepped i s t = (db_ok (snd t) \<and> report_ok (fst t) \<and> tally (fst t) = tally (fst s) + 1
     \<and> cd_id ` set (md_candidates (snd t)) \<subseteq> insert i (cd_id ` set (md_candidates (snd s)))
     \<and> length (md_candidates (snd t)) + ir_accepted (fst s) = length (md_candidates (snd s)) + ir_accepted (fst t))"

lemma enqueue_one_step:
  assumes v: "validator_ok validate" and ok: "db_ok db" "report_ok r"
    and i: "i \<notin> cd_id ` set (md_candidates db)"
  shows "\<exists>t. enqueue_one validate ik (i, raw) (r, db) = Inr t \<and> stepped i (r, db) t"
proof -
  let ?m = "ebind (validate (normalize_candidate_payload raw)) (\<lambda>c. enqueue ik i c db)"
  consider (rejected) e where "?m = Inl e" "rejectable e" | (known) row where "?m = Inr (row, False, db)"
    | (added) row db' where "?m = Inr (row, True, db')" "db_ok db'" "cd_id row = i" "md_candidates db' = tadd row (md_candidates db)"
  proof (cases "validate (normalize_candidate_payload raw)")
    case (Inl e)
    then show ?thesis using v rejected by (simp add: validator_ok_def)
  next
    case (Inr c)
    then show ?thesis using enqueue_total [OF ok(1) i, of ik c] rejected known added by auto
  qed
  then show ?thesis
  proof cases
    case (rejected e)
    then obtain k where "candidate_rejection_category e = Some k" by (auto simp: rejectable_def)
    then show ?thesis using rejected(1) ok report_ok_count
      by (intro exI [of _ "(count_rejection k r, db)"]) (auto simp: enqueue_one_def stepped_def)
  next
    case (known row)
    then show ?thesis using ok
      by (intro exI [of _ "(r\<lparr>ir_duplicate := ir_duplicate r + 1\<rparr>, db)"])
         (auto simp: enqueue_one_def stepped_def tally_def report_ok_def categories_def)
  next
    case (added row db')
    then show ?thesis using ok
      by (intro exI [of _ "(r\<lparr>ir_accepted := ir_accepted r + 1\<rparr>, db')"])
         (auto simp: enqueue_one_def stepped_def tally_def report_ok_def categories_def tadd_def)
  qed
qed

lemma enqueue_all:
  assumes v: "validator_ok validate"
  shows "db_ok db \<Longrightarrow> report_ok r \<Longrightarrow> distinct (map fst raws) \<Longrightarrow> fst ` set raws \<inter> cd_id ` set (md_candidates db) = {} \<Longrightarrow>
    \<exists>r' db'. efold (enqueue_one validate ik) raws (r, db) = Inr (r', db') \<and> db_ok db' \<and> report_ok r' \<and> tally r' = tally r + length raws
      \<and> length (md_candidates db') + ir_accepted r = length (md_candidates db) + ir_accepted r'"
proof (induction raws arbitrary: r db)
  case (Cons x raws)
  obtain i raw where x: "x = (i, raw)" by force
  obtain r1 db1 where s: "enqueue_one validate ik (i, raw) (r, db) = Inr (r1, db1)" "db_ok db1" "report_ok r1" "tally r1 = tally r + 1"
    "cd_id ` set (md_candidates db1) \<subseteq> insert i (cd_id ` set (md_candidates db))"
    "length (md_candidates db1) + ir_accepted r = length (md_candidates db) + ir_accepted r1"
    using enqueue_one_step [where validate = validate and i = i and ik = ik and raw = raw, OF v Cons.prems(1,2)] Cons.prems(4) x
    by (auto simp: stepped_def)
  have d: "distinct (map fst raws)" "i \<notin> fst ` set raws" using Cons.prems(3) x by simp_all
  have "fst ` set raws \<inter> cd_id ` set (md_candidates db) = {}" using Cons.prems(4) by simp
  then have "fst ` set raws \<inter> cd_id ` set (md_candidates db1) = {}" using d(2) s(5) by blast
  then obtain r' db' where "efold (enqueue_one validate ik) raws (r1, db1) = Inr (r', db')" "db_ok db'" "report_ok r'"
    "tally r' = tally r1 + length raws" "length (md_candidates db') + ir_accepted r1 = length (md_candidates db1) + ir_accepted r'"
    using Cons.IH [OF s(2,3) d(1)] by blast
  then show ?case using s x by auto
qed simp

text \<open>A batch is never lost to a bad proposal. With fresh identities and a validator that only raises
  value and type errors, \<open>enqueue_many\<close> returns, keeps every constraint of the store, accounts for
  each of the first eight proposals exactly once, names a category for every rejection, and adds
  exactly the accepted candidates.\<close>

theorem intake_batch_total:
  assumes "validator_ok validate" "db_ok db" "distinct (map fst raws)"
    "fst ` set raws \<inter> cd_id ` set (md_candidates db) = {}"
  shows "\<exists>r db'. enqueue_many validate ik raws db = Inr (r, db') \<and> db_ok db'
    \<and> ir_accepted r + ir_duplicate r + ir_rejected r = min 8 (length raws)
    \<and> sum_list (map snd (ir_rejections r)) = ir_rejected r
    \<and> length (md_candidates db') = length (md_candidates db) + ir_accepted r"
proof -
  let ?r = "\<lparr>ir_accepted = 0, ir_duplicate = 0, ir_rejected = 0, ir_rejections = []\<rparr>"
  have d: "distinct (map fst (take 8 raws))" using assms(3) by (simp add: take_map [symmetric])
  have f: "fst ` set (take 8 raws) \<inter> cd_id ` set (md_candidates db) = {}"
    using assms(4) by (auto dest!: in_set_takeD)
  have "report_ok ?r" by (simp add: report_ok_def categories_def)
  from enqueue_all [where validate = validate and ik = ik, OF assms(1,2) this d f] show ?thesis
    unfolding enqueue_many_def by (auto simp: tally_def report_ok_def categories_def min_def)
qed

section \<open>Samples\<close>

definition sample_store :: mem_db where
  "sample_store = \<lparr>md_turns = [\<lparr>tu_id = ''t1'', tu_transcript_id = ''tr'', tu_actor = ''owner'', tu_sequence = 1,
       tu_blocks = [JObj [(''type'', JStr ''text''), (''text'', JStr ''hi'')]], tu_created_at = 0, tu_deleted_at = None,
       tu_deletion_operation_id = None\<rparr>],
     md_transcripts = [\<lparr>tr_id = ''tr'', tr_kind = ''owner'', tr_retention_policy = ''standard'', tr_title = None, tr_closed_at = None, tr_context_summary = None, tr_summarized_through_turn_id = None,
       tr_active_task_state = [], tr_active_task_revision = 0, tr_next_turn_sequence = 1, tr_content_revision = 1, tr_created_at = 0, tr_updated_at = 0\<rparr>], md_candidates = [], md_evidence = [], md_attempts = [],
     md_memories = [], md_commands = [], md_obligations = [], md_conflicts = [], md_provenance = []\<rparr>"

definition sample_intake :: intake where
  "sample_intake = \<lparr>ik_sha = (\<lambda>s. CHR ''#'' # s), ik_now = 0, ik_source_transcript_id = ''tr'', ik_source_turn_id = ''t1'',
     ik_source_provider_evidence_id = None, ik_allowed_turn_ids = Some [''t1''], ik_handle_map = Some [(''e1'', ''t1'', ''text:0'')],
     ik_proposer_model = None, ik_intake_path = ''foreground'', ik_origin = ''conversation'', ik_temporal_horizon_at = None\<rparr>"

definition sample_proposal :: memory_candidate where
  "sample_proposal = \<lparr>mc_kind = ''fact'', mc_content = ''a  b'', mc_scope = ''chat'', mc_confidence = 1, mc_durability = ''long_term'',
     mc_subject = Some '' '', mc_namespace = None,
     mc_evidence_refs = [\<lparr>er_handle = Some ''e1'', er_turn_id = None, er_span_ref = []\<rparr>]\<rparr>"

lemma sample_normal: "candidate_valid sample_proposal" "\<not> isl (normalized sample_proposal)"
  by code_simp+

theorem normalized_once_witness:
  "\<exists>c'. normalized sample_proposal = Inr c' \<and> candidate_valid c' \<and> normalized c' = Inr c'"
  using normalized_once [OF sample_normal(1)] sum.collapse(2) [OF sample_normal(2)] by metis

definition enqueued :: "mem_error + (candidate_row \<times> bool \<times> mem_db)" where
  "enqueued = enqueue sample_intake ''c1'' sample_proposal sample_store"

lemma sample_enqueued: "\<not> isl enqueued" "fst (snd (projr enqueued))" "db_ok sample_store"
  by code_simp+

lemma sample_enqueue: "enqueue sample_intake ''c1'' sample_proposal sample_store = Inr (fst (projr enqueued), True, snd (snd (projr enqueued)))"
  using sum.collapse(2) [OF sample_enqueued(1)] sample_enqueued(2) unfolding enqueued_def by (metis (full_types) prod.collapse)

theorem enqueue_idempotent_witness:
  "enqueue sample_intake ''c2'' sample_proposal (snd (snd (projr enqueued))) = Inr (fst (projr enqueued), False, snd (snd (projr enqueued)))"
  by (rule enqueue_idempotent [OF sample_enqueue])

theorem intake_claimable_witness:
  "get_cand ''c1'' (snd (snd (projr enqueued))) = Some (fst (projr enqueued))
   \<and> claimable (lease_repository 180 3) 0 (fst (projr enqueued)) \<and> evidence_live (fst (projr enqueued)) (snd (snd (projr enqueued)))"
  by (rule intake_claimable [OF sample_enqueue]) (simp_all add: sample_intake_def sample_store_def lease_repository_def clamp_def)

theorem intake_batch_total_witness:
  "\<exists>r db'. enqueue_many (\<lambda>raw. if raw = JNull then Inl MTypeError else Inr sample_proposal) sample_intake
       [(''c1'', JBool True), (''c2'', JNull), (''c3'', JBool True)] sample_store = Inr (r, db')
     \<and> ir_accepted r + ir_duplicate r + ir_rejected r = 3"
proof -
  have v: "validator_ok (\<lambda>raw. if raw = JNull then Inl MTypeError else Inr sample_proposal)"
    by (simp add: validator_ok_def)
  show ?thesis
    using intake_batch_total [OF v sample_enqueued(3), of "[(''c1'', JBool True), (''c2'', JNull), (''c3'', JBool True)]" sample_intake]
    by (auto simp: sample_store_def)
qed

end
