(* ===== verification/Memory_Verification.thy ===== *)
theory Memory_Verification
  imports Memory_Policy Memory_Fencing
begin

text \<open>
  The database side of the verification worker (\<^verbatim>\<open>MemoryReconciliationService\<close> of
  \<^verbatim>\<open>memory/reconciliation.py\<close>): the snapshot it evaluates, the memories it compares with, and
  the four persisted stages. The stage tables extend the memory store. What the language
  model answers is an argument of the stages.
\<close>

section \<open>Texts of the evidence\<close>

definition clip_text :: "nat \<Rightarrow> string \<Rightarrow> string" where
  "clip_text n s = take n (strip (squash s))"

definition block_text :: "nat \<Rightarrow> json \<Rightarrow> string list" where
  "block_text limit b = (case b of
      JObj d \<Rightarrow>
        if json_get ''type'' d = Some (JStr ''text'') then
          (let v = clip_text limit (json_or ''text'' d []) in if v = [] then [] else [v])
        else if json_get ''type'' d = Some (JStr ''tool_observation'') then
          (let operation = clip_text 128 (json_or ''operation'' d ''runtime''); phase = clip_text 64 (json_or ''phase'' d ''observed'');
               summary = clip_text 500 (json_or ''summary'' d [])
           in [operation @ '' ['' @ phase @ '']'' @ (if summary = [] then [] else '': '' @ summary)])
        else []
    | _ \<Rightarrow> [])"

definition source_text :: "turn_row \<Rightarrow> string" where
  "source_text turn = clip_text 4000 (join_with '' | '' (concat (map (block_text 4000) (tu_blocks turn))))"

record evidence_item =
  ei_turn_id :: uuid
  ei_span_ref :: string
  ei_principal :: string
  ei_actor :: string
  ei_sequence :: int
  ei_recorded_at :: time
  ei_text :: string

definition evidence_projection :: "evidence_row \<Rightarrow> turn_row \<Rightarrow> mem_error + evidence_item" where
  "evidence_projection ref turn =
    ebind (if ce_span_ref ref = [] then Inr (source_text turn)
      else ebind (the_row (parse_span (ce_span_ref ref)) (CandidateSnapshotError ''evidence span is malformed'')) (\<lambda>(kind, index).
        ebind (require (kind = ''text'' \<and> 0 \<le> index \<and> index < int (length (tu_blocks turn)))
          (CandidateSnapshotError ''evidence span is unavailable'')) (\<lambda>_.
        (case tu_blocks turn ! nat index of
           JObj d \<Rightarrow> if json_get ''type'' d = Some (JStr ''text'') then Inr (clip_text 4000 (json_or ''text'' d []))
             else Inl (CandidateSnapshotError ''evidence span is not canonical text'')
         | _ \<Rightarrow> Inl (CandidateSnapshotError ''evidence span is not canonical text'')))))
    (\<lambda>text. Inr \<lparr>ei_turn_id = tu_id turn, ei_span_ref = ce_span_ref ref, ei_principal = ce_principal ref, ei_actor = tu_actor turn,
       ei_sequence = tu_sequence turn, ei_recorded_at = tu_created_at turn, ei_text = text\<rparr>)"

section \<open>Related memories\<close>

definition in_scope :: "string \<Rightarrow> string option \<Rightarrow> candidate_row \<Rightarrow> memory_row \<Rightarrow> bool" where
  "in_scope scope scope_key c m =
    (if scope = ''cross_chat'' then mm_scope m = ''cross_chat''
     else if scope = ''chat'' then mm_scope m = ''cross_chat''
       \<or> (mm_scope m = ''chat'' \<and> mm_scope_key m = Some (or_str scope_key (''chat:'' @ cd_source_transcript_id c)))
     else mm_scope m = ''project'' \<and> mm_scope_key m = Some (or_str scope_key (''project-unresolved:'' @ cd_source_transcript_id c)))"

definition related_to :: "string \<Rightarrow> candidate_row \<Rightarrow> memory_row \<Rightarrow> bool" where
  "related_to kind c m = (mm_memory_kind m = Some kind
     \<or> (cd_subject c \<notin> {None, Some []} \<and> mm_subject m = cd_subject c)
     \<or> (cd_namespace c \<notin> {None, Some []} \<and> mm_namespace m = cd_namespace c))"

text \<open>\<^verbatim>\<open>ORDER BY updated_at DESC, id DESC LIMIT 16\<close>.\<close>

definition newest16 :: "memory_row list \<Rightarrow> memory_row list" where
  "newest16 ms = take 16 (rev (sort_key (\<lambda>m. (mm_updated_at m, mm_id m)) ms))"

definition verified_active :: "memory_row \<Rightarrow> bool" where
  "verified_active m = (mm_status m = ACTIVE \<and> mm_grounding_status m = ''verified'')"

definition restriction_row :: "memory_row \<Rightarrow> bool" where
  "restriction_row m = (mm_status m \<in> {RETIRED, SUPERSEDED} \<and> mm_grounding_status m = ''verified'' \<and> mm_suppresses_recall m)"

definition legacy_row :: "memory_row \<Rightarrow> bool" where
  "legacy_row m = (mm_status m = ACTIVE \<and> mm_grounding_status m = ''legacy_unverified'')"

text \<open>A dictionary keyed by memory identity, in order of first insertion.\<close>

definition add_by_id :: "memory_row \<Rightarrow> memory_row list \<Rightarrow> memory_row list" where
  "add_by_id m ms = (if mm_id m \<in> mm_id ` set ms then tset mm_id (mm_id m) (\<lambda>_. m) ms else ms @ [m])"

definition related_memories_for ::
  "(string \<Rightarrow> string) \<Rightarrow> string \<Rightarrow> string \<Rightarrow> string option \<Rightarrow> uuid option \<Rightarrow> candidate_row \<Rightarrow> 'x mem_db_scheme
   \<Rightarrow> memory_row list \<times> memory_row list \<times> memory_row list" where
  "related_memories_for sha kind scope scope_key explicit_target c db =
    (let fp = memory_fingerprint sha (case cd_content c of None \<Rightarrow> [] | Some s \<Rightarrow> s);
         fits = in_scope scope scope_key c;
         exact = filter (\<lambda>m. verified_active m \<and> mm_fingerprint m = Some fp \<and> fits m) (md_memories db);
         related = newest16 (filter (\<lambda>m. verified_active m \<and> fits m \<and> related_to kind c m) (md_memories db));
         active = fold add_by_id (exact @ related) [];
         restricted = newest16 (filter (\<lambda>m. restriction_row m \<and> mm_content m \<noteq> None \<and> fits m
           \<and> (mm_fingerprint m = Some fp \<or> related_to kind c m)) (md_memories db));
         legacy = newest16 (filter (\<lambda>m. legacy_row m \<and> derived_kind m \<and> mm_content m \<noteq> None \<and> fits m \<and> related_to kind c m)
           (md_memories db))
     in case (case explicit_target of None \<Rightarrow> None | Some t \<Rightarrow> get_memory t db) of
          None \<Rightarrow> (active, restricted, legacy)
        | Some m \<Rightarrow>
            if mm_content m = None then (active, restricted, legacy)
            else if verified_active m then (add_by_id m active, restricted, legacy)
            else if restriction_row m \<and> mm_id m \<notin> mm_id ` set restricted then (active, restricted @ [m], legacy)
            else if legacy_row m \<and> mm_id m \<notin> mm_id ` set legacy then (active, restricted, legacy @ [m])
            else (active, restricted, legacy))"

section \<open>The evaluation snapshot\<close>

definition explicit_command_context :: "uuid \<Rightarrow> 'x mem_db_scheme \<Rightarrow> command_row option" where
  "explicit_command_context i db =
    (case first_by ob_created_at (filter (\<lambda>ob. explicit_for i ob \<and>
        (case ob_command_id ob of None \<Rightarrow> False | Some k \<Rightarrow> tget cm_id k (md_commands db) \<noteq> None)) (md_obligations db)) of
       None \<Rightarrow> None
     | Some ob \<Rightarrow> (case ob_command_id ob of None \<Rightarrow> None | Some k \<Rightarrow> tget cm_id k (md_commands db)))"

record loaded_snapshot =
  ls_snapshot :: evaluation_snapshot
  ls_context :: claim_context
  ls_evidence_set_hash :: string
  ls_evidence :: "evidence_item list"
  ls_source_text :: string
  ls_evidence_refs :: json_obj

definition memory_revision :: "'p shared_db \<Rightarrow> int" where
  "memory_revision s = version_of (MEMORY_RESOURCE_TYPE, MEMORY_RESOURCE_ID) s"

definition target_of :: "memory_row \<Rightarrow> uuid \<times> string \<times> stamp" where
  "target_of m = (mm_id m, if owner_directed m then ''owner_directed'' else ''derived'',
     case mm_valid_from m of None \<Rightarrow> Unstamped | Some t \<Rightarrow> At t)"

definition lease_current :: "time \<Rightarrow> candidate_lease \<Rightarrow> candidate_row \<Rightarrow> attempt_row \<Rightarrow> bool" where
  "lease_current now cl c a = (cd_status c = Leased \<and> cd_lease_token c = Some (cl_lease_token cl)
     \<and> ap_lease_token a = cl_lease_token cl \<and> (case cd_leased_until c of None \<Rightarrow> False | Some t \<Rightarrow> now < t)
     \<and> cd_invalidated_at c = None \<and> cd_content c \<noteq> None \<and> cd_fingerprint c \<noteq> None \<and> cd_evidence_set_hash c \<notin> {None, Some []})"

definition project_items :: "'x mem_db_scheme \<Rightarrow> evidence_row \<Rightarrow> evidence_item list \<Rightarrow> mem_error + evidence_item list" where
  "project_items db ref acc =
    ebind (the_row (tget tu_id (ce_turn_id ref) (md_turns db)) (CandidateSnapshotError ''candidate evidence is unavailable'')) (\<lambda>turn.
    ebind (evidence_projection ref turn) (\<lambda>item. Inr (acc @ [item])))"

definition context_of :: "candidate_row \<Rightarrow> command_row option \<Rightarrow> evidence_item list \<Rightarrow> memory_row list \<Rightarrow> claim_context" where
  "context_of c cmd items active =
    \<lparr>cc_content = cd_content c, cc_kind = Some (cd_kind c), cc_scope = Some (cd_scope c), cc_durability = Some (cd_durability c),
     cc_origin = Some (cd_origin c), cc_intake_path = cd_intake_path c,
     cc_temporal_horizon = (case cd_temporal_horizon_at c of None \<Rightarrow> Unstamped | Some t \<Rightarrow> At t),
     cc_owner_confirmation_granted = (json_true ''owner_confirmation_granted'' (cd_decision c) \<noteq> None),
     cc_explicit_operation = map_option cm_operation cmd,
     cc_explicit_target_memory_id = (case cmd of None \<Rightarrow> None | Some x \<Rightarrow> cm_target_memory_id x),
     cc_evidence_times = map (\<lambda>i. At (ei_recorded_at i)) items, cc_targets = map target_of active\<rparr>"

text \<open>The identities that are recorded with the reading; a refresh rewrites the last three.\<close>

definition memory_refs :: "memory_row list \<Rightarrow> memory_row list \<Rightarrow> memory_row list \<Rightarrow> json_obj" where
  "memory_refs active restricted legacy =
    [(''active_memory_ids'', JList (map (\<lambda>m. JStr (mm_id m)) active)),
     (''restricted_memory_ids'', JList (map (\<lambda>m. JStr (mm_id m)) restricted)),
     (''legacy_unverified_target_ids'', JList (map (\<lambda>m. JStr (mm_id m)) legacy))]"

definition evidence_refs_json :: "candidate_row \<Rightarrow> evidence_row list \<Rightarrow> json_obj" where
  "evidence_refs_json c refs =
    [(''trigger_turn_id'', JStr (cd_source_turn_id c)), (''evidence_set_hash'', opt_json (cd_evidence_set_hash c)),
     (''evidence_turn_ids'', JList (map (\<lambda>r. JStr (ce_turn_id r)) refs)),
     (''source_provider_evidence_id'', opt_json (cd_source_provider_evidence_id c))]"

definition load_snapshot ::
  "(string \<Rightarrow> string) \<Rightarrow> time \<Rightarrow> candidate_lease \<Rightarrow> 'x mem_db_scheme shared_db \<Rightarrow> mem_error + loaded_snapshot" where
  "load_snapshot sha now cl s =
    (let db = sd_payload s; err = CandidateSnapshotError ''candidate lease is not current'' in
     ebind (the_row (get_cand (cl_candidate_id cl) db) err) (\<lambda>c.
     ebind (the_row (tget ap_id (cl_attempt_id cl) (md_attempts db)) err) (\<lambda>a.
     ebind (require (lease_current now cl c a) err) (\<lambda>_.
     ebind (the_row (tget tr_id (cd_source_transcript_id c) (md_transcripts db))
       (CandidateSnapshotError ''candidate trigger is unavailable'')) (\<lambda>transcript.
     ebind (the_row (tget tu_id (cd_source_turn_id c) (md_turns db))
       (CandidateSnapshotError ''candidate trigger is unavailable'')) (\<lambda>trigger.
     let refs = ordered_refs (cd_id c) db in
     ebind (require (refs \<noteq> []) (CandidateSnapshotError ''candidate has no canonical evidence'')) (\<lambda>_.
     ebind (require (refs_live c refs db) (CandidateSnapshotError ''candidate evidence is unavailable'')) (\<lambda>_.
     ebind (efold (project_items db) refs []) (\<lambda>items.
     let cmd = explicit_command_context (cd_id c) db;
         target = (case cmd of None \<Rightarrow> None | Some x \<Rightarrow> cm_target_memory_id x);
         (active, restricted, legacy) = related_memories_for sha (cd_kind c) (cd_scope c) (cd_scope_key c) target c db
     in Inr \<lparr>ls_snapshot = \<lparr>es_source_transcript_id = cd_source_transcript_id c, es_source_turn_id = cd_source_turn_id c,
            es_source_revision = tr_content_revision transcript, es_memory_revision = memory_revision s,
            es_publication_allowed = (cd_scope c \<in> {''chat'', ''cross_chat''}
              \<and> \<not> startswith (case cd_scope_key c of None \<Rightarrow> [] | Some k \<Rightarrow> k) ''project-unresolved:''),
            es_active_memory_ids = map mm_id active, es_legacy_target_ids = map mm_id legacy, es_reconciliation_record_id = None,
            es_explicit_operation = (case cmd of None \<Rightarrow> [] | Some x \<Rightarrow> cm_operation x),
            es_explicit_change_type = (case cmd of None \<Rightarrow> [] | Some x \<Rightarrow> json_or ''change_type'' (cm_arguments x) []),
            es_explicit_target_memory_id = target\<rparr>,
          ls_context = context_of c cmd items active, ls_evidence_set_hash = text_of (cd_evidence_set_hash c), ls_evidence = items,
          ls_source_text = source_text trigger, ls_evidence_refs = evidence_refs_json c refs @ memory_refs active restricted legacy\<rparr>)))))))))"

section \<open>Persisted stages\<close>

record reading_row =
  rr_id :: uuid
  rr_candidate_id :: uuid
  rr_attempt_id :: uuid
  rr_evidence_set_hash :: string
  rr_source_revision :: int
  rr_reading :: reading
  rr_verifier_model :: "string option"
  rr_tombstoned_at :: "time option"
  rr_tombstone_operation_id :: "uuid option"

record comparison_row =
  cr_id :: uuid
  cr_candidate_id :: uuid
  cr_reading_id :: uuid
  cr_comparison :: comparison
  cr_tombstoned_at :: "time option"
  cr_tombstone_operation_id :: "uuid option"
  cr_created_at :: time

record record_row =
  re_id :: uuid
  re_candidate_id :: uuid
  re_comparison_id :: uuid
  re_relation :: relation_decision
  re_evaluated_memory_revision :: int
  re_tombstoned_at :: "time option"
  re_tombstone_operation_id :: "uuid option"

record policy_row =
  po_id :: uuid
  po_candidate_id :: uuid
  po_reconciliation_id :: uuid
  po_decision :: policy
  po_reason_code :: "string option"

record verify_db = mem_db +
  vd_readings :: "reading_row list"
  vd_comparisons :: "comparison_row list"
  vd_records :: "record_row list"
  vd_policies :: "policy_row list"

text \<open>The common shape: the live claim, the row of an earlier run of the stage, else the advance of the
  state version, the new row and the stage's marks on the attempt.\<close>

definition persist_reading ::
  "time \<Rightarrow> uuid \<Rightarrow> string option \<Rightarrow> candidate_lease \<Rightarrow> int \<Rightarrow> json_obj \<Rightarrow> reading \<Rightarrow> 'x verify_db_scheme
   \<Rightarrow> mem_error + (reading_row \<times> 'x verify_db_scheme)" where
  "persist_reading now i model cl source_revision refs rg db =
    ebind (locked_live_claim now cl db) (\<lambda>(c, a).
    ebind (one_or_none (filter (\<lambda>r. rr_attempt_id r = cl_attempt_id cl) (vd_readings db))) (\<lambda>existing.
    case existing of Some r \<Rightarrow> Inr (r, db)
    | None \<Rightarrow>
        ebind (advance_candidate_state c a db) (\<lambda>db1.
        let row = \<lparr>rr_id = i, rr_candidate_id = cd_id c, rr_attempt_id = ap_id a, rr_evidence_set_hash = text_of (cd_evidence_set_hash c),
              rr_source_revision = source_revision, rr_reading = rg, rr_verifier_model = or_none (text_of model), rr_tombstoned_at = None,
              rr_tombstone_operation_id = None\<rparr>
        in ebind (require (i \<notin> rr_id ` set (vd_readings db1)) MIntegrityError) (\<lambda>_.
           ebind (flush (upd_attempt (ap_id a) (\<lambda>x. x\<lparr>ap_status := ''blind_read_complete'',
               ap_evaluated_source_revision := Some source_revision, ap_evidence := refs\<rparr>)
             (db1\<lparr>vd_readings := tadd row (vd_readings db1)\<rparr>))) (\<lambda>db2. Inr (row, db2))))))"

definition persist_comparison ::
  "time \<Rightarrow> uuid \<Rightarrow> candidate_lease \<Rightarrow> uuid \<Rightarrow> comparison \<Rightarrow> 'x verify_db_scheme \<Rightarrow> mem_error + (comparison_row \<times> 'x verify_db_scheme)" where
  "persist_comparison now i cl reading_id cv db =
    ebind (locked_live_claim now cl db) (\<lambda>(c, a).
    ebind (require (case tget rr_id reading_id (vd_readings db) of None \<Rightarrow> False | Some r \<Rightarrow> rr_tombstoned_at r = None)
      (CandidateSnapshotError ''blind reading disappeared before comparison'')) (\<lambda>_.
    ebind (one_or_none (filter (\<lambda>r. cr_reading_id r = reading_id) (vd_comparisons db))) (\<lambda>existing.
    case existing of Some r \<Rightarrow> Inr (r, db)
    | None \<Rightarrow>
        ebind (advance_candidate_state c a db) (\<lambda>db1.
        let row = \<lparr>cr_id = i, cr_candidate_id = cd_id c, cr_reading_id = reading_id,
              cr_comparison = cv\<lparr>cv_normalized_content := (case cv_normalized_content cv of Some (x # xs) \<Rightarrow> Some (squash (x # xs)) | _ \<Rightarrow> None)\<rparr>,
              cr_tombstoned_at = None, cr_tombstone_operation_id = None, cr_created_at = now\<rparr>
        in ebind (require (i \<notin> cr_id ` set (vd_comparisons db1)) MIntegrityError) (\<lambda>_.
           ebind (flush (upd_attempt (ap_id a) (\<lambda>x. x\<lparr>ap_status := ''epistemically_evaluated''\<rparr>)
             (db1\<lparr>vd_comparisons := tadd row (vd_comparisons db1)\<rparr>))) (\<lambda>db2. Inr (row, db2)))))))"

fun relation_value :: "relation \<Rightarrow> string" where
  "relation_value R_new = ''new''"
| "relation_value R_duplicate_of = ''duplicate_of''"
| "relation_value R_narrows = ''narrows''"
| "relation_value R_supersedes = ''supersedes''"
| "relation_value R_historical_predecessor = ''historical_predecessor''"
| "relation_value R_grounds_legacy = ''grounds_legacy''"
| "relation_value R_conflicts_with = ''conflicts_with''"

definition recorded_relation :: "relation_decision \<Rightarrow> relation_decision" where
  "recorded_relation r = r\<lparr>rl_replacement_content := (case rl_replacement_content r of Some (x # xs) \<Rightarrow> Some (squash (x # xs)) | _ \<Rightarrow> None),
     rl_temporal_guard := (case rl_temporal_guard r of Some (x # xs) \<Rightarrow> Some (x # xs)
       | _ \<Rightarrow> if rl_relation r \<in> {R_supersedes, R_historical_predecessor, R_conflicts_with} \<and> rl_target_memory_id r \<noteq> None
              then Some ''event_order_checked'' else None)\<rparr>"

definition persist_reconciliation ::
  "time \<Rightarrow> uuid \<Rightarrow> candidate_lease \<Rightarrow> uuid \<Rightarrow> int \<Rightarrow> relation_decision \<Rightarrow> 'x verify_db_scheme
   \<Rightarrow> mem_error + (record_row \<times> 'x verify_db_scheme)" where
  "persist_reconciliation now i cl comparison_id revision r db =
    ebind (locked_live_claim now cl db) (\<lambda>(c, a).
    ebind (require (case tget cr_id comparison_id (vd_comparisons db) of None \<Rightarrow> False | Some x \<Rightarrow> cr_tombstoned_at x = None)
      (CandidateSnapshotError ''comparison disappeared before reconciliation'')) (\<lambda>_.
    ebind (advance_candidate_state c a db) (\<lambda>db1.
    let row = \<lparr>re_id = i, re_candidate_id = cd_id c, re_comparison_id = comparison_id, re_relation = recorded_relation r,
          re_evaluated_memory_revision = revision, re_tombstoned_at = None, re_tombstone_operation_id = None\<rparr>
    in ebind (require (i \<notin> re_id ` set (vd_records db1)) MIntegrityError) (\<lambda>_.
       ebind (flush (upd_attempt (ap_id a) (\<lambda>x. x\<lparr>ap_status := ''reconciled'', ap_evaluated_memory_revision := Some revision,
           ap_semantic_decision := Some (relation_value (rl_relation r)), ap_target_memory_id := rl_target_memory_id r\<rparr>)
         (db1\<lparr>vd_records := tadd row (vd_records db1)\<rparr>))) (\<lambda>db2. Inr (row, db2))))))"

definition policy_status :: "policy \<Rightarrow> string" where
  "policy_status p = (case p of Require_owner_confirmation \<Rightarrow> ''awaiting_policy_confirmation'' | Allow \<Rightarrow> ''policy_allowed''
     | Block_policy \<Rightarrow> ''policy_blocked'')"

definition persist_policy ::
  "time \<Rightarrow> uuid \<Rightarrow> candidate_lease \<Rightarrow> uuid \<Rightarrow> policy \<Rightarrow> string option \<Rightarrow> 'x verify_db_scheme
   \<Rightarrow> mem_error + (policy_row \<times> 'x verify_db_scheme)" where
  "persist_policy now i cl record_id pol reason db =
    ebind (locked_live_claim now cl db) (\<lambda>(c, a).
    ebind (one_or_none (filter (\<lambda>r. po_reconciliation_id r = record_id) (vd_policies db))) (\<lambda>existing.
    case existing of Some r \<Rightarrow> Inr (r, db)
    | None \<Rightarrow>
        ebind (advance_candidate_state c a db) (\<lambda>db1.
        let row = \<lparr>po_id = i, po_candidate_id = cd_id c, po_reconciliation_id = record_id, po_decision = pol, po_reason_code = reason\<rparr>
        in ebind (require (i \<notin> po_id ` set (vd_policies db1)) MIntegrityError) (\<lambda>_.
           ebind (flush (upd_attempt (ap_id a) (\<lambda>x. x\<lparr>ap_status := policy_status pol\<rparr>)
             (db1\<lparr>vd_policies := tadd row (vd_policies db1)\<rparr>))) (\<lambda>db2. Inr (row, db2))))))"

definition reusable_verification ::
  "uuid \<Rightarrow> string \<Rightarrow> int \<Rightarrow> 'x verify_db_scheme \<Rightarrow> (reading_row \<times> comparison_row) option" where
  "reusable_verification cid evidence_hash source_revision db =
    (if evidence_hash = [] then None
     else map_option (\<lambda>(cr, rr). (rr, cr)) (latest_by (\<lambda>(cr, rr). cr_created_at cr)
       [(cr, rr). cr \<leftarrow> vd_comparisons db, rr \<leftarrow> vd_readings db, rr_id rr = cr_reading_id cr \<and> cr_candidate_id cr = cid
          \<and> cr_tombstoned_at cr = None \<and> rr_tombstoned_at rr = None \<and> rr_evidence_set_hash rr = evidence_hash
          \<and> rr_source_revision rr = source_revision]))"

definition rejection_code :: "reading \<Rightarrow> comparison \<Rightarrow> string option" where
  "rejection_code rg cv = (if rg_extracted_claims rg = [] then Some ''no_supported_claim''
     else if cv_verdict cv \<in> {''contradicted'', ''insufficient_evidence''} then Some (cv_verdict cv) else None)"

end
