(* ===== verification/Memory_Lifecycle.thy ===== *)
theory Memory_Lifecycle
  imports Memory_Verification Memory_Intake
begin

text \<open>
  The owner's memory commands (\<^verbatim>\<open>memory/lifecycle.py\<close>): the explicit remember and correct
  requests, which are queued as candidates for verification, and retire and restore, which
  change durable memory inside the shared write boundary. Arguments are the JSON object of
  the tool call. \<open>owner_env\<close> holds what a command takes from its surroundings: the clock, fresh
  identities, the current transcript, SHA-256, \<^verbatim>\<open>UUID(str)\<close>, \<^verbatim>\<open>isoformat\<close> and the text of an exception.
\<close>

section \<open>Tables the commands touch beyond the pipeline's\<close>

record chunk_row =
  ck_id :: uuid
  ck_transcript_id :: uuid
  ck_start_sequence :: int
  ck_end_sequence :: int

record index_state_row =
  ix_transcript_id :: uuid
  ix_index_version :: string
  ix_last_indexed_sequence :: int

record discovery_row =
  dv_transcript_id :: uuid
  dv_last_scanned_sequence :: int
  dv_updated_at :: time

record deletion_receipt =
  dr_operation_id :: uuid
  dr_target_memory_id :: uuid
  dr_scope :: string
  dr_affected :: json_obj

record capsule_row =
  kp_id :: uuid
  kp_transcript_id :: uuid

record life_db = verify_db +
  ld_capsules :: "capsule_row list"
  ld_chunks :: "chunk_row list"
  ld_index_states :: "index_state_row list"
  ld_discovery :: "discovery_row list"
  ld_receipts :: "deletion_receipt list"

record owner_env =
  oe_sha :: "string \<Rightarrow> string"
  oe_now :: time
  oe_current_transcript :: "uuid option"
  oe_uuid :: "string \<Rightarrow> uuid option"
  oe_iso :: "time \<Rightarrow> string"
  oe_exc_text :: "mem_error write_error \<Rightarrow> string"
  oe_command_id :: uuid
  oe_candidate_id :: uuid
  oe_memory_id :: uuid
  oe_obligation_id :: uuid
  oe_operation_id :: uuid
  oe_transcript_id :: uuid
  oe_turn_id :: uuid

type_synonym owner_source = "uuid option \<times> uuid option"

section \<open>Arguments\<close>

text \<open>\<^verbatim>\<open>arguments.get(key)\<close> compared with \<^verbatim>\<open>None\<close>.\<close>

definition given :: "string \<Rightarrow> json_obj \<Rightarrow> json option" where
  "given k args = (case json_get k args of None \<Rightarrow> None | Some JNull \<Rightarrow> None | Some v \<Rightarrow> Some v)"

definition clean_value :: "string \<Rightarrow> json option \<Rightarrow> mem_error + string" where
  "clean_value field v =
    (let content = squash (case v of None \<Rightarrow> [] | Some x \<Rightarrow> if truthy x then py_str x else []) in
     ebind (require (content \<noteq> []) (MValueError (field @ '' cannot be empty''))) (\<lambda>_.
     ebind (require (length content \<le> 4000) (MValueError (field @ '' exceeds 4000 characters''))) (\<lambda>_. Inr content)))"

definition clean_given :: "string \<Rightarrow> json option \<Rightarrow> mem_error + string option" where
  "clean_given field v = (case v of None \<Rightarrow> Inr None | Some x \<Rightarrow> ebind (clean_value field (Some x)) (\<lambda>s. Inr (Some s)))"

definition uuid_arg :: "owner_env \<Rightarrow> json \<Rightarrow> mem_error + uuid" where
  "uuid_arg e v = the_row (oe_uuid e (py_str v)) (MValueError ''badly formed hexadecimal UUID string'')"

record classification =
  kl_memory_kind :: string
  kl_scope :: string
  kl_scope_key :: "string option"
  kl_durability :: string
  kl_subject :: "string option"
  kl_namespace :: "string option"

definition classification_of :: "json_obj \<Rightarrow> uuid option \<Rightarrow> mem_error + classification" where
  "classification_of args source_transcript_id =
    (let memory_kind = strip (json_or ''kind'' args ''fact''); scope = strip (json_or ''scope'' args ''cross_chat'');
         durability = strip (json_or ''durability'' args ''long_term'') in
     ebind (require (memory_kind \<in> set candidate_kinds) (MValueError ''invalid memory kind'')) (\<lambda>_.
     ebind (require (scope \<in> {''chat'', ''cross_chat''})
       (MValueError ''project-scoped durable memory requires a runtime-bound project identity'')) (\<lambda>_.
     ebind (require (durability \<in> {''short_term'', ''long_term''}) (MValueError ''invalid memory durability'')) (\<lambda>_.
     ebind (if scope = ''chat'' then
         (case source_transcript_id of None \<Rightarrow> Inl (MValueError ''chat-scoped memory requires an owner transcript'')
          | Some t \<Rightarrow> Inr (''chat:'' @ t))
       else Inr ''owner'') (\<lambda>scope_key.
     Inr \<lparr>kl_memory_kind = memory_kind, kl_scope = scope, kl_scope_key = Some scope_key, kl_durability = durability,
       kl_subject = or_none (take 160 (squash (json_or ''subject'' args []))),
       kl_namespace = or_none (take 160 (squash (json_or ''namespace'' args [])))\<rparr>)))))"

text \<open>\<^verbatim>\<open>DurableMemoryRepository.latest_owner_source\<close>.\<close>

definition owner_turns :: "uuid option \<Rightarrow> 'x mem_db_scheme \<Rightarrow> turn_row list" where
  "owner_turns cur db = filter (\<lambda>t. tu_actor t = ''owner'' \<and>
     (case tget tr_id (tu_transcript_id t) (md_transcripts db) of None \<Rightarrow> False
      | Some tr \<Rightarrow> tr_kind tr = ''owner''
          \<and> (case cur of None \<Rightarrow> tr_closed_at tr = None | Some i \<Rightarrow> tr_id tr = i))) (md_turns db)"

definition latest_owner_source :: "uuid option \<Rightarrow> 'x mem_db_scheme \<Rightarrow> owner_source" where
  "latest_owner_source cur db = (case latest_by tu_sequence (owner_turns cur db) of None \<Rightarrow> (None, None)
     | Some t \<Rightarrow> (Some (tu_transcript_id t), Some (tu_id t)))"

section \<open>Explicit content commands\<close>

definition new_command :: "owner_env \<Rightarrow> string \<Rightarrow> json_obj \<Rightarrow> owner_source \<Rightarrow> uuid option \<Rightarrow> command_row" where
  "new_command e operation args source target =
    \<lparr>cm_id = oe_command_id e, cm_operation = operation, cm_status = CPENDING, cm_arguments = args,
     cm_source_transcript_id = fst source, cm_source_turn_id = snd source, cm_target_memory_id = target,
     cm_replacement_memory_id = None, cm_error = None, cm_applied_at = None, cm_failed_at = None\<rparr>"

definition add_command :: "command_row \<Rightarrow> 'x mem_db_scheme \<Rightarrow> mem_error + 'x mem_db_scheme" where
  "add_command cm db = ebind (require (cm_id cm \<notin> cm_id ` set (md_commands db)) MIntegrityError)
     (\<lambda>_. flush (db\<lparr>md_commands := tadd cm (md_commands db)\<rparr>))"

definition explicit_obligation ::
  "owner_env \<Rightarrow> string \<Rightarrow> obligation_status \<Rightarrow> string \<Rightarrow> uuid \<Rightarrow> owner_source \<Rightarrow> string option \<Rightarrow> json_obj \<Rightarrow> obligation_row" where
  "explicit_obligation e operation st subject_type subject source code resolution =
    \<lparr>ob_id = oe_obligation_id e, ob_kind = obligation_kind_for operation, ob_status = st, ob_subject_type = subject_type,
     ob_subject_id = Some subject, ob_origin = origin_for operation, ob_command_id = Some (oe_command_id e),
     ob_source_transcript_id = fst source, ob_source_turn_id = snd source, ob_resolution_source_transcript_id = None,
     ob_resolution_source_turn_id = None, ob_resolution_code = code, ob_resolution = resolution, ob_expires_at = None,
     ob_created_at = oe_now e, ob_resolved_at = (if st = Resolved then Some (oe_now e) else None)\<rparr>"

definition explicit_proposal :: "string \<Rightarrow> classification \<Rightarrow> uuid \<Rightarrow> memory_candidate" where
  "explicit_proposal content k turn_id =
    \<lparr>mc_kind = kl_memory_kind k, mc_content = content, mc_scope = kl_scope k, mc_confidence = 1, mc_durability = kl_durability k,
     mc_subject = kl_subject k, mc_namespace = kl_namespace k,
     mc_evidence_refs = [\<lparr>er_handle = None, er_turn_id = Some turn_id, er_span_ref = []\<rparr>]\<rparr>"

definition explicit_intake :: "owner_env \<Rightarrow> string \<Rightarrow> uuid \<Rightarrow> uuid \<Rightarrow> intake" where
  "explicit_intake e operation transcript_id turn_id =
    \<lparr>ik_sha = oe_sha e, ik_now = oe_now e, ik_source_transcript_id = transcript_id, ik_source_turn_id = turn_id,
     ik_source_provider_evidence_id = None, ik_allowed_turn_ids = Some [turn_id], ik_handle_map = None,
     ik_proposer_model = None, ik_intake_path = ''explicit_command'', ik_origin = origin_for operation,
     ik_temporal_horizon_at = None\<rparr>"

definition canonical_owner_turn :: "uuid \<Rightarrow> turn_row option \<Rightarrow> bool" where
  "canonical_owner_turn transcript_id t = (case t of None \<Rightarrow> False
     | Some turn \<Rightarrow> tu_deleted_at turn = None \<and> tu_actor turn = ''owner'' \<and> tu_transcript_id turn = transcript_id)"

text \<open>The guard row of a correction of text that no active memory holds.\<close>

definition correction_guard ::
  "owner_env \<Rightarrow> string \<Rightarrow> string option \<Rightarrow> owner_source \<Rightarrow> 'x mem_db_scheme \<Rightarrow> mem_error + 'x mem_db_scheme" where
  "correction_guard e operation legacy source db = (case (operation, legacy) of
      (_, None) \<Rightarrow> Inr db
    | (_, Some old) \<Rightarrow> if operation \<noteq> ''correct'' \<or> old = [] then Inr db
        else ebind (create_guard (oe_sha e) (oe_now e) (oe_memory_id e) old SUPERSEDED ''owner_correction_guard'' (fst source) (snd source) db)
          (\<lambda>(guard, _, db1). Inr (upd_command (oe_command_id e) (\<lambda>cm. cm\<lparr>cm_target_memory_id := Some (mm_id guard)\<rparr>) db1)))"

definition suppression :: "string \<Rightarrow> string option \<Rightarrow> mem_error + json_obj" where
  "suppression operation content = (case content of
      Some (c # cs) \<Rightarrow> if operation = ''correct''
        then ebind (clean_memory_content (c # cs)) (\<lambda>t. Inr [(''_context_suppression'', JObj [(''contents'', JList [JStr t])])])
        else Inr []
    | _ \<Rightarrow> Inr [])"

record explicit_request =
  xr_operation :: string
  xr_content :: string
  xr_classification :: classification
  xr_target_memory_id :: "uuid option"
  xr_change_type :: "string option"
  xr_legacy_old_content :: "string option"
  xr_suppression_content :: "string option"

definition queue_explicit_content_command_in ::
  "owner_env \<Rightarrow> explicit_request \<Rightarrow> owner_source \<Rightarrow> 'x mem_db_scheme \<Rightarrow> mem_error + (json_obj \<times> 'x mem_db_scheme)" where
  "queue_explicit_content_command_in e x source db =
    (let operation = xr_operation x; k = xr_classification x in
     ebind (require (operation \<in> {''remember'', ''correct''}) (MValueError ''unsupported explicit content command'')) (\<lambda>_.
     ebind (the_row (fst source) (MValueError ''no canonical owner turn is available for evidence'')) (\<lambda>transcript_id.
     ebind (the_row (snd source) (MValueError ''no canonical owner turn is available for evidence'')) (\<lambda>turn_id.
     let stored = [(''kind'', JStr (kl_memory_kind k)), (''scope'', JStr (kl_scope k)), (''durability'', JStr (kl_durability k))]
           @ (case xr_change_type x of None \<Rightarrow> [] | Some c \<Rightarrow> [(''change_type'', JStr c)]) in
     ebind (require (canonical_owner_turn transcript_id (tget tu_id turn_id (md_turns db)))
       (MValueError ''canonical owner evidence is unavailable'')) (\<lambda>_.
     ebind (add_command (new_command e operation stored source (xr_target_memory_id x)) db) (\<lambda>db1.
     ebind (require (candidate_valid (explicit_proposal (xr_content x) k turn_id)) (MValidationError ''content'' ''value_error'')) (\<lambda>_.
     ebind (enqueue (explicit_intake e operation transcript_id turn_id) (oe_candidate_id e)
       (explicit_proposal (xr_content x) k turn_id) db1) (\<lambda>(candidate, _, db2).
     ebind (correction_guard e operation (xr_legacy_old_content x) source db2) (\<lambda>db3.
     ebind (add_obligation (explicit_obligation e operation Open ''memory_candidate'' (cd_id candidate) source None []) db3) (\<lambda>db4.
     ebind (suppression operation (xr_suppression_content x)) (\<lambda>sup.
     Inr ([(''command_id'', JStr (oe_command_id e)), (''candidate_id'', JStr (cd_id candidate)),
        (''obligation_id'', JStr (oe_obligation_id e)), (''status'', JStr ''queued''), (''operation'', JStr operation),
        (''result'', JStr ''queued_for_verification'')] @ sup, db4))))))))))))"

definition record_explicit_intake_failure ::
  "owner_env \<Rightarrow> string \<Rightarrow> owner_source \<Rightarrow> string \<Rightarrow> 'x mem_db_scheme \<Rightarrow> mem_error + (json_obj \<times> 'x mem_db_scheme)" where
  "record_explicit_intake_failure e operation source reason db =
    ebind (add_command ((new_command e operation [] source None)\<lparr>cm_status := CFAILED, cm_error := Some reason,
        cm_failed_at := Some (oe_now e)\<rparr>) db) (\<lambda>db1.
    ebind (add_obligation (explicit_obligation e operation Resolved ''memory_command'' (oe_command_id e) source
        (Some ''intake_failed'') [(''reason'', JStr reason)]) db1) (\<lambda>db2.
    Inr ([(''command_id'', JStr (oe_command_id e)), (''obligation_id'', JStr (oe_obligation_id e)), (''status'', JStr ''failed''),
      (''operation'', JStr operation), (''result'', JStr ''intake_failed''), (''reason'', JStr reason)], db2)))"

text \<open>A transaction that fails is rolled back, so the failure is recorded on the database it started from.\<close>

definition queue_explicit_content_command ::
  "owner_env \<Rightarrow> explicit_request \<Rightarrow> owner_source \<Rightarrow> 'x mem_db_scheme \<Rightarrow> mem_error + (json_obj \<times> 'x mem_db_scheme)" where
  "queue_explicit_content_command e x source db =
    ebind (require (xr_operation x \<in> {''remember'', ''correct''}) (MValueError ''unsupported explicit content command'')) (\<lambda>_.
    if fst source = None \<or> snd source = None then
      record_explicit_intake_failure e (xr_operation x) source ''no canonical owner turn is available for evidence'' db
    else (case queue_explicit_content_command_in e x source db of
        Inr r \<Rightarrow> Inr r
      | Inl err \<Rightarrow> record_explicit_intake_failure e (xr_operation x) source (take 500 (oe_exc_text e (MutationRaised err))) db))"

definition remember :: "owner_env \<Rightarrow> json_obj \<Rightarrow> 'x mem_db_scheme \<Rightarrow> mem_error + (json_obj \<times> 'x mem_db_scheme)" where
  "remember e args db =
    ebind (clean_value ''content'' (json_get ''content'' args)) (\<lambda>content.
    let source = latest_owner_source (oe_current_transcript e) db in
    ebind (classification_of args (fst source)) (\<lambda>k.
    queue_explicit_content_command e \<lparr>xr_operation = ''remember'', xr_content = content, xr_classification = k,
      xr_target_memory_id = None, xr_change_type = None, xr_legacy_old_content = None, xr_suppression_content = None\<rparr> source db))"

definition target_classification :: "memory_row option \<Rightarrow> classification" where
  "target_classification target = (case target of
      None \<Rightarrow> \<lparr>kl_memory_kind = ''fact'', kl_scope = ''cross_chat'', kl_scope_key = Some ''owner'', kl_durability = ''long_term'',
        kl_subject = None, kl_namespace = None\<rparr>
    | Some m \<Rightarrow> \<lparr>kl_memory_kind = (case mm_memory_kind m of Some (c # cs) \<Rightarrow> c # cs | _ \<Rightarrow> ''fact''), kl_scope = mm_scope m,
        kl_scope_key = mm_scope_key m, kl_durability = mm_durability m, kl_subject = mm_subject m, kl_namespace = mm_namespace m\<rparr>)"

definition correction_request :: "string \<Rightarrow> string \<Rightarrow> string option \<Rightarrow> memory_row option \<Rightarrow> explicit_request" where
  "correction_request content change_type old_content target =
    \<lparr>xr_operation = ''correct'', xr_content = content, xr_classification = target_classification target,
     xr_target_memory_id = map_option mm_id target, xr_change_type = Some change_type,
     xr_legacy_old_content = (if target = None then old_content else None),
     xr_suppression_content = (case target of None \<Rightarrow> old_content | Some m \<Rightarrow> mm_content m)\<rparr>"

definition correct :: "owner_env \<Rightarrow> json_obj \<Rightarrow> 'x mem_db_scheme \<Rightarrow> mem_error + (json_obj \<times> 'x mem_db_scheme)" where
  "correct e args db =
    ebind (clean_value ''content'' (json_get ''content'' args)) (\<lambda>new_content.
    ebind (clean_given ''old_content'' (given ''old_content'' args)) (\<lambda>old_content.
    ebind (require (given ''memory_id'' args \<noteq> None \<or> old_content \<noteq> None)
      (MValueError ''correct requires memory_id or old_content'')) (\<lambda>_.
    let change_type = json_or ''change_type'' args ''correction'' in
    ebind (require (change_type \<in> {''correction'', ''change_over_time''}) (MValueError ''invalid change_type'')) (\<lambda>_.
    let source = latest_owner_source (oe_current_transcript e) db;
        queue = (\<lambda>target. queue_explicit_content_command e (correction_request new_content change_type old_content target) source db) in
    (case given ''memory_id'' args of
       Some raw \<Rightarrow>
         ebind (uuid_arg e raw) (\<lambda>i.
         (case get_memory i db of
            None \<Rightarrow> record_explicit_intake_failure e ''correct'' source ''target memory does not exist'' db
          | Some m \<Rightarrow>
              if mm_status m = DELETED then record_explicit_intake_failure e ''correct'' source ''target memory does not exist'' db
              else if mm_status m \<noteq> ACTIVE then record_explicit_intake_failure e ''correct'' source ''target memory is not active'' db
              else queue (Some m)))
     | None \<Rightarrow>
         ebind (active_by_fingerprint (memory_fingerprint (oe_sha e) (text_of old_content)) db) queue)))))"

end
