(* ===== verification/Memory_Commands.thy ===== *)
theory Memory_Commands
  imports Memory_Lifecycle
begin

text \<open>
  The owner commands that write durable memory at once (\<^verbatim>\<open>memory/lifecycle.py\<close>): the frame
  of a command (its row, its run inside the shared write boundary, its failure), redaction of
  removed text, invalidation of the candidates that rest on it, and the commands retire and restore.
\<close>

section \<open>The frame of a command\<close>

datatype owner_error = Refused mem_error | Mutation_failed string uuid "mem_error write_error"

definition begin_command ::
  "owner_env \<Rightarrow> string \<Rightarrow> json_obj \<Rightarrow> owner_source \<Rightarrow> 'x mem_db_scheme \<Rightarrow> mem_error + 'x mem_db_scheme" where
  "begin_command e operation stored source db = add_command (new_command e operation stored source None) db"

definition pending_for_command :: "uuid \<Rightarrow> 'x mem_db_scheme \<Rightarrow> mem_error + obligation_row option" where
  "pending_for_command i db =
    one_or_none (filter (\<lambda>ob. ob_command_id ob = Some i \<and> ob_status ob = Open) (md_obligations db))"

definition resolve_for_command ::
  "uuid \<Rightarrow> (obligation_row \<Rightarrow> obligation_row) \<Rightarrow> 'x mem_db_scheme \<Rightarrow> mem_error + 'x mem_db_scheme" where
  "resolve_for_command i f db = ebind (pending_for_command i db) (\<lambda>ob.
     case ob of None \<Rightarrow> Inr db | Some x \<Rightarrow> Inr (upd_obligation (ob_id x) f db))"

definition apply_owner_command ::
  "time \<Rightarrow> uuid \<Rightarrow> uuid option \<Rightarrow> uuid option \<Rightarrow> 'x mem_db_scheme \<Rightarrow> mem_error + 'x mem_db_scheme" where
  "apply_owner_command now i target replacement db =
    ebind (the_row (tget cm_id i (md_commands db)) MAssertionError) (\<lambda>_.
    resolve_for_command i
      (\<lambda>ob. ob\<lparr>ob_status := Resolved, ob_resolution_code := Some ''persisted'',
        ob_resolution := [(''target_memory_id'', opt_json target), (''replacement_memory_id'', opt_json replacement)],
        ob_resolved_at := Some now\<rparr>)
      (upd_command i (\<lambda>cm. cm\<lparr>cm_status := APPLIED, cm_target_memory_id := target, cm_replacement_memory_id := replacement,
        cm_applied_at := Some now\<rparr>) db))"

definition fail_owner_command :: "owner_env \<Rightarrow> mem_error write_error \<Rightarrow> 'x mem_db_scheme \<Rightarrow> mem_error + 'x mem_db_scheme" where
  "fail_owner_command e err db = (case tget cm_id (oe_command_id e) (md_commands db) of None \<Rightarrow> Inr db
     | Some _ \<Rightarrow> resolve_for_command (oe_command_id e)
         (\<lambda>ob. ob\<lparr>ob_status := Resolved, ob_resolution_code := Some ''failed'', ob_resolution := [], ob_resolved_at := Some (oe_now e)\<rparr>)
         (upd_command (oe_command_id e) (\<lambda>cm. cm\<lparr>cm_status := CFAILED, cm_error := Some (take 2000 (oe_exc_text e err)),
           cm_failed_at := Some (oe_now e)\<rparr>) db))"

definition command_envelope :: "owner_env \<Rightarrow> owner_source \<Rightarrow> string \<Rightarrow> envelope" where
  "command_envelope e source operation =
    \<lparr>e_operation_id = oe_command_id e, e_resource_type = MEMORY_RESOURCE_TYPE, e_resource_id = MEMORY_RESOURCE_ID,
     e_operation = operation, e_expected_version = None,
     e_payload = [(''command_id'', JStr (oe_command_id e)), (''operation'', JStr operation)], e_actor = ''owner'',
     e_source_transcript_id = fst source, e_source_turn_id = snd source, e_source_run_id = None\<rparr>"

fun memory_status_value :: "memory_status \<Rightarrow> string" where
  "memory_status_value ACTIVE = ''active''"
| "memory_status_value RETIRED = ''retired''"
| "memory_status_value SUPERSEDED = ''superseded''"
| "memory_status_value DELETED = ''deleted''"

definition project_memory :: "owner_env \<Rightarrow> memory_row \<Rightarrow> json_obj" where
  "project_memory e m =
    (let owner = owner_directed m; iso = (\<lambda>t. case t of None \<Rightarrow> JNull | Some x \<Rightarrow> JStr (oe_iso e x)) in
     [(''memory_id'', JStr (mm_id m)), (''source_class'', JStr (if owner then ''owner_canonical_memory'' else ''derived_memory'')),
      (''status'', JStr (memory_status_value (mm_status m))), (''record_kind'', JStr (mm_record_kind m)),
      (''grounding_status'', JStr (mm_grounding_status m)), (''memory_kind'', opt_json (mm_memory_kind m)),
      (''scope'', JStr (mm_scope m)), (''scope_key'', opt_json (mm_scope_key m)), (''durability'', JStr (mm_durability m)),
      (''subject'', opt_json (mm_subject m)), (''namespace'', opt_json (mm_namespace m)), (''content'', opt_json (mm_content m)),
      (''source_transcript_id'', opt_json (mm_source_transcript_id m)), (''source_turn_id'', opt_json (mm_source_turn_id m)),
      (''supersedes_id'', opt_json (mm_supersedes_id m)), (''superseded_by_id'', opt_json (mm_superseded_by_id m)),
      (''valid_from'', iso (mm_valid_from m)), (''valid_to'', iso (mm_valid_to m)), (''retired_at'', iso (mm_retired_at m)),
      (''deleted_at'', iso (mm_deleted_at m)), (''created_at'', iso (Some (mm_created_at m))),
      (''updated_at'', iso (Some (mm_updated_at m))), (''lexical_rank'', JNull), (''semantic_similarity'', JNull),
      (''hybrid_rank'', JNull), (''retrieval_sources'', JList []),
      (''authority'', JStr (if owner then ''owner_directed'' else ''derived''))])"

definition answered_memory :: "owner_env \<Rightarrow> receipt \<Rightarrow> 'x mem_db_scheme \<Rightarrow> json_obj" where
  "answered_memory e rc db = (case json_true ''memory_id'' (r_result rc) of None \<Rightarrow> []
     | Some v \<Rightarrow> (case oe_uuid e (py_str v) of None \<Rightarrow> []
         | Some i \<Rightarrow> (case get_memory i db of None \<Rightarrow> [] | Some m \<Rightarrow> [(''memory'', JObj (project_memory e m))])))"

text \<open>\<open>captured\<close> is the text that the mutation read under the write lock.\<close>

definition command_answer ::
  "owner_env \<Rightarrow> string \<Rightarrow> bool \<Rightarrow> string option \<Rightarrow> receipt \<Rightarrow> 'x mem_db_scheme \<Rightarrow> json_obj" where
  "command_answer e operation include_memory captured rc db =
    json_merge [(''command_id'', JStr (oe_command_id e)), (''status'', JStr ''applied''), (''operation'', JStr operation),
      (''memory_revision'', case r_committed_version rc of None \<Rightarrow> JNull | Some v \<Rightarrow> JInt v)] (r_result rc)
    @ (if include_memory then answered_memory e rc db else [])
    @ (case captured of
         Some (c # cs) \<Rightarrow> if operation \<in> {''correct'', ''retire'', ''delete''} \<and> json_get ''result'' (r_result rc) \<noteq> Some (JStr ''already_current'')
           then [(''_context_suppression'', JObj [(''contents'', JList [JStr (c # cs)])])] else []
       | _ \<Rightarrow> [])"

definition run_command ::
  "owner_env \<Rightarrow> owner_source \<Rightarrow> string \<Rightarrow> ('x mem_db_scheme \<Rightarrow> int \<Rightarrow> mem_error + ('x mem_db_scheme \<times> mutation)) \<Rightarrow> bool
   \<Rightarrow> (receipt \<Rightarrow> 'x mem_db_scheme \<Rightarrow> 'x mem_db_scheme \<Rightarrow> string option) \<Rightarrow> 'x mem_db_scheme shared_db
   \<Rightarrow> (owner_error + json_obj) \<times> 'x mem_db_scheme shared_db" where
  "run_command e source operation mut include_memory captured s =
    (case writer_execute (oe_sha e) (command_envelope e source operation) mut s of
       (Inr rc, s') \<Rightarrow>
         (Inr (command_answer e operation include_memory (captured rc (sd_payload s) (sd_payload s')) rc (sd_payload s')), s')
     | (Inl err, s') \<Rightarrow>
         (case fail_owner_command e err (sd_payload s') of
            Inl err' \<Rightarrow> (Inl (Refused err'), s')
          | Inr db \<Rightarrow> (Inl (Mutation_failed operation (oe_command_id e) err), s'\<lparr>sd_payload := db\<rparr>)))"

text \<open>The row is written in a transaction of its own, then the mutation runs.\<close>

definition owner_command ::
  "owner_env \<Rightarrow> string \<Rightarrow> json_obj \<Rightarrow> owner_source \<Rightarrow> ('x mem_db_scheme \<Rightarrow> int \<Rightarrow> mem_error + ('x mem_db_scheme \<times> mutation)) \<Rightarrow> bool
   \<Rightarrow> (receipt \<Rightarrow> 'x mem_db_scheme \<Rightarrow> 'x mem_db_scheme \<Rightarrow> string option) \<Rightarrow> 'x mem_db_scheme shared_db
   \<Rightarrow> (owner_error + json_obj) \<times> 'x mem_db_scheme shared_db" where
  "owner_command e operation stored source mut include_memory captured s =
    (case begin_command e operation stored source (sd_payload s) of
       Inl err \<Rightarrow> (Inl (Refused err), s)
     | Inr db \<Rightarrow> run_command e source operation mut include_memory captured (s\<lparr>sd_payload := db\<rparr>))"

section \<open>Redaction\<close>

definition DELETION_MARKER :: string where "DELETION_MARKER = ''[Content deleted by owner]''"

text \<open>\<^verbatim>\<open>re.subn(re.escape(content), marker, value, flags=re.IGNORECASE)\<close>: the leftmost occurrences, for a
  content that is not empty (no caller passes an empty one).\<close>

fun redact_string :: "string \<Rightarrow> string \<Rightarrow> string \<times> bool" where
  "redact_string content [] = ([], False)"
| "redact_string content (c # cs) =
    (if content \<noteq> [] \<and> startswith (casefold (c # cs)) (casefold content)
     then (DELETION_MARKER @ fst (redact_string content (drop (length content) (c # cs))), True)
     else (let r = redact_string content cs in (c # fst r, snd r)))"

primrec redact_value :: "json \<Rightarrow> string \<Rightarrow> json \<times> bool" where
  "redact_value JNull content = (JNull, False)"
| "redact_value (JBool b) content = (JBool b, False)"
| "redact_value (JInt i) content = (JInt i, False)"
| "redact_value (JFloat x) content = (JFloat x, False)"
| "redact_value (JStr s) content = (JStr (fst (redact_string content s)), snd (redact_string content s))"
| "redact_value (JList xs) content =
    (let ys = map (\<lambda>x. redact_value x content) xs in (JList (map fst ys), list_ex snd ys))"
| "redact_value (JObj kvs) content =
    (let ys = map (map_prod id (\<lambda>x. redact_value x content)) kvs in (JObj (map (map_prod id fst) ys), list_ex (snd \<circ> snd) ys))"

definition redact_blocks :: "string \<Rightarrow> json list \<Rightarrow> json list \<times> bool" where
  "redact_blocks content blocks = (let ys = map (\<lambda>b. redact_value b content) blocks in (map fst ys, list_ex snd ys))"

definition redact_turn :: "time \<Rightarrow> uuid \<Rightarrow> json list \<Rightarrow> turn_row \<Rightarrow> turn_row" where
  "redact_turn now op blocks t = t\<lparr>tu_blocks := blocks, tu_deleted_at := Some now, tu_deletion_operation_id := Some op\<rparr>"

definition upd_turn :: "uuid \<Rightarrow> (turn_row \<Rightarrow> turn_row) \<Rightarrow> 'x mem_db_scheme \<Rightarrow> 'x mem_db_scheme" where
  "upd_turn i f db = db\<lparr>md_turns := tset tu_id i f (md_turns db)\<rparr>"

section \<open>Invalidation of candidates\<close>

definition contains :: "string \<Rightarrow> string \<Rightarrow> bool" where
  "contains p s = list_ex (\<lambda>n. startswith (drop n s) p) [0..<Suc (length s)]"

definition mentions :: "string option \<Rightarrow> candidate_row \<Rightarrow> bool" where
  "mentions content c = (case (content, cd_content c) of
      (Some (x # xs), Some (y # ys)) \<Rightarrow> contains (casefold (x # xs)) (casefold (y # ys)) | _ \<Rightarrow> False)"

definition selected_candidate :: "uuid list \<Rightarrow> uuid list \<Rightarrow> string option \<Rightarrow> 'x mem_db_scheme \<Rightarrow> candidate_row \<Rightarrow> bool" where
  "selected_candidate turn_ids ids content db c =
    (cd_source_turn_id c \<in> set turn_ids \<or> cd_id c \<in> set ids
   \<or> (\<exists>r \<in> set (md_evidence db). ce_candidate_id r = cd_id c \<and> ce_turn_id r \<in> set turn_ids) \<or> mentions content c)"

definition redact_in_turn :: "string list \<Rightarrow> json list \<Rightarrow> json list \<times> bool" where
  "redact_in_turn contents blocks = foldl (\<lambda>(bs, changed) v. if v = [] then (bs, changed)
      else (let r = redact_blocks v bs in (fst r, changed \<or> snd r))) (blocks, False) contents"

definition redact_provider_evidence ::
  "time \<Rightarrow> uuid \<Rightarrow> string option \<Rightarrow> string option \<Rightarrow> candidate_row \<Rightarrow> uuid list \<times> 'x mem_db_scheme \<Rightarrow> uuid list \<times> 'x mem_db_scheme" where
  "redact_provider_evidence now op content redact_content c s = (case s of (ids, db) \<Rightarrow>
     (case cd_source_provider_evidence_id c of None \<Rightarrow> (ids, db)
      | Some i \<Rightarrow> (case tget tu_id i (md_turns db) of None \<Rightarrow> (ids, db)
          | Some t \<Rightarrow> if tu_deleted_at t \<noteq> None then (ids, db)
              else (let r = redact_in_turn (map text_of [content, redact_content, cd_content c, cd_evidence c]) (tu_blocks t) in
                if snd r then (ids @ [i], upd_turn i (redact_turn now op (fst r)) db) else (ids, db)))))"

definition purge_row :: "time \<Rightarrow> uuid \<Rightarrow> candidate_row \<Rightarrow> candidate_row" where
  "purge_row now op c = c\<lparr>cd_state_version := (if cd_invalidated_at c = None then cd_state_version c + 1 else cd_state_version c),
     cd_status := Invalidated, cd_lease_token := None, cd_leased_until := None, cd_review_after := None,
     cd_processed_at := Some now, cd_invalidated_at := Some now, cd_invalidation_operation_id := Some op\<rparr>"

definition scrub_row :: "candidate_row \<Rightarrow> candidate_row" where
  "scrub_row c = c\<lparr>cd_content := None, cd_fingerprint := None, cd_evidence := None, cd_decision := []\<rparr>"

definition purge_candidate ::
  "time \<Rightarrow> uuid \<Rightarrow> bool \<Rightarrow> candidate_row \<Rightarrow> 'x mem_db_scheme \<Rightarrow> mem_error + 'x mem_db_scheme" where
  "purge_candidate now op scrub c db =
    ebind (settle_explicit_obligation now None (Some ''evidence_purged'') (Some ''evidence_purged'') (purge_row now op c)
      (upd_cand (cd_id c) (purge_row now op) db)) (\<lambda>db1.
    Inr (if scrub then upd_cand (cd_id c) scrub_row db1 else db1))"

text \<open>What the pipeline derived from the purged candidates.\<close>

definition tombstone_attempt :: "time \<Rightarrow> attempt_row \<Rightarrow> attempt_row" where
  "tombstone_attempt now a = a\<lparr>ap_status := ''invalidated'', ap_completed_at := Some now, ap_error := None, ap_evidence := [],
     ap_result := [(''result'', JStr ''invalidated''), (''code'', JStr ''evidence_purged'')]\<rparr>"

definition tombstone_reading :: "time \<Rightarrow> uuid \<Rightarrow> reading_row \<Rightarrow> reading_row" where
  "tombstone_reading now op r = r\<lparr>rr_reading := (rr_reading r)\<lparr>rg_extracted_claims := [], rg_category := None, rg_scope := None,
     rg_durability := None, rg_event_valid_from := None, rg_event_valid_to := None\<rparr>,
     rr_tombstoned_at := Some now, rr_tombstone_operation_id := Some op\<rparr>"

definition tombstone_comparison :: "time \<Rightarrow> uuid \<Rightarrow> comparison_row \<Rightarrow> comparison_row" where
  "tombstone_comparison now op r = r\<lparr>cr_comparison := (cr_comparison r)\<lparr>cv_normalized_content := None, cv_category := None,
     cv_scope := None, cv_durability := None\<rparr>, cr_tombstoned_at := Some now, cr_tombstone_operation_id := Some op\<rparr>"

definition tombstone_record :: "time \<Rightarrow> uuid \<Rightarrow> record_row \<Rightarrow> record_row" where
  "tombstone_record now op r = r\<lparr>re_relation := (re_relation r)\<lparr>rl_replacement_content := None\<rparr>,
     re_tombstoned_at := Some now, re_tombstone_operation_id := Some op\<rparr>"

definition tombstone_conflict :: "time \<Rightarrow> uuid \<Rightarrow> conflict_row \<Rightarrow> conflict_row" where
  "tombstone_conflict now op r = r\<lparr>cf_proposed_content := None, cf_status := ''evidence_purged'', cf_tombstoned_at := Some now,
     cf_tombstone_operation_id := Some op, cf_resolved_at := Some now\<rparr>"

definition tombstone_obligation :: "time \<Rightarrow> obligation_row \<Rightarrow> obligation_row" where
  "tombstone_obligation now ob = (if ob_status ob = Open
     then ob\<lparr>ob_status := Resolved, ob_resolution_code := Some ''evidence_purged'', ob_resolved_at := Some now, ob_resolution := []\<rparr>
     else ob\<lparr>ob_resolution := []\<rparr>)"

definition where_rows :: "('r \<Rightarrow> bool) \<Rightarrow> ('r \<Rightarrow> 'r) \<Rightarrow> 'r list \<Rightarrow> 'r list" where
  "where_rows P f rows = map (\<lambda>r. if P r then f r else r) rows"

definition tombstone_candidate_derivatives ::
  "time \<Rightarrow> uuid \<Rightarrow> uuid list \<Rightarrow> 'x verify_db_scheme \<Rightarrow> 'x verify_db_scheme" where
  "tombstone_candidate_derivatives now op ids db =
    (let conflict_ids = map cf_id (filter (\<lambda>r. cf_candidate_id r \<in> set ids) (md_conflicts db)) in
     db\<lparr>md_attempts := where_rows (\<lambda>a. ap_candidate_id a \<in> set ids \<and> ap_completed_at a = None) (tombstone_attempt now) (md_attempts db),
        vd_readings := where_rows (\<lambda>r. rr_candidate_id r \<in> set ids) (tombstone_reading now op) (vd_readings db),
        vd_comparisons := where_rows (\<lambda>r. cr_candidate_id r \<in> set ids) (tombstone_comparison now op) (vd_comparisons db),
        vd_records := where_rows (\<lambda>r. re_candidate_id r \<in> set ids) (tombstone_record now op) (vd_records db),
        md_conflicts := where_rows (\<lambda>r. cf_candidate_id r \<in> set ids) (tombstone_conflict now op) (md_conflicts db),
        md_obligations := where_rows (\<lambda>ob. case ob_subject_id ob of None \<Rightarrow> False
            | Some i \<Rightarrow> (ob_subject_type ob = ''memory_candidate'' \<and> i \<in> set ids)
                \<or> (ob_subject_type ob = ''memory_conflict'' \<and> i \<in> set conflict_ids)) (tombstone_obligation now) (md_obligations db)\<rparr>)"

definition invalidate_candidates ::
  "time \<Rightarrow> uuid \<Rightarrow> uuid list \<Rightarrow> string option \<Rightarrow> bool \<Rightarrow> uuid list \<Rightarrow> string option \<Rightarrow> 'x verify_db_scheme
   \<Rightarrow> mem_error + (uuid list \<times> uuid list \<times> 'x verify_db_scheme)" where
  "invalidate_candidates now op turn_ids content scrub candidate_ids redact_content db =
    (let selected = filter (selected_candidate turn_ids candidate_ids content db) (md_candidates db);
         ids = map cd_id selected;
         (evidence_turn_ids, db1) = (if scrub then foldl (\<lambda>s c. redact_provider_evidence now op content redact_content c s) ([], db) selected
           else ([], db)) in
     ebind (efold (purge_candidate now op scrub) selected db1) (\<lambda>db2.
     Inr (ids, evidence_turn_ids, if scrub \<and> ids \<noteq> [] then tombstone_candidate_derivatives now op ids db2 else db2)))"

section \<open>Retire and restore\<close>

definition opt_list :: "'a option \<Rightarrow> 'a list" where
  "opt_list x = (case x of None \<Rightarrow> [] | Some y \<Rightarrow> [y])"

definition retire_row :: "time \<Rightarrow> memory_row \<Rightarrow> memory_row" where
  "retire_row now m = clear_embedding (m\<lparr>mm_status := RETIRED, mm_suppresses_recall := True, mm_retired_at := Some now, mm_updated_at := now\<rparr>)"

definition restore_row :: "time \<Rightarrow> memory_row \<Rightarrow> memory_row" where
  "restore_row now m = m\<lparr>mm_status := ACTIVE, mm_suppresses_recall := False, mm_retired_at := None, mm_updated_at := now\<rparr>"

definition no_change :: "json_obj \<Rightarrow> mutation" where
  "no_change r = \<lparr>m_mutated = False, m_result = r\<rparr>"

definition changed :: "json_obj \<Rightarrow> mutation" where
  "changed r = \<lparr>m_mutated = True, m_result = r\<rparr>"

definition memory_result :: "string \<Rightarrow> uuid \<Rightarrow> json_obj" where
  "memory_result r i = [(''result'', JStr r), (''memory_id'', JStr i)]"

text \<open>What both outcomes of a retirement do next, with the row as it then is.\<close>

definition retired_aftermath ::
  "owner_env \<Rightarrow> string \<Rightarrow> memory_row \<Rightarrow> 'x life_db_scheme \<Rightarrow> mem_error + ('x life_db_scheme \<times> mutation)" where
  "retired_aftermath e result m db =
    ebind (invalidate_candidates (oe_now e) (oe_command_id e) (opt_list (mm_source_turn_id m)) (mm_content m) False [] None db)
      (\<lambda>(_, _, db1).
    ebind (apply_owner_command (oe_now e) (oe_command_id e) (Some (mm_id m)) None (db1\<lparr>ld_capsules := []\<rparr>)) (\<lambda>db2.
    ebind (flush db2) (\<lambda>db3. Inr (db3, changed (memory_result result (mm_id m))))))"

definition retire_memory ::
  "owner_env \<Rightarrow> string option \<Rightarrow> memory_row \<Rightarrow> 'x life_db_scheme \<Rightarrow> mem_error + ('x life_db_scheme \<times> mutation)" where
  "retire_memory e content m db =
    ebind (require (mm_status m \<noteq> DELETED) (MValueError ''deleted memory is terminal'')) (\<lambda>_.
    if mm_status m = RETIRED then
      ebind (apply_owner_command (oe_now e) (oe_command_id e) (Some (mm_id m)) None db) (\<lambda>db1.
      Inr (db1, no_change (memory_result ''already_retired'' (mm_id m))))
    else
      ebind (require (mm_status m = ACTIVE) (MValueError ''only active memory can be retired'')) (\<lambda>_.
      ebind (require (case content of None \<Rightarrow> True | Some c \<Rightarrow> mm_fingerprint m = Some (memory_fingerprint (oe_sha e) c))
        (MValueError ''content does not match target memory'')) (\<lambda>_.
      retired_aftermath e ''retired'' (retire_row (oe_now e) m) (upd_memory (mm_id m) (retire_row (oe_now e)) db))))"

definition retire_mutation ::
  "owner_env \<Rightarrow> json option \<Rightarrow> string option \<Rightarrow> owner_source \<Rightarrow> 'x life_db_scheme \<Rightarrow> int \<Rightarrow> mem_error + ('x life_db_scheme \<times> mutation)" where
  "retire_mutation e memory_raw content source db version = (case memory_raw of
      Some raw \<Rightarrow>
        ebind (uuid_arg e raw) (\<lambda>i.
        ebind (the_row (get_memory i db) (MValueError ''target memory does not exist'')) (\<lambda>m. retire_memory e content m db))
    | None \<Rightarrow>
        ebind (the_row content MAssertionError) (\<lambda>c.
        ebind (active_by_fingerprint (memory_fingerprint (oe_sha e) c) db) (\<lambda>target.
        case target of
          Some m \<Rightarrow> retire_memory e content m db
        | None \<Rightarrow>
            ebind (create_guard (oe_sha e) (oe_now e) (oe_memory_id e) c RETIRED ''owner_retire_guard'' (fst source) (snd source) db)
              (\<lambda>(g, created, db1). retired_aftermath e (if created then ''retire_guard_created'' else ''already_retired'') g db1))))"

text \<open>The text of the memory a receipt names.\<close>

definition named_content :: "receipt \<Rightarrow> 'x mem_db_scheme \<Rightarrow> string option" where
  "named_content rc db = (case json_get ''memory_id'' (r_result rc) of
      Some (JStr i) \<Rightarrow> (case get_memory i db of None \<Rightarrow> None | Some m \<Rightarrow> mm_content m) | _ \<Rightarrow> None)"

definition retire ::
  "owner_env \<Rightarrow> json_obj \<Rightarrow> 'x life_db_scheme shared_db \<Rightarrow> (owner_error + json_obj) \<times> 'x life_db_scheme shared_db" where
  "retire e args s = (let memory_raw = given ''memory_id'' args in
    case clean_given ''content'' (given ''content'' args) of
      Inl err \<Rightarrow> (Inl (Refused err), s)
    | Inr content \<Rightarrow>
        if memory_raw = None \<and> content = None then (Inl (Refused (MValueError ''retire requires memory_id or content'')), s)
        else (let source = latest_owner_source (oe_current_transcript e) (sd_payload s);
                  stored = [(''selector'', JStr (if json_true ''memory_id'' args \<noteq> None then ''memory_id'' else ''legacy_content''))]
                    @ (case memory_raw of None \<Rightarrow> [] | Some raw \<Rightarrow> [(''memory_id'', JStr (py_str raw))])
          in owner_command e ''retire'' stored source (retire_mutation e memory_raw content source) False
               (\<lambda>rc _ db. named_content rc db) s))"

definition restore_mutation ::
  "owner_env \<Rightarrow> uuid \<Rightarrow> 'x life_db_scheme \<Rightarrow> int \<Rightarrow> mem_error + ('x life_db_scheme \<times> mutation)" where
  "restore_mutation e i db version =
    ebind (the_row (get_memory i db) (MValueError ''target memory does not exist'')) (\<lambda>m.
    ebind (require (mm_status m \<noteq> DELETED) (MValueError ''deleted memory is terminal and cannot be restored'')) (\<lambda>_.
    if mm_status m = ACTIVE then
      ebind (apply_owner_command (oe_now e) (oe_command_id e) None (Some i) db) (\<lambda>db1.
      Inr (db1, no_change (memory_result ''already_active'' i)))
    else
      ebind (require (mm_status m = RETIRED) (MValueError ''only retired memory can be restored'')) (\<lambda>_.
      ebind (require (text_of (mm_fingerprint m) \<noteq> [] \<and> text_of (mm_content m) \<noteq> [])
        (MValueError ''retired memory payload is unavailable'')) (\<lambda>_.
      ebind (active_by_fingerprint (text_of (mm_fingerprint m)) db) (\<lambda>other.
      ebind (require (case other of None \<Rightarrow> True | Some x \<Rightarrow> mm_id x = mm_id m)
        (MValueError ''another active memory already owns this content'')) (\<lambda>_.
      ebind (apply_owner_command (oe_now e) (oe_command_id e) None (Some i)
        ((upd_memory i (restore_row (oe_now e)) db)\<lparr>ld_capsules := []\<rparr>)) (\<lambda>db1.
      ebind (flush db1) (\<lambda>db2. Inr (db2, changed (memory_result ''restored'' i))))))))))"

definition restore ::
  "owner_env \<Rightarrow> json_obj \<Rightarrow> 'x life_db_scheme shared_db \<Rightarrow> (owner_error + json_obj) \<times> 'x life_db_scheme shared_db" where
  "restore e args s = (case uuid_arg e (case json_get ''memory_id'' args of None \<Rightarrow> JNull | Some v \<Rightarrow> v) of
      Inl err \<Rightarrow> (Inl (Refused err), s)
    | Inr i \<Rightarrow> owner_command e ''restore'' [(''memory_id'', JStr i)] (latest_owner_source (oe_current_transcript e) (sd_payload s))
        (restore_mutation e i) True (\<lambda>_ _ _. None) s)"

end
