(* ===== verification/Memory_Deletion.thy ===== *)
theory Memory_Deletion
  imports Memory_Commands
begin

text \<open>
  The owner's delete command (\<^verbatim>\<open>memory/lifecycle.py\<close>): the memories that depend on the
  deleted one, redaction of the source passages, invalidation of what was derived from them, and
  the tombstones. Sets of identities are lists without repetition, in table order. The two
  dependency walks are unbounded \<^verbatim>\<open>while\<close> loops in the code; they are total functions here.
\<close>

section \<open>Dependency walks\<close>

text \<open>A memory with a live owner assertion of its own is a barrier: it survives what it was derived from.\<close>

definition independent :: "uuid list \<Rightarrow> 'x mem_db_scheme \<Rightarrow> uuid \<Rightarrow> bool" where
  "independent never_preserve db i = (i \<notin> set never_preserve \<and> (case get_memory i db of None \<Rightarrow> False
     | Some m \<Rightarrow> mm_status m \<noteq> DELETED \<and> mm_grounding_status m = ''verified''
         \<and> (case mm_owner_assertion_turn_id m of None \<Rightarrow> False
            | Some t \<Rightarrow> (case tget tu_id t (md_turns db) of None \<Rightarrow> False | Some turn \<Rightarrow> tu_deleted_at turn = None))))"

definition independent_owner_grounded_ids :: "uuid list \<Rightarrow> 'x mem_db_scheme \<Rightarrow> uuid list \<Rightarrow> uuid list" where
  "independent_owner_grounded_ids never_preserve db ids = filter (independent never_preserve db) ids"

definition without :: "'a list \<Rightarrow> 'a list \<Rightarrow> 'a list" where
  "without xs ys = filter (\<lambda>x. x \<notin> set ys) xs"

definition graph_error :: mem_error where
  "graph_error = MValueError ''memory dependency graph exceeds deletion safety bound''"

definition derived_from :: "uuid list \<Rightarrow> 'x mem_db_scheme \<Rightarrow> uuid list" where
  "derived_from batch db = firsts (map pv_memory_id
     (filter (\<lambda>p. case pv_source_memory_id p of None \<Rightarrow> False | Some i \<Rightarrow> i \<in> set batch) (md_provenance db)))"

lemma without_set [simp]: "set (without xs ys) = set xs - set ys"
  by (auto simp: without_def)

lemma derived_from_known: "set (derived_from batch db) \<subseteq> pv_memory_id ` set (md_provenance db)"
  by (auto simp: derived_from_def firsts_set)

text \<open>Every new memory leaves the finite set of those not yet seen.\<close>

definition unseen :: "'x mem_db_scheme \<Rightarrow> uuid list \<Rightarrow> nat" where
  "unseen db seen = card (pv_memory_id ` set (md_provenance db) - set seen)"

lemma unseen_less:
  assumes "fresh \<noteq> []" "set fresh \<subseteq> pv_memory_id ` set (md_provenance db) - set seen"
  shows "unseen db (seen @ fresh) < unseen db seen"
  unfolding unseen_def
proof (rule psubset_card_mono)
  obtain x where "x \<in> set fresh" using assms(1) list.set_sel(1) by blast
  then show "pv_memory_id ` set (md_provenance db) - set (seen @ fresh) \<subset> pv_memory_id ` set (md_provenance db) - set seen"
    using assms(2) by auto
qed simp

function descend ::
  "uuid list \<Rightarrow> 'x mem_db_scheme \<Rightarrow> uuid list \<Rightarrow> uuid list \<Rightarrow> uuid list \<Rightarrow> mem_error + (uuid list \<times> uuid list)" where
  "descend never db queue seen preserved =
    (if queue = [] then Inr (seen, preserved)
     else let found = without (without (derived_from (take 100 queue) db) seen) preserved;
              barriers = independent_owner_grounded_ids never db found;
              fresh = without found barriers in
       if fresh \<noteq> [] \<and> 1000 < length seen + length fresh then Inl graph_error
       else descend never db (drop 100 queue @ fresh) (seen @ fresh) (preserved @ barriers))"
  by pat_completeness auto
termination
proof (relation "measures [\<lambda>(never, db, queue, seen, preserved). unseen db seen, \<lambda>(never, db, queue, seen, preserved). length queue]", goal_cases)
  case (2 never db queue seen preserved found barriers fresh)
  have "set found \<subseteq> pv_memory_id ` set (md_provenance db) - set seen"
    using derived_from_known [of "take 100 queue" db] 2(2) by auto
  then have "set fresh \<subseteq> pv_memory_id ` set (md_provenance db) - set seen" using 2(4) by auto
  then show ?case using 2(1) unseen_less [of fresh db seen] by (cases "fresh = []") auto
qed simp

declare descend.simps [simp del]

definition memory_descendants ::
  "uuid list \<Rightarrow> 'x mem_db_scheme \<Rightarrow> uuid list \<Rightarrow> mem_error + (uuid list \<times> uuid list)" where
  "memory_descendants never db initial = descend never db initial initial []"

definition touched :: "uuid list \<Rightarrow> uuid list \<Rightarrow> 'x mem_db_scheme \<Rightarrow> provenance_row list" where
  "touched memories candidates db = filter (\<lambda>p.
      (case pv_source_memory_id p of None \<Rightarrow> False | Some i \<Rightarrow> i \<in> set memories)
    \<or> (case pv_source_candidate_id p of None \<Rightarrow> False | Some i \<Rightarrow> i \<in> set candidates)) (md_provenance db)"

function close_over ::
  "uuid list \<Rightarrow> 'x mem_db_scheme \<Rightarrow> uuid list \<Rightarrow> uuid list \<Rightarrow> uuid list \<Rightarrow> uuid list \<Rightarrow> mem_error + (uuid list \<times> uuid list)" where
  "close_over never db memories candidates seen preserved =
    (if memories = [] \<and> candidates = [] then Inr (seen, preserved)
     else let rows = touched memories candidates db;
              found = without (without (firsts (map pv_memory_id rows)) seen) preserved;
              barriers = independent_owner_grounded_ids never db found;
              fresh = without found barriers in
       if 1000 < length seen + length fresh then Inl graph_error
       else close_over never db fresh
         (firsts (concat (map (\<lambda>p. if pv_memory_id p \<in> set fresh then opt_list (pv_source_candidate_id p) else []) rows)))
         (seen @ fresh) (preserved @ barriers))"
  by pat_completeness auto
termination
proof (relation "measures [\<lambda>(never, db, memories, candidates, seen, preserved). unseen db seen,
    \<lambda>(never, db, memories, candidates, seen, preserved). if memories = [] \<and> candidates = [] then 0 else 1]", goal_cases)
  case (2 never db memories candidates seen preserved rows found barriers fresh)
  have "set found \<subseteq> pv_memory_id ` set (md_provenance db) - set seen" using 2(2,3) by (auto simp: touched_def firsts_set)
  then have "set fresh \<subseteq> pv_memory_id ` set (md_provenance db) - set seen" using 2(5) by auto
  moreover have "firsts (concat (map (\<lambda>p. if pv_memory_id p \<in> set [] then opt_list (pv_source_candidate_id p) else []) rows)) = []"
    by simp
  ultimately show ?case using 2(1) unseen_less [of fresh db seen] by (cases "fresh = []") auto
qed simp

declare close_over.simps [simp del]

definition dependent_memory_closure ::
  "uuid list \<Rightarrow> 'x mem_db_scheme \<Rightarrow> uuid list \<Rightarrow> uuid list \<Rightarrow> mem_error + (uuid list \<times> uuid list)" where
  "dependent_memory_closure never db memories candidates =
    (let barriers = independent_owner_grounded_ids never db memories; seen = without memories barriers in
     close_over never db seen candidates seen barriers)"

section \<open>Consequences of a purge\<close>

text \<open>Preserved memories lose their links to what was purged.\<close>

definition detach_row :: "time \<Rightarrow> uuid list \<Rightarrow> uuid list \<Rightarrow> 'x mem_db_scheme \<Rightarrow> memory_row \<Rightarrow> memory_row" where
  "detach_row now purged_turns invalid_records db m =
    (case (case mm_owner_assertion_turn_id m of None \<Rightarrow> None | Some t \<Rightarrow> tget tu_id t (md_turns db)) of None \<Rightarrow> m
     | Some turn \<Rightarrow> if tu_deleted_at turn \<noteq> None then m
         else let m1 = (case mm_source_turn_id m of None \<Rightarrow> m
                 | Some t \<Rightarrow> if t \<in> set purged_turns then m\<lparr>mm_source_turn_id := Some (tu_id turn),
                     mm_source_transcript_id := Some (tu_transcript_id turn)\<rparr> else m);
               m2 = (case mm_verification_record_id m1 of None \<Rightarrow> m1
                 | Some r \<Rightarrow> if r \<in> set invalid_records then m1\<lparr>mm_verification_record_id := None\<rparr> else m1)
           in m2\<lparr>mm_updated_at := now\<rparr>)"

definition rests_on :: "uuid list \<Rightarrow> uuid list \<Rightarrow> uuid list \<Rightarrow> provenance_row \<Rightarrow> bool" where
  "rests_on turns candidates memories p =
    ((case pv_source_turn_id p of None \<Rightarrow> False | Some i \<Rightarrow> i \<in> set turns)
   \<or> (case pv_source_candidate_id p of None \<Rightarrow> False | Some i \<Rightarrow> i \<in> set candidates)
   \<or> (case pv_source_memory_id p of None \<Rightarrow> False | Some i \<Rightarrow> i \<in> set memories))"

definition detach_purged_dependencies ::
  "time \<Rightarrow> uuid list \<Rightarrow> uuid list \<Rightarrow> uuid list \<Rightarrow> uuid list \<Rightarrow> 'x verify_db_scheme \<Rightarrow> 'x verify_db_scheme" where
  "detach_purged_dependencies now ids purged_turns invalid_candidates deleted db =
    (if ids = [] then db
     else let invalid_records = map re_id (filter (\<lambda>r. re_candidate_id r \<in> set invalid_candidates) (vd_records db)) in
       db\<lparr>md_memories := where_rows (\<lambda>m. mm_id m \<in> set ids) (detach_row now purged_turns invalid_records db) (md_memories db),
          md_provenance := filter (\<lambda>p. \<not> (pv_memory_id p \<in> set ids \<and> rests_on purged_turns invalid_candidates deleted p)) (md_provenance db)\<rparr>)"

definition redact_source_turn :: "time \<Rightarrow> uuid \<Rightarrow> string \<Rightarrow> turn_row \<Rightarrow> turn_row" where
  "redact_source_turn now op content t = (let r = redact_blocks content (tu_blocks t) in if snd r then redact_turn now op (fst r) t else t)"

definition redact_source_turns ::
  "time \<Rightarrow> uuid \<Rightarrow> string \<Rightarrow> uuid list \<Rightarrow> 'x mem_db_scheme \<Rightarrow> uuid list \<times> 'x mem_db_scheme" where
  "redact_source_turns now op content preferred db =
    (let chosen = (\<lambda>t. if preferred \<noteq> [] then tu_id t \<in> set preferred else tu_actor t = ''owner'') in
     (map tu_id (filter (\<lambda>t. chosen t \<and> snd (redact_blocks content (tu_blocks t))) (md_turns db)),
      db\<lparr>md_turns := where_rows chosen (redact_source_turn now op content) (md_turns db)\<rparr>))"

text \<open>The transcript index, the discovery horizon and the summaries restart before the earliest redacted turn.\<close>

definition min_of :: "int list \<Rightarrow> int option" where
  "min_of xs = (case xs of [] \<Rightarrow> None | y # ys \<Rightarrow> Some (fold min ys y))"

definition rewind_transcript :: "time \<Rightarrow> uuid \<Rightarrow> int \<Rightarrow> 'x life_db_scheme \<Rightarrow> 'x life_db_scheme" where
  "rewind_transcript now t sequence db =
    (let rebuild_from = (case min_of (map ck_start_sequence (filter (\<lambda>k. ck_transcript_id k = t \<and> sequence \<le> ck_end_sequence k) (ld_chunks db))) of
           None \<Rightarrow> sequence | Some start \<Rightarrow> min sequence start) in
     db\<lparr>ld_chunks := filter (\<lambda>k. \<not> (ck_transcript_id k = t \<and> rebuild_from \<le> ck_end_sequence k)) (ld_chunks db),
        ld_index_states := where_rows (\<lambda>x. ix_transcript_id x = t)
          (\<lambda>x. x\<lparr>ix_last_indexed_sequence := min (ix_last_indexed_sequence x) (max 0 (rebuild_from - 1))\<rparr>) (ld_index_states db),
        ld_discovery := where_rows (\<lambda>x. dv_transcript_id x = t)
          (\<lambda>x. x\<lparr>dv_last_scanned_sequence := min (dv_last_scanned_sequence x) (max 0 (sequence - 1)), dv_updated_at := now\<rparr>) (ld_discovery db),
        md_transcripts := tset tr_id t (\<lambda>x. x\<lparr>tr_content_revision := tr_content_revision x + 1, tr_context_summary := None,
          tr_summarized_through_turn_id := None, tr_active_task_state := [], tr_active_task_revision := tr_active_task_revision x + 1\<rparr>)
          (md_transcripts db)\<rparr>)"

definition earliest_turn :: "uuid list \<Rightarrow> uuid \<Rightarrow> 'x mem_db_scheme \<Rightarrow> int option" where
  "earliest_turn ids t db = min_of (map tu_sequence (filter (\<lambda>x. tu_id x \<in> set ids \<and> tu_transcript_id x = t) (md_turns db)))"

definition invalidate_transcript_derivatives :: "time \<Rightarrow> uuid list \<Rightarrow> 'x life_db_scheme \<Rightarrow> 'x life_db_scheme" where
  "invalidate_transcript_derivatives now ids db =
    (if ids = [] then db
     else (foldl (\<lambda>d t. case earliest_turn ids t d of None \<Rightarrow> d | Some sequence \<Rightarrow> rewind_transcript now t sequence d) db
         (firsts (map tu_transcript_id (filter (\<lambda>x. tu_id x \<in> set ids) (md_turns db)))))\<lparr>ld_capsules := []\<rparr>)"

definition scrub_command :: "string \<Rightarrow> uuid list \<Rightarrow> uuid list \<Rightarrow> command_row \<Rightarrow> command_row" where
  "scrub_command content memories turns cm =
    (let related = (set (opt_list (cm_target_memory_id cm) @ opt_list (cm_replacement_memory_id cm)) \<inter> set memories \<noteq> {}
           \<or> set (opt_list (cm_source_turn_id cm)) \<inter> set turns \<noteq> {});
         r = redact_value (JObj (cm_arguments cm)) content in
     if related \<or> snd r then cm\<lparr>cm_arguments := (case fst r of JObj d \<Rightarrow> d | _ \<Rightarrow> cm_arguments cm),
       cm_error := (case cm_error cm of Some (c # cs) \<Rightarrow> Some (fst (redact_string content (c # cs))) | x \<Rightarrow> x)\<rparr>
     else cm)"

definition scrub_command_payloads :: "string \<Rightarrow> uuid list \<Rightarrow> uuid list \<Rightarrow> 'x mem_db_scheme \<Rightarrow> 'x mem_db_scheme" where
  "scrub_command_payloads content memories turns db =
    db\<lparr>md_commands := map (scrub_command content memories turns) (md_commands db)\<rparr>"

section \<open>The command\<close>

definition delete_row :: "time \<Rightarrow> uuid \<Rightarrow> memory_row \<Rightarrow> memory_row" where
  "delete_row now op m = clear_embedding (m\<lparr>mm_status := DELETED, mm_content := None, mm_fingerprint := None, mm_suppresses_recall := True,
     mm_retired_at := None, mm_deleted_at := Some now, mm_deletion_operation_id := Some op, mm_updated_at := now\<rparr>)"

definition delete_tombstone :: "owner_env \<Rightarrow> owner_source \<Rightarrow> memory_row" where
  "delete_tombstone e source = (memory_of (oe_now e) (oe_memory_id e) DELETED [] [] True
     \<lparr>nm_source_transcript_id = fst source, nm_source_turn_id = snd source, nm_supersedes_id = None,
      nm_record_kind = ''owner_delete_tombstone'', nm_origin = ''runtime_unclassified'', nm_memory_kind = None, nm_scope = ''cross_chat'',
      nm_scope_key = None, nm_durability = ''long_term'', nm_subject = None, nm_namespace = None, nm_valid_from = None,
      nm_valid_to = None, nm_grounding_status = ''legacy_unverified'', nm_verification_record_id = None,
      nm_owner_assertion_turn_id = None, nm_originating_candidate_id = None\<rparr>)
     \<lparr>mm_content := None, mm_fingerprint := None, mm_deleted_at := Some (oe_now e), mm_deletion_operation_id := Some (oe_command_id e)\<rparr>"

definition delete_target :: "owner_env \<Rightarrow> string \<Rightarrow> 'x mem_db_scheme \<Rightarrow> mem_error + memory_row option" where
  "delete_target e content db = (let fp = memory_fingerprint (oe_sha e) content in
    ebind (active_by_fingerprint fp db) (\<lambda>m. Inr (case m of Some x \<Rightarrow> Some x
      | None \<Rightarrow> (case retired_by_fingerprint fp db of Some x \<Rightarrow> Some x
          | None \<Rightarrow> latest_by (\<lambda>m. (mm_updated_at m, mm_id m))
              (filter (\<lambda>m. mm_fingerprint m = Some fp \<and> mm_status m \<noteq> DELETED) (md_memories db))))))"

text \<open>The turns and candidates the affected memories rest on.\<close>

definition candidates_of :: "uuid list \<Rightarrow> 'x mem_db_scheme \<Rightarrow> uuid list" where
  "candidates_of affected db = firsts (concat (map (\<lambda>p. if pv_memory_id p \<in> set affected then opt_list (pv_source_candidate_id p) else [])
     (md_provenance db)))"

definition turns_of :: "uuid list \<Rightarrow> 'x mem_db_scheme \<Rightarrow> uuid list" where
  "turns_of affected db = firsts
    (concat (map (\<lambda>m. if mm_id m \<in> set affected then opt_list (mm_source_turn_id m) @ opt_list (mm_owner_assertion_turn_id m) else [])
       (md_memories db))
     @ concat (map (\<lambda>p. if pv_memory_id p \<in> set affected then opt_list (pv_source_turn_id p) else []) (md_provenance db))
     @ map ce_turn_id (filter (\<lambda>r. ce_candidate_id r \<in> set (candidates_of affected db)) (md_evidence db)))"

definition sourced_memories :: "uuid list \<Rightarrow> 'x mem_db_scheme \<Rightarrow> uuid list" where
  "sourced_memories turns db =
    map mm_id (filter (\<lambda>m. mm_status m \<noteq> DELETED
       \<and> set (opt_list (mm_source_turn_id m) @ opt_list (mm_owner_assertion_turn_id m)) \<inter> set turns \<noteq> {}) (md_memories db))
    @ map pv_memory_id (filter (\<lambda>p. set (opt_list (pv_source_turn_id p)) \<inter> set turns \<noteq> {}) (md_provenance db))"

definition deletion_summary :: "uuid list \<Rightarrow> uuid list \<Rightarrow> uuid list \<Rightarrow> uuid list \<Rightarrow> json_obj" where
  "deletion_summary memories turns candidates preserved = (let names = (\<lambda>xs. JList (map JStr (sort xs))) in
    [(''memory_ids'', names memories), (''turn_ids'', names turns), (''candidate_ids'', names candidates),
     (''preserved_memory_ids'', names preserved), (''memory_count'', JInt (int (length memories))),
     (''turn_count'', JInt (int (length turns))), (''candidate_count'', JInt (int (length candidates)))])"

text \<open>Phase one: the passages and candidates that go. Phase two: the memories that go with them.\<close>

definition purge_sources ::
  "owner_env \<Rightarrow> string option \<Rightarrow> string \<Rightarrow> uuid list \<Rightarrow> 'x life_db_scheme
   \<Rightarrow> mem_error + (uuid list \<times> uuid list \<times> uuid list \<times> uuid list \<times> 'x life_db_scheme)" where
  "purge_sources e selected scope affected db =
    (let sources = turns_of affected db; source_candidates = candidates_of affected db;
         redacting = (scope = ''memory_and_sources'' \<and> text_of selected \<noteq> []);
         (redacted, db1) = (if redacting then redact_source_turns (oe_now e) (oe_command_id e) (text_of selected) sources db else ([], db));
         dependency = firsts (sources @ redacted) in
     ebind (require (\<not> redacting \<or> sources = [] \<or> set redacted = set sources)
       (MValueError ''every selected source passage must be isolated safely; retry with the exact source content'')) (\<lambda>_.
     ebind (invalidate_candidates (oe_now e) (oe_command_id e) dependency
       (if dependency = [] \<and> source_candidates = [] then selected else None) True source_candidates selected db1)
       (\<lambda>(candidates, evidence_turns, db2). Inr (dependency, redacted, candidates, evidence_turns, db2))))"

definition delete_memories ::
  "owner_env \<Rightarrow> memory_row option \<Rightarrow> string option \<Rightarrow> string \<Rightarrow> owner_source \<Rightarrow> 'x life_db_scheme
   \<Rightarrow> mem_error + ('x life_db_scheme \<times> mutation)" where
  "delete_memories e target selected scope source db =
    (let now = oe_now e; op = oe_command_id e; never = opt_list (map_option mm_id target) in
     ebind (case target of None \<Rightarrow> Inr ([], []) | Some m \<Rightarrow> memory_descendants never db [mm_id m]) (\<lambda>(affected, preserved).
     ebind (purge_sources e selected scope affected db) (\<lambda>(dependency, redacted, candidates, evidence_turns, db1).
     let reached = firsts (affected @ (if dependency = [] then [] else sourced_memories dependency db1)) in
     ebind (dependent_memory_closure never db1 reached candidates) (\<lambda>(gone, kept).
     let preserved_all = firsts (preserved @ kept);
         turns = firsts (redacted @ evidence_turns);
         db2 = detach_purged_dependencies now preserved_all redacted candidates gone db1;
         db3 = invalidate_transcript_derivatives now turns db2;
         db4 = (if text_of selected = [] then db3
           else scrub_command_payloads (text_of selected) gone (firsts (turns_of affected db @ evidence_turns)) db3);
         db5 = db4\<lparr>md_memories := where_rows (\<lambda>m. mm_id m \<in> set gone) (delete_row now op) (md_memories db4)\<rparr> in
     ebind (case target of Some m \<Rightarrow> Inr (mm_id m, gone, db5)
         | None \<Rightarrow> ebind (add_memory (delete_tombstone e source) db5) (\<lambda>db6. Inr (oe_memory_id e, gone @ [oe_memory_id e], db6)))
       (\<lambda>(i, removed, db6).
     let summary = deletion_summary removed turns candidates preserved_all in
     ebind (require (op \<notin> dr_operation_id ` set (ld_receipts db6)) MIntegrityError) (\<lambda>_.
     ebind (apply_owner_command now op (Some i) None
       (db6\<lparr>ld_capsules := [], ld_receipts := tadd \<lparr>dr_operation_id = op, dr_target_memory_id = i, dr_scope = scope, dr_affected = summary\<rparr>
          (ld_receipts db6)\<rparr>)) (\<lambda>db7.
     ebind (flush db7) (\<lambda>db8.
     Inr (db8, changed (memory_result ''deleted'' i @ [(''scope'', JStr scope), (''affected'', JObj summary)]))))))))))"

definition delete_mutation ::
  "owner_env \<Rightarrow> json option \<Rightarrow> string option \<Rightarrow> string \<Rightarrow> owner_source \<Rightarrow> 'x life_db_scheme \<Rightarrow> int
   \<Rightarrow> mem_error + ('x life_db_scheme \<times> mutation)" where
  "delete_mutation e memory_raw content scope source db version = (case memory_raw of
      Some raw \<Rightarrow>
        ebind (uuid_arg e raw) (\<lambda>i.
        ebind (the_row (get_memory i db) (MValueError ''target memory does not exist'')) (\<lambda>m.
        if mm_status m = DELETED then
          ebind (apply_owner_command (oe_now e) (oe_command_id e) (Some (mm_id m)) None db) (\<lambda>db1.
          Inr (db1, no_change (memory_result ''already_deleted'' (mm_id m))))
        else
          ebind (require (mm_content m \<noteq> None) (MValueError ''target memory content is unavailable'')) (\<lambda>_.
          ebind (require (case content of None \<Rightarrow> True | Some c \<Rightarrow> mm_fingerprint m = Some (memory_fingerprint (oe_sha e) c))
            (MValueError ''content does not match target memory'')) (\<lambda>_.
          delete_memories e (Some m) (mm_content m) scope source db))))
    | None \<Rightarrow>
        ebind (the_row content MAssertionError) (\<lambda>c.
        ebind (delete_target e c db) (\<lambda>target. delete_memories e target content scope source db)))"

definition delete_captured :: "json option \<Rightarrow> string option \<Rightarrow> receipt \<Rightarrow> 'x mem_db_scheme \<Rightarrow> 'x mem_db_scheme \<Rightarrow> string option" where
  "delete_captured memory_raw content rc before after =
    (if memory_raw = None \<or> json_get ''result'' (r_result rc) = Some (JStr ''already_deleted'') then content else named_content rc before)"

definition delete ::
  "owner_env \<Rightarrow> json_obj \<Rightarrow> 'x life_db_scheme shared_db \<Rightarrow> (owner_error + json_obj) \<times> 'x life_db_scheme shared_db" where
  "delete e args s = (let memory_raw = given ''memory_id'' args; scope = json_or ''scope'' args ''memory_and_sources'' in
    case clean_given ''content'' (given ''content'' args) of
      Inl err \<Rightarrow> (Inl (Refused err), s)
    | Inr content \<Rightarrow>
        if memory_raw = None \<and> content = None then (Inl (Refused (MValueError ''delete requires memory_id or content'')), s)
        else if scope \<notin> {''memory_only'', ''memory_and_sources''} then (Inl (Refused (MValueError ''invalid deletion scope'')), s)
        else (let source = latest_owner_source (oe_current_transcript e) (sd_payload s);
                  stored = [(''scope'', JStr scope), (''selector'', JStr (if json_true ''memory_id'' args \<noteq> None then ''memory_id'' else ''content''))]
                    @ (case memory_raw of None \<Rightarrow> [] | Some raw \<Rightarrow> [(''memory_id'', JStr (py_str raw))])
          in owner_command e ''delete'' stored source (delete_mutation e memory_raw content scope source) False
               (delete_captured memory_raw content) s))"

end
