(* ===== verification/Transcripts.thy ===== *)
theory Transcripts
  imports Memory_Lifecycle Task_State
begin

text \<open>
  Conversations (\<^verbatim>\<open>transcript/repository.py\<close>): the owner's chats, of which the partial unique index
  \<^verbatim>\<open>uq_active_owner_transcript\<close> allows one to be open, their turns with a sequence number per
  transcript, the checkpoint column with its revision, and deletion of a chat. The advisory
  lock of the owner chats is the serial order of the operations. \<^verbatim>\<open>TaskStateConflict\<close> is a
  \<^verbatim>\<open>ValueError\<close> with its message.
\<close>

section \<open>Constraints\<close>

definition active_chat :: "transcript_row \<Rightarrow> bool" where
  "active_chat t = (tr_kind t = ''owner'' \<and> tr_closed_at t = None)"

definition turn_key :: "turn_row \<Rightarrow> uuid \<times> int" where
  "turn_key t = (tu_transcript_id t, tu_sequence t)"

definition chats_ok :: "'x mem_db_scheme \<Rightarrow> bool" where
  "chats_ok db = (keyed tr_id (md_transcripts db) \<and> length (filter active_chat (md_transcripts db)) \<le> 1
     \<and> keyed tu_id (md_turns db) \<and> keyed turn_key (md_turns db))"

definition flush_chats :: "'x mem_db_scheme \<Rightarrow> mem_error + 'x mem_db_scheme" where
  "flush_chats db = (if chats_ok db then Inr db else Inl MIntegrityError)"

definition get_transcript :: "uuid \<Rightarrow> 'x mem_db_scheme \<Rightarrow> transcript_row option" where
  "get_transcript i db = tget tr_id i (md_transcripts db)"

definition upd_transcript :: "uuid \<Rightarrow> (transcript_row \<Rightarrow> transcript_row) \<Rightarrow> 'x mem_db_scheme \<Rightarrow> 'x mem_db_scheme" where
  "upd_transcript i f db = db\<lparr>md_transcripts := tset tr_id i f (md_transcripts db)\<rparr>"

section \<open>Chats\<close>

definition DEFAULT_CHAT_TITLE :: string where "DEFAULT_CHAT_TITLE = ''New chat''"

definition clean_title :: "string option \<Rightarrow> string \<Rightarrow> string" where
  "clean_title v d = take 120 (let title = squash (text_of v) in if title = [] then d else title)"

definition rstrip :: "string \<Rightarrow> string" where
  "rstrip s = rev (lstrip (rev s))"

fun suggest_title :: "json list \<Rightarrow> string option" where
  "suggest_title [] = None"
| "suggest_title (b # bs) = (let title = (case b of JObj d \<Rightarrow> if text_block b then squash (json_or ''text'' d []) else [] | _ \<Rightarrow> []) in
    if title = [] then suggest_title bs
    else Some (if length title \<le> 64 then title else rstrip (take 61 title) @ [ellipsis]))"

definition new_transcript :: "uuid \<Rightarrow> time \<Rightarrow> string \<Rightarrow> string \<Rightarrow> string option \<Rightarrow> transcript_row" where
  "new_transcript i now kind retention title =
    \<lparr>tr_id = i, tr_kind = kind, tr_retention_policy = retention, tr_title = title, tr_closed_at = None, tr_context_summary = None,
     tr_summarized_through_turn_id = None, tr_active_task_state = [], tr_active_task_revision = 0, tr_next_turn_sequence = 0,
     tr_content_revision = 0, tr_created_at = now, tr_updated_at = now\<rparr>"

definition create_transcript ::
  "uuid \<Rightarrow> time \<Rightarrow> string \<Rightarrow> string option \<Rightarrow> string option \<Rightarrow> 'x mem_db_scheme \<Rightarrow> mem_error + (transcript_row \<times> 'x mem_db_scheme)" where
  "create_transcript i now kind title retention db =
    (let effective = (case retention of Some (c # cs) \<Rightarrow> c # cs
           | _ \<Rightarrow> if kind = ''memory_review'' then ''dependency_protected'' else ''standard'');
         row = new_transcript i now kind effective (if kind = ''owner'' then Some (clean_title title DEFAULT_CHAT_TITLE) else title) in
     ebind (require (kind \<noteq> ''memory_review'' \<or> effective = ''dependency_protected'')
       (MValueError ''memory_review transcripts must be dependency protected'')) (\<lambda>_.
     ebind (flush_chats (db\<lparr>md_transcripts := tadd row (md_transcripts db)\<rparr>)) (\<lambda>db1. Inr (row, db1))))"

definition get_or_create_active ::
  "uuid \<Rightarrow> time \<Rightarrow> 'x mem_db_scheme \<Rightarrow> mem_error + (transcript_row \<times> 'x mem_db_scheme)" where
  "get_or_create_active i now db =
    (case latest_by (\<lambda>t. (tr_created_at t, tr_id t)) (filter active_chat (md_transcripts db)) of
       Some t \<Rightarrow> Inr (t, db) | None \<Rightarrow> create_transcript i now ''owner'' None None db)"

definition owner_chat :: "uuid \<Rightarrow> 'x mem_db_scheme \<Rightarrow> mem_error + transcript_row" where
  "owner_chat i db = ebind (the_row (get_transcript i db) (MLookupError ''Chat not found'')) (\<lambda>t.
     ebind (require (tr_kind t = ''owner'') (MLookupError ''Chat not found'')) (\<lambda>_. Inr t))"

definition list_owner_chats :: "'x mem_db_scheme \<Rightarrow> transcript_row list" where
  "list_owner_chats db = rev (sort_key (\<lambda>t. (tr_updated_at t, tr_created_at t, tr_id t))
     (filter (\<lambda>t. tr_kind t = ''owner'') (md_transcripts db)))"

definition close_chats :: "time \<Rightarrow> (transcript_row \<Rightarrow> bool) \<Rightarrow> 'x mem_db_scheme \<Rightarrow> 'x mem_db_scheme" where
  "close_chats now P db = db\<lparr>md_transcripts := map (\<lambda>t. if active_chat t \<and> P t then t\<lparr>tr_closed_at := Some now\<rparr> else t) (md_transcripts db)\<rparr>"

definition create_owner_chat ::
  "uuid \<Rightarrow> time \<Rightarrow> string option \<Rightarrow> 'x mem_db_scheme \<Rightarrow> mem_error + (transcript_row \<times> 'x mem_db_scheme)" where
  "create_owner_chat i now title db = create_transcript i now ''owner'' title None (close_chats now (\<lambda>_. True) db)"

definition reopened :: "transcript_row \<Rightarrow> transcript_row" where
  "reopened t = t\<lparr>tr_closed_at := None\<rparr>"

definition activate_owner_chat ::
  "time \<Rightarrow> uuid \<Rightarrow> 'x mem_db_scheme \<Rightarrow> mem_error + (transcript_row \<times> 'x mem_db_scheme)" where
  "activate_owner_chat now i db =
    ebind (owner_chat i db) (\<lambda>t.
    if tr_closed_at t = None then Inr (t, db)
    else ebind (flush_chats (upd_transcript i reopened (close_chats now (\<lambda>x. tr_id x \<noteq> i) db))) (\<lambda>db1. Inr (reopened t, db1)))"

definition rename_owner_chat ::
  "time \<Rightarrow> uuid \<Rightarrow> string \<Rightarrow> 'x mem_db_scheme \<Rightarrow> mem_error + (transcript_row \<times> 'x mem_db_scheme)" where
  "rename_owner_chat now i title db =
    (let clean = clean_title (Some title) [] in
     ebind (require (clean \<noteq> []) (MValueError ''Chat title cannot be empty'')) (\<lambda>_.
     ebind (owner_chat i db) (\<lambda>t.
     let f = (\<lambda>x. x\<lparr>tr_title := Some clean, tr_updated_at := now\<rparr>) in
     ebind (flush_chats (upd_transcript i f db)) (\<lambda>db1. Inr (f t, db1)))))"

text \<open>Deleting a chat keeps its identities and removes its text.\<close>

definition deleted_chat :: "time \<Rightarrow> transcript_row \<Rightarrow> transcript_row" where
  "deleted_chat now t = t\<lparr>tr_kind := ''owner_deleted'', tr_title := None, tr_closed_at := Some now, tr_updated_at := now,
     tr_context_summary := None, tr_summarized_through_turn_id := None, tr_active_task_state := [],
     tr_active_task_revision := tr_active_task_revision t + 1, tr_content_revision := tr_content_revision t + 1\<rparr>"

definition deleted_turn :: "time \<Rightarrow> turn_row \<Rightarrow> turn_row" where
  "deleted_turn now t = t\<lparr>tu_blocks := [JObj [(''type'', JStr ''text''), (''text'', JStr ''[Chat deleted by owner]'')]], tu_deleted_at := Some now\<rparr>"

definition orphaned_candidate :: "time \<Rightarrow> candidate_row \<Rightarrow> candidate_row" where
  "orphaned_candidate now c = c\<lparr>cd_status := Invalidated, cd_content := None, cd_fingerprint := None, cd_evidence := None,
     cd_evidence_set_hash := None, cd_decision := [], cd_lease_token := None, cd_leased_until := None, cd_review_after := None,
     cd_processed_at := Some now, cd_invalidated_at := Some now, cd_state_version := cd_state_version c + 1\<rparr>"

definition erase_chat :: "time \<Rightarrow> uuid \<Rightarrow> 'x life_db_scheme \<Rightarrow> 'x life_db_scheme" where
  "erase_chat now i db = (upd_transcript i (deleted_chat now) db)\<lparr>
     md_turns := map (\<lambda>t. if tu_transcript_id t = i then deleted_turn now t else t) (md_turns db),
     md_candidates := map (\<lambda>c. if cd_source_transcript_id c = i then orphaned_candidate now c else c) (md_candidates db),
     ld_chunks := filter (\<lambda>x. ck_transcript_id x \<noteq> i) (ld_chunks db),
     ld_index_states := filter (\<lambda>x. ix_transcript_id x \<noteq> i) (ld_index_states db),
     ld_capsules := filter (\<lambda>x. kp_transcript_id x \<noteq> i) (ld_capsules db),
     ld_discovery := filter (\<lambda>x. dv_transcript_id x \<noteq> i) (ld_discovery db)\<rparr>"

definition delete_owner_chat ::
  "uuid \<Rightarrow> time \<Rightarrow> uuid \<Rightarrow> 'x life_db_scheme \<Rightarrow> mem_error + (transcript_row \<times> 'x life_db_scheme)" where
  "delete_owner_chat fresh now i db =
    ebind (owner_chat i db) (\<lambda>t.
    ebind (flush_chats (erase_chat now i db)) (\<lambda>db1.
    if tr_closed_at t \<noteq> None then get_or_create_active fresh now db1
    else (case list_owner_chats db1 of
        [] \<Rightarrow> create_transcript fresh now ''owner'' None None db1
      | x # _ \<Rightarrow> ebind (flush_chats (upd_transcript (tr_id x) reopened db1)) (\<lambda>db2. Inr (reopened x, db2)))))"

section \<open>Checkpoints\<close>

definition get_active_task_state :: "uuid \<Rightarrow> 'x mem_db_scheme \<Rightarrow> mem_error + json_obj" where
  "get_active_task_state i db = ebind (the_row (get_transcript i db) (MLookupError ''Transcript not found'')) (\<lambda>t. Inr (tr_active_task_state t))"

definition stamped_state :: "uuid \<Rightarrow> json_obj \<Rightarrow> int \<Rightarrow> json_obj" where
  "stamped_state fresh state revision = json_put ''revision'' (JInt revision)
     (if json_get ''task_id'' state = None then json_put ''task_id'' (JStr fresh) state else state)"

definition update_active_task_state ::
  "uuid \<Rightarrow> uuid \<Rightarrow> json_obj \<Rightarrow> int \<Rightarrow> 'x mem_db_scheme \<Rightarrow> mem_error + (json_obj \<times> 'x mem_db_scheme)" where
  "update_active_task_state fresh i state expected db =
    (let state' = stamped_state fresh state (expected + 1);
         f = (\<lambda>t. if tr_active_task_revision t = expected
           then t\<lparr>tr_active_task_state := state', tr_active_task_revision := expected + 1\<rparr> else t);
         rowcount = length (filter (\<lambda>t. tr_id t = i \<and> tr_active_task_revision t = expected) (md_transcripts db)) in
     ebind (require (rowcount = 1) (MValueError ''Active task changed; reload before updating'')) (\<lambda>_.
     Inr (state', upd_transcript i f db)))"

definition mutate_active_task_state ::
  "uuid \<Rightarrow> uuid \<Rightarrow> (json_obj \<Rightarrow> json_obj) \<Rightarrow> string option \<Rightarrow> 'x mem_db_scheme \<Rightarrow> mem_error + (json_obj \<times> 'x mem_db_scheme)" where
  "mutate_active_task_state fresh i transform expected_task_id db =
    ebind (the_row (get_transcript i db) (MLookupError ''Transcript not found'')) (\<lambda>t.
    let cur = tr_active_task_state t in
    ebind (require (case expected_task_id of None \<Rightarrow> True | Some k \<Rightarrow> json_get ''task_id'' cur = Some (JStr k))
      (MValueError ''The response belongs to a different active task'')) (\<lambda>_.
    if transform cur = cur then Inr (cur, db)
    else update_active_task_state fresh i (transform cur) (tr_active_task_revision t) db))"

definition update_context_summary :: "uuid \<Rightarrow> string \<Rightarrow> uuid \<Rightarrow> 'x mem_db_scheme \<Rightarrow> mem_error + 'x mem_db_scheme" where
  "update_context_summary i summary through db =
    ebind (the_row (get_transcript i db) (MLookupError ''Transcript not found'')) (\<lambda>_.
    flush_chats (upd_transcript i (\<lambda>t. t\<lparr>tr_context_summary := Some summary, tr_summarized_through_turn_id := Some through\<rparr>) db))"

section \<open>Turns\<close>

definition new_turn :: "uuid \<Rightarrow> uuid \<Rightarrow> time \<Rightarrow> string \<Rightarrow> int \<Rightarrow> json list \<Rightarrow> turn_row" where
  "new_turn k i now actor sequence blocks = \<lparr>tu_id = k, tu_transcript_id = i, tu_actor = actor, tu_sequence = sequence,
     tu_blocks = blocks, tu_created_at = now, tu_deleted_at = None, tu_deletion_operation_id = None\<rparr>"

definition count_turn :: "time \<Rightarrow> transcript_row \<Rightarrow> transcript_row" where
  "count_turn now t = t\<lparr>tr_next_turn_sequence := tr_next_turn_sequence t + 1, tr_content_revision := tr_content_revision t + 1, tr_updated_at := now\<rparr>"

definition entitle :: "string option \<Rightarrow> transcript_row \<Rightarrow> transcript_row" where
  "entitle title t = (case title of None \<Rightarrow> t
     | Some s \<Rightarrow> if tr_kind t = ''owner'' \<and> tr_title t = Some DEFAULT_CHAT_TITLE then t\<lparr>tr_title := Some s\<rparr> else t)"

definition append_turn ::
  "uuid \<Rightarrow> time \<Rightarrow> uuid \<Rightarrow> string \<Rightarrow> json list \<Rightarrow> 'x mem_db_scheme \<Rightarrow> mem_error + (turn_row \<times> 'x mem_db_scheme)" where
  "append_turn k now i actor blocks db =
    ebind (the_row (get_transcript i db) (MLookupError ''No row was found when one was required'')) (\<lambda>t.
    let sequence = tr_next_turn_sequence t + 1; row = new_turn k i now actor sequence blocks;
        title = (if actor = ''owner'' \<and> sequence = 1 then suggest_title blocks else None) in
    ebind (flush_chats ((upd_transcript i (entitle title \<circ> count_turn now) db)\<lparr>md_turns := tadd row (md_turns db)\<rparr>))
      (\<lambda>db1. Inr (row, db1)))"

definition list_turns :: "uuid \<Rightarrow> int \<Rightarrow> int option \<Rightarrow> int option \<Rightarrow> 'x mem_db_scheme \<Rightarrow> turn_row list" where
  "list_turns i limit before_sequence after_sequence db = last_n (nat (max 1 (min limit 500))) (sort_key tu_sequence
     (filter (\<lambda>t. tu_transcript_id t = i \<and> (case before_sequence of None \<Rightarrow> True | Some b \<Rightarrow> tu_sequence t < b)
        \<and> (case after_sequence of None \<Rightarrow> True | Some a \<Rightarrow> a < tu_sequence t)) (md_turns db)))"

definition recent_owner_sequences :: "uuid \<Rightarrow> int \<Rightarrow> 'x mem_db_scheme \<Rightarrow> int list" where
  "recent_owner_sequences i exchanges db = take (nat (max 1 (min exchanges 50)))
     (rev (sort (map tu_sequence (filter (\<lambda>t. tu_transcript_id t = i \<and> tu_actor t = ''owner'') (md_turns db)))))"

definition list_recent_turns :: "uuid \<Rightarrow> int \<Rightarrow> int \<Rightarrow> 'x mem_db_scheme \<Rightarrow> turn_row list" where
  "list_recent_turns i exchanges limit db =
    (let owner_sequences = recent_owner_sequences i exchanges db in
     case owner_sequences of
       [] \<Rightarrow> list_turns i limit None None db
     | newest # _ \<Rightarrow>
         let turns = list_turns i limit None (Some (last owner_sequences - 1)) db in
         if list_ex (\<lambda>t. tu_sequence t = newest) turns then turns
         else list_turns i 1 (Some (newest + 1)) None db @ (if limit \<le> 1 then drop (nat (1 - limit)) turns else last_n (nat (limit - 1)) turns))"

end
