(* ===== verification/Memory_Review.thy ===== *)
theory Memory_Review
  imports Memory_Commands Transcripts
begin

text \<open>
  The owner's decisions on memory obligations (\<^verbatim>\<open>memory/lifecycle.py\<close>): confirmation of a
  candidate, review of a durable memory, resolution of a conflict and retry of an explicit
  command. Every decision names the review version it was shown; the version is a digest of the
  texts and states the decision depends on.
\<close>

section \<open>Review versions and projections\<close>

definition CONFLICT_DECISIONS :: "string list" where
  "CONFLICT_DECISIONS = [''keep_current'', ''accept_competing'', ''restate'']"

definition CONFLICT_RESOLVABLE_STATUSES :: "string list" where
  "CONFLICT_RESOLVABLE_STATUSES = [''open'', ''expired_unresolved'']"

definition review_version :: "(string \<Rightarrow> string) \<Rightarrow> string \<Rightarrow> uuid \<Rightarrow> string \<Rightarrow> string \<Rightarrow> string" where
  "review_version sha subject_type subject_id text state = sha (subject_type @ '':'' @ subject_id @ '':'' @ state @ '':'' @ text)"

fun candidate_state_value :: "candidate_state \<Rightarrow> string" where
  "candidate_state_value Absent = ''absent''"
| "candidate_state_value Pending = ''pending''"
| "candidate_state_value Leased = ''leased''"
| "candidate_state_value Retained_short_term = ''retained_short_term''"
| "candidate_state_value Awaiting_owner = ''awaiting_owner''"
| "candidate_state_value Reconciled = ''reconciled''"
| "candidate_state_value Discarded = ''discarded''"
| "candidate_state_value Blocked = ''blocked''"
| "candidate_state_value Failed = ''failed''"
| "candidate_state_value Invalidated = ''invalidated''"
| "candidate_state_value Expired = ''expired''"
| "candidate_state_value Rejected = ''rejected''"

definition candidate_review_state :: "candidate_row \<Rightarrow> string" where
  "candidate_review_state c = candidate_state_value (cd_status c) @ '':'' @ show_int (cd_state_version c) @ '':''
     @ text_of (cd_fingerprint c) @ '':'' @ text_of (cd_evidence_set_hash c)"

definition memory_review_state :: "owner_env \<Rightarrow> memory_row \<Rightarrow> string" where
  "memory_review_state e m = memory_status_value (mm_status m) @ '':'' @ mm_grounding_status m @ '':''
     @ text_of (mm_fingerprint m) @ '':'' @ oe_iso e (mm_updated_at m)"

definition candidate_review_version :: "owner_env \<Rightarrow> string \<Rightarrow> candidate_row \<Rightarrow> string" where
  "candidate_review_version e text c = review_version (oe_sha e) ''memory_candidate'' (cd_id c) text (candidate_review_state c)"

definition memory_review_version :: "owner_env \<Rightarrow> string \<Rightarrow> memory_row \<Rightarrow> string" where
  "memory_review_version e text m = review_version (oe_sha e) ''durable_memory'' (mm_id m) text (memory_review_state e m)"

definition clean_or_empty :: "string option \<Rightarrow> mem_error + string" where
  "clean_or_empty v = (case v of Some (c # cs) \<Rightarrow> clean_memory_content (c # cs) | _ \<Rightarrow> Inr [])"

definition conflict_review_version ::
  "owner_env \<Rightarrow> conflict_row \<Rightarrow> memory_row \<Rightarrow> candidate_row option \<Rightarrow> mem_error + string" where
  "conflict_review_version e cf m c =
    ebind (clean_or_empty (mm_content m)) (\<lambda>target_text.
    ebind (clean_or_empty (cf_proposed_content cf)) (\<lambda>competing.
    Inr (review_version (oe_sha e) ''memory_conflict'' (cf_id cf) (target_text @ [CHR 0x0A] @ ''---'' @ [CHR 0x0A] @ competing)
      (cf_status cf @ '':'' @ memory_status_value (mm_status m) @ '':'' @ mm_grounding_status m @ '':'' @ text_of (mm_fingerprint m)
       @ '':'' @ oe_iso e (mm_updated_at m) @ '':'' @ (case c of None \<Rightarrow> [] | Some x \<Rightarrow> candidate_state_value (cd_status x))
       @ '':'' @ (case c of None \<Rightarrow> ''0'' | Some x \<Rightarrow> show_int (cd_state_version x))))))"

fun obligation_status_value :: "obligation_status \<Rightarrow> string" where
  "obligation_status_value Open = ''pending''"
| "obligation_status_value Resolved = ''resolved''"

definition project_obligation :: "owner_env \<Rightarrow> obligation_row \<Rightarrow> json_obj" where
  "project_obligation e ob = (let iso = (\<lambda>t. case t of None \<Rightarrow> JNull | Some x \<Rightarrow> JStr (oe_iso e x)) in
    [(''obligation_id'', JStr (ob_id ob)), (''kind'', JStr (ob_kind ob)), (''status'', JStr (obligation_status_value (ob_status ob))),
     (''subject_type'', JStr (ob_subject_type ob)), (''subject_id'', opt_json (ob_subject_id ob)), (''origin'', JStr (ob_origin ob)),
     (''resolution_code'', opt_json (ob_resolution_code ob)), (''resolution'', JObj (ob_resolution ob)),
     (''source_transcript_id'', opt_json (ob_source_transcript_id ob)), (''source_turn_id'', opt_json (ob_source_turn_id ob)),
     (''resolution_source_transcript_id'', opt_json (ob_resolution_source_transcript_id ob)),
     (''resolution_source_turn_id'', opt_json (ob_resolution_source_turn_id ob)), (''expires_at'', iso (ob_expires_at ob)),
     (''created_at'', iso (Some (ob_created_at ob))), (''resolved_at'', iso (ob_resolved_at ob))])"

definition conflict_projection :: "owner_env \<Rightarrow> conflict_row \<Rightarrow> 'x mem_db_scheme \<Rightarrow> mem_error + json_obj" where
  "conflict_projection e cf db =
    (let target = get_memory (cf_target_memory_id cf) db; c = get_cand (cf_candidate_id cf) db;
         resolvable = (cf_status cf \<in> set CONFLICT_RESOLVABLE_STATUSES
           \<and> (case target of None \<Rightarrow> False | Some m \<Rightarrow> mm_status m = ACTIVE \<and> mm_content m \<noteq> None)) in
     ebind (if resolvable then ebind (conflict_review_version e cf (the target) c) (\<lambda>v. Inr (JStr v)) else Inr JNull) (\<lambda>version.
     ebind (case target of None \<Rightarrow> Inr JNull | Some m \<Rightarrow> (case mm_content m of
         Some (x # xs) \<Rightarrow> ebind (clean_memory_content (x # xs)) (\<lambda>t. Inr (JStr t)) | _ \<Rightarrow> Inr JNull)) (\<lambda>target_content.
     ebind (case cf_proposed_content cf of Some (x # xs) \<Rightarrow> ebind (clean_memory_content (x # xs)) (\<lambda>t. Inr (JStr t)) | _ \<Rightarrow> Inr JNull)
       (\<lambda>competing.
     Inr [(''proposed_assertion_text'', JNull), (''review_version'', version), (''conflict_id'', JStr (cf_id cf)),
       (''conflict_status'', JStr (cf_status cf)), (''target_memory_id'', JStr (cf_target_memory_id cf)),
       (''target_content'', target_content),
       (''target_authority'', case target of None \<Rightarrow> JNull | Some m \<Rightarrow> JStr (if owner_directed m then ''owner_directed'' else ''derived'')),
       (''competing_claim'', competing), (''reason_code'', opt_json (cf_reason_code cf)),
       (''candidate_id'', JStr (cf_candidate_id cf)), (''candidate_origin'', opt_json (map_option cd_origin c)),
       (''resolution_options'', JList (if resolvable then map JStr (sort CONFLICT_DECISIONS) else []))]))))"

section \<open>The owner's assertion turn\<close>

definition append_owner_assertion_turn ::
  "owner_env \<Rightarrow> string \<Rightarrow> 'x mem_db_scheme \<Rightarrow> mem_error + 'x mem_db_scheme" where
  "append_owner_assertion_turn e content db =
    ebind (create_transcript (oe_transcript_id e) (oe_now e) ''memory_review'' None None db) (\<lambda>(_, db1).
    ebind (append_turn (oe_turn_id e) (oe_now e) (oe_transcript_id e) ''owner''
      [JObj [(''type'', JStr ''text''), (''text'', JStr content)]] db1) (\<lambda>(_, db2).
    Inr (upd_transcript (oe_transcript_id e) (\<lambda>t. t\<lparr>tr_closed_at := Some (oe_now e), tr_updated_at := oe_now e\<rparr>) db2)))"

section \<open>Confirmation of a candidate\<close>

definition resolve_row ::
  "time \<Rightarrow> string \<Rightarrow> json_obj \<Rightarrow> owner_source \<Rightarrow> obligation_row \<Rightarrow> obligation_row" where
  "resolve_row now code resolution source ob = ob\<lparr>ob_status := Resolved, ob_resolved_at := Some now, ob_resolution_code := Some code,
     ob_resolution := resolution, ob_resolution_source_transcript_id := fst source, ob_resolution_source_turn_id := snd source\<rparr>"

definition requeued_row :: "json_obj \<Rightarrow> candidate_row \<Rightarrow> candidate_row" where
  "requeued_row decision c = c\<lparr>cd_state_version := cd_state_version c + 1, cd_status := Pending, cd_lease_token := None,
     cd_leased_until := None, cd_review_after := None, cd_attempt_count := 0, cd_processed_at := None, cd_decision := decision\<rparr>"

definition rejected_row :: "time \<Rightarrow> json_obj \<Rightarrow> candidate_row \<Rightarrow> candidate_row" where
  "rejected_row now decision c = c\<lparr>cd_state_version := cd_state_version c + 1, cd_status := Rejected, cd_lease_token := None,
     cd_leased_until := None, cd_review_after := None, cd_processed_at := Some now, cd_decision := decision\<rparr>"

definition reject_candidate ::
  "time \<Rightarrow> string \<Rightarrow> string option \<Rightarrow> json_obj \<Rightarrow> candidate_row \<Rightarrow> 'x mem_db_scheme \<Rightarrow> mem_error + 'x mem_db_scheme" where
  "reject_candidate now code resolution decision c db =
    settle_explicit_obligation now None (Some code) resolution (rejected_row now decision c)
      (upd_cand (cd_id c) (rejected_row now decision) db)"

definition with_assertion :: "owner_env \<Rightarrow> candidate_row \<Rightarrow> 'x mem_db_scheme \<Rightarrow> 'x mem_db_scheme" where
  "with_assertion e c db =
    (let refs = ordered_refs (cd_id c) db;
         ordinal = (case rev (sort (map ce_ordinal refs)) of [] \<Rightarrow> 0 | n # _ \<Rightarrow> Suc n);
         h = evidence_set_hash (oe_sha e) (map (\<lambda>r. (ce_turn_id r, ce_span_ref r)) refs @ [(oe_turn_id e, ''text:0'')]) in
     (upd_cand (cd_id c) (\<lambda>x. x\<lparr>cd_evidence_set_hash := Some h\<rparr>) db)\<lparr>md_evidence := tadd
       \<lparr>ce_candidate_id = cd_id c, ce_turn_id = oe_turn_id e, ce_principal = ''owner'', ce_ordinal = ordinal, ce_span_ref = ''text:0''\<rparr>
       (md_evidence db)\<rparr>)"

definition answered :: "string \<Rightarrow> json_obj \<Rightarrow> json_obj" where
  "answered r d = (''result'', JStr r) # d"

definition confirm_candidate ::
  "owner_env \<Rightarrow> json option \<Rightarrow> obligation_row \<Rightarrow> candidate_row \<Rightarrow> 'x mem_db_scheme \<Rightarrow> mem_error + (json_obj \<times> 'x mem_db_scheme)" where
  "confirm_candidate e edited ob c db =
    ebind (case edited of Some v \<Rightarrow> clean_value ''content'' (Some v) | None \<Rightarrow> clean_value ''content'' (map_option JStr (cd_content c))) (\<lambda>asserted.
    ebind (append_owner_assertion_turn e asserted db) (\<lambda>db1.
    let f = resolve_row (oe_now e) ''confirmed'' [(''candidate_id'', JStr (cd_id c))] (Some (oe_transcript_id e), Some (oe_turn_id e));
        decision = [(''decision'', JStr ''owner_confirmed''), (''owner_confirmation_granted'', JBool True),
          (''owner_assertion_turn_id'', JStr (oe_turn_id e)), (''owner_assertion_transcript_id'', JStr (oe_transcript_id e)),
          (''obligation_id'', JStr (ob_id ob))] in
    ebind (flush (upd_obligation (ob_id ob) f (upd_cand (cd_id c) (requeued_row decision) (with_assertion e c db1)))) (\<lambda>db2.
    Inr (answered ''requeued_for_reconciliation'' ((''candidate_id'', JStr (cd_id c)) # project_obligation e (f ob)), db2))))"

definition reject_confirmation ::
  "owner_env \<Rightarrow> owner_source \<Rightarrow> obligation_row \<Rightarrow> candidate_row \<Rightarrow> 'x mem_db_scheme \<Rightarrow> mem_error + (json_obj \<times> 'x mem_db_scheme)" where
  "reject_confirmation e source ob c db =
    (let f = resolve_row (oe_now e) ''rejected'' [(''candidate_id'', JStr (cd_id c))] source in
     ebind (reject_candidate (oe_now e) ''owner_rejected_confirmation'' None
       [(''decision'', JStr ''rejected''), (''code'', JStr ''owner_rejected_confirmation''), (''obligation_id'', JStr (ob_id ob))] c
       (upd_obligation (ob_id ob) f db)) (\<lambda>db1.
     ebind (flush db1) (\<lambda>db2.
     Inr (answered ''rejected'' ((''candidate_id'', JStr (cd_id c)) # project_obligation e (f ob)), db2))))"

definition expire_confirmation ::
  "owner_env \<Rightarrow> obligation_row \<Rightarrow> candidate_row \<Rightarrow> 'x mem_db_scheme \<Rightarrow> mem_error + (json_obj \<times> 'x mem_db_scheme)" where
  "expire_confirmation e ob c db =
    (let f = (\<lambda>x. x\<lparr>ob_status := Resolved, ob_resolution_code := Some ''expired_unconfirmed'', ob_resolution := [],
           ob_resolved_at := Some (oe_now e)\<rparr>);
         g = expire_candidate (oe_now e) [(''decision'', JStr ''expired''), (''code'', JStr ''owner_confirmation_expired'')] in
     ebind (write_and_settle (oe_now e) ''owner_confirmation_expired'' g c (upd_obligation (ob_id ob) f db)) (\<lambda>db1.
     ebind (flush db1) (\<lambda>db2. Inr (answered ''expired'' (project_obligation e (f ob)), db2))))"

definition resolve_confirmation ::
  "owner_env \<Rightarrow> string \<Rightarrow> json option \<Rightarrow> string option \<Rightarrow> owner_source \<Rightarrow> obligation_row \<Rightarrow> 'x mem_db_scheme
   \<Rightarrow> mem_error + (json_obj \<times> 'x mem_db_scheme)" where
  "resolve_confirmation e decision edited shown source ob db =
    ebind (require (ob_kind ob \<in> {''memory_confirmation'', ''memory_review''} \<and> ob_subject_type ob = ''memory_candidate'')
      (MValueError ''this obligation requires a different resolution flow'')) (\<lambda>_.
    ebind (require (decision \<noteq> ''retry'') (MValueError ''candidate confirmation does not support retry'')) (\<lambda>_.
    ebind (the_row (case ob_subject_id ob of None \<Rightarrow> None | Some i \<Rightarrow> get_cand i db)
      (MLookupError ''memory candidate for obligation not found'')) (\<lambda>c.
    ebind (clean_value ''content'' (map_option JStr (cd_content c))) (\<lambda>current_text.
    let version = candidate_review_version e current_text c in
    if decision \<in> {''confirm'', ''reject''} \<and> shown \<noteq> Some version then
      Inr (answered ''stale_review'' ([(''proposed_assertion_text'', JStr current_text), (''review_version'', JStr version)]
        @ project_obligation e ob), db)
    else if (case ob_expires_at ob of None \<Rightarrow> False | Some t \<Rightarrow> t \<le> oe_now e) then expire_confirmation e ob c db
    else if decision = ''confirm'' then confirm_candidate e edited ob c db
    else reject_confirmation e source ob c db))))"

section \<open>Retry of an explicit command\<close>

definition retry_evidence_live :: "candidate_row \<Rightarrow> 'x mem_db_scheme \<Rightarrow> bool" where
  "retry_evidence_live c db = (let turns = firsts (map ce_turn_id (evidence_refs (cd_id c) db)) in
     turns \<noteq> [] \<and> (\<forall>t \<in> set turns. case tget tu_id t (md_turns db) of None \<Rightarrow> False | Some x \<Rightarrow> tu_deleted_at x = None)
     \<and> cd_content c \<noteq> None \<and> cd_fingerprint c \<noteq> None)"

definition retry_explicit_obligation ::
  "owner_env \<Rightarrow> string \<Rightarrow> string option \<Rightarrow> owner_source \<Rightarrow> obligation_row \<Rightarrow> 'x mem_db_scheme
   \<Rightarrow> mem_error + (json_obj \<times> 'x mem_db_scheme)" where
  "retry_explicit_obligation e decision shown source ob db =
    ebind (require (decision = ''retry'') (MValueError ''explicit remember/correct obligations support only retry'')) (\<lambda>_.
    ebind (require (ob_subject_type ob = ''memory_candidate'' \<and> ob_subject_id ob \<noteq> None)
      (MValueError ''this explicit command obligation has no retryable candidate'')) (\<lambda>_.
    ebind (the_row (get_cand (the (ob_subject_id ob)) db) (MLookupError ''memory candidate for obligation not found'')) (\<lambda>c.
    if cd_status c \<in> reconcilable then
      Inr (answered ''already_queued'' ((''candidate_id'', JStr (cd_id c)) # project_obligation e ob), db)
    else if cd_status c \<noteq> Failed then
      Inr (answered ''not_retryable'' ([(''candidate_id'', JStr (cd_id c)), (''candidate_status'', JStr (candidate_state_value (cd_status c)))]
        @ project_obligation e ob), db)
    else
      ebind (clean_or_empty (cd_content c)) (\<lambda>current_text.
      let version = candidate_review_version e current_text c in
      if shown \<noteq> Some version then
        Inr (answered ''stale_review'' ([(''proposed_assertion_text'', opt_json (or_none current_text)), (''review_version'', JStr version)]
          @ project_obligation e ob), db)
      else if \<not> retry_evidence_live c db then
        ebind (write_and_settle (oe_now e) ''evidence_unavailable'' (\<lambda>x. x\<lparr>cd_state_version := cd_state_version x + 1,
            cd_status := Invalidated, cd_invalidated_at := Some (oe_now e), cd_processed_at := Some (oe_now e),
            cd_decision := [(''decision'', JStr ''invalidated''), (''code'', JStr ''evidence_unavailable'')]\<rparr>) c db) (\<lambda>db1.
        ebind (flush db1) (\<lambda>db2.
        Inr (answered ''evidence_unavailable'' ((''candidate_id'', JStr (cd_id c))
          # project_obligation e (case tget ob_id (ob_id ob) (md_obligations db2) of None \<Rightarrow> ob | Some x \<Rightarrow> x)), db2)))
      else
        let retries = int_or 0 (json_get ''owner_retries'' (ob_resolution ob)) + 1;
            f = (\<lambda>x. x\<lparr>ob_resolution := json_put ''owner_retries'' (JInt retries) (ob_resolution x),
              ob_resolution_source_transcript_id := fst source, ob_resolution_source_turn_id := snd source\<rparr>);
            decided = [(''decision'', JStr ''owner_retry''), (''obligation_id'', JStr (ob_id ob)), (''owner_retries'', JInt retries)] in
        ebind (flush (upd_obligation (ob_id ob) f (upd_cand (cd_id c) (requeued_row decided) db))) (\<lambda>db1.
        Inr (answered ''requeued_for_reconciliation'' ((''candidate_id'', JStr (cd_id c)) # project_obligation e (f ob)), db1))))))"

section \<open>Review of a durable memory\<close>

definition review_envelope :: "owner_env \<Rightarrow> string \<Rightarrow> uuid \<Rightarrow> string \<Rightarrow> owner_source \<Rightarrow> envelope" where
  "review_envelope e operation obligation_id decision source =
    \<lparr>e_operation_id = oe_operation_id e, e_resource_type = MEMORY_RESOURCE_TYPE, e_resource_id = MEMORY_RESOURCE_ID,
     e_operation = operation @ decision, e_expected_version = None,
     e_payload = [(''obligation_id'', JStr obligation_id), (''decision'', JStr decision)], e_actor = ''owner'',
     e_source_transcript_id = fst source, e_source_turn_id = snd source, e_source_run_id = None\<rparr>"

definition asserted_row :: "owner_env \<Rightarrow> string \<Rightarrow> memory_row \<Rightarrow> memory_row" where
  "asserted_row e wording m = clear_embedding (m\<lparr>mm_content := Some wording, mm_fingerprint := Some (memory_fingerprint (oe_sha e) wording),
     mm_grounding_status := ''verified'', mm_verification_record_id := None, mm_owner_assertion_turn_id := Some (oe_turn_id e),
     mm_source_transcript_id := Some (oe_transcript_id e), mm_source_turn_id := Some (oe_turn_id e), mm_updated_at := oe_now e\<rparr>)"

definition confirm_review ::
  "owner_env \<Rightarrow> json option \<Rightarrow> obligation_row \<Rightarrow> memory_row \<Rightarrow> 'x mem_db_scheme \<Rightarrow> mem_error + ('x mem_db_scheme \<times> mutation)" where
  "confirm_review e edited ob m db =
    ebind (case edited of Some v \<Rightarrow> clean_value ''content'' (Some v) | None \<Rightarrow> clean_value ''content'' (map_option JStr (mm_content m))) (\<lambda>asserted.
    ebind (active_by_fingerprint (memory_fingerprint (oe_sha e) asserted) db) (\<lambda>existing.
    ebind (require (case existing of None \<Rightarrow> True | Some x \<Rightarrow> mm_id x = mm_id m)
      (MValueError ''confirmed review wording already exists as another active memory'')) (\<lambda>_.
    ebind (append_owner_assertion_turn e asserted db) (\<lambda>db1.
    ebind (flush (upd_obligation (ob_id ob) (resolve_row (oe_now e) ''confirmed'' [(''memory_id'', JStr (mm_id m))]
        (Some (oe_transcript_id e), Some (oe_turn_id e)))
      (add_provenance \<lparr>pv_memory_id = mm_id m, pv_relationship = ''owner_review_confirmed'', pv_source_turn_id = Some (oe_turn_id e),
        pv_source_candidate_id = None, pv_source_memory_id = None\<rparr> (upd_memory (mm_id m) (asserted_row e asserted) db1)))) (\<lambda>db2.
    Inr (db2, changed (memory_result ''confirmed'' (mm_id m) @ [(''owner_assertion_turn_id'', JStr (oe_turn_id e))])))))))"

definition review_mutation ::
  "owner_env \<Rightarrow> uuid \<Rightarrow> string \<Rightarrow> json option \<Rightarrow> string option \<Rightarrow> 'x mem_db_scheme \<Rightarrow> int \<Rightarrow> mem_error + ('x mem_db_scheme \<times> mutation)" where
  "review_mutation e obligation_id decision edited shown db version =
    ebind (the_row (tget ob_id obligation_id (md_obligations db)) (MLookupError ''memory obligation not found'')) (\<lambda>ob.
    if ob_status ob \<noteq> Open then Inr (db, no_change (answered ''already_resolved'' (project_obligation e ob)))
    else
      ebind (require (ob_kind ob = ''memory_review'' \<and> ob_subject_type ob = ''durable_memory'')
        (MValueError ''obligation is not a durable-memory review'')) (\<lambda>_.
      ebind (the_row (ob_subject_id ob) (MLookupError ''memory review target is missing'')) (\<lambda>i.
      ebind (the_row (get_memory i db) (MLookupError ''memory review target not found'')) (\<lambda>m.
      ebind (clean_value ''content'' (map_option JStr (mm_content m))) (\<lambda>current_text.
      let current_version = memory_review_version e current_text m in
      if shown \<noteq> Some current_version then
        Inr (db, no_change (answered ''stale_review'' [(''proposed_assertion_text'', JStr current_text), (''review_version'', JStr current_version)]))
      else if decision = ''reject'' then
        let f = (\<lambda>x. x\<lparr>ob_status := Resolved, ob_resolved_at := Some (oe_now e), ob_resolution_code := Some ''rejected'',
            ob_resolution := [(''memory_id'', JStr (mm_id m))]\<rparr>) in
        ebind (flush (upd_obligation (ob_id ob) f (if mm_status m = ACTIVE then upd_memory (mm_id m) (retire_row (oe_now e)) db else db))) (\<lambda>db1.
        Inr (db1, changed (memory_result ''rejected'' (mm_id m))))
      else confirm_review e edited ob m db)))))"

definition review_answer :: "owner_env \<Rightarrow> receipt \<Rightarrow> json_obj" where
  "review_answer e rc = json_merge [(''operation_id'', JStr (oe_operation_id e)),
     (''memory_revision'', case r_committed_version rc of None \<Rightarrow> JNull | Some v \<Rightarrow> JInt v)] (r_result rc)"

section \<open>Resolution of a conflict\<close>

definition kept_source :: "memory_row \<Rightarrow> conflict_row \<Rightarrow> provenance_row" where
  "kept_source m cf = \<lparr>pv_memory_id = mm_id m, pv_relationship = ''owner_conflict_kept_current'', pv_source_turn_id = None,
     pv_source_candidate_id = Some (cf_candidate_id cf), pv_source_memory_id = None\<rparr>"

definition reject_competing ::
  "owner_env \<Rightarrow> string \<Rightarrow> string option \<Rightarrow> json_obj \<Rightarrow> candidate_row option \<Rightarrow> 'x mem_db_scheme \<Rightarrow> mem_error + 'x mem_db_scheme" where
  "reject_competing e code resolution extra c db = (case c of None \<Rightarrow> Inr db
     | Some x \<Rightarrow> if cd_status x = Awaiting_owner
         then reject_candidate (oe_now e) code resolution ([(''decision'', JStr ''rejected''), (''code'', JStr code)] @ extra) x db
         else Inr db)"

definition settle_conflict :: "owner_env \<Rightarrow> string \<Rightarrow> conflict_row \<Rightarrow> conflict_row" where
  "settle_conflict e st cf = cf\<lparr>cf_status := st, cf_resolved_at := Some (oe_now e)\<rparr>"

definition keep_current ::
  "owner_env \<Rightarrow> owner_source \<Rightarrow> obligation_row \<Rightarrow> conflict_row \<Rightarrow> memory_row \<Rightarrow> candidate_row option \<Rightarrow> 'x mem_db_scheme
   \<Rightarrow> mem_error + ('x mem_db_scheme \<times> mutation)" where
  "keep_current e source ob cf m c db =
    (let ids = [(''conflict_id'', JStr (cf_id cf)), (''target_memory_id'', JStr (mm_id m)), (''candidate_id'', JStr (cf_candidate_id cf))];
         f = resolve_row (oe_now e) ''keep_current'' ids source in
     ebind (reject_competing e ''owner_kept_current'' None [(''conflict_id'', JStr (cf_id cf)), (''obligation_id'', JStr (ob_id ob))] c
       (upd_conflict (cf_id cf) (settle_conflict e ''resolved_keep_current'') db)) (\<lambda>db1.
     ebind (flush (upd_obligation (ob_id ob) f (add_provenance (kept_source m cf)
       (upd_memory (mm_id m) (\<lambda>x. x\<lparr>mm_updated_at := oe_now e\<rparr>) db1)))) (\<lambda>db2.
     Inr (db2, changed (answered ''keep_current'' ([(''conflict_id'', JStr (cf_id cf)), (''target_memory_id'', JStr (mm_id m))]
       @ project_obligation e (f ob)))))))"

definition replace_current ::
  "owner_env \<Rightarrow> string \<Rightarrow> json option \<Rightarrow> string \<Rightarrow> owner_source \<Rightarrow> obligation_row \<Rightarrow> conflict_row \<Rightarrow> memory_row \<Rightarrow> candidate_row option
   \<Rightarrow> 'x mem_db_scheme \<Rightarrow> mem_error + ('x mem_db_scheme \<times> mutation)" where
  "replace_current e decision content change_type source ob cf m c db =
    ebind (if decision = ''restate'' then (case content of None \<Rightarrow> Inl (MValueError ''restate requires content'') | Some v \<Rightarrow> clean_value ''content'' (Some v))
       else (case cf_proposed_content cf of Some (x # xs) \<Rightarrow> clean_memory_content (x # xs)
         | _ \<Rightarrow> Inl (MValueError ''the competing claim is no longer available; restate the correct wording''))) (\<lambda>replacement.
    ebind (require (Some (memory_fingerprint (oe_sha e) replacement) \<noteq> mm_fingerprint m)
      (MValueError ''the wording equals the current memory; use keep_current'')) (\<lambda>_.
    ebind (queue_explicit_content_command_in e
      \<lparr>xr_operation = ''correct'', xr_content = replacement, xr_classification = target_classification (Some m),
       xr_target_memory_id = Some (mm_id m), xr_change_type = Some change_type, xr_legacy_old_content = None,
       xr_suppression_content = mm_content m\<rparr> source db) (\<lambda>(queued, db1).
    let queued_id = (\<lambda>k. case json_get k queued of None \<Rightarrow> JNull | Some v \<Rightarrow> v);
        f = resolve_row (oe_now e) decision [(''conflict_id'', JStr (cf_id cf)), (''target_memory_id'', JStr (mm_id m)),
          (''candidate_id'', JStr (cf_candidate_id cf)), (''command_id'', queued_id ''command_id''),
          (''correction_candidate_id'', queued_id ''candidate_id''), (''correction_obligation_id'', queued_id ''obligation_id''),
          (''change_type'', JStr change_type)] source in
    ebind (reject_competing e ''owner_resolved_conflict'' (Some ''superseded'')
      [(''conflict_id'', JStr (cf_id cf)), (''obligation_id'', JStr (ob_id ob)), (''superseded_by_command_id'', queued_id ''command_id'')] c
      (upd_conflict (cf_id cf) (settle_conflict e (''resolved_'' @ decision)) db1)) (\<lambda>db2.
    ebind (flush (upd_obligation (ob_id ob) f db2)) (\<lambda>db3.
    Inr (db3, changed [(''result'', JStr ''queued_for_verification''), (''status'', JStr ''queued''), (''operation'', JStr ''correct''),
      (''decision'', JStr decision), (''command_id'', queued_id ''command_id''), (''candidate_id'', queued_id ''candidate_id''),
      (''obligation_id'', queued_id ''obligation_id''), (''conflict_obligation_id'', JStr (ob_id ob)),
      (''conflict_id'', JStr (cf_id cf)), (''target_memory_id'', JStr (mm_id m))]))))))"

definition conflict_mutation ::
  "owner_env \<Rightarrow> uuid \<Rightarrow> string \<Rightarrow> json option \<Rightarrow> string \<Rightarrow> string option \<Rightarrow> owner_source \<Rightarrow> 'x mem_db_scheme \<Rightarrow> int
   \<Rightarrow> mem_error + ('x mem_db_scheme \<times> mutation)" where
  "conflict_mutation e obligation_id decision content change_type shown source db version =
    ebind (the_row (tget ob_id obligation_id (md_obligations db)) (MLookupError ''memory obligation not found'')) (\<lambda>ob.
    ebind (require (ob_kind ob = ''memory_conflict'' \<and> ob_subject_type ob = ''memory_conflict'' \<and> ob_subject_id ob \<noteq> None)
      (MValueError ''obligation is not a memory conflict'')) (\<lambda>_.
    ebind (the_row (tget cf_id (the (ob_subject_id ob)) (md_conflicts db)) (MLookupError ''memory conflict not found'')) (\<lambda>cf.
    if cf_status cf \<notin> set CONFLICT_RESOLVABLE_STATUSES then
      Inr (db, no_change (answered ''already_resolved'' ((''conflict_status'', JStr (cf_status cf)) # project_obligation e ob)))
    else
      ebind (the_row (get_memory (cf_target_memory_id cf) db) (MValueError ''conflict target is no longer active'')) (\<lambda>m.
      ebind (require (mm_status m = ACTIVE \<and> mm_content m \<noteq> None) (MValueError ''conflict target is no longer active'')) (\<lambda>_.
      ebind (conflict_projection e cf db) (\<lambda>projection.
      if json_get ''review_version'' projection \<noteq> Some (opt_json shown) then
        Inr (db, no_change (answered ''stale_review'' (json_merge (project_obligation e ob) projection)))
      else if decision = ''keep_current'' then keep_current e source ob cf m (get_cand (cf_candidate_id cf) db) db
      else replace_current e decision content change_type source ob cf m (get_cand (cf_candidate_id cf) db) db))))))"

section \<open>The command\<close>

definition run_review ::
  "owner_env \<Rightarrow> envelope \<Rightarrow> ('x mem_db_scheme \<Rightarrow> int \<Rightarrow> mem_error + ('x mem_db_scheme \<times> mutation)) \<Rightarrow> 'x mem_db_scheme shared_db
   \<Rightarrow> (mem_error write_error + json_obj) \<times> 'x mem_db_scheme shared_db" where
  "run_review e env mut s = (case writer_execute (oe_sha e) env mut s of
      (Inl err, s') \<Rightarrow> (Inl err, s') | (Inr rc, s') \<Rightarrow> (Inr (review_answer e rc), s'))"

text \<open>A decision in a plain transaction: rolled back when it raises.\<close>

definition run_plain ::
  "('x mem_db_scheme \<Rightarrow> mem_error + (json_obj \<times> 'x mem_db_scheme)) \<Rightarrow> 'x mem_db_scheme shared_db
   \<Rightarrow> (mem_error write_error + json_obj) \<times> 'x mem_db_scheme shared_db" where
  "run_plain f s = (case f (sd_payload s) of
      Inl err \<Rightarrow> (Inl (MutationRaised err), s) | Inr (r, db) \<Rightarrow> (Inr r, s\<lparr>sd_payload := db\<rparr>))"

definition resolve_pending ::
  "owner_env \<Rightarrow> uuid \<Rightarrow> string \<Rightarrow> json option \<Rightarrow> string option \<Rightarrow> owner_source \<Rightarrow> 'x mem_db_scheme
   \<Rightarrow> mem_error + (json_obj \<times> 'x mem_db_scheme)" where
  "resolve_pending e obligation_id decision edited shown source db =
    ebind (the_row (tget ob_id obligation_id (md_obligations db)) (MLookupError ''memory obligation not found'')) (\<lambda>ob.
    if ob_status ob \<noteq> Open then Inr (answered ''already_resolved'' (project_obligation e ob), db)
    else if ob_kind ob \<in> set EXPLICIT_OBLIGATION_KINDS then retry_explicit_obligation e decision shown source ob db
    else resolve_confirmation e decision edited shown source ob db)"

definition resolve_obligation ::
  "owner_env \<Rightarrow> json_obj \<Rightarrow> 'x mem_db_scheme shared_db \<Rightarrow> (mem_error write_error + json_obj) \<times> 'x mem_db_scheme shared_db" where
  "resolve_obligation e args s =
    (let decision = strip (json_or ''decision'' args []); shown = or_none (strip (json_or ''review_version'' args []));
         source = latest_owner_source (oe_current_transcript e) (sd_payload s);
         change_type = json_or ''change_type'' args ''correction'';
         raise = (\<lambda>err. (Inl (MutationRaised err), s)) in
     case uuid_arg e (case json_get ''obligation_id'' args of None \<Rightarrow> JNull | Some v \<Rightarrow> v) of
       Inl err \<Rightarrow> raise err
     | Inr i \<Rightarrow>
         if decision \<notin> set ([''confirm'', ''reject'', ''retry''] @ CONFLICT_DECISIONS) then
           raise (MValueError ''decision must be confirm, reject, retry, keep_current, accept_competing, or restate'')
         else (case tget ob_id i (md_obligations (sd_payload s)) of
             None \<Rightarrow> raise (MLookupError ''memory obligation not found'')
           | Some ob \<Rightarrow>
               if ob_kind ob = ''memory_conflict'' then
                 (if decision \<notin> set CONFLICT_DECISIONS then raise (MValueError ''memory conflicts require keep_current, accept_competing, or restate'')
                  else if change_type \<notin> {''correction'', ''change_over_time''} then raise (MValueError ''invalid change_type'')
                  else run_review e (review_envelope e ''memory_conflict_'' i decision source)
                    (conflict_mutation e i decision (given ''content'' args) change_type shown source) s)
               else if decision \<in> set CONFLICT_DECISIONS then raise (MValueError ''conflict decisions apply only to memory conflict obligations'')
               else if ob_kind ob = ''memory_review'' \<and> ob_subject_type ob = ''durable_memory'' then
                 (if decision \<notin> {''confirm'', ''reject''} then raise (MValueError ''memory review requires confirm or reject'')
                  else run_review e (review_envelope e ''memory_review_'' i decision (None, None))
                    (review_mutation e i decision (given ''content'' args) shown) s)
               else run_plain (resolve_pending e i decision (given ''content'' args) shown source) s))"

end
