(* ===== verification/Memory_Worker.thy ===== *)
theory Memory_Worker
  imports Memory_Verification
begin

text \<open>
  The reconciliation worker (\<^verbatim>\<open>MemoryReconciliationService.run_once\<close> and
  \<^verbatim>\<open>_reconcile_policy_publish\<close> of \<^verbatim>\<open>memory/reconciliation.py\<close>) as a machine: a phase is
  where the coroutine waits for its next transaction, and a step runs that transaction on the
  state the database has by then. What other processes do between two transactions is an
  argument of the run. The language model's answer is an argument of the step: the JSON value
  its text holds, \<open>None\<close> when the text is not one JSON value. The pydantic validators of the
  three answers and the ISO timestamp parser are parameters of the configuration.
\<close>

section \<open>Phases, statistics, environment\<close>

datatype phase =
    Loading
  | Reusing loaded_snapshot
  | Reading loaded_snapshot
  | Comparing loaded_snapshot reading_row reading
  | Rejecting string
  | Refreshing loaded_snapshot reading comparison_row comparison nat
  | Reconciling loaded_snapshot reading comparison_row comparison nat
  | Policing loaded_snapshot reading comparison_row comparison nat relation_decision record_row
  | Blocking string nat
  | Publishing loaded_snapshot reading comparison_row comparison nat evaluation_snapshot reconciliation_decision
  | Releasing nat
  | Requeueing loaded_snapshot nat
  | Unknown_result
  | Failing string
  | Finished
  | Crashed mem_error

record run_result =
  rs_claimed :: nat
  rs_reconciled :: nat
  rs_retained_short_term :: nat
  rs_discarded :: nat
  rs_blocked :: nat
  rs_version_conflicts :: nat
  rs_source_conflicts :: nat
  rs_lease_conflicts :: nat
  rs_failures :: nat
  rs_expired :: nat
  rs_contract_notes :: note_counts

record worker_config =
  wc_leases :: lease_config
  wc_sha :: "string \<Rightarrow> string"
  wc_parse_iso :: "string \<Rightarrow> time option"
  wc_model :: "string option"
  wc_reading :: "json \<Rightarrow> mem_error + reading"
  wc_comparison :: "json \<Rightarrow> mem_error + comparison"
  wc_relation :: "json \<Rightarrow> mem_error + relation_decision"

text \<open>What one step draws from outside: clock, fresh row identity, the answer, what a publication needs,
  and whether the database aborts the publication with a serialization failure.\<close>

record worker_env =
  we_now :: time
  we_fresh :: uuid
  we_answer :: "json option"
  we_publish :: publish_env
  we_serialization_failure :: bool

record 'x worker =
  wk_phase :: phase
  wk_stats :: run_result
  wk_db :: "'x verify_db_scheme shared_db"

section \<open>Answers of the model\<close>

definition json_object :: "json option \<Rightarrow> mem_error + json" where
  "json_object answer = (case answer of Some (JObj d) \<Rightarrow> Inr (JObj d)
     | Some _ \<Rightarrow> Inl MTypeError | None \<Rightarrow> Inl (MValueError ''model did not return one JSON object''))"

definition add_count :: "string \<Rightarrow> nat \<Rightarrow> note_counts \<Rightarrow> note_counts" where
  "add_count k n ns = AList.update k ((case map_of ns k of None \<Rightarrow> 0 | Some m \<Rightarrow> m) + n) ns"

definition note_contract :: "string \<Rightarrow> note_counts \<Rightarrow> run_result \<Rightarrow> run_result" where
  "note_contract stage ns rs = rs\<lparr>rs_contract_notes :=
     fold (\<lambda>(k, n). add_count (stage @ ''.'' @ k) n) ns (rs_contract_notes rs)\<rparr>"

text \<open>The notes are kept even when the validation of the payload fails.\<close>

definition independent_read :: "worker_config \<Rightarrow> json option \<Rightarrow> run_result \<Rightarrow> run_result \<times> (mem_error + reading)" where
  "independent_read cfg answer rs = (case json_object answer of
      Inl e \<Rightarrow> (rs, Inl e)
    | Inr raw \<Rightarrow> (case normalize_reading_payload raw of
        (payload, ns) \<Rightarrow> (note_contract ''blind_reading'' ns rs, wc_reading cfg payload)))"

definition supported_verdict :: "comparison \<Rightarrow> mem_error + comparison" where
  "supported_verdict cv = (if cv_verdict cv \<notin> {''contradicted'', ''insufficient_evidence''} \<and> strip (text_of (cv_normalized_content cv)) = []
     then Inl (MValueError ''supported comparison requires normalized_content'') else Inr cv)"

definition compare_stage :: "worker_config \<Rightarrow> json option \<Rightarrow> run_result \<Rightarrow> run_result \<times> (mem_error + comparison)" where
  "compare_stage cfg answer rs = (case json_object answer of
      Inl e \<Rightarrow> (rs, Inl e)
    | Inr raw \<Rightarrow> (case normalize_comparison_payload raw of
        (payload, ns) \<Rightarrow> (note_contract ''comparison'' ns rs, ebind (wc_comparison cfg payload) supported_verdict)))"

definition checked_relation :: "evaluation_snapshot \<Rightarrow> relation_decision \<Rightarrow> mem_error + relation_decision" where
  "checked_relation sn r =
    (if rl_relation r = R_grounds_legacy then
       (if (case rl_target_memory_id r of None \<Rightarrow> True | Some t \<Rightarrow> t \<notin> set (es_legacy_target_ids sn))
        then Inl (MValueError ''legacy grounding targeted memory outside target-only graph'')
        else if strip (text_of (rl_replacement_content r)) = []
        then Inl (MValueError ''legacy grounding requires verified replacement content'')
        else Inr r)
     else if (case rl_target_memory_id r of None \<Rightarrow> False | Some t \<Rightarrow> t \<notin> set (es_active_memory_ids sn))
     then Inl (MValueError ''reconciliation targeted memory outside evaluated active graph'')
     else Inr r)"

definition reconcile :: "worker_config \<Rightarrow> json option \<Rightarrow> loaded_snapshot \<Rightarrow> reading \<Rightarrow> comparison \<Rightarrow> mem_error + relation_decision" where
  "reconcile cfg answer ls rg cv =
    ebind (effective_content (ls_context ls) rg cv) (\<lambda>_.
    ebind (json_object answer) (\<lambda>raw.
    ebind (wc_relation cfg (fst (normalize_relation_payload raw))) (\<lambda>r.
    ebind (checked_relation (ls_snapshot ls) r)
      (enforce_temporal_order (wc_parse_iso cfg) (ls_context ls) rg))))"

section \<open>Refreshing the memory graph\<close>

definition refresh_memory_snapshot ::
  "(string \<Rightarrow> string) \<Rightarrow> time \<Rightarrow> candidate_lease \<Rightarrow> loaded_snapshot \<Rightarrow> reading \<Rightarrow> comparison \<Rightarrow> 'x mem_db_scheme shared_db
   \<Rightarrow> mem_error + loaded_snapshot" where
  "refresh_memory_snapshot sha now cl ls rg cv s =
    (let db = sd_payload s; sn = ls_snapshot ls in
     ebind (locked_live_claim now cl db) (\<lambda>(c, a).
     ebind (require ((case tget tr_id (cd_source_transcript_id c) (md_transcripts db) of None \<Rightarrow> False
           | Some t \<Rightarrow> tr_content_revision t = es_source_revision sn) \<and> evidence_live c db)
         (CandidateSnapshotError ''canonical evidence changed during reconciliation'')) (\<lambda>_.
     let scope = effective_scope (ls_context ls) rg cv;
         (active, restricted, legacy) = related_memories_for sha (effective_kind (ls_context ls) rg cv) scope
           (Some (scope_key_for scope c)) (es_explicit_target_memory_id sn) c db
     in Inr (ls\<lparr>ls_snapshot := sn\<lparr>es_memory_revision := memory_revision s, es_active_memory_ids := map mm_id active,
            es_legacy_target_ids := map mm_id legacy\<rparr>,
          ls_context := (ls_context ls)\<lparr>cc_targets := map target_of active\<rparr>,
          ls_evidence_refs := json_merge (ls_evidence_refs ls) (memory_refs active restricted legacy)\<rparr>))))"

section \<open>Steps\<close>

definition fail_code :: "mem_error \<Rightarrow> string" where
  "fail_code e = (case e of CandidateSnapshotError _ \<Rightarrow> ''snapshot_stale'' | _ \<Rightarrow> ''model_or_publish_error'')"

definition failing :: "mem_error \<Rightarrow> 'x worker \<Rightarrow> 'x worker" where
  "failing e w = w\<lparr>wk_phase := Failing (fail_code e), wk_stats := (wk_stats w)\<lparr>rs_failures := rs_failures (wk_stats w) + 1\<rparr>\<rparr>"

text \<open>A transaction that answers moves on with its new tables; one that raises leaves them and fails the claim.\<close>

definition transact :: "mem_error + 'x verify_db_scheme \<Rightarrow> ('x worker \<Rightarrow> 'x worker) \<Rightarrow> 'x worker \<Rightarrow> 'x worker" where
  "transact r k w = (case r of Inl e \<Rightarrow> failing e w | Inr db \<Rightarrow> k (w\<lparr>wk_db := (wk_db w)\<lparr>sd_payload := db\<rparr>\<rparr>))"

definition transact_row :: "mem_error + ('r \<times> 'x verify_db_scheme) \<Rightarrow> ('r \<Rightarrow> 'x worker \<Rightarrow> 'x worker) \<Rightarrow> 'x worker \<Rightarrow> 'x worker" where
  "transact_row r k w = (case r of Inl e \<Rightarrow> failing e w
     | Inr (row, db) \<Rightarrow> k row (w\<lparr>wk_db := (wk_db w)\<lparr>sd_payload := db\<rparr>\<rparr>))"

definition goto :: "phase \<Rightarrow> 'x worker \<Rightarrow> 'x worker" where
  "goto p w = w\<lparr>wk_phase := p\<rparr>"

definition attempt_stage :: "mem_error + 'a \<Rightarrow> ('a \<Rightarrow> 'x worker \<Rightarrow> 'x worker) \<Rightarrow> 'x worker \<Rightarrow> 'x worker" where
  "attempt_stage r k w = (case r of Inl e \<Rightarrow> failing e w | Inr x \<Rightarrow> k x w)"

definition after_verdict :: "loaded_snapshot \<Rightarrow> reading \<Rightarrow> comparison_row \<Rightarrow> comparison \<Rightarrow> phase" where
  "after_verdict ls rg cr cv = (case rejection_code rg cv of Some code \<Rightarrow> Rejecting code | None \<Rightarrow> Refreshing ls rg cr cv 0)"

fun count_bucket :: "publication_bucket \<Rightarrow> run_result \<Rightarrow> run_result" where
  "count_bucket B_reconciled rs = rs\<lparr>rs_reconciled := rs_reconciled rs + 1\<rparr>"
| "count_bucket B_retained_short_term rs = rs\<lparr>rs_retained_short_term := rs_retained_short_term rs + 1\<rparr>"
| "count_bucket B_discarded rs = rs\<lparr>rs_discarded := rs_discarded rs + 1\<rparr>"
| "count_bucket B_blocked rs = rs\<lparr>rs_blocked := rs_blocked rs + 1\<rparr>"
| "count_bucket B_source_conflict rs = rs\<lparr>rs_source_conflicts := rs_source_conflicts rs + 1\<rparr>"
| "count_bucket B_lease_conflict rs = rs\<lparr>rs_lease_conflicts := rs_lease_conflicts rs + 1\<rparr>"
| "count_bucket B_version_conflict rs = rs"

text \<open>\<^verbatim>\<open>_reconcile_policy_publish\<close> has returned \<open>(result, conflicts)\<close>.\<close>

definition report :: "string \<Rightarrow> nat \<Rightarrow> 'x worker \<Rightarrow> 'x worker" where
  "report result conflicts w =
    (let rs = (wk_stats w)\<lparr>rs_version_conflicts := rs_version_conflicts (wk_stats w) + conflicts\<rparr> in
     case outcome_of result of
       None \<Rightarrow> w\<lparr>wk_phase := Unknown_result, wk_stats := rs\<lparr>rs_failures := rs_failures rs + 1\<rparr>\<rparr>
     | Some oc \<Rightarrow> w\<lparr>wk_phase := Finished, wk_stats := count_bucket (outcome_bucket oc) rs\<rparr>)"

definition publication_snapshot :: "loaded_snapshot \<Rightarrow> reading \<Rightarrow> comparison \<Rightarrow> record_row \<Rightarrow> evaluation_snapshot" where
  "publication_snapshot ls rg cv re = (ls_snapshot ls)\<lparr>
     es_publication_allowed := (effective_scope (ls_context ls) rg cv \<in> {''chat'', ''cross_chat''}),
     es_reconciliation_record_id := Some (re_id re)\<rparr>"

text \<open>The answer of the publisher: the reported result, or another round of the retry loop.\<close>

definition published :: "loaded_snapshot \<Rightarrow> reading \<Rightarrow> comparison_row \<Rightarrow> comparison \<Rightarrow> nat
   \<Rightarrow> (mem_error write_error + receipt) \<times> 'x verify_db_scheme shared_db \<Rightarrow> 'x worker \<Rightarrow> 'x worker" where
  "published ls rg cr cv n answer w = (case answer of
      (Inl (MutationRaised e), s) \<Rightarrow> failing e w
    | (Inl _, s) \<Rightarrow> failing MAssertionError w
    | (Inr rc, s) \<Rightarrow>
        (let w1 = w\<lparr>wk_db := s\<rparr>;
             result = (case json_true ''result'' (r_result rc) of None \<Rightarrow> [] | Some v \<Rightarrow> py_str v) in
         if r_outcome rc = ''version_conflict'' then goto (Refreshing ls rg cr cv (n + 1)) w1
         else if result = ''source_conflict'' then goto (Releasing n) w1
         else report result n w1))"

definition discarded_claim :: "'x worker \<Rightarrow> 'x worker" where
  "discarded_claim w = w\<lparr>wk_phase := Finished, wk_stats := (wk_stats w)\<lparr>rs_discarded := rs_discarded (wk_stats w) + 1\<rparr>\<rparr>"

definition worker_step :: "worker_config \<Rightarrow> worker_env \<Rightarrow> candidate_lease \<Rightarrow> 'x worker \<Rightarrow> 'x worker" where
  "worker_step cfg e cl w =
    (let now = we_now e; db = sd_payload (wk_db w) in
     case wk_phase w of
       Loading \<Rightarrow> attempt_stage (load_snapshot (wc_sha cfg) now cl (wk_db w)) (\<lambda>ls. goto (Reusing ls)) w
     | Reusing ls \<Rightarrow>
         (case reusable_verification (cl_candidate_id cl) (ls_evidence_set_hash ls) (es_source_revision (ls_snapshot ls)) db of
            None \<Rightarrow> goto (Reading ls) w
          | Some (rr, cr) \<Rightarrow> goto (after_verdict ls (rr_reading rr) cr (cr_comparison cr)) w)
     | Reading ls \<Rightarrow>
         (case independent_read cfg (we_answer e) (wk_stats w) of (rs, answer) \<Rightarrow>
            attempt_stage answer (\<lambda>rg. transact_row
              (persist_reading now (we_fresh e) (wc_model cfg) cl (es_source_revision (ls_snapshot ls)) (ls_evidence_refs ls) rg db)
              (\<lambda>rr. goto (Comparing ls rr rg))) (w\<lparr>wk_stats := rs\<rparr>))
     | Comparing ls rr rg \<Rightarrow>
         (case compare_stage cfg (we_answer e) (wk_stats w) of (rs, answer) \<Rightarrow>
            attempt_stage answer (\<lambda>cv. transact_row (persist_comparison now (we_fresh e) cl (rr_id rr) cv db)
              (\<lambda>cr. goto (after_verdict ls rg cr cv))) (w\<lparr>wk_stats := rs\<rparr>))
     | Rejecting code \<Rightarrow> transact (finish_epistemic_rejection now cl code db) discarded_claim w
     | Refreshing ls rg cr cv n \<Rightarrow>
         attempt_stage (refresh_memory_snapshot (wc_sha cfg) now cl ls rg cv (wk_db w))
           (\<lambda>ls'. goto (if n < 3 then Reconciling ls' rg cr cv n else Requeueing ls' n)) w
     | Reconciling ls rg cr cv n \<Rightarrow>
         attempt_stage (reconcile cfg (we_answer e) ls rg cv) (\<lambda>r. transact_row
           (persist_reconciliation now (we_fresh e) cl (cr_id cr) (es_memory_revision (ls_snapshot ls)) r db)
           (\<lambda>re. goto (Policing ls rg cr cv n r re))) w
     | Policing ls rg cr cv n r re \<Rightarrow>
         (case owner_policy (ls_context ls) rg cv r of (pol, reason) \<Rightarrow>
            transact_row (persist_policy now (we_fresh e) cl (re_id re) pol reason db) (\<lambda>_ w1.
              if pol = Block_policy then goto (Blocking (or_str reason ''policy_blocked'') n) w1
              else attempt_stage (publication_decision (ls_context ls) rg cv r pol)
                (\<lambda>d. goto (Publishing ls rg cr cv n (publication_snapshot ls rg cv re) d)) w1) w)
     | Blocking code n \<Rightarrow> transact (finish_policy_block now cl code db) (report ''blocked'' n) w
     | Publishing ls rg cr cv n sn d \<Rightarrow>
         if we_serialization_failure e then goto (Refreshing ls rg cr cv (n + 1)) w
         else published ls rg cr cv n (publish (we_publish e) cl sn d (wk_db w)) w
     | Releasing n \<Rightarrow> transact (release_after_conflict (wc_leases cfg) now cl ''source_conflict'' db) (report ''source_conflict'' n) w
     | Requeueing ls n \<Rightarrow>
         transact (requeue_after_version_conflict now cl (es_memory_revision (ls_snapshot ls)) db) (report ''version_conflict'' n) w
     | Unknown_result \<Rightarrow> transact (release_failed (wc_leases cfg) now cl ''unknown_publish_result'' db) (goto Finished) w
     | Failing code \<Rightarrow>
         (case release_failed (wc_leases cfg) now cl code db of
            Inl err \<Rightarrow> goto (Crashed err) w
          | Inr db' \<Rightarrow> w\<lparr>wk_phase := Finished, wk_db := (wk_db w)\<lparr>sd_payload := db'\<rparr>\<rparr>)
     | Finished \<Rightarrow> w
     | Crashed err \<Rightarrow> w)"

definition is_final :: "phase \<Rightarrow> bool" where
  "is_final p = (case p of Finished \<Rightarrow> True | Crashed _ \<Rightarrow> True | _ \<Rightarrow> False)"

section \<open>Runs\<close>

text \<open>The number of steps a phase can still take: one round of the retry loop costs four.\<close>

fun phase_rank :: "phase \<Rightarrow> nat" where
  "phase_rank Loading = 20"
| "phase_rank (Reusing _) = 19"
| "phase_rank (Reading _) = 18"
| "phase_rank (Comparing _ _ _) = 17"
| "phase_rank (Refreshing _ _ _ _ n) = 4 + 4 * (3 - n)"
| "phase_rank (Reconciling _ _ _ _ n) = (if n < 3 then 3 + 4 * (3 - n) else 7)"
| "phase_rank (Policing _ _ _ _ n _ _) = (if n < 3 then 2 + 4 * (3 - n) else 6)"
| "phase_rank (Publishing _ _ _ _ n _ _) = (if n < 3 then 1 + 4 * (3 - n) else 5)"
| "phase_rank (Rejecting _) = 3"
| "phase_rank (Blocking _ _) = 3"
| "phase_rank (Releasing _) = 3"
| "phase_rank (Requeueing _ _) = 3"
| "phase_rank Unknown_result = 2"
| "phase_rank (Failing _) = 1"
| "phase_rank Finished = 0"
| "phase_rank (Crashed _) = 0"

lemma failing_sel [simp]:
  "wk_phase (failing e w) = Failing (fail_code e)" "wk_db (failing e w) = wk_db w"
  by (simp_all add: failing_def)

lemma goto_sel [simp]: "wk_phase (goto p w) = p" "wk_db (goto p w) = wk_db w" "wk_stats (goto p w) = wk_stats w"
  by (simp_all add: goto_def)

lemma report_phase: "wk_phase (report r n w) \<in> {Finished, Unknown_result}"
  by (simp add: report_def Let_def split: option.splits)

lemma report_db [simp]: "wk_db (report r n w) = wk_db w"
  by (simp add: report_def Let_def split: option.splits)

lemma report_rank: "phase_rank (wk_phase (report r n w)) \<le> 2"
  using report_phase [of r n w] by auto

lemma discarded_sel [simp]: "wk_phase (discarded_claim w) = Finished" "wk_db (discarded_claim w) = wk_db w"
  by (simp_all add: discarded_claim_def)

lemma attempt_rank: "1 \<le> b \<Longrightarrow> (\<And>x w. phase_rank (wk_phase (k x w)) \<le> b) \<Longrightarrow> phase_rank (wk_phase (attempt_stage r k w)) \<le> b"
  by (cases r) (simp_all add: attempt_stage_def)

lemma transact_rank: "1 \<le> b \<Longrightarrow> (\<And>w. phase_rank (wk_phase (k w)) \<le> b) \<Longrightarrow> phase_rank (wk_phase (transact r k w)) \<le> b"
  by (cases r) (simp_all add: transact_def)

lemma transact_row_rank:
  "1 \<le> b \<Longrightarrow> (\<And>x w. phase_rank (wk_phase (k x w)) \<le> b) \<Longrightarrow> phase_rank (wk_phase (transact_row r k w)) \<le> b"
  by (cases r) (auto simp: transact_row_def)

lemma published_rank: "4 * (3 - n) \<le> b \<Longrightarrow> 4 \<le> b \<Longrightarrow> phase_rank (wk_phase (published ls rg cr cv n x w)) \<le> b"
proof -
  assume b: "4 * (3 - n) \<le> b" "4 \<le> b"
  have "phase_rank (wk_phase (report r m w')) \<le> b" for r m and w' :: "'a worker"
    using report_rank [of r m w'] b by simp
  then show ?thesis using b
    by (auto simp: published_def Let_def split: prod.splits sum.splits write_error.splits)
qed

lemma after_verdict_rank: "phase_rank (after_verdict ls rg cr cv) \<le> 16"
  by (simp add: after_verdict_def split: option.splits)

lemma rank_lt: "(x :: nat) \<le> b \<Longrightarrow> b < y \<Longrightarrow> x < y"
  by simp

lemma worker_step_rank:
  assumes "\<not> is_final (wk_phase w)"
  shows "phase_rank (wk_phase (worker_step cfg e cl w)) < phase_rank (wk_phase w)"
proof (cases "wk_phase w")
  case Loading
  then show ?thesis by (auto simp: worker_step_def Let_def intro!: rank_lt [OF attempt_rank [of 19]])
next
  case (Reusing ls)
  have "phase_rank (after_verdict ls rg cr cv) < 19" for rg cr cv using after_verdict_rank [of ls rg cr cv] by simp
  then show ?thesis by (simp add: worker_step_def Let_def Reusing split: option.splits prod.splits)
next
  case (Reading ls)
  then show ?thesis
    by (auto simp: worker_step_def Let_def split: prod.splits intro!: rank_lt [OF attempt_rank [of 17]] transact_row_rank)
next
  case (Comparing ls rr rg)
  then show ?thesis using after_verdict_rank
    by (auto simp: worker_step_def Let_def split: prod.splits intro!: rank_lt [OF attempt_rank [of 16]] transact_row_rank)
next
  case (Refreshing ls rg cr cv n)
  then show ?thesis
    by (auto simp: worker_step_def Let_def intro!: rank_lt [OF attempt_rank [of "3 + 4 * (3 - n)"]])
next
  case (Reconciling ls rg cr cv n)
  then show ?thesis
    by (auto simp: worker_step_def Let_def intro!: rank_lt [OF attempt_rank [of "if n < 3 then 2 + 4 * (3 - n) else 6"]] transact_row_rank)
next
  case (Policing ls rg cr cv n r re)
  then show ?thesis
    by (auto simp: worker_step_def Let_def split: prod.splits
        intro!: rank_lt [OF transact_row_rank [of "if n < 3 then 1 + 4 * (3 - n) else 5"]] attempt_rank)
next
  case (Publishing ls rg cr cv n sn d)
  then show ?thesis
    by (auto simp: worker_step_def Let_def intro!: rank_lt [OF published_rank [of n "if n < 3 then 4 * (3 - n) else 4"]])
next
  case Unknown_result
  then show ?thesis by (auto simp: worker_step_def Let_def intro!: rank_lt [OF transact_rank [of 1]])
qed (use assms report_rank in \<open>auto simp: worker_step_def Let_def is_final_def split: sum.splits
      intro!: rank_lt [OF transact_rank [of 2]]\<close>)

function run_claim ::
  "worker_config \<Rightarrow> (nat \<Rightarrow> worker_env) \<Rightarrow> (nat \<Rightarrow> 'x verify_db_scheme shared_db \<Rightarrow> 'x verify_db_scheme shared_db)
   \<Rightarrow> candidate_lease \<Rightarrow> nat \<Rightarrow> 'x worker \<Rightarrow> nat \<times> 'x worker" where
  "run_claim cfg env others cl k w =
    (if is_final (wk_phase w) then (k, w)
     else run_claim cfg env others cl (Suc k) (worker_step cfg (env k) cl (w\<lparr>wk_db := others k (wk_db w)\<rparr>)))"
  by pat_completeness auto

termination
proof (relation "measure (\<lambda>(cfg, env, others, cl, k, w). phase_rank (wk_phase w))")
  fix cfg env others cl k and w :: "'x worker"
  assume "\<not> is_final (wk_phase w)"
  then show "((cfg, env, others, cl, Suc k, worker_step cfg (env k) cl (w\<lparr>wk_db := others k (wk_db w)\<rparr>)), cfg, env, others, cl, k, w)
    \<in> measure (\<lambda>(cfg, env, others, cl, k, w). phase_rank (wk_phase w))"
    using worker_step_rank [of "w\<lparr>wk_db := others k (wk_db w)\<rparr>" cfg "env k" cl] by simp
qed simp

declare run_claim.simps [simp del]

text \<open>The claims of one batch, one after the other; an error while a claim is handed back ends the run.\<close>

fun run_claims ::
  "worker_config \<Rightarrow> (nat \<Rightarrow> worker_env) \<Rightarrow> (nat \<Rightarrow> 'x verify_db_scheme shared_db \<Rightarrow> 'x verify_db_scheme shared_db)
   \<Rightarrow> candidate_lease list \<Rightarrow> nat \<Rightarrow> run_result \<Rightarrow> 'x verify_db_scheme shared_db
   \<Rightarrow> (mem_error + run_result) \<times> 'x verify_db_scheme shared_db" where
  "run_claims cfg env others [] k rs s = (Inr rs, s)"
| "run_claims cfg env others (cl # cls) k rs s =
    (case run_claim cfg env others cl k \<lparr>wk_phase = Loading, wk_stats = rs, wk_db = s\<rparr> of (k', w) \<Rightarrow>
       (case wk_phase w of Crashed err \<Rightarrow> (Inl err, wk_db w)
        | _ \<Rightarrow> run_claims cfg env others cls k' (wk_stats w) (wk_db w)))"

definition run_once ::
  "worker_config \<Rightarrow> int \<Rightarrow> time \<Rightarrow> (uuid \<Rightarrow> uuid \<times> uuid) \<Rightarrow> (nat \<Rightarrow> worker_env)
   \<Rightarrow> (nat \<Rightarrow> 'x verify_db_scheme shared_db \<Rightarrow> 'x verify_db_scheme shared_db) \<Rightarrow> 'x verify_db_scheme shared_db
   \<Rightarrow> (mem_error + run_result) \<times> 'x verify_db_scheme shared_db" where
  "run_once cfg batch_size now fresh env others s =
    (case claim_batch (wc_leases cfg) now fresh (clamp 1 32 batch_size) (sd_payload s) of
       Inl err \<Rightarrow> (Inl err, s)
     | Inr (claims, expired, db) \<Rightarrow>
         run_claims cfg env others claims 0
           \<lparr>rs_claimed = length claims, rs_reconciled = 0, rs_retained_short_term = 0, rs_discarded = 0, rs_blocked = 0,
            rs_version_conflicts = 0, rs_source_conflicts = 0, rs_lease_conflicts = 0, rs_failures = 0, rs_expired = expired,
            rs_contract_notes = []\<rparr> (s\<lparr>sd_payload := db\<rparr>))"

end
