(* ===== verification/Memory_Pipeline.thy ===== *)
theory Memory_Pipeline
  imports Memory_Worker Memory_Publication
begin

text \<open>
  What the parts of the memory pipeline guarantee together: the publisher answers only with
  known outcomes, every stage of the worker keeps the lease invariant, and a worker that is
  done with a claim has handed it back, whatever other processes did in between.
\<close>

section \<open>The publisher's vocabulary\<close>

definition result_text :: "json_obj \<Rightarrow> string" where
  "result_text r = (case json_true ''result'' r of None \<Rightarrow> [] | Some v \<Rightarrow> py_str v)"

definition known_result :: "json_obj \<Rightarrow> bool" where
  "known_result r = (outcome_of (result_text r) \<notin> {None, Some O_version_conflict})"

definition known_answer :: "'x published \<Rightarrow> bool" where
  "known_answer x = (\<forall>db out. x = Inr (db, out) \<longrightarrow> known_result (m_result out))"

lemma outcome_of_value: "outcome_of (outcome_value x) = Some x"
  by (cases x) (simp_all add: outcome_of_def all_outcomes_def)

lemma known_text_simps [simp]:
  "known_result ((''result'', JStr ''blocked'') # r)" "known_result ((''result'', JStr ''awaiting_owner'') # r)"
  "known_result ((''result'', JStr ''conflict'') # r)" "known_result ((''result'', JStr ''lineage_added'') # r)"
  "known_result ((''result'', JStr ''already_represented'') # r)" "known_result ((''result'', JStr ''legacy_grounded'') # r)"
  "known_result ((''result'', JStr ''historical_predecessor'') # r)" "known_result ((''result'', JStr ''created'') # r)"
  "known_result ((''result'', JStr ''historical_lineage_added'') # r)"
  "known_result ((''result'', JStr ''historical_already_represented'') # r)"
  "known_result ((''result'', JStr ''merge'') # r)" "known_result ((''result'', JStr ''supersede'') # r)"
  "known_result ((''result'', JStr ''source_conflict'') # r)" "known_result ((''result'', JStr ''discarded'') # r)"
  "known_result ((''result'', JStr ''retained_short_term'') # r)" "known_result ((''result'', JStr ''lease_conflict'') # r)"
  "known_result ((''result'', JStr ''invalidated'') # r)"
  by (simp_all add: known_result_def result_text_def json_true_def outcome_of_def all_outcomes_def)

lemma known_finish [intro]: "known_result r \<Longrightarrow> known_answer (finish_rows m r f h c a db)"
  by (simp add: known_answer_def finish_rows_Inr)

lemma known_ebind [intro]: "(\<And>y. m = Inr y \<Longrightarrow> known_answer (f y)) \<Longrightarrow> known_answer (ebind m f)"
  by (cases m) (auto simp: known_answer_def)

lemma known_block [intro]: "known_answer (block now code c a db)"
  unfolding block_def by (rule known_finish) simp

lemma known_case_option:
  "(x = None \<Longrightarrow> known_answer f) \<Longrightarrow> (\<And>y. x = Some y \<Longrightarrow> known_answer (g y)) \<Longrightarrow> known_answer (case x of None \<Rightarrow> f | Some y \<Rightarrow> g y)"
  by (cases x) simp_all

lemma known_if: "(b \<Longrightarrow> known_answer x) \<Longrightarrow> (\<not> b \<Longrightarrow> known_answer y) \<Longrightarrow> known_answer (if b then x else y)"
  by simp

lemma known_prod: "(\<And>x y. p = (x, y) \<Longrightarrow> known_answer (f x y)) \<Longrightarrow> known_answer (case p of (x, y) \<Rightarrow> f x y)"
  by (cases p) simp

lemmas known_intros = known_if known_case_option known_ebind known_block known_finish known_prod

lemma publish_await_known: "known_answer (publish_await e d c a db)"
  unfolding publish_await_def Let_def by (intro known_intros) simp

lemma publish_conflict_known: "known_answer (publish_conflict e sn d c a db)"
  unfolding publish_conflict_def Let_def by (intro known_intros) simp

lemma publish_equivalent_known: "known_answer (publish_equivalent e sn d t c a db)"
  unfolding publish_equivalent_def Let_def by (intro known_intros) simp

lemma publish_ground_known: "known_answer (publish_ground e sn d pn c a db)"
  unfolding publish_ground_def Let_def by (intro known_intros) simp

lemma publish_historical_known: "known_answer (publish_historical e sn d pn c a db)"
  unfolding publish_historical_def Let_def by (intro known_intros) simp_all

lemma publish_create_known: "known_answer (publish_create e sn d pn c a db)"
  unfolding publish_create_def Let_def by (intro known_intros) simp_all

lemma publish_replace_known: "known_answer (publish_replace e sn d pn c a db)"
  unfolding publish_replace_def Let_def by (intro known_intros) auto

lemmas branch_known = publish_await_known publish_conflict_known publish_equivalent_known publish_ground_known
  publish_historical_known publish_create_known publish_replace_known

lemma publish_content_known: "known_answer (publish_content e sn d primary t c a db)"
  unfolding publish_content_def Let_def by (intro known_intros branch_known)

lemma publish_leased_known: "known_answer (publish_leased e sn d primary c a db)"
  unfolding publish_leased_def Let_def
  by (intro known_if known_block known_finish branch_known publish_content_known) simp_all

lemma mutate_known: "known_answer (mutate e cl sn d db)"
  unfolding mutate_def Let_def
  by (intro known_intros publish_leased_known) (simp_all add: known_answer_def lease_conflict_def)

section \<open>The stages keep the lease\<close>

text \<open>A stage marks its own open attempt and nothing else of it.\<close>

definition marks :: "(attempt_row \<Rightarrow> attempt_row) \<Rightarrow> bool" where
  "marks h = (\<forall>x. ap_id (h x) = ap_id x \<and> ap_candidate_id (h x) = ap_candidate_id x \<and> ap_lease_token (h x) = ap_lease_token x
     \<and> ap_completed_at (h x) = ap_completed_at x \<and> ap_candidate_state_version (h x) = ap_candidate_state_version x)"

lemma stage_progress:
  assumes own: "lease_inv db" "issued cl db" "owned_attempt cl db = Some (c, a)"
    and adv: "advance_candidate_state c a db = Inr db1" and h: "marks h"
    and db': "md_candidates db' = md_candidates db1" "md_attempts db' = tset ap_id (ap_id a) h (md_attempts db1)"
  shows "progress db db'"
proof -
  note o = owned_open [OF own] and inv = lease_invD [OF own(1)]
  let ?v = "cd_state_version c + 1"
  let ?g = "\<lambda>x. x\<lparr>cd_state_version := ?v\<rparr>"
  let ?h = "\<lambda>x. h (x\<lparr>ap_candidate_state_version := ?v\<rparr>)"
  have cands: "md_candidates db' = tset cd_id (cd_id c) ?g (md_candidates db)"
    using db'(1) adv by (simp add: advance_Inr)
  have atts: "md_attempts db' = tset ap_id (ap_id a) ?h (md_attempts db)"
    using db'(2) adv by (simp add: advance_Inr tset_tset)
  have hs: "ap_id (?h x) = ap_id x" "ap_candidate_id (?h x) = ap_candidate_id x" "ap_lease_token (?h x) = ap_lease_token x"
    "ap_completed_at (?h x) = ap_completed_at x" "ap_candidate_state_version (?h x) = ?v" for x
    using h by (simp_all add: marks_def)
  have opened: "\<exists>x \<in> open_attempts db. b = (if ap_id x = ap_id a then ?h x else x)" if "b \<in> open_attempts db'" for b
    using that hs(4) by (auto simp: open_attempts_def atts set_tset split: if_splits)
  show ?thesis
  proof (rule lease_change [where own_a = "?h a", OF own(1) cands])
    fix x assume "get_cand (cd_id c) db = Some x"
    then have "x = c" using o(3) by simp
    then show "leased_ok (?g x) \<and> advanced x (?g x)"
      using inv(3) [OF get_cand_in [OF o(3)]] o(4) by (simp add: leased_ok_def advanced_def reconcilable_def)
  next
    fix x assume x0: "x \<in> set (md_attempts db)"
    have le: "attempt_le x (?h x)" if x: "x \<in> set (md_attempts db)" "ap_id x = ap_id a" for x
    proof -
      have "x = a" by (rule keyed_inj [OF inv(2) x(1) _ x(2)]) (use o(1) in \<open>simp add: open_attempts_def\<close>)
      then show ?thesis using o(1) hs by (simp add: attempt_le_def open_attempts_def)
    qed
    have "attempt_le x (if ap_id x = ap_id a then ?h x else x)" using le [OF x0] by simp
    then show "\<exists>b \<in> set (md_attempts db'). attempt_le x b"
      unfolding atts set_tset using x0 by (rule bexI [OF _ imageI])
  next
    fix b assume b: "b \<in> open_attempts db'" "ap_candidate_id b \<noteq> cd_id c"
    obtain x where x: "x \<in> open_attempts db" "b = (if ap_id x = ap_id a then ?h x else x)" using opened b(1) by blast
    have "ap_id x \<noteq> ap_id a"
    proof
      assume eq: "ap_id x = ap_id a"
      then have "x = a" by (rule keyed_inj [OF inv(2), rotated 2]) (use x(1) o(1) in \<open>simp_all add: open_attempts_def\<close>)
      then show False using b(2) x(2) hs(2) o(2) by simp
    qed
    then show "b \<in> open_attempts db" using x by simp
  next
    fix b assume b: "b \<in> open_attempts db'" "ap_candidate_id b = cd_id c"
    obtain x where x: "x \<in> open_attempts db" "b = (if ap_id x = ap_id a then ?h x else x)" using opened b(1) by blast
    then have "x = a" using inj_onD [OF inv(4), of x a] o(1,2) b(2) hs(2) by (auto split: if_splits)
    then have "b = ?h a" using x(2) by simp
    moreover have "holds_lease (?h a) (?g c)" using own(3) o(4) hs
      by (simp add: holds_lease_def owned_Some) (metis inv(5) o(1,2,3) holds_lease_def option.inject)
    ultimately show "b = ?h a \<and> (\<exists>x. get_cand (cd_id c) db = Some x \<and> holds_lease b (?g x))" using o(3) by auto
  qed (use hs inv(2) in \<open>simp_all add: atts\<close>)
qed

lemma persist_reading_progress:
  assumes "lease_inv db" "issued cl db" "persist_reading now i model cl rv refs rg db = Inr (row, db')"
  shows "progress db db'" "db_ok db \<Longrightarrow> db_ok db'"
proof -
  consider (old) "db' = db" | (new) c a db1 where "locked_live_claim now cl db = Inr (c, a)" "advance_candidate_state c a db = Inr db1"
    "db' = upd_attempt (ap_id a) (\<lambda>x. x\<lparr>ap_status := ''blind_read_complete'',
        ap_evaluated_source_revision := Some rv, ap_evidence := refs\<rparr>) (db1\<lparr>vd_readings := tadd row (vd_readings db1)\<rparr>)" "db_ok db'"
    using assms(3) by (auto simp: persist_reading_def Let_def split: option.splits)
  then show "progress db db'"
  proof cases
    case new
    show ?thesis
      by (rule stage_progress [OF assms(1,2) live_owned [OF new(1)] new(2), where h = "\<lambda>x. x\<lparr>ap_status := ''blind_read_complete'',
        ap_evaluated_source_revision := Some rv, ap_evidence := refs\<rparr>"]) (simp_all add: marks_def new(3))
  qed (simp add: progress_refl assms(1))
  show "db_ok db \<Longrightarrow> db_ok db'" using assms(3) by (auto simp: persist_reading_def Let_def split: option.splits)
qed

lemma persist_comparison_progress:
  assumes "lease_inv db" "issued cl db" "persist_comparison now i cl rid cv db = Inr (row, db')"
  shows "progress db db'" "db_ok db \<Longrightarrow> db_ok db'"
proof -
  consider (old) "db' = db" | (new) c a db1 where "locked_live_claim now cl db = Inr (c, a)" "advance_candidate_state c a db = Inr db1"
    "db' = upd_attempt (ap_id a) (\<lambda>x. x\<lparr>ap_status := ''epistemically_evaluated''\<rparr>)
       (db1\<lparr>vd_comparisons := tadd row (vd_comparisons db1)\<rparr>)" "db_ok db'"
    using assms(3) by (auto simp: persist_comparison_def Let_def split: option.splits)
  then show "progress db db'"
  proof cases
    case new
    show ?thesis
      by (rule stage_progress [OF assms(1,2) live_owned [OF new(1)] new(2), where h = "\<lambda>x. x\<lparr>ap_status := ''epistemically_evaluated''\<rparr>"])
         (simp_all add: marks_def new(3))
  qed (simp add: progress_refl assms(1))
  show "db_ok db \<Longrightarrow> db_ok db'" using assms(3) by (auto simp: persist_comparison_def Let_def split: option.splits)
qed

lemma persist_reconciliation_progress:
  assumes "lease_inv db" "issued cl db" "persist_reconciliation now i cl cid rv r db = Inr (row, db')"
  shows "progress db db'" "db_ok db'"
proof -
  let ?h = "\<lambda>x. x\<lparr>ap_status := ''reconciled'', ap_evaluated_memory_revision := Some rv,
      ap_semantic_decision := Some (relation_value (rl_relation r)), ap_target_memory_id := rl_target_memory_id r\<rparr>"
  obtain c a db1 where new: "locked_live_claim now cl db = Inr (c, a)" "advance_candidate_state c a db = Inr db1"
    "db' = upd_attempt (ap_id a) ?h (db1\<lparr>vd_records := tadd row (vd_records db1)\<rparr>)" "db_ok db'"
    using assms(3) by (auto simp: persist_reconciliation_def Let_def)
  show "progress db db'"
    by (rule stage_progress [OF assms(1,2) live_owned [OF new(1)] new(2), where h = ?h]) (simp_all add: marks_def new(3))
  show "db_ok db'" by (rule new(4))
qed

lemma persist_policy_progress:
  assumes "lease_inv db" "issued cl db" "persist_policy now i cl rid pol reason db = Inr (row, db')"
  shows "progress db db'" "db_ok db \<Longrightarrow> db_ok db'"
proof -
  consider (old) "db' = db" | (new) c a db1 where "locked_live_claim now cl db = Inr (c, a)" "advance_candidate_state c a db = Inr db1"
    "db' = upd_attempt (ap_id a) (\<lambda>x. x\<lparr>ap_status := policy_status pol\<rparr>) (db1\<lparr>vd_policies := tadd row (vd_policies db1)\<rparr>)" "db_ok db'"
    using assms(3) by (auto simp: persist_policy_def Let_def split: option.splits)
  then show "progress db db'"
  proof cases
    case new
    show ?thesis
      by (rule stage_progress [OF assms(1,2) live_owned [OF new(1)] new(2), where h = "\<lambda>x. x\<lparr>ap_status := policy_status pol\<rparr>"])
         (simp_all add: marks_def new(3))
  qed (simp add: progress_refl assms(1))
  show "db_ok db \<Longrightarrow> db_ok db'" using assms(3) by (auto simp: persist_policy_def Let_def split: option.splits)
qed

section \<open>A step of the worker\<close>

definition sound_store :: "'x mem_db_scheme \<Rightarrow> bool" where
  "sound_store db = (lease_inv db \<and> db_ok db)"

lemma sound_keys: "sound_store db \<Longrightarrow> keyed mm_id (md_memories db)"
  by (simp add: sound_store_def db_ok_def memories_ok_def)

text \<open>What a step owes: the store stays sound and advances, and a finished claim is closed.\<close>

definition accounted :: "candidate_lease \<Rightarrow> 'x verify_db_scheme \<Rightarrow> 'x worker \<Rightarrow> bool" where
  "accounted cl db w = (progress db (sd_payload (wk_db w)) \<and> db_ok (sd_payload (wk_db w))
     \<and> (wk_phase w = Finished \<longrightarrow> claim_closed cl (sd_payload (wk_db w))))"

lemma accounted_same:
  "sound_store db \<Longrightarrow> sd_payload (wk_db w) = db \<Longrightarrow> wk_phase w \<noteq> Finished \<Longrightarrow> accounted cl db w"
  by (simp add: accounted_def sound_store_def progress_refl)

lemma accounted_attempt:
  assumes "sound_store db" "sd_payload (wk_db w) = db" "\<And>x. r = Inr x \<Longrightarrow> accounted cl db (k x w)"
  shows "accounted cl db (attempt_stage r k w)"
  using assms by (cases r) (simp_all add: attempt_stage_def accounted_same)

lemma accounted_transact:
  assumes "sound_store db" "sd_payload (wk_db w) = db" "\<And>db'. r = Inr db' \<Longrightarrow> handed_back cl db db' \<and> db_ok db'"
    "\<And>w'. wk_db (k w') = wk_db w'"
  shows "accounted cl db (transact r k w)"
  using assms by (cases r) (simp_all add: transact_def accounted_def handed_back_def sound_store_def progress_refl)

lemma accounted_row:
  assumes "sound_store db" "sd_payload (wk_db w) = db" "\<And>row db'. r = Inr (row, db') \<Longrightarrow> progress db db' \<and> db_ok db'"
    "\<And>x w'. wk_db (k x w') = wk_db w' \<and> wk_phase (k x w') \<noteq> Finished"
  shows "accounted cl db (transact_row r k w)"
  using assms by (cases r) (auto simp: transact_row_def accounted_def sound_store_def progress_refl)

lemma transitions_flush:
  "finish_epistemic_rejection now cl code db = Inr db' \<Longrightarrow> db_ok db'"
  "finish_policy_block now cl code db = Inr db' \<Longrightarrow> db_ok db'"
  "db_ok db \<Longrightarrow> requeue_after_version_conflict now cl rv db = Inr db' \<Longrightarrow> db_ok db'"
  "db_ok db \<Longrightarrow> release_after_conflict cfg now cl code db = Inr db' \<Longrightarrow> db_ok db'"
  "db_ok db \<Longrightarrow> release_failed cfg now cl code db = Inr db' \<Longrightarrow> db_ok db'"
  by (auto simp: finish_epistemic_rejection_def finish_policy_block_def requeue_after_version_conflict_def
      release_after_conflict_def release_failed_def split: option.splits)

lemma after_verdict_open: "after_verdict ls rg cr cv \<noteq> Finished"
  by (simp add: after_verdict_def split: option.splits)

lemma attempt_goto:
  "wk_db (attempt_stage r (\<lambda>d. goto (P d)) w) = wk_db w"
  "(\<And>d. P d \<noteq> Finished) \<Longrightarrow> wk_phase (attempt_stage r (\<lambda>d. goto (P d)) w) \<noteq> Finished"
  by (cases r; simp add: attempt_stage_def)+

lemma publish_ran:
  assumes "sound_store (sd_payload s)" "issued cl (sd_payload s)" "\<not> on_record s (pe_operation_id e)" "publish e cl sn d s = (Inr rc, s')"
  obtains (conflict) "r_outcome rc = ''version_conflict''" "sd_payload s' = sd_payload s"
  | (ran) out where "r_outcome rc \<noteq> ''version_conflict''" "handed_back cl (sd_payload s) (sd_payload s')" "db_ok (sd_payload s')"
      "memory_effect e sn d (cl_candidate_id cl) (sd_payload s) (sd_payload s') out" "r_result rc = m_result out"
      "known_result (r_result rc)" "memory_revision s = es_memory_revision sn"
      "memory_revision s' = memory_revision s + (if m_mutated out then 1 else 0)"
  using assms(4) unfolding publish_def
proof (cases rule: writer_payload [where r = "(MEMORY_RESOURCE_TYPE, MEMORY_RESOURCE_ID)"])
  case (replayed rc')
  have "tget o_id (pe_operation_id e) (sd_ops s) = None" using assms(3) by (simp add: on_record_def)
  moreover have "spec_execute (pe_sha e) (publish_envelope e cl sn d) (mutate_and_settle e cl sn d) (abs_db s) = Inr (rc, abs_db s')"
    using assms(4) writer_abs unfolding publish_def by blast
  ultimately have "\<not> r_replayed rc"
    by (auto simp: spec_execute_def publish_envelope_def record_receipt_def spec_receipt_def Let_def split: sum.splits prod.splits if_splits)
  then show ?thesis using replayed by simp
next
  case (conflict rc')
  then show ?thesis using that(1) by simp
next
  case (ran rc' p out)
  note inv = assms(1) [unfolded sound_store_def, THEN conjunct1] assms(2) sound_keys [OF assms(1)]
  have m: "mutate_and_settle e cl sn d (sd_payload s) (version_of (resource_of (publish_envelope e cl sn d)) s) = Inr (sd_payload s', out)"
    using ran(3,4) by simp
  have known: "known_result (m_result out)" using m mutate_known [of e cl sn d "sd_payload s"]
    unfolding mutate_and_settle_Inr known_answer_def by blast
  have res: "resource_of (publish_envelope e cl sn d) = (MEMORY_RESOURCE_TYPE, MEMORY_RESOURCE_ID)"
    by (simp add: resource_of_def publish_envelope_def)
  show ?thesis
    by (rule that(2) [of out]) (use ran known res mutate_and_settle_ok [OF inv m] in \<open>auto simp: memory_revision_def publish_envelope_def\<close>)
qed simp

lemma published_accounted:
  assumes s: "sound_store db" "sd_payload (wk_db w) = db" "issued cl db" "\<not> on_record (wk_db w) (pe_operation_id e)"
  shows "accounted cl db (published ls rg cr cv n (publish e cl sn d (wk_db w)) w)"
proof (cases "publish e cl sn d (wk_db w)")
  case (Pair res s')
  show ?thesis
  proof (cases res)
    case (Inl err)
    then show ?thesis using Pair s by (cases err) (simp_all add: published_def accounted_same)
  next
    case (Inr rc)
    note p = publish_ran [OF s(1,3) [folded s(2)] s(4) Pair [unfolded Inr]]
    show ?thesis
    proof (rule p)
      assume "r_outcome rc = ''version_conflict''" "sd_payload s' = sd_payload (wk_db w)"
      then show ?thesis using Pair Inr s by (simp add: published_def Let_def accounted_same)
    next
      fix out assume "r_outcome rc \<noteq> ''version_conflict''" "handed_back cl (sd_payload (wk_db w)) (sd_payload s')" "db_ok (sd_payload s')"
      then show ?thesis using Pair Inr s by (simp add: published_def Let_def accounted_def handed_back_def)
    qed
  qed
qed

lemma worker_step_accounted:
  assumes s: "sound_store db" "sd_payload (wk_db w) = db" "issued cl db" "\<not> on_record (wk_db w) (pe_operation_id (we_publish e))"
    and open_phase: "\<not> is_final (wk_phase w)"
  shows "accounted cl db (worker_step cfg e cl w)"
proof -
  have inv: "lease_inv db" "db_ok db" using s(1) by (simp_all add: sound_store_def)
  note defs = worker_step_def Let_def s(2)
  note tr = transitions_flush [where cl = cl and db = db]
  show ?thesis
  proof (cases "wk_phase w")
    case Loading
    then show ?thesis using s by (auto simp: defs accounted_same intro!: accounted_attempt)
  next
    case (Reusing ls)
    then show ?thesis using s after_verdict_open
      by (auto simp: defs intro!: accounted_same split: option.splits)
  next
    case (Reading ls)
    then show ?thesis using s inv persist_reading_progress [OF inv(1) s(3)]
      by (auto simp: defs split: prod.splits intro!: accounted_attempt accounted_row)
  next
    case (Comparing ls rr rg)
    then show ?thesis using s inv persist_comparison_progress [OF inv(1) s(3)] after_verdict_open
      by (auto simp: defs split: prod.splits intro!: accounted_attempt accounted_row)
  next
    case (Rejecting code)
    then show ?thesis using s tr(1) finish_epistemic_rejection_back [OF inv(1) s(3)]
      by (auto simp: defs intro!: accounted_transact)
  next
    case (Refreshing ls rg cr cv n)
    then show ?thesis using s by (auto simp: defs accounted_same intro!: accounted_attempt)
  next
    case (Reconciling ls rg cr cv n)
    then show ?thesis using s persist_reconciliation_progress [OF inv(1) s(3)]
      by (auto simp: defs intro!: accounted_attempt accounted_row)
  next
    case (Policing ls rg cr cv n r re)
    then show ?thesis using s inv persist_policy_progress [OF inv(1) s(3)]
      by (auto simp: defs attempt_goto split: prod.splits if_splits intro!: accounted_row)
  next
    case (Blocking code n)
    then show ?thesis using s tr(2) finish_policy_block_back [OF inv(1) s(3)] by (auto simp: defs intro!: accounted_transact)
  next
    case (Publishing ls rg cr cv n sn d)
    then show ?thesis using s published_accounted [OF s] by (simp add: worker_step_def Let_def accounted_same)
  next
    case (Releasing n)
    then show ?thesis using s tr(4) [OF inv(2)] release_back(1) [OF inv(1) s(3)] by (auto simp: defs intro!: accounted_transact)
  next
    case (Requeueing ls n)
    then show ?thesis using s tr(3) [OF inv(2)] requeue_back [OF inv(1) s(3)] by (auto simp: defs intro!: accounted_transact)
  next
    case Unknown_result
    then show ?thesis using s tr(5) [OF inv(2)] release_back(2) [OF inv(1) s(3)] by (auto simp: defs intro!: accounted_transact)
  next
    case (Failing code)
    show ?thesis
    proof (cases "release_failed (wc_leases cfg) (we_now e) cl code db")
      case (Inl err)
      then show ?thesis using s Failing by (simp add: defs accounted_same)
    next
      case (Inr db')
      then show ?thesis using tr(5) [OF inv(2) Inr] release_back(2) [OF inv(1) s(3) Inr] Failing
        by (simp add: defs accounted_def handed_back_def)
    qed
  qed (use open_phase in \<open>simp_all add: is_final_def\<close>)
qed

section \<open>Runs among other processes\<close>

text \<open>Only the publication records an operation, under its own identity.\<close>

lemma spec_ops:
  "spec_execute sha e mut s = Inr (rc, s') \<Longrightarrow> l_ops s' i \<noteq> None \<Longrightarrow> l_ops s i \<noteq> None \<or> i = e_operation_id e"
  by (auto simp: spec_execute_def record_receipt_def Let_def split: option.splits sum.splits prod.splits if_splits)

lemma writer_on_record:
  assumes "writer_execute sha e mut s = (res, s')" "on_record s' i"
  shows "on_record s i \<or> i = e_operation_id e"
proof (cases sha e mut s rule: writer_cases)
  case (rolled_back err)
  then show ?thesis using assms by simp
next
  case (answered rc s1)
  then have "s1 = s'" using assms(1) by simp
  then show ?thesis using spec_ops [OF answered(2), of i] assms(2) unfolding on_record_abs by simp
qed

lemma ops_frames:
  "sd_ops (wk_db (attempt_stage r k w)) = sd_ops (wk_db w)" if "\<And>x w'. wk_db w' = wk_db w \<Longrightarrow> sd_ops (wk_db (k x w')) = sd_ops (wk_db w)"
  using that by (cases r) (simp_all add: attempt_stage_def)

lemma ops_transact: "(\<And>w'. wk_db (k w') = wk_db w') \<Longrightarrow> sd_ops (wk_db (transact r k w)) = sd_ops (wk_db w)"
  by (cases r) (simp_all add: transact_def)

lemma ops_row: "(\<And>x w'. wk_db (k x w') = wk_db w') \<Longrightarrow> sd_ops (wk_db (transact_row r k w)) = sd_ops (wk_db w)"
  by (cases r) (auto simp: transact_row_def)

lemma worker_step_ops:
  assumes "on_record (wk_db (worker_step cfg e cl w)) i"
  shows "on_record (wk_db w) i \<or> i = pe_operation_id (we_publish e)"
proof (cases "\<exists>ls rg cr cv n sn d. wk_phase w = Publishing ls rg cr cv n sn d \<and> \<not> we_serialization_failure e")
  case True
  then obtain ls rg cr cv n sn d where p: "wk_phase w = Publishing ls rg cr cv n sn d" "\<not> we_serialization_failure e" by blast
  obtain res s' where r: "publish (we_publish e) cl sn d (wk_db w) = (res, s')" by force
  have "wk_db (worker_step cfg e cl w) \<in> {wk_db w, s'}" using p r
    by (auto simp: worker_step_def Let_def published_def split: sum.splits write_error.splits)
  then show ?thesis using assms writer_on_record [OF r [unfolded publish_def], of i] by (auto simp: publish_envelope_def)
next
  case False
  have "sd_ops (wk_db (worker_step cfg e cl w)) = sd_ops (wk_db w)"
    using False
    by (cases "wk_phase w")
       (auto simp: worker_step_def Let_def attempt_goto split: option.splits prod.splits sum.splits
         intro!: ops_frames [THEN trans] ops_transact ops_row [THEN trans])
  then show ?thesis using assms by (simp add: on_record_def)
qed

definition unused :: "(nat \<Rightarrow> worker_env) \<Rightarrow> nat \<Rightarrow> 'p shared_db \<Rightarrow> bool" where
  "unused env k s = (\<forall>j \<ge> k. \<not> on_record s (pe_operation_id (we_publish (env j))))"

text \<open>What is asked of the other processes and of the identities the worker draws: the others keep the store sound and
  advance it, and do not use the worker's operation identities, which are all different.\<close>

definition fair_world :: "(nat \<Rightarrow> worker_env) \<Rightarrow> (nat \<Rightarrow> 'x verify_db_scheme shared_db \<Rightarrow> 'x verify_db_scheme shared_db) \<Rightarrow> bool" where
  "fair_world env others = (inj (\<lambda>j. pe_operation_id (we_publish (env j)))
     \<and> (\<forall>k s. sound_store (sd_payload s) \<longrightarrow> sound_store (sd_payload (others k s)) \<and> progress (sd_payload s) (sd_payload (others k s))
          \<and> (unused env k s \<longrightarrow> unused env k (others k s))))"

lemma unused_step:
  assumes "inj (\<lambda>j. pe_operation_id (we_publish (env j)))" "unused env k (wk_db w)"
  shows "unused env (Suc k) (wk_db (worker_step cfg (env k) cl w))"
  unfolding unused_def
proof (intro allI impI notI)
  fix j assume j: "Suc k \<le> j" "on_record (wk_db (worker_step cfg (env k) cl w)) (pe_operation_id (we_publish (env j)))"
  then have "pe_operation_id (we_publish (env j)) = pe_operation_id (we_publish (env k))"
    using worker_step_ops [OF j(2)] assms(2) by (auto simp: unused_def)
  then have "j = k" using injD [OF assms(1)] by simp
  then show False using j(1) by simp
qed

lemma run_claim_bound:
  "run_claim cfg env others cl k w = (k', w') \<Longrightarrow> is_final (wk_phase w') \<and> k' \<le> k + phase_rank (wk_phase w)"
proof (induction cfg env others cl k w rule: run_claim.induct)
  case (1 cfg env others cl k w)
  show ?case
  proof (cases "is_final (wk_phase w)")
    case True
    then show ?thesis using 1(2) by (simp add: run_claim.simps [of _ _ _ _ _ w])
  next
    case False
    let ?w = "w\<lparr>wk_db := others k (wk_db w)\<rparr>"
    have "is_final (wk_phase w') \<and> k' \<le> Suc k + phase_rank (wk_phase (worker_step cfg (env k) cl ?w))"
      using 1(1) [OF False] 1(2) False by (simp add: run_claim.simps [of _ _ _ _ _ w])
    then show ?thesis using worker_step_rank [of ?w cfg "env k" cl] False by simp
  qed
qed

end
