(* ===== verification/Memory_Owner.thy ===== *)
theory Memory_Owner
  imports Memory_Deletion Memory_Review Memory_Pipeline
begin

text \<open>
  The contract of the owner commands: a command that was begun is settled, as applied together
  with its effect or as failed without one. The laws that retire, restore and delete share are
  the locale \<open>owner_mutation\<close>.
\<close>

section \<open>Unconditional writes\<close>

text \<open>Owner commands name no expected version and use a fresh identity: they run, or they raise what the mutation raised.\<close>

lemma writer_fresh:
  assumes "\<not> on_record s (e_operation_id e)" "e_expected_version e = None"
  shows "case mut (sd_payload s) (version_of (resource_of e) s) of
      Inl err \<Rightarrow> writer_execute sha e mut s = (Inl (MutationRaised err), s)
    | Inr (p, out) \<Rightarrow> \<exists>rc s'. writer_execute sha e mut s = (Inr rc, s') \<and> sd_payload s' = p \<and> \<not> r_replayed rc
        \<and> r_outcome rc = (if m_mutated out then ''applied'' else ''no_change'') \<and> r_result rc = m_result out
        \<and> version_of (resource_of e) s' = version_of (resource_of e) s + (if m_mutated out then 1 else 0)
        \<and> (\<forall>i. on_record s' i \<longleftrightarrow> on_record s i \<or> i = e_operation_id e)"
proof -
  have none: "l_ops (abs_db s) (e_operation_id e) = None" using assms(1) by (simp add: on_record_abs)
  have ref: "(case repository_execute sha e mut s of Inl err \<Rightarrow> Inl err | Inr (rc, s') \<Rightarrow> Inr (rc, abs_db s')) = spec_execute sha e mut (abs_db s)"
    using execute_refines [of sha e mut s] by (auto split: sum.splits)
  show ?thesis
  proof (cases "mut (sd_payload s) (version_of (resource_of e) s)")
    case (Inl err)
    then have "spec_execute sha e mut (abs_db s) = Inl (MutationRaised err)" using none assms(2) by (simp add: spec_execute_def Let_def)
    then show ?thesis using ref Inl by (auto simp: writer_execute_def split: sum.splits)
  next
    case (Inr po)
    obtain p out where po: "po = (p, out)" by (cases po)
    let ?h = "payload_hash sha (e_payload e)" and ?v = "version_of (resource_of e) s"
    let ?n = "if m_mutated out then ?v + 1 else ?v"
    let ?rc = "spec_receipt e ''committed'' (if m_mutated out then ''applied'' else ''no_change'') ?v (Some ?n) (m_result out)"
    have "spec_execute sha e mut (abs_db s) = Inr (record_receipt e ?h ?rc ((abs_db s)\<lparr>l_payload := p,
        l_version := (l_version (abs_db s))(resource_of e := ?n)\<rparr>))"
      using none assms(2) Inr po by (auto simp: spec_execute_def Let_def fun_upd_idem)
    then obtain s' where s': "repository_execute sha e mut s = Inr (?rc, s')"
        "abs_db s' = snd (record_receipt e ?h ?rc ((abs_db s)\<lparr>l_payload := p, l_version := (l_version (abs_db s))(resource_of e := ?n)\<rparr>))"
      using ref by (auto simp: record_receipt_def split: sum.splits prod.splits)
    have "sd_payload s' = p" using arg_cong [OF s'(2), of l_payload] by (simp add: record_receipt_def)
    moreover have "version_of (resource_of e) s' = ?n" using arg_cong [OF s'(2), of "\<lambda>x. l_version x (resource_of e)"] by (simp add: record_receipt_def)
    moreover have "on_record s' i \<longleftrightarrow> on_record s i \<or> i = e_operation_id e" for i
      unfolding on_record_abs s'(2) by (simp add: record_receipt_def del: abs_db_sel)
    ultimately show ?thesis using Inr po s'(1) by (simp add: writer_execute_def spec_receipt_def)
  qed
qed

section \<open>The rows of a command\<close>

definition command_applied :: "owner_env \<Rightarrow> 'x mem_db_scheme \<Rightarrow> bool" where
  "command_applied e db = (case tget cm_id (oe_command_id e) (md_commands db) of None \<Rightarrow> False | Some cm \<Rightarrow> cm_status cm = APPLIED)"

definition command_failed :: "owner_env \<Rightarrow> mem_error write_error \<Rightarrow> 'x mem_db_scheme \<Rightarrow> bool" where
  "command_failed e err db = (case tget cm_id (oe_command_id e) (md_commands db) of None \<Rightarrow> False
     | Some cm \<Rightarrow> cm_status cm = CFAILED \<and> cm_error cm = Some (take 2000 (oe_exc_text e err)))"

text \<open>The identity of the command is new to the ledger, to the commands and to the obligations.\<close>

definition fresh_command :: "owner_env \<Rightarrow> 'x mem_db_scheme shared_db \<Rightarrow> bool" where
  "fresh_command e s = (\<not> on_record s (oe_command_id e) \<and> oe_command_id e \<notin> cm_id ` set (md_commands (sd_payload s))
     \<and> (\<forall>ob \<in> set (md_obligations (sd_payload s)). ob_command_id ob \<noteq> Some (oe_command_id e)))"

lemma one_or_none_Inr:
  "one_or_none xs = Inr x \<longleftrightarrow> (xs = [] \<and> x = None) \<or> (\<exists>y. xs = [y] \<and> x = Some y)"
  by (auto simp: one_or_none_def split: list.splits)

lemma resolve_for_command_cases:
  assumes "resolve_for_command i f db = Inr db'"
  obtains (none) "db' = db" "\<And>ob. ob \<in> set (md_obligations db) \<Longrightarrow> ob_command_id ob = Some i \<Longrightarrow> ob_status ob \<noteq> Open"
  | (one) ob where "db' = upd_obligation (ob_id ob) f db" "ob \<in> set (md_obligations db)" "ob_command_id ob = Some i" "ob_status ob = Open"
proof -
  obtain x where x: "one_or_none (filter (\<lambda>ob. ob_command_id ob = Some i \<and> ob_status ob = Open) (md_obligations db)) = Inr x"
    "(case x of None \<Rightarrow> Inr db | Some ob \<Rightarrow> Inr (upd_obligation (ob_id ob) f db)) = (Inr db' :: mem_error + _)"
    using assms unfolding resolve_for_command_def pending_for_command_def ebind_Inr by blast
  show ?thesis
  proof (cases x)
    case None
    then show ?thesis using x none by (auto simp: one_or_none_Inr filter_empty_conv)
  next
    case (Some ob)
    then have "filter (\<lambda>ob. ob_command_id ob = Some i \<and> ob_status ob = Open) (md_obligations db) = [ob]" using x(1) by (simp add: one_or_none_Inr)
    then have "ob \<in> set (filter (\<lambda>ob. ob_command_id ob = Some i \<and> ob_status ob = Open) (md_obligations db))" by simp
    then show ?thesis using one [of ob] x(2) Some by simp
  qed
qed

text \<open>Settling a command writes its row and its obligation only.\<close>

definition settled_rows :: "'x life_db_scheme \<Rightarrow> 'x life_db_scheme \<Rightarrow> bool" where
  "settled_rows db db' = (\<exists>cs obs. db' = db\<lparr>md_commands := cs, md_obligations := obs\<rparr>)"

lemma settled_rows_frames:
  assumes "settled_rows db db'"
  shows "md_memories db' = md_memories db" "md_candidates db' = md_candidates db" "md_attempts db' = md_attempts db"
    "md_turns db' = md_turns db" "md_provenance db' = md_provenance db" "db_ok db' = db_ok db"
  using assms by (auto simp: settled_rows_def db_ok_def)

lemma apply_owner_command_Inr:
  assumes "apply_owner_command now i t r db = Inr db'"
  shows "settled_rows db db'" "\<exists>cm. tget cm_id i (md_commands db') = Some cm \<and> cm_status cm = APPLIED"
proof -
  obtain cm where cm: "tget cm_id i (md_commands db) = Some cm" and res: "resolve_for_command i
      (\<lambda>ob. ob\<lparr>ob_status := Resolved, ob_resolution_code := Some ''persisted'',
        ob_resolution := [(''target_memory_id'', opt_json t), (''replacement_memory_id'', opt_json r)], ob_resolved_at := Some now\<rparr>)
      (upd_command i (\<lambda>cm. cm\<lparr>cm_status := APPLIED, cm_target_memory_id := t, cm_replacement_memory_id := r, cm_applied_at := Some now\<rparr>) db) = Inr db'"
    using assms unfolding apply_owner_command_def ebind_Inr the_row_Inr by blast
  from res show "settled_rows db db'"
    unfolding settled_rows_def
    by (cases rule: resolve_for_command_cases)
       (rule exI [of _ "md_commands db'"], rule exI [of _ "md_obligations db'"], simp add: upd_command_def upd_obligation_def)+
  from res cm show "\<exists>cm. tget cm_id i (md_commands db') = Some cm \<and> cm_status cm = APPLIED"
    by (cases rule: resolve_for_command_cases) (simp_all add: tget_tset)
qed

lemma fail_owner_command_fresh:
  assumes "\<And>ob. ob \<in> set (md_obligations db) \<Longrightarrow> ob_command_id ob \<noteq> Some (oe_command_id e)"
    "tget cm_id (oe_command_id e) (md_commands db) = Some cm"
  shows "\<exists>cs. fail_owner_command e err db = Inr (db\<lparr>md_commands := cs\<rparr>) \<and> command_failed e err (db\<lparr>md_commands := cs\<rparr>)"
proof -
  have "filter (\<lambda>ob. ob_command_id ob = Some (oe_command_id e) \<and> ob_status ob = Open) (md_obligations db) = []"
    using assms(1) by (auto simp: filter_empty_conv)
  then have "fail_owner_command e err db = Inr (upd_command (oe_command_id e) (\<lambda>cm. cm\<lparr>cm_status := CFAILED,
      cm_error := Some (take 2000 (oe_exc_text e err)), cm_failed_at := Some (oe_now e)\<rparr>) db)"
    using assms(2) by (simp add: fail_owner_command_def resolve_for_command_def pending_for_command_def one_or_none_def)
  moreover have "command_failed e err (upd_command (oe_command_id e) (\<lambda>cm. cm\<lparr>cm_status := CFAILED,
      cm_error := Some (take 2000 (oe_exc_text e err)), cm_failed_at := Some (oe_now e)\<rparr>) db)"
    using assms(2) by (simp add: command_failed_def tget_tset)
  ultimately show ?thesis unfolding upd_command_def by blast
qed

section \<open>The contract of a mutation\<close>

text \<open>A failed command changes its own row and nothing else.\<close>

definition only_commands :: "'x mem_db_scheme shared_db \<Rightarrow> 'x mem_db_scheme shared_db \<Rightarrow> bool" where
  "only_commands s s' = (\<exists>cs. s' = s\<lparr>sd_payload := (sd_payload s)\<lparr>md_commands := cs\<rparr>\<rparr>)"

definition settled :: "owner_env \<Rightarrow> 'x mem_db_scheme shared_db \<Rightarrow> (owner_error + json_obj) \<times> 'x mem_db_scheme shared_db \<Rightarrow> bool" where
  "settled e s out = (db_ok (sd_payload (snd out)) \<and> (case fst out of
      Inr _ \<Rightarrow> command_applied e (sd_payload (snd out))
    | Inl (Refused _) \<Rightarrow> snd out = s
    | Inl (Mutation_failed _ i err) \<Rightarrow> i = oe_command_id e \<and> command_failed e err (sd_payload (snd out)) \<and> only_commands s (snd out)))"

locale owner_mutation =
  fixes run :: "owner_env \<Rightarrow> 'a \<Rightarrow> 'x life_db_scheme \<Rightarrow> int \<Rightarrow> mem_error + ('x life_db_scheme \<times> mutation)"
  assumes applied: "run e a db v = Inr (db', out) \<Longrightarrow> command_applied e db'"
    and sound: "run e a db v = Inr (db', out) \<Longrightarrow> db_ok db \<Longrightarrow> db_ok db'"
begin

lemma command_settled:
  assumes fresh: "fresh_command e s" and ok: "db_ok (sd_payload s)"
  shows "settled e s (owner_command e operation stored source (run e a) include_memory captured s)"
proof -
  let ?cm = "new_command e operation stored source None"
  let ?db = "(sd_payload s)\<lparr>md_commands := tadd ?cm (md_commands (sd_payload s))\<rparr>"
  let ?s = "s\<lparr>sd_payload := ?db\<rparr>" and ?env = "command_envelope e source operation"
  have ok1: "db_ok ?db" using ok by (simp add: db_ok_def)
  have id: "cm_id ?cm = oe_command_id e" by (simp add: new_command_def)
  have begun: "begin_command e operation stored source (sd_payload s) = Inr ?db"
    using fresh ok1 by (simp add: begin_command_def add_command_def flush_def fresh_command_def id)
  have rec: "\<not> on_record ?s (e_operation_id ?env)" "e_expected_version ?env = None"
    using fresh by (simp_all add: fresh_command_def on_record_def command_envelope_def)
  note w = writer_fresh [where sha = "oe_sha e" and mut = "run e a", OF rec]
  show ?thesis
  proof (cases "run e a ?db (version_of (resource_of ?env) ?s)")
    case (Inl err)
    then have run: "writer_execute (oe_sha e) ?env (run e a) ?s = (Inl (MutationRaised err), ?s)" using w by simp
    have row: "tget cm_id (oe_command_id e) (md_commands ?db) = Some ?cm"
      using fresh id by (simp add: tget_tadd fresh_command_def tget_None_iff [THEN iffD2])
    obtain cs where cs: "fail_owner_command e (MutationRaised err) ?db = Inr (?db\<lparr>md_commands := cs\<rparr>)"
        "command_failed e (MutationRaised err) (?db\<lparr>md_commands := cs\<rparr>)"
      using fail_owner_command_fresh [of ?db e ?cm "MutationRaised err"] row fresh by (auto simp: fresh_command_def)
    moreover have "only_commands s (s\<lparr>sd_payload := (sd_payload s)\<lparr>md_commands := cs\<rparr>\<rparr>)" unfolding only_commands_def by blast
    ultimately show ?thesis using ok run begun by (simp add: owner_command_def run_command_def settled_def db_ok_def)
  next
    case (Inr po)
    obtain p out where po: "po = (p, out)" by (cases po)
    then obtain rc s' where "writer_execute (oe_sha e) ?env (run e a) ?s = (Inr rc, s')" "sd_payload s' = p"
      using w Inr by auto
    then show ?thesis using applied sound ok1 Inr po begun by (simp add: owner_command_def run_command_def settled_def)
  qed
qed

end

section \<open>The commands meet the contract\<close>

text \<open>A mutation ends by applying its command: after a flush, or without any other change.\<close>

definition concluded :: "owner_env \<Rightarrow> 'x life_db_scheme \<Rightarrow> 'x life_db_scheme \<Rightarrow> bool" where
  "concluded e db db' = (command_applied e db' \<and> (db_ok db' \<or> settled_rows db db'))"

lemma concludedD: "concluded e db db' \<Longrightarrow> command_applied e db'" "concluded e db db' \<Longrightarrow> db_ok db \<Longrightarrow> db_ok db'"
  using settled_rows_frames(6) [of db db'] by (auto simp: concluded_def)

lemma concluded_flush:
  assumes "apply_owner_command (oe_now e) (oe_command_id e) t r db1 = Inr db2" "flush db2 = Inr db'"
  shows "concluded e db db'"
  using apply_owner_command_Inr(2) [OF assms(1)] assms(2) by (auto simp: concluded_def command_applied_def flush_Inr)

lemma concluded_same:
  assumes "apply_owner_command (oe_now e) (oe_command_id e) t r db = Inr db'"
  shows "concluded e db db'"
  using apply_owner_command_Inr [OF assms] by (auto simp: concluded_def command_applied_def)

lemma retired_aftermath_Inr:
  assumes "retired_aftermath e result m db = Inr (db', out)"
  obtains ids turns db1 db2 where
    "invalidate_candidates (oe_now e) (oe_command_id e) (opt_list (mm_source_turn_id m)) (mm_content m) False [] None db = Inr (ids, turns, db1)"
    "apply_owner_command (oe_now e) (oe_command_id e) (Some (mm_id m)) None (db1\<lparr>ld_capsules := []\<rparr>) = Inr db2"
    "flush db2 = Inr db'" "out = changed (memory_result result (mm_id m))"
  using assms unfolding retired_aftermath_def ebind_Inr by auto

lemma retire_memory_cases:
  assumes "retire_memory e content m db = Inr (db', out)"
  obtains (same) "mm_status m = RETIRED" "apply_owner_command (oe_now e) (oe_command_id e) (Some (mm_id m)) None db = Inr db'"
      "out = no_change (memory_result ''already_retired'' (mm_id m))"
  | (retired) "mm_status m = ACTIVE"
      "retired_aftermath e ''retired'' (retire_row (oe_now e) m) (upd_memory (mm_id m) (retire_row (oe_now e)) db) = Inr (db', out)"
  using assms unfolding retire_memory_def by (auto simp: ebind_Inr require_Inr split: if_splits)

lemma active_by_fingerprint_Some:
  assumes "active_by_fingerprint fp db = Inr (Some m)"
  shows "m \<in> set (md_memories db)" "mm_status m = ACTIVE" "mm_fingerprint m = Some fp"
proof -
  have "filter (\<lambda>m. mm_status m = ACTIVE \<and> mm_fingerprint m = Some fp) (md_memories db) = [m]"
    using assms by (auto simp: active_by_fingerprint_def one_or_none_Inr)
  then have "m \<in> set (filter (\<lambda>m. mm_status m = ACTIVE \<and> mm_fingerprint m = Some fp) (md_memories db))" by simp
  then show "m \<in> set (md_memories db)" "mm_status m = ACTIVE" "mm_fingerprint m = Some fp" by simp_all
qed

lemma retire_mutation_cases:
  assumes "retire_mutation e raw content source db v = Inr (db', out)"
  obtains (memory) m where "m \<in> set (md_memories db)" "retire_memory e content m db = Inr (db', out)"
      "\<And>x. raw = Some x \<Longrightarrow> oe_uuid e (py_str x) = Some (mm_id m)"
  | (guard) c g created db1 where "raw = None" "content = Some c"
      "create_guard (oe_sha e) (oe_now e) (oe_memory_id e) c RETIRED ''owner_retire_guard'' (fst source) (snd source) db = Inr (g, created, db1)"
      "retired_aftermath e (if created then ''retire_guard_created'' else ''already_retired'') g db1 = Inr (db', out)"
proof (cases raw)
  case (Some x)
  then obtain i m where "uuid_arg e x = Inr i" "get_memory i db = Some m" "retire_memory e content m db = Inr (db', out)"
    using assms unfolding retire_mutation_def by (auto simp: ebind_Inr)
  then show ?thesis using memory [of m] Some get_memory_Some [of i db m] by (auto simp: uuid_arg_def)
next
  case None
  then obtain c target where c: "content = Some c" "active_by_fingerprint (memory_fingerprint (oe_sha e) c) db = Inr target"
      "(case target of Some m \<Rightarrow> retire_memory e content m db | None \<Rightarrow>
          ebind (create_guard (oe_sha e) (oe_now e) (oe_memory_id e) c RETIRED ''owner_retire_guard'' (fst source) (snd source) db)
            (\<lambda>(g, created, db1). retired_aftermath e (if created then ''retire_guard_created'' else ''already_retired'') g db1)) = Inr (db', out)"
    using assms unfolding retire_mutation_def by (auto simp: ebind_Inr)
  show ?thesis
  proof (cases target)
    case (Some m)
    then show ?thesis using memory [of m] c(3) None active_by_fingerprint_Some(1) [OF c(2) [unfolded Some]] by simp
  next
    case None': None
    then show ?thesis using guard [OF None c(1)] c(3) by (auto simp: ebind_Inr)
  qed
qed

definition run_retire :: "owner_env \<Rightarrow> json option \<times> string option \<times> owner_source \<Rightarrow> 'x life_db_scheme \<Rightarrow> int
    \<Rightarrow> mem_error + ('x life_db_scheme \<times> mutation)" where
  "run_retire e a = retire_mutation e (fst a) (fst (snd a)) (snd (snd a))"

definition run_delete :: "owner_env \<Rightarrow> json option \<times> string option \<times> string \<times> owner_source \<Rightarrow> 'x life_db_scheme \<Rightarrow> int
    \<Rightarrow> mem_error + ('x life_db_scheme \<times> mutation)" where
  "run_delete e a = delete_mutation e (fst a) (fst (snd a)) (fst (snd (snd a))) (snd (snd (snd a)))"

lemma retired_aftermath_concluded: "retired_aftermath e result m db = Inr (db', out) \<Longrightarrow> concluded e db0 db'"
  by (erule retired_aftermath_Inr) (rule concluded_flush)

lemma retire_concluded: "retire_mutation e raw content source db v = Inr (db', out) \<Longrightarrow> concluded e db db'"
proof (erule retire_mutation_cases)
  fix m assume "retire_memory e content m db = Inr (db', out)"
  then show "concluded e db db'" by (cases rule: retire_memory_cases) (auto intro: concluded_same retired_aftermath_concluded)
qed (rule retired_aftermath_concluded)

lemma restore_mutation_cases:
  assumes "restore_mutation e i db v = Inr (db', out)"
  obtains (same) m where "get_memory i db = Some m" "mm_status m = ACTIVE" "apply_owner_command (oe_now e) (oe_command_id e) None (Some i) db = Inr db'"
      "out = no_change (memory_result ''already_active'' i)"
  | (restored) m db1 where "get_memory i db = Some m" "mm_status m = RETIRED"
      "apply_owner_command (oe_now e) (oe_command_id e) None (Some i) ((upd_memory i (restore_row (oe_now e)) db)\<lparr>ld_capsules := []\<rparr>) = Inr db1"
      "flush db1 = Inr db'" "out = changed (memory_result ''restored'' i)"
  using assms unfolding restore_mutation_def by (auto simp: ebind_Inr require_Inr split: if_splits)

lemma restore_concluded: "restore_mutation e i db v = Inr (db', out) \<Longrightarrow> concluded e db db'"
  by (erule restore_mutation_cases) (erule concluded_same concluded_flush, assumption?)+

lemma rewind_frames [simp]:
  "md_memories (rewind_transcript now t n db) = md_memories db" "md_turns (rewind_transcript now t n db) = md_turns db"
  "md_provenance (rewind_transcript now t n db) = md_provenance db"
  by (simp_all add: rewind_transcript_def Let_def)

lemma transcript_derivatives_frames [simp]:
  "md_memories (invalidate_transcript_derivatives now ids db) = md_memories db"
  "md_turns (invalidate_transcript_derivatives now ids db) = md_turns db"
  "md_provenance (invalidate_transcript_derivatives now ids db) = md_provenance db"
proof -
  let ?rewind = "\<lambda>d t. case earliest_turn ids t d of None \<Rightarrow> d | Some n \<Rightarrow> rewind_transcript now t n d"
  have "md_memories (foldl ?rewind db ts) = md_memories db \<and> md_turns (foldl ?rewind db ts) = md_turns db
      \<and> md_provenance (foldl ?rewind db ts) = md_provenance db" for ts
    by (induction ts arbitrary: db) (simp_all split: option.splits)
  then show "md_memories (invalidate_transcript_derivatives now ids db) = md_memories db"
    "md_turns (invalidate_transcript_derivatives now ids db) = md_turns db"
    "md_provenance (invalidate_transcript_derivatives now ids db) = md_provenance db"
    by (simp_all add: invalidate_transcript_derivatives_def)
qed

lemma scrub_commands_frames [simp]:
  "md_memories (scrub_command_payloads c ms ts db) = md_memories db" "md_turns (scrub_command_payloads c ms ts db) = md_turns db"
  "md_provenance (scrub_command_payloads c ms ts db) = md_provenance db"
  by (simp_all add: scrub_command_payloads_def)

lemma detach_turns [simp]: "md_turns (detach_purged_dependencies now ids ts cs ms db) = md_turns db"
  by (simp add: detach_purged_dependencies_def Let_def)

text \<open>The stages of a deletion. \<open>db1\<close> is the database after the sources are purged, \<open>gone\<close> the memories deleted.\<close>

lemma delete_memories_Inr:
  fixes db :: "'x life_db_scheme"
  assumes "delete_memories e target selected scope source db = Inr (db', out)"
  obtains affected preserved dependency redacted candidates turns db1 gone kept i removed and db5 db6 db7 :: "'x life_db_scheme" where
    "(case target of None \<Rightarrow> Inr ([], []) | Some m \<Rightarrow> memory_descendants (opt_list (map_option mm_id target)) db [mm_id m]) = Inr (affected, preserved)"
    "purge_sources e selected scope affected db = Inr (dependency, redacted, candidates, turns, db1)"
    "dependent_memory_closure (opt_list (map_option mm_id target)) db1
       (firsts (affected @ (if dependency = [] then [] else sourced_memories dependency db1))) candidates = Inr (gone, kept)"
    "md_memories db5 = where_rows (\<lambda>m. mm_id m \<in> set gone) (delete_row (oe_now e) (oe_command_id e))
       (md_memories (detach_purged_dependencies (oe_now e) (firsts (preserved @ kept)) redacted candidates gone db1))"
    "(case target of Some m \<Rightarrow> Inr (mm_id m, gone, db5)
         | None \<Rightarrow> ebind (add_memory (delete_tombstone e source) db5) (\<lambda>db6. Inr (oe_memory_id e, gone @ [oe_memory_id e], db6))) = Inr (i, removed, db6)"
    "apply_owner_command (oe_now e) (oe_command_id e) (Some i) None db7 = Inr db'" "md_memories db7 = md_memories db6" "db_ok db'"
    "md_turns db7 = md_turns db1"
    "md_provenance db7 = md_provenance (detach_purged_dependencies (oe_now e) (firsts (preserved @ kept)) redacted candidates gone db1)"
    "m_mutated out" "json_get ''memory_id'' (m_result out) = Some (JStr i)"
proof -
  from assms obtain affected preserved where 1: "(case target of None \<Rightarrow> Inr ([], [])
      | Some m \<Rightarrow> memory_descendants (opt_list (map_option mm_id target)) db [mm_id m]) = Inr (affected, preserved)"
    unfolding delete_memories_def Let_def ebind_Inr by auto
  with assms obtain dependency redacted candidates turns db1 where
    2: "purge_sources e selected scope affected db = Inr (dependency, redacted, candidates, turns, db1)"
    unfolding delete_memories_def Let_def ebind_Inr by auto
  with assms 1 obtain gone kept where 3: "dependent_memory_closure (opt_list (map_option mm_id target)) db1
       (firsts (affected @ (if dependency = [] then [] else sourced_memories dependency db1))) candidates = Inr (gone, kept)"
    unfolding delete_memories_def Let_def ebind_Inr by auto
  define db4 where "db4 = (let db3 = invalidate_transcript_derivatives (oe_now e) (firsts (redacted @ turns))
      (detach_purged_dependencies (oe_now e) (firsts (preserved @ kept)) redacted candidates gone db1) in
    if text_of selected = [] then db3
    else scrub_command_payloads (text_of selected) gone (firsts (turns_of affected db @ turns)) db3)"
  define db5 where "db5 = db4\<lparr>md_memories := where_rows (\<lambda>m. mm_id m \<in> set gone) (delete_row (oe_now e) (oe_command_id e)) (md_memories db4)\<rparr>"
  note rest = assms [unfolded delete_memories_def Let_def 1 2 3 ebind_simps prod.case, folded db4_def [unfolded Let_def] db5_def]
  from rest obtain i removed db6 where 4: "(case target of Some m \<Rightarrow> Inr (mm_id m, gone, db5)
         | None \<Rightarrow> ebind (add_memory (delete_tombstone e source) db5) (\<lambda>db6. Inr (oe_memory_id e, gone @ [oe_memory_id e], db6))) = Inr (i, removed, db6)"
    unfolding ebind_Inr by auto
  let ?sum = "deletion_summary removed (firsts (redacted @ turns)) candidates (firsts (preserved @ kept))"
  let ?db7 = "db6\<lparr>ld_capsules := [], ld_receipts := tadd \<lparr>dr_operation_id = oe_command_id e, dr_target_memory_id = i, dr_scope = scope,
      dr_affected = ?sum\<rparr> (ld_receipts db6)\<rparr>"
  from rest 4 obtain db7 where 5: "apply_owner_command (oe_now e) (oe_command_id e) (Some i) None ?db7 = Inr db7" "flush db7 = Inr db'"
      "out = changed (memory_result ''deleted'' i @ [(''scope'', JStr scope), (''affected'', JObj ?sum)])"
    by (auto simp: ebind_Inr)
  have "md_memories db4 = md_memories (detach_purged_dependencies (oe_now e) (firsts (preserved @ kept)) redacted candidates gone db1)"
    by (simp add: db4_def Let_def)
  then have "md_memories db5 = where_rows (\<lambda>m. mm_id m \<in> set gone) (delete_row (oe_now e) (oe_command_id e))
       (md_memories (detach_purged_dependencies (oe_now e) (firsts (preserved @ kept)) redacted candidates gone db1))"
    by (simp add: db5_def)
  moreover have "md_turns db6 = md_turns db5" "md_provenance db6 = md_provenance db5"
    using 4 by (auto simp: ebind_Inr add_memory_def flush_Inr split: option.splits)
  then have "md_turns ?db7 = md_turns db1"
    "md_provenance ?db7 = md_provenance (detach_purged_dependencies (oe_now e) (firsts (preserved @ kept)) redacted candidates gone db1)"
    by (simp_all add: db5_def db4_def Let_def)
  ultimately show ?thesis using that [OF 1 2 3 _ 4, of ?db7] 5 by (simp add: flush_Inr changed_def memory_result_def)
qed

lemma delete_mutation_cases:
  assumes "delete_mutation e raw content scope source db v = Inr (db', out)"
  obtains (same) m where "get_memory (mm_id m) db = Some m" "mm_status m = DELETED"
      "apply_owner_command (oe_now e) (oe_command_id e) (Some (mm_id m)) None db = Inr db'" "\<not> m_mutated out"
  | (deleted) target selected where "delete_memories e target selected scope source db = Inr (db', out)"
      "\<And>x. raw = Some x \<Longrightarrow> \<exists>m. target = Some m \<and> oe_uuid e (py_str x) = Some (mm_id m) \<and> get_memory (mm_id m) db = Some m \<and> selected = mm_content m"
proof (cases raw)
  case (Some x)
  then obtain i m where m: "oe_uuid e (py_str x) = Some i" "get_memory i db = Some m"
      "(if mm_status m = DELETED then
          ebind (apply_owner_command (oe_now e) (oe_command_id e) (Some (mm_id m)) None db) (\<lambda>db1.
          Inr (db1, no_change (memory_result ''already_deleted'' (mm_id m))))
        else
          ebind (require (mm_content m \<noteq> None) (MValueError ''target memory content is unavailable'')) (\<lambda>_.
          ebind (require (case content of None \<Rightarrow> True | Some c \<Rightarrow> mm_fingerprint m = Some (memory_fingerprint (oe_sha e) c))
            (MValueError ''content does not match target memory'')) (\<lambda>_.
          delete_memories e (Some m) (mm_content m) scope source db))) = Inr (db', out)"
    using assms unfolding delete_mutation_def uuid_arg_def ebind_Inr by (auto simp only: option.case ebind_Inr the_row_Inr)
  have id: "mm_id m = i" using get_memory_Some [OF m(2)] by simp
  show ?thesis
  proof (cases "mm_status m = DELETED")
    case True
    then show ?thesis using m id same [of m] by (auto simp: ebind_Inr no_change_def)
  next
    case False
    then show ?thesis using m id Some deleted [of "Some m" "mm_content m"] by (auto simp: ebind_Inr)
  qed
next
  case None
  then obtain target where "delete_memories e target content scope source db = Inr (db', out)"
    using assms unfolding delete_mutation_def by (auto simp: ebind_Inr)
  then show ?thesis using deleted None by blast
qed

lemma delete_concluded: "delete_mutation e raw content scope source db v = Inr (db', out) \<Longrightarrow> concluded e db db'"
proof (erule delete_mutation_cases)
  fix target selected assume "delete_memories e target selected scope source db = Inr (db', out)"
  then show "concluded e db db'"
    by (rule delete_memories_Inr) (auto simp: concluded_def command_applied_def dest: apply_owner_command_Inr(2))
qed (rule concluded_same)

interpretation retire: owner_mutation run_retire
  by unfold_locales (auto simp: run_retire_def dest!: retire_concluded intro: concludedD)

interpretation restore: owner_mutation restore_mutation
  by unfold_locales (auto dest!: restore_concluded intro: concludedD)

interpretation delete: owner_mutation run_delete
  by unfold_locales (auto simp: run_delete_def dest!: delete_concluded intro: concludedD)

end
