(* ===== verification/Memory_Pipeline_Properties.thy ===== *)
theory Memory_Pipeline_Properties
  imports Memory_Pipeline Memory_Intake
begin

text \<open>
  The properties of the memory pipeline as a whole: what a claimed batch holds, what a run of
  the worker leaves behind, histories of interleaved transactions, and publication.
\<close>

section \<open>Claimed batches\<close>

text \<open>A lease as it was handed out at \<open>now\<close>: the worker owns it and has the whole lease time.\<close>

definition held :: "lease_config \<Rightarrow> time \<Rightarrow> candidate_lease \<Rightarrow> 'x mem_db_scheme \<Rightarrow> bool" where
  "held cfg now cl db = (\<exists>c a. owned_attempt cl db = Some (c, a) \<and> lease_of cl a
     \<and> cd_leased_until c = Some (now + seconds (lc_lease_seconds cfg)))"

lemma held_issued: "held cfg now cl db \<Longrightarrow> issued cl db"
  unfolding held_def issued_def owned_Some by (auto dest: tget_key)

lemma held_other:
  assumes "held cfg now cl db" "cl_candidate_id cl \<noteq> i" "md_candidates db' = tset cd_id i f (md_candidates db)" "\<And>c. cd_id (f c) = cd_id c"
    "md_attempts db' = md_attempts db \<or> md_attempts db' = md_attempts (close_stale_attempts i t st db)
      \<or> (\<exists>x. ap_id x \<notin> ap_id ` set (md_attempts db) \<and> (md_attempts db' = tadd x (md_attempts db)
            \<or> md_attempts db' = tadd x (md_attempts (close_stale_attempts i t st db))))"
  shows "held cfg now cl db'"
proof -
  obtain c a where h: "owned_attempt cl db = Some (c, a)" "lease_of cl a" "cd_leased_until c = Some (now + seconds (lc_lease_seconds cfg))"
    using assms(1) by (auto simp: held_def)
  have g: "get_cand (cl_candidate_id cl) db' = get_cand (cl_candidate_id cl) db"
    using get_cand_tset [OF assms(3,4)] assms(2) by simp
  have a: "tget ap_id (cl_attempt_id cl) (md_attempts db) = Some a" using h(1) by (simp add: owned_Some)
  have closed: "tget ap_id k (md_attempts (close_stale_attempts i t st db)) =
      map_option (\<lambda>a. if ap_candidate_id a = i \<and> ap_completed_at a = None then close_attempt t st a else a) (tget ap_id k (md_attempts db))" for k
    by (simp add: close_stale_attempts_def tget_map close_attempt_def)
  have "tget ap_id (cl_attempt_id cl) (md_attempts db') = Some a"
    using assms(5) a closed [of "cl_attempt_id cl"] h(2) assms(2) by (auto simp: lease_of_def tget_tadd)
  then have "owned_attempt cl db' = Some (c, a)" using h(1) g by (simp add: owned_Some)
  then show ?thesis using h unfolding held_def by blast
qed

lemma close_stale_ids: "ap_id ` set (md_attempts (close_stale_attempts i t st db)) = ap_id ` set (md_attempts db)"
proof -
  have "map ap_id (md_attempts (close_stale_attempts i t st db)) = map ap_id (md_attempts db)"
    by (simp add: close_stale_attempts_def close_attempt_def)
  then show ?thesis by (metis set_map)
qed

lemma claim_row_held:
  assumes inv: "lease_inv db" and c: "current db c" and r: "claim_row cfg now fresh c (claimed, db) = Inr (claimed', db')"
  shows "(claimed' = claimed \<or> (\<exists>cl. claimed' = claimed @ [cl] \<and> cl_candidate_id cl = cd_id c \<and> held cfg now cl db'))
    \<and> (\<forall>cl. held cfg now cl db \<longrightarrow> cl_candidate_id cl \<noteq> cd_id c \<longrightarrow> held cfg now cl db')"
  using r
proof (cases rule: claim_row_cases)
  case dead
  note fr = write_and_settle_frames [OF dead(3)]
  have "held cfg now cl db'" if "held cfg now cl db" "cl_candidate_id cl \<noteq> cd_id c" for cl
    by (rule held_other [OF that, where f = "invalidate_candidate now" and t = now and st = "''evidence_unavailable''"]) (simp_all add: fr)
  then show ?thesis using dead(2) by simp
next
  case (lease db1 a)
  let ?cl = "\<lparr>cl_candidate_id = cd_id c, cl_attempt_id = ap_id a, cl_lease_token = ap_lease_token a, cl_attempt_number = ap_number a\<rparr>"
  have ids: "ap_id ` set (md_attempts db1) = ap_id ` set (md_attempts db)"
    by (simp add: lease(2) close_stale_ids)
  have cand: "md_candidates db' = tset cd_id (cd_id c) (lease_candidate cfg now (ap_lease_token a)) (md_candidates db)"
    "md_attempts db' = tadd a (md_attempts db1)" by (simp_all add: lease(2,6) upd_cand_def)
  have g: "get_cand (cd_id c) db' = Some (lease_candidate cfg now (ap_lease_token a) c)"
    using get_cand_tset [OF cand(1), of "cd_id c"] c by (simp add: current_def)
  have "tget ap_id (ap_id a) (md_attempts db1) = None" using lease(4) by (simp add: tget_None_iff)
  then have "tget ap_id (ap_id a) (md_attempts db') = Some a" by (simp add: cand(2) tget_tadd)
  then have new: "held cfg now ?cl db'" using g by (simp add: held_def owned_Some lease_of_def lease(3))
  have "held cfg now cl db'" if "held cfg now cl db" "cl_candidate_id cl \<noteq> cd_id c" for cl
    by (rule held_other [OF that, where f = "lease_candidate cfg now (ap_lease_token a)" and t = now and st = "''lease_expired''"])
       (use lease(2,4) ids cand in auto)
  then show ?thesis using new lease(5) by auto
qed

lemma claim_rows_held:
  "efold (claim_row cfg now fresh) rows (claimed, db) = Inr (claimed', db') \<Longrightarrow> distinct (map cd_id rows) \<Longrightarrow>
   \<forall>c \<in> set rows. current db c \<and> claimable cfg now c \<Longrightarrow> lease_inv db \<Longrightarrow>
   \<exists>new. claimed' = claimed @ new \<and> set (map cl_candidate_id new) \<subseteq> set (map cd_id rows) \<and> distinct (map cl_candidate_id new)
     \<and> length new \<le> length rows \<and> (\<forall>cl \<in> set new. held cfg now cl db')
     \<and> (\<forall>cl. held cfg now cl db \<longrightarrow> cl_candidate_id cl \<notin> set (map cd_id rows) \<longrightarrow> held cfg now cl db')"
proof (induction rows arbitrary: claimed db)
  case (Cons c rows)
  obtain cs db1 where s: "claim_row cfg now fresh c (claimed, db) = Inr (cs, db1)"
    "efold (claim_row cfg now fresh) rows (cs, db1) = Inr (claimed', db')" using Cons.prems(1) by auto
  have c: "current db c" "claimable cfg now c" "cd_id c \<notin> set (map cd_id rows)" "distinct (map cd_id rows)" using Cons.prems(2,3) by auto
  have st: "row_step c db db1" by (rule claim_row_step [OF Cons.prems(4) c(1,2) s(1)])
  have rest: "\<forall>d \<in> set rows. current db1 d \<and> claimable cfg now d"
    using st Cons.prems(3) c(3) unfolding row_step_def by (metis image_eqI image_set list.set_intros(2))
  obtain new where n: "claimed' = cs @ new" "set (map cl_candidate_id new) \<subseteq> set (map cd_id rows)" "distinct (map cl_candidate_id new)"
    "length new \<le> length rows" "\<forall>cl \<in> set new. held cfg now cl db'"
    "\<forall>cl. held cfg now cl db1 \<longrightarrow> cl_candidate_id cl \<notin> set (map cd_id rows) \<longrightarrow> held cfg now cl db'"
    using Cons.IH [OF s(2) c(4) rest] st by (auto simp: row_step_def progress_def)
  note h = claim_row_held [OF Cons.prems(4) c(1) s(1)]
  have keep: "held cfg now cl db'" if "held cfg now cl db" "cl_candidate_id cl \<notin> set (map cd_id (c # rows))" for cl
    using that h n(6) by simp
  show ?case
  proof (cases "cs = claimed")
    case True
    then show ?thesis using n keep by (intro exI [of _ new]) auto
  next
    case False
    then obtain cl where cl: "cs = claimed @ [cl]" "cl_candidate_id cl = cd_id c" "held cfg now cl db1" using h by blast
    then have "held cfg now cl db'" using n(6) c(3) by simp
    then show ?thesis using n cl c(3) keep by (intro exI [of _ "cl # new"]) auto
  qed
qed simp

lemma claim_batch_held:
  assumes "lease_inv db" "claim_batch cfg now fresh limit db = Inr (claimed, n, db')"
  shows "length claimed \<le> nat (clamp 1 32 limit)" "distinct (map cl_candidate_id claimed)" "\<forall>cl \<in> set claimed. held cfg now cl db'"
proof -
  obtain m db1 db2 db3 where steps: "expire_due_obligations now db = Inr (m, db1)"
    "efold (write_and_settle now ''retention_expired'' (expire_candidate now [(''decision'', JStr ''expired'')]))
       (filter (retained_expired now) (md_candidates db1)) db1 = Inr db2"
    "efold (\<lambda>c d. write_and_settle now ''attempt_limit'' (fail_exhausted now) c
       (close_stale_attempts (cd_id c) now ''attempt_limit'' d)) (filter (exhausted cfg now) (md_candidates db2)) db2 = Inr db3"
    "efold (claim_row cfg now fresh) (page cfg now limit db3) ([], db3) = Inr (claimed, db')"
    using assms(2) unfolding claim_batch_Inr by blast
  have i1: "lease_inv db1" using expire_due_progress [OF assms(1) steps(1)] by (simp add: progress_def)
  have i2: "lease_inv db2" using retained_sweep [OF i1 steps(2)] by (simp add: progress_def)
  have i3: "lease_inv db3" using exhausted_sweep [OF i2 steps(3)] by (simp add: progress_def)
  have rows: "\<forall>c \<in> set (page cfg now limit db3). current db3 c \<and> claimable cfg now c"
    using page_rows(2) [OF i3] page_set [of cfg now limit db3] by auto
  have len: "length (page cfg now limit db3) \<le> nat (clamp 1 32 limit)" by (simp add: page_def)
  show "length claimed \<le> nat (clamp 1 32 limit)" "distinct (map cl_candidate_id claimed)" "\<forall>cl \<in> set claimed. held cfg now cl db'"
    using claim_rows_held [OF steps(4) page_rows(1) [OF i3] rows i3] len by auto
qed

lemma claim_batch_sound:
  assumes "sound_store db" "claim_batch cfg now fresh limit db = Inr (claimed, n, db')"
  shows "sound_store db'" "progress db db'"
proof -
  show p: "progress db db'" using claim_batch_progress [OF _ assms(2)] assms(1) by (simp add: sound_store_def)
  have "db_ok db'" using assms(2) unfolding claim_batch_Inr by blast
  then show "sound_store db'" using p by (simp add: sound_store_def progress_def)
qed

section \<open>Histories\<close>

lemma enqueue_sound:
  assumes s: "sound_store db" and r: "enqueue ik i p db = Inr (row, created, db')"
  shows "sound_store db' \<and> mem_le db db'"
  using r
proof (cases rule: enqueue_cases)
  case (new c refs)
  note inv = lease_invD [OF s [unfolded sound_store_def, THEN conjunct1]]
  have id: "cd_id row = i" "leased_ok row" using new(4) by (simp_all add: leased_ok_def)
  have fresh: "get_cand i db = None"
    using new(6,7) id by (auto simp: get_cand_def tget_None_iff db_ok_def candidates_ok_def)
  have g: "get_cand k db' = (if k = i then Some row else get_cand k db)" for k
    using fresh id by (auto simp: get_cand_def new(6) tget_tadd split: option.splits)
  have same: "md_attempts db' = md_attempts db" "open_attempts db' = open_attempts db" by (simp_all add: new(6) open_attempts_def)
  have old: "k \<noteq> i" if "get_cand k db = Some x" for k x
    using that fresh by auto
  have "lease_inv db'" unfolding lease_inv_def
  proof (intro conjI ballI)
    show "keyed cd_id (md_candidates db')" using new(7) by (simp add: db_ok_def candidates_ok_def)
    show "leased_ok c" if "c \<in> set (md_candidates db')" for c using that inv(3) id(2) by (auto simp: new(6))
    show "\<exists>c. get_cand (ap_candidate_id a) db' = Some c \<and> holds_lease a c" if "a \<in> open_attempts db'" for a
      using inv(5) [of a] that same(2) g old by metis
  qed (use inv(2,4) same in simp_all)
  moreover have "mem_le db db'" unfolding mem_le_def using same(1) g old by (auto simp: advanced_def intro: attempt_le_refl)
  ultimately show ?thesis using new(7) by (simp add: sound_store_def)
next
  case known
  then show ?thesis using s by simp
qed

lemma enqueue_one_sound:
  assumes "sound_store db" "enqueue_one v ik item (r, db) = Inr (r', db')"
  shows "sound_store db' \<and> mem_le db db'"
proof -
  obtain i raw where item: "item = (i, raw)" by force
  consider p row b where "enqueue ik i p db = Inr (row, b, db')" | "db' = db"
    using assms(2) by (auto simp: enqueue_one_def item split: sum.splits option.splits)
  then show ?thesis by cases (use assms(1) enqueue_sound in blast, use assms(1) in simp)
qed

lemma enqueue_many_sound:
  assumes "sound_store db" "enqueue_many v ik raws db = Inr (r, db')"
  shows "sound_store db' \<and> mem_le db db'"
proof -
  have "sound_store (snd (r, db')) \<and> mem_le db (snd (r, db'))"
    using assms(2) [unfolded enqueue_many_def]
  proof (rule efold_inv [where P = "\<lambda>x. sound_store (snd x) \<and> mem_le db (snd x)"])
    fix x s t assume "sound_store (snd s) \<and> mem_le db (snd s)" "enqueue_one v ik x s = Inr t"
    then show "sound_store (snd t) \<and> mem_le db (snd t)"
      using enqueue_one_sound [of "snd s" v ik x "fst s" "fst t" "snd t"] mem_le_trans by auto
  qed (simp add: assms(1))
  then show ?thesis by simp
qed

text \<open>The transactions of the pipeline, in any order and by any number of workers: intake of proposals, claiming, and
  the step of a worker that holds a lease the store has issued.\<close>

inductive mem_step :: "'x verify_db_scheme shared_db \<Rightarrow> 'x verify_db_scheme shared_db \<Rightarrow> bool" where
  intake: "enqueue_many v ik raws (sd_payload s) = Inr (r, db) \<Longrightarrow> mem_step s (s\<lparr>sd_payload := db\<rparr>)"
| claiming: "claim_batch cfg now fresh limit (sd_payload s) = Inr (claimed, n, db) \<Longrightarrow> mem_step s (s\<lparr>sd_payload := db\<rparr>)"
| working: "issued cl (sd_payload (wk_db w)) \<Longrightarrow> \<not> is_final (wk_phase w) \<Longrightarrow> \<not> on_record (wk_db w) (pe_operation_id (we_publish e))
    \<Longrightarrow> mem_step (wk_db w) (wk_db (worker_step cfg e cl w))"

inductive_cases mem_step_cases: "mem_step s t"

interpretation mh: guarded_steps mem_step "\<lambda>s. sound_store (sd_payload s)" "\<lambda>s t. mem_le (sd_payload s) (sd_payload t)"
proof unfold_locales
  have both: "sound_store (sd_payload t) \<and> mem_le (sd_payload s) (sd_payload t)" if "mem_step s t" "sound_store (sd_payload s)"
    for s t :: "'x verify_db_scheme shared_db"
    using that(1)
  proof (cases rule: mem_step.cases)
    case (intake v ik raws r db)
    then show ?thesis using enqueue_many_sound [OF that(2)] by simp
  next
    case (claiming cfg now fresh limit claimed n db)
    then show ?thesis using claim_batch_sound [OF that(2) claiming(2)] by (simp add: progress_def)
  next
    case (working cl w e cfg)
    then show ?thesis using worker_step_accounted [OF that(2), of w cl e cfg]
      by (simp add: accounted_def sound_store_def progress_def)
  qed
  show "sound_store (sd_payload t)" "mem_le (sd_payload s) (sd_payload t)" if "mem_step s t" "sound_store (sd_payload s)"
    for s t :: "'x verify_db_scheme shared_db" using both [OF that] by simp_all
qed (auto intro: mem_le_trans)

lemma mem_history_progress:
  assumes "mem_step\<^sup>*\<^sup>* s t" "sound_store (sd_payload s)"
  shows "sound_store (sd_payload t)" "progress (sd_payload s) (sd_payload t)"
  using mh.history [OF assms] by (simp_all add: progress_def sound_store_def)

section \<open>Handing back cannot fail\<close>

lemma unique_index_Cons:
  "unique_index key (x # rows) \<longleftrightarrow> unique_index key rows \<and> (key x \<noteq> None \<longrightarrow> key x \<notin> key ` set rows)"
  by (auto simp: unique_index_def)

lemma unique_index_map:
  assumes "unique_index key rows" "\<And>x. x \<in> set rows \<Longrightarrow> key (f x) = key x \<or> key (f x) = None"
  shows "unique_index key (map f rows)"
  using assms
proof (induction rows)
  case (Cons x rows)
  have "key (f x) \<notin> key ` set (map f rows)" if "key (f x) \<noteq> None"
  proof
    assume "key (f x) \<in> key ` set (map f rows)"
    then obtain y where y: "y \<in> set rows" "key (f x) = key (f y)" by auto
    then have "key x = key y" using that Cons.prems(2) [of x] Cons.prems(2) [of y] by auto
    then show False using y that Cons.prems(1) Cons.prems(2) [of x] by (auto simp: unique_index_Cons)
  qed
  then show ?case using Cons by (simp add: unique_index_Cons)
qed (simp add: unique_index_def)

definition hands_off :: "(candidate_row \<Rightarrow> candidate_row) \<Rightarrow> bool" where
  "hands_off f = (\<forall>x. cd_id (f x) = cd_id x \<and> cd_evidence_set_hash (f x) = cd_evidence_set_hash x \<and> cd_content (f x) = cd_content x
     \<and> cd_fingerprint (f x) = cd_fingerprint x \<and> (cd_status (f x) \<in> reconcilable \<longrightarrow> cd_status x \<in> reconcilable))"

lemma db_ok_hands_off:
  assumes "db_ok db" "md_memories db' = md_memories db" "md_candidates db' = map f (md_candidates db)" "hands_off f"
  shows "db_ok db'"
proof -
  have "map cd_id (md_candidates db') = map cd_id (md_candidates db)" using assms(3,4) by (simp add: hands_off_def)
  then have "keyed cd_id (md_candidates db') = keyed cd_id (md_candidates db)" by (simp only: keyed_def)
  then have k: "keyed cd_id (md_candidates db')" using assms(1) by (simp add: db_ok_def candidates_ok_def)
  have u: "unique_index open_evidence_hash (md_candidates db')" unfolding assms(3)
    by (rule unique_index_map) (use assms(1,4) in \<open>auto simp: db_ok_def candidates_ok_def hands_off_def open_evidence_hash_def\<close>)
  show ?thesis using assms k u by (auto simp: db_ok_def candidates_ok_def candidate_row_ok_def hands_off_def)
qed

lemma write_failed_total: "\<exists>db'. write_and_settle now code (close_candidate Failed now j) c db = Inr db'"
  by (simp add: write_and_settle_def settle_explicit_obligation_def close_candidate_def Let_def split: option.splits)

lemma requeue_or_fail_total:
  assumes "db_ok db" "md_memories db1 = md_memories db" "md_candidates db1 = map f (md_candidates db)" "hands_off f"
    "get_cand (cd_id c) db1 = Some c" "cd_status c = Leased" "keyed cd_id (md_candidates db1)"
  shows "\<exists>db'. requeue_or_fail cfg now code c db1 = Inr db' \<and> db_ok db'"
proof -
  have ok1: "db_ok db1" by (rule db_ok_hands_off [OF assms(1-4)])
  have one: "x = c" if "x \<in> set (md_candidates db1)" "cd_id x = cd_id c" for x
    using keyed_inj [OF assms(7) that(1) _ that(2)] get_cand_in [OF assms(5)] by simp
  have fin: "db_ok db'" if "md_memories db' = md_memories db1" "md_candidates db' = tset cd_id (cd_id c) g (md_candidates db1)"
      "\<And>x. cd_status x = Leased \<Longrightarrow> cd_id (g x) = cd_id x \<and> cd_evidence_set_hash (g x) = cd_evidence_set_hash x \<and> cd_content (g x) = cd_content x
        \<and> cd_fingerprint (g x) = cd_fingerprint x" for db' g
  proof -
    let ?g = "\<lambda>x. if cd_id x = cd_id c \<and> cd_status x = Leased then g x else x"
    have "md_candidates db' = map ?g (md_candidates db1)" using that(2) one assms(6) by (auto simp: tset_def)
    then show ?thesis by (rule db_ok_hands_off [OF ok1 that(1)]) (use that(3) in \<open>auto simp: hands_off_def reconcilable_def\<close>)
  qed
  show ?thesis
  proof (cases "lc_max_attempts cfg \<le> cd_attempt_count c")
    case True
    then obtain code' j where eq: "requeue_or_fail cfg now code c db1 = write_and_settle now code' (close_candidate Failed now j) c db1"
      unfolding requeue_or_fail_def Let_def by (simp only: if_True)
    obtain db' where w: "write_and_settle now code' (close_candidate Failed now j) c db1 = Inr db'" using write_failed_total by blast
    show ?thesis unfolding eq w using write_and_settle_frames [OF w] by (auto simp: close_candidate_def intro!: fin)
  next
    case False
    then show ?thesis by (auto simp: requeue_or_fail_def Let_def intro!: fin)
  qed
qed

lemma release_failed_total:
  assumes "sound_store db" "issued cl db"
  shows "\<exists>db'. release_failed cfg now cl code db = Inr db'"
proof (cases "owned_attempt cl db")
  case None
  then show ?thesis by (simp add: release_failed_def)
next
  case (Some ca)
  obtain c a where ca: "ca = (c, a)" by force
  have inv: "lease_inv db" "db_ok db" using assms(1) by (simp_all add: sound_store_def)
  note o = owned_open [OF inv(1) assms(2) Some [unfolded ca]] and v = owned_version [OF Some [unfolded ca]]
  let ?h = "\<lambda>x. (commit_attempt ''failed'' now [(''result'', JStr ''failed''), (''code'', JStr code)] x)\<lparr>ap_error := Some code\<rparr>"
  let ?db = "upd_attempt (ap_id a) (\<lambda>x. x\<lparr>ap_candidate_state_version := cd_state_version c + 1\<rparr>)
      (upd_cand (cd_id c) (\<lambda>x. x\<lparr>cd_state_version := cd_state_version c + 1\<rparr>) db)"
  have "get_cand (cd_id c) (upd_attempt (ap_id a) ?h ?db) = Some (bumped c)"
    using get_cand_tset [of "upd_attempt (ap_id a) ?h ?db" "cd_id c" "\<lambda>x. x\<lparr>cd_state_version := cd_state_version c + 1\<rparr>" db] o(3)
    by (simp add: bumped_def)
  then have "\<exists>db'. requeue_or_fail cfg now (Some code) (bumped c) (upd_attempt (ap_id a) ?h ?db) = Inr db' \<and> db_ok db'"
    by (intro requeue_or_fail_total [OF inv(2), where f = "\<lambda>x. if cd_id x = cd_id c then x\<lparr>cd_state_version := cd_state_version c + 1\<rparr> else x"])
       (use o(4) lease_invD(1) [OF inv(1)] in \<open>auto simp: hands_off_def bumped_def tset_def [symmetric]\<close>)
  then show ?thesis using v by (auto simp: release_failed_def Some ca advance_candidate_state_def)
qed

section \<open>The statistics of a run\<close>

definition tallied :: "run_result \<Rightarrow> nat" where
  "tallied rs = rs_reconciled rs + rs_retained_short_term rs + rs_discarded rs + rs_blocked rs + rs_source_conflicts rs
     + rs_lease_conflicts rs + rs_failures rs"

text \<open>The counters at a phase, against the counters \<open>t\<close> and \<open>v\<close> with which the claim began.\<close>

fun books :: "nat \<Rightarrow> nat \<Rightarrow> phase \<Rightarrow> run_result \<Rightarrow> bool" where
  "books t v Finished rs = (tallied rs = t + 1 \<and> v \<le> rs_version_conflicts rs \<or> tallied rs = t \<and> v + 3 \<le> rs_version_conflicts rs)"
| "books t v (Failing _) rs = (tallied rs = t + 1 \<and> v \<le> rs_version_conflicts rs)"
| "books t v Unknown_result rs = (tallied rs = t + 1 \<and> v \<le> rs_version_conflicts rs)"
| "books t v (Requeueing _ n) rs = (tallied rs = t \<and> rs_version_conflicts rs = v \<and> 3 \<le> n)"
| "books t v (Crashed _) rs = False"
| "books t v _ rs = (tallied rs = t \<and> rs_version_conflicts rs = v)"

definition clean_books :: "nat \<Rightarrow> nat \<Rightarrow> run_result \<Rightarrow> bool" where
  "clean_books t v rs = (tallied rs = t \<and> rs_version_conflicts rs = v)"

lemma books_failing: "clean_books t v (wk_stats w) \<Longrightarrow> books t v (wk_phase (failing e w)) (wk_stats (failing e w))"
  by (simp add: clean_books_def failing_def tallied_def)

lemma books_attempt:
  assumes "clean_books t v (wk_stats w)" "\<And>x. books t v (wk_phase (k x w)) (wk_stats (k x w))"
  shows "books t v (wk_phase (attempt_stage r k w)) (wk_stats (attempt_stage r k w))"
  using assms(1) [THEN books_failing] assms(2) by (cases r) (simp_all only: attempt_stage_def sum.case)

lemma books_row:
  assumes "clean_books t v (wk_stats w)"
    "\<And>x w'. wk_stats w' = wk_stats w \<Longrightarrow> books t v (wk_phase (k x w')) (wk_stats (k x w'))"
  shows "books t v (wk_phase (transact_row r k w)) (wk_stats (transact_row r k w))"
proof (cases r)
  case (Inl e)
  then show ?thesis using books_failing [OF assms(1)] by (simp add: transact_row_def)
next
  case (Inr x)
  then show ?thesis using assms(2) by (cases x) (simp add: transact_row_def)
qed

lemma books_transact:
  assumes "clean_books t v (wk_stats w)" "\<And>w'. wk_stats w' = wk_stats w \<Longrightarrow> books t v (wk_phase (k w')) (wk_stats (k w'))"
  shows "books t v (wk_phase (transact r k w)) (wk_stats (transact r k w))"
  using assms(2) books_failing [OF assms(1)] by (cases r) (simp_all add: transact_def)

lemma count_bucket_tallied:
  "tallied (count_bucket b rs) = (if b = B_version_conflict then tallied rs else tallied rs + 1)"
  "rs_version_conflicts (count_bucket b rs) = rs_version_conflicts rs"
  by (cases b; simp add: tallied_def)+

lemma tallied_frames [simp]:
  "tallied (rs\<lparr>rs_version_conflicts := n\<rparr>) = tallied rs" "tallied (rs\<lparr>rs_contract_notes := c\<rparr>) = tallied rs"
  "tallied (rs\<lparr>rs_discarded := Suc (rs_discarded rs)\<rparr>) = Suc (tallied rs)"
  by (simp_all add: tallied_def)

lemma books_report:
  assumes "clean_books t v (wk_stats w)" "result = ''version_conflict'' \<longrightarrow> 3 \<le> n"
  shows "books t v (wk_phase (report result n w)) (wk_stats (report result n w))"
proof (cases "outcome_of result")
  case None
  then show ?thesis using assms(1) by (simp add: report_def Let_def clean_books_def tallied_def)
next
  case (Some oc)
  have "outcome_value oc = result" using Some by (simp add: outcome_of_def find_Some_iff) blast
  then have "outcome_bucket oc = B_version_conflict \<longleftrightarrow> result = ''version_conflict''" by (cases oc) auto
  then show ?thesis using Some assms by (simp add: report_def Let_def clean_books_def count_bucket_tallied)
qed

lemma note_books: "clean_books t v (note_contract st ns rs) = clean_books t v rs"
  by (simp add: note_contract_def clean_books_def)

lemma independent_read_books: "independent_read cfg a rs = (rs', r) \<Longrightarrow> clean_books t v rs' = clean_books t v rs"
  by (auto simp: independent_read_def note_books split: sum.splits prod.splits)

lemma compare_stage_books: "compare_stage cfg a rs = (rs', r) \<Longrightarrow> clean_books t v rs' = clean_books t v rs"
  by (auto simp: compare_stage_def note_books split: sum.splits prod.splits)

lemma books_clean: "\<not> is_final p \<Longrightarrow> p \<noteq> Unknown_result \<Longrightarrow> \<forall>c. p \<noteq> Failing c \<Longrightarrow> books t v p rs \<Longrightarrow> clean_books t v rs"
  by (cases p) (simp_all add: clean_books_def is_final_def)

lemma after_verdict_books: "books t v (after_verdict ls rg cr cv) rs = clean_books t v rs"
  by (simp add: after_verdict_def clean_books_def split: option.splits)

lemma books_published:
  assumes "clean_books t v (wk_stats w)" "sound_store (sd_payload (wk_db w))" "issued cl (sd_payload (wk_db w))"
    "\<not> on_record (wk_db w) (pe_operation_id e)"
  shows "books t v (wk_phase (published ls rg cr cv n (publish e cl sn d (wk_db w)) w)) (wk_stats (published ls rg cr cv n (publish e cl sn d (wk_db w)) w))"
proof (cases "publish e cl sn d (wk_db w)")
  case (Pair res s')
  show ?thesis
  proof (cases res)
    case (Inl err)
    then show ?thesis using Pair books_failing [OF assms(1)] by (cases err) (simp_all add: published_def)
  next
    case (Inr rc)
    from assms(2-4) Pair [unfolded Inr] show ?thesis
    proof (cases rule: publish_ran)
      case conflict
      then show ?thesis using Pair Inr assms(1) by (simp add: published_def Let_def clean_books_def)
    next
      case (ran out)
      have "result_text (r_result rc) \<noteq> ''version_conflict''"
        using ran(6) by (auto simp: known_result_def outcome_of_def all_outcomes_def)
      then have "books t v (wk_phase (report (result_text (r_result rc)) n (w\<lparr>wk_db := s'\<rparr>))) (wk_stats (report (result_text (r_result rc)) n (w\<lparr>wk_db := s'\<rparr>)))"
        using assms(1) by (intro books_report) simp_all
      then show ?thesis using Pair Inr assms(1) ran(1)
        by (simp add: published_def Let_def result_text_def clean_books_def)
    qed
  qed
qed

lemma worker_step_books:
  assumes s: "sound_store (sd_payload (wk_db w))" "issued cl (sd_payload (wk_db w))" "\<not> on_record (wk_db w) (pe_operation_id (we_publish e))"
    and phase: "\<not> is_final (wk_phase w)" and b: "books t v (wk_phase w) (wk_stats w)"
  shows "books t v (wk_phase (worker_step cfg e cl w)) (wk_stats (worker_step cfg e cl w))"
proof -
  note total = release_failed_total [OF s(1,2), of "wc_leases cfg" "we_now e"]
  have cl: "clean_books t v (wk_stats w)" if "wk_phase w \<noteq> Unknown_result" "\<forall>c. wk_phase w \<noteq> Failing c"
    using books_clean [OF phase that b] .
  show ?thesis
  proof (cases "wk_phase w")
    case Loading
    then show ?thesis using cl by (auto simp: worker_step_def Let_def clean_books_def intro!: books_attempt)
  next
    case (Reusing ls)
    then show ?thesis using cl
      by (auto simp: worker_step_def Let_def after_verdict_books split: option.splits) (simp_all add: clean_books_def)
  next
    case (Reading ls)
    obtain rs r where r: "independent_read cfg (we_answer e) (wk_stats w) = (rs, r)" by force
    have c: "clean_books t v rs" using cl independent_read_books [OF r] Reading by simp
    then show ?thesis using Reading
      by (simp add: worker_step_def Let_def r) (intro books_attempt books_row, simp_all add: clean_books_def)
  next
    case (Comparing ls rr rg)
    obtain rs r where r: "compare_stage cfg (we_answer e) (wk_stats w) = (rs, r)" by force
    have c: "clean_books t v rs" using cl compare_stage_books [OF r] Comparing by simp
    then show ?thesis using Comparing
      by (simp add: worker_step_def Let_def r) (intro books_attempt books_row, simp_all add: after_verdict_books)
  next
    case (Rejecting code)
    then show ?thesis using cl by (auto simp: worker_step_def Let_def discarded_claim_def clean_books_def intro!: books_transact)
  next
    case (Refreshing ls rg cr cv n)
    then show ?thesis using cl by (auto simp: worker_step_def Let_def clean_books_def intro!: books_attempt)
  next
    case (Reconciling ls rg cr cv n)
    then show ?thesis using cl
      by (simp add: worker_step_def Let_def) (intro books_attempt books_row, simp_all add: clean_books_def)
  next
    case (Policing ls rg cr cv n r re)
    obtain pol reason where pr: "owner_policy (ls_context ls) rg cv r = (pol, reason)" by force
    show ?thesis using cl Policing
      by (simp add: worker_step_def Let_def pr) (intro books_row, simp, cases "pol = Block_policy", simp add: clean_books_def,
        simp, intro books_attempt, simp_all add: clean_books_def)
  next
    case (Blocking code n)
    then show ?thesis using cl by (auto simp: worker_step_def Let_def intro!: books_transact books_report)
  next
    case (Publishing ls rg cr cv n sn d)
    then show ?thesis using cl books_published [OF _ s, of t v ls rg cr cv n sn d]
      by (simp add: worker_step_def Let_def) (simp add: clean_books_def)
  next
    case (Releasing n)
    then show ?thesis using cl by (auto simp: worker_step_def Let_def intro!: books_transact books_report)
  next
    case (Requeueing ls n)
    then show ?thesis using cl b by (auto simp: worker_step_def Let_def intro!: books_transact books_report)
  next
    case Unknown_result
    then show ?thesis using total [of "''unknown_publish_result''"] b by (auto simp: worker_step_def Let_def transact_def)
  next
    case (Failing code)
    then show ?thesis using total [of code] b by (auto simp: worker_step_def Let_def)
  qed (use phase in \<open>simp_all add: is_final_def\<close>)
qed

lemma run_claim_accounted:
  "run_claim cfg env others cl k w = (k', w') \<Longrightarrow> fair_world env others \<Longrightarrow> sound_store (sd_payload (wk_db w)) \<Longrightarrow>
   issued cl (sd_payload (wk_db w)) \<Longrightarrow> unused env k (wk_db w) \<Longrightarrow> \<not> is_final (wk_phase w) \<Longrightarrow>
   books t v (wk_phase w) (wk_stats w) \<Longrightarrow>
   accounted cl (sd_payload (wk_db w)) w' \<and> unused env k' (wk_db w') \<and> books t v (wk_phase w') (wk_stats w')"
proof (induction cfg env others cl k w rule: run_claim.induct)
  case (1 cfg env others cl k w)
  let ?w = "w\<lparr>wk_db := others k (wk_db w)\<rparr>"
  let ?nw = "worker_step cfg (env k) cl ?w"
  let ?pre = "sd_payload (wk_db w)" and ?mid = "sd_payload (others k (wk_db w))" and ?post = "sd_payload (wk_db ?nw)"
  have run: "run_claim cfg env others cl (Suc k) ?nw = (k', w')" using 1(2,7) by (simp add: run_claim.simps [of _ _ _ _ _ w])
  have o: "sound_store ?mid" "progress ?pre ?mid" "unused env k (others k (wk_db w))" and inj: "inj (\<lambda>j. pe_operation_id (we_publish (env j)))"
    using 1(3,4,6) by (auto simp: fair_world_def)
  have iss: "issued cl ?mid" using issued_mono [OF _ 1(5)] o(2) by (simp add: progress_def)
  have acc: "accounted cl ?mid ?nw"
    by (rule worker_step_accounted [OF o(1)]) (use o(3) iss 1(7) in \<open>simp_all add: unused_def\<close>)
  have un: "unused env (Suc k) (wk_db ?nw)" by (rule unused_step [OF inj]) (simp add: o(3))
  have bk: "books t v (wk_phase ?nw) (wk_stats ?nw)"
    by (rule worker_step_books) (use o(1,3) iss 1(7,8) in \<open>simp_all add: unused_def\<close>)
  have p: "progress ?pre ?post" using progress_trans [OF o(2)] acc by (simp add: accounted_def)
  show ?case
  proof (cases "is_final (wk_phase ?nw)")
    case True
    then have "w' = ?nw" "k' = Suc k" using run by (simp_all add: run_claim.simps [of _ _ _ _ _ ?nw])
    then show ?thesis using acc p un bk by (simp add: accounted_def)
  next
    case False
    have "accounted cl ?post w' \<and> unused env k' (wk_db w') \<and> books t v (wk_phase w') (wk_stats w')"
      by (rule 1(1) [OF 1(7) run 1(3) _ _ un False bk])
         (use acc iss issued_mono in \<open>auto simp: accounted_def sound_store_def progress_def\<close>)
    then show ?thesis using progress_trans [OF p] by (simp add: accounted_def)
  qed
qed


text \<open>A whole batch: every claim is closed, and the counters account for each of them.\<close>

lemma run_claims_accounted:
  assumes "fair_world env others" "sound_store (sd_payload s)" "\<forall>cl \<in> set cls. issued cl (sd_payload s)" "unused env k s"
  shows "\<exists>rs' s'. run_claims cfg env others cls k rs s = (Inr rs', s') \<and> sound_store (sd_payload s') \<and> progress (sd_payload s) (sd_payload s')
    \<and> (\<forall>cl \<in> set cls. claim_closed cl (sd_payload s')) \<and> tallied rs \<le> tallied rs' \<and> tallied rs' \<le> tallied rs + length cls
    \<and> rs_version_conflicts rs + 3 * (tallied rs + length cls - tallied rs') \<le> rs_version_conflicts rs'"
  using assms(2-4)
proof (induction cls arbitrary: k rs s)
  case Nil
  then show ?case using progress_refl by (auto simp: sound_store_def)
next
  case (Cons cl cls)
  let ?w = "\<lparr>wk_phase = Loading, wk_stats = rs, wk_db = s\<rparr>"
  obtain k' w where r: "run_claim cfg env others cl k ?w = (k', w)" by force
  have iss: "issued cl (sd_payload s)" using Cons.prems(2) by simp
  have a: "accounted cl (sd_payload s) w" "unused env k' (wk_db w)" "books (tallied rs) (rs_version_conflicts rs) (wk_phase w) (wk_stats w)"
    using run_claim_accounted [OF r assms(1), of "tallied rs" "rs_version_conflicts rs"] Cons.prems iss by (simp_all add: is_final_def)
  have fin: "wk_phase w = Finished"
    using run_claim_bound [OF r] a(3) by (cases "wk_phase w") (simp_all add: is_final_def)
  let ?s = "wk_db w"
  have s: "sound_store (sd_payload ?s)" "progress (sd_payload s) (sd_payload ?s)" "claim_closed cl (sd_payload ?s)"
    using a(1) fin by (auto simp: accounted_def sound_store_def progress_def)
  have iss': "\<forall>x \<in> set cls. issued x (sd_payload ?s)" using Cons.prems(2) s(2) issued_mono by (auto simp: progress_def)
  obtain rs' s' where IH: "run_claims cfg env others cls k' (wk_stats w) ?s = (Inr rs', s')" "sound_store (sd_payload s')"
    "progress (sd_payload ?s) (sd_payload s')" "\<forall>cl \<in> set cls. claim_closed cl (sd_payload s')" "tallied (wk_stats w) \<le> tallied rs'"
    "tallied rs' \<le> tallied (wk_stats w) + length cls"
    "rs_version_conflicts (wk_stats w) + 3 * (tallied (wk_stats w) + length cls - tallied rs') \<le> rs_version_conflicts rs'"
    using Cons.IH [OF s(1) iss' a(2), of "wk_stats w"] by blast
  have "claim_closed cl (sd_payload s')"
    by (rule closed_mono [OF _ IH(3) s(3)]) (use s(1) in \<open>simp add: sound_store_def\<close>)
  moreover have "run_claims cfg env others (cl # cls) k rs s = (Inr rs', s')" using r fin IH(1) by simp
  moreover have "tallied rs \<le> tallied rs'" "tallied rs' \<le> tallied rs + length (cl # cls)"
    "rs_version_conflicts rs + 3 * (tallied rs + length (cl # cls) - tallied rs') \<le> rs_version_conflicts rs'"
    using a(3) fin IH(5-7) by auto
  ultimately show ?case using IH(2,4) progress_trans [OF s(2) IH(3)] by auto
qed

section \<open>A claim that is closed\<close>

lemma publish_stale:
  assumes "claim_closed cl (sd_payload s)"
  shows "sd_payload (snd (publish e cl sn d s)) = sd_payload s"
proof -
  obtain a where a: "tget ap_id (cl_attempt_id cl) (md_attempts (sd_payload s)) = Some a" "ap_completed_at a \<noteq> None"
    using assms by (auto simp: claim_closed_def split: option.splits)
  have m: "mutate_and_settle e cl sn d (sd_payload s) v = Inr (p, out) \<Longrightarrow> p = sd_payload s" for v p out
    unfolding mutate_and_settle_Inr mutate_stale [OF a]
    by (auto simp: settle_outcome_def lease_conflict_def outcome_of_def all_outcomes_def)
  obtain res s' where r: "publish e cl sn d s = (res, s')" by force
  from r [unfolded publish_def] have "sd_payload s' = sd_payload s"
    by (cases rule: writer_payload) (auto dest: m)
  then show ?thesis using r by simp
qed

lemma memory_kept_owner:
  assumes "memory_kept sn d m m'" "owner_directed m"
  shows "mm_content m' = mm_content m \<and> (mm_status m' = mm_status m
    \<or> (mm_status m' = SUPERSEDED \<and> explicit_correction_of_target sn d \<and> rd_target_memory_id d = Some (mm_id m)))"
  using assms unfolding memory_kept_def superseded_from_def grounded_from_def by auto

section \<open>Samples\<close>

definition sample_row :: candidate_row where
  "sample_row = \<lparr>cd_id = ''c1'', cd_status = Pending, cd_kind = ''fact'', cd_content = Some ''a'', cd_scope = ''chat'',
     cd_scope_key = Some ''chat:tr'', cd_confidence = 1, cd_durability = ''long_term'', cd_subject = None, cd_namespace = None,
     cd_fingerprint = Some ''f'', cd_evidence_set_hash = Some ''h'', cd_proposer_model = None, cd_intake_path = ''foreground'',
     cd_origin = ''conversation'', cd_temporal_horizon_at = None, cd_state_version = 0, cd_invalidated_at = None, cd_lease_token = None,
     cd_leased_until = None, cd_attempt_count = 0, cd_review_after = None, cd_expires_at = None, cd_source_transcript_id = ''tr'',
     cd_source_turn_id = ''t1'', cd_source_provider_evidence_id = None, cd_evidence = None, cd_invalidation_operation_id = None, cd_decision = [], cd_created_at = 0, cd_processed_at = None\<rparr>"

definition sample_verify :: "verify_db shared_db" where
  "sample_verify = \<lparr>sd_ops = [], sd_versions = [], sd_payload =
     \<lparr>md_turns = [\<lparr>tu_id = ''t1'', tu_transcript_id = ''tr'', tu_actor = ''owner'', tu_sequence = 1,
         tu_blocks = [JObj [(''type'', JStr ''text''), (''text'', JStr ''a'')]], tu_created_at = 0, tu_deleted_at = None,
       tu_deletion_operation_id = None\<rparr>],
      md_transcripts = [\<lparr>tr_id = ''tr'', tr_kind = ''owner'', tr_retention_policy = ''standard'', tr_title = None, tr_closed_at = None, tr_context_summary = None, tr_summarized_through_turn_id = None,
       tr_active_task_state = [], tr_active_task_revision = 0, tr_next_turn_sequence = 1, tr_content_revision = 1, tr_created_at = 0, tr_updated_at = 0\<rparr>], md_candidates = [sample_row],
      md_evidence = [\<lparr>ce_candidate_id = ''c1'', ce_turn_id = ''t1'', ce_principal = ''owner'', ce_ordinal = 0, ce_span_ref = []\<rparr>],
      md_attempts = [], md_memories = [], md_commands = [], md_obligations = [], md_conflicts = [], md_provenance = [],
      vd_readings = [], vd_comparisons = [], vd_records = [], vd_policies = []\<rparr>\<rparr>"

definition sample_config :: worker_config where
  "sample_config = \<lparr>wc_leases = lease_repository 180 3, wc_sha = (\<lambda>s. CHR ''#'' # s), wc_parse_iso = (\<lambda>_. None), wc_model = None,
     wc_reading = (\<lambda>_. Inr \<lparr>rg_extracted_claims = [''a b''], rg_category = None, rg_scope = None, rg_durability = Some ''long_term'',
        rg_claim_principal = Some ''owner'', rg_event_valid_from = None, rg_event_valid_to = None\<rparr>),
     wc_comparison = (\<lambda>_. Inr \<lparr>cv_verdict = ''agree'', cv_normalized_content = Some ''a b'', cv_category = None, cv_scope = None, cv_durability = None\<rparr>),
     wc_relation = (\<lambda>_. Inr \<lparr>rl_relation = R_new, rl_target_memory_id = None, rl_replacement_content = None, rl_temporal_guard = None\<rparr>)\<rparr>"

definition sample_env :: "nat \<Rightarrow> worker_env" where
  "sample_env k = \<lparr>we_now = 10, we_fresh = CHR ''r'' # replicate k CHR ''r'', we_answer = Some (JObj []),
     we_publish = \<lparr>pe_sha = (\<lambda>s. CHR ''#'' # s), pe_now = 10, pe_operation_id = CHR ''o'' # replicate k CHR ''o'', pe_memory_id = ''m1'',
       pe_obligation_id = ''b1'', pe_conflict_id = ''f1'', pe_review_hours = 24, pe_expiry_days = 14\<rparr>, we_serialization_failure = False\<rparr>"

definition sample_claims :: "candidate_lease list \<times> nat \<times> verify_db" where
  "sample_claims = projr (claim_batch (lease_repository 180 3) 5 (\<lambda>i. (CHR ''a'' # i, CHR ''k'' # i)) 8 (sd_payload sample_verify))"

lemma sample_sound: "sound_store (sd_payload sample_verify)"
  by (simp add: sound_store_def lease_inv_def open_attempts_def get_cand_def sample_verify_def sample_row_def keyed_def leased_ok_def
      db_ok_def memories_ok_def candidates_ok_def unique_index_def candidate_row_ok_def)

lemma sample_batch:
  "claim_batch (lease_repository 180 3) 5 (\<lambda>i. (CHR ''a'' # i, CHR ''k'' # i)) 8 (sd_payload sample_verify)
   = Inr (fst sample_claims, fst (snd sample_claims), snd (snd sample_claims))"
proof -
  have "\<not> isl (claim_batch (lease_repository 180 3) 5 (\<lambda>i. (CHR ''a'' # i, CHR ''k'' # i)) 8 (sd_payload sample_verify))" by code_simp
  from sum.collapse(2) [OF this] show ?thesis by (simp only: sample_claims_def prod.collapse)
qed

lemma sample_lease: "fst sample_claims = [\<lparr>cl_candidate_id = ''c1'', cl_attempt_id = ''ac1'', cl_lease_token = ''kc1'', cl_attempt_number = 1\<rparr>]"
  by code_simp

lemma sample_claimed: "sound_store (snd (snd sample_claims))" "issued \<lparr>cl_candidate_id = ''c1'', cl_attempt_id = ''ac1'', cl_lease_token = ''kc1'', cl_attempt_number = 1\<rparr> (snd (snd sample_claims))"
proof -
  have inv: "lease_inv (sd_payload sample_verify)" using sample_sound by (simp add: sound_store_def)
  show "sound_store (snd (snd sample_claims))"
    by (rule claim_batch_sound(1) [OF sample_sound sample_batch])
  show "issued \<lparr>cl_candidate_id = ''c1'', cl_attempt_id = ''ac1'', cl_lease_token = ''kc1'', cl_attempt_number = 1\<rparr> (snd (snd sample_claims))"
    using claim_batch_held(3) [OF inv sample_batch] sample_lease held_issued by simp
qed

lemma sample_world: "fair_world sample_env (\<lambda>k s. s)" "unused sample_env k sample_verify"
proof -
  have "inj (\<lambda>j. pe_operation_id (we_publish (sample_env j)))"
    by (rule injI) (auto simp: sample_env_def dest: arg_cong [of _ _ length])
  then show "fair_world sample_env (\<lambda>k s. s)" by (auto simp: fair_world_def sound_store_def progress_refl)
  show "unused sample_env k sample_verify" by (simp add: unused_def on_record_def sample_verify_def)
qed

section \<open>Properties\<close>

text \<open>\<^verbatim>\<open>claim_batch\<close> hands out at most \<^verbatim>\<open>min(limit, 32)\<close> leases, never two of the same candidate, and each is
  a lease its worker owns for the whole configured lease time; the store stays sound: at most one open attempt per
  candidate, and an open attempt always holds its candidate's lease.\<close>

theorem claim_batch_exclusive:
  assumes "sound_store db" "claim_batch cfg now fresh limit db = Inr (claimed, n, db')"
  shows "length claimed \<le> nat (clamp 1 32 limit) \<and> distinct (map cl_candidate_id claimed) \<and> sound_store db'
    \<and> (\<forall>cl \<in> set claimed. \<exists>c a. owned_attempt cl db' = Some (c, a) \<and> lease_of cl a
        \<and> cd_leased_until c = Some (now + seconds (lc_lease_seconds cfg)))"
proof -
  have inv: "lease_inv db" using assms(1) by (simp add: sound_store_def)
  note h = claim_batch_held [OF inv assms(2)]
  show ?thesis using h claim_batch_sound(1) [OF assms] unfolding held_def by blast
qed

theorem claim_batch_exclusive_witness:
  "length (fst sample_claims) \<le> 8 \<and> sound_store (snd (snd sample_claims))
   \<and> (\<exists>c a. owned_attempt \<lparr>cl_candidate_id = ''c1'', cl_attempt_id = ''ac1'', cl_lease_token = ''kc1'', cl_attempt_number = 1\<rparr>
        (snd (snd sample_claims)) = Some (c, a))"
  using claim_batch_exclusive [OF sample_sound sample_batch] sample_lease by (auto simp: clamp_def)

text \<open>C19: the reconciliation worker ends: whatever the language model answers, whatever other processes do to the
  database in between and however often the publication is refused, it is done with a claim after at most twenty
  transactions.\<close>

theorem worker_terminates:
  "\<exists>k' w'. run_claim cfg env others cl k \<lparr>wk_phase = Loading, wk_stats = rs, wk_db = s\<rparr> = (k', w')
     \<and> is_final (wk_phase w') \<and> k' \<le> k + 20"
proof -
  obtain k' w' where r: "run_claim cfg env others cl k \<lparr>wk_phase = Loading, wk_stats = rs, wk_db = s\<rparr> = (k', w')" by force
  show ?thesis using run_claim_bound [OF r] r by simp
qed






definition sample_cl :: candidate_lease where
  "sample_cl = \<lparr>cl_candidate_id = ''c1'', cl_attempt_id = ''ac1'', cl_lease_token = ''kc1'', cl_attempt_number = 1\<rparr>"

definition sample_released :: verify_db where
  "sample_released = projr (release_failed (lease_repository 180 3) 6 sample_cl ''snapshot_stale'' (snd (snd sample_claims)))"

lemma sample_release: "release_failed (lease_repository 180 3) 6 sample_cl ''snapshot_stale'' (snd (snd sample_claims)) = Inr sample_released"
proof -
  obtain db' where "release_failed (lease_repository 180 3) 6 sample_cl ''snapshot_stale'' (snd (snd sample_claims)) = Inr db'"
    using release_failed_total [OF sample_claimed] unfolding sample_cl_def by blast
  then show ?thesis by (simp add: sample_released_def)
qed

lemma sample_closed: "sound_store sample_released" "claim_closed sample_cl sample_released"
proof -
  have inv: "lease_inv (snd (snd sample_claims))" "db_ok (snd (snd sample_claims))" "issued sample_cl (snd (snd sample_claims))"
    using sample_claimed by (simp_all add: sound_store_def sample_cl_def)
  show "sound_store sample_released" "claim_closed sample_cl sample_released"
    using release_back(2) [OF inv(1,3) sample_release] transitions_flush(5) [OF inv(2) sample_release]
    by (simp_all add: handed_back_def sound_store_def progress_def)
qed


text \<open>C15: publication is the only way a worker changes memory, and it is fenced by the memory revision it evaluated: when any
  memory row changes, the revision was still the evaluated one and moves by one. The content of memory the owner directed is
  never rewritten, and its status changes only by an explicit correction of that very memory. A new memory is derived,
  verified, carries no content the owner has retired, and cites every evidence turn of its candidate.\<close>

theorem publication_safety:
  assumes "sound_store (sd_payload s)" "issued cl (sd_payload s)" "\<not> on_record s (pe_operation_id e)" "publish e cl sn d s = (Inr rc, s')"
  shows "(md_memories (sd_payload s') = md_memories (sd_payload s)
      \<or> (memory_revision s = es_memory_revision sn \<and> memory_revision s' = memory_revision s + 1))
    \<and> (\<forall>m \<in> set (md_memories (sd_payload s)). \<exists>m' \<in> set (md_memories (sd_payload s')). memory_kept sn d m m'
        \<and> (owner_directed m \<longrightarrow> mm_content m' = mm_content m \<and> (mm_status m' = mm_status m
            \<or> (mm_status m' = SUPERSEDED \<and> explicit_correction_of_target sn d \<and> rd_target_memory_id d = Some (mm_id m)))))
    \<and> (\<forall>m \<in> set (md_memories (sd_payload s')). mm_id m \<notin> mm_id ` set (md_memories (sd_payload s)) \<longrightarrow>
        new_memory_ok e sn (cl_candidate_id cl) (sd_payload s) (sd_payload s') m)"
  using assms
proof (cases rule: publish_ran)
  case conflict
  have "\<exists>m' \<in> set (md_memories (sd_payload s)). memory_kept sn d m m' \<and> (owner_directed m \<longrightarrow> mm_content m' = mm_content m \<and> mm_status m' = mm_status m)"
    if "m \<in> set (md_memories (sd_payload s))" for m using that by (intro bexI [of _ m]) simp_all
  then show ?thesis unfolding conflict(2) by blast
next
  case (ran out)
  note eff = ran(4) [unfolded memory_effect_def]
  have "md_memories (sd_payload s') = md_memories (sd_payload s) \<or> m_mutated out" using eff by blast
  moreover have "\<exists>m' \<in> set (md_memories (sd_payload s')). memory_kept sn d m m'
        \<and> (owner_directed m \<longrightarrow> mm_content m' = mm_content m \<and> (mm_status m' = mm_status m
            \<or> (mm_status m' = SUPERSEDED \<and> explicit_correction_of_target sn d \<and> rd_target_memory_id d = Some (mm_id m))))"
    if "m \<in> set (md_memories (sd_payload s))" for m using eff that memory_kept_owner by blast
  ultimately show ?thesis using eff ran(7,8) by auto
qed

definition sample_snapshot :: evaluation_snapshot where
  "sample_snapshot = \<lparr>es_source_transcript_id = ''tr'', es_source_turn_id = ''t1'', es_source_revision = 1, es_memory_revision = 0,
     es_publication_allowed = True, es_active_memory_ids = [], es_legacy_target_ids = [], es_reconciliation_record_id = Some ''r1'',
     es_explicit_operation = [], es_explicit_change_type = [], es_explicit_target_memory_id = None\<rparr>"

definition sample_decision :: reconciliation_decision where
  "sample_decision = \<lparr>rd_decision = D_create, rd_target_memory_id = None, rd_content = None, rd_reason = None, rd_event_valid_from = None,
     rd_event_valid_to = None, rd_memory_kind = None, rd_scope = None, rd_durability = None\<rparr>"

definition sample_leased :: "verify_db shared_db" where
  "sample_leased = sample_verify\<lparr>sd_payload := snd (snd sample_claims)\<rparr>"

definition sample_publish :: "(mem_error write_error + receipt) \<times> verify_db shared_db" where
  "sample_publish = publish (we_publish (sample_env 0)) sample_cl sample_snapshot sample_decision sample_leased"

lemma sample_published:
  "publish (we_publish (sample_env 0)) sample_cl sample_snapshot sample_decision sample_leased = (Inr (projr (fst sample_publish)), snd sample_publish)"
  "map mm_id (md_memories (sd_payload (snd sample_publish))) = [''m1'']"
proof -
  have "\<not> isl (fst sample_publish)" by code_simp
  from sum.collapse(2) [OF this] show "publish (we_publish (sample_env 0)) sample_cl sample_snapshot sample_decision sample_leased
     = (Inr (projr (fst sample_publish)), snd sample_publish)" by (simp only: sample_publish_def prod.collapse)
  show "map mm_id (md_memories (sd_payload (snd sample_publish))) = [''m1'']" by code_simp
qed

lemma sample_leased_sound: "sound_store (sd_payload sample_leased)" "issued sample_cl (sd_payload sample_leased)" "\<not> on_record sample_leased i"
  using sample_claimed by (simp_all add: sample_leased_def sample_cl_def sample_verify_def on_record_def)

theorem publication_safety_witness:
  "memory_revision (snd sample_publish) = memory_revision sample_leased + 1
   \<and> (\<exists>m \<in> set (md_memories (sd_payload (snd sample_publish))).
        new_memory_ok (we_publish (sample_env 0)) sample_snapshot ''c1'' (sd_payload sample_leased) (sd_payload (snd sample_publish)) m)"
proof -
  have none: "md_memories (sd_payload sample_leased) = []" by code_simp
  have filled: "md_memories (sd_payload (snd sample_publish)) \<noteq> []" using sample_published(2) by auto
  then obtain m where m: "m \<in> set (md_memories (sd_payload (snd sample_publish)))" using list.set_sel(1) by blast
  show ?thesis
    using publication_safety [OF sample_leased_sound sample_published(1)] none filled m by (auto simp: sample_cl_def)
qed

text \<open>C20: the publisher's answers stay inside the declared vocabulary: a publication that ran returns a result that
  \<^verbatim>\<open>PublicationOutcome\<close> parses, never \<^verbatim>\<open>version_conflict\<close> (which only the version fence reports), so the worker's
  \<^verbatim>\<open>unknown_publish_result\<close> branch is dead; and the vocabulary itself is read back exactly.\<close>

theorem publisher_vocabulary:
  assumes "sound_store (sd_payload s)" "issued cl (sd_payload s)" "\<not> on_record s (pe_operation_id e)" "publish e cl sn d s = (Inr rc, s')"
    "r_outcome rc \<noteq> ''version_conflict''"
  shows "\<exists>oc. outcome_of (result_text (r_result rc)) = Some oc \<and> oc \<noteq> O_version_conflict \<and> outcome_value oc = result_text (r_result rc)"
  using assms(1-4)
proof (cases rule: publish_ran)
  case (ran out)
  then obtain oc where "outcome_of (result_text (r_result rc)) = Some oc" "oc \<noteq> O_version_conflict" by (auto simp: known_result_def)
  moreover have "outcome_value oc = result_text (r_result rc)" using calculation(1) by (simp add: outcome_of_def find_Some_iff) blast
  ultimately show ?thesis by blast
qed (use assms(5) in simp)

theorem publisher_vocabulary_witness:
  "\<exists>oc. outcome_of (result_text (r_result (projr (fst sample_publish)))) = Some oc \<and> oc \<noteq> O_version_conflict"
proof -
  have "r_outcome (projr (fst sample_publish)) \<noteq> ''version_conflict''" by code_simp
  from publisher_vocabulary [OF sample_leased_sound sample_published(1) this] show ?thesis by blast
qed

end
