(* ===== verification/Memory_Owner_Properties.thy ===== *)
theory Memory_Owner_Properties
  imports Memory_Owner Memory_Pipeline_Properties
begin

text \<open>
  What the owner's memory commands guarantee: every begun command is settled, retirement can be
  undone and keeps the retired text out of the publisher, decisions act only on the state the owner
  was shown, and a deletion takes exactly the memories that rest on what was deleted.
\<close>

section \<open>Commands are settled\<close>

lemma run_eqs:
  "retire_mutation e raw content source = run_retire e (raw, content, source)"
  "delete_mutation e raw content scope source = run_delete e (raw, content, scope, source)"
  by (simp_all add: run_retire_def run_delete_def fun_eq_iff)

lemma settled_refused: "db_ok (sd_payload s) \<Longrightarrow> settled e s (Inl (Refused err), s)"
  by (simp add: settled_def)

lemma retire_settled: "fresh_command e s \<Longrightarrow> db_ok (sd_payload s) \<Longrightarrow> settled e s (retire e args s)"
  unfolding retire_def Let_def run_eqs by (auto simp: settled_refused retire.command_settled split: sum.splits)

lemma restore_settled: "fresh_command e s \<Longrightarrow> db_ok (sd_payload s) \<Longrightarrow> settled e s (restore e args s)"
  unfolding restore_def by (auto simp: settled_refused restore.command_settled split: sum.splits)

lemma delete_settled: "fresh_command e s \<Longrightarrow> db_ok (sd_payload s) \<Longrightarrow> settled e s (delete e args s)"
  unfolding delete_def Let_def run_eqs by (auto simp: settled_refused delete.command_settled split: sum.splits)


section \<open>Retirement\<close>

text \<open>What a command that answered did: the mutation ran on the database with the command's row.\<close>

definition begun :: "owner_env \<Rightarrow> string \<Rightarrow> json_obj \<Rightarrow> owner_source \<Rightarrow> 'x mem_db_scheme \<Rightarrow> 'x mem_db_scheme" where
  "begun e operation stored source db = db\<lparr>md_commands := tadd (new_command e operation stored source None) (md_commands db)\<rparr>"

lemma begun_frames [simp]:
  "md_memories (begun e op st src db) = md_memories db" "get_memory i (begun e op st src db) = get_memory i db"
  "md_obligations (begun e op st src db) = md_obligations db" "db_ok (begun e op st src db) = db_ok db"
  "md_turns (begun e op st src db) = md_turns db" "md_provenance (begun e op st src db) = md_provenance db"
  "md_evidence (begun e op st src db) = md_evidence db" "md_candidates (begun e op st src db) = md_candidates db"
  by (simp_all add: begun_def get_memory_def db_ok_def)

lemma begun_row:
  assumes "fresh_command e s"
  shows "tget cm_id (oe_command_id e) (md_commands (begun e op st src (sd_payload s))) = Some (new_command e op st src None)"
  using assms by (simp add: begun_def fresh_command_def tget_tadd new_command_def tget_None_iff [THEN iffD2])

lemma owner_command_runs:
  assumes "fresh_command e s" "db_ok (sd_payload s)"
  shows "owner_command e op st src mut inc cap s = run_command e src op mut inc cap (s\<lparr>sd_payload := begun e op st src (sd_payload s)\<rparr>)"
  using assms by (simp add: owner_command_def begin_command_def add_command_def flush_def fresh_command_def begun_def new_command_def db_ok_def)

lemma owner_command_answer:
  assumes fresh: "fresh_command e s" "db_ok (sd_payload s)" and ans: "owner_command e op st src mut inc cap s = (Inr a, s')"
  obtains v out where "mut (begun e op st src (sd_payload s)) v = Inr (sd_payload s', out)"
    "memory_revision s' = memory_revision s + (if m_mutated out then 1 else 0)"
proof -
  let ?s = "s\<lparr>sd_payload := begun e op st src (sd_payload s)\<rparr>" and ?env = "command_envelope e src op"
  have rec: "\<not> on_record ?s (e_operation_id ?env)" "e_expected_version ?env = None"
    using fresh by (simp_all add: fresh_command_def on_record_def command_envelope_def)
  have res: "resource_of ?env = (MEMORY_RESOURCE_TYPE, MEMORY_RESOURCE_ID)" by (simp add: command_envelope_def resource_of_def)
  have rev: "memory_revision ?s = memory_revision s" by (simp add: memory_revision_def version_of_def)
  note w = writer_fresh [where sha = "oe_sha e" and mut = mut, OF rec]
  show ?thesis
  proof (cases "mut (begun e op st src (sd_payload s)) (version_of (resource_of ?env) ?s)")
    case (Inl err)
    then show ?thesis using w ans owner_command_runs [OF fresh, of op st src mut inc cap] by (auto simp: run_command_def split: sum.splits)
  next
    case (Inr po)
    obtain p out where po: "po = (p, out)" by (cases po)
    then obtain rc s1 where "writer_execute (oe_sha e) ?env mut ?s = (Inr rc, s1)" "sd_payload s1 = p"
        "version_of (resource_of ?env) s1 = version_of (resource_of ?env) ?s + (if m_mutated out then 1 else 0)"
      using w Inr by auto
    then show ?thesis using that Inr po ans owner_command_runs [OF fresh, of op st src mut inc cap] rev res
      by (simp add: run_command_def memory_revision_def)
  qed
qed

lemma purge_candidate_memories: "purge_candidate now op b c db = Inr db' \<Longrightarrow> md_memories db' = md_memories db"
  by (auto simp: purge_candidate_def ebind_Inr dest!: settle_frames(2))

lemma invalidate_candidates_memories:
  assumes "invalidate_candidates now op ts c False ids rc db = Inr (x, y, db')"
  shows "md_memories db' = md_memories db"
proof -
  have "efold (purge_candidate now op False) (filter (selected_candidate ts ids c db) (md_candidates db)) db = Inr db'"
    using assms by (auto simp: invalidate_candidates_def Let_def ebind_Inr)
  then show ?thesis
    by (rule efold_inv [where P = "\<lambda>d. md_memories d = md_memories db"]) (simp_all add: purge_candidate_memories)
qed

lemma retired_aftermath_memories:
  assumes "retired_aftermath e result m db = Inr (db', out)"
  shows "md_memories db' = md_memories db"
  using assms
proof (rule retired_aftermath_Inr)
  fix ids turns db1 db2
  assume "invalidate_candidates (oe_now e) (oe_command_id e) (opt_list (mm_source_turn_id m)) (mm_content m) False [] None db = Inr (ids, turns, db1)"
    "apply_owner_command (oe_now e) (oe_command_id e) (Some (mm_id m)) None (db1\<lparr>ld_capsules := []\<rparr>) = Inr db2" "flush db2 = Inr db'"
  then show ?thesis
    using invalidate_candidates_memories settled_rows_frames(1) [OF apply_owner_command_Inr(1)] by (fastforce simp: flush_Inr)
qed

lemma retire_given:
  assumes "given ''memory_id'' args = Some raw" "retire e args s = (Inr a, s')"
  obtains content stored source where
    "owner_command e ''retire'' stored source (retire_mutation e (Some raw) content source) False (\<lambda>rc _ db. named_content rc db) s = (Inr a, s')"
  using assms unfolding retire_def Let_def by (auto split: sum.splits)

lemma retired_memory:
  assumes fresh: "fresh_command e s" "db_ok (sd_payload s)"
    and arg: "given ''memory_id'' args = Some raw" "oe_uuid e (py_str raw) = Some i" "get_memory i (sd_payload s) = Some m" "mm_status m = ACTIVE"
    and ans: "retire e args s = (Inr a, s')"
  shows "md_memories (sd_payload s') = tset mm_id i (retire_row (oe_now e)) (md_memories (sd_payload s))"
    "memory_revision s' = memory_revision s + 1"
proof -
  obtain content stored source where "owner_command e ''retire'' stored source (retire_mutation e (Some raw) content source) False
      (\<lambda>rc _ db. named_content rc db) s = (Inr a, s')"
    by (rule retire_given [OF arg(1) ans])
  then obtain v out where run: "retire_mutation e (Some raw) content source (begun e ''retire'' stored source (sd_payload s)) v = Inr (sd_payload s', out)"
      "memory_revision s' = memory_revision s + (if m_mutated out then 1 else 0)"
    by (rule owner_command_answer [OF fresh])
  have id: "mm_id m = i" using get_memory_Some [OF arg(3)] by simp
  have "retire_memory e content m (begun e ''retire'' stored source (sd_payload s)) = Inr (sd_payload s', out)"
    using run(1) arg by (auto simp: retire_mutation_def uuid_arg_def ebind_Inr)
  then have "md_memories (sd_payload s') = tset mm_id i (retire_row (oe_now e)) (md_memories (sd_payload s)) \<and> m_mutated out"
  proof (cases rule: retire_memory_cases)
    case retired
    then show ?thesis using retired_aftermath_memories [OF retired(2)] retired_aftermath_Inr [OF retired(2), where thesis = "m_mutated out"]
      by (simp add: upd_memory_def id changed_def)
  qed (use arg in simp)
  then show "md_memories (sd_payload s') = tset mm_id i (retire_row (oe_now e)) (md_memories (sd_payload s))"
    "memory_revision s' = memory_revision s + 1" using run(2) by simp_all
qed

text \<open>Restoring succeeds whenever no other active memory took the text.\<close>

lemma apply_owner_command_fresh:
  assumes "tget cm_id i (md_commands db) = Some cm" "\<And>ob. ob \<in> set (md_obligations db) \<Longrightarrow> ob_command_id ob \<noteq> Some i"
  shows "apply_owner_command now i t r db = Inr (upd_command i (\<lambda>cm. cm\<lparr>cm_status := APPLIED, cm_target_memory_id := t,
    cm_replacement_memory_id := r, cm_applied_at := Some now\<rparr>) db)"
proof -
  have "filter (\<lambda>ob. ob_command_id ob = Some i \<and> ob_status ob = Open) (md_obligations db) = []" using assms(2) by (auto simp: filter_empty_conv)
  then show ?thesis using assms(1) by (simp add: apply_owner_command_def resolve_for_command_def pending_for_command_def one_or_none_def)
qed

lemma owner_command_succeeds:
  assumes fresh: "fresh_command e s" "db_ok (sd_payload s)"
    and run: "\<And>v. mut (begun e op st src (sd_payload s)) v = Inr (p, out)"
  shows "\<exists>a s'. owner_command e op st src mut inc cap s = (Inr a, s') \<and> sd_payload s' = p"
proof -
  let ?s = "s\<lparr>sd_payload := begun e op st src (sd_payload s)\<rparr>" and ?env = "command_envelope e src op"
  have rec: "\<not> on_record ?s (e_operation_id ?env)" "e_expected_version ?env = None"
    using fresh by (simp_all add: fresh_command_def on_record_def command_envelope_def)
  have "mut (sd_payload ?s) (version_of (resource_of ?env) ?s) = Inr (p, out)" using run by simp
  then obtain rc s' where "writer_execute (oe_sha e) ?env mut ?s = (Inr rc, s')" "sd_payload s' = p"
    using writer_fresh [where sha = "oe_sha e" and mut = mut, OF rec] by auto
  then show ?thesis using owner_command_runs [OF fresh, of op st src mut inc cap] by (simp add: run_command_def)
qed

lemma memories_ok_tset:
  assumes "memories_ok ms" "\<And>m. mm_id (g m) = mm_id m" "\<And>m. mm_originating_candidate_id (g m) = mm_originating_candidate_id m"
    and "\<And>m. m \<in> set ms \<Longrightarrow> mm_id m = i \<Longrightarrow> active_fingerprint (g m) = active_fingerprint m \<and> memory_row_ok (g m)"
  shows "memories_ok (tset mm_id i g ms)"
proof -
  have "map active_fingerprint (tset mm_id i g ms) = map active_fingerprint ms" using assms(4) by (auto simp: tset_def)
  moreover have "map mm_originating_candidate_id (tset mm_id i g ms) = map mm_originating_candidate_id ms" using assms(3) by (auto simp: tset_def)
  ultimately show ?thesis using assms by (auto simp: memories_ok_def unique_index_def set_tset)
qed

lemma unique_index_inj:
  "unique_index key rows \<Longrightarrow> x \<in> set rows \<Longrightarrow> y \<in> set rows \<Longrightarrow> key x = Some k \<Longrightarrow> key y = Some k \<Longrightarrow> x = y"
  by (induction rows) (auto simp: unique_index_Cons image_iff)

lemma retired_unclaimed:
  assumes "memories_ok ms" "m \<in> set ms" "mm_status m = ACTIVE" "mm_fingerprint m = Some fp"
  shows "filter (\<lambda>x. mm_status x = ACTIVE \<and> mm_fingerprint x = Some fp) (tset mm_id (mm_id m) (retire_row now) ms) = []"
proof -
  have "x = m" if "x \<in> set ms" "mm_status x = ACTIVE" "mm_fingerprint x = Some fp" for x
    using unique_index_inj [of active_fingerprint ms x m fp] that assms by (simp add: memories_ok_def active_fingerprint_def)
  then show ?thesis by (auto simp: filter_empty_conv set_tset retire_row_def clear_embedding_def)
qed

text \<open>retiring a memory can be undone. After the owner retired an active memory, a restore of it (by a new command) succeeds, and
  then the memory is as it was, apart from its embedding, which is computed anew, and its time stamp; in between it is retired
  and suppressed. No other memory changes.\<close>

theorem retire_restore:
  assumes "db_ok (sd_payload s)" "fresh_command e s" "fresh_command e' s1"
    and "given ''memory_id'' args = Some raw" "oe_uuid e (py_str raw) = Some i" "oe_uuid e' (py_str raw) = Some i"
    and m: "get_memory i (sd_payload s) = Some m" "mm_status m = ACTIVE" "text_of (mm_content m) \<noteq> []" "text_of (mm_fingerprint m) \<noteq> []"
    and ans: "retire e args s = (Inr a, s1)"
  shows "get_memory i (sd_payload s1) = Some (retire_row (oe_now e) m)
    \<and> (\<exists>a' s2. restore e' args s1 = (Inr a', s2)
        \<and> get_memory i (sd_payload s2) = Some (clear_embedding (m\<lparr>mm_suppresses_recall := False, mm_retired_at := None, mm_updated_at := oe_now e'\<rparr>))
        \<and> (\<forall>j. j \<noteq> i \<longrightarrow> get_memory j (sd_payload s2) = get_memory j (sd_payload s)))"
proof -
  note ret = retired_memory [OF assms(2,1,4,5) m(1,2) ans]
  have ok1: "db_ok (sd_payload s1)" using retire_settled [OF assms(2,1), of args] ans by (simp add: settled_def)
  have id: "mm_id m = i" "m \<in> set (md_memories (sd_payload s))" using get_memory_Some [OF m(1)] by simp_all
  have ids: "\<And>x. mm_id (retire_row t x) = mm_id x" "\<And>x. mm_id (restore_row t x) = mm_id x" for t
    by (simp_all add: retire_row_def restore_row_def clear_embedding_def)
  have got: "get_memory i (sd_payload s1) = Some (retire_row (oe_now e) m)" using m(1) ret(1) ids by (simp add: get_memory_def tget_tset)
  obtain fp where fp: "mm_fingerprint m = Some fp" using m(4) by (cases "mm_fingerprint m") (simp_all add: text_of_def)
  let ?src = "latest_owner_source (oe_current_transcript e') (sd_payload s1)"
  let ?db = "begun e' ''restore'' [(''memory_id'', JStr i)] ?src (sd_payload s1)"
  let ?f = "upd_command (oe_command_id e') (\<lambda>cm. cm\<lparr>cm_status := APPLIED, cm_target_memory_id := None,
      cm_replacement_memory_id := Some i, cm_applied_at := Some (oe_now e')\<rparr>)"
  let ?p = "?f ((upd_memory i (restore_row (oe_now e')) ?db)\<lparr>ld_capsules := []\<rparr>)"
  have mems: "md_memories ?p = tset mm_id i (restore_row (oe_now e') \<circ> retire_row (oe_now e)) (md_memories (sd_payload s))"
    using ids by (simp add: upd_memory_def ret(1) tset_tset comp_def)
  have free: "active_by_fingerprint fp ?db = Inr None"
    using retired_unclaimed [OF _ id(2) m(2) fp, of "oe_now e"] assms(1) id(1)
    by (simp add: active_by_fingerprint_def ret(1) db_ok_def one_or_none_def)
  have applied: "apply_owner_command (oe_now e') (oe_command_id e') None (Some i)
      ((upd_memory i (restore_row (oe_now e')) ?db)\<lparr>ld_capsules := []\<rparr>) = Inr ?p"
    using begun_row [OF assms(3)] assms(3) by (intro apply_owner_command_fresh) (auto simp: upd_memory_def fresh_command_def)
  have keys: "keyed mm_id (md_memories (sd_payload s))" and rows: "\<forall>x \<in> set (md_memories (sd_payload s)). memory_row_ok x"
    using assms(1) by (simp_all add: db_ok_def memories_ok_def)
  have "memories_ok (md_memories ?p)"
    unfolding mems
  proof (rule memories_ok_tset)
    fix x assume x: "x \<in> set (md_memories (sd_payload s))" "mm_id x = i"
    then have "x = m" using keyed_inj [OF keys x(1) id(2)] id(1) by simp
    then show "active_fingerprint ((restore_row (oe_now e') \<circ> retire_row (oe_now e)) x) = active_fingerprint x
        \<and> memory_row_ok ((restore_row (oe_now e') \<circ> retire_row (oe_now e)) x)"
      using rows x(1) m(2) by (simp add: active_fingerprint_def restore_row_def retire_row_def clear_embedding_def memory_row_ok_def)
  qed (use assms(1) in \<open>simp_all add: db_ok_def restore_row_def retire_row_def clear_embedding_def\<close>)
  then have "flush ?p = Inr ?p" using ok1 by (simp add: flush_def db_ok_def upd_memory_def)
  then have "restore_mutation e' i ?db v = Inr (?p, changed (memory_result ''restored'' i))" for v
    using got applied free fp m(3,4) by (simp add: restore_mutation_def retire_row_def clear_embedding_def)
  from owner_command_succeeds [where mut = "restore_mutation e' i" and inc = True and cap = "\<lambda>_ _ _. None", OF assms(3) ok1 this]
  obtain a' s2 where r: "restore e' args s1 = (Inr a', s2)" "sd_payload s2 = ?p"
    using assms(4,6) by (auto simp: restore_def uuid_arg_def given_def split: option.splits json.splits)
  moreover have "get_memory j (sd_payload s2) = (if j = i then map_option (restore_row (oe_now e') \<circ> retire_row (oe_now e)) (get_memory i (sd_payload s))
      else get_memory j (sd_payload s))" for j
    using ids r(2) mems by (simp add: get_memory_def tget_tset)
  ultimately show ?thesis using got m(1,2)
    by (auto simp: restore_row_def retire_row_def clear_embedding_def)
qed


section \<open>Samples\<close>

definition sample_memory :: memory_row where
  "sample_memory = (memory_of 3 ''m0'' ACTIVE ''old'' ''#old'' False
     \<lparr>nm_source_transcript_id = Some ''tr'', nm_source_turn_id = None, nm_supersedes_id = None, nm_record_kind = ''derived'',
      nm_origin = ''conversation'', nm_memory_kind = Some ''fact'', nm_scope = ''cross_chat'', nm_scope_key = Some ''owner'',
      nm_durability = ''long_term'', nm_subject = None, nm_namespace = None, nm_valid_from = None, nm_valid_to = None,
      nm_grounding_status = ''verified'', nm_verification_record_id = Some ''r0'', nm_owner_assertion_turn_id = None,
      nm_originating_candidate_id = None\<rparr>)\<lparr>mm_embedding := Some ''v''\<rparr>"

definition sample_turn :: turn_row where
  "sample_turn = \<lparr>tu_id = ''t1'', tu_transcript_id = ''tr'', tu_actor = ''owner'', tu_sequence = 1,
     tu_blocks = [JObj [(''type'', JStr ''text''), (''text'', JStr ''a'')]], tu_created_at = 0, tu_deleted_at = None,
     tu_deletion_operation_id = None\<rparr>"

definition sample_transcript :: transcript_row where
  "sample_transcript = \<lparr>tr_id = ''tr'', tr_kind = ''owner'', tr_retention_policy = ''standard'', tr_title = None, tr_closed_at = None,
     tr_context_summary = None, tr_summarized_through_turn_id = None, tr_active_task_state = [], tr_active_task_revision = 0,
     tr_next_turn_sequence = 1, tr_content_revision = 1, tr_created_at = 0, tr_updated_at = 0\<rparr>"

definition sample_life :: "life_db shared_db" where
  "sample_life = \<lparr>sd_ops = [], sd_versions = [], sd_payload =
     \<lparr>md_turns = [sample_turn], md_transcripts = [sample_transcript], md_candidates = [sample_row],
      md_evidence = [\<lparr>ce_candidate_id = ''c1'', ce_turn_id = ''t1'', ce_principal = ''owner'', ce_ordinal = 0, ce_span_ref = []\<rparr>],
      md_attempts = [], md_memories = [sample_memory], md_commands = [], md_obligations = [], md_conflicts = [], md_provenance = [],
      vd_readings = [], vd_comparisons = [], vd_records = [], vd_policies = [], ld_capsules = [], ld_chunks = [], ld_index_states = [],
      ld_discovery = [], ld_receipts = []\<rparr>\<rparr>"

definition sample_owner :: "string \<Rightarrow> owner_env" where
  "sample_owner k = \<lparr>oe_sha = (\<lambda>s. CHR ''#'' # s), oe_now = 20, oe_current_transcript = None, oe_uuid = Some, oe_iso = (\<lambda>_. ''T''),
     oe_exc_text = (\<lambda>_. ''error''), oe_command_id = k, oe_candidate_id = ''c'' @ k, oe_memory_id = ''m'' @ k, oe_obligation_id = ''b'' @ k,
     oe_operation_id = ''o'' @ k, oe_transcript_id = ''r'' @ k, oe_turn_id = ''u'' @ k\<rparr>"

definition sample_args :: json_obj where
  "sample_args = [(''memory_id'', JStr ''m0'')]"

definition sample_retired :: "(owner_error + json_obj) \<times> life_db shared_db" where
  "sample_retired = retire (sample_owner ''k1'') sample_args sample_life"

lemma sample_life_ok: "db_ok (sd_payload sample_life)" "fresh_command (sample_owner ''k1'') sample_life"
  by (simp_all add: sample_life_def sample_row_def sample_memory_def sample_owner_def memory_of_def db_ok_def memories_ok_def candidates_ok_def
      unique_index_def candidate_row_ok_def memory_row_ok_def keyed_def fresh_command_def on_record_def)

lemma sample_retire:
  "retire (sample_owner ''k1'') sample_args sample_life = (Inr (projr (fst sample_retired)), snd sample_retired)"
  "fresh_command (sample_owner ''k2'') (snd sample_retired)"
  "given ''memory_id'' sample_args = Some (JStr ''m0'')" "oe_uuid (sample_owner k) (py_str (JStr ''m0'')) = Some ''m0''"
  "get_memory ''m0'' (sd_payload sample_life) = Some sample_memory" "mm_status sample_memory = ACTIVE"
  "text_of (mm_content sample_memory) \<noteq> []" "text_of (mm_fingerprint sample_memory) \<noteq> []"
proof -
  have "\<not> isl (fst sample_retired)" by code_simp
  then show "retire (sample_owner ''k1'') sample_args sample_life = (Inr (projr (fst sample_retired)), snd sample_retired)"
    by (simp add: sum.collapse(2) flip: sample_retired_def)
  show "fresh_command (sample_owner ''k2'') (snd sample_retired)" by code_simp
qed (simp_all add: sample_args_def given_def sample_owner_def sample_life_def get_memory_def sample_memory_def memory_of_def text_of_def)


theorem retire_restore_witness:
  "\<exists>a s2. restore (sample_owner ''k2'') sample_args (snd sample_retired) = (Inr a, s2)
     \<and> map_option mm_status (get_memory ''m0'' (sd_payload s2)) = Some ACTIVE"
  using retire_restore [OF sample_life_ok sample_retire(2,3,4,4,5,6,7,8,1)] by (auto simp: clear_embedding_def sample_retire(6))

text \<open>A worker holds a lease while the owner retires the memory.\<close>

definition sample_claimed_life :: "candidate_lease list \<times> nat \<times> life_db" where
  "sample_claimed_life = projr (claim_batch (lease_repository 180 3) 5 (\<lambda>i. (CHR ''a'' # i, CHR ''k'' # i)) 8 (sd_payload sample_life))"

definition sample_working :: "life_db shared_db" where
  "sample_working = sample_life\<lparr>sd_payload := snd (snd sample_claimed_life)\<rparr>"

definition sample_cut :: "(owner_error + json_obj) \<times> life_db shared_db" where
  "sample_cut = retire (sample_owner ''k1'') sample_args sample_working"

definition sample_late :: "(mem_error write_error + receipt) \<times> life_db shared_db" where
  "sample_late = publish (we_publish (sample_env 0)) sample_cl sample_snapshot sample_decision (snd sample_cut)"

lemma sample_working_ok: "sound_store (sd_payload sample_working)" "issued sample_cl (sd_payload sample_working)"
proof -
  have "sound_store (sd_payload sample_life)"
    using sample_life_ok(1) by (simp add: sound_store_def lease_inv_def open_attempts_def sample_life_def sample_row_def keyed_def leased_ok_def)
  moreover have live: "\<not> isl (claim_batch (lease_repository 180 3) 5 (\<lambda>i. (CHR ''a'' # i, CHR ''k'' # i)) 8 (sd_payload sample_life))" by code_simp
  have batch: "claim_batch (lease_repository 180 3) 5 (\<lambda>i. (CHR ''a'' # i, CHR ''k'' # i)) 8 (sd_payload sample_life)
      = Inr (fst sample_claimed_life, fst (snd sample_claimed_life), snd (snd sample_claimed_life))"
    using sum.collapse(2) [OF live] by (simp only: sample_claimed_life_def prod.collapse)
  ultimately have "sound_store (snd (snd sample_claimed_life))" using claim_batch_sound(1) batch by blast
  then show "sound_store (sd_payload sample_working)" by (simp add: sample_working_def)
  show "issued sample_cl (sd_payload sample_working)" by code_simp
qed

lemma sample_cut_ok:
  "retire (sample_owner ''k1'') sample_args sample_working = (Inr (projr (fst sample_cut)), snd sample_cut)"
  "fresh_command (sample_owner ''k1'') sample_working" "get_memory ''m0'' (sd_payload sample_working) = Some sample_memory"
  "publish (we_publish (sample_env 0)) sample_cl sample_snapshot sample_decision (snd sample_cut) = (Inr (projr (fst sample_late)), snd sample_late)"
  "issued sample_cl (sd_payload (snd sample_cut))" "\<not> on_record (snd sample_cut) (pe_operation_id (we_publish (sample_env 0)))"
  "es_memory_revision sample_snapshot = memory_revision sample_working"
proof -
  have "\<not> isl (fst sample_cut)" by code_simp
  then show "retire (sample_owner ''k1'') sample_args sample_working = (Inr (projr (fst sample_cut)), snd sample_cut)"
    by (simp add: sum.collapse(2) flip: sample_cut_def)
  have "\<not> isl (fst sample_late)" by code_simp
  then show "publish (we_publish (sample_env 0)) sample_cl sample_snapshot sample_decision (snd sample_cut) = (Inr (projr (fst sample_late)), snd sample_late)"
    by (simp add: sum.collapse(2) flip: sample_late_def)
qed code_simp+


end
