(* ===== verification/Memory_Deletion_Properties.thy ===== *)
theory Memory_Deletion_Properties
  imports Memory_Owner_Properties
begin

text \<open>
  Properties of the delete command: its batched dependency walk computes exactly the memories
  that rest on the deleted one (or stops at the bound of 1000), what it reaches loses its
  text, and a memory with a live assertion of the owner survives.
\<close>

section \<open>The dependency walk\<close>

text \<open>What falls with a set of memories: the memories derived from them, up to those that stand on their own.\<close>

inductive_set falls :: "uuid list \<Rightarrow> 'x mem_db_scheme \<Rightarrow> uuid set \<Rightarrow> uuid set" for never db S where
  root: "i \<in> S \<Longrightarrow> i \<in> falls never db S"
| derived: "i \<in> falls never db S \<Longrightarrow> p \<in> set (md_provenance db) \<Longrightarrow> pv_source_memory_id p = Some i
    \<Longrightarrow> \<not> independent never db (pv_memory_id p) \<Longrightarrow> pv_memory_id p \<in> falls never db S"

lemma falls_known: "falls never db S \<subseteq> S \<union> pv_memory_id ` set (md_provenance db)"
proof
  fix i assume "i \<in> falls never db S"
  then show "i \<in> S \<union> pv_memory_id ` set (md_provenance db)" by cases auto
qed

lemma falls_frame:
  fixes d d' :: "'x mem_db_scheme"
  assumes "md_provenance d = md_provenance d'" "md_memories d = md_memories d'" "md_turns d = md_turns d'"
  shows "falls never d S = falls never d' S"
proof -
  have "falls never a S \<subseteq> falls never b S"
    if "md_provenance a = md_provenance b" "md_memories a = md_memories b" "md_turns a = md_turns b" for a b :: "'x mem_db_scheme"
  proof
    have same: "independent never a = independent never b" unfolding fun_eq_iff independent_def get_memory_def that(2,3) by simp
    fix i assume "i \<in> falls never a S"
    then show "i \<in> falls never b S" by induction (use that(1) same in \<open>auto intro: falls.intros\<close>)
  qed
  then show ?thesis using assms by (metis subset_antisym)
qed

lemma finite_falls: "finite S \<Longrightarrow> finite (falls never db S)"
  by (rule finite_subset [OF falls_known]) simp

text \<open>What rests directly on a memory of a set.\<close>

definition supported :: "'x mem_db_scheme \<Rightarrow> uuid set \<Rightarrow> uuid set" where
  "supported db S = {pv_memory_id p | p i. p \<in> set (md_provenance db) \<and> i \<in> S \<and> pv_source_memory_id p = Some i}"

lemma set_derived_from: "set (derived_from batch db) = supported db (set batch)"
  by (auto simp: derived_from_def supported_def split: option.splits)

lemma supported_mono: "A \<subseteq> B \<Longrightarrow> supported db A \<subseteq> supported db B"
  by (auto simp: supported_def)

lemma supported_Un: "supported db (A \<union> B) = supported db A \<union> supported db B"
  by (auto simp: supported_def)

text \<open>The state of the walk: what is seen falls, and what is seen and no longer queued has been followed.\<close>

definition walk :: "uuid list \<Rightarrow> 'x mem_db_scheme \<Rightarrow> uuid set \<Rightarrow> uuid list \<Rightarrow> uuid list \<Rightarrow> uuid list \<Rightarrow> bool" where
  "walk never db S queue seen preserved = (S \<subseteq> set seen \<and> distinct seen \<and> length seen \<le> 1000 \<and> set queue \<subseteq> set seen
    \<and> set seen \<subseteq> falls never db S \<and> set preserved \<subseteq> supported db (set seen) - set seen \<and> (\<forall>j \<in> set preserved. independent never db j)
    \<and> supported db (set seen - set queue) \<subseteq> set seen \<union> set preserved)"

lemma walk_step:
  assumes "walk never db S queue seen preserved" "finite S"
  defines "found \<equiv> without (without (derived_from (take 100 queue) db) seen) preserved"
  defines "barriers \<equiv> independent_owner_grounded_ids never db found"
  defines "fresh \<equiv> without found barriers"
  shows "length seen + length fresh \<le> 1000 \<Longrightarrow> walk never db S (drop 100 queue @ fresh) (seen @ fresh) (preserved @ barriers)"
    and "1000 < length seen + length fresh \<Longrightarrow> 1000 < card (falls never db S)"
proof -
  note w = assms(1) [unfolded walk_def]
  have queue: "set queue = set (take 100 queue) \<union> set (drop 100 queue)" by (metis append_take_drop_id set_append)
  have found: "set found = supported db (set (take 100 queue)) - set seen - set preserved" by (simp add: found_def set_derived_from)
  have barriers: "set barriers = {j \<in> set found. independent never db j}" by (auto simp: barriers_def independent_owner_grounded_ids_def)
  have fresh: "set fresh = {j \<in> set found. \<not> independent never db j}" by (auto simp: fresh_def barriers)
  have "distinct fresh" by (simp add: fresh_def found_def without_def derived_from_def)
  then have dist: "distinct (seen @ fresh)" using w fresh found by auto
  have "set fresh \<subseteq> falls never db S"
  proof
    fix j assume "j \<in> set fresh"
    then obtain p i where "p \<in> set (md_provenance db)" "i \<in> set (take 100 queue)" "pv_source_memory_id p = Some i" "j = pv_memory_id p"
        "\<not> independent never db j" using fresh found by (auto simp: supported_def)
    then show "j \<in> falls never db S" using falls.derived w queue by blast
  qed
  then have inside: "set (seen @ fresh) \<subseteq> falls never db S" using w by simp
  show "1000 < card (falls never db S)" if "1000 < length seen + length fresh"
    using card_mono [OF finite_falls [OF assms(2)] inside] distinct_card [OF dist] that by simp
  assume small: "length seen + length fresh \<le> 1000"
  have "set (preserved @ barriers) \<subseteq> supported db (set (seen @ fresh)) - set (seen @ fresh)"
    using w found barriers fresh queue supported_mono [of "set (take 100 queue)" "set seen" db] supported_mono [of "set seen" "set (seen @ fresh)" db] by auto
  moreover have "supported db (set (seen @ fresh) - set (drop 100 queue @ fresh)) \<subseteq> set (seen @ fresh) \<union> set (preserved @ barriers)"
  proof -
    have "set (seen @ fresh) - set (drop 100 queue @ fresh) \<subseteq> (set seen - set queue) \<union> set (take 100 queue)" using queue by auto
    then have "supported db (set (seen @ fresh) - set (drop 100 queue @ fresh)) \<subseteq> supported db (set seen - set queue) \<union> supported db (set (take 100 queue))"
      using supported_mono supported_Un by metis
    then show ?thesis using w found barriers fresh by auto
  qed
  ultimately show "walk never db S (drop 100 queue @ fresh) (seen @ fresh) (preserved @ barriers)"
    using w dist inside small barriers queue unfolding walk_def by auto
qed

lemma descend_walk:
  assumes "walk never db S queue seen preserved" "finite S"
  shows "case descend never db queue seen preserved of
      Inl err \<Rightarrow> err = graph_error \<and> 1000 < card (falls never db S) | Inr (gone, kept) \<Rightarrow> walk never db S [] gone kept"
  using assms(1)
proof (induction never db queue seen preserved rule: descend.induct)
  case (1 never db queue seen preserved)
  show ?case
  proof (cases "queue = []")
    case True
    then show ?thesis using "1.prems" by (simp add: descend.simps)
  next
    case False
    let ?found = "without (without (derived_from (take 100 queue) db) seen) preserved"
    let ?barriers = "independent_owner_grounded_ids never db ?found"
    let ?fresh = "without ?found ?barriers"
    note step = walk_step [OF "1.prems" assms(2)]
    show ?thesis
    proof (cases "?fresh \<noteq> [] \<and> 1000 < length seen + length ?fresh")
      case True
      then show ?thesis using False step(2) by (subst descend.simps) (simp add: Let_def)
    next
      case small: False
      have "length seen \<le> 1000" using "1.prems" by (simp add: walk_def)
      then have "length seen + length ?fresh \<le> 1000" using small by auto
      note rest = "1.IH" [OF False refl refl refl small step(1) [OF this]]
      then show ?thesis using False small by (subst descend.simps) (simp only: Let_def if_False)
    qed
  qed
qed

lemma walk_done:
  assumes "walk never db S [] gone kept"
  shows "set gone = falls never db S" "set kept = supported db (falls never db S) - falls never db S"
proof -
  note w = assms [unfolded walk_def]
  have "falls never db S \<subseteq> set gone"
  proof
    fix j assume "j \<in> falls never db S"
    then show "j \<in> set gone"
    proof induction
      case (derived i p)
      then have "pv_memory_id p \<in> supported db (set gone)" by (auto simp: supported_def)
      then show ?case using w derived by auto
    qed (use w in auto)
  qed
  then show gone: "set gone = falls never db S" using w by auto
  then show "set kept = supported db (falls never db S) - falls never db S" using w by auto
qed

lemma descendants_walk:
  assumes "distinct initial" "length initial \<le> 1000"
  shows "case memory_descendants never db initial of
      Inl err \<Rightarrow> err = graph_error \<and> 1000 < card (falls never db (set initial)) | Inr (gone, kept) \<Rightarrow> walk never db (set initial) [] gone kept"
proof -
  have "walk never db (set initial) initial initial []"
    using assms by (auto simp: walk_def supported_def intro: falls.root)
  then show ?thesis unfolding memory_descendants_def by (rule descend_walk) simp
qed

text \<open>C31: the batched walk of the delete command computes the memories that fall with the given ones, each once, and the memories that
  rest on them but stand on their own; it gives up exactly when more than a thousand memories fall.\<close>

theorem descendants_closure:
  assumes "distinct initial" "length initial \<le> 1000"
  shows "let F = falls never db (set initial) in case memory_descendants never db initial of
      Inl err \<Rightarrow> err = graph_error \<and> 1000 < card F
    | Inr (gone, kept) \<Rightarrow> card F \<le> 1000 \<and> distinct gone \<and> set gone = F
        \<and> set kept = {j. j \<notin> F \<and> (\<exists>p \<in> set (md_provenance db). \<exists>i \<in> F. pv_source_memory_id p = Some i \<and> pv_memory_id p = j)}"
proof -
  note w = descendants_walk [OF assms, of never db]
  show ?thesis
  proof (cases "memory_descendants never db initial")
    case (Inl err)
    then show ?thesis using w by simp
  next
    case (Inr gk)
    obtain gone kept where gk: "gk = (gone, kept)" by (cases gk)
    then have finished: "walk never db (set initial) [] gone kept" using w Inr by simp
    then have "length gone \<le> 1000" "distinct gone" by (simp_all add: walk_def)
    moreover have "set kept = {j. j \<notin> set gone \<and> (\<exists>p \<in> set (md_provenance db). \<exists>i \<in> set gone. pv_source_memory_id p = Some i \<and> pv_memory_id p = j)}"
      using walk_done [OF finished] by (auto simp: supported_def)
    ultimately show ?thesis using walk_done(1) [OF finished] distinct_card [of gone] Inr gk by simp
  qed
qed

section \<open>What a deletion leaves\<close>

text \<open>The purge of the sources only redacts turns; no memory changes yet.\<close>

definition only_redacts :: "'x mem_db_scheme \<Rightarrow> 'x mem_db_scheme \<Rightarrow> bool" where
  "only_redacts db db' = (md_memories db' = md_memories db \<and> md_provenance db' = md_provenance db
     \<and> (\<forall>i t'. tget tu_id i (md_turns db') = Some t' \<longrightarrow>
          (\<exists>t. tget tu_id i (md_turns db) = Some t \<and> (tu_deleted_at t \<noteq> None \<longrightarrow> tu_deleted_at t' \<noteq> None))))"

lemma only_redacts_refl [simp]: "only_redacts db db"
  by (simp add: only_redacts_def split: option.splits)

lemma only_redacts_trans: "only_redacts a b \<Longrightarrow> only_redacts b c \<Longrightarrow> only_redacts a c"
  unfolding only_redacts_def by (metis (no_types, lifting))

lemma redact_turn_sel [simp]: "tu_id (redact_turn now op bs t) = tu_id t" "tu_deleted_at (redact_turn now op bs t) = Some now"
  by (simp_all add: redact_turn_def)

lemma tget_where_rows: "(\<And>r. key (f r) = key r) \<Longrightarrow> tget key k (where_rows P f rows) = map_option (\<lambda>r. if P r then f r else r) (tget key k rows)"
  by (induction rows) (auto simp: where_rows_def)

lemma redact_source_turns_only: "only_redacts db (snd (redact_source_turns now op content preferred db))"
  by (auto simp: only_redacts_def redact_source_turns_def Let_def tget_where_rows redact_source_turn_def split: option.splits)

lemma redact_provider_evidence_only: "only_redacts db (snd (redact_provider_evidence now op content rc c (ids, db)))"
  by (auto simp: only_redacts_def redact_provider_evidence_def Let_def upd_turn_def tget_tset split: option.splits)

lemma purge_candidate_only: "purge_candidate now op b c db = Inr db' \<Longrightarrow> only_redacts db db'"
proof -
  assume "purge_candidate now op b c db = Inr db'"
  then obtain d where d: "settle_explicit_obligation now None (Some ''evidence_purged'') (Some ''evidence_purged'') (purge_row now op c)
      (upd_cand (cd_id c) (purge_row now op) db) = Inr d" "db' = (if b then upd_cand (cd_id c) scrub_row d else d)"
    by (auto simp: purge_candidate_def ebind_Inr)
  then show ?thesis using settle_frames(2,5) [OF d(1)] settle_provenance [OF d(1)] by (simp add: only_redacts_def upd_cand_def split: option.splits)
qed

lemma invalidate_candidates_only:
  fixes db :: "'x verify_db_scheme"
  assumes "invalidate_candidates now op ts c scrub ids rc db = Inr (x, y, db')"
  shows "only_redacts db db'"
proof -
  let ?sel = "filter (selected_candidate ts ids c db) (md_candidates db)"
  let ?redact = "\<lambda>s c'. redact_provider_evidence now op c rc c' s"
  have redact: "only_redacts d (snd (foldl ?redact (is, d) cs))" for "is" cs and d :: "'x verify_db_scheme"
  proof (induction cs arbitrary: "is" d)
    case (Cons c' cs)
    obtain is' d' where r: "redact_provider_evidence now op c rc c' (is, d) = (is', d')" by fastforce
    then have "only_redacts d d'" using redact_provider_evidence_only [of d now op c rc c' "is"] by simp
    then show ?case using Cons [of d' is'] only_redacts_trans by (auto simp: r)
  qed simp
  define start where "start = snd (if scrub then foldl ?redact ([], db) ?sel else ([], db))"
  have "only_redacts db start" using redact by (simp add: start_def)
  moreover from assms obtain db2 where db2: "efold (purge_candidate now op scrub) ?sel start = Inr db2"
      "db' = db2 \<or> db' = tombstone_candidate_derivatives now op (map cd_id ?sel) db2"
    unfolding invalidate_candidates_def Let_def by (auto simp: start_def split: prod.splits if_splits)
  have "only_redacts start db2"
    using db2(1) by (rule efold_inv [where P = "only_redacts start"]) (auto dest: purge_candidate_only intro: only_redacts_trans)
  moreover have "only_redacts db2 db'"
    using db2(2) by (auto simp: only_redacts_def tombstone_candidate_derivatives_def Let_def split: option.splits)
  ultimately show ?thesis using only_redacts_trans by blast
qed

lemma purge_sources_only:
  assumes "purge_sources e selected scope affected db = Inr (dependency, redacted, candidates, turns, db1)"
  shows "only_redacts db db1"
proof -
  let ?r = "if scope = ''memory_and_sources'' \<and> text_of selected \<noteq> []
    then redact_source_turns (oe_now e) (oe_command_id e) (text_of selected) (turns_of affected db) db else ([], db)"
  have "only_redacts db (snd ?r)" by (simp add: redact_source_turns_only)
  moreover have "only_redacts (snd ?r) db1"
    using assms unfolding purge_sources_def Let_def by (auto simp: ebind_Inr split: prod.splits dest: invalidate_candidates_only)
  ultimately show ?thesis by (rule only_redacts_trans)
qed

lemma independent_only_redacts:
  assumes "only_redacts db db'" "independent never db' j"
  shows "independent never db j"
proof -
  have same: "get_memory j db' = get_memory j db" using assms(1) by (simp add: only_redacts_def get_memory_def)
  have "\<exists>t. tget tu_id i (md_turns db) = Some t \<and> tu_deleted_at t = None" if "tget tu_id i (md_turns db') = Some t'" "tu_deleted_at t' = None" for i t'
    using assms(1) that unfolding only_redacts_def by metis
  then show ?thesis using assms(2) unfolding independent_def same by (fastforce split: option.splits)
qed

lemma close_over_gone:
  assumes "close_over never db memories candidates seen preserved = Inr (gone, kept)"
    and "supported db (set seen - set memories) \<subseteq> set seen \<union> set preserved"
  shows "set seen \<subseteq> set gone \<and> (\<forall>j \<in> set gone - set seen. \<not> independent never db j)
    \<and> set preserved \<subseteq> set kept \<and> supported db (set gone) \<subseteq> set gone \<union> set kept"
  using assms
proof (induction never db memories candidates seen preserved arbitrary: rule: close_over.induct)
  case (1 never db memories candidates seen preserved)
  show ?case
  proof (cases "memories = [] \<and> candidates = []")
    case True
    then show ?thesis using "1.prems" by (simp add: close_over.simps)
  next
    case False
    let ?rows = "touched memories candidates db"
    let ?found = "without (without (firsts (map pv_memory_id ?rows)) seen) preserved"
    let ?barriers = "independent_owner_grounded_ids never db ?found"
    let ?fresh = "without ?found ?barriers"
    let ?next = "firsts (concat (map (\<lambda>p. if pv_memory_id p \<in> set ?fresh then opt_list (pv_source_candidate_id p) else []) ?rows))"
    have small: "\<not> 1000 < length seen + length ?fresh"
      and run: "close_over never db ?fresh ?next (seen @ ?fresh) (preserved @ ?barriers) = Inr (gone, kept)"
      using "1.prems"(1) False by (subst (asm) close_over.simps, simp add: Let_def split: if_splits)+
    have rows: "supported db (set memories) \<subseteq> set (map pv_memory_id ?rows)" by (auto simp: supported_def touched_def)
    have "set (seen @ ?fresh) - set ?fresh \<subseteq> (set seen - set memories) \<union> set memories" by auto
    then have "supported db (set (seen @ ?fresh) - set ?fresh) \<subseteq> supported db (set seen - set memories) \<union> supported db (set memories)"
      using supported_mono supported_Un by metis
    then have "supported db (set (seen @ ?fresh) - set ?fresh) \<subseteq> set (seen @ ?fresh) \<union> set (preserved @ ?barriers)"
      using "1.prems"(2) rows by auto
    note rest = "1.IH" [OF False refl refl refl refl small run this]
    have "\<forall>j \<in> set ?fresh. \<not> independent never db j" by (auto simp: independent_owner_grounded_ids_def)
    then show ?thesis using rest by auto
  qed
qed

lemma closure_gone:
  assumes "dependent_memory_closure never db memories candidates = Inr (gone, kept)"
  shows "\<And>j. j \<in> set memories \<Longrightarrow> \<not> independent never db j \<Longrightarrow> j \<in> set gone"
    and "\<And>j. j \<in> set gone \<Longrightarrow> \<not> independent never db j" and "supported db (set gone) \<subseteq> set gone \<union> set kept"
proof -
  let ?barriers = "independent_owner_grounded_ids never db memories"
  have run: "close_over never db (without memories ?barriers) candidates (without memories ?barriers) ?barriers = Inr (gone, kept)"
    using assms by (simp add: dependent_memory_closure_def Let_def)
  have barriers: "set ?barriers = {j \<in> set memories. independent never db j}" by (auto simp: independent_owner_grounded_ids_def)
  have "supported db (set (without memories ?barriers) - set (without memories ?barriers)) \<subseteq> set (without memories ?barriers) \<union> set ?barriers"
    unfolding Diff_cancel by (simp add: supported_def)
  note gone = close_over_gone [OF run this]
  have seen: "set (without memories ?barriers) = {j \<in> set memories. \<not> independent never db j}" using barriers by auto
  show "j \<in> set gone" if "j \<in> set memories" "\<not> independent never db j" for j using gone that seen by blast
  show "\<not> independent never db j" if "j \<in> set gone" for j using gone that seen by blast
  show "supported db (set gone) \<subseteq> set gone \<union> set kept" using gone by blast
qed

definition erased :: "memory_row \<Rightarrow> bool" where
  "erased m = (mm_status m = DELETED \<and> mm_content m = None \<and> mm_fingerprint m = None \<and> mm_suppresses_recall m)"

definition same_text :: "memory_row \<Rightarrow> memory_row \<Rightarrow> bool" where
  "same_text m m' = (mm_status m' = mm_status m \<and> mm_content m' = mm_content m \<and> mm_fingerprint m' = mm_fingerprint m)"

lemma detach_row_sel [simp]:
  "mm_id (detach_row now ts rs db m) = mm_id m" "same_text m (detach_row now ts rs db m)"
  by (simp_all add: detach_row_def same_text_def Let_def split: option.splits)

lemma get_detached:
  assumes "get_memory j db = Some m"
  shows "\<exists>m'. get_memory j (detach_purged_dependencies now ids ts cs ms db) = Some m' \<and> same_text m m'"
  using assms by (auto simp: detach_purged_dependencies_def get_memory_def tget_where_rows Let_def) (auto simp: same_text_def)

lemma delete_row_sel [simp]: "mm_id (delete_row now op m) = mm_id m" "erased (delete_row now op m)"
  by (simp_all add: delete_row_def erased_def clear_embedding_def)

text \<open>What a deletion of a memory leaves: the memories \<open>gone\<close> are erased and every other keeps its text.\<close>

definition left_by :: "uuid \<Rightarrow> uuid set \<Rightarrow> 'x mem_db_scheme \<Rightarrow> 'x mem_db_scheme \<Rightarrow> bool" where
  "left_by target gone db db' = (falls [target] db {target} \<subseteq> gone
    \<and> (\<forall>j m. get_memory j db = Some m \<longrightarrow> (\<exists>m'. get_memory j db' = Some m' \<and> (if j \<in> gone then erased m' else same_text m m')))
    \<and> (\<forall>p \<in> set (md_provenance db'). \<forall>i \<in> gone. pv_source_memory_id p = Some i \<longrightarrow> pv_memory_id p \<in> gone)
    \<and> (\<forall>j m t u. get_memory j db = Some m \<longrightarrow> j \<noteq> target \<longrightarrow> mm_status m \<noteq> DELETED \<longrightarrow> mm_grounding_status m = ''verified''
         \<longrightarrow> mm_owner_assertion_turn_id m = Some t \<longrightarrow> tget tu_id t (md_turns db') = Some u \<longrightarrow> tu_deleted_at u = None \<longrightarrow> j \<notin> gone))"

lemma delete_memories_left:
  fixes db :: "'x life_db_scheme"
  assumes "delete_memories e (Some m) selected scope source db = Inr (db', out)"
  shows "\<exists>gone. left_by (mm_id m) gone db db'"
  using assms
proof (rule delete_memories_Inr)
  let ?never = "opt_list (map_option mm_id (Some m))"
  fix affected preserved dependency redacted candidates turns db1 gone kept i removed and db5 db6 db7 :: "'x life_db_scheme"
  assume a: "(case Some m of None \<Rightarrow> Inr ([], []) | Some m \<Rightarrow> memory_descendants ?never db [mm_id m]) = Inr (affected, preserved)"
    and b: "purge_sources e selected scope affected db = Inr (dependency, redacted, candidates, turns, db1)"
    and c: "dependent_memory_closure ?never db1 (firsts (affected @ (if dependency = [] then [] else sourced_memories dependency db1))) candidates = Inr (gone, kept)"
    and d: "md_memories db5 = where_rows (\<lambda>m. mm_id m \<in> set gone) (delete_row (oe_now e) (oe_command_id e))
       (md_memories (detach_purged_dependencies (oe_now e) (firsts (preserved @ kept)) redacted candidates gone db1))"
    and f: "(case Some m of Some m \<Rightarrow> Inr (mm_id m, gone, db5)
         | None \<Rightarrow> ebind (add_memory (delete_tombstone e source) db5) (\<lambda>db6. Inr (oe_memory_id e, gone @ [oe_memory_id e], db6))) = Inr (i, removed, db6)"
    and g: "apply_owner_command (oe_now e) (oe_command_id e) (Some i) None db7 = Inr db'" "md_memories db7 = md_memories db6"
      "md_turns db7 = md_turns db1"
      "md_provenance db7 = md_provenance (detach_purged_dependencies (oe_now e) (firsts (preserved @ kept)) redacted candidates gone db1)"
  have never: "?never = [mm_id m]" by (simp add: opt_list_def)
  note only = purge_sources_only [OF b] and cl = closure_gone [OF c]
  note fr = settled_rows_frames [OF apply_owner_command_Inr(1) [OF g(1)]]
  have affected: "set affected = falls [mm_id m] db {mm_id m}"
    using a walk_done(1) [of "[mm_id m]" db "{mm_id m}" affected preserved] descendants_walk [of "[mm_id m]" "[mm_id m]" db] by (simp add: opt_list_def)
  have fallen: "falls [mm_id m] db {mm_id m} \<subseteq> set gone"
  proof
    fix j assume j: "j \<in> falls [mm_id m] db {mm_id m}"
    then have "\<not> independent [mm_id m] db j" by cases (simp_all add: independent_def)
    then have "\<not> independent ?never db1 j" unfolding never using independent_only_redacts [OF only] by blast
    then show "j \<in> set gone" using cl(1) [of j] j affected by simp
  qed
  let ?detached = "detach_purged_dependencies (oe_now e) (firsts (preserved @ kept)) redacted candidates gone db1"
  have rows: "\<exists>x'. get_memory j db' = Some x' \<and> (if j \<in> set gone then erased x' else same_text x x')" if "get_memory j db = Some x" for j x
  proof -
    have "get_memory j db1 = Some x" using only that by (simp add: only_redacts_def get_memory_def)
    then obtain y where y: "get_memory j ?detached = Some y" "same_text x y" using get_detached by blast
    have "md_memories db' = where_rows (\<lambda>m. mm_id m \<in> set gone) (delete_row (oe_now e) (oe_command_id e)) (md_memories ?detached)"
      using fr(1) g(2) d f by simp
    then have "get_memory j db' = Some (if j \<in> set gone then delete_row (oe_now e) (oe_command_id e) y else y)"
      using y(1) get_memory_Some [OF y(1)] by (simp add: get_memory_def tget_where_rows)
    then show ?thesis using y(2) by simp
  qed
  have links: "pv_memory_id p \<in> set gone" if p: "p \<in> set (md_provenance db')" "k \<in> set gone" "pv_source_memory_id p = Some k" for p k
  proof (rule ccontr)
    assume out: "pv_memory_id p \<notin> set gone"
    have kept: "p \<in> set (md_provenance ?detached)" using p(1) fr(5) g(4) by simp
    then have "p \<in> set (md_provenance db1)" by (auto simp: detach_purged_dependencies_def Let_def split: if_splits)
    then have "pv_memory_id p \<in> supported db1 (set gone)" using p(2,3) unfolding supported_def by blast
    then have "pv_memory_id p \<in> set kept" using cl(3) out by blast
    then show False using kept p(2,3) by (auto simp: detach_purged_dependencies_def Let_def rests_on_def split: if_splits)
  qed
  have survives: "j \<notin> set gone" if j: "get_memory j db = Some x" "j \<noteq> mm_id m" "mm_status x \<noteq> DELETED" "mm_grounding_status x = ''verified''"
      "mm_owner_assertion_turn_id x = Some t" "tget tu_id t (md_turns db') = Some u" "tu_deleted_at u = None" for j x t u
  proof -
    have "get_memory j db1 = Some x" "tget tu_id t (md_turns db1) = Some u"
      using only j(1,6) fr(4) g(3) by (simp_all add: only_redacts_def get_memory_def)
    then have "independent [mm_id m] db1 j" using j(2-5,7) by (simp add: independent_def)
    then show ?thesis using cl(2) [of j] unfolding never by blast
  qed
  show ?thesis unfolding left_by_def using fallen rows links survives by (intro exI [of _ "set gone"]) blast
qed


section \<open>Samples\<close>

text \<open>Two memories rest on \<open>m0\<close>; the owner has asserted the second of them himself.\<close>

definition sample_link :: "uuid \<Rightarrow> provenance_row" where
  "sample_link i = \<lparr>pv_memory_id = i, pv_relationship = ''derived_from'', pv_source_turn_id = None, pv_source_candidate_id = None, pv_source_memory_id = Some ''m0''\<rparr>"

definition sample_linked :: "life_db shared_db" where
  "sample_linked = sample_life\<lparr>sd_payload := (sd_payload sample_life)\<lparr>md_memories := [sample_memory,
     sample_memory\<lparr>mm_id := ''m1'', mm_content := Some ''one'', mm_fingerprint := Some ''#one''\<rparr>,
     sample_memory\<lparr>mm_id := ''m2'', mm_content := Some ''two'', mm_fingerprint := Some ''#two'', mm_owner_assertion_turn_id := Some ''t1''\<rparr>],
     md_provenance := [sample_link ''m1'', sample_link ''m2'']\<rparr>\<rparr>"

lemma sample_falls: "''m1'' \<in> falls [''m0''] (sd_payload sample_linked) {''m0''}"
proof -
  have "sample_link ''m1'' \<in> set (md_provenance (sd_payload sample_linked))" by (simp add: sample_linked_def)
  moreover have "\<not> independent [''m0''] (sd_payload sample_linked) ''m1''" by code_simp
  ultimately show ?thesis
    using falls.derived [of "''m0''" "[''m0'']" "sd_payload sample_linked" "{''m0''}" "sample_link ''m1''"]
    by (simp add: falls.root sample_link_def)
qed

theorem descendants_closure_witness:
  "\<exists>gone kept. memory_descendants [''m0''] (sd_payload sample_linked) [''m0''] = Inr (gone, kept) \<and> ''m1'' \<in> set gone \<and> ''m2'' \<notin> set gone"
proof -
  have "\<not> isl (memory_descendants [''m0''] (sd_payload sample_linked) [''m0''])"
    "''m2'' \<notin> set (fst (projr (memory_descendants [''m0''] (sd_payload sample_linked) [''m0''])))" by code_simp+
  then obtain gone kept where g: "memory_descendants [''m0''] (sd_payload sample_linked) [''m0''] = Inr (gone, kept)" "''m2'' \<notin> set gone"
    by (cases "memory_descendants [''m0''] (sd_payload sample_linked) [''m0'']") auto
  then show ?thesis using descendants_closure [of "[''m0'']" "[''m0'']" "sd_payload sample_linked"] sample_falls by (simp add: Let_def)
qed

text \<open>The stages of the sample deletion, each evaluated on the result of the one before.\<close>

definition sample_begun :: life_db where
  "sample_begun = begun (sample_owner ''k1'') ''delete'' [(''scope'', JStr ''memory_and_sources''), (''selector'', JStr ''memory_id''), (''memory_id'', JStr ''m0'')]
     (latest_owner_source None (sd_payload sample_linked)) (sd_payload sample_linked)"

definition sample_purged :: life_db where
  "sample_purged = snd (snd (snd (snd (projr (purge_sources (sample_owner ''k1'') (Some ''old'') ''memory_and_sources'' [''m0'', ''m1''] sample_begun)))))"

definition sample_erased :: life_db where
  "sample_erased = (let db = scrub_command_payloads ''old'' [''m0'', ''m1''] [] (detach_purged_dependencies 20 [''m2''] [] [] [''m0'', ''m1''] sample_purged) in
     db\<lparr>md_memories := where_rows (\<lambda>m. mm_id m \<in> set [''m0'', ''m1'']) (delete_row 20 ''k1'') (md_memories db), ld_capsules := [],
        ld_receipts := tadd \<lparr>dr_operation_id = ''k1'', dr_target_memory_id = ''m0'', dr_scope = ''memory_and_sources'',
          dr_affected = deletion_summary [''m0'', ''m1''] [] [] [''m2'']\<rparr> (ld_receipts db)\<rparr>)"

definition sample_gone :: life_db where
  "sample_gone = projr (apply_owner_command 20 ''k1'' (Some ''m0'') None sample_erased)"

lemma sample_stages:
  "memory_descendants [''m0''] sample_begun [''m0''] = Inr ([''m0'', ''m1''], [''m2''])"
  "purge_sources (sample_owner ''k1'') (Some ''old'') ''memory_and_sources'' [''m0'', ''m1''] sample_begun = Inr ([], [], [], [], sample_purged)"
  "turns_of [''m0'', ''m1''] sample_begun = []" "ld_receipts sample_purged = []"
  "dependent_memory_closure [''m0''] sample_purged [''m0'', ''m1''] [] = Inr ([''m0'', ''m1''], [''m2''])"
  "apply_owner_command 20 ''k1'' (Some ''m0'') None sample_erased = Inr sample_gone" "db_ok sample_gone"
proof -
  have "\<not> isl (purge_sources (sample_owner ''k1'') (Some ''old'') ''memory_and_sources'' [''m0'', ''m1''] sample_begun)"
    "map_sum id (\<lambda>(a, b, c, d, _). [a, b, c, d]) (purge_sources (sample_owner ''k1'') (Some ''old'') ''memory_and_sources'' [''m0'', ''m1''] sample_begun)
      = Inr [[], [], [], []]" by code_simp+
  then show "purge_sources (sample_owner ''k1'') (Some ''old'') ''memory_and_sources'' [''m0'', ''m1''] sample_begun = Inr ([], [], [], [], sample_purged)"
    by (cases "purge_sources (sample_owner ''k1'') (Some ''old'') ''memory_and_sources'' [''m0'', ''m1''] sample_begun") (auto simp: sample_purged_def)
  have "\<not> isl (apply_owner_command 20 ''k1'' (Some ''m0'') None sample_erased)" by code_simp
  then show "apply_owner_command 20 ''k1'' (Some ''m0'') None sample_erased = Inr sample_gone" unfolding sample_gone_def by simp
qed code_simp+

lemma sample_delete_memories:
  "\<exists>out. delete_memories (sample_owner ''k1'') (Some sample_memory) (Some ''old'') ''memory_and_sources'' source sample_begun = Inr (sample_gone, out)"
proof -
  have own: "oe_now (sample_owner k) = 20" "oe_command_id (sample_owner k) = k" for k by (simp_all add: sample_owner_def)
  have id: "mm_id sample_memory = ''m0''" by (simp add: sample_memory_def memory_of_def)
  have sets: "opt_list (map_option mm_id (Some sample_memory)) = [''m0'']" "firsts ([''m2''] @ [''m2'']) = [''m2'']"
    "firsts ([''m0'', ''m1''] @ []) = [''m0'', ''m1'']" by (simp_all add: opt_list_def id)
  have rec: "ld_receipts (scrub_command_payloads c ms ts (detach_purged_dependencies n is ts' cs gs db)) = ld_receipts db"
    for c ms ts n "is" ts' cs gs and db :: life_db
    by (simp add: scrub_command_payloads_def detach_purged_dependencies_def Let_def)
  have "flush sample_gone = Inr sample_gone" using sample_stages(7) by (simp add: flush_def)
  then show ?thesis
    using sample_stages(6)
    unfolding delete_memories_def Let_def option.case sets id own sample_stages(1,2,3,5) ebind_simps prod.case text_of_def sample_erased_def
    by (simp add: rec sample_stages(4,5) invalidate_transcript_derivatives_def)
qed

lemma sample_linked_ok:
  "db_ok (sd_payload sample_linked)" "fresh_command (sample_owner ''k1'') sample_linked"
  "get_memory ''m0'' (sd_payload sample_linked) = Some sample_memory"
  by code_simp+

lemma sample_delete: "\<exists>a s'. delete (sample_owner ''k1'') sample_args sample_linked = (Inr a, s') \<and> sd_payload s' = sample_gone"
proof -
  have m: "mm_status sample_memory \<noteq> DELETED" "mm_content sample_memory = Some ''old''" "mm_id sample_memory = ''m0''"
    by (simp_all add: sample_memory_def memory_of_def)
  let ?source = "latest_owner_source None (sd_payload sample_linked)"
  obtain out where out: "delete_memories (sample_owner ''k1'') (Some sample_memory) (Some ''old'') ''memory_and_sources'' ?source sample_begun = Inr (sample_gone, out)"
    using sample_delete_memories by blast
  have "get_memory ''m0'' sample_begun = Some sample_memory" using sample_linked_ok(3) by (simp add: sample_begun_def)
  then have "delete_mutation (sample_owner ''k1'') (Some (JStr ''m0'')) None ''memory_and_sources'' ?source sample_begun v = Inr (sample_gone, out)" for v
    using out m sample_retire(4) by (simp add: delete_mutation_def uuid_arg_def)
  note run = owner_command_succeeds [where mut = "delete_mutation (sample_owner ''k1'') (Some (JStr ''m0'')) None ''memory_and_sources'' ?source",
    OF sample_linked_ok(2,1) this [unfolded sample_begun_def]]
  show ?thesis
    using run by (simp add: delete_def sample_args_def given_def clean_given_def json_or_def json_true_def Let_def) (simp add: sample_owner_def)
qed


end
