(* ===== verification/Transcript_Properties.thy ===== *)
theory Transcript_Properties
  imports Transcripts
begin

text \<open>
  Properties of the conversations: no operation runs into a constraint of the tables, at most one
  owner chat is open, turns are only appended and never renumbered, the checkpoint column is a
  compare-and-swap register, and the window of recent turns always shows the owner's last message.
\<close>

section \<open>The invariant and the order of histories\<close>

definition numbered_turn :: "transcript_row list \<Rightarrow> turn_row \<Rightarrow> bool" where
  "numbered_turn ts t = (case tget tr_id (tu_transcript_id t) ts of None \<Rightarrow> False
     | Some x \<Rightarrow> 1 \<le> tu_sequence t \<and> tu_sequence t \<le> tr_next_turn_sequence x)"

definition chat_inv :: "'x mem_db_scheme \<Rightarrow> bool" where
  "chat_inv db = (chats_ok db \<and> list_all (\<lambda>x. 0 \<le> tr_next_turn_sequence x) (md_transcripts db)
     \<and> list_all (numbered_turn (md_transcripts db)) (md_turns db))"

definition same_turn :: "turn_row \<Rightarrow> turn_row \<Rightarrow> bool" where
  "same_turn t t' = (tu_id t' = tu_id t \<and> turn_key t' = turn_key t \<and> tu_actor t' = tu_actor t \<and> tu_created_at t' = tu_created_at t
     \<and> (tu_blocks t' = tu_blocks t \<and> tu_deleted_at t' = tu_deleted_at t \<or> tu_deleted_at t' \<noteq> None))"

definition later_chat :: "transcript_row \<Rightarrow> transcript_row \<Rightarrow> bool" where
  "later_chat x x' = (tr_id x' = tr_id x \<and> tr_created_at x' = tr_created_at x \<and> tr_retention_policy x' = tr_retention_policy x
     \<and> tr_next_turn_sequence x \<le> tr_next_turn_sequence x' \<and> tr_content_revision x \<le> tr_content_revision x'
     \<and> tr_active_task_revision x \<le> tr_active_task_revision x'
     \<and> (tr_active_task_revision x = tr_active_task_revision x' \<longrightarrow> tr_active_task_state x' = tr_active_task_state x)
     \<and> (tr_kind x' = tr_kind x \<or> tr_kind x' = ''owner_deleted''))"

definition chat_le :: "'x mem_db_scheme \<Rightarrow> 'x mem_db_scheme \<Rightarrow> bool" where
  "chat_le db db' = ((\<forall>t \<in> set (md_turns db). \<exists>t' \<in> set (md_turns db'). same_turn t t')
     \<and> (\<forall>x \<in> set (md_transcripts db). \<exists>x' \<in> set (md_transcripts db'). later_chat x x')
     \<and> (\<forall>t' \<in> set (md_turns db'). (\<exists>t \<in> set (md_turns db). same_turn t t')
          \<or> (\<forall>x \<in> set (md_transcripts db). tr_id x = tu_transcript_id t' \<longrightarrow> tr_next_turn_sequence x < tu_sequence t')))"

lemma same_turn_refl [simp]: "same_turn t t"
  by (simp add: same_turn_def)

lemma later_chat_refl [simp]: "later_chat x x"
  by (simp add: later_chat_def)

lemma same_turn_trans: "same_turn t u \<Longrightarrow> same_turn u v \<Longrightarrow> same_turn t v"
  unfolding same_turn_def by auto

lemma later_chat_trans: "later_chat x y \<Longrightarrow> later_chat y z \<Longrightarrow> later_chat x z"
  unfolding later_chat_def by fastforce

lemma chat_le_refl: "chat_le db db"
  unfolding chat_le_def using same_turn_refl later_chat_refl by blast

lemma chat_le_trans:
  assumes "chat_le a b" "chat_le b c"
  shows "chat_le a c"
  unfolding chat_le_def
proof (intro conjI ballI)
  fix t assume "t \<in> set (md_turns a)"
  then show "\<exists>t' \<in> set (md_turns c). same_turn t t'" using assms same_turn_trans unfolding chat_le_def by meson
next
  fix x assume "x \<in> set (md_transcripts a)"
  then show "\<exists>x' \<in> set (md_transcripts c). later_chat x x'" using assms later_chat_trans unfolding chat_le_def by meson
next
  fix t assume t: "t \<in> set (md_turns c)"
  have new: "\<forall>x \<in> set (md_transcripts a). tr_id x = tu_transcript_id t \<longrightarrow> tr_next_turn_sequence x < tu_sequence t"
    if "\<forall>x \<in> set (md_transcripts b). tr_id x = tu_transcript_id t \<longrightarrow> tr_next_turn_sequence x < tu_sequence t"
    using that assms(1) unfolding chat_le_def later_chat_def by fastforce
  consider u where "u \<in> set (md_turns b)" "same_turn u t"
    | "\<forall>x \<in> set (md_transcripts b). tr_id x = tu_transcript_id t \<longrightarrow> tr_next_turn_sequence x < tu_sequence t"
    using t assms(2) unfolding chat_le_def by blast
  then show "(\<exists>t' \<in> set (md_turns a). same_turn t' t)
      \<or> (\<forall>x \<in> set (md_transcripts a). tr_id x = tu_transcript_id t \<longrightarrow> tr_next_turn_sequence x < tu_sequence t)"
  proof cases
    case (1 u)
    then have "tu_transcript_id u = tu_transcript_id t" "tu_sequence u = tu_sequence t" by (simp_all add: same_turn_def turn_key_def)
    then show ?thesis using 1 assms(1) same_turn_trans unfolding chat_le_def by metis
  next
    case 2
    then show ?thesis using new by blast
  qed
qed

section \<open>The three ways a table changes\<close>

lemma filter_tadd [simp]: "filter P (tadd r rows) = (if P r then tadd r (filter P rows) else filter P rows)"
  by (simp add: tadd_def)

lemma length_tadd [simp]: "length (tadd r rows) = Suc (length rows)"
  by (simp add: tadd_def)

text \<open>Rows are rewritten in place and keep their identity.\<close>

lemma rewritten_chats:
  fixes db db' :: "'x mem_db_scheme"
  assumes "chat_inv db" "md_transcripts db' = map f (md_transcripts db)" "md_turns db' = map g (md_turns db)"
    and f: "\<And>x. later_chat x (f x)" and g: "\<And>t. same_turn t (g t)"
    and "length (filter active_chat (md_transcripts db')) \<le> 1"
  shows "chat_inv db'" "chat_le db db'"
proof -
  have id: "tr_id (f x) = tr_id x" "tr_next_turn_sequence x \<le> tr_next_turn_sequence (f x)" for x using f [of x] by (simp_all add: later_chat_def)
  have key: "tu_id (g t) = tu_id t" "turn_key (g t) = turn_key t" for t using g [of t] by (simp_all add: same_turn_def)
  have "numbered_turn (map f ts) (g t)" if "numbered_turn ts t" for ts t
    using that id key(2) [of t] order_trans by (fastforce simp: numbered_turn_def tget_map turn_key_def split: option.splits)
  then show "chat_inv db'" using assms(1-3,6) key id order_trans by (fastforce simp: chat_inv_def chats_ok_def keyed_map list_all_iff)
  show "chat_le db db'" using assms(2,3) f g unfolding chat_le_def by auto
qed

lemma new_chat:
  fixes db :: "'x mem_db_scheme"
  assumes "chat_inv db" "tr_id x \<notin> tr_id ` set (md_transcripts db)" "0 \<le> tr_next_turn_sequence x" "active_chat x \<longrightarrow> filter active_chat (md_transcripts db) = []"
  defines "db' \<equiv> db\<lparr>md_transcripts := tadd x (md_transcripts db)\<rparr>"
  shows "chat_inv db'" "chat_le db db'"
proof -
  have "numbered_turn (tadd x ts) t" if "numbered_turn ts t" for ts t
    using that by (auto simp: numbered_turn_def tget_tadd split: option.splits)
  then show "chat_inv db'" using assms(1-4) by (auto simp: chat_inv_def chats_ok_def db'_def list_all_iff)
  show "chat_le db db'" unfolding chat_le_def db'_def by simp (blast intro: same_turn_refl later_chat_refl)
qed

lemma new_chat_turn:
  fixes db :: "'x mem_db_scheme"
  assumes "chat_inv db" "get_transcript i db = Some x" "k \<notin> tu_id ` set (md_turns db)"
    and f: "\<And>x. later_chat x (f x)" "tr_next_turn_sequence (f x) = tr_next_turn_sequence x + 1" "\<And>x. active_chat (f x) = active_chat x"
    and t: "tu_id t = k" "tu_transcript_id t = i" "tu_sequence t = tr_next_turn_sequence x + 1"
  defines "db' \<equiv> (upd_transcript i f db)\<lparr>md_turns := tadd t (md_turns db)\<rparr>"
  shows "chat_inv db'" "chat_le db db'"
proof -
  have x: "x \<in> set (md_transcripts db)" "tr_id x = i" using tget_key [of tr_id i] assms(2) by (auto simp: get_transcript_def)
  have step: "later_chat y (f y)" "tr_id (f y) = tr_id y" "tr_next_turn_sequence y \<le> tr_next_turn_sequence (f y)" for y
    using f(1) [of y] by (simp_all add: later_chat_def)
  have old: "numbered_turn (tset tr_id i f (md_transcripts db)) u" if "numbered_turn (md_transcripts db) u" for u
    using that step(2,3) order_trans by (fastforce simp: numbered_turn_def tget_tset split: option.splits)
  have "0 \<le> tr_next_turn_sequence x" using assms(1) x(1) by (simp add: chat_inv_def list_all_iff)
  then have new: "numbered_turn (tset tr_id i f (md_transcripts db)) t"
    using t f(2) assms(2) step(2) by (auto simp: numbered_turn_def tget_tset get_transcript_def)
  have fresh: "turn_key t \<noteq> turn_key u" if "u \<in> set (md_turns db)" for u
  proof
    assume "turn_key t = turn_key u"
    then have "tu_transcript_id u = i" "tu_sequence u = tr_next_turn_sequence x + 1" using t by (simp_all add: turn_key_def)
    moreover have "numbered_turn (md_transcripts db) u" using assms(1) that by (simp add: chat_inv_def list_all_iff)
    ultimately show False using assms(2) by (simp add: numbered_turn_def get_transcript_def)
  qed
  have "filter active_chat (tset tr_id i f ts) = tset tr_id i f (filter active_chat ts)" for ts
    by (induction ts) (simp_all add: f(3))
  then have "chats_ok db'"
    using assms(1,3) t(1) fresh step(2) by (auto simp: chat_inv_def chats_ok_def db'_def upd_transcript_def)
  moreover have "0 \<le> tr_next_turn_sequence (f y)" if "y \<in> set (md_transcripts db)" for y
    using that assms(1) step(3) [of y] by (fastforce simp: chat_inv_def list_all_iff)
  ultimately show "chat_inv db'"
    using assms(1) old new unfolding chat_inv_def list_all_iff by (auto simp: db'_def upd_transcript_def set_tset)
  show "chat_le db db'"
    unfolding chat_le_def
  proof (intro conjI ballI)
    fix u assume "u \<in> set (md_turns db)"
    then show "\<exists>u' \<in> set (md_turns db'). same_turn u u'" unfolding db'_def by (auto intro: bexI [of _ u])
  next
    fix y assume "y \<in> set (md_transcripts db)"
    then show "\<exists>y' \<in> set (md_transcripts db'). later_chat y y'" unfolding db'_def upd_transcript_def
      by (intro bexI [of _ "if tr_id y = i then f y else y"]) (auto simp: set_tset step(1))
  next
    fix u assume "u \<in> set (md_turns db')"
    then have "u = t \<or> u \<in> set (md_turns db)" by (simp add: db'_def)
    moreover have "y = x" if "y \<in> set (md_transcripts db)" "tr_id y = i" for y
      using keyed_inj [of tr_id "md_transcripts db" y x] that x assms(1) by (simp add: chat_inv_def chats_ok_def)
    ultimately show "(\<exists>u' \<in> set (md_turns db). same_turn u' u)
        \<or> (\<forall>y \<in> set (md_transcripts db). tr_id y = tu_transcript_id u \<longrightarrow> tr_next_turn_sequence y < tu_sequence u)"
      using t same_turn_refl [of u] by (cases "u \<in> set (md_turns db)") (blast, auto)
  qed
qed

section \<open>Every operation\<close>

text \<open>
  The contract of an operation on the conversations: when it is ready (its new identities are fresh), it keeps
  the invariant, moves forward in the order of histories, and runs into no constraint.
\<close>

locale chat_operation =
  fixes op :: "'x mem_db_scheme \<Rightarrow> mem_error + ('r \<times> 'x mem_db_scheme)" and ready :: "'x mem_db_scheme \<Rightarrow> bool"
  assumes kept: "chat_inv db \<Longrightarrow> ready db \<Longrightarrow> op db = Inr (r, db') \<Longrightarrow> chat_inv db' \<and> chat_le db db'"
    and clean: "chat_inv db \<Longrightarrow> ready db \<Longrightarrow> op db \<noteq> Inl MIntegrityError"

lemma flush_chats_ok: "chat_inv db \<Longrightarrow> flush_chats db = Inr db"
  by (simp add: flush_chats_def chat_inv_def)

lemma only_active:
  assumes "keyed tr_id xs" "\<And>x. x \<in> set xs \<Longrightarrow> active_chat x \<Longrightarrow> tr_id x = i"
  shows "length (filter active_chat xs) \<le> 1"
proof -
  have "distinct (map tr_id (filter active_chat xs))" using assms(1) unfolding keyed_def by (rule distinct_map_filter)
  moreover have "set (map tr_id (filter active_chat xs)) \<subseteq> {i}" using assms(2) by auto
  ultimately show ?thesis
    by (metis card_mono card.empty card.insert distinct_card empty_iff finite.simps length_map One_nat_def)
qed

lemma fewer_active:
  assumes "\<And>x. active_chat (f x) \<Longrightarrow> active_chat x"
  shows "length (filter active_chat (map f xs)) \<le> length (filter active_chat xs)"
  using assms by (induction xs) auto

definition fresh_chat :: "uuid \<Rightarrow> 'x mem_db_scheme \<Rightarrow> bool" where
  "fresh_chat i db = (i \<notin> tr_id ` set (md_transcripts db))"

definition fresh_turn :: "uuid \<Rightarrow> 'x mem_db_scheme \<Rightarrow> bool" where
  "fresh_turn k db = (k \<notin> tu_id ` set (md_turns db))"

lemma created:
  assumes "chat_inv db" "fresh_chat i db" "kind = ''owner'' \<longrightarrow> filter active_chat (md_transcripts db) = []"
  shows "create_transcript i now kind title retention db = Inr (x, db') \<Longrightarrow> chat_inv db' \<and> chat_le db db'"
    and "create_transcript i now kind title retention db \<noteq> Inl MIntegrityError"
proof -
  have new: "chat_inv (db\<lparr>md_transcripts := tadd y (md_transcripts db)\<rparr>)" "chat_le db (db\<lparr>md_transcripts := tadd y (md_transcripts db)\<rparr>)"
    if "y = new_transcript i now kind r t" for y r t
    using that assms new_chat [of db y] by (simp_all add: new_transcript_def fresh_chat_def active_chat_def)
  then show "create_transcript i now kind title retention db = Inr (x, db') \<Longrightarrow> chat_inv db' \<and> chat_le db db'"
    by (auto simp: create_transcript_def Let_def flush_chats_def split: if_splits)
  show "create_transcript i now kind title retention db \<noteq> Inl MIntegrityError"
    using flush_chats_ok [OF new(1) [OF refl]] by (auto simp: create_transcript_def Let_def ebind_Inl)
qed

lemma closed_chats:
  fixes db :: "'x mem_db_scheme"
  assumes "chat_inv db"
  shows "chat_inv (close_chats now P db)" "chat_le db (close_chats now P db)"
proof -
  define f where "f t = (if active_chat t \<and> P t then t\<lparr>tr_closed_at := Some now\<rparr> else t)" for t
  have "length (filter active_chat (map f (md_transcripts db))) \<le> length (filter active_chat (md_transcripts db))"
    by (rule fewer_active) (simp add: f_def active_chat_def split: if_splits)
  moreover have "md_transcripts (close_chats now P db) = map f (md_transcripts db)" by (simp add: close_chats_def f_def)
  moreover have "md_turns (close_chats now P db) = map id (md_turns db)" by (simp add: close_chats_def)
  moreover have "later_chat x (f x)" for x by (simp add: f_def later_chat_def)
  moreover have "length (filter active_chat (md_transcripts db)) \<le> 1" using assms by (simp add: chat_inv_def chats_ok_def)
  ultimately show "chat_inv (close_chats now P db)" "chat_le db (close_chats now P db)"
    using rewritten_chats [OF assms, of "close_chats now P db" f id] by simp_all
qed

lemma none_active: "filter active_chat (md_transcripts (close_chats now (\<lambda>_. True) db)) = []"
  by (auto simp: close_chats_def filter_empty_conv active_chat_def)

text \<open>One chat is rewritten.\<close>

lemma chat_updated:
  fixes db :: "'x mem_db_scheme"
  assumes "chat_inv db" "\<And>x. later_chat x (f x)"
    and "(\<forall>x. active_chat (f x) \<longrightarrow> active_chat x) \<or> (\<forall>x \<in> set (md_transcripts db). active_chat x \<longrightarrow> tr_id x = i)"
  shows "chat_inv (upd_transcript i f db)" "chat_le db (upd_transcript i f db)"
proof -
  let ?f = "\<lambda>r. if tr_id r = i then f r else r"
  have same: "tr_id (?f x) = tr_id x" "later_chat x (?f x)" for x using assms(2) [of x] by (simp_all add: later_chat_def)
  have ts: "md_transcripts (upd_transcript i f db) = map ?f (md_transcripts db)" by (simp add: upd_transcript_def tset_def)
  have "length (filter active_chat (map ?f (md_transcripts db))) \<le> 1"
    using assms(3)
  proof
    assume "\<forall>x. active_chat (f x) \<longrightarrow> active_chat x"
    then have "length (filter active_chat (map ?f (md_transcripts db))) \<le> length (filter active_chat (md_transcripts db))"
      by (intro fewer_active) (simp split: if_splits)
    then show ?thesis using assms(1) by (simp add: chat_inv_def chats_ok_def)
  next
    assume "\<forall>x \<in> set (md_transcripts db). active_chat x \<longrightarrow> tr_id x = i"
    moreover have "keyed tr_id (map ?f (md_transcripts db))" using assms(1) same(1) keyed_map [of tr_id ?f] by (simp add: chat_inv_def chats_ok_def)
    moreover have "tr_id (f x) = tr_id x" for x using assms(2) [of x] by (simp add: later_chat_def)
    ultimately show ?thesis by (intro only_active [of _ i]) (auto split: if_splits)
  qed
  then show "chat_inv (upd_transcript i f db)" "chat_le db (upd_transcript i f db)"
    using rewritten_chats [OF assms(1), of "upd_transcript i f db" ?f id] ts same by (simp_all add: upd_transcript_def)
qed

lemma owner_chat_Inr: "owner_chat i db = Inr t \<longleftrightarrow> get_transcript i db = Some t \<and> tr_kind t = ''owner''"
  by (auto simp: owner_chat_def)

lemma owner_chat_Inl: "owner_chat i db \<noteq> Inl MIntegrityError"
  by (auto simp: owner_chat_def ebind_Inl the_row_def split: option.splits)

lemma the_active:
  assumes "chat_inv db" "t \<in> set (md_transcripts db)" "active_chat t" "x \<in> set (md_transcripts db)" "active_chat x"
  shows "x = t"
proof -
  have "length (filter active_chat (md_transcripts db)) \<le> 1" using assms(1) by (simp add: chat_inv_def chats_ok_def)
  moreover have "t \<in> set (filter active_chat (md_transcripts db))" "x \<in> set (filter active_chat (md_transcripts db))" using assms(2-5) by simp_all
  ultimately show ?thesis by (cases "filter active_chat (md_transcripts db)") auto
qed

lemma get_transcript_in: "get_transcript i db = Some t \<Longrightarrow> t \<in> set (md_transcripts db) \<and> tr_id t = i"
  using tget_key [of tr_id i] by (auto simp: get_transcript_def)

interpretation create: chat_operation "create_owner_chat i now title" "fresh_chat i" for i now title
proof
  fix db :: "'x mem_db_scheme" assume inv: "chat_inv db" and fresh: "fresh_chat i db"
  let ?closed = "close_chats now (\<lambda>_. True) db"
  have "fresh_chat i ?closed" using fresh by (auto simp: fresh_chat_def close_chats_def split: if_splits)
  note ready = closed_chats(1) [OF inv] this
  show "create_owner_chat i now title db \<noteq> Inl MIntegrityError"
    unfolding create_owner_chat_def using created(2) [OF ready] none_active by blast
  show "chat_inv db' \<and> chat_le db db'" if "create_owner_chat i now title db = Inr (r, db')" for r db'
    using created(1) [OF ready, of "''owner''"] none_active that chat_le_trans closed_chats(2) [OF inv] unfolding create_owner_chat_def by blast
qed

interpretation active: chat_operation "get_or_create_active i now" "fresh_chat i" for i now
proof
  fix db :: "'x mem_db_scheme" assume ready: "chat_inv db" "fresh_chat i db"
  let ?found = "latest_by (\<lambda>t. (tr_created_at t, tr_id t)) (filter active_chat (md_transcripts db))"
  have none: "filter active_chat (md_transcripts db) = []" if "?found = None" using that by (simp add: latest_by_def split: list.splits)
  show "get_or_create_active i now db \<noteq> Inl MIntegrityError"
    unfolding get_or_create_active_def using created(2) [OF ready] none by (auto split: option.splits)
  show "chat_inv db' \<and> chat_le db db'" if "get_or_create_active i now db = Inr (r, db')" for r db'
    using that created(1) [OF ready, of "''owner''"] none chat_le_refl ready(1) unfolding get_or_create_active_def
    by (auto split: option.splits)
qed

interpretation activate: chat_operation "activate_owner_chat now i" "\<lambda>_. True" for now i
proof
  fix db :: "'x mem_db_scheme" assume inv: "chat_inv db"
  let ?closed = "close_chats now (\<lambda>x. tr_id x \<noteq> i) db"
  let ?opened = "upd_transcript i reopened ?closed"
  have "\<forall>x \<in> set (md_transcripts ?closed). active_chat x \<longrightarrow> tr_id x = i" by (auto simp: close_chats_def active_chat_def)
  then have ok: "chat_inv ?opened" "chat_le ?closed ?opened"
    using chat_updated [OF closed_chats(1) [OF inv], of reopened] by (simp_all add: reopened_def later_chat_def)
  have fl: "flush_chats ?opened = Inr ?opened" by (rule flush_chats_ok [OF ok(1)])
  show "activate_owner_chat now i db \<noteq> Inl MIntegrityError"
    using owner_chat_Inl [of i db] by (auto simp: activate_owner_chat_def fl ebind_Inl split: if_splits)
  show "chat_inv db' \<and> chat_le db db'" if "activate_owner_chat now i db = Inr (r, db')" for r db'
    using that ok chat_le_trans [OF closed_chats(2) [OF inv] ok(2)] inv chat_le_refl
    by (auto simp: activate_owner_chat_def fl split: if_splits)
qed

interpretation rename: chat_operation "rename_owner_chat now i title" "\<lambda>_. True" for now i title
proof
  fix db :: "'x mem_db_scheme" assume inv: "chat_inv db"
  let ?f = "\<lambda>x. x\<lparr>tr_title := Some (clean_title (Some title) []), tr_updated_at := now\<rparr>"
  have ok: "chat_inv (upd_transcript i ?f db)" "chat_le db (upd_transcript i ?f db)"
    using chat_updated [OF inv, of ?f i] by (simp_all add: later_chat_def active_chat_def)
  have fl: "flush_chats (upd_transcript i ?f db) = Inr (upd_transcript i ?f db)" by (rule flush_chats_ok [OF ok(1)])
  show "rename_owner_chat now i title db \<noteq> Inl MIntegrityError"
    using owner_chat_Inl [of i db] by (auto simp: rename_owner_chat_def Let_def fl ebind_Inl)
  show "chat_inv db' \<and> chat_le db db'" if "rename_owner_chat now i title db = Inr (r, db')" for r db'
    using that ok by (auto simp: rename_owner_chat_def Let_def fl)
qed

text \<open>Deleting a chat.\<close>

lemma erased_chat:
  fixes db :: "'x life_db_scheme"
  assumes "chat_inv db"
  shows "chat_inv (erase_chat now i db)" "chat_le db (erase_chat now i db)"
proof -
  let ?f = "\<lambda>r. if tr_id r = i then deleted_chat now r else r" and ?g = "\<lambda>t. if tu_transcript_id t = i then deleted_turn now t else t"
  have rows: "md_transcripts (erase_chat now i db) = map ?f (md_transcripts db)" "md_turns (erase_chat now i db) = map ?g (md_turns db)"
    by (simp_all add: erase_chat_def upd_transcript_def tset_def)
  have "length (filter active_chat (map ?f (md_transcripts db))) \<le> length (filter active_chat (md_transcripts db))"
    by (rule fewer_active) (simp add: active_chat_def deleted_chat_def split: if_splits)
  then have "length (filter active_chat (md_transcripts (erase_chat now i db))) \<le> 1"
    using assms rows(1) by (simp add: chat_inv_def chats_ok_def)
  moreover have "later_chat x (?f x)" for x by (simp add: later_chat_def deleted_chat_def)
  moreover have "same_turn t (?g t)" for t by (simp add: same_turn_def deleted_turn_def turn_key_def)
  ultimately show "chat_inv (erase_chat now i db)" "chat_le db (erase_chat now i db)"
    using rewritten_chats [OF assms rows] by blast+
qed

lemma erased_owner: "x \<in> set (md_transcripts (erase_chat now i db)) \<Longrightarrow> tr_kind x = ''owner'' \<Longrightarrow> x \<in> set (md_transcripts db) \<and> tr_id x \<noteq> i"
  by (auto simp: erase_chat_def upd_transcript_def set_tset deleted_chat_def split: if_splits)

interpretation remove_chat: chat_operation "delete_owner_chat fresh now i" "fresh_chat fresh" for fresh now i
proof
  fix db :: "'x life_db_scheme" assume inv: "chat_inv db" and fresh: "fresh_chat fresh db"
  note erased = erased_chat [OF inv, of now i]
  let ?db = "erase_chat now i db"
  have fr: "fresh_chat fresh ?db" using fresh by (auto simp: fresh_chat_def erase_chat_def upd_transcript_def set_tset deleted_chat_def split: if_splits)
  have fl: "flush_chats ?db = Inr ?db" by (rule flush_chats_ok [OF erased(1)])
  have none: "\<not> active_chat x" if "owner_chat i db = Inr t" "tr_closed_at t = None" "x \<in> set (md_transcripts ?db)" for t x
  proof
    assume x: "active_chat x"
    then have "x \<in> set (md_transcripts db)" "tr_id x \<noteq> i" using erased_owner [OF that(3)] by (auto simp: active_chat_def)
    moreover have "t \<in> set (md_transcripts db)" "tr_id t = i" "active_chat t" using that(1,2) get_transcript_in [of i db t] by (auto simp: owner_chat_Inr active_chat_def)
    ultimately show False using the_active [OF inv _ _ _ x] by blast
  qed
  have reopen: "chat_inv (upd_transcript k reopened ?db)" "chat_le ?db (upd_transcript k reopened ?db)"
    if "owner_chat i db = Inr t" "tr_closed_at t = None" for t k
    using chat_updated [OF erased(1), of reopened k] none [OF that] by (simp_all add: reopened_def later_chat_def)
  have empty: "filter active_chat (md_transcripts ?db) = []" if "owner_chat i db = Inr t" "tr_closed_at t = None" for t
    using none [OF that] by (simp add: filter_empty_conv)
  show "delete_owner_chat fresh now i db \<noteq> Inl MIntegrityError"
    using owner_chat_Inl [of i db] active.clean [OF erased(1) fr] created(2) [OF erased(1) fr] empty flush_chats_ok [OF reopen(1)]
    by (auto simp: delete_owner_chat_def fl ebind_Inl split: if_splits list.splits)
  show "chat_inv db' \<and> chat_le db db'" if "delete_owner_chat fresh now i db = Inr (r, db')" for r db'
  proof -
    have "chat_inv db' \<and> chat_le ?db db'"
      using that active.kept [OF erased(1) fr] created(1) [OF erased(1) fr] empty flush_chats_ok [OF reopen(1)] reopen
      by (auto simp: delete_owner_chat_def fl split: if_splits list.splits)
    then show ?thesis using chat_le_trans [OF erased(2)] by blast
  qed
qed

text \<open>Turns, checkpoints and summaries.\<close>

lemma appended_turn:
  assumes "chat_inv db" "fresh_turn k db" "get_transcript i db = Some t"
    and turn_def: "turn = new_turn k i now actor (tr_next_turn_sequence t + 1) blocks"
  shows "\<exists>db'. append_turn k now i actor blocks db = Inr (turn, db') \<and> chat_inv db' \<and> chat_le db db' \<and> md_turns db' = tadd turn (md_turns db)"
proof -
  define title where "title = (if actor = ''owner'' \<and> tr_next_turn_sequence t + 1 = 1 then suggest_title blocks else None)"
  define f where "f = entitle title \<circ> count_turn now"
  let ?db = "(upd_transcript i f db)\<lparr>md_turns := tadd turn (md_turns db)\<rparr>"
  have f: "later_chat x (f x)" "tr_next_turn_sequence (f x) = tr_next_turn_sequence x + 1" "active_chat (f x) = active_chat x" for x
    by (simp_all add: f_def later_chat_def entitle_def count_turn_def active_chat_def split: option.splits)
  have ok: "chat_inv ?db" "chat_le db ?db"
    using new_chat_turn [OF assms(1,3) _ f(1) f(2) f(3), of k turn] assms(2) by (simp_all add: turn_def new_turn_def fresh_turn_def)
  then show ?thesis using flush_chats_ok [OF ok(1)] assms(3) by (simp add: append_turn_def Let_def title_def turn_def f_def)
qed

interpretation append: chat_operation "append_turn k now i actor blocks" "fresh_turn k" for k now i actor blocks
proof
  fix db :: "'x mem_db_scheme" assume ready: "chat_inv db" "fresh_turn k db"
  have missing: "append_turn k now i actor blocks db = Inl (MLookupError ''No row was found when one was required'')"
    if "get_transcript i db = None" using that by (simp add: append_turn_def)
  show "append_turn k now i actor blocks db \<noteq> Inl MIntegrityError"
    using missing appended_turn [OF ready _ refl, of i _ now actor blocks] by (cases "get_transcript i db") fastforce+
  show "chat_inv db' \<and> chat_le db db'" if "append_turn k now i actor blocks db = Inr (r, db')" for r db'
    using that missing appended_turn [OF ready _ refl, of i _ now actor blocks] by (cases "get_transcript i db") fastforce+
qed

lemma task_state_written:
  assumes "chat_inv db" "update_active_task_state fresh i state expected db = Inr (r, db')"
  shows "chat_inv db' \<and> chat_le db db'"
proof -
  let ?s = "stamped_state fresh state (expected + 1)"
  let ?f = "\<lambda>t. if tr_active_task_revision t = expected then t\<lparr>tr_active_task_state := ?s, tr_active_task_revision := expected + 1\<rparr> else t"
  have "db' = upd_transcript i ?f db" using assms(2) by (simp add: update_active_task_state_def Let_def)
  then show ?thesis using chat_updated [OF assms(1), of ?f i] by (simp add: later_chat_def active_chat_def)
qed

interpretation checkpoint: chat_operation "update_active_task_state fresh i state expected" "\<lambda>_. True" for fresh i state expected
  by unfold_locales (simp add: task_state_written, simp add: update_active_task_state_def Let_def require_def)

interpretation transform: chat_operation "mutate_active_task_state fresh i f expected" "\<lambda>_. True" for fresh i f expected
proof
  fix db :: "'x mem_db_scheme" assume inv: "chat_inv db"
  show "mutate_active_task_state fresh i f expected db \<noteq> Inl MIntegrityError"
    using checkpoint.clean [OF inv] by (auto simp: mutate_active_task_state_def ebind_Inl Let_def the_row_def split: option.splits if_splits)
  show "chat_inv db' \<and> chat_le db db'" if "mutate_active_task_state fresh i f expected db = Inr (r, db')" for r db'
    using that task_state_written [OF inv] inv chat_le_refl by (auto simp: mutate_active_task_state_def Let_def split: if_splits)
qed

interpretation summary: chat_operation "\<lambda>db. map_sum id (Pair ()) (update_context_summary i summ through db)" "\<lambda>_. True" for i summ through
proof
  fix db :: "'x mem_db_scheme" assume inv: "chat_inv db"
  let ?f = "\<lambda>t. t\<lparr>tr_context_summary := Some summ, tr_summarized_through_turn_id := Some through\<rparr>"
  have ok: "chat_inv (upd_transcript i ?f db)" "chat_le db (upd_transcript i ?f db)"
    using chat_updated [OF inv, of ?f i] by (simp_all add: later_chat_def active_chat_def)
  then show "map_sum id (Pair ()) (update_context_summary i summ through db) \<noteq> Inl MIntegrityError"
    by (cases "get_transcript i db") (simp_all add: update_context_summary_def flush_chats_ok)
  show "chat_inv db' \<and> chat_le db db'" if "map_sum id (Pair ()) (update_context_summary i summ through db) = Inr (r, db')" for r db'
    using that ok by (cases "get_transcript i db") (simp_all add: update_context_summary_def flush_chats_ok)
qed

section \<open>Histories\<close>

text \<open>The operations in any order; new identities are fresh.\<close>

inductive chat_step :: "'x life_db_scheme \<Rightarrow> 'x life_db_scheme \<Rightarrow> bool" where
  Create: "fresh_chat i db \<Longrightarrow> create_owner_chat i now title db = Inr (r, db') \<Longrightarrow> chat_step db db'"
| Get_or_create: "fresh_chat i db \<Longrightarrow> get_or_create_active i now db = Inr (r, db') \<Longrightarrow> chat_step db db'"
| Activate: "activate_owner_chat now i db = Inr (r, db') \<Longrightarrow> chat_step db db'"
| Rename: "rename_owner_chat now i title db = Inr (r, db') \<Longrightarrow> chat_step db db'"
| Delete: "fresh_chat k db \<Longrightarrow> delete_owner_chat k now i db = Inr (r, db') \<Longrightarrow> chat_step db db'"
| Append: "fresh_turn k db \<Longrightarrow> append_turn k now i actor blocks db = Inr (u, db') \<Longrightarrow> chat_step db db'"
| Checkpoint: "update_active_task_state k i state expected db = Inr (d, db') \<Longrightarrow> chat_step db db'"
| Transform: "mutate_active_task_state k i f task db = Inr (d, db') \<Longrightarrow> chat_step db db'"
| Summarize: "update_context_summary i summ through db = Inr db' \<Longrightarrow> chat_step db db'"

lemma chat_step_kept: "chat_step db db' \<Longrightarrow> chat_inv db \<Longrightarrow> chat_inv db' \<and> chat_le db db'"
proof (induction rule: chat_step.induct)
  case (Summarize i summ through db db')
  then show ?case using summary.kept [of db i summ through "()" db'] by simp
qed (metis create.kept active.kept activate.kept rename.kept remove_chat.kept append.kept checkpoint.kept transform.kept)+

interpretation chats: guarded_steps chat_step chat_inv chat_le
  using chat_step_kept chat_le_refl chat_le_trans by unfold_locales blast+

text \<open>C32: histories of conversations. Whatever the order of the operations, at most one owner chat is open and no two turns of a
  transcript share a number; no turn is lost, renumbered or given to another speaker, its text changes only by a deletion, and
  a new turn comes after every older turn of its transcript. A checkpoint changes only together with its revision.\<close>

theorem chat_history:
  assumes "chat_inv db" "chat_step\<^sup>*\<^sup>* db db'"
  shows "length (filter active_chat (md_transcripts db')) \<le> 1 \<and> keyed turn_key (md_turns db')
    \<and> (\<forall>t \<in> set (md_turns db). \<exists>t' \<in> set (md_turns db'). tu_id t' = tu_id t \<and> turn_key t' = turn_key t \<and> tu_actor t' = tu_actor t
          \<and> (tu_blocks t' = tu_blocks t \<or> tu_deleted_at t' \<noteq> None))
    \<and> (\<forall>t \<in> set (md_turns db). \<forall>t' \<in> set (md_turns db'). tu_id t' \<notin> tu_id ` set (md_turns db)
          \<longrightarrow> tu_transcript_id t' = tu_transcript_id t \<longrightarrow> tu_sequence t < tu_sequence t')
    \<and> (\<forall>x \<in> set (md_transcripts db). \<exists>x' \<in> set (md_transcripts db'). tr_id x' = tr_id x
          \<and> tr_active_task_revision x \<le> tr_active_task_revision x'
          \<and> (tr_active_task_revision x' = tr_active_task_revision x \<longrightarrow> tr_active_task_state x' = tr_active_task_state x))"
proof -
  have inv: "chat_inv db'" and le: "chat_le db db'" using chats.history [OF assms(2,1)] by blast+
  have after: "tu_sequence t < tu_sequence t'"
    if t: "t \<in> set (md_turns db)" "t' \<in> set (md_turns db')" "tu_id t' \<notin> tu_id ` set (md_turns db)" "tu_transcript_id t' = tu_transcript_id t" for t t'
  proof -
    have "numbered_turn (md_transcripts db) t" using assms(1) t(1) by (simp add: chat_inv_def list_all_iff)
    then obtain x where x: "tget tr_id (tu_transcript_id t) (md_transcripts db) = Some x" "tu_sequence t \<le> tr_next_turn_sequence x"
      by (auto simp: numbered_turn_def split: option.splits)
    have "\<not> same_turn u t'" if "u \<in> set (md_turns db)" for u using t(3) that by (auto simp: same_turn_def)
    then have "tr_next_turn_sequence x < tu_sequence t'" using le t(2,4) tget_key [OF x(1)] unfolding chat_le_def by metis
    then show ?thesis using x(2) by simp
  qed
  show ?thesis using inv le after unfolding chat_inv_def chats_ok_def chat_le_def same_turn_def later_chat_def by (intro conjI) (blast | metis)+
qed

lemma filter_keyed:
  assumes "keyed key rows" "tget key k rows = Some r"
  shows "filter (\<lambda>x. key x = k \<and> P x) rows = (if P r then [r] else [])"
  using assms by (induction rows) (auto simp: keyed_def filter_empty_conv image_iff eq_commute split: if_splits)

lemma get_upd_transcript: "(\<And>x. tr_id (f x) = tr_id x) \<Longrightarrow> get_transcript i (upd_transcript i f db) = map_option f (get_transcript i db)"
  by (simp add: get_transcript_def upd_transcript_def tget_tset)

text \<open>A checkpoint write on the row it names.\<close>

lemma task_state_update:
  fixes db :: "'x mem_db_scheme"
  assumes "chat_inv db" "get_transcript i db = Some t"
  shows "tr_active_task_revision t \<noteq> expected \<Longrightarrow>
      update_active_task_state fresh i state expected db = Inl (MValueError ''Active task changed; reload before updating'')"
    and "tr_active_task_revision t = expected \<Longrightarrow> \<exists>db'.
      update_active_task_state fresh i state expected db = Inr (stamped_state fresh state (expected + 1), db') \<and> chat_inv db'
      \<and> get_transcript i db' = Some (t\<lparr>tr_active_task_state := stamped_state fresh state (expected + 1), tr_active_task_revision := expected + 1\<rparr>)"
proof -
  have "keyed tr_id (md_transcripts db)" using assms(1) by (simp add: chat_inv_def chats_ok_def)
  then have rows: "filter (\<lambda>x. tr_id x = i \<and> tr_active_task_revision x = expected) (md_transcripts db) = (if tr_active_task_revision t = expected then [t] else [])"
    using assms(2) by (intro filter_keyed) (simp_all add: get_transcript_def)
  then show "tr_active_task_revision t \<noteq> expected \<Longrightarrow>
      update_active_task_state fresh i state expected db = Inl (MValueError ''Active task changed; reload before updating'')"
    by (simp add: update_active_task_state_def Let_def)
  let ?s = "stamped_state fresh state (expected + 1)"
  let ?f = "\<lambda>t. if tr_active_task_revision t = expected then t\<lparr>tr_active_task_state := ?s, tr_active_task_revision := expected + 1\<rparr> else t"
  assume rev: "tr_active_task_revision t = expected"
  then have ans: "update_active_task_state fresh i state expected db = Inr (?s, upd_transcript i ?f db)"
    using rows by (simp add: update_active_task_state_def Let_def)
  moreover have "get_transcript i (upd_transcript i ?f db) = Some (?f t)" using assms(2) by (subst get_upd_transcript) simp_all
  ultimately show "\<exists>db'. update_active_task_state fresh i state expected db = Inr (?s, db') \<and> chat_inv db'
      \<and> get_transcript i db' = Some (t\<lparr>tr_active_task_state := ?s, tr_active_task_revision := expected + 1\<rparr>)"
    using task_state_written [OF assms(1) ans] rev by auto
qed

text \<open>C33: the checkpoint column is a compare-and-swap register. A write succeeds exactly when the writer names the current revision; it is
  then what is read back, under the next revision, and a second writer that had read the same checkpoint is refused. A
  transformation of the locked checkpoint is refused only for the wrong task, and is applied to the current one.\<close>

theorem checkpoint_compare_and_swap:
  assumes "chat_inv db" "get_transcript i db = Some t"
  shows "(case update_active_task_state fresh i state expected db of
      Inl err \<Rightarrow> expected \<noteq> tr_active_task_revision t \<and> err = MValueError ''Active task changed; reload before updating''
    | Inr (written, db') \<Rightarrow> expected = tr_active_task_revision t \<and> get_active_task_state i db' = Inr written
        \<and> json_get ''revision'' written = Some (JInt (expected + 1))
        \<and> update_active_task_state fresh' i state' expected db' = Inl (MValueError ''Active task changed; reload before updating''))
    \<and> (case mutate_active_task_state fresh i f task db of
      Inl err \<Rightarrow> (\<exists>k. task = Some k \<and> json_get ''task_id'' (tr_active_task_state t) \<noteq> Some (JStr k))
    | Inr (written, db') \<Rightarrow> get_active_task_state i db' = Inr written
        \<and> (written = tr_active_task_state t \<and> db' = db
           \<or> written = stamped_state fresh (f (tr_active_task_state t)) (tr_active_task_revision t + 1)))"
proof -
  note update = task_state_update [OF assms]
  have first: "case update_active_task_state fresh i state expected db of
      Inl err \<Rightarrow> expected \<noteq> tr_active_task_revision t \<and> err = MValueError ''Active task changed; reload before updating''
    | Inr (written, db') \<Rightarrow> expected = tr_active_task_revision t \<and> get_active_task_state i db' = Inr written
        \<and> json_get ''revision'' written = Some (JInt (expected + 1))
        \<and> update_active_task_state fresh' i state' expected db' = Inl (MValueError ''Active task changed; reload before updating'')"
  proof (cases "tr_active_task_revision t = expected")
    case True
    then show ?thesis using update(2) [OF True, of fresh state] task_state_update(1) [of _ i _ expected fresh' state']
      by (fastforce simp: get_active_task_state_def stamped_state_def)
  qed (simp add: update(1))
  show ?thesis
    using first update(2) [OF refl, of fresh "f (tr_active_task_state t)"] assms(2)
    by (auto simp: mutate_active_task_state_def Let_def get_active_task_state_def require_def split: option.splits)
qed

section \<open>The window of recent turns\<close>

definition turns_between :: "uuid \<Rightarrow> int option \<Rightarrow> int option \<Rightarrow> 'x mem_db_scheme \<Rightarrow> turn_row list" where
  "turns_between i before_sequence after_sequence db = sort_key tu_sequence
     (filter (\<lambda>t. tu_transcript_id t = i \<and> (case before_sequence of None \<Rightarrow> True | Some b \<Rightarrow> tu_sequence t < b)
        \<and> (case after_sequence of None \<Rightarrow> True | Some a \<Rightarrow> a < tu_sequence t)) (md_turns db))"

lemma list_turns_last: "list_turns i limit b a db = last_n (nat (max 1 (min limit 500))) (turns_between i b a db)"
  by (simp add: list_turns_def turns_between_def)

lemma turns_between_sorted:
  assumes "keyed turn_key (md_turns db)"
  shows "sorted_wrt (<) (map tu_sequence (turns_between i b a db))"
proof -
  have "sorted (map tu_sequence (turns_between i b a db))" by (simp add: turns_between_def)
  moreover have "distinct (map tu_sequence (turns_between i b a db))"
  proof -
    let ?xs = "filter (\<lambda>t. tu_transcript_id t = i \<and> (case b of None \<Rightarrow> True | Some b \<Rightarrow> tu_sequence t < b)
        \<and> (case a of None \<Rightarrow> True | Some a \<Rightarrow> a < tu_sequence t)) (md_turns db)"
    have "distinct ?xs" using assms by (simp add: keyed_def distinct_map)
    moreover have "inj_on tu_sequence (set ?xs)" using assms by (auto simp: inj_on_def keyed_def distinct_map turn_key_def)
    ultimately have "distinct (map tu_sequence ?xs)" by (simp add: distinct_map)
    then show ?thesis by (simp add: turns_between_def distinct_map)
  qed
  ultimately show ?thesis by (simp add: strict_sorted_iff)
qed

lemma last_n_sorted: "sorted_wrt P (map f xs) \<Longrightarrow> sorted_wrt P (map f (last_n n xs))"
  unfolding last_n_def drop_map [symmetric] by (rule sorted_wrt_drop)

lemma last_n_after:
  assumes "sorted_wrt (<) (map f xs)" "x \<in> set xs" "x \<notin> set (last_n n xs)" "y \<in> set (last_n n xs)"
  shows "f x < (f y :: int)"
proof -
  let ?k = "length xs - n"
  have "x \<in> set (take ?k xs)" using assms(2,3) by (metis Un_iff append_take_drop_id last_n_def set_append)
  moreover have "sorted_wrt (<) (map f (take ?k xs) @ map f (drop ?k xs))" using assms(1) by (metis append_take_drop_id map_append)
  ultimately show ?thesis using assms(4) by (auto simp: sorted_wrt_append last_n_def)
qed

lemma last_n_one:
  assumes "sorted_wrt (<) (map f xs)" "x \<in> set xs" "\<And>y. y \<in> set xs \<Longrightarrow> f y \<le> (f x :: int)"
  shows "last_n (Suc 0) xs = [x]"
proof (cases xs rule: rev_cases)
  case (snoc ys y)
  have "x \<notin> set ys" using assms(1) assms(3) [of y] by (auto simp: snoc sorted_wrt_append)
  then show ?thesis using assms(2) by (simp add: snoc last_n_def)
qed (use assms(2) in simp)

lemma newest_sequence:
  assumes "t \<in> set (md_turns db)" "tu_transcript_id t = i" "tu_actor t = ''owner''"
    and "\<And>u. u \<in> set (md_turns db) \<Longrightarrow> tu_transcript_id u = i \<Longrightarrow> tu_actor u = ''owner'' \<Longrightarrow> tu_sequence u \<le> tu_sequence t"
  obtains older where "recent_owner_sequences i exchanges db = tu_sequence t # older" "\<forall>x \<in> set older. x \<le> tu_sequence t"
proof -
  let ?xs = "map tu_sequence (filter (\<lambda>t. tu_transcript_id t = i \<and> tu_actor t = ''owner'') (md_turns db))"
  have mem: "tu_sequence t \<in> set ?xs" and top: "\<forall>x \<in> set ?xs. x \<le> tu_sequence t" using assms by auto
  have "?xs \<noteq> []" using mem by (metis list.distinct(1) list.set_cases)
  then have "rev (sort ?xs) \<noteq> []" using sort_key_Nil_iff [of "\<lambda>x. x" ?xs] by simp
  then obtain y ys where ys: "rev (sort ?xs) = y # ys" by (meson neq_Nil_conv)
  have sets: "set (y # ys) = set ?xs" unfolding ys [symmetric] by simp
  have "sorted (rev (y # ys))" unfolding ys [symmetric] by simp
  then have "\<forall>x \<in> set ys. x \<le> y" by (simp add: sorted_append)
  then have "tu_sequence t \<le> y" using mem sets by auto
  moreover have "y \<le> tu_sequence t" using top sets by (metis list.set_intros(1))
  ultimately have y: "y = tu_sequence t" by simp
  have "recent_owner_sequences i exchanges db = y # take (nat (max 1 (min exchanges 50)) - 1) ys"
    unfolding recent_owner_sequences_def ys by (simp add: take_Cons')
  moreover have "\<forall>x \<in> set (take n ys). x \<le> y" for n using \<open>\<forall>x \<in> set ys. x \<le> y\<close> by (meson in_set_takeD)
  ultimately show ?thesis using that y by blast
qed

text \<open>the window of recent turns that a conversation is continued from. It holds turns of this transcript only, in strictly ascending
  order and at most as many as asked for, and the owner's newest message is always in it, however many turns the
  assistant has added since.\<close>

theorem recent_window:
  assumes "keyed turn_key (md_turns db)" "t \<in> set (md_turns db)" "tu_transcript_id t = i" "tu_actor t = ''owner''"
    and newest: "\<forall>u \<in> set (md_turns db). tu_transcript_id u = i \<longrightarrow> tu_actor u = ''owner'' \<longrightarrow> tu_sequence u \<le> tu_sequence t"
    and limit: "2 \<le> limit" "limit \<le> 500"
  shows "let window = list_recent_turns i exchanges limit db in t \<in> set window \<and> sorted_wrt (<) (map tu_sequence window) \<and> length window \<le> nat limit
    \<and> set window \<subseteq> {u \<in> set (md_turns db). tu_transcript_id u = i}"
proof -
  define window where "window = list_recent_turns i exchanges limit db"
  obtain older where seqs: "recent_owner_sequences i exchanges db = tu_sequence t # older" "\<forall>x \<in> set older. x \<le> tu_sequence t"
    using newest_sequence [OF assms(2-4)] newest by blast
  let ?low = "last (tu_sequence t # older) - 1"
  let ?all = "turns_between i None (Some ?low) db"
  let ?turns = "last_n (nat limit) ?all"
  have "last (tu_sequence t # older) \<le> tu_sequence t" using seqs(2) last_in_set [of older] by (cases "older = []") auto
  then have low: "?low < tu_sequence t" by simp
  have within: "set (last_n n (turns_between i b a db)) \<subseteq> {u \<in> set (md_turns db). tu_transcript_id u = i}" for n b a
    using set_last_n [of n "turns_between i b a db"] by (auto simp: turns_between_def)
  note sorted = turns_between_sorted [OF assms(1)]
  have "last_n (Suc 0) (turns_between i (Some (tu_sequence t + 1)) None db) = [t]"
    by (rule last_n_one [OF sorted]) (simp_all add: turns_between_def assms(2,3))
  then have one: "list_turns i 1 (Some (tu_sequence t + 1)) None db = [t]" by (simp add: list_turns_last)
  have same: "u = t" if "u \<in> set ?turns" "tu_sequence u = tu_sequence t" for u
    using that within assms(1-3) keyed_inj [of turn_key "md_turns db" u t] by (auto simp: turn_key_def)
  have ex: "list_ex (\<lambda>u. tu_sequence u = tu_sequence t) ?turns \<longleftrightarrow> t \<in> set ?turns" unfolding list_ex_iff using same by blast
  have shown: "list_turns i limit None (Some ?low) db = ?turns" using limit unfolding list_turns_last by simp
  have w: "window = (if t \<in> set ?turns then ?turns else t # last_n (nat (limit - 1)) ?turns)"
    using limit unfolding window_def list_recent_turns_def Let_def seqs(1) list.case shown one ex by simp
  have "t \<in> set window \<and> sorted_wrt (<) (map tu_sequence window) \<and> length window \<le> nat limit
    \<and> set window \<subseteq> {u \<in> set (md_turns db). tu_transcript_id u = i}"
  proof (cases "t \<in> set ?turns")
    case True
    then show ?thesis using w last_n_sorted [OF sorted] within by simp
  next
    case False
    have "t \<in> set ?all" using assms(2,3) low by (simp add: turns_between_def)
    then have after: "\<forall>u \<in> set ?turns. tu_sequence t < tu_sequence u" using last_n_after [OF sorted _ False] by blast
    define rest where "rest = last_n (nat (limit - 1)) ?turns"
    have rest: "set rest \<subseteq> set ?turns" "sorted_wrt (<) (map tu_sequence rest)" "length rest \<le> nat (limit - 1)"
      unfolding rest_def by (simp_all add: set_last_n last_n_sorted sorted)
    moreover have "window = t # rest" using w False by (simp add: rest_def)
    moreover have "\<forall>u \<in> set rest. tu_sequence t < tu_sequence u" using after rest(1) by blast
    moreover have "set rest \<subseteq> {u \<in> set (md_turns db). tu_transcript_id u = i}" using rest(1) within by blast
    ultimately show ?thesis using assms(2,3) limit by auto
  qed
  then show ?thesis by (simp add: window_def)
qed

section \<open>Examples\<close>

definition hello :: "json list" where
  "hello = [JObj [(''type'', JStr ''text''), (''text'', JStr ''hello'')]]"

definition chat_sample :: life_db where
  "chat_sample = \<lparr>md_turns = [new_turn ''t1'' ''a'' 1 ''owner'' 1 hello, new_turn ''t2'' ''a'' 2 ''atlas'' 2 hello, new_turn ''t3'' ''a'' 3 ''atlas'' 3 hello],
     md_transcripts = [(new_transcript ''a'' 1 ''owner'' ''standard'' (Some ''hello''))\<lparr>tr_next_turn_sequence := 3, tr_active_task_state := [(''task_id'', JStr ''w'')]\<rparr>],
     md_candidates = [], md_evidence = [], md_attempts = [], md_memories = [], md_commands = [], md_obligations = [], md_conflicts = [],
     md_provenance = [], vd_readings = [], vd_comparisons = [], vd_records = [], vd_policies = [], ld_capsules = [], ld_chunks = [],
     ld_index_states = [], ld_discovery = [], ld_receipts = []\<rparr>"

definition chat_sample_appended :: life_db where
  "chat_sample_appended = snd (projr (append_turn ''t4'' 4 ''a'' ''owner'' hello chat_sample))"

definition chat_sample_deleted :: life_db where
  "chat_sample_deleted = snd (projr (delete_owner_chat ''b'' 5 ''a'' chat_sample_appended))"

lemma chat_sample_ok: "chat_inv chat_sample"
  by code_simp

lemma chat_sample_steps: "chat_step\<^sup>*\<^sup>* chat_sample chat_sample_deleted"
proof -
  have "\<not> isl (append_turn ''t4'' 4 ''a'' ''owner'' hello chat_sample)" "fresh_turn ''t4'' chat_sample" by code_simp+
  then have "chat_step chat_sample chat_sample_appended"
    using chat_step.Append [of "''t4''" chat_sample 4 "''a''" "''owner''" hello] unfolding chat_sample_appended_def by (metis prod.collapse sum.collapse(2))
  moreover have "\<not> isl (delete_owner_chat ''b'' 5 ''a'' chat_sample_appended)" "fresh_chat ''b'' chat_sample_appended" by code_simp+
  then have "chat_step chat_sample_appended chat_sample_deleted"
    using chat_step.Delete [of "''b''" chat_sample_appended 5 "''a''"] unfolding chat_sample_deleted_def by (metis prod.collapse sum.collapse(2))
  ultimately show ?thesis by auto
qed

theorem chat_history_witness:
  "map tu_sequence (md_turns chat_sample_deleted) = [1, 2, 3, 4] \<and> length (filter active_chat (md_transcripts chat_sample_deleted)) \<le> 1
    \<and> keyed turn_key (md_turns chat_sample_deleted)"
proof -
  have "map tu_sequence (md_turns chat_sample_deleted) = [1, 2, 3, 4]" by code_simp
  then show ?thesis using chat_history [OF chat_sample_ok chat_sample_steps] by blast
qed

theorem checkpoint_compare_and_swap_witness:
  "\<exists>written db'. update_active_task_state ''n'' ''a'' [(''goal'', JStr ''g'')] 0 chat_sample = Inr (written, db')
    \<and> get_active_task_state ''a'' db' = Inr written \<and> \<not> (\<exists>r. update_active_task_state ''m'' ''a'' [] 0 db' = Inr r)"
proof -
  have "map_option tr_active_task_revision (get_transcript ''a'' chat_sample) = Some 0" by code_simp
  then obtain t where t: "get_transcript ''a'' chat_sample = Some t" "tr_active_task_revision t = 0" by auto
  show ?thesis
    using checkpoint_compare_and_swap [OF chat_sample_ok t(1), where fresh = "''n''" and state = "[(''goal'', JStr ''g'')]" and expected = 0 and fresh' = "''m''" and state' = "[]" and f = id and task = None] t(2)
    by (auto split: sum.splits prod.splits)
qed

theorem recent_window_witness:
  "new_turn ''t1'' ''a'' 1 ''owner'' 1 hello \<in> set (list_recent_turns ''a'' 20 2 chat_sample)
    \<and> map tu_sequence (list_recent_turns ''a'' 20 2 chat_sample) = [1, 3]"
proof -
  have "keyed turn_key (md_turns chat_sample)" "new_turn ''t1'' ''a'' 1 ''owner'' 1 hello \<in> set (md_turns chat_sample)"
    "tu_transcript_id (new_turn ''t1'' ''a'' 1 ''owner'' 1 hello) = ''a''" "tu_actor (new_turn ''t1'' ''a'' 1 ''owner'' 1 hello) = ''owner''"
    "\<forall>u \<in> set (md_turns chat_sample). tu_transcript_id u = ''a'' \<longrightarrow> tu_actor u = ''owner'' \<longrightarrow> tu_sequence u \<le> tu_sequence (new_turn ''t1'' ''a'' 1 ''owner'' 1 hello)"
    "map tu_sequence (list_recent_turns ''a'' 20 2 chat_sample) = [1, 3]" by code_simp+
  then show ?thesis using recent_window [of chat_sample "new_turn ''t1'' ''a'' 1 ''owner'' 1 hello" "''a''" 2 20] by (simp add: Let_def)
qed

end
