(* ===== verification/Notifications.thy ===== *)
theory Notifications
  imports Action_Authority Task_State
begin

text \<open>
  The owner's notifications (\<^verbatim>\<open>backend/atlas/notifications\<close>): events, the push policy, emission with
  supersession per thread, reading and resolving, the projection shown to the owner and
  to the model, the mirror of owner attention, and the outbox that delivers to
  the subscribed devices. The table is a list of rows. Row locks make a call one step;
  fresh identities, the clock and what the push service answers are arguments.
\<close>

section \<open>Data\<close>

datatype severity = Info | Warning | Action_required | Critical | Severity_resolved

fun severity_value :: "severity \<Rightarrow> string" where
  "severity_value Info = ''info''"
| "severity_value Warning = ''warning''"
| "severity_value Action_required = ''action_required''"
| "severity_value Critical = ''critical''"
| "severity_value Severity_resolved = ''resolved''"

definition REDACTED :: string where "REDACTED = ''[redacted]''"

record notification_event =
  nv_source :: string
  nv_kind :: string
  nv_severity :: severity
  nv_title :: string
  nv_body :: string
  nv_detail :: json_obj
  nv_sensitive_fields :: "string list"
  nv_thread_key :: "string option"
  nv_run_id :: "uuid option"

text \<open>\<^verbatim>\<open>__post_init__\<close>; an unknown severity is not a value of the type.\<close>

definition checked_event :: "notification_event \<Rightarrow> auth_error + notification_event" where
  "checked_event ev = (if strip (nv_title ev) = [] then Inl (ValueError ''Notification title is required'') else Inr ev)"

datatype notice_status = N_open | N_superseded | N_resolved

datatype push_status = Push_none | Push_pending | Push_sent | Push_failed | Push_skipped

fun notice_status_value :: "notice_status \<Rightarrow> string" where
  "notice_status_value N_open = ''open''"
| "notice_status_value N_superseded = ''superseded''"
| "notice_status_value N_resolved = ''resolved''"

fun push_status_value :: "push_status \<Rightarrow> string" where
  "push_status_value Push_none = ''none''"
| "push_status_value Push_pending = ''pending''"
| "push_status_value Push_sent = ''sent''"
| "push_status_value Push_failed = ''failed''"
| "push_status_value Push_skipped = ''skipped''"

record notification_row =
  nt_id :: uuid
  nt_source :: string
  nt_kind :: string
  nt_severity :: severity
  nt_title :: string
  nt_body :: string
  nt_detail :: json_obj
  nt_sensitive_fields :: "string list"
  nt_thread_key :: "string option"
  nt_status :: notice_status
  nt_read_at :: "time option"
  nt_created_at :: time
  nt_resolved_at :: "time option"
  nt_run_id :: "uuid option"
  nt_push_status :: push_status
  nt_push_quiet :: bool
  nt_push_attempted_at :: "time option"
  nt_push_result :: json_obj
  nt_wake_claimed_at :: "time option"

section \<open>Projection\<close>

text \<open>The loop over the sensitive fields for the model: the body and the named details are replaced.\<close>

definition redact_field :: "string \<Rightarrow> string \<times> json_obj \<Rightarrow> string \<times> json_obj" where
  "redact_field key s = (if key = ''body'' then (REDACTED, snd s)
     else if json_get key (snd s) \<noteq> None then (fst s, json_put key (JStr REDACTED) (snd s)) else s)"

definition redacted_for :: "string \<Rightarrow> notification_row \<Rightarrow> string \<times> json_obj" where
  "redacted_for audience row = (if audience = ''model'' then fold redact_field (nt_sensitive_fields row) (nt_body row, nt_detail row)
     else (nt_body row, nt_detail row))"

definition project_notification :: "(time \<Rightarrow> string) \<Rightarrow> string \<Rightarrow> notification_row \<Rightarrow> json_obj" where
  "project_notification stamp audience row = (let (body, detail) = redacted_for audience row in
    [(''id'', JStr (nt_id row)), (''source'', JStr (nt_source row)), (''kind'', JStr (nt_kind row)),
     (''severity'', JStr (severity_value (nt_severity row))), (''title'', JStr (nt_title row)), (''body'', JStr body),
     (''detail'', JObj detail), (''sensitive_fields'', JList (map JStr (nt_sensitive_fields row))),
     (''thread_key'', opt_json (nt_thread_key row)), (''status'', JStr (notice_status_value (nt_status row))),
     (''read'', JBool (nt_read_at row \<noteq> None)), (''created_at'', JStr (stamp (nt_created_at row))),
     (''resolved_at'', opt_json (map_option stamp (nt_resolved_at row))), (''run_id'', opt_json (nt_run_id row)),
     (''push_status'', JStr (push_status_value (nt_push_status row)))])"

section \<open>Push policy\<close>

definition PUSH_SEVERITIES :: "severity list" where
  "PUSH_SEVERITIES = [Warning, Action_required, Critical, Severity_resolved]"

text \<open>The status and the quiet mark of the push.\<close>

definition decide_push :: "severity \<Rightarrow> bool \<Rightarrow> time option \<Rightarrow> time \<Rightarrow> int \<Rightarrow> push_status \<times> bool" where
  "decide_push sev thread_pushed_before last_push_at now repeat_minutes =
    (if sev \<notin> set PUSH_SEVERITIES then (Push_none, False)
     else if sev = Severity_resolved then (if thread_pushed_before then Push_pending else Push_none, False)
     else (Push_pending, case last_push_at of None \<Rightarrow> False | Some t \<Rightarrow> now - t < max 0 repeat_minutes * 60000000))"

section \<open>Emission\<close>

definition in_open_thread :: "string \<Rightarrow> notification_row \<Rightarrow> bool" where
  "in_open_thread key row = (nt_thread_key row = Some key \<and> nt_status row = N_open)"

definition open_thread :: "string \<Rightarrow> notification_row list \<Rightarrow> notification_row list" where
  "open_thread key rows = sort_key nt_created_at (filter (in_open_thread key) rows)"

definition max_time :: "time list \<Rightarrow> time option" where
  "max_time ts = (case ts of [] \<Rightarrow> None | t # us \<Rightarrow> Some (fold max us t))"

definition thread_push_history :: "string \<Rightarrow> notification_row list \<Rightarrow> bool \<times> time option" where
  "thread_push_history key rows = (let mine = filter (\<lambda>r. nt_thread_key r = Some key) rows in
    (list_ex (\<lambda>r. nt_push_status r \<in> {Push_pending, Push_sent}) mine,
     max_time (concat (map (\<lambda>r. case nt_push_attempted_at r of None \<Rightarrow> [] | Some t \<Rightarrow> [t])
       (filter (\<lambda>r. nt_push_status r = Push_sent) mine)))))"

text \<open>Equality of two dictionaries: the same keys with the same values.\<close>

definition dict_eq :: "json_obj \<Rightarrow> json_obj \<Rightarrow> bool" where
  "dict_eq a b = (\<forall>k \<in> set (map fst a) \<union> set (map fst b). json_get k a = json_get k b)"

definition same_content :: "notification_event \<Rightarrow> notification_row \<Rightarrow> bool" where
  "same_content ev row = (nt_kind row = nv_kind ev \<and> nt_title row = nv_title ev \<and> nt_body row = nv_body ev
     \<and> dict_eq (nt_detail row) (nv_detail ev))"

definition close_row :: "notice_status \<Rightarrow> time option \<Rightarrow> notification_row \<Rightarrow> notification_row" where
  "close_row st at row = row\<lparr>nt_status := st, nt_resolved_at := (case at of None \<Rightarrow> nt_resolved_at row | Some t \<Rightarrow> Some t)\<rparr>"

definition close_thread :: "notice_status \<Rightarrow> time option \<Rightarrow> string \<Rightarrow> notification_row list \<Rightarrow> notification_row list" where
  "close_thread st at key rows = map (\<lambda>r. if in_open_thread key r then close_row st at r else r) rows"

definition event_row :: "uuid \<Rightarrow> time \<Rightarrow> notice_status \<Rightarrow> push_status \<times> bool \<Rightarrow> notification_event \<Rightarrow> notification_row" where
  "event_row i now st decision ev = \<lparr>nt_id = i, nt_source = nv_source ev, nt_kind = nv_kind ev, nt_severity = nv_severity ev,
     nt_title = nv_title ev, nt_body = nv_body ev, nt_detail = nv_detail ev, nt_sensitive_fields = nv_sensitive_fields ev,
     nt_thread_key = nv_thread_key ev, nt_status = st, nt_read_at = None, nt_created_at = now,
     nt_resolved_at = (if st = N_resolved then Some now else None), nt_run_id = nv_run_id ev, nt_push_status = fst decision,
     nt_push_quiet = snd decision, nt_push_attempted_at = None, nt_push_result = [], nt_wake_claimed_at = None\<rparr>"

text \<open>An event without a thread, or with the empty key, neither closes nor repeats anything.\<close>

definition thread_of :: "notification_event \<Rightarrow> string option" where
  "thread_of ev = (case nv_thread_key ev of Some (c # cs) \<Rightarrow> Some (c # cs) | _ \<Rightarrow> None)"

definition emit_sync ::
  "uuid \<Rightarrow> time \<Rightarrow> int \<Rightarrow> notification_event \<Rightarrow> notification_row list \<Rightarrow> notification_row option \<times> notification_row list" where
  "emit_sync i now repeat_minutes ev rows =
    (let open_rows = (case thread_of ev of None \<Rightarrow> [] | Some key \<Rightarrow> open_thread key rows);
         (pushed_before, last_push_at) = (case thread_of ev of None \<Rightarrow> (False, None) | Some key \<Rightarrow> thread_push_history key rows);
         decision = decide_push (nv_severity ev) pushed_before last_push_at now repeat_minutes;
         close = (\<lambda>st at. case thread_of ev of None \<Rightarrow> rows | Some key \<Rightarrow> close_thread st at key rows) in
     if nv_severity ev = Severity_resolved then
       (if open_rows = [] then (None, rows)
        else (let row = event_row i now N_resolved decision ev in (Some row, tadd row (close N_resolved (Some now)))))
     else (case find (same_content ev) open_rows of
         Some row \<Rightarrow> (Some row, rows)
       | None \<Rightarrow> (let row = event_row i now N_open decision ev in (Some row, tadd row (close N_superseded None)))))"

definition resolve_thread_sync :: "time \<Rightarrow> string \<Rightarrow> notification_row list \<Rightarrow> nat \<times> notification_row list" where
  "resolve_thread_sync now key rows = (length (open_thread key rows), close_thread N_resolved (Some now) key rows)"

section \<open>The owner's inbox\<close>

definition list_notifications ::
  "(time \<Rightarrow> string) \<Rightarrow> int \<Rightarrow> time option \<Rightarrow> bool \<Rightarrow> string \<Rightarrow> notification_row list \<Rightarrow> json_obj list" where
  "list_notifications stamp limit before include_superseded audience rows =
    map (project_notification stamp audience) (take (nat (max 1 (min limit 100))) (rev (sort_key nt_created_at
      (filter (\<lambda>r. (include_superseded \<or> nt_status r \<noteq> N_superseded)
         \<and> (case before of None \<Rightarrow> True | Some t \<Rightarrow> nt_created_at r < t)) rows))))"

definition unread_count :: "notification_row list \<Rightarrow> nat" where
  "unread_count rows = length (filter (\<lambda>r. nt_read_at r = None \<and> nt_status r \<noteq> N_superseded) rows)"

definition read_row :: "time \<Rightarrow> notification_row \<Rightarrow> notification_row" where
  "read_row now r = (if nt_read_at r = None then r\<lparr>nt_read_at := Some now\<rparr> else r)"

definition mark_read :: "time \<Rightarrow> uuid \<Rightarrow> notification_row list \<Rightarrow> auth_error + (notification_row \<times> notification_row list)" where
  "mark_read now i rows = ebind (the_row (tget nt_id i rows) (LookupError ''Notification not found'')) (\<lambda>r.
     Inr (read_row now r, tset nt_id i (read_row now) rows))"

definition mark_all_read :: "time \<Rightarrow> notification_row list \<Rightarrow> nat \<times> notification_row list" where
  "mark_all_read now rows = (length (filter (\<lambda>r. nt_read_at r = None) rows), map (read_row now) rows)"

definition resolve_notice :: "time \<Rightarrow> notification_row \<Rightarrow> notification_row" where
  "resolve_notice now r = read_row now (if nt_status r = N_open then r\<lparr>nt_status := N_resolved, nt_resolved_at := Some now\<rparr> else r)"

definition resolve_notification ::
  "time \<Rightarrow> uuid \<Rightarrow> notification_row list \<Rightarrow> auth_error + (notification_row \<times> notification_row list)" where
  "resolve_notification now i rows = ebind (the_row (tget nt_id i rows) (LookupError ''Notification not found'')) (\<lambda>r.
     let rows1 = (case nt_thread_key r of Some (c # cs) \<Rightarrow> snd (resolve_thread_sync now (c # cs) rows) | _ \<Rightarrow> rows);
         rows2 = tset nt_id i (resolve_notice now) rows1 in
     ebind (the_row (tget nt_id i rows2) (LookupError ''Notification not found'')) (\<lambda>r2. Inr (r2, rows2)))"

definition model_emit_allowed :: "time \<Rightarrow> int \<Rightarrow> notification_row list \<Rightarrow> bool" where
  "model_emit_allowed now per_hour rows =
    (int (length (filter (\<lambda>r. nt_source r = ''model'' \<and> now - 3600000000 \<le> nt_created_at r) rows)) < max 0 per_hour)"

section \<open>Owner attention\<close>

text \<open>The flush hook mirrors owner attention into the ledger.\<close>

definition attention_states :: "string \<Rightarrow> (severity \<times> string) option" where
  "attention_states state = map_of [(''approval_required'', (Action_required, ''approval_required'')), (''uncertain'', (Warning, ''uncertain_action'')),
     (''interrupted'', (Warning, ''interrupted'')), (''staged_change'', (Info, ''staged_change''))] state"

definition attention_thread_key :: "attention_row \<Rightarrow> string" where
  "attention_thread_key a = (case at_action_id a of Some x \<Rightarrow> ''action:'' @ x
     | None \<Rightarrow> if at_state a = ''staged_change'' then ''attention:'' @ at_id a
         else ''run:'' @ (case at_run_id a of None \<Rightarrow> ''None'' | Some r \<Rightarrow> r) @ '':'' @ at_state a)"

definition attention_detail :: "attention_row \<Rightarrow> json_obj" where
  "attention_detail a = concat (map (\<lambda>k. case json_get k (at_detail a) of None \<Rightarrow> [] | Some v \<Rightarrow> [(k, v)])
     [''operation'', ''expires_at'', ''message'', ''download_url'', ''path'', ''external_id'', ''execution_started_at''])
     @ [(''attention_id'', JStr (at_id a)), (''open_url'', JStr ''/'')]"

definition attention_event :: "attention_row \<Rightarrow> auth_error + notification_event option" where
  "attention_event a = (case attention_states (at_state a) of None \<Rightarrow> Inr None
     | Some (sev, kind) \<Rightarrow> map_sum id Some (checked_event
         \<lparr>nv_source = ''authority'', nv_kind = kind, nv_severity = sev, nv_title = at_title a,
          nv_body = json_or ''message'' (at_detail a) (if at_state a = ''approval_required'' then ''Waiting for your decision in Needs You.'' else []),
          nv_detail = attention_detail a, nv_sensitive_fields = [], nv_thread_key = Some (attention_thread_key a), nv_run_id = at_run_id a\<rparr>))"

definition mirror_attention :: "uuid \<Rightarrow> time \<Rightarrow> int \<Rightarrow> attention_row \<Rightarrow> notification_row list \<Rightarrow> auth_error + notification_row list" where
  "mirror_attention i now repeat_minutes a rows =
    (if at_resolved a then Inr rows
     else ebind (attention_event a) (\<lambda>ev. Inr (case ev of None \<Rightarrow> rows | Some x \<Rightarrow> snd (emit_sync i now repeat_minutes x rows))))"

text \<open>The rows a flush writes: new ones, and changed ones with their state before. Each carries an identity for its notification.\<close>

datatype attention_change = New_attention attention_row | Changed_attention attention_row attention_row

definition mirror_change :: "time \<Rightarrow> int \<Rightarrow> uuid \<times> attention_change \<Rightarrow> notification_row list \<Rightarrow> auth_error + notification_row list" where
  "mirror_change now repeat_minutes c rows = (case snd c of
      New_attention a \<Rightarrow> mirror_attention (fst c) now repeat_minutes a rows
    | Changed_attention old a \<Rightarrow>
        if at_resolved a \<noteq> at_resolved old \<and> at_resolved a then Inr (snd (resolve_thread_sync now (attention_thread_key a) rows))
        else if at_state a \<noteq> at_state old \<or> at_title a \<noteq> at_title old \<or> at_detail a \<noteq> at_detail old
        then mirror_attention (fst c) now repeat_minutes a rows
        else Inr rows)"

definition attention_flush_hook ::
  "time \<Rightarrow> int \<Rightarrow> (uuid \<times> attention_row) list \<Rightarrow> (uuid \<times> attention_row \<times> attention_row) list \<Rightarrow> notification_row list
   \<Rightarrow> auth_error + notification_row list" where
  "attention_flush_hook now repeat_minutes fresh dirty rows =
    efold (mirror_change now repeat_minutes)
      (map (\<lambda>(i, a). (i, New_attention a)) fresh @ map (\<lambda>(i, old, a). (i, Changed_attention old a)) dirty) rows"

section \<open>Delivery\<close>

record subscription_row =
  ps_id :: uuid
  ps_endpoint :: string
  ps_p256dh :: string
  ps_auth :: string
  ps_user_agent :: string
  ps_last_success_at :: "time option"
  ps_failure_count :: int
  ps_disabled_at :: "time option"

definition MAX_PAYLOAD_BYTES :: nat where "MAX_PAYLOAD_BYTES = 3000"

definition utf8_length :: "string \<Rightarrow> nat" where
  "utf8_length s = sum_list (map (\<lambda>c. if c = ellipsis then 3 else if (of_char c :: nat) < 128 then 1 else 2) s)"

text \<open>\<^verbatim>\<open>json.dumps(payload, ensure_ascii=False)\<close>.\<close>

definition dumps_unicode :: "json \<Rightarrow> string" where
  "dumps_unicode = dumps_gen quote '', '' '': '' False"

definition build_payload :: "notification_row \<Rightarrow> json_obj" where
  "build_payload row = (let payload = (\<lambda>body. [(''id'', JStr (nt_id row)), (''title'', JStr (nt_title row)), (''body'', JStr body),
         (''severity'', JStr (severity_value (nt_severity row))),
         (''tag'', JStr (case nt_thread_key row of Some (c # cs) \<Rightarrow> c # cs | _ \<Rightarrow> nt_id row)),
         (''url'', JStr (json_or ''open_url'' (nt_detail row) ''/'')), (''quiet'', JBool (nt_push_quiet row))]);
       size = utf8_length (dumps_unicode (JObj (payload (nt_body row)))) in
     if MAX_PAYLOAD_BYTES < size
     then payload (take (length (nt_body row) - (size - MAX_PAYLOAD_BYTES) - 1) (nt_body row) @ [ellipsis])
     else payload (nt_body row))"

text \<open>One send to one device. The client gives the HTTP status, or nothing when it raises; a raise counts as status 0.\<close>

definition sent_row :: "time \<Rightarrow> int \<Rightarrow> subscription_row \<Rightarrow> subscription_row" where
  "sent_row now status s =
    (if 200 \<le> status \<and> status < 300 then s\<lparr>ps_last_success_at := Some now, ps_failure_count := 0\<rparr>
     else s\<lparr>ps_failure_count := ps_failure_count s + 1,
        ps_disabled_at := (if status \<in> {404, 410} then Some now else ps_disabled_at s)\<rparr>)"

type_synonym push_client = "string \<Rightarrow> json_obj \<Rightarrow> int option"

definition deliver_row ::
  "(string \<Rightarrow> string) \<Rightarrow> (time \<Rightarrow> string) \<Rightarrow> time \<Rightarrow> push_client option \<Rightarrow> notification_row \<Rightarrow> subscription_row list
   \<Rightarrow> notification_row \<times> subscription_row list" where
  "deliver_row sha stamp now client row subs =
    (let row1 = row\<lparr>nt_push_attempted_at := Some now\<rparr> in
     case client of
       None \<Rightarrow> (row1\<lparr>nt_push_status := Push_skipped\<rparr>, subs)
     | Some send \<Rightarrow>
         if subs = [] then (row1\<lparr>nt_push_status := Push_skipped\<rparr>, subs)
         else (let status = (\<lambda>s. case send (ps_endpoint s) (build_payload row1) of None \<Rightarrow> 0 | Some n \<Rightarrow> n);
                   results = foldl (\<lambda>d s. json_put (take 12 (sha (ps_endpoint s)))
                     (JObj [(''status'', JInt (status s)), (''at'', JStr (stamp now))]) d) [] subs in
               (row1\<lparr>nt_push_result := results,
                     nt_push_status := (if list_ex (\<lambda>s. 200 \<le> status s \<and> status s < 300) subs then Push_sent else Push_failed)\<rparr>,
                map (\<lambda>s. sent_row now (status s) s) subs)))"

fun deliver_rows ::
  "(notification_row \<Rightarrow> subscription_row list \<Rightarrow> notification_row \<times> subscription_row list) \<Rightarrow> notification_row list
   \<Rightarrow> notification_row list \<Rightarrow> subscription_row list \<Rightarrow> notification_row list \<times> subscription_row list" where
  "deliver_rows f [] rows subs = (rows, subs)"
| "deliver_rows f (r # rs) rows subs = (let (r', subs') = f r subs in deliver_rows f rs (tset nt_id (nt_id r) (\<lambda>_. r') rows) subs')"

text \<open>The devices enabled at the start get every pending notification, also one that is found gone on the way.\<close>

definition deliver_pending ::
  "(string \<Rightarrow> string) \<Rightarrow> (time \<Rightarrow> string) \<Rightarrow> time \<Rightarrow> push_client option \<Rightarrow> nat \<Rightarrow> notification_row list \<Rightarrow> subscription_row list
   \<Rightarrow> nat \<times> notification_row list \<times> subscription_row list" where
  "deliver_pending sha stamp now client limit rows subs =
    (let pending = take limit (sort_key nt_created_at (filter (\<lambda>r. nt_push_status r = Push_pending) rows));
         enabled = filter (\<lambda>s. ps_disabled_at s = None) subs;
         (rows', enabled') = deliver_rows (deliver_row sha stamp now client) pending rows enabled in
     (length pending, rows', map (\<lambda>s. case tget ps_id (ps_id s) enabled' of None \<Rightarrow> s | Some s' \<Rightarrow> s') subs))"

text \<open>\<^verbatim>\<open>urlparse(endpoint)\<close> has the scheme https and a network location.\<close>

definition https_endpoint :: "string \<Rightarrow> bool" where
  "https_endpoint e = (startswith (casefold e) ''https://'' \<and> (case drop 8 e of [] \<Rightarrow> False | c # _ \<Rightarrow> c \<notin> set ''/?#''))"

definition subscribe ::
  "uuid \<Rightarrow> string \<Rightarrow> string \<Rightarrow> string \<Rightarrow> string \<Rightarrow> subscription_row list \<Rightarrow> auth_error + subscription_row list" where
  "subscribe i endpoint p256dh auth user_agent subs =
    (let f = (\<lambda>s. s\<lparr>ps_p256dh := p256dh, ps_auth := auth, ps_user_agent := take 512 user_agent, ps_disabled_at := None, ps_failure_count := 0\<rparr>) in
     ebind (require (https_endpoint endpoint) (ValueError ''Push endpoint must be an https URL'')) (\<lambda>_.
     Inr (if list_ex (\<lambda>s. ps_endpoint s = endpoint) subs then tset ps_endpoint endpoint f subs
       else tadd (f \<lparr>ps_id = i, ps_endpoint = endpoint, ps_p256dh = [], ps_auth = [], ps_user_agent = [], ps_last_success_at = None,
         ps_failure_count = 0, ps_disabled_at = None\<rparr>) subs)))"

definition unsubscribe :: "string \<Rightarrow> subscription_row list \<Rightarrow> bool \<times> subscription_row list" where
  "unsubscribe endpoint subs = (list_ex (\<lambda>s. ps_endpoint s = endpoint) subs, filter (\<lambda>s. ps_endpoint s \<noteq> endpoint) subs)"

definition delete_subscription :: "uuid \<Rightarrow> subscription_row list \<Rightarrow> auth_error + subscription_row list" where
  "delete_subscription i subs = ebind (the_row (tget ps_id i subs) (LookupError ''Push subscription not found'')) (\<lambda>_.
     Inr (filter (\<lambda>s. ps_id s \<noteq> i) subs))"

end
