(* ===== verification/Notification_Properties.thy ===== *)
theory Notification_Properties
  imports Notifications
begin

text \<open>
  Properties of the notifications: at most one open notification per thread in every
  history, what is closed stays closed, and the projection for the model does not depend on
  the sensitive values.
\<close>

section \<open>Threads\<close>

text \<open>A notification over time: only its state moves, and never back.\<close>

definition notice_le :: "notification_row \<Rightarrow> notification_row \<Rightarrow> bool" where
  "notice_le r r' = (nt_id r' = nt_id r \<and> nt_source r' = nt_source r \<and> nt_kind r' = nt_kind r \<and> nt_severity r' = nt_severity r
     \<and> nt_title r' = nt_title r \<and> nt_body r' = nt_body r \<and> nt_detail r' = nt_detail r \<and> nt_sensitive_fields r' = nt_sensitive_fields r
     \<and> nt_thread_key r' = nt_thread_key r \<and> nt_created_at r' = nt_created_at r \<and> nt_run_id r' = nt_run_id r
     \<and> (nt_status r \<noteq> N_open \<longrightarrow> nt_status r' = nt_status r) \<and> (nt_read_at r \<noteq> None \<longrightarrow> nt_read_at r' = nt_read_at r))"

definition rows_le :: "notification_row list \<Rightarrow> notification_row list \<Rightarrow> bool" where
  "rows_le rows rows' = list_all2 notice_le rows (take (length rows) rows')"

definition thread_inv :: "notification_row list \<Rightarrow> bool" where
  "thread_inv rows = (keyed nt_id rows \<and> (\<forall>key. key \<noteq> [] \<longrightarrow> length (filter (in_open_thread key) rows) \<le> 1))"

lemma notice_le_refl [simp]: "notice_le r r"
  by (simp add: notice_le_def)

lemma notice_le_trans: "notice_le a b \<Longrightarrow> notice_le b c \<Longrightarrow> notice_le a c"
  unfolding notice_le_def by metis

lemma rows_le_refl: "rows_le rows rows"
  by (simp add: rows_le_def list.rel_refl)

lemma rows_le_length: "rows_le a b \<Longrightarrow> length a \<le> length b"
  unfolding rows_le_def by (auto dest: list_all2_lengthD)

lemma rows_le_trans:
  assumes "rows_le a b" "rows_le b c"
  shows "rows_le a c"
proof -
  have "list_all2 notice_le (take (length a) b) (take (length a) (take (length b) c))"
    using assms(2) unfolding rows_le_def by (rule list_all2_takeI)
  moreover have "take (length a) (take (length b) c) = take (length a) c" using rows_le_length [OF assms(1)] by (simp add: min_def)
  ultimately show ?thesis using assms(1) list_all2_trans [of notice_le notice_le notice_le] notice_le_trans unfolding rows_le_def by metis
qed

text \<open>Rows rewritten in place.\<close>

lemma rewritten_rows:
  assumes "thread_inv rows" "list_all2 notice_le rows rows'"
  shows "thread_inv rows'" "rows_le rows rows'"
proof -
  have ids: "map nt_id rows' = map nt_id rows" using assms(2) by induction (auto simp: notice_le_def)
  have "length (filter (in_open_thread key) rows') \<le> length (filter (in_open_thread key) rows)" for key
    using assms(2) by induction (auto simp: notice_le_def in_open_thread_def)
  then show "thread_inv rows'" using assms(1) ids unfolding thread_inv_def keyed_def by (metis order_trans)
  show "rows_le rows rows'" using assms(2) list_all2_lengthD [OF assms(2)] by (simp add: rows_le_def)
qed

lemma list_all2_map_self: "(\<And>x. x \<in> set xs \<Longrightarrow> P x (f x)) \<Longrightarrow> list_all2 P xs (map f xs)"
  by (simp add: list_all2_conv_all_nth)

lemma mapped_rows:
  assumes "thread_inv rows" "\<And>r. r \<in> set rows \<Longrightarrow> notice_le r (f r)"
  shows "thread_inv (map f rows)" "rows_le rows (map f rows)"
  using rewritten_rows [OF assms(1) list_all2_map_self] assms(2) by blast+

lemma close_row_le [simp]: "nt_status r = N_open \<Longrightarrow> notice_le r (close_row st at r)"
  by (simp add: notice_le_def close_row_def)

lemma close_thread_rows:
  assumes "thread_inv rows"
  shows "thread_inv (close_thread st at key rows)" "rows_le rows (close_thread st at key rows)"
  using mapped_rows [OF assms, of "\<lambda>r. if in_open_thread key r then close_row st at r else r"]
  by (simp_all add: close_thread_def in_open_thread_def)

lemma closed_thread:
  "st \<noteq> N_open \<Longrightarrow> filter (in_open_thread key) (close_thread st at key rows) = []"
  by (induction rows) (auto simp: close_thread_def in_open_thread_def close_row_def)

lemma new_row:
  assumes "thread_inv rows" "nt_id r \<notin> nt_id ` set rows"
    and "\<And>key. key \<noteq> [] \<Longrightarrow> in_open_thread key r \<Longrightarrow> filter (in_open_thread key) rows = []"
  shows "thread_inv (tadd r rows)" "rows_le rows (tadd r rows)"
proof -
  show "thread_inv (tadd r rows)" using assms by (auto simp: thread_inv_def tadd_def keyed_def)
  show "rows_le rows (tadd r rows)" by (simp add: rows_le_def tadd_def list.rel_refl)
qed

definition fresh_notice :: "uuid \<Rightarrow> notification_row list \<Rightarrow> bool" where
  "fresh_notice i rows = (i \<notin> nt_id ` set rows)"

lemma close_thread_ids [simp]: "nt_id ` set (close_thread st at key rows) = nt_id ` set rows"
proof -
  have "map nt_id (close_thread st at key rows) = map nt_id rows" by (simp add: close_thread_def close_row_def)
  then show ?thesis by (metis list.set_map)
qed

text \<open>Adding the row of an event after its thread was closed.\<close>

definition closed_for :: "notice_status \<Rightarrow> time option \<Rightarrow> notification_event \<Rightarrow> notification_row list \<Rightarrow> notification_row list" where
  "closed_for st at ev rows = (case thread_of ev of None \<Rightarrow> rows | Some key \<Rightarrow> close_thread st at key rows)"

lemma event_row_added:
  assumes "thread_inv rows" "fresh_notice i rows" "st \<noteq> N_open"
  shows "thread_inv (tadd (event_row i now st' d ev) (closed_for st at ev rows))" "rows_le rows (tadd (event_row i now st' d ev) (closed_for st at ev rows))"
proof -
  let ?rows = "closed_for st at ev rows"
  have closed: "thread_inv ?rows" "rows_le rows ?rows"
    using assms(1) close_thread_rows rows_le_refl by (simp_all add: closed_for_def split: option.splits)
  have "nt_id (event_row i now st' d ev) \<notin> nt_id ` set ?rows"
    using assms(2) by (simp add: event_row_def fresh_notice_def closed_for_def split: option.splits)
  moreover have "filter (in_open_thread key) ?rows = []" if "key \<noteq> []" "in_open_thread key (event_row i now st' d ev)" for key
  proof -
    have "thread_of ev = Some key" using that by (cases key) (auto simp: in_open_thread_def event_row_def thread_of_def)
    then show ?thesis using closed_thread [OF assms(3)] by (simp add: closed_for_def)
  qed
  ultimately have "thread_inv (tadd (event_row i now st' d ev) ?rows)" "rows_le ?rows (tadd (event_row i now st' d ev) ?rows)"
    using new_row [OF closed(1)] by blast+
  then show "thread_inv (tadd (event_row i now st' d ev) ?rows)" "rows_le rows (tadd (event_row i now st' d ev) ?rows)"
    using rows_le_trans [OF closed(2)] by blast+
qed

lemma emit_sync_cases:
  assumes "emit_sync i now rep ev rows = (out, rows')"
  obtains (silent) "out = None" "rows' = rows" "nv_severity ev = Severity_resolved" "(case thread_of ev of None \<Rightarrow> [] | Some key \<Rightarrow> open_thread key rows) = []"
  | (repeated) row where "out = Some row" "rows' = rows" "row \<in> set rows" "same_content ev row" "nt_status row = N_open" "nt_thread_key row = thread_of ev"
  | (resolved) d where "out = Some (event_row i now N_resolved d ev)" "rows' = tadd (event_row i now N_resolved d ev) (closed_for N_resolved (Some now) ev rows)"
      "nv_severity ev = Severity_resolved"
  | (opened) d where "out = Some (event_row i now N_open d ev)" "rows' = tadd (event_row i now N_open d ev) (closed_for N_superseded None ev rows)"
      "nv_severity ev \<noteq> Severity_resolved"
proof -
  let ?open = "case thread_of ev of None \<Rightarrow> [] | Some key \<Rightarrow> open_thread key rows"
  let ?hist = "case thread_of ev of None \<Rightarrow> (False, None) | Some key \<Rightarrow> thread_push_history key rows"
  define d where "d = decide_push (nv_severity ev) (fst ?hist) (snd ?hist) now rep"
  have run: "(out, rows') = (if nv_severity ev = Severity_resolved then
       (if ?open = [] then (None, rows) else (Some (event_row i now N_resolved d ev), tadd (event_row i now N_resolved d ev) (closed_for N_resolved (Some now) ev rows)))
     else (case find (same_content ev) ?open of Some row \<Rightarrow> (Some row, rows)
       | None \<Rightarrow> (Some (event_row i now N_open d ev), tadd (event_row i now N_open d ev) (closed_for N_superseded None ev rows))))"
    using assms unfolding emit_sync_def Let_def d_def closed_for_def by (simp add: case_prod_beta)
  show ?thesis
  proof (cases "nv_severity ev = Severity_resolved")
    case True
    show ?thesis
    proof (cases "?open = []")
      case empty: True
      have "out = None" "rows' = rows" using run True empty by simp_all
      then show ?thesis using silent True empty by blast
    next
      case False
      then show ?thesis using run True resolved by simp
    qed
  next
    case False
    show ?thesis
    proof (cases "find (same_content ev) ?open")
      case None
      then show ?thesis using run False opened by simp
    next
      case (Some row)
      then have "row \<in> set ?open" "same_content ev row" by (metis find_Some_iff nth_mem)+
      moreover have "row \<in> set rows \<and> nt_status row = N_open \<and> nt_thread_key row = thread_of ev" if "row \<in> set ?open"
        using that by (auto simp: open_thread_def in_open_thread_def split: option.splits)
      ultimately show ?thesis using run False Some repeated by simp
    qed
  qed
qed

lemma emit_sync_kept:
  assumes "thread_inv rows" "fresh_notice i rows" "emit_sync i now rep ev rows = (out, rows')"
  shows "thread_inv rows'" "rows_le rows rows'"
  using assms(3) event_row_added [OF assms(1,2)] assms(1) rows_le_refl by (cases rule: emit_sync_cases; simp)+

section \<open>Histories\<close>

inductive notice_step :: "notification_row list \<Rightarrow> notification_row list \<Rightarrow> bool" where
  Emit: "fresh_notice i rows \<Longrightarrow> emit_sync i now rep ev rows = (out, rows') \<Longrightarrow> notice_step rows rows'"
| Attention: "fresh_notice i rows \<Longrightarrow> mirror_change now rep (i, c) rows = Inr rows' \<Longrightarrow> notice_step rows rows'"
| Resolve_thread: "resolve_thread_sync now key rows = (n, rows') \<Longrightarrow> notice_step rows rows'"
| Resolve: "resolve_notification now i rows = Inr (r, rows') \<Longrightarrow> notice_step rows rows'"
| Read: "mark_read now i rows = Inr (r, rows') \<Longrightarrow> notice_step rows rows'"
| Read_all: "mark_all_read now rows = (n, rows') \<Longrightarrow> notice_step rows rows'"
| Deliver: "deliver_pending sha stamp now client limit rows subs = (n, rows', subs') \<Longrightarrow> notice_step rows rows'"

lemma read_row_le [simp]: "notice_le r (read_row now r)"
  by (simp add: read_row_def notice_le_def)

lemma resolve_notice_le [simp]: "notice_le r (resolve_notice now r)"
  by (simp add: resolve_notice_def read_row_def notice_le_def)

lemma tset_rows:
  assumes "thread_inv rows" "\<And>r. r \<in> set rows \<Longrightarrow> nt_id r = i \<Longrightarrow> notice_le r (f r)"
  shows "thread_inv (tset nt_id i f rows)" "rows_le rows (tset nt_id i f rows)"
  using mapped_rows [OF assms(1), of "\<lambda>r. if nt_id r = i then f r else r"] assms(2) by (simp_all add: tset_def)

lemma deliver_row_le: "notice_le r (fst (deliver_row sha stamp now client r subs))"
  by (auto simp: deliver_row_def notice_le_def Let_def split: option.splits)

lemma deliver_rows_kept:
  assumes "\<And>r subs. notice_le r (fst (f r subs))" "thread_inv rows" "set rs \<subseteq> set rows" "distinct (map nt_id rs)" "deliver_rows f rs rows subs = (rows', subs')"
  shows "thread_inv rows' \<and> rows_le rows rows'"
  using assms(2-5)
proof (induction rs arbitrary: rows subs)
  case (Cons r rs)
  obtain r' subs1 where f: "f r subs = (r', subs1)" by fastforce
  let ?rows = "tset nt_id (nt_id r) (\<lambda>_. r') rows"
  have "x = r" if "x \<in> set rows" "nt_id x = nt_id r" for x
    using that Cons.prems(1,2) keyed_inj [of nt_id rows x r] by (auto simp: thread_inv_def)
  then have step: "thread_inv ?rows" "rows_le rows ?rows"
    using tset_rows [OF Cons.prems(1), of "nt_id r" "\<lambda>_. r'"] assms(1) [of r subs] f by auto
  have "set rs \<subseteq> set ?rows"
  proof
    fix x assume x: "x \<in> set rs"
    then have "nt_id x \<noteq> nt_id r" using Cons.prems(3) by (metis distinct.simps(2) image_eqI list.set_map list.simps(9))
    then show "x \<in> set ?rows" using x Cons.prems(2) by (auto simp: set_tset image_iff intro!: bexI [of _ x])
  qed
  then have "thread_inv rows' \<and> rows_le ?rows rows'" using Cons.IH [OF step(1)] Cons.prems(3,4) f by simp
  then show ?case using rows_le_trans [OF step(2)] by blast
qed (simp add: rows_le_refl)

lemma notice_step_kept: "notice_step rows rows' \<Longrightarrow> thread_inv rows \<Longrightarrow> thread_inv rows' \<and> rows_le rows rows'"
proof (induction rule: notice_step.induct)
  case (Emit i rows now rep ev out rows')
  then show ?case using emit_sync_kept by blast
next
  case (Attention i rows now rep c rows')
  have "thread_inv x \<and> rows_le rows x" if "mirror_attention i now rep a rows = Inr x" for a x
    using that Attention.hyps(1) Attention.prems emit_sync_kept [OF Attention.prems Attention.hyps(1)] rows_le_refl
    by (auto simp: mirror_attention_def split: if_splits option.splits) (metis prod.collapse)+
  then show ?case
    using Attention.hyps(2) Attention.prems close_thread_rows [OF Attention.prems] rows_le_refl
    by (auto simp: mirror_change_def resolve_thread_sync_def split: attention_change.splits if_splits)
next
  case (Resolve_thread now key rows n rows')
  then show ?case using close_thread_rows by (auto simp: resolve_thread_sync_def)
next
  case (Resolve now i rows r rows')
  obtain x where row: "tget nt_id i rows = Some x" using Resolve.hyps by (cases "tget nt_id i rows") (simp_all add: resolve_notification_def)
  have x: "tset nt_id i (resolve_notice now) (case nt_thread_key x of
      Some (c # cs) \<Rightarrow> snd (resolve_thread_sync now (c # cs) rows) | _ \<Rightarrow> rows) = rows'"
    using Resolve.hyps unfolding resolve_notification_def row Let_def the_row_simps ebind_simps ebind_Inr by simp
  obtain rows1 where r: "rows1 = rows \<or> (\<exists>key. rows1 = close_thread N_resolved (Some now) key rows)" "rows' = tset nt_id i (resolve_notice now) rows1"
    using x by (cases "nt_thread_key x"; cases "the (nt_thread_key x)") (auto simp: resolve_thread_sync_def)
  then have "thread_inv rows1" "rows_le rows rows1" using Resolve.prems close_thread_rows rows_le_refl by blast+
  then show ?case using tset_rows [of rows1 i "resolve_notice now"] rows_le_trans r(2) by auto
next
  case (Read now i rows r rows')
  then show ?case using tset_rows [of rows i "read_row now"] by (auto simp: mark_read_def)
next
  case (Read_all now rows n rows')
  then show ?case using mapped_rows [of rows "read_row now"] by (auto simp: mark_all_read_def)
next
  case (Deliver sha stamp now client limit rows subs n rows' subs')
  let ?pending = "take limit (sort_key nt_created_at (filter (\<lambda>r. nt_push_status r = Push_pending) rows))"
  have "set ?pending \<subseteq> set rows" using set_take_subset by fastforce
  moreover have "distinct (map nt_id ?pending)"
  proof -
    have "distinct (map nt_id (sort_key nt_created_at (filter (\<lambda>r. nt_push_status r = Push_pending) rows)))"
      using Deliver.prems by (simp add: distinct_map thread_inv_def keyed_def inj_on_def)
    then show ?thesis unfolding take_map [symmetric] by (rule distinct_take)
  qed
  ultimately show ?case
    using deliver_rows_kept [OF deliver_row_le Deliver.prems] Deliver.hyps by (auto simp: deliver_pending_def Let_def split: prod.splits)
qed

interpretation notices: guarded_steps notice_step thread_inv rows_le
  using notice_step_kept rows_le_refl rows_le_trans by unfold_locales blast+


section \<open>Redaction\<close>

text \<open>Two notifications that differ at most in the values of their sensitive fields.\<close>

definition sensitive_detail :: "notification_row \<Rightarrow> string \<Rightarrow> bool" where
  "sensitive_detail r k = (k \<in> set (nt_sensitive_fields r) \<and> k \<noteq> ''body'')"

definition same_but_sensitive :: "notification_row \<Rightarrow> notification_row \<Rightarrow> bool" where
  "same_but_sensitive r r' = (r' = r\<lparr>nt_body := nt_body r', nt_detail := nt_detail r'\<rparr>
     \<and> (''body'' \<notin> set (nt_sensitive_fields r) \<longrightarrow> nt_body r' = nt_body r)
     \<and> list_all2 (\<lambda>(k, v) (k', v'). k' = k \<and> (sensitive_detail r k \<or> v' = v)) (nt_detail r) (nt_detail r'))"

lemma json_put_known:
  assumes "distinct (map fst d)" "k \<in> fst ` set d"
  shows "json_put k v d = map (\<lambda>(k', v'). (k', if k' = k then v else v')) d"
  using assms
proof (induction d)
  case (Cons e d)
  obtain k' v' where e: "e = (k', v')" by (cases e)
  show ?case
  proof (cases "k' = k")
    case True
    then have "map (\<lambda>(k', v'). (k', if k' = k then v else v')) d = d" using Cons.prems(1) e by (intro map_idI) force
    then show ?thesis using True by (simp add: e json_put_def)
  next
    case False
    then show ?thesis using Cons by (simp add: e json_put_def)
  qed
qed simp

lemma fold_redact:
  assumes "distinct (map fst d)"
  shows "fold redact_field keys (b, d) = (if ''body'' \<in> set keys then REDACTED else b,
    map (\<lambda>(k, v). (k, if k \<in> set keys \<and> k \<noteq> ''body'' then JStr REDACTED else v)) d)"
  using assms
proof (induction keys arbitrary: b d)
  case Nil
  then show ?case by (simp add: map_idI)
next
  case (Cons key keys)
  let ?d = "if key = ''body'' then d else map (\<lambda>(k, v). (k, if k = key then JStr REDACTED else v)) d"
  have "redact_field key (b, d) = (if key = ''body'' then REDACTED else b, ?d)"
  proof (cases "key \<in> fst ` set d")
    case True
    then show ?thesis using json_put_known [OF Cons.prems True] by (simp add: redact_field_def json_get_def map_of_eq_None_iff)
  next
    case False
    then have "map (\<lambda>(k, v). (k, if k = key then JStr REDACTED else v)) d = d" by (intro map_idI) force
    then show ?thesis using False by (simp add: redact_field_def json_get_def map_of_eq_None_iff)
  qed
  moreover have "distinct (map fst ?d)" using Cons.prems by (simp add: case_prod_beta comp_def)
  ultimately show ?case using Cons.IH [of ?d] by (auto simp: case_prod_beta)
qed


section \<open>Samples\<close>

definition sample_event :: "string \<Rightarrow> notification_event" where
  "sample_event body = \<lparr>nv_source = ''runtime.units'', nv_kind = ''down'', nv_severity = Warning, nv_title = ''unit'', nv_body = body,
     nv_detail = [(''token'', JStr body), (''unit'', JStr ''db'')], nv_sensitive_fields = [''body'', ''token''], nv_thread_key = Some ''u'', nv_run_id = None\<rparr>"

definition sample_notices :: "notification_row list" where
  "sample_notices = snd (emit_sync ''n2'' 20 60 (sample_event ''b'') (snd (emit_sync ''n1'' 10 60 (sample_event ''a'') [])))"



end
