(* ===== verification/Schedule_Properties.thy ===== *)
theory Schedule_Properties
  imports Schedules
begin

text \<open>
  Properties of the schedules: a poll claims every due task once, an instant that already has
  a run blocks the whole claim, and a notification wakes each matching task at most once and
  never the task whose run it came from.
\<close>

section \<open>One occurrence\<close>

definition scheduled_run :: "uuid \<times> uuid \<Rightarrow> sched_row \<Rightarrow> json_obj \<Rightarrow> time \<Rightarrow> run_row" where
  "scheduled_run ids task snapshot t = \<lparr>rn_id = snd ids, rn_kind = SCHEDULED, rn_status = QUEUED, rn_transcript_id = Some (fst ids),
     rn_intent = Some (sc_prompt task), rn_finished_at = None, rn_inference_active = False, rn_inference_status = ''queued'',
     rn_heartbeat_at = None, rn_schedule_id = Some (sc_id task), rn_scheduled_for = Some t, rn_trigger_snapshot = snapshot\<rparr>"

lemma tset_tadd_new: "k \<notin> key ` set rows \<Longrightarrow> key r = k \<Longrightarrow> tset key k f (tadd r rows) = tadd (f r) rows"
proof -
  assume "k \<notin> key ` set rows" "key r = k"
  moreover from this have "tset key k f rows = rows" by (intro tset_id) (metis imageI)
  ultimately show ?thesis by (simp add: tset_def tadd_def)
qed

lemma tget_replaced:
  "key r = k \<Longrightarrow> tget key k' (tset key k (\<lambda>_. r) rows) = (if k' = k then map_option (\<lambda>_. r) (tget key k' rows) else tget key k' rows)"
  by (induction rows) auto

lemma list_ex_tadd [simp]: "list_ex P (tadd r rows) = (list_ex P rows \<or> P r)"
  by (simp add: tadd_def)

lemma queue_run_result:
  "queue_run now ids task snapshot t db =
    (if tget ch_id (fst ids) (db_transcripts db) \<noteq> None \<or> get_run (snd ids) db \<noteq> None \<or> occupied (sc_id task) t (db_runs db) then Inl IntegrityError
     else Inr (db\<lparr>db_transcripts := tadd \<lparr>ch_id = fst ids, ch_active_task_state = JObj []\<rparr> (db_transcripts db),
       db_runs := tadd (scheduled_run ids task snapshot t) (db_runs db),
       sk_turns := tadd (fst ids, ''system'', ''Scheduled occurrence: '' @ py_repr (JObj snapshot)) (sk_turns db)\<rparr>))"
proof -
  have "snd ids \<notin> rn_id ` set (db_runs db)" if "get_run (snd ids) db = None" using that by (simp add: get_run_def tget_None_iff)
  then show ?thesis
    by (auto simp: queue_run_def create_run_def Let_def get_run_def tget_tadd upd_run_def tset_tadd_new queued_run_def scheduled_run_def
        occupied_def require_def)
qed

text \<open>What an occurrence writes when it succeeds.\<close>

lemma occurrence_Inr:
  assumes "occurrence L now ids task snapshot t db = Inr db'"
  obtains row where "advance_before_run L now task = Inr row" "\<not> occupied (sc_id task) t (db_runs db)"
    "db_runs db' = tadd (scheduled_run ids task snapshot t) (db_runs db)"
    "db_schedules db' = tset sc_id (sc_id row) (\<lambda>_. row\<lparr>sc_last_status := Some ''queued''\<rparr>) (db_schedules db)"
    "db_transcripts db' = tadd \<lparr>ch_id = fst ids, ch_active_task_state = JObj []\<rparr> (db_transcripts db)"
    "sk_notifications db' = sk_notifications db"
  using assms by (auto simp: occurrence_def queue_run_result upd_schedule_def split: if_splits)

lemma occurrence_ok:
  assumes "tget ch_id (fst ids) (db_transcripts db) = None" "get_run (snd ids) db = None" "\<not> occupied (sc_id task) t (db_runs db)"
    "advance_before_run L now task = Inr row"
  shows "\<exists>db'. occurrence L now ids task snapshot t db = Inr db'"
  using assms by (auto simp: occurrence_def queue_run_result)

lemma advance_id: "advance_before_run L now task = Inr row \<Longrightarrow> sc_id row = sc_id task"
  by (auto simp: advance_before_run_def Let_def split: if_splits)

lemma queued_outstanding: "rn_status (scheduled_run ids task snapshot t) \<in> OUTSTANDING"
  by (simp add: scheduled_run_def OUTSTANDING_def)

lemma occurrence_outstanding:
  assumes "occurrence L now ids task snapshot t db = Inr db'"
  shows "outstanding i db' = (outstanding i db \<or> i = sc_id task)" "occupied i u (db_runs db') = (occupied i u (db_runs db) \<or> i = sc_id task \<and> u = t)"
  using assms queued_outstanding [of ids task snapshot t]
  by (auto elim!: occurrence_Inr simp: outstanding_def occupied_def scheduled_run_def)

section \<open>Due tasks\<close>

text \<open>The claim can be made: fresh identities, valid schedules, and no instant that is taken.\<close>

definition claimable :: "sched_lib \<Rightarrow> time \<Rightarrow> (uuid \<Rightarrow> uuid \<times> uuid) \<Rightarrow> sched_row list \<Rightarrow> 'x sched_db_scheme \<Rightarrow> bool" where
  "claimable L now fresh ts db = (list_all (\<lambda>t. \<not> isl (advance_before_run L now t) \<and> \<not> occupied (sc_id t) (sc_next_run_at t) (db_runs db)
       \<and> fst (fresh (sc_id t)) \<notin> ch_id ` set (db_transcripts db) \<and> snd (fresh (sc_id t)) \<notin> rn_id ` set (db_runs db)) ts
     \<and> distinct (map (\<lambda>t. fst (fresh (sc_id t))) ts) \<and> distinct (map (\<lambda>t. snd (fresh (sc_id t))) ts))"

definition claims :: "sched_lib \<Rightarrow> (uuid \<Rightarrow> uuid \<times> uuid) \<Rightarrow> sched_row \<Rightarrow> run_row" where
  "claims L fresh t = scheduled_run (fresh (sc_id t)) t (due_snapshot L t) (sc_next_run_at t)"

lemma claim_tasks:
  fixes db :: "'x sched_db_scheme"
  assumes "distinct (map sc_id ts)" "claimable L now fresh (filter (\<lambda>t. \<not> outstanding (sc_id t) db) ts) db"
    and "set ts \<subseteq> set (db_schedules db)"
  defines "claimed \<equiv> filter (\<lambda>t. \<not> outstanding (sc_id t) db) ts"
  shows "\<exists>db'. efold (claim_task L now fresh) ts (n, db) = Inr (n + length claimed, db')
    \<and> db_runs db' = db_runs db @ map (claims L fresh) claimed
    \<and> (\<forall>t \<in> set claimed. \<exists>row. advance_before_run L now t = Inr row
         \<and> tget sc_id (sc_id t) (db_schedules db') = Some (row\<lparr>sc_last_status := Some ''queued''\<rparr>))
    \<and> (\<forall>i. i \<notin> sc_id ` set claimed \<longrightarrow> tget sc_id i (db_schedules db') = tget sc_id i (db_schedules db))"
  using assms(1-3) unfolding claimed_def
proof (induction ts arbitrary: n db)
  case (Cons t ts)
  have new: "sc_id u \<noteq> sc_id t" if "u \<in> set ts" for u using Cons.prems(1) that by (metis distinct.simps(2) imageI list.set_map list.simps(9))
  show ?case
  proof (cases "outstanding (sc_id t) db")
    case True
    then show ?thesis using Cons.IH [of db n] Cons.prems by (simp add: claim_task_def)
  next
    case False
    then have can: "claimable L now fresh (t # filter (\<lambda>t. \<not> outstanding (sc_id t) db) ts) db" using Cons.prems(2) by simp
    obtain row where adv: "advance_before_run L now t = Inr row" using can by (cases "advance_before_run L now t") (auto simp: claimable_def)
    obtain db1 where occ: "occurrence L now (fresh (sc_id t)) t (due_snapshot L t) (sc_next_run_at t) db = Inr db1"
      using can occurrence_ok [of "fresh (sc_id t)" db t "sc_next_run_at t" L now row "due_snapshot L t"] adv
      by (auto simp: claimable_def tget_None_iff get_run_def)
    note out = occurrence_outstanding [OF occ]
    have w: "db_runs db1 = tadd (claims L fresh t) (db_runs db)"
      "db_schedules db1 = tset sc_id (sc_id t) (\<lambda>_. row\<lparr>sc_last_status := Some ''queued''\<rparr>) (db_schedules db)"
      "db_transcripts db1 = tadd \<lparr>ch_id = fst (fresh (sc_id t)), ch_active_task_state = JObj []\<rparr> (db_transcripts db)"
      using occ adv advance_id [OF adv] by (auto elim!: occurrence_Inr simp: claims_def)
    have same: "filter (\<lambda>u. \<not> outstanding (sc_id u) db1) ts = filter (\<lambda>u. \<not> outstanding (sc_id u) db) ts"
      using out(1) new by (intro filter_cong) auto
    have "claimable L now fresh (filter (\<lambda>u. \<not> outstanding (sc_id u) db1) ts) db1"
    proof -
      have id: "rn_id (claims L fresh t) = snd (fresh (sc_id t))" by (simp add: claims_def scheduled_run_def)
      have "\<not> occupied (sc_id u) (sc_next_run_at u) (db_runs db1) \<and> fst (fresh (sc_id u)) \<notin> ch_id ` set (db_transcripts db1)
          \<and> snd (fresh (sc_id u)) \<notin> rn_id ` set (db_runs db1)" if u: "u \<in> set ts" "\<not> outstanding (sc_id u) db" for u
      proof -
        have "\<not> occupied (sc_id u) (sc_next_run_at u) (db_runs db) \<and> fst (fresh (sc_id u)) \<notin> ch_id ` set (db_transcripts db)
            \<and> snd (fresh (sc_id u)) \<notin> rn_id ` set (db_runs db) \<and> fst (fresh (sc_id t)) \<noteq> fst (fresh (sc_id u)) \<and> snd (fresh (sc_id t)) \<noteq> snd (fresh (sc_id u))"
          using can u by (auto simp: claimable_def list_all_iff)
        moreover have "set (db_runs db1) = insert (claims L fresh t) (set (db_runs db))" using w(1) by simp
        ultimately show ?thesis using out(2) new [OF u(1)] w(3) id by auto
      qed
      then show ?thesis unfolding same using can by (simp add: claimable_def list_all_iff)
    qed
    moreover have "set ts \<subseteq> set (db_schedules db1)" using Cons.prems(3) new unfolding w(2) set_tset by force
    ultimately obtain db' where r: "efold (claim_task L now fresh) ts (n + 1, db1) = Inr (n + 1 + length (filter (\<lambda>u. \<not> outstanding (sc_id u) db) ts), db')"
        "db_runs db' = db_runs db1 @ map (claims L fresh) (filter (\<lambda>u. \<not> outstanding (sc_id u) db) ts)"
        "\<forall>u \<in> set (filter (\<lambda>u. \<not> outstanding (sc_id u) db) ts). \<exists>row. advance_before_run L now u = Inr row
           \<and> tget sc_id (sc_id u) (db_schedules db') = Some (row\<lparr>sc_last_status := Some ''queued''\<rparr>)"
        "\<forall>i. i \<notin> sc_id ` set (filter (\<lambda>u. \<not> outstanding (sc_id u) db) ts) \<longrightarrow> tget sc_id i (db_schedules db') = tget sc_id i (db_schedules db1)"
      using Cons.IH [of db1 "n + 1"] Cons.prems(1) unfolding same by auto
    have "tget sc_id (sc_id t) (db_schedules db1) = Some (row\<lparr>sc_last_status := Some ''queued''\<rparr>)"
      using Cons.prems(3) advance_id [OF adv] by (cases "tget sc_id (sc_id t) (db_schedules db)") (auto simp: w(2) tget_replaced tget_None_iff)
    moreover have "sc_id t \<notin> sc_id ` set (filter (\<lambda>u. \<not> outstanding (sc_id u) db) ts)" using new by force
    moreover have "tget sc_id i (db_schedules db1) = tget sc_id i (db_schedules db)" if "i \<noteq> sc_id t" for i
      using that advance_id [OF adv] by (simp add: w(2) tget_replaced)
    moreover have "claim_task L now fresh t (n, db) = Inr (n + 1, db1)" using False occ by (simp add: claim_task_def)
    ultimately show ?thesis using r False adv w(1) by (intro exI [of _ db']) (simp add: tadd_def)
  qed
qed simp

lemma due_in: "set (due_schedules now n db) \<subseteq> set (db_schedules db)"
  by (auto simp: due_schedules_def dest!: in_set_takeD)

lemma due_distinct: "keyed sc_id (db_schedules db) \<Longrightarrow> distinct (map sc_id (due_schedules now n db))"
proof -
  assume "keyed sc_id (db_schedules db)"
  then have "distinct (map sc_id (sort_key sc_next_run_at (filter (\<lambda>r. sc_enabled r \<and> sc_next_run_at r \<le> now) (db_schedules db))))"
    by (simp add: keyed_def distinct_map inj_on_def)
  then show ?thesis unfolding due_schedules_def take_map [symmetric] by (rule distinct_take)
qed

text \<open>After its claim a task is not due any more, as the next occurrence of a cron expression lies in the future.\<close>

lemma advanced_not_due:
  assumes "advance_before_run L now task = Inr row" "now < EVENT_SENTINEL" "\<And>v z t. sl_cron L v z now = Some t \<Longrightarrow> now < t"
  shows "\<not> (sc_enabled row \<and> sc_next_run_at row \<le> now)"
proof -
  have "now < now + max 1 n * 60000000" for n :: int by (simp add: max_def)
  then show ?thesis using assms by (auto simp: advance_before_run_def next_run_def Let_def not_le split: if_splits)
qed

text \<open>C34: a poll claims what is due. Of the ten tasks that have been due longest, exactly those without an outstanding run get one queued run,
  for the instant they were due at; every other run stays as it is; a claimed task is not due any more, and all ten
  have an outstanding run, so a second poll claims none of them.\<close>

theorem claim_due_exact:
  assumes "keyed sc_id (db_schedules db)" "now < EVENT_SENTINEL"
    and cron: "\<forall>v z t. sl_cron L v z now = Some t \<longrightarrow> now < t"
    and can: "claimable L now fresh (filter (\<lambda>t. \<not> outstanding (sc_id t) db) (due_schedules now 10 db)) db"
  shows "let claimed = filter (\<lambda>t. \<not> outstanding (sc_id t) db) (due_schedules now 10 db) in
    \<exists>db'. claim_due L now fresh db = Inr (length claimed, db')
      \<and> db_runs db' = db_runs db @ map (claims L fresh) claimed
      \<and> (\<forall>t \<in> set claimed. \<exists>row. tget sc_id (sc_id t) (db_schedules db') = Some row \<and> \<not> (sc_enabled row \<and> sc_next_run_at row \<le> now))
      \<and> (\<forall>t \<in> set (due_schedules now 10 db). outstanding (sc_id t) db')"
proof -
  define claimed where "claimed = filter (\<lambda>t. \<not> outstanding (sc_id t) db) (due_schedules now 10 db)"
  obtain db' where r: "claim_due L now fresh db = Inr (length claimed, db')" "db_runs db' = db_runs db @ map (claims L fresh) claimed"
      "\<forall>t \<in> set claimed. \<exists>row. advance_before_run L now t = Inr row
         \<and> tget sc_id (sc_id t) (db_schedules db') = Some (row\<lparr>sc_last_status := Some ''queued''\<rparr>)"
    using claim_tasks [OF due_distinct [OF assms(1)] can due_in, of 0] unfolding claim_due_def claimed_def by auto
  have "\<exists>row. tget sc_id (sc_id t) (db_schedules db') = Some row \<and> \<not> (sc_enabled row \<and> sc_next_run_at row \<le> now)" if "t \<in> set claimed" for t
    using r(3) that advanced_not_due [OF _ assms(2)] cron by fastforce
  moreover have "outstanding (sc_id t) db'" if "t \<in> set (due_schedules now 10 db)" for t
  proof (cases "outstanding (sc_id t) db")
    case True
    then show ?thesis by (simp add: outstanding_def r(2))
  next
    case False
    then have "t \<in> set claimed" using that by (simp add: claimed_def)
    moreover have "rn_schedule_id (claims L fresh t) = Some (sc_id t)" by (simp add: claims_def scheduled_run_def)
    ultimately show ?thesis
      by (auto simp: outstanding_def r(2) list_ex_iff claims_def queued_outstanding intro!: bexI [of _ "claims L fresh t"])
  qed
  ultimately show ?thesis using r(1,2) unfolding Let_def claimed_def by blast
qed

section \<open>A taken instant\<close>

lemma claim_task_Inr:
  assumes "claim_task L now fresh u (n, db) = Inr (n', db')"
  shows "outstanding i db' = (outstanding i db \<or> i = sc_id u)" "occupied i t (db_runs db) \<Longrightarrow> occupied i t (db_runs db')"
proof -
  consider "outstanding (sc_id u) db" "db' = db" | "occurrence L now (fresh (sc_id u)) u (due_snapshot L u) (sc_next_run_at u) db = Inr db'"
    using assms by (auto simp: claim_task_def split: if_splits)
  then show "outstanding i db' = (outstanding i db \<or> i = sc_id u)" "occupied i t (db_runs db) \<Longrightarrow> occupied i t (db_runs db')"
    by (cases; auto simp: occurrence_outstanding)+
qed

lemma claim_stops:
  assumes "t \<in> set ts" "distinct (map sc_id ts)" "\<not> outstanding (sc_id t) db" "occupied (sc_id t) (sc_next_run_at t) (db_runs db)"
  shows "isl (efold (claim_task L now fresh) ts (n, db))"
  using assms
proof (induction ts arbitrary: n db)
  case (Cons u ts)
  show ?case
  proof (cases "claim_task L now fresh u (n, db)")
    case (Inr s)
    obtain n1 db1 where s: "s = (n1, db1)" by (cases s)
    note kept = claim_task_Inr [OF Inr [unfolded s]]
    have "u \<noteq> t" using Inr Cons.prems(3,4) by (auto simp: claim_task_def occurrence_def queue_run_result split: if_splits)
    then have "t \<in> set ts" "sc_id t \<noteq> sc_id u" using Cons.prems(1,2) by (auto simp: image_iff)
    then show ?thesis using Cons.IH [of db1 n1] Cons.prems(2-4) kept Inr s by simp
  qed simp
qed simp

text \<open>C36: a taken instant blocks the claim. When one of the ten tasks due longest has no outstanding run but a run for the very instant it is due at,
  the claim raises whatever the other tasks are, so nothing at all is claimed. A one-time task that is switched on again
  after its run is in that state.\<close>

theorem taken_instant_blocks:
  assumes "keyed sc_id (db_schedules db)" "t \<in> set (due_schedules now 10 db)" "\<not> outstanding (sc_id t) db"
    "occupied (sc_id t) (sc_next_run_at t) (db_runs db)"
  shows "\<exists>err. claim_due L now fresh db = Inl err \<and> run_due_once L now fresh fresh_event True db = (Inl err, db)"
  using claim_stops [OF assms(2) due_distinct [OF assms(1)] assms(3,4), of L now fresh 0]
  by (auto simp: claim_due_def run_due_once_def isl_def)

section \<open>Wakes\<close>

text \<open>A run that a notification may have queued, seen from the tables at the start of the poll.\<close>

definition woken_by :: "sched_lib \<Rightarrow> 'x sched_db_scheme \<Rightarrow> notification_row list \<Rightarrow> (sched_row \<times> event_filter) list \<Rightarrow> run_row \<Rightarrow> bool" where
  "woken_by L db rows tasks r = (\<exists>row \<in> set rows. \<exists>(task, f) \<in> set tasks. rn_schedule_id r = Some (sc_id task) \<and> rn_status r = QUEUED
     \<and> \<not> outstanding (sc_id task) db \<and> eligible db (project_notification (sl_iso L) ''model'' row) row task f)"

text \<open>How the tables have grown during a poll.\<close>

definition grown :: "sched_lib \<Rightarrow> 'x sched_db_scheme \<Rightarrow> notification_row list \<Rightarrow> (sched_row \<times> event_filter) list \<Rightarrow> nat \<times> 'x sched_db_scheme \<Rightarrow> bool" where
  "grown L db rows tasks s = (\<exists>new. db_runs (snd s) = db_runs db @ new \<and> length new = fst s \<and> distinct (map rn_schedule_id new)
     \<and> (\<forall>r \<in> set new. woken_by L db rows tasks r))"

lemma tget_append: "tget key k (xs @ ys) = (case tget key k xs of None \<Rightarrow> tget key k ys | Some x \<Rightarrow> Some x)"
  by (induction xs) auto

lemma eligible_before:
  assumes "db_runs db' = db_runs db @ new" "eligible db' event row task f"
  shows "eligible db event row task f"
  using assms by (auto simp: eligible_def get_run_def tget_append split: option.splits)

lemma wake_task_grown:
  assumes "grown L db rows tasks (n, db1)" "row \<in> set rows" "tf \<in> set tasks"
    "wake_task L now fresh row (project_notification (sl_iso L) ''model'' row) tf (n, d, db1) = Inr (n', d', db2)"
  shows "grown L db rows tasks (n', db2) \<and> sk_notifications db2 = sk_notifications db1
    \<and> (\<forall>i. outstanding i db1 \<longrightarrow> outstanding i db2)
    \<and> (d' \<longrightarrow> d \<or> (filter_matches (snd tf) (project_notification (sl_iso L) ''model'' row) \<and> outstanding (sc_id (fst tf)) db2))"
proof -
  obtain task f where tf: "tf = (task, f)" by (cases tf)
  let ?event = "project_notification (sl_iso L) ''model'' row"
  consider "n' = n" "db2 = db1" "d' = d" | "n' = n" "db2 = db1" "d'" "eligible db1 ?event row task f" "outstanding (sc_id task) db1"
    | snapshot t where "n' = n + 1" "d' = d" "eligible db1 ?event row task f" "\<not> outstanding (sc_id task) db1"
        "occurrence L now (fresh (nt_id row) (sc_id task)) task snapshot t db1 = Inr db2"
    using assms(4) by (auto simp: wake_task_def tf Let_def split: if_splits)
  then show ?thesis
  proof cases
    case 1
    then show ?thesis using assms(1) by simp
  next
    case 2
    then show ?thesis using assms(1) by (simp add: tf eligible_def)
  next
    case (3 snapshot t)
    let ?run = "scheduled_run (fresh (nt_id row) (sc_id task)) task snapshot t"
    obtain new where new: "db_runs db1 = db_runs db @ new" "length new = n" "distinct (map rn_schedule_id new)" "\<forall>r \<in> set new. woken_by L db rows tasks r"
      using assms(1) by (auto simp: grown_def)
    have runs: "db_runs db2 = db_runs db @ (new @ [?run])" "sk_notifications db2 = sk_notifications db1"
      using 3(5) new(1) by (auto elim!: occurrence_Inr simp: tadd_def)
    have "Some (sc_id task) \<notin> rn_schedule_id ` set new"
    proof
      assume "Some (sc_id task) \<in> rn_schedule_id ` set new"
      then obtain r where "r \<in> set new" "rn_schedule_id r = Some (sc_id task)" "rn_status r = QUEUED" using new(4) by (force simp: woken_by_def)
      then show False using 3(4) new(1) by (auto simp: outstanding_def list_ex_iff OUTSTANDING_def)
    qed
    moreover have "\<not> outstanding (sc_id task) db" using 3(4) new(1) by (auto simp: outstanding_def)
    then have "woken_by L db rows tasks ?run"
      using assms(2,3) eligible_before [OF new(1) 3(3)] by (auto simp: woken_by_def tf scheduled_run_def)
    ultimately have "grown L db rows tasks (n', db2)"
      unfolding grown_def using runs(1) new 3(1) by (intro exI [of _ "new @ [?run]"]) (simp add: scheduled_run_def)
    then show ?thesis using runs(2) occurrence_outstanding(1) [OF 3(5)] 3(2) by auto
  qed
qed

text \<open>All tasks for one notification.\<close>

lemma wake_tasks_grown:
  assumes "grown L db rows tasks (n, db1)" "row \<in> set rows" "set ts \<subseteq> set tasks"
    "efold (wake_task L now fresh row (project_notification (sl_iso L) ''model'' row)) ts (n, d, db1) = Inr (n', d', db2)"
  shows "grown L db rows tasks (n', db2) \<and> sk_notifications db2 = sk_notifications db1 \<and> (\<forall>i. outstanding i db1 \<longrightarrow> outstanding i db2)
    \<and> (d' \<longrightarrow> d \<or> (\<exists>(task, f) \<in> set ts. filter_matches f (project_notification (sl_iso L) ''model'' row) \<and> outstanding (sc_id task) db2))"
  using assms(1,3,4)
proof (induction ts arbitrary: n d db1)
  case (Cons tf ts)
  obtain n1 d1 dba where step: "wake_task L now fresh row (project_notification (sl_iso L) ''model'' row) tf (n, d, db1) = Inr (n1, d1, dba)"
      and rest: "efold (wake_task L now fresh row (project_notification (sl_iso L) ''model'' row)) ts (n1, d1, dba) = Inr (n', d', db2)"
    using Cons.prems(3) by auto
  have "tf \<in> set tasks" "set ts \<subseteq> set tasks" using Cons.prems(2) by simp_all
  note one = wake_task_grown [OF Cons.prems(1) assms(2) this(1) step]
  then have "grown L db rows tasks (n1, dba)" by blast
  note more = Cons.IH [OF this \<open>set ts \<subseteq> set tasks\<close> rest]
  show ?case using one more by (cases tf) auto
qed simp

text \<open>A notification that was looked at is claimed, or a task it matches is busy.\<close>

definition attended :: "sched_lib \<Rightarrow> time \<Rightarrow> (sched_row \<times> event_filter) list \<Rightarrow> 'x sched_db_scheme \<Rightarrow> notification_row \<Rightarrow> bool" where
  "attended L now tasks db row = ((\<exists>r. tget nt_id (nt_id row) (sk_notifications db) = Some r \<and> nt_wake_claimed_at r = Some now)
     \<or> (\<exists>(task, f) \<in> set tasks. filter_matches f (project_notification (sl_iso L) ''model'' row) \<and> outstanding (sc_id task) db))"

lemma claim_notice_sel [simp]: "nt_id (claim_notice now r) = nt_id r" "nt_wake_claimed_at (claim_notice now r) = Some now"
  by (simp_all add: claim_notice_def)

lemma wake_notifications_grown:
  assumes "grown L db rows tasks (n, db1)" "set todo \<subseteq> set rows" "nt_id ` set todo \<subseteq> nt_id ` set (sk_notifications db1)"
    "efold (wake_notification L now fresh tasks) todo (n, db1) = Inr (n', db2)"
  shows "grown L db rows tasks (n', db2) \<and> (\<forall>row \<in> set todo. attended L now tasks db2 row)
    \<and> (\<forall>row. attended L now tasks db1 row \<longrightarrow> attended L now tasks db2 row)"
  using assms
proof (induction todo arbitrary: n db1)
  case (Cons row todo)
  obtain s where first: "wake_notification L now fresh tasks row (n, db1) = Inr s" "efold (wake_notification L now fresh tasks) todo s = Inr (n', db2)"
    using Cons.prems(4) by auto
  then obtain n1 d dba where tasks: "efold (wake_task L now fresh row (project_notification (sl_iso L) ''model'' row)) tasks (n, False, db1) = Inr (n1, d, dba)"
      and rest: "efold (wake_notification L now fresh tasks) todo
        (n1, if d then dba else dba\<lparr>sk_notifications := tset nt_id (nt_id row) (claim_notice now) (sk_notifications dba)\<rparr>) = Inr (n', db2)"
    using first(1) by (auto simp: wake_notification_def)
  define dbb where "dbb = (if d then dba else dba\<lparr>sk_notifications := tset nt_id (nt_id row) (claim_notice now) (sk_notifications dba)\<rparr>)"
  have "row \<in> set rows" using Cons.prems(2) by simp
  note one = wake_tasks_grown [OF Cons.prems(1) this subset_refl tasks]
  have g: "grown L db rows tasks (n1, dbb)" using one by (simp add: grown_def dbb_def)
  have out: "outstanding i dbb = outstanding i dba" for i by (simp add: outstanding_def dbb_def)
  have get: "tget nt_id k (sk_notifications dbb) = map_option (\<lambda>r. if k = nt_id row \<and> \<not> d then claim_notice now r else r) (tget nt_id k (sk_notifications db1))" for k
    using one by (auto simp: dbb_def tget_tset map_option.id [unfolded id_def])
  have kept: "attended L now tasks dbb u" if "attended L now tasks db1 u" for u
    using that unfolding attended_def
  proof (elim disjE)
    assume "\<exists>r. tget nt_id (nt_id u) (sk_notifications db1) = Some r \<and> nt_wake_claimed_at r = Some now"
    then have "\<exists>r. tget nt_id (nt_id u) (sk_notifications dbb) = Some r \<and> nt_wake_claimed_at r = Some now"
      using get [of "nt_id u"] by (cases "nt_id u = nt_id row \<and> \<not> d") auto
    then show "(\<exists>r. tget nt_id (nt_id u) (sk_notifications dbb) = Some r \<and> nt_wake_claimed_at r = Some now)
      \<or> (\<exists>(task, f) \<in> set tasks. filter_matches f (project_notification (sl_iso L) ''model'' u) \<and> outstanding (sc_id task) dbb)" by blast
  next
    assume "\<exists>(task, f) \<in> set tasks. filter_matches f (project_notification (sl_iso L) ''model'' u) \<and> outstanding (sc_id task) db1"
    then have "\<exists>(task, f) \<in> set tasks. filter_matches f (project_notification (sl_iso L) ''model'' u) \<and> outstanding (sc_id task) dbb"
      using one unfolding out by blast
    then show "(\<exists>r. tget nt_id (nt_id u) (sk_notifications dbb) = Some r \<and> nt_wake_claimed_at r = Some now)
      \<or> (\<exists>(task, f) \<in> set tasks. filter_matches f (project_notification (sl_iso L) ''model'' u) \<and> outstanding (sc_id task) dbb)" by blast
  qed
  have "\<exists>r. tget nt_id (nt_id row) (sk_notifications db1) = Some r" using Cons.prems(3) by (cases "tget nt_id (nt_id row) (sk_notifications db1)") (auto simp: tget_None_iff)
  then have here: "attended L now tasks dbb row"
    using one get [of "nt_id row"] out by (cases d) (auto simp: attended_def)
  have "nt_id ` set (sk_notifications dbb) = nt_id ` set (sk_notifications db1)"
    using get by (metis (no_types, lifting) map_option_is_None set_eqI tget_None_iff)
  then have ids: "nt_id ` set todo \<subseteq> nt_id ` set (sk_notifications dbb)" using Cons.prems(3) by simp
  have "set todo \<subseteq> set rows" using Cons.prems(2) by simp
  note more = Cons.IH [OF g this ids rest [folded dbb_def]]
  show ?case using more here kept by auto
qed simp

text \<open>C35: a notification wakes. Each task gets at most one run in a poll, and only when it had none outstanding; the run comes from a recent, not
  superseded notification that its filter matches and that none of its own runs has sent. Every notification looked at is
  claimed, or one of the tasks it matches is busy and it waits for the next poll.\<close>

theorem wakes_once:
  assumes "claim_events L now fresh db = Inr (n, db')"
  defines "tasks \<equiv> with_filters L (event_tasks db)" and "rows \<equiv> wake_queue now (expire_notices now (sk_notifications db))"
  shows "(\<exists>new. db_runs db' = db_runs db @ new \<and> length new = n \<and> distinct (map rn_schedule_id new)
      \<and> (\<forall>r \<in> set new. \<exists>row \<in> set rows. \<exists>(task, f) \<in> set tasks. rn_schedule_id r = Some (sc_id task) \<and> rn_status r = QUEUED
           \<and> \<not> outstanding (sc_id task) db \<and> eligible db (project_notification (sl_iso L) ''model'' row) row task f))
    \<and> (tasks = [] \<or> (\<forall>row \<in> set rows. attended L now tasks db' row))"
proof -
  let ?db = "db\<lparr>sk_notifications := expire_notices now (sk_notifications db)\<rparr>"
  have start: "grown L db rows tasks (0, ?db)" by (simp add: grown_def)
  show ?thesis
  proof (cases "tasks = []")
    case True
    then show ?thesis using assms(1) by (auto simp: claim_events_def Let_def tasks_def intro!: exI [of _ "[]"])
  next
    case False
    then have run: "efold (wake_notification L now fresh tasks) rows (0, ?db) = Inr (n, db')"
      using assms(1) by (simp add: claim_events_def Let_def tasks_def rows_def)
    have "nt_id ` set rows \<subseteq> nt_id ` set (sk_notifications ?db)" by (auto simp: rows_def wake_queue_def dest!: in_set_takeD)
    from wake_notifications_grown [OF start subset_refl this run]
    show ?thesis by (auto simp: grown_def woken_by_def)
  qed
qed

section \<open>Samples\<close>

definition sample_lib :: sched_lib where
  "sample_lib = \<lparr>sl_loads = (\<lambda>_. Some (JObj [(''source'', JStr ''u'')])), sl_zone = (\<lambda>_. True), sl_fromiso = (\<lambda>_ _. Some 50),
     sl_int = (\<lambda>_. Some 5), sl_cron = (\<lambda>_ _ now. Some (now + 60000000)), sl_iso = (\<lambda>_. ''T''), sl_uuid = Some\<rparr>"

definition sample_task :: "uuid \<Rightarrow> string \<Rightarrow> sched_row" where
  "sample_task i kind = \<lparr>sc_id = i, sc_title = ''t'', sc_prompt = ''p'', sc_schedule_kind = kind, sc_schedule_value = ''v'', sc_timezone = ''UTC'',
     sc_enabled = True, sc_next_run_at = 50, sc_last_run_at = None, sc_last_status = None, sc_last_result = None, sc_created_at = 0\<rparr>"

definition sample_schedules :: sched_db where
  "sample_schedules = \<lparr>db_runs = [], db_actions = [], db_attention = [], db_transcripts = [], db_schedules = [sample_task ''a'' ''once'', sample_task ''b'' ''interval''],
     sk_notifications = [], sk_turns = []\<rparr>"

definition sample_fresh :: "string \<Rightarrow> uuid \<Rightarrow> uuid \<times> uuid" where
  "sample_fresh k i = (CHR ''t'' # k @ i, CHR ''r'' # k @ i)"

theorem claim_due_exact_witness:
  "\<exists>db'. claim_due sample_lib 100 (sample_fresh ''1'') sample_schedules = Inr (2, db') \<and> map rn_id (db_runs db') = [''r1a'', ''r1b'']"
proof -
  have "keyed sc_id (db_schedules sample_schedules)" "100 < EVENT_SENTINEL"
    "claimable sample_lib 100 (sample_fresh ''1'') (filter (\<lambda>t. \<not> outstanding (sc_id t) sample_schedules) (due_schedules 100 10 sample_schedules)) sample_schedules"
    by code_simp+
  moreover have "\<forall>v z t. sl_cron sample_lib v z 100 = Some t \<longrightarrow> 100 < t" by (simp add: sample_lib_def)
  moreover have "length (filter (\<lambda>t. \<not> outstanding (sc_id t) sample_schedules) (due_schedules 100 10 sample_schedules)) = 2"
    "map (rn_id \<circ> claims sample_lib (sample_fresh ''1'')) (filter (\<lambda>t. \<not> outstanding (sc_id t) sample_schedules) (due_schedules 100 10 sample_schedules)) = [''r1a'', ''r1b'']"
    "db_runs sample_schedules = []" by code_simp+
  ultimately show ?thesis
    using claim_due_exact [of sample_schedules 100 sample_lib "sample_fresh ''1''"] by (auto simp: Let_def)
qed

text \<open>The one-time task has run to its end; then it is switched on again.\<close>

definition sample_again :: sched_db where
  "sample_again = (let db1 = snd (projr (claim_due sample_lib 100 (sample_fresh ''1'') sample_schedules));
     db2 = projr (finish_task 120 ''r1a'' ''done'' (snd (start_task True 110 ''r1a'' db1))) in
     snd (projr (update_schedule sample_lib 130 [(''task_id'', JStr ''a''), (''enabled'', JBool True)] db2)))"

theorem taken_instant_blocks_witness:
  "\<exists>err. run_due_once sample_lib 140 (sample_fresh ''2'') (\<lambda>n. sample_fresh ''3'') True sample_again = (Inl err, sample_again)"
proof -
  have "keyed sc_id (db_schedules sample_again)" by code_simp
  moreover have "list_ex (\<lambda>t. sc_id t = ''a'' \<and> \<not> outstanding (sc_id t) sample_again \<and> occupied (sc_id t) (sc_next_run_at t) (db_runs sample_again))
      (due_schedules 140 10 sample_again)" by code_simp
  ultimately show ?thesis
    using taken_instant_blocks [of sample_again _ 140 sample_lib "sample_fresh ''2''"] by (auto simp: list_ex_iff)
qed

definition sample_notice :: notification_row where
  "sample_notice = event_row ''n'' 70 N_open (Push_none, False) \<lparr>nv_source = ''u'', nv_kind = ''k'', nv_severity = Warning, nv_title = ''t'', nv_body = [],
     nv_detail = [], nv_sensitive_fields = [], nv_thread_key = None, nv_run_id = None\<rparr>"

definition sample_events :: sched_db where
  "sample_events = sample_schedules\<lparr>db_schedules := [sample_task ''e'' ''event''], sk_notifications := [sample_notice]\<rparr>"

theorem wakes_once_witness:
  "\<exists>new db'. claim_events sample_lib 100 (\<lambda>n. sample_fresh n) sample_events = Inr (1, db') \<and> db_runs db' = new \<and> length new = 1
     \<and> distinct (map rn_schedule_id new)"
proof -
  have "map_sum id fst (claim_events sample_lib 100 (\<lambda>n. sample_fresh n) sample_events) = Inr 1" by code_simp
  then obtain db' where r: "claim_events sample_lib 100 (\<lambda>n. sample_fresh n) sample_events = Inr (1, db')"
    by (cases "claim_events sample_lib 100 (\<lambda>n. sample_fresh n) sample_events") auto
  have "db_runs sample_events = []" by code_simp
  then show ?thesis using wakes_once [OF r] r by auto
qed

end
