(* ===== verification/Config_Text.thy ===== *)
theory Config_Text
  imports Python_Text
begin

text \<open>
  What the configuration readers use of Python: \<^verbatim>\<open>re.match\<close> with an anchored pattern, splitting at
  a character, \<^verbatim>\<open>int(...)\<close>, the normal form of a path, iteration over a parsed value, and the
  exceptions that leave a reader. A parsed TOML document is a JSON object; dates are outside it.
\<close>

section \<open>Exceptions\<close>

text \<open>\<open>PolicyError\<close> and \<open>TOMLDecodeError\<close> are subclasses of \<open>CValueError\<close>.\<close>

datatype config_error =
    PolicyError string
  | TOMLDecodeError
  | CValueError string
  | CTypeError string
  | CAttributeError
  | COverflowError

fun value_error :: "config_error \<Rightarrow> bool" where
  "value_error (PolicyError _) = True"
| "value_error TOMLDecodeError = True"
| "value_error (CValueError _) = True"
| "value_error _ = False"

fun type_error :: "config_error \<Rightarrow> bool" where
  "type_error (CTypeError _) = True"
| "type_error _ = False"

section \<open>Patterns\<close>

definition NEWLINE :: char where "NEWLINE = CHR 0x0A"

definition lower_letter :: "char \<Rightarrow> bool" where
  "lower_letter c = (CHR ''a'' \<le> c \<and> c \<le> CHR ''z'')"

definition upper_letter :: "char \<Rightarrow> bool" where
  "upper_letter c = (CHR ''A'' \<le> c \<and> c \<le> CHR ''Z'')"

definition digit :: "char \<Rightarrow> bool" where
  "digit c = (CHR ''0'' \<le> c \<and> c \<le> CHR ''9'')"

text \<open>
  \<^verbatim>\<open>pattern.match(s)\<close> for a pattern that starts with \<^verbatim>\<open>^\<close> and ends with \<^verbatim>\<open>$\<close>: the dollar also
  matches just before a newline at the end of the string. \<open>full\<close> is the language between the anchors.
\<close>

definition re_match :: "(string \<Rightarrow> bool) \<Rightarrow> string \<Rightarrow> bool" where
  "re_match full s = (full s \<or> (s \<noteq> [] \<and> last s = NEWLINE \<and> full (butlast s)))"

text \<open>\<^verbatim>\<open>[first][rest]{0,n}\<close>.\<close>

definition headed :: "(char \<Rightarrow> bool) \<Rightarrow> (char \<Rightarrow> bool) \<Rightarrow> nat \<Rightarrow> string \<Rightarrow> bool" where
  "headed first rest n s = (case s of [] \<Rightarrow> False | c # cs \<Rightarrow> first c \<and> list_all rest cs \<and> length cs \<le> n)"

fun split_on :: "char \<Rightarrow> string \<Rightarrow> string list" where
  "split_on sep [] = [[]]"
| "split_on sep (c # cs) = (case split_on sep cs of
     [] \<Rightarrow> [[c]]
   | w # ws \<Rightarrow> if c = sep then [] # w # ws else (c # w) # ws)"

text \<open>\<^verbatim>\<open>name(\.name)*\<close> with at least \<open>k\<close> names.\<close>

definition dotted :: "(char \<Rightarrow> bool) \<Rightarrow> (char \<Rightarrow> bool) \<Rightarrow> nat \<Rightarrow> string \<Rightarrow> bool" where
  "dotted first rest k s = (let parts = split_on (CHR ''.'') s in
     k \<le> length parts \<and> list_all (\<lambda>p. headed first rest (length p) p) parts)"

section \<open>Conversions\<close>

definition ordered_dedup :: "'a list \<Rightarrow> 'a list" where
  "ordered_dedup xs = fold (\<lambda>x acc. if x \<in> set acc then acc else acc @ [x]) xs []"

fun digits_value :: "string \<Rightarrow> int \<Rightarrow> int" where
  "digits_value [] acc = acc"
| "digits_value (c # cs) acc = digits_value cs (10 * acc + int (of_char c - 48))"

text \<open>Digits with single underscores between them.\<close>

fun grouped_digits :: "string \<Rightarrow> bool" where
  "grouped_digits [] = False"
| "grouped_digits [c] = digit c"
| "grouped_digits (c # d # cs) = (digit c \<and> (if d = CHR ''_'' then grouped_digits cs else grouped_digits (d # cs)))"

definition unsigned_int :: "string \<Rightarrow> int option" where
  "unsigned_int s = (if grouped_digits s then Some (digits_value (filter (\<lambda>c. c \<noteq> CHR ''_'') s) 0) else None)"

definition signed :: "(string \<Rightarrow> int option) \<Rightarrow> string \<Rightarrow> int option" where
  "signed f s = (case s of
     c # cs \<Rightarrow> if c = CHR ''-'' then map_option uminus (f cs) else if c = CHR ''+'' then f cs else f s
   | [] \<Rightarrow> f s)"

text \<open>
  \<^verbatim>\<open>int(float)\<close> from the text \<^verbatim>\<open>repr\<close> prints: digits, a fraction and an exponent, cut towards zero.
\<close>

definition unsigned_trunc :: "string \<Rightarrow> int option" where
  "unsigned_trunc s =
    (let mantissa = takeWhile (\<lambda>c. c \<noteq> CHR ''e'') s; tail = drop (length mantissa + 1) s;
         whole = takeWhile (\<lambda>c. c \<noteq> CHR ''.'') mantissa; fraction = drop (length whole + 1) mantissa;
         m = digits_value (whole @ fraction) 0;
         e = (if tail = [] then Some 0 else signed unsigned_int tail)
     in map_option (\<lambda>x. let k = x - int (length fraction) in
          if 0 \<le> k then m * 10 ^ nat k else m div 10 ^ nat (- k)) e)"

definition float_to_int :: "string \<Rightarrow> config_error + int" where
  "float_to_int r =
    (if r = ''nan'' then Inl (CValueError ''cannot convert float NaN to integer'')
     else if r \<in> {''inf'', ''-inf''} then Inl COverflowError
     else case signed unsigned_trunc r of Some i \<Rightarrow> Inr i | None \<Rightarrow> Inl (CValueError r))"

definition py_int :: "json \<Rightarrow> config_error + int" where
  "py_int v = (case v of
     JInt i \<Rightarrow> Inr i
   | JBool b \<Rightarrow> Inr (if b then 1 else 0)
   | JFloat r \<Rightarrow> float_to_int r
   | JStr s \<Rightarrow> (case signed unsigned_int (strip s) of Some i \<Rightarrow> Inr i
       | None \<Rightarrow> Inl (CValueError (''invalid literal for int() with base 10: '' @ repr_str s)))
   | _ \<Rightarrow> Inl (CTypeError ''int() argument must be a string, a bytes-like object or a real number''))"

text \<open>\<^verbatim>\<open>str(Path(s))\<close>.\<close>

definition posix_path :: "string \<Rightarrow> string" where
  "posix_path s =
    (let parts = filter (\<lambda>p. p \<notin> {[], ''.''}) (split_on (CHR ''/'') s);
         slashes = length (takeWhile (\<lambda>c. c = CHR ''/'') s);
         root = (if slashes = 0 then [] else if slashes = 2 then ''//'' else ''/'')
     in if root = [] \<and> parts = [] then ''.'' else root @ join_with ''/'' parts)"

section \<open>Reading parsed values\<close>

text \<open>\<^verbatim>\<open>(data.get(key) or {}).get\<close>: anything but a table has no \<^verbatim>\<open>get\<close>.\<close>

definition table_at :: "string \<Rightarrow> json_obj \<Rightarrow> config_error + json_obj" where
  "table_at key d = (case json_true key d of None \<Rightarrow> Inr []
     | Some (JObj t) \<Rightarrow> Inr t | Some _ \<Rightarrow> Inl CAttributeError)"

text \<open>\<^verbatim>\<open>for item in (value or [])\<close>.\<close>

definition iterate :: "json option \<Rightarrow> config_error + json list" where
  "iterate v = (case v of None \<Rightarrow> Inr []
     | Some (JList xs) \<Rightarrow> Inr xs
     | Some (JObj kvs) \<Rightarrow> Inr (map (JStr \<circ> fst) kvs)
     | Some (JStr s) \<Rightarrow> Inr (map (\<lambda>c. JStr [c]) s)
     | Some _ \<Rightarrow> Inl (CTypeError ''object is not iterable''))"

definition is_string :: "json \<Rightarrow> bool" where
  "is_string v = (case v of JStr _ \<Rightarrow> True | _ \<Rightarrow> False)"

text \<open>\<^verbatim>\<open>where[index]\<close> in a message.\<close>

definition indexed :: "string \<Rightarrow> nat \<Rightarrow> string" where
  "indexed where n = where @ ''['' @ show_nat n @ '']''"

text \<open>A loop over the items with their index that may raise.\<close>

definition eloop :: "(nat \<Rightarrow> 'a \<Rightarrow> 's \<Rightarrow> 'e + 's) \<Rightarrow> 'a list \<Rightarrow> 's \<Rightarrow> 'e + 's" where
  "eloop f xs s = efold (\<lambda>(n, x). f n x) (List.enumerate 0 xs) s"

section \<open>Lemmas\<close>

lemma re_match_full: "full s \<Longrightarrow> re_match full s"
  by (simp add: re_match_def)

lemma re_match_newline: "full s \<Longrightarrow> re_match full (s @ [NEWLINE])"
  by (simp add: re_match_def)

lemma ordered_dedup_invariant:
  "set (fold (\<lambda>x acc. if x \<in> set acc then acc else acc @ [x]) xs acc) = set acc \<union> set xs \<and>
   (distinct acc \<longrightarrow> distinct (fold (\<lambda>x acc. if x \<in> set acc then acc else acc @ [x]) xs acc))"
  by (induction xs arbitrary: acc) auto

lemma set_ordered_dedup [simp]: "set (ordered_dedup xs) = set xs"
  using ordered_dedup_invariant [of xs "[]"] by (simp add: ordered_dedup_def)

lemma distinct_ordered_dedup [simp]: "distinct (ordered_dedup xs)"
  using ordered_dedup_invariant [of xs "[]"] by (simp add: ordered_dedup_def)

text \<open>Invariants of an indexed loop.\<close>

lemma eloop_inv:
  assumes "eloop f xs s = Inr t" "P s" "\<And>n x s t. x \<in> set xs \<Longrightarrow> P s \<Longrightarrow> f n x s = Inr t \<Longrightarrow> P t"
  shows "P t"
proof -
  have "x \<in> set xs" if "(n, x) \<in> set (List.enumerate 0 xs)" for n x
    using that by (auto simp: in_set_enumerate_eq)
  then have "P t" if "(n, x) \<in> set (List.enumerate 0 xs)" "P s" "f n x s = Inr t" for n x s t
    using that assms(3) by blast
  then show ?thesis
    using assms(1,2) unfolding eloop_def by (elim efold_inv [where P = P]) auto
qed

lemma efold_each: "efold f xs s = Inr t \<Longrightarrow> x \<in> set xs \<Longrightarrow> \<exists>u v. f x u = Inr v"
  by (induction xs arbitrary: s) auto

lemma eloop_each:
  assumes "eloop f xs s = Inr t" "x \<in> set xs"
  shows "\<exists>n u v. f n x u = Inr v"
proof -
  obtain i where "i < length xs" "x = xs ! i" using assms(2) by (auto simp: in_set_conv_nth)
  then have "(i, x) \<in> set (List.enumerate 0 xs)" by (simp add: in_set_enumerate_eq)
  from efold_each [OF assms(1) [unfolded eloop_def] this] show ?thesis by auto
qed

lemma efold_error:
  assumes "efold f xs s = Inl e"
  shows "\<exists>x \<in> set xs. \<exists>u. f x u = Inl e"
  using assms
proof (induction xs arbitrary: s)
  case (Cons x xs)
  then show ?case by (cases "f x s") auto
qed simp

end
