(* ===== verification/Mcp_Servers.thy ===== *)
theory Mcp_Servers
  imports Config_Text
begin

text \<open>
  Owner-configured MCP servers as governed capabilities (\<^verbatim>\<open>integrations/mcp_servers.py\<close>) with the
  vocabulary of \<^verbatim>\<open>capabilities/models.py\<close>: the validated configuration of a server, the effect and
  the authority that a discovered tool gets, and the rules that refine the authority per call.
  The TOML parser is an argument (\<^verbatim>\<open>tomllib.loads\<close>; \<open>None\<close> when it raises).
\<close>

section \<open>Descriptors\<close>

datatype effect_kind = READ | CREATE | UPDATE | DELETE | EXECUTE

datatype authority_mode = AUTO | APPROVAL_REQUIRED | FORBIDDEN

fun authority_value :: "authority_mode \<Rightarrow> string" where
  "authority_value AUTO = ''auto''"
| "authority_value APPROVAL_REQUIRED = ''approval_required''"
| "authority_value FORBIDDEN = ''forbidden''"

definition authority_of :: "string \<Rightarrow> authority_mode option" where
  "authority_of s = find (\<lambda>m. authority_value m = s) [AUTO, APPROVAL_REQUIRED, FORBIDDEN]"

fun effect_value :: "effect_kind \<Rightarrow> string" where
  "effect_value READ = ''read''"
| "effect_value CREATE = ''create''"
| "effect_value UPDATE = ''update''"
| "effect_value DELETE = ''delete''"
| "effect_value EXECUTE = ''execute''"

definition effect_of :: "string \<Rightarrow> effect_kind option" where
  "effect_of s = find (\<lambda>m. effect_value m = s) [READ, CREATE, UPDATE, DELETE, EXECUTE]"

record operation_descriptor =
  od_id :: string
  od_capability_id :: string
  od_family :: string
  od_description :: string
  od_input_schema :: json_obj
  od_effect :: effect_kind
  od_authority :: authority_mode
  od_trust :: string

section \<open>Configuration\<close>

record authority_rule =
  ru_when :: "(string \<times> string list) list"
  ru_authority :: authority_mode

record tool_policy =
  tp_effect :: "effect_kind option"
  tp_authority :: "authority_mode option"
  tp_rules :: "authority_rule list"

record mcp_server =
  ms_id :: string
  ms_family :: string
  ms_description :: string
  ms_transport :: string
  ms_path :: "string option"
  ms_command :: "string option"
  ms_args :: "string list"
  ms_env_file :: "string option"
  ms_trust :: string
  ms_tools :: "string list option"
  ms_read_only_authority :: authority_mode
  ms_destructive_authority :: authority_mode
  ms_non_destructive_authority :: authority_mode
  ms_timeout :: int
  ms_tool_policies :: "(string \<times> tool_policy) list"

text \<open>\<^verbatim>\<open>str(arguments.get(key)) in values\<close> for every key; an absent key reads as \<^verbatim>\<open>None\<close>.\<close>

definition rule_matches :: "authority_rule \<Rightarrow> json_obj \<Rightarrow> bool" where
  "rule_matches r args = list_all (\<lambda>(key, vs).
     (case json_get key args of None \<Rightarrow> ''None'' | Some v \<Rightarrow> py_str v) \<in> set vs) (ru_when r)"

definition no_policy :: tool_policy where
  "no_policy = \<lparr>tp_effect = None, tp_authority = None, tp_rules = []\<rparr>"

definition name_char :: "char \<Rightarrow> bool" where
  "name_char c = (lower_letter c \<or> digit c \<or> c = CHR ''_'')"

text \<open>\<^verbatim>\<open>^[a-z][a-z0-9_]*(\.[a-z][a-z0-9_]*)*$\<close> and \<^verbatim>\<open>^[A-Za-z0-9_.-]{1,128}$\<close>.\<close>

definition SERVER_ID :: "string \<Rightarrow> bool" where
  "SERVER_ID = re_match (dotted lower_letter name_char 1)"

definition tool_char :: "char \<Rightarrow> bool" where
  "tool_char c = (upper_letter c \<or> name_char c \<or> c = CHR ''.'' \<or> c = CHR ''-'')"

definition MCP_TOOL_NAME :: "string \<Rightarrow> bool" where
  "MCP_TOOL_NAME = re_match (headed tool_char tool_char 127)"

definition RESERVED_PREFIXES :: "string list" where
  "RESERVED_PREFIXES = [''atlas'', ''openai'', ''github'', ''google'', ''evidence'', ''memory'', ''storage'',
     ''schedules'', ''notifications'']"

definition read_authority :: "json option \<Rightarrow> authority_mode \<Rightarrow> string \<Rightarrow> config_error + authority_mode" where
  "read_authority v dflt where = (case v of None \<Rightarrow> Inr dflt
     | Some x \<Rightarrow> the_row (authority_of (py_str x))
         (CValueError (where @ '': authority must be auto, approval_required or forbidden'')))"

definition read_effect :: "json option \<Rightarrow> string \<Rightarrow> config_error + effect_kind option" where
  "read_effect v where = (case v of None \<Rightarrow> Inr None
     | Some x \<Rightarrow> ebind (the_row (effect_of (py_str x))
         (CValueError (where @ '': effect must be read, create, update, delete or execute''))) (\<lambda>e. Inr (Some e)))"

text \<open>One entry of a \<^verbatim>\<open>when\<close> table: a scalar stands for the list of it.\<close>

definition when_values :: "string \<Rightarrow> string \<times> json \<Rightarrow> config_error + (string \<times> string list)" where
  "when_values where kv = (case kv of (key, v) \<Rightarrow>
     let xs = (case v of JList xs \<Rightarrow> xs | JObj _ \<Rightarrow> [] | JNull \<Rightarrow> [] | _ \<Rightarrow> [v]) in
     ebind (require (xs \<noteq> []) (CValueError (where @ ''.when.'' @ key @ '' must be a value or a list''))) (\<lambda>_.
     Inr (key, map py_str xs)))"

definition read_rule :: "string \<Rightarrow> nat \<Rightarrow> json \<Rightarrow> authority_rule list \<Rightarrow> config_error + authority_rule list" where
  "read_rule where n rule rules =
    (let here = where @ '': '' @ indexed ''authority_rules'' n;
         doc = (case rule of JObj d \<Rightarrow> d | _ \<Rightarrow> []);
         tbl = (case json_get ''when'' doc of Some (JObj w) \<Rightarrow> w | _ \<Rightarrow> [])
     in ebind (require (tbl \<noteq> []) (CValueError (here @ '' needs a non-empty 'when' table''))) (\<lambda>_.
        ebind (eloop (\<lambda>_ kv acc. ebind (when_values here kv) (\<lambda>x. Inr (acc @ [x]))) tbl []) (\<lambda>wh.
        ebind (read_authority (json_get ''authority'' doc) APPROVAL_REQUIRED
            (where @ ''.'' @ indexed ''authority_rules'' n)) (\<lambda>a.
        Inr (rules @ [\<lparr>ru_when = wh, ru_authority = a\<rparr>])))))"

definition read_tool_policy :: "string \<Rightarrow> string \<Rightarrow> json_obj \<Rightarrow> config_error + tool_policy" where
  "read_tool_policy where name raw =
    (let here = where @ ''.'' @ name in
     ebind (iterate (json_true ''authority_rules'' raw)) (\<lambda>items.
     ebind (eloop (read_rule here) items []) (\<lambda>rules.
     ebind (read_effect (json_get ''effect'' raw) here) (\<lambda>e.
     ebind (case json_get ''authority'' raw of None \<Rightarrow> Inr None
        | Some v \<Rightarrow> ebind (read_authority (Some v) APPROVAL_REQUIRED here) (\<lambda>a. Inr (Some a))) (\<lambda>a.
     Inr \<lparr>tp_effect = e, tp_authority = a, tp_rules = rules\<rparr>)))))"

text \<open>Entries of the policy table that are not tables are skipped.\<close>

definition read_policies :: "string \<Rightarrow> json_obj \<Rightarrow> config_error + (string \<times> tool_policy) list" where
  "read_policies where raw =
    eloop (\<lambda>_ (name, p) acc. case p of
        JObj d \<Rightarrow> ebind (read_tool_policy where name d) (\<lambda>x. Inr (acc @ [(name, x)]))
      | _ \<Rightarrow> Inr acc) raw []"

definition read_tools :: "json option \<Rightarrow> string \<Rightarrow> config_error + string list option" where
  "read_tools v where = (case v of None \<Rightarrow> Inr None
     | Some (JList xs) \<Rightarrow>
         if list_all (\<lambda>x. is_string x \<and> MCP_TOOL_NAME (py_str x)) xs then Inr (Some (map py_str xs))
         else Inl (CValueError (where @ '': tools must be a list of tool names''))
     | Some _ \<Rightarrow> Inl (CValueError (where @ '': tools must be a list of tool names'')))"

definition read_args :: "json option \<Rightarrow> string \<Rightarrow> config_error + string list" where
  "read_args v where = (case v of None \<Rightarrow> Inr []
     | Some (JList xs) \<Rightarrow> if list_all is_string xs then Inr (map py_str xs)
         else Inl (CValueError (where @ '': args must be a list of strings''))
     | Some _ \<Rightarrow> Inl (CValueError (where @ '': args must be a list of strings'')))"

text \<open>\<^verbatim>\<open>raw.get(key) or {}\<close> checked to be a table.\<close>

definition checked_table :: "json option \<Rightarrow> string \<Rightarrow> config_error + json_obj" where
  "checked_table v message = (case v of None \<Rightarrow> Inr [] | Some (JObj d) \<Rightarrow> Inr d | Some _ \<Rightarrow> Inl (CTypeError message))"

definition path_at :: "string \<Rightarrow> json_obj \<Rightarrow> string option" where
  "path_at key raw = map_option (posix_path \<circ> py_str) (json_true key raw)"

text \<open>The identity of a server: shape, no built-in prefix, not used before.\<close>

definition read_server_id :: "string \<Rightarrow> json_obj \<Rightarrow> string list \<Rightarrow> config_error + string" where
  "read_server_id where raw seen =
    (let server_id = strip (json_or ''id'' raw []); prefix = takeWhile (\<lambda>c. c \<noteq> CHR ''.'') server_id in
     ebind (require (SERVER_ID server_id) (CValueError (where @ '': id must look like host.systemd''))) (\<lambda>_.
     ebind (require (prefix \<notin> set RESERVED_PREFIXES)
       (CValueError (where @ '': id prefix '' @ CHR 0x27 # prefix @ CHR 0x27 # '' is reserved for built-in capabilities''))) (\<lambda>_.
     ebind (require (server_id \<notin> set seen) (CValueError (where @ '': duplicate id '' @ server_id))) (\<lambda>_.
     Inr server_id))))"

definition read_transport :: "string \<Rightarrow> json_obj \<Rightarrow> config_error + string" where
  "read_transport where raw =
    (let transport = json_or ''transport'' raw ''socket'' in
     ebind (require (transport \<in> {''socket'', ''stdio''}) (CValueError (where @ '': transport must be socket or stdio''))) (\<lambda>_.
     ebind (require (transport = ''socket'' \<longrightarrow> path_at ''path'' raw \<noteq> None)
       (CValueError (where @ '': socket transport needs '' @ repr_str ''path''))) (\<lambda>_.
     ebind (require (transport = ''stdio'' \<longrightarrow> path_at ''command'' raw \<noteq> None)
       (CValueError (where @ '': stdio transport needs '' @ repr_str ''command''))) (\<lambda>_.
     Inr transport))))"

definition read_server :: "nat \<Rightarrow> json \<Rightarrow> mcp_server list \<Rightarrow> config_error + mcp_server list" where
  "read_server n item result =
    (let where = indexed ''servers'' n in
     case item of
       JObj raw \<Rightarrow>
         ebind (read_server_id where raw (map ms_id result)) (\<lambda>server_id.
         ebind (read_transport where raw) (\<lambda>transport.
         ebind (read_args (json_true ''args'' raw) where) (\<lambda>args.
         ebind (require (json_or ''trust'' raw ''external'' \<in> {''internal'', ''external''})
           (CValueError (where @ '': trust must be internal or external''))) (\<lambda>_.
         ebind (read_tools (json_get ''tools'' raw) where) (\<lambda>tools.
         ebind (checked_table (json_true ''defaults'' raw) (where @ '': defaults must be a table'')) (\<lambda>defaults.
         ebind (checked_table (case json_true ''tool'' raw of Some t \<Rightarrow> Some t | None \<Rightarrow> json_true ''tools_policy'' raw)
           (where @ '': tool policies must be a table keyed by tool name'')) (\<lambda>policies_raw.
         ebind (read_policies (where @ ''.tool'') policies_raw) (\<lambda>policies.
         ebind (case json_true ''timeout_seconds'' raw of None \<Rightarrow> Inr 45 | Some v \<Rightarrow> py_int v) (\<lambda>timeout.
         ebind (read_authority (json_get ''read_only_authority'' defaults) AUTO (where @ ''.defaults'')) (\<lambda>ro.
         ebind (read_authority (json_get ''destructive_authority'' defaults) APPROVAL_REQUIRED (where @ ''.defaults'')) (\<lambda>de.
         ebind (read_authority (json_get ''non_destructive_authority'' defaults) AUTO (where @ ''.defaults'')) (\<lambda>nd.
         Inr (result @ [\<lparr>ms_id = server_id, ms_family = json_or ''family'' raw server_id,
           ms_description = json_or ''description'' raw (''MCP server '' @ server_id @ ''.''),
           ms_transport = transport, ms_path = path_at ''path'' raw, ms_command = path_at ''command'' raw, ms_args = args,
           ms_env_file = path_at ''env_file'' raw, ms_trust = json_or ''trust'' raw ''external'', ms_tools = tools,
           ms_read_only_authority = ro, ms_destructive_authority = de, ms_non_destructive_authority = nd,
           ms_timeout = max 5 (min timeout 600), ms_tool_policies = policies\<rparr>])))))))))))))
     | _ \<Rightarrow> Inl (CTypeError (where @ '': must be a table'')))"

definition servers_of_document :: "json_obj \<Rightarrow> config_error + mcp_server list" where
  "servers_of_document d = (case json_get ''servers'' d of
      None \<Rightarrow> Inr []
    | Some (JList items) \<Rightarrow> eloop read_server items []
    | Some _ \<Rightarrow> Inl (CTypeError ''mcp servers: 'servers' must be an array of tables''))"

definition parse_mcp_servers :: "(string \<Rightarrow> json_obj option) \<Rightarrow> string \<Rightarrow> config_error + mcp_server list" where
  "parse_mcp_servers loads s = ebind (the_row (loads s) TOMLDecodeError) servers_of_document"

section \<open>Tools\<close>

definition policy_of :: "mcp_server \<Rightarrow> string \<Rightarrow> tool_policy" where
  "policy_of server name = (case map_of (ms_tool_policies server) name of None \<Rightarrow> no_policy | Some p \<Rightarrow> p)"

definition tool_effect :: "mcp_server \<Rightarrow> string \<Rightarrow> bool \<Rightarrow> effect_kind" where
  "tool_effect server name read_only = (case tp_effect (policy_of server name) of
     Some e \<Rightarrow> e | None \<Rightarrow> if read_only then READ else EXECUTE)"

definition tool_authority :: "mcp_server \<Rightarrow> string \<Rightarrow> bool \<Rightarrow> bool \<Rightarrow> authority_mode" where
  "tool_authority server name read_only destructive = (case tp_authority (policy_of server name) of
     Some a \<Rightarrow> a
   | None \<Rightarrow> if read_only then ms_read_only_authority server
       else if destructive then ms_destructive_authority server else ms_non_destructive_authority server)"

definition descriptor_for_tool :: "mcp_server \<Rightarrow> json_obj \<Rightarrow> operation_descriptor option" where
  "descriptor_for_tool server tool = (case json_get ''name'' tool of
     Some (JStr name) \<Rightarrow>
       if \<not> MCP_TOOL_NAME name \<or> (case ms_tools server of None \<Rightarrow> False | Some ts \<Rightarrow> name \<notin> set ts) then None
       else
         (let schema = (case json_get ''inputSchema'' tool of Some (JObj s) \<Rightarrow> s
              | _ \<Rightarrow> [(''type'', JStr ''object''), (''properties'', JObj [])]);
            annotations = (case json_get ''annotations'' tool of Some (JObj a) \<Rightarrow> a | _ \<Rightarrow> []);
            read_only = (json_get ''readOnlyHint'' annotations = Some (JBool True));
            destructive = (json_get ''destructiveHint'' annotations \<noteq> Some (JBool False));
            description = json_or ''description'' tool (ms_family server @ '' tool '' @ name @ ''.'')
          in Some \<lparr>od_id = ms_id server @ ''.'' @ name, od_capability_id = ms_id server, od_family = ms_family server,
            od_description = (if tp_rules (policy_of server name) = [] then description
              else description @ '' Authority depends on the arguments (owner policy).''),
            od_input_schema = schema, od_effect = tool_effect server name read_only,
            od_authority = tool_authority server name read_only destructive, od_trust = ms_trust server\<rparr>)
   | _ \<Rightarrow> None)"

fun first_rule :: "authority_rule list \<Rightarrow> json_obj \<Rightarrow> authority_mode \<Rightarrow> authority_mode" where
  "first_rule [] args dflt = dflt"
| "first_rule (r # rs) args dflt = (if rule_matches r args then ru_authority r else first_rule rs args dflt)"

definition rule_resolver :: "tool_policy \<Rightarrow> authority_mode \<Rightarrow> (json_obj \<Rightarrow> authority_mode) option" where
  "rule_resolver p static = (if tp_rules p = [] then None else Some (\<lambda>args. first_rule (tp_rules p) args static))"

definition discover_operations :: "mcp_server \<Rightarrow> json_obj list \<Rightarrow> operation_descriptor list" where
  "discover_operations server tools = sort_key od_id (List.map_filter (descriptor_for_tool server) tools)"

definition mcp_tool_name :: "mcp_server \<Rightarrow> string \<Rightarrow> config_error + string" where
  "mcp_tool_name server operation_id =
    (let prefix = ms_id server @ ''.'' in
     if startswith operation_id prefix then Inr (drop (length prefix) operation_id)
     else Inl (CValueError (''Not an operation of '' @ ms_id server)))"

text \<open>The resolver that is registered with a discovered operation.\<close>

definition authority_resolver :: "mcp_server \<Rightarrow> operation_descriptor \<Rightarrow> config_error + (json_obj \<Rightarrow> authority_mode) option" where
  "authority_resolver server d = ebind (mcp_tool_name server (od_id d)) (\<lambda>name.
     Inr (rule_resolver (policy_of server name) (od_authority d)))"

end
