(* ===== verification/Host_Policy.thy ===== *)
theory Host_Policy
  imports Mcp_Servers
begin

text \<open>
  The owner's host policy: validation and rendering (\<^verbatim>\<open>deployment/host-mcp/atlas_host_policy.py\<close>) and
  the Control side that stages it for the privileged installer (\<^verbatim>\<open>control/host_policy.py\<close>). The TOML
  parser is an argument, a file system is a map from paths to texts, and what the rendered polkit
  rule decides is the function \<open>polkit_yes\<close>.
\<close>

section \<open>Vocabulary\<close>

definition UNIT_SUFFIXES :: "string list" where
  "UNIT_SUFFIXES = [''service'', ''timer'', ''socket'', ''target'', ''path'', ''mount'', ''scope'', ''slice'']"

definition unit_char :: "char \<Rightarrow> bool" where
  "unit_char c = (upper_letter c \<or> lower_letter c \<or> digit c \<or> c \<in> {CHR ''_'', CHR ''.'', CHR ''@'', CHR '':'', CHR 0x5C, CHR ''-''})"

definition alnum :: "char \<Rightarrow> bool" where
  "alnum c = (upper_letter c \<or> lower_letter c \<or> digit c)"

text \<open>A stem of at most 255 characters before one of the suffixes.\<close>

definition UNIT_NAME :: "string \<Rightarrow> bool" where
  "UNIT_NAME = re_match (\<lambda>s. list_ex (\<lambda>suffix. let e = ''.'' @ suffix; n = length s - length e in
     length e \<le> length s \<and> drop n s = e \<and> headed alnum unit_char 254 (take n s)) UNIT_SUFFIXES)"

definition user_char :: "char \<Rightarrow> bool" where
  "user_char c = (lower_letter c \<or> digit c \<or> c = CHR ''_'' \<or> c = CHR ''-'')"

definition USER_NAME :: "string \<Rightarrow> bool" where
  "USER_NAME = re_match (headed (\<lambda>c. lower_letter c \<or> c = CHR ''_'') user_char 31)"

definition command_char :: "char \<Rightarrow> bool" where
  "command_char c = (lower_letter c \<or> digit c \<or> c \<in> {CHR ''_'', CHR ''.'', CHR ''+'', CHR ''-''})"

definition command_word :: "string \<Rightarrow> bool" where
  "command_word = headed (\<lambda>c. lower_letter c \<or> digit c) command_char 63"

definition COMMAND_NAME :: "string \<Rightarrow> bool" where
  "COMMAND_NAME = re_match command_word"

definition action_char :: "char \<Rightarrow> bool" where
  "action_char c = (lower_letter c \<or> digit c \<or> c = CHR ''-'')"

definition POLKIT_ACTION :: "string \<Rightarrow> bool" where
  "POLKIT_ACTION = re_match (dotted lower_letter action_char 2)"

definition TOOL_NAME :: "string \<Rightarrow> bool" where
  "TOOL_NAME = re_match (headed lower_letter name_char 63)"

definition MANAGE_UNIT_VERBS :: "string list" where
  "MANAGE_UNIT_VERBS = [''start'', ''stop'', ''restart'', ''reload'', ''try-restart'', ''reload-or-restart'', ''reset-failed'',
     ''kill'', ''set-property'']"

definition UNIT_FILE_VERBS :: "string list" where
  "UNIT_FILE_VERBS = [''enable'', ''disable'', ''mask'', ''unmask'', ''preset'', ''link'', ''revert'']"

definition MANAGE_UNITS_ACTION :: string where
  "MANAGE_UNITS_ACTION = ''org.freedesktop.systemd1.manage-units''"

definition MANAGE_UNIT_FILES_ACTION :: string where
  "MANAGE_UNIT_FILES_ACTION = ''org.freedesktop.systemd1.manage-unit-files''"

definition DEFAULT_SYSTEMD_TOOLS :: "string list" where
  "DEFAULT_SYSTEMD_TOOLS = [''list_loaded_units'', ''list_unit_files'', ''change_unit_state'', ''check_restart_reload'', ''list_log'']"

definition KNOWN_SYSTEMD_TOOLS :: "string list" where
  "KNOWN_SYSTEMD_TOOLS = DEFAULT_SYSTEMD_TOOLS @ [''get_file'', ''get_man_page'']"

definition RISKY_COMMANDS :: "string list" where
  "RISKY_COMMANDS = [''sh'', ''bash'', ''dash'', ''zsh'', ''fish'', ''ksh'', ''csh'', ''tcsh'', ''busybox'', ''env'', ''xargs'', ''sudo'',
     ''su'', ''doas'', ''pkexec'', ''python'', ''python3'', ''perl'', ''ruby'', ''node'', ''npm'', ''npx'', ''uv'', ''uvx'', ''pip'',
     ''pip3'', ''awk'', ''gawk'', ''mawk'', ''sed'', ''vi'', ''vim'', ''nano'', ''ed'', ''tee'', ''dd'', ''rm'', ''mv'', ''cp'', ''chmod'',
     ''chown'', ''chgrp'', ''ln'', ''mkdir'', ''rmdir'', ''touch'', ''truncate'', ''shred'', ''mkfs'', ''mount'', ''umount'', ''docker'',
     ''podman'', ''nsenter'', ''chroot'', ''systemd-run'', ''at'', ''crontab'', ''curl'', ''wget'', ''nc'', ''ncat'', ''netcat'', ''socat'',
     ''ssh'', ''scp'', ''sftp'', ''rsync'', ''git'', ''apt'', ''apt-get'', ''dpkg'', ''snap'', ''reboot'', ''shutdown'', ''poweroff'',
     ''halt'', ''kill'', ''pkill'', ''killall'', ''loginctl'', ''machinectl'', ''busctl'', ''gdb'', ''strace'']"

section \<open>Validation\<close>

record host_policy =
  hp_user :: string
  hp_owner_user :: "string option"
  hp_groups :: "string list"
  hp_units :: "(string \<times> string list) list"
  hp_unit_file_grant :: bool
  hp_grants :: "(string \<times> string list) list"
  hp_shell_commands :: "string list"
  hp_allow_risky_commands :: bool
  hp_default_timeout_seconds :: int
  hp_max_timeout_seconds :: int
  hp_output_limit_bytes :: int
  hp_systemd_tools :: "string list"
  hp_polkit_timeout_seconds :: int
  hp_warnings :: "string list"

definition add_item :: "(string \<Rightarrow> bool) \<Rightarrow> string \<Rightarrow> string \<Rightarrow> string \<Rightarrow> string list \<Rightarrow> config_error + string list" where
  "add_item pat where what item items =
    ebind (require (pat item \<and> CHR ''/'' \<notin> set item) (PolicyError (where @ '': invalid '' @ what @ '' '' @ repr_str item))) (\<lambda>_.
    Inr (if item \<in> set items then items else items @ [item]))"

definition string_list :: "json option \<Rightarrow> string \<Rightarrow> (string \<Rightarrow> bool) \<Rightarrow> string \<Rightarrow> config_error + string list" where
  "string_list v where pat what = (case v of
      None \<Rightarrow> Inr []
    | Some (JList xs) \<Rightarrow>
        if list_all is_string xs then efold (add_item pat where what) (map py_str xs) []
        else Inl (PolicyError (where @ '' must be a list of strings''))
    | Some _ \<Rightarrow> Inl (PolicyError (where @ '' must be a list of strings'')))"

definition strings_or :: "string \<Rightarrow> json_obj \<Rightarrow> string list \<Rightarrow> json option" where
  "strings_or key d dflt = Some (case json_get key d of Some v \<Rightarrow> v | None \<Rightarrow> JList (map JStr dflt))"

definition valid_user :: "json \<Rightarrow> config_error + unit" where
  "valid_user name = require (USER_NAME (py_str name)) (PolicyError (''identity: invalid user name '' @ py_repr name))"

text \<open>The verbs of one managed unit.\<close>

definition check_verb :: "string \<Rightarrow> json \<Rightarrow> bool \<Rightarrow> config_error + bool" where
  "check_verb where verb grant =
    ebind (require (verb \<in> JStr ` set (MANAGE_UNIT_VERBS @ UNIT_FILE_VERBS))
      (PolicyError (where @ '': unknown verb '' @ py_repr verb @ ''; systemd verbs are ''
         @ join_with '', '' (MANAGE_UNIT_VERBS @ UNIT_FILE_VERBS)))) (\<lambda>_.
    Inr (grant \<or> verb \<in> JStr ` set UNIT_FILE_VERBS))"

definition read_verbs :: "string \<Rightarrow> json_obj \<Rightarrow> config_error + json list" where
  "read_verbs where d = (case json_get ''verbs'' d of
     Some (JList (v # vs)) \<Rightarrow> Inr (v # vs)
   | _ \<Rightarrow> Inl (PolicyError (where @ '': verbs must be a non-empty list'')))"

type_synonym unit_table = "(string \<times> string list) list \<times> bool"

definition read_unit :: "nat \<Rightarrow> json \<Rightarrow> unit_table \<Rightarrow> config_error + unit_table" where
  "read_unit n item st = (case (item, st) of
      (JObj d, (units, grant)) \<Rightarrow>
        let where = indexed ''managed_units'' n; unit = json_or ''unit'' d [] in
        ebind (require (UNIT_NAME unit) (PolicyError (where @ '': invalid unit name '' @ repr_str unit))) (\<lambda>_.
        ebind (require (unit \<notin> fst ` set units) (PolicyError (where @ '': duplicate unit '' @ unit))) (\<lambda>_.
        ebind (read_verbs where d) (\<lambda>verbs.
        ebind (efold (check_verb where) verbs grant) (\<lambda>grant1.
        Inr (units @ [(unit, ordered_dedup (map py_str verbs))], grant1)))))
    | _ \<Rightarrow> Inl (PolicyError (indexed ''managed_units'' n @ '': must be a table'')))"

definition read_grant ::
  "string \<Rightarrow> string list \<Rightarrow> nat \<Rightarrow> json \<Rightarrow> (string \<times> string list) list \<Rightarrow> config_error + (string \<times> string list) list" where
  "read_grant user subjects n item grants =
    (let where = indexed ''polkit.grants'' n in
     case item of
       JObj d \<Rightarrow>
         let action = json_or ''action'' d [] in
         ebind (require (POLKIT_ACTION action) (PolicyError (where @ '': invalid polkit action id '' @ repr_str action))) (\<lambda>_.
         ebind (require (action \<notin> fst ` set grants) (PolicyError (where @ '': duplicate grant for '' @ action))) (\<lambda>_.
         ebind (string_list (strings_or ''identities'' d [user]) (where @ ''.identities'') USER_NAME ''user name'') (\<lambda>identities.
         ebind (require (identities \<noteq> [])
           (PolicyError (where @ '': identities must name at least one of '' @ join_with '', '' subjects))) (\<lambda>_.
         ebind (efold (\<lambda>i _. require (i \<in> set subjects) (PolicyError (where @ '': identity '' @ repr_str i
             @ '' is not the tools user or the owner ('' @ join_with '', '' subjects @ '')''))) identities ()) (\<lambda>_.
         Inr (grants @ [(action, identities)]))))))
     | _ \<Rightarrow> Inl (PolicyError (where @ '': must be a table'')))"

definition bounded :: "json_obj \<Rightarrow> string \<Rightarrow> int \<Rightarrow> int \<Rightarrow> int \<Rightarrow> string \<Rightarrow> config_error + int" where
  "bounded tbl key dflt low high where = (case (case json_get key tbl of None \<Rightarrow> JInt dflt | Some v \<Rightarrow> v) of
      JInt i \<Rightarrow> ebind (require (low \<le> i \<and> i \<le> high) (PolicyError
        (where @ ''.'' @ key @ '' must be an integer between '' @ show_int low @ '' and '' @ show_int high))) (\<lambda>_. Inr i)
    | _ \<Rightarrow> Inl (PolicyError
        (where @ ''.'' @ key @ '' must be an integer between '' @ show_int low @ '' and '' @ show_int high)))"

definition risky_of :: "string list \<Rightarrow> string list" where
  "risky_of commands = filter (\<lambda>c. c \<in> set RISKY_COMMANDS) commands"

definition policy_warnings :: "bool \<Rightarrow> string list \<Rightarrow> string list \<Rightarrow> string list \<Rightarrow> string list" where
  "policy_warnings unit_file_grant commands groups tools =
    (let unknown = filter (\<lambda>t. t \<notin> set KNOWN_SYSTEMD_TOOLS) tools in
     (if unit_file_grant then [''unit-file verbs are listed: polkit cannot scope '' @ MANAGE_UNIT_FILES_ACTION
        @ '' per unit, so it is granted for every unit''] else [])
     @ (if risky_of commands \<noteq> [] then [''risky commands granted deliberately: '' @ join_with '', '' (risky_of commands)] else [])
     @ (if ''docker'' \<in> set groups then [''identity.groups includes docker, which is root-equivalent on this host''] else [])
     @ (if unknown \<noteq> [] then [''systemd.enabled_tools names tools this policy does not know: '' @ join_with '', '' unknown] else [])
     @ (if ''get_file'' \<in> set tools then [''get_file lets the model read any file the tools identity can read''] else []))"

text \<open>The shell section: the commands and whether risky ones were granted on purpose.\<close>

definition read_commands :: "json_obj \<Rightarrow> config_error + string list" where
  "read_commands shell =
    ebind (string_list (json_get ''allow_commands'' shell) ''shell.allow_commands'' COMMAND_NAME ''command name'') (\<lambda>commands.
    ebind (require (risky_of commands = [] \<or> json_true ''allow_risky_commands'' shell \<noteq> None)
      (PolicyError (''shell.allow_commands lists commands that can write, escalate or interpret (''
         @ join_with '', '' (risky_of commands) @ ''); set shell.allow_risky_commands = true to grant them deliberately''))) (\<lambda>_.
    Inr commands))"

definition contains :: "string \<Rightarrow> string \<Rightarrow> bool" where
  "contains s p = list_ex (\<lambda>k. startswith (drop k s) p) [0..<Suc (length s)]"

text \<open>
  \<^verbatim>\<open>"extra_actions" in polkit\<close> comes before \<^verbatim>\<open>polkit.get\<close>: it is defined on tables, strings and lists.
\<close>

definition polkit_table :: "json_obj \<Rightarrow> config_error + json_obj" where
  "polkit_table data =
    (let replaced = PolicyError ''polkit.extra_actions was replaced by [[polkit.grants]] entries with an explicit identity list''
     in case json_true ''polkit'' data of
         None \<Rightarrow> Inr []
       | Some (JObj t) \<Rightarrow> if json_get ''extra_actions'' t = None then Inr t else Inl replaced
       | Some (JList xs) \<Rightarrow> Inl (if JStr ''extra_actions'' \<in> set xs then replaced else CAttributeError)
       | Some (JStr s) \<Rightarrow> Inl (if contains s ''extra_actions'' then replaced else CAttributeError)
       | Some _ \<Rightarrow> Inl (CTypeError ''argument is not iterable''))"

definition subjects_of :: "string \<Rightarrow> string option \<Rightarrow> string list" where
  "subjects_of user owner = user # (case owner of None \<Rightarrow> [] | Some x \<Rightarrow> [x])"

definition policy_of_document :: "json_obj \<Rightarrow> config_error + host_policy" where
  "policy_of_document data =
    ebind (table_at ''identity'' data) (\<lambda>identity.
    let user = json_or ''user'' identity ''atlas-tools''; owner_raw = json_true ''owner_user'' identity;
        owner = map_option py_str owner_raw; subjects = subjects_of user owner in
    ebind (valid_user (JStr user)) (\<lambda>_.
    ebind (case owner_raw of None \<Rightarrow> Inr () | Some x \<Rightarrow> valid_user x) (\<lambda>_.
    ebind (string_list (strings_or ''groups'' identity [''systemd-journal'']) ''identity.groups'' USER_NAME ''group'') (\<lambda>groups.
    ebind (iterate (json_true ''managed_units'' data)) (\<lambda>unit_items.
    ebind (eloop read_unit unit_items ([], False)) (\<lambda>(units, unit_file_grant).
    ebind (polkit_table data) (\<lambda>polkit.
    ebind (iterate (json_true ''grants'' polkit)) (\<lambda>grant_items.
    ebind (eloop (read_grant user subjects) grant_items []) (\<lambda>grants.
    ebind (table_at ''shell'' data) (\<lambda>shell.
    ebind (read_commands shell) (\<lambda>commands.
    ebind (table_at ''systemd'' data) (\<lambda>systemd.
    ebind (string_list (strings_or ''enabled_tools'' systemd DEFAULT_SYSTEMD_TOOLS) ''systemd.enabled_tools'' TOOL_NAME ''tool name'') (\<lambda>tools.
    ebind (bounded shell ''default_timeout_seconds'' 20 1 3600 ''shell'') (\<lambda>default_timeout.
    ebind (bounded shell ''max_timeout_seconds'' 60 1 3600 ''shell'') (\<lambda>max_timeout.
    ebind (bounded shell ''output_limit_bytes'' 262144 1024 (16 * 1024 * 1024) ''shell'') (\<lambda>output_limit.
    ebind (bounded systemd ''polkit_timeout_seconds'' 5 1 60 ''systemd'') (\<lambda>polkit_timeout.
    Inr \<lparr>hp_user = user, hp_owner_user = owner, hp_groups = groups, hp_units = units, hp_unit_file_grant = unit_file_grant,
      hp_grants = grants, hp_shell_commands = commands,
      hp_allow_risky_commands = (json_true ''allow_risky_commands'' shell \<noteq> None),
      hp_default_timeout_seconds = default_timeout, hp_max_timeout_seconds = max_timeout, hp_output_limit_bytes = output_limit,
      hp_systemd_tools = tools, hp_polkit_timeout_seconds = polkit_timeout,
      hp_warnings = policy_warnings unit_file_grant commands groups tools\<rparr>)))))))))))))))))"

definition load_policy :: "(string \<Rightarrow> json_obj option) \<Rightarrow> string \<Rightarrow> config_error + host_policy" where
  "load_policy loads s = ebind (the_row (loads s) TOMLDecodeError) policy_of_document"

section \<open>Rendering\<close>

definition rule_subjects :: "host_policy \<Rightarrow> string list" where
  "rule_subjects p = subjects_of (hp_user p) (case hp_owner_user p of Some (c # cs) \<Rightarrow> Some (c # cs) | _ \<Rightarrow> None)"

definition rule_units :: "host_policy \<Rightarrow> (string \<times> string list) list" where
  "rule_units p = map (\<lambda>(unit, verbs). (unit, filter (\<lambda>v. v \<in> set MANAGE_UNIT_VERBS) verbs)) (hp_units p)"

definition rule_grants :: "host_policy \<Rightarrow> (string \<times> string list) list" where
  "rule_grants p = foldl (\<lambda>d (k, v). AList.update k v d)
     (if hp_unit_file_grant p then [(MANAGE_UNIT_FILES_ACTION, rule_subjects p)] else []) (hp_grants p)"

definition table_json :: "(string \<times> string list) list \<Rightarrow> json" where
  "table_json t = JObj (map (\<lambda>(k, vs). (k, JList (map JStr vs))) t)"

definition render_polkit_rules :: "host_policy \<Rightarrow> string" where
  \<open>render_polkit_rules p = join_with [NEWLINE] ([
     ''// Generated by Atlas from /etc/atlas-v5/config/host-policy.toml. Do not edit; edit the policy and re-run install-host-mcp.sh.'',
     ''polkit.addRule(function(action, subject) {'',
     ''    var subjects = '' @ dumps_default_sorted (JList (map JStr (rule_subjects p))) @ '';'',
     ''    if (subjects.indexOf(subject.user) < 0) {'',
     ''        return polkit.Result.NOT_HANDLED;'',
     ''    }'',
     ''    if (action.id == "'' @ MANAGE_UNITS_ACTION @ ''") {'',
     ''        var units = '' @ dumps_default_sorted (table_json (rule_units p)) @ '';'',
     ''        var verbs = units[action.lookup("unit")];'',
     ''        if (verbs && verbs.indexOf(action.lookup("verb")) >= 0) {'',
     ''            return polkit.Result.YES;'',
     ''        }'',
     ''        return polkit.Result.NOT_HANDLED;'',
     ''    }'']
   @ (if rule_grants p = [] then [] else [
     ''    // Per-action grants, each limited to the identities the policy names.'',
     ''    var grants = '' @ dumps_default_sorted (table_json (rule_grants p)) @ '';'',
     ''    var identities = grants[action.id];'',
     ''    if (identities && identities.indexOf(subject.user) >= 0) {'',
     ''        return polkit.Result.YES;'',
     ''    }''])
   @ [''    return polkit.Result.NOT_HANDLED;'', ''});'', []])\<close>

text \<open>
  The decision of the rendered rule. Unit names and action ids contain a dot, which no inherited
  property of a JavaScript object does, so a lookup finds the entry of the table or nothing.
\<close>

definition polkit_yes :: "host_policy \<Rightarrow> string \<Rightarrow> string \<Rightarrow> string \<Rightarrow> string \<Rightarrow> bool" where
  "polkit_yes p user action unit verb =
    (user \<in> set (rule_subjects p) \<and>
     (if action = MANAGE_UNITS_ACTION
      then (case map_of (rule_units p) unit of None \<Rightarrow> False | Some verbs \<Rightarrow> verb \<in> set verbs)
      else (case map_of (rule_grants p) action of None \<Rightarrow> False | Some identities \<Rightarrow> user \<in> set identities)))"

definition render_shell_env :: "host_policy \<Rightarrow> string" where
  "render_shell_env p =
    ''# Generated by Atlas from /etc/atlas-v5/config/host-policy.toml. Do not edit.'' @ [NEWLINE]
    @ ''ALLOW_COMMANDS='' @ join_with '','' (hp_shell_commands p) @ [NEWLINE]
    @ ''MCP_SHELL_DEFAULT_TIMEOUT_SECONDS='' @ show_int (hp_default_timeout_seconds p) @ [NEWLINE]
    @ ''MCP_SHELL_MAX_TIMEOUT_SECONDS='' @ show_int (hp_max_timeout_seconds p) @ [NEWLINE]
    @ ''MCP_SHELL_OUTPUT_LIMIT_BYTES='' @ show_int (hp_output_limit_bytes p) @ [NEWLINE]
    @ ''MCP_SHELL_CHILD_ENV_ALLOWLIST='' @ [NEWLINE]
    @ ''MCP_SHELL_SAFE_PATH=/usr/local/bin:/usr/bin:/bin:/usr/sbin:/sbin'' @ [NEWLINE]"

definition render_systemd_env :: "host_policy \<Rightarrow> string" where
  "render_systemd_env p =
    ''# Generated by Atlas from /etc/atlas-v5/config/host-policy.toml. Do not edit.'' @ [NEWLINE]
    @ ''SYSTEMD_MCP_ENABLED_TOOLS='' @ join_with '','' (hp_systemd_tools p) @ [NEWLINE]
    @ ''SYSTEMD_MCP_POLKIT_TIMEOUT='' @ show_int (hp_polkit_timeout_seconds p) @ [NEWLINE]"

section \<open>Staging\<close>

definition MAX_TEXT :: nat where "MAX_TEXT = 256 * 1024"

text \<open>\<^verbatim>\<open>len(text.encode())\<close> for code points below 256.\<close>

definition utf8_length :: "string \<Rightarrow> nat" where
  "utf8_length s = sum_list (map (\<lambda>c. if (of_char c :: nat) < 128 then 1 else 2) s)"

text \<open>The verdict: the validated value, or the message shown to the owner. Other exceptions escape.\<close>

datatype 'a verdict = Accepted 'a | Rejected config_error | TooLarge

definition validate_policy ::
  "(string \<Rightarrow> json_obj option) \<Rightarrow> string \<Rightarrow> config_error + host_policy verdict" where
  "validate_policy loads s =
    (if MAX_TEXT < utf8_length s then Inr TooLarge
     else case load_policy loads s of
         Inr p \<Rightarrow> Inr (Accepted p)
       | Inl e \<Rightarrow> if value_error e then Inr (Rejected e) else Inl e)"

definition validate_servers ::
  "(string \<Rightarrow> json_obj option) \<Rightarrow> string \<Rightarrow> config_error + mcp_server list verdict" where
  "validate_servers loads s =
    (if MAX_TEXT < utf8_length s then Inr TooLarge
     else case parse_mcp_servers loads s of
         Inr p \<Rightarrow> Inr (Accepted p)
       | Inl e \<Rightarrow> if value_error e \<or> type_error e then Inr (Rejected e) else Inl e)"

text \<open>The files under the staging directory.\<close>

definition STAGED_POLICY :: string where "STAGED_POLICY = ''host-policy.toml''"

definition STAGED_SERVERS :: string where "STAGED_SERVERS = ''mcp-servers.toml''"

definition REQUEST :: string where "REQUEST = ''apply.request''"

type_synonym files = "(string \<times> string) list"

definition put_file :: "string \<Rightarrow> string option \<Rightarrow> files \<Rightarrow> files" where
  "put_file name s fs = (case s of None \<Rightarrow> fs | Some x \<Rightarrow> AList.update name x fs)"

definition accept :: "string \<Rightarrow> config_error + 'a verdict \<Rightarrow> config_error + unit" where
  "accept message v = ebind v (\<lambda>x. case x of Accepted _ \<Rightarrow> Inr () | _ \<Rightarrow> Inl (CValueError message))"

definition stage ::
  "(string \<Rightarrow> json_obj option) \<Rightarrow> string \<Rightarrow> string option \<Rightarrow> string option \<Rightarrow> files \<Rightarrow> config_error + (json \<times> files)" where
  "stage loads requested_at policy_text servers_text fs =
    ebind (case policy_text of None \<Rightarrow> Inr [] | Some s \<Rightarrow>
      ebind (accept ''host policy rejected'' (validate_policy loads s)) (\<lambda>_. Inr [JStr ''policy''])) (\<lambda>kinds1.
    ebind (case servers_text of None \<Rightarrow> Inr [] | Some s \<Rightarrow>
      ebind (accept ''MCP server configuration rejected'' (validate_servers loads s)) (\<lambda>_. Inr [JStr ''servers''])) (\<lambda>kinds2.
    ebind (require (kinds1 @ kinds2 \<noteq> []) (CValueError ''nothing to apply'')) (\<lambda>_.
    let request = JObj [(''requested_at'', JStr requested_at), (''kinds'', JList (kinds1 @ kinds2))] in
    Inr (request, put_file REQUEST (Some (dumps_default_sorted request))
      (put_file STAGED_SERVERS servers_text (put_file STAGED_POLICY policy_text fs))))))"

end
