(* ===== verification/Host_Policy_Properties.thy ===== *)
theory Host_Policy_Properties
  imports Host_Policy
begin

text \<open>
  Properties of the host policy: the rendered polkit rule grants exactly what the document lists,
  only validated texts are ever staged, and a command name that ends in a newline passes the risk
  check although the rendered environment grants the command before it.
\<close>

section \<open>The document's tables\<close>

definition items_at :: "string \<Rightarrow> json_obj \<Rightarrow> json list" where
  "items_at key d = (case json_true key d of Some (JList xs) \<Rightarrow> xs | _ \<Rightarrow> [])"

definition doc_of :: "json \<Rightarrow> json_obj" where
  "doc_of v = (case v of JObj d \<Rightarrow> d | _ \<Rightarrow> [])"

definition verbs_of :: "json \<Rightarrow> json list" where
  "verbs_of item = (case json_get ''verbs'' (doc_of item) of Some (JList vs) \<Rightarrow> vs | _ \<Rightarrow> [])"

definition unit_of :: "json \<Rightarrow> string" where
  "unit_of item = json_or ''unit'' (doc_of item) []"

text \<open>The document lists \<open>verb\<close> for \<open>unit\<close>.\<close>

definition listed_verb :: "json_obj \<Rightarrow> string \<Rightarrow> string \<Rightarrow> bool" where
  "listed_verb d unit verb = (\<exists>item \<in> set (items_at ''managed_units'' d). unit_of item = unit \<and> JStr verb \<in> set (verbs_of item))"

definition sub_table :: "string \<Rightarrow> json_obj \<Rightarrow> json_obj" where
  "sub_table key d = (case json_true key d of Some (JObj t) \<Rightarrow> t | _ \<Rightarrow> [])"

definition tools_user :: "json_obj \<Rightarrow> string" where
  "tools_user d = json_or ''user'' (sub_table ''identity'' d) ''atlas-tools''"

definition owner_user :: "json_obj \<Rightarrow> string option" where
  "owner_user d = map_option py_str (json_true ''owner_user'' (sub_table ''identity'' d))"

definition grant_items :: "json_obj \<Rightarrow> json list" where
  "grant_items d = items_at ''grants'' (sub_table ''polkit'' d)"

definition action_of :: "json \<Rightarrow> string" where
  "action_of item = json_or ''action'' (doc_of item) []"

text \<open>The users a grant names; the tools user when it names none.\<close>

definition identities_of :: "string \<Rightarrow> json \<Rightarrow> string list" where
  "identities_of user item = (case json_get ''identities'' (doc_of item) of
     None \<Rightarrow> [user] | Some (JList xs) \<Rightarrow> map py_str xs | _ \<Rightarrow> [])"

section \<open>What validation returns\<close>

lemma add_items:
  "efold (add_item pat where what) xs acc = Inr ys \<Longrightarrow> set ys = set acc \<union> set xs \<and> (\<forall>x \<in> set xs. pat x)"
proof (induction xs arbitrary: acc)
  case (Cons x xs)
  then obtain acc' where "add_item pat where what x acc = Inr acc'" "efold (add_item pat where what) xs acc' = Inr ys"
    by auto
  with Cons.IH [OF this(2)] show ?case by (auto simp: add_item_def split: if_splits)
qed simp

lemma string_list_Inr:
  assumes "string_list v where pat what = Inr ys"
  shows "set ys = (case v of Some (JList xs) \<Rightarrow> py_str ` set xs | _ \<Rightarrow> {})" "\<forall>y \<in> set ys. pat y"
  using assms add_items [of pat "where" what _ "[]" ys]
  by (auto simp: string_list_def split: option.splits json.splits if_splits)

lemma check_verbs:
  "efold (check_verb where) vs g = Inr g' \<Longrightarrow>
   set vs \<subseteq> JStr ` set (MANAGE_UNIT_VERBS @ UNIT_FILE_VERBS) \<and> (g' \<longleftrightarrow> g \<or> (\<exists>v \<in> set UNIT_FILE_VERBS. JStr v \<in> set vs))"
proof (induction vs arbitrary: g)
  case (Cons v vs)
  then obtain h where "check_verb where v g = Inr h" "efold (check_verb where) vs h = Inr g'" by auto
  with Cons.IH [OF this(2)] show ?case by (auto simp: check_verb_def)
qed simp

definition unit_entry :: "json \<Rightarrow> string \<times> string list" where
  "unit_entry item = (unit_of item, ordered_dedup (map py_str (verbs_of item)))"

lemma read_unit_Inr:
  assumes "read_unit n item (us, g) = Inr (us', g')"
  shows "us' = us @ [unit_entry item] \<and> unit_of item \<notin> fst ` set us
    \<and> set (verbs_of item) \<subseteq> range JStr
    \<and> (g' \<longleftrightarrow> g \<or> (\<exists>v \<in> set UNIT_FILE_VERBS. JStr v \<in> set (verbs_of item)))"
proof -
  obtain d where d: "item = JObj d" using assms by (cases item) (auto simp: read_unit_def)
  obtain vs where vs: "read_verbs (indexed ''managed_units'' n) d = Inr vs" and
      step: "unit_of item \<notin> fst ` set us" "efold (check_verb (indexed ''managed_units'' n)) vs g = Inr g'"
      "us' = us @ [(unit_of item, ordered_dedup (map py_str vs))]"
    using assms unfolding d read_unit_def by (auto simp: Let_def unit_of_def doc_of_def)
  have "verbs_of item = vs"
    using vs d by (cases "json_get ''verbs'' d") (auto simp: verbs_of_def doc_of_def read_verbs_def split: json.splits list.splits)
  moreover have "set vs \<subseteq> range JStr" using check_verbs [OF step(2)] by blast
  ultimately show ?thesis using step(1,3) check_verbs [OF step(2)] by (simp add: unit_entry_def)
qed

lemma read_units:
  assumes "efold (\<lambda>(n, x). read_unit n x) its (us, g) = Inr (us', g')" "distinct (map fst us)"
  shows "us' = us @ map (unit_entry \<circ> snd) its \<and> distinct (map fst us')
    \<and> (\<forall>x \<in> set its. set (verbs_of (snd x)) \<subseteq> range JStr)
    \<and> (g' \<longleftrightarrow> g \<or> (\<exists>x \<in> set its. \<exists>v \<in> set UNIT_FILE_VERBS. JStr v \<in> set (verbs_of (snd x))))"
  using assms
proof (induction its arbitrary: us g)
  case (Cons x its)
  obtain n item where x: "x = (n, item)" by (cases x)
  obtain us1 g1 where s: "read_unit n item (us, g) = Inr (us1, g1)"
      and r: "efold (\<lambda>(n, x). read_unit n x) its (us1, g1) = Inr (us', g')"
    using Cons.prems x by auto
  note one = read_unit_Inr [OF s]
  have "distinct (map fst us1)" using one Cons.prems(2) by (auto simp: unit_entry_def)
  note rest = Cons.IH [OF r this]
  have us1: "us1 = us @ [unit_entry item]" and v: "set (verbs_of item) \<subseteq> range JStr" using one by simp_all
  have "g' \<longleftrightarrow> (g \<or> (\<exists>v \<in> set UNIT_FILE_VERBS. JStr v \<in> set (verbs_of item)))
      \<or> (\<exists>x \<in> set its. \<exists>v \<in> set UNIT_FILE_VERBS. JStr v \<in> set (verbs_of (snd x)))"
    using rest one by simp
  moreover have "distinct (map fst us')" "\<forall>y \<in> set its. set (verbs_of (snd y)) \<subseteq> range JStr" using rest by blast+
  moreover have "us' = us @ map (unit_entry \<circ> snd) (x # its)" using rest us1 x by simp
  ultimately show ?case
    using v x by (intro conjI) (assumption | simp add: disj_assoc)+
qed simp

lemma check_identities:
  "efold (\<lambda>i _. require (i \<in> S) (err i)) xs u = Inr w \<Longrightarrow> set xs \<subseteq> S"
  by (induction xs arbitrary: u) auto

lemma read_grant_Inr:
  assumes "read_grant user subjects n item gs = Inr gs'"
  shows "\<exists>ids. gs' = gs @ [(action_of item, ids)] \<and> action_of item \<notin> fst ` set gs \<and> set ids = set (identities_of user item)
    \<and> set ids \<subseteq> set subjects"
proof -
  obtain d where d: "item = JObj d" using assms by (cases item) (auto simp: read_grant_def)
  obtain ids where ids: "string_list (strings_or ''identities'' d [user]) (indexed ''polkit.grants'' n @ ''.identities'') USER_NAME ''user name'' = Inr ids"
      and new: "action_of item \<notin> fst ` set gs"
      and all: "efold (\<lambda>i _. require (i \<in> set subjects) (PolicyError (indexed ''polkit.grants'' n @ '': identity '' @ repr_str i
             @ '' is not the tools user or the owner ('' @ join_with '', '' subjects @ '')''))) ids () = Inr ()"
      and gs': "gs' = gs @ [(action_of item, ids)]"
    using assms d by (auto simp: read_grant_def Let_def action_of_def doc_of_def)
  have "set ids = set (identities_of user item)"
    using string_list_Inr(1) [OF ids] d
    by (auto simp: strings_or_def identities_of_def doc_of_def split: option.splits json.splits)
  with new gs' check_identities [OF all] show ?thesis by blast
qed

lemma read_grants:
  assumes "efold (\<lambda>(n, x). read_grant user subjects n x) its gs = Inr gs'" "distinct (map fst gs)"
  shows "distinct (map fst gs') \<and> (\<exists>new. gs' = gs @ new \<and>
    list_all2 (\<lambda>x (a, ids). a = action_of (snd x) \<and> set ids = set (identities_of user (snd x))) its new)"
  using assms
proof (induction its arbitrary: gs)
  case (Cons x its)
  obtain n item where x: "x = (n, item)" by (cases x)
  obtain gs1 where s: "read_grant user subjects n item gs = Inr gs1"
      and r: "efold (\<lambda>(n, x). read_grant user subjects n x) its gs1 = Inr gs'"
    using Cons.prems x by auto
  obtain ids where one: "gs1 = gs @ [(action_of item, ids)]" "action_of item \<notin> fst ` set gs"
      "set ids = set (identities_of user item)"
    using read_grant_Inr [OF s] by blast
  have "distinct (map fst gs1)" using one Cons.prems(2) by auto
  from Cons.IH [OF r this] obtain new where new: "distinct (map fst gs')" "gs' = gs1 @ new"
     "list_all2 (\<lambda>x (a, ids). a = action_of (snd x) \<and> set ids = set (identities_of user (snd x))) its new"
    by blast
  have "gs' = gs @ (action_of item, ids) # new"
    "list_all2 (\<lambda>x (a, ids). a = action_of (snd x) \<and> set ids = set (identities_of user (snd x))) (x # its) ((action_of item, ids) # new)"
    using new one x by simp_all
  with new(1) show ?case by blast
qed simp

lemma iterate_items:
  assumes "iterate (json_true key d) = Inr xs" "\<forall>x \<in> set xs. \<exists>o'. x = JObj o'"
  shows "items_at key d = xs"
proof (cases "json_true key d")
  case (Some v)
  then have "truthy v" by (auto simp: json_true_def split: option.splits if_splits)
  with Some assms show ?thesis by (cases v) (auto simp: iterate_def items_at_def neq_Nil_conv)
qed (use assms in \<open>simp add: iterate_def items_at_def\<close>)

lemma table_at_Inr: "table_at key d = Inr t \<Longrightarrow> t = sub_table key d"
  by (auto simp: table_at_def sub_table_def split: option.splits json.splits)

lemma polkit_table_Inr: "polkit_table d = Inr t \<Longrightarrow> t = sub_table ''polkit'' d"
  by (auto simp: polkit_table_def sub_table_def Let_def split: option.splits json.splits if_splits)

lemma unit_items:
  assumes "eloop read_unit xs st = Inr st'" "iterate (json_true key d) = Inr xs"
  shows "items_at key d = xs"
proof (rule iterate_items [OF assms(2)])
  have "\<exists>d. x = JObj d" if "read_unit n x u = Inr v" for n x u v
    using that by (cases x) (auto simp: read_unit_def)
  then show "\<forall>x \<in> set xs. \<exists>o'. x = JObj o'" using eloop_each [OF assms(1)] by blast
qed

lemma polkit_items:
  assumes "eloop (read_grant user subjects) xs st = Inr st'" "iterate (json_true key d) = Inr xs"
  shows "items_at key d = xs"
proof (rule iterate_items [OF assms(2)])
  have "\<exists>d. x = JObj d" if "read_grant user subjects n x u = Inr v" for n x u v
    using that by (cases x) (auto simp: read_grant_def Let_def)
  then show "\<forall>x \<in> set xs. \<exists>o'. x = JObj o'" using eloop_each [OF assms(1)] by blast
qed

lemma policy_parts:
  assumes "policy_of_document d = Inr p"
  obtains uitems gitems
  where "hp_user p = tools_user d" "hp_owner_user p = owner_user d"
    "\<And>x. hp_owner_user p = Some x \<Longrightarrow> USER_NAME x"
    "iterate (json_true ''managed_units'' d) = Inr uitems"
    "eloop read_unit uitems ([], False) = Inr (hp_units p, hp_unit_file_grant p)"
    "iterate (json_true ''grants'' (sub_table ''polkit'' d)) = Inr gitems"
    "eloop (read_grant (tools_user d) (subjects_of (tools_user d) (owner_user d))) gitems [] = Inr (hp_grants p)"
    "read_commands (sub_table ''shell'' d) = Inr (hp_shell_commands p)"
proof -
  have owner_ok: "USER_NAME x"
    if "(case v of None \<Rightarrow> Inr () | Some y \<Rightarrow> valid_user y) = Inr ()" "map_option py_str v = Some x" for v x
    using that by (cases v) (auto simp: valid_user_def)
  obtain uitems gitems where "hp_user p = tools_user d \<and> hp_owner_user p = owner_user d
      \<and> (case json_true ''owner_user'' (sub_table ''identity'' d) of None \<Rightarrow> Inr () | Some y \<Rightarrow> valid_user y) = Inr ()
      \<and> iterate (json_true ''managed_units'' d) = Inr uitems
      \<and> eloop read_unit uitems ([], False) = Inr (hp_units p, hp_unit_file_grant p)
      \<and> iterate (json_true ''grants'' (sub_table ''polkit'' d)) = Inr gitems
      \<and> eloop (read_grant (tools_user d) (subjects_of (tools_user d) (owner_user d))) gitems [] = Inr (hp_grants p)
      \<and> read_commands (sub_table ''shell'' d) = Inr (hp_shell_commands p)"
    using assms unfolding policy_of_document_def Let_def
    by (auto dest!: table_at_Inr polkit_table_Inr simp: tools_user_def owner_user_def)
  note parts = this
  have "USER_NAME x" if "hp_owner_user p = Some x" for x
  proof (rule owner_ok)
    show "map_option py_str (json_true ''owner_user'' (sub_table ''identity'' d)) = Some x"
      using parts that unfolding owner_user_def by metis
  qed (use parts in blast)
  with parts show thesis by (intro that) blast+
qed

section \<open>The rendered rule\<close>

lemma rule_subjects_policy:
  assumes "policy_of_document d = Inr p"
  shows "rule_subjects p = subjects_of (tools_user d) (owner_user d)"
proof -
  obtain "hp_user p = tools_user d" "hp_owner_user p = owner_user d" "\<And>x. hp_owner_user p = Some x \<Longrightarrow> USER_NAME x"
    using policy_parts [OF assms] by metis
  moreover have "\<not> USER_NAME []" by (simp add: USER_NAME_def re_match_def headed_def)
  ultimately show ?thesis by (cases "owner_user d") (auto simp: rule_subjects_def split: list.splits)
qed

lemma map_of_foldl_update:
  "map_of (foldl (\<lambda>d (k, v). AList.update k v d) d0 kvs) k = (case map_of (rev kvs) k of None \<Rightarrow> map_of d0 k | Some v \<Rightarrow> Some v)"
  by (induction kvs rule: rev_induct) (auto simp: update_conv')

lemma policy_units:
  assumes "policy_of_document d = Inr p"
  shows "hp_units p = map unit_entry (items_at ''managed_units'' d)" "distinct (map fst (hp_units p))"
    "hp_unit_file_grant p \<longleftrightarrow> (\<exists>unit v. listed_verb d unit v \<and> v \<in> set UNIT_FILE_VERBS)"
    "item \<in> set (items_at ''managed_units'' d) \<Longrightarrow> set (verbs_of item) \<subseteq> range JStr"
proof -
  obtain xs where it: "iterate (json_true ''managed_units'' d) = Inr xs"
      and lp: "eloop read_unit xs ([], False) = Inr (hp_units p, hp_unit_file_grant p)"
    using policy_parts [OF assms] by metis
  note items = unit_items [OF lp it]
  note r = read_units [OF lp [unfolded eloop_def], simplified]
  have snds: "snd ` set (List.enumerate 0 xs) = set xs" "map (unit_entry \<circ> snd) (List.enumerate 0 xs) = map unit_entry xs"
    by (simp_all flip: set_map map_map)
  show "hp_units p = map unit_entry (items_at ''managed_units'' d)" using r snds items by simp
  show "distinct (map fst (hp_units p))" using r by blast
  have in_xs: "(\<forall>x \<in> set (List.enumerate 0 xs). Q (snd x)) \<longleftrightarrow> (\<forall>x \<in> set xs. Q x)"
      "(\<exists>x \<in> set (List.enumerate 0 xs). Q (snd x)) \<longleftrightarrow> (\<exists>x \<in> set xs. Q x)" for Q
    using snds(1) by (metis (no_types, lifting) image_iff)+
  show "item \<in> set (items_at ''managed_units'' d) \<Longrightarrow> set (verbs_of item) \<subseteq> range JStr"
    using r in_xs(1) [of "\<lambda>x. set (verbs_of x) \<subseteq> range JStr"] items by simp
  show "hp_unit_file_grant p \<longleftrightarrow> (\<exists>unit v. listed_verb d unit v \<and> v \<in> set UNIT_FILE_VERBS)"
    using r in_xs(2) [of "\<lambda>x. \<exists>v \<in> set UNIT_FILE_VERBS. JStr v \<in> set (verbs_of x)"] items
    unfolding listed_verb_def by auto
qed

lemma policy_grants:
  assumes "policy_of_document d = Inr p"
  shows "distinct (map fst (hp_grants p))"
    "list_all2 (\<lambda>x (a, ids). a = action_of x \<and> set ids = set (identities_of (tools_user d) x)) (grant_items d) (hp_grants p)"
proof -
  obtain xs where it: "iterate (json_true ''grants'' (sub_table ''polkit'' d)) = Inr xs"
      and lp: "eloop (read_grant (tools_user d) (subjects_of (tools_user d) (owner_user d))) xs [] = Inr (hp_grants p)"
    using policy_parts [OF assms] by metis
  note r = read_grants [OF lp [unfolded eloop_def], simplified]
  show "distinct (map fst (hp_grants p))" using r by blast
  have "list_all2 (\<lambda>x (a, ids). a = action_of x \<and> set ids = set (identities_of (tools_user d) x))
      (map snd (List.enumerate 0 xs)) (hp_grants p)"
    using r by (simp add: list_all2_map1 del: map_snd_enumerate)
  then show "list_all2 (\<lambda>x (a, ids). a = action_of x \<and> set ids = set (identities_of (tools_user d) x)) (grant_items d) (hp_grants p)"
    using polkit_items [OF lp it] by (simp add: grant_items_def)
qed

lemma list_all2_right: "list_all2 P xs ys \<Longrightarrow> y \<in> set ys \<Longrightarrow> \<exists>x \<in> set xs. P x y"
  by (induction rule: list_all2_induct) auto

lemma list_all2_left: "list_all2 P xs ys \<Longrightarrow> x \<in> set xs \<Longrightarrow> \<exists>y \<in> set ys. P x y"
  by (induction rule: list_all2_induct) auto

lemma case_found: "(case r of None \<Rightarrow> False | Some v \<Rightarrow> P v) \<longleftrightarrow> (\<exists>v. r = Some v \<and> P v)"
  by (cases r) simp_all

lemma granted_iff:
  assumes "policy_of_document d = Inr p"
  shows "(case map_of (hp_grants p) a of None \<Rightarrow> False | Some ids \<Rightarrow> u \<in> set ids)
      \<longleftrightarrow> (\<exists>x \<in> set (grant_items d). action_of x = a \<and> u \<in> set (identities_of (tools_user d) x))"
    "map_of (hp_grants p) a = None \<longleftrightarrow> (\<forall>x \<in> set (grant_items d). action_of x \<noteq> a)"
proof -
  note g = policy_grants [OF assms]
  have fwd: "\<exists>x \<in> set (grant_items d). action_of x = k \<and> set ids = set (identities_of (tools_user d) x)"
    if "(k, ids) \<in> set (hp_grants p)" for k ids
    using list_all2_right [OF g(2) that] by auto
  have bwd: "\<exists>ids. (action_of x, ids) \<in> set (hp_grants p) \<and> set ids = set (identities_of (tools_user d) x)"
    if "x \<in> set (grant_items d)" for x
    using list_all2_left [OF g(2) that] by auto
  have m: "map_of (hp_grants p) k = Some ids \<longleftrightarrow> (k, ids) \<in> set (hp_grants p)" for k ids
    using g(1) by simp
  show none: "map_of (hp_grants p) a = None \<longleftrightarrow> (\<forall>x \<in> set (grant_items d). action_of x \<noteq> a)"
  proof -
    have "a \<in> fst ` set (hp_grants p) \<longleftrightarrow> (\<exists>x \<in> set (grant_items d). action_of x = a)"
      using fwd bwd by (metis (no_types, lifting) fst_conv imageE image_eqI prod.collapse)
    then show ?thesis by (simp add: map_of_eq_None_iff)
  qed
  show "(case map_of (hp_grants p) a of None \<Rightarrow> False | Some ids \<Rightarrow> u \<in> set ids)
      \<longleftrightarrow> (\<exists>x \<in> set (grant_items d). action_of x = a \<and> u \<in> set (identities_of (tools_user d) x))"
  proof -
    show ?thesis unfolding case_found m
    proof (intro iffI; elim exE bexE conjE)
      fix ids assume "(a, ids) \<in> set (hp_grants p)" "u \<in> set ids"
      then show "\<exists>x \<in> set (grant_items d). action_of x = a \<and> u \<in> set (identities_of (tools_user d) x)"
        using fwd by blast
    next
      fix x assume "x \<in> set (grant_items d)" "action_of x = a" "u \<in> set (identities_of (tools_user d) x)"
      then show "\<exists>ids. (a, ids) \<in> set (hp_grants p) \<and> u \<in> set ids" using bwd by blast
    qed
  qed
qed

lemma unit_granted_iff:
  assumes "policy_of_document d = Inr p"
  shows "(case map_of (rule_units p) unit of None \<Rightarrow> False | Some vs \<Rightarrow> verb \<in> set vs)
    \<longleftrightarrow> listed_verb d unit verb \<and> verb \<in> set MANAGE_UNIT_VERBS"
proof -
  note u = policy_units [OF assms]
  have keys: "map fst (rule_units p) = map fst (hp_units p)"
    by (simp add: rule_units_def split_beta comp_def)
  have m: "map_of (rule_units p) unit = Some vs \<longleftrightarrow> (unit, vs) \<in> set (rule_units p)" for vs
    using u(2) keys by (metis map_of_eq_Some_iff)
  have rows: "(unit, vs) \<in> set (rule_units p) \<longleftrightarrow> (\<exists>x \<in> set (items_at ''managed_units'' d). unit_of x = unit
      \<and> vs = filter (\<lambda>v. v \<in> set MANAGE_UNIT_VERBS) (ordered_dedup (map py_str (verbs_of x))))" for vs
    by (auto simp: rule_units_def u(1) unit_entry_def)
  have verbs: "verb \<in> py_str ` set (verbs_of x) \<longleftrightarrow> JStr verb \<in> set (verbs_of x)"
    if "x \<in> set (items_at ''managed_units'' d)" for x
    using u(4) [OF that] by (force simp: image_iff)
  have "(case map_of (rule_units p) unit of None \<Rightarrow> False | Some vs \<Rightarrow> verb \<in> set vs)
      \<longleftrightarrow> (\<exists>vs. (unit, vs) \<in> set (rule_units p) \<and> verb \<in> set vs)"
    unfolding case_found m ..
  also have "\<dots> \<longleftrightarrow> listed_verb d unit verb \<and> verb \<in> set MANAGE_UNIT_VERBS"
  proof -
    have "verb \<in> set (filter (\<lambda>v. v \<in> set MANAGE_UNIT_VERBS) (ordered_dedup (map py_str (verbs_of x))))
        \<longleftrightarrow> JStr verb \<in> set (verbs_of x) \<and> verb \<in> set MANAGE_UNIT_VERBS"
      if "x \<in> set (items_at ''managed_units'' d)" for x using verbs [OF that] by simp
    then show ?thesis unfolding rows listed_verb_def by metis
  qed
  finally show ?thesis .
qed

lemma rule_grants_lookup:
  assumes "policy_of_document d = Inr p"
  shows "map_of (rule_grants p) a = (case map_of (hp_grants p) a of Some ids \<Rightarrow> Some ids
    | None \<Rightarrow> if hp_unit_file_grant p \<and> a = MANAGE_UNIT_FILES_ACTION then Some (rule_subjects p) else None)"
proof -
  have "map_of (rev (hp_grants p)) = map_of (hp_grants p)"
    using policy_grants(1) [OF assms] by (subst map_of_inject_set) (simp_all flip: rev_map)
  then show ?thesis by (cases "map_of (hp_grants p) a") (auto simp: rule_grants_def map_of_foldl_update)
qed

text \<open>C26: The polkit rule rendered from an accepted host policy says yes exactly to the tools user and
  the configured owner, for managing a unit exactly with the manage verbs that the document lists for
  that unit, and for any other action exactly where a grant of the document names the user; only the
  unit-file action is also open to both users when some unit lists a unit-file verb and no grant narrows it.\<close>

theorem polkit_rule_exact:
  assumes "policy_of_document d = Inr p"
  shows "polkit_yes p u a unit verb \<longleftrightarrow>
    (u = tools_user d \<or> owner_user d = Some u) \<and>
    (if a = MANAGE_UNITS_ACTION then listed_verb d unit verb \<and> verb \<in> set MANAGE_UNIT_VERBS
     else if \<exists>x \<in> set (grant_items d). action_of x = a
       then \<exists>x \<in> set (grant_items d). action_of x = a \<and> u \<in> set (identities_of (tools_user d) x)
     else a = MANAGE_UNIT_FILES_ACTION \<and> (\<exists>w v. listed_verb d w v \<and> v \<in> set UNIT_FILE_VERBS))"
proof -
  have subj: "u \<in> set (rule_subjects p) \<longleftrightarrow> u = tools_user d \<or> owner_user d = Some u"
    unfolding rule_subjects_policy [OF assms] subjects_of_def by (cases "owner_user d") auto
  have other: "(case map_of (rule_grants p) a of None \<Rightarrow> False | Some ids \<Rightarrow> u \<in> set ids) \<longleftrightarrow>
      (if \<exists>x \<in> set (grant_items d). action_of x = a
       then \<exists>x \<in> set (grant_items d). action_of x = a \<and> u \<in> set (identities_of (tools_user d) x)
       else a = MANAGE_UNIT_FILES_ACTION \<and> (\<exists>w v. listed_verb d w v \<and> v \<in> set UNIT_FILE_VERBS))"
    if "u \<in> set (rule_subjects p)"
  proof (cases "map_of (hp_grants p) a")
    case None
    then show ?thesis
      using granted_iff(2) [OF assms, of a] policy_units(3) [OF assms] that
      by (auto simp: rule_grants_lookup [OF assms])
  next
    case (Some ids)
    then show ?thesis
      using granted_iff(1) [OF assms, where a = a and u = u] granted_iff(2) [OF assms, of a] by (simp add: rule_grants_lookup [OF assms])
  qed
  show ?thesis
  proof (cases "u \<in> set (rule_subjects p)")
    case True
    then show ?thesis
      unfolding polkit_yes_def unit_granted_iff [OF assms] other [OF True] subj [symmetric] by simp
  qed (simp add: polkit_yes_def subj [symmetric])
qed

text \<open>An example document: one unit, one grant, an owner.\<close>

definition example_document :: json_obj where
  "example_document =
    [(''identity'', JObj [(''owner_user'', JStr ''jaco'')]),
     (''managed_units'', JList [JObj [(''unit'', JStr ''nginx.service''),
        (''verbs'', JList [JStr ''restart'', JStr ''restart'', JStr ''enable''])]]),
     (''polkit'', JObj [(''grants'', JList [JObj [(''action'', JStr ''org.example.act''),
        (''identities'', JList [JStr ''jaco''])]])])]"

lemma defaults_accepted:
  "valid_user (JStr ''atlas-tools'') = Inr ()" "valid_user (JStr ''jaco'') = Inr ()"
  "string_list (Some (JList [JStr ''systemd-journal''])) ''identity.groups'' USER_NAME ''group'' = Inr [''systemd-journal'']"
  "string_list (Some (JList (map JStr DEFAULT_SYSTEMD_TOOLS))) ''systemd.enabled_tools'' TOOL_NAME ''tool name'' = Inr DEFAULT_SYSTEMD_TOOLS"
  "read_commands [] = Inr []"
  by code_simp+

lemmas document_reads =
  table_at_def json_true_def json_or_def strings_or_def subjects_of_def polkit_table_def iterate_def bounded_def

lemma example_units:
  "eloop read_unit [JObj [(''unit'', JStr ''nginx.service''), (''verbs'', JList [JStr ''restart'', JStr ''restart'', JStr ''enable''])]] ([], False)
   = Inr ([(''nginx.service'', [''restart'', ''enable''])], True)"
  by code_simp

lemma example_grants:
  "eloop (read_grant ''atlas-tools'' [''atlas-tools'', ''jaco'']) [JObj [(''action'', JStr ''org.example.act''),
        (''identities'', JList [JStr ''jaco''])]] [] = Inr [(''org.example.act'', [''jaco''])]"
  by code_simp

lemma example_accepted: "\<exists>p. policy_of_document example_document = Inr p"
  by (simp add: policy_of_document_def example_document_def document_reads defaults_accepted example_units example_grants Let_def)

theorem polkit_rule_exact_witness:
  "\<exists>p. policy_of_document example_document = Inr p
     \<and> polkit_yes p ''atlas-tools'' MANAGE_UNITS_ACTION ''nginx.service'' ''restart''
     \<and> \<not> polkit_yes p ''root'' MANAGE_UNITS_ACTION ''nginx.service'' ''restart''
     \<and> \<not> polkit_yes p ''atlas-tools'' ''org.example.act'' [] []"
proof -
  obtain p where p: "policy_of_document example_document = Inr p" using example_accepted by blast
  have users: "tools_user example_document = ''atlas-tools''" "owner_user example_document = Some ''jaco''"
    by code_simp+
  have listed: "listed_verb example_document ''nginx.service'' ''restart''" "''restart'' \<in> set MANAGE_UNIT_VERBS" by code_simp+
  have grant: "(\<exists>x \<in> set (grant_items example_document). action_of x = ''org.example.act'')"
    "\<not> (\<exists>x \<in> set (grant_items example_document). action_of x = ''org.example.act''
        \<and> ''atlas-tools'' \<in> set (identities_of ''atlas-tools'' x))"
    "''org.example.act'' \<noteq> MANAGE_UNITS_ACTION" by code_simp+
  show ?thesis
    using p polkit_rule_exact [OF p] users listed grant by (intro exI [of _ p]) simp
qed

section \<open>Staging\<close>

text \<open>A successful staging keeps that every staged file is a text the validation accepts.\<close>

definition staged_ok :: "(string \<Rightarrow> json_obj option) \<Rightarrow> files \<Rightarrow> bool" where
  "staged_ok loads fs =
    ((\<forall>s. map_of fs STAGED_POLICY = Some s \<longrightarrow> (\<exists>p. load_policy loads s = Inr p))
   \<and> (\<forall>s. map_of fs STAGED_SERVERS = Some s \<longrightarrow> (\<exists>p. parse_mcp_servers loads s = Inr p)))"

lemma accept_policy: "accept m (validate_policy loads s) = Inr u \<Longrightarrow> \<exists>p. load_policy loads s = Inr p"
  by (cases "load_policy loads s") (auto simp: accept_def validate_policy_def split: if_splits)

lemma accept_servers: "accept m (validate_servers loads s) = Inr u \<Longrightarrow> \<exists>p. parse_mcp_servers loads s = Inr p"
  by (cases "parse_mcp_servers loads s") (auto simp: accept_def validate_servers_def split: if_splits)

lemma staged_file:
  "map_of (put_file name s fs) k = (if k = name \<and> s \<noteq> None then s else map_of fs k)"
  by (cases s) (auto simp: put_file_def update_conv')

lemma staged_names [simp]:
  "STAGED_POLICY \<noteq> REQUEST" "STAGED_SERVERS \<noteq> REQUEST" "STAGED_POLICY \<noteq> STAGED_SERVERS" "STAGED_SERVERS \<noteq> STAGED_POLICY"
  by (simp_all add: STAGED_POLICY_def STAGED_SERVERS_def REQUEST_def)

lemma stage_keeps:
  assumes "stage loads at pt st fs = Inr (r, fs')" "staged_ok loads fs"
  shows "staged_ok loads fs'"
proof -
  have pt: "\<exists>p. load_policy loads s = Inr p" if "pt = Some s" for s
    using assms(1) that by (auto simp: stage_def Let_def dest: accept_policy)
  have st: "\<exists>p. parse_mcp_servers loads s = Inr p" if "st = Some s" for s
    using assms(1) that by (auto simp: stage_def Let_def dest: accept_servers)
  have fs': "map_of fs' STAGED_POLICY = (if pt \<noteq> None then pt else map_of fs STAGED_POLICY)"
      "map_of fs' STAGED_SERVERS = (if st \<noteq> None then st else map_of fs STAGED_SERVERS)"
    using assms(1) by (auto simp: stage_def Let_def staged_file)
  show ?thesis unfolding staged_ok_def fs' using assms(2) pt st by (auto simp: staged_ok_def)
qed

section \<open>The newline at the end of a command\<close>

text \<open>The document that allows one command and nothing else.\<close>

definition shell_document :: "string \<Rightarrow> json_obj" where
  "shell_document c = [(''shell'', JObj [(''allow_commands'', JList [JStr c])])]"

lemma risky_are_words:
  assumes "c \<in> set RISKY_COMMANDS"
  shows "command_word c" "NEWLINE \<notin> set c" "CHR ''/'' \<notin> set c"
proof -
  have "list_all (\<lambda>c. command_word c \<and> NEWLINE \<notin> set c \<and> CHR ''/'' \<notin> set c) RISKY_COMMANDS" by code_simp
  with assms show "command_word c" "NEWLINE \<notin> set c" "CHR ''/'' \<notin> set c" by (auto simp: list_all_iff)
qed

lemma newline_unrisky: "c @ [NEWLINE] \<notin> set RISKY_COMMANDS"
  using risky_are_words(2) [of "c @ [NEWLINE]"] by auto

lemma newline_commands:
  assumes "c \<in> set RISKY_COMMANDS"
  shows "read_commands [(''allow_commands'', JList [JStr (c @ [NEWLINE])])] = Inr [c @ [NEWLINE]]"
proof -
  have "COMMAND_NAME (c @ [NEWLINE])"
    unfolding COMMAND_NAME_def using risky_are_words(1) [OF assms] by (rule re_match_newline)
  moreover have "CHR ''/'' \<noteq> NEWLINE" by (simp add: NEWLINE_def)
  ultimately show ?thesis
    using risky_are_words(3) [OF assms] newline_unrisky [of c]
    by (auto simp: read_commands_def string_list_def is_string_def add_item_def risky_of_def json_true_def)
qed

text \<open>The lines of a rendered file.\<close>

lemma split_on_nonempty: "split_on sep ys \<noteq> []"
  by (cases ys) (auto split: list.splits)

lemma split_on_append: "sep \<notin> set xs \<Longrightarrow> split_on sep (xs @ sep # ys) = xs # split_on sep ys"
proof (induction xs)
  case Nil
  then show ?case by (cases "split_on sep ys") (auto simp: split_on_nonempty)
next
  case (Cons x xs)
  then show ?case by auto
qed

lemma second_line: "sep \<notin> set h \<Longrightarrow> sep \<notin> set l \<Longrightarrow> split_on sep (h @ sep # l @ sep # r) ! 1 = l"
  by (simp add: split_on_append)

text \<open>C27: A newline at the end of a command name defeats the risk check: for every command of the risky
  list the document that allows it with a trailing newline, and does not set \<^verbatim>\<open>allow_risky_commands\<close>, is
  accepted without a warning, and the second line of the rendered shell environment allows the
  command itself.\<close>

theorem risky_command_unflagged:
  assumes "c \<in> set RISKY_COMMANDS"
  shows "\<exists>p. policy_of_document (shell_document (c @ [NEWLINE])) = Inr p \<and> \<not> hp_allow_risky_commands p \<and> hp_warnings p = []
    \<and> split_on NEWLINE (render_shell_env p) ! 1 = ''ALLOW_COMMANDS='' @ c"
proof -
  obtain p where p: "policy_of_document (shell_document (c @ [NEWLINE])) = Inr p"
      "hp_shell_commands p = [c @ [NEWLINE]]" "\<not> hp_allow_risky_commands p"
      "hp_warnings p = policy_warnings False [c @ [NEWLINE]] [''systemd-journal''] DEFAULT_SYSTEMD_TOOLS"
    by (simp add: policy_of_document_def shell_document_def document_reads defaults_accepted newline_commands [OF assms] Let_def eloop_def)
  have risk: "risky_of [c @ [NEWLINE]] = []" using newline_unrisky by (simp add: risky_of_def)
  have "policy_warnings False [c @ [NEWLINE]] [''systemd-journal''] DEFAULT_SYSTEMD_TOOLS = []"
    unfolding policy_warnings_def risk by (simp add: DEFAULT_SYSTEMD_TOOLS_def KNOWN_SYSTEMD_TOOLS_def Let_def)
  moreover have "split_on NEWLINE (render_shell_env p) ! 1 = ''ALLOW_COMMANDS='' @ c"
  proof -
    define rest where "rest = NEWLINE # ''MCP_SHELL_DEFAULT_TIMEOUT_SECONDS='' @ show_int (hp_default_timeout_seconds p) @ [NEWLINE]
      @ ''MCP_SHELL_MAX_TIMEOUT_SECONDS='' @ show_int (hp_max_timeout_seconds p) @ [NEWLINE]
      @ ''MCP_SHELL_OUTPUT_LIMIT_BYTES='' @ show_int (hp_output_limit_bytes p) @ [NEWLINE]
      @ ''MCP_SHELL_CHILD_ENV_ALLOWLIST='' @ [NEWLINE]
      @ ''MCP_SHELL_SAFE_PATH=/usr/local/bin:/usr/bin:/bin:/usr/sbin:/sbin'' @ [NEWLINE]"
    have env: "render_shell_env p = ''# Generated by Atlas from /etc/atlas-v5/config/host-policy.toml. Do not edit.''
        @ NEWLINE # (''ALLOW_COMMANDS='' @ c) @ NEWLINE # rest"
      unfolding render_shell_env_def p(2) rest_def by simp
    have "NEWLINE \<notin> set (''ALLOW_COMMANDS='' @ c)"
      "NEWLINE \<notin> set ''# Generated by Atlas from /etc/atlas-v5/config/host-policy.toml. Do not edit.''"
      using risky_are_words(2) [OF assms] by (simp_all add: NEWLINE_def)
    then show ?thesis unfolding env by (intro second_line)
  qed
  ultimately show ?thesis using p by auto
qed

theorem risky_command_unflagged_witness:
  "\<exists>p. policy_of_document (shell_document (''bash'' @ [NEWLINE])) = Inr p \<and> \<not> hp_allow_risky_commands p \<and> hp_warnings p = []
    \<and> split_on NEWLINE (render_shell_env p) ! 1 = ''ALLOW_COMMANDS=bash''"
  using risky_command_unflagged [of "''bash''"] by (simp add: RISKY_COMMANDS_def)

end
