(* ===== verification/Work_Store.thy ===== *)
theory Work_Store
  imports Transcripts Schedules Config_Text
begin

text \<open>
  The tables that runs, managed tasks and their evidence share: the conversations of
  \<open>mem_db\<close>, the action ledger of \<open>auth_db\<close>, run events (\<^verbatim>\<open>runtime/run_events.py\<close>) and artifacts
  (\<^verbatim>\<open>artifacts/store.py\<close>, \<^verbatim>\<open>artifacts/repository.py\<close>). The ledger operations act on the view \<open>ledger\<close>
  of the tables; they never write a conversation. Bytes are lists of characters. Fresh UUIDs come from a numbered
  supply; the digest, base64, the JSON parser and the UUID parser are the \<open>work_lib\<close> argument.
\<close>

section \<open>Tables\<close>

record artifact_row =
  af_id :: uuid
  af_kind :: string
  af_filename :: "string option"
  af_media_type :: string
  af_storage_key :: string
  af_sha256 :: string
  af_size_bytes :: nat
  af_source :: string
  af_provenance :: json_obj

record run_event_row =
  re_id :: nat
  re_run_id :: uuid
  re_event_type :: string
  re_payload :: json_obj

text \<open>\<open>wd_workspaces\<close> is the column \<^verbatim>\<open>workspace_id\<close> of the runs, \<open>wd_blobs\<close> the artifact directory.\<close>

record work_db = mem_db +
  wd_runs :: "run_row list"
  wd_actions :: "action_row list"
  wd_attention :: "attention_row list"
  wd_schedules :: "sched_row list"
  wd_workspaces :: "(uuid \<times> uuid) list"
  wd_events :: "run_event_row list"
  wd_artifacts :: "artifact_row list"
  wd_blobs :: "(string \<times> string) list"
  wd_supply :: nat

record work_lib = lib +
  uuid4 :: "nat \<Rightarrow> uuid"
  parse_uuid :: "string \<Rightarrow> uuid option"
  b64decode :: "string \<Rightarrow> string option"
  utf8_decode :: "string \<Rightarrow> string option"
  json_loads :: "string \<Rightarrow> json option"

datatype work_error =
    Ledger auth_error
  | Store mem_error
  | EvidenceError string
  | TaskNotFound string
  | TaskConflict string
  | WValueError string
  | WTypeError
  | WRuntimeError string
  | RunInterrupted string

definition in_store :: "mem_error + 'a \<Rightarrow> work_error + 'a" where
  "in_store r = (case r of Inl e \<Rightarrow> Inl (Store e) | Inr x \<Rightarrow> Inr x)"

definition in_ledger :: "auth_error + 'a \<Rightarrow> work_error + 'a" where
  "in_ledger r = (case r of Inl e \<Rightarrow> Inl (Ledger e) | Inr x \<Rightarrow> Inr x)"

section \<open>The ledger of the tables\<close>

definition chat_view :: "transcript_row \<Rightarrow> chat_row" where
  "chat_view t = \<lparr>ch_id = tr_id t, ch_active_task_state = JObj (tr_active_task_state t)\<rparr>"

definition ledger :: "'x work_db_scheme \<Rightarrow> auth_db" where
  "ledger db = \<lparr>db_runs = wd_runs db, db_actions = wd_actions db, db_attention = wd_attention db,
     db_transcripts = map chat_view (md_transcripts db), db_schedules = wd_schedules db\<rparr>"

definition put_ledger :: "auth_db \<Rightarrow> 'x work_db_scheme \<Rightarrow> 'x work_db_scheme" where
  "put_ledger l db = db\<lparr>wd_runs := db_runs l, wd_actions := db_actions l, wd_attention := db_attention l,
     wd_schedules := db_schedules l\<rparr>"

definition on_ledger :: "(auth_db \<Rightarrow> auth_error + auth_db) \<Rightarrow> 'x work_db_scheme \<Rightarrow> work_error + 'x work_db_scheme" where
  "on_ledger f db = ebind (in_ledger (f (ledger db))) (\<lambda>l. Inr (put_ledger l db))"

definition on_ledger_ret ::
  "(auth_db \<Rightarrow> auth_error + ('a \<times> auth_db)) \<Rightarrow> 'x work_db_scheme \<Rightarrow> work_error + ('a \<times> 'x work_db_scheme)" where
  "on_ledger_ret f db = ebind (in_ledger (f (ledger db))) (\<lambda>(a, l). Inr (a, put_ledger l db))"

definition fresh_id :: "'y work_lib_scheme \<Rightarrow> 'x work_db_scheme \<Rightarrow> uuid \<times> 'x work_db_scheme" where
  "fresh_id L db = (uuid4 L (wd_supply db), db\<lparr>wd_supply := Suc (wd_supply db)\<rparr>)"

section \<open>Run events\<close>

definition append_run_event :: "uuid \<Rightarrow> string \<Rightarrow> json_obj \<Rightarrow> 'x work_db_scheme \<Rightarrow> work_error + 'x work_db_scheme" where
  "append_run_event run_id event_type payload db =
    ebind (require (tget rn_id run_id (wd_runs db) \<noteq> None) (Ledger IntegrityError)) (\<lambda>_.
    Inr (db\<lparr>wd_events := tadd \<lparr>re_id = Suc (fold max (map re_id (wd_events db)) 0), re_run_id = run_id,
      re_event_type = event_type, re_payload = payload\<rparr> (wd_events db)\<rparr>))"

definition run_events_after :: "uuid \<Rightarrow> nat \<Rightarrow> int \<Rightarrow> 'x work_db_scheme \<Rightarrow> run_event_row list" where
  "run_events_after run_id after limit db = take (nat (max 1 (min limit 1000)))
     (sort_key re_id (filter (\<lambda>e. re_run_id e = run_id \<and> after < re_id e) (wd_events db)))"

section \<open>Artifacts\<close>

text \<open>\<^verbatim>\<open>ArtifactStore.put\<close>: the file is created exclusively under the first two digits of its identity.\<close>

definition put_artifact ::
  "'y work_lib_scheme \<Rightarrow> string \<Rightarrow> string \<Rightarrow> string \<Rightarrow> string \<Rightarrow> string option \<Rightarrow> 'x work_db_scheme
   \<Rightarrow> work_error + (artifact_row \<times> 'x work_db_scheme)" where
  "put_artifact L data media_type source kind filename db =
    (case fresh_id L db of (i, db1) \<Rightarrow>
     let key = take 2 i @ ''/'' @ i in
     ebind (require (map_of (wd_blobs db1) key = None) (WRuntimeError ''FileExistsError'')) (\<lambda>_.
     Inr (\<lparr>af_id = i, af_kind = kind, af_filename = filename, af_media_type = media_type, af_storage_key = key,
        af_sha256 = sha256 L data, af_size_bytes = length data, af_source = source, af_provenance = []\<rparr>,
       db1\<lparr>wd_blobs := wd_blobs db1 @ [(key, data)]\<rparr>)))"

definition add_artifact :: "artifact_row \<Rightarrow> json_obj \<Rightarrow> 'x work_db_scheme \<Rightarrow> work_error + 'x work_db_scheme" where
  "add_artifact a provenance db =
    ebind (require (tget af_id (af_id a) (wd_artifacts db) = None
        \<and> tget af_storage_key (af_storage_key a) (wd_artifacts db) = None) (Store MIntegrityError)) (\<lambda>_.
    Inr (db\<lparr>wd_artifacts := tadd (a\<lparr>af_provenance := provenance\<rparr>) (wd_artifacts db)\<rparr>))"

section \<open>Laws of the view\<close>

lemma in_store_Inr [simp]: "in_store r = Inr x \<longleftrightarrow> r = Inr x" and in_store_simps [simp]: "in_store (Inr x) = Inr x"
  "in_store (Inl m) = Inl (Store m)"
  by (cases r; simp add: in_store_def)+

lemma in_ledger_Inr [simp]: "in_ledger r = Inr x \<longleftrightarrow> r = Inr x" and in_ledger_simps [simp]: "in_ledger (Inr x) = Inr x"
  "in_ledger (Inl m) = Inl (Ledger m)"
  by (cases r; simp add: in_ledger_def)+

lemma ledger_fields [simp]:
  "db_runs (ledger db) = wd_runs db" "db_actions (ledger db) = wd_actions db" "db_attention (ledger db) = wd_attention db"
  "db_schedules (ledger db) = wd_schedules db" "db_transcripts (ledger db) = map chat_view (md_transcripts db)"
  by (simp_all add: ledger_def)

lemma put_ledger_fields [simp]:
  "wd_runs (put_ledger l db) = db_runs l" "wd_actions (put_ledger l db) = db_actions l"
  "wd_attention (put_ledger l db) = db_attention l" "wd_schedules (put_ledger l db) = db_schedules l"
  "md_transcripts (put_ledger l db) = md_transcripts db" "md_turns (put_ledger l db) = md_turns db"
  "wd_events (put_ledger l db) = wd_events db" "wd_supply (put_ledger l db) = wd_supply db"
  by (simp_all add: put_ledger_def)

lemma put_ledger_same [simp]: "put_ledger (ledger db) db = db"
  by (simp add: put_ledger_def ledger_def)

text \<open>Reading back what an operation that leaves the conversations alone has written.\<close>

lemma ledger_put: "db_transcripts l = map chat_view (md_transcripts db) \<Longrightarrow> ledger (put_ledger l db) = l"
  by (simp add: ledger_def)

lemma tget_chat_view: "tget ch_id i (map chat_view ts) = map_option chat_view (tget tr_id i ts)"
  by (induction ts) (simp_all add: chat_view_def)

end
