(* ===== verification/Evidence.thy ===== *)
theory Evidence
  imports Work_Store
begin

text \<open>
  Canonical observations (\<^verbatim>\<open>runtime/observations.py\<close>): large and binary parts of an observation are
  frozen into artifacts, the observation becomes a tool turn of its conversation and, where asked,
  a runtime event of the task checkpoint; stored evidence is read back in bounded pages. Storage keys
  are those \<open>put_artifact\<close> makes, so the check that a key stays below the artifact root is the lookup.
\<close>

section \<open>Freezing\<close>

definition NUL :: char where "NUL = CHR 0x00"

text \<open>U+FFFD lies outside the 8-bit alphabet; a code point stands for it.\<close>

definition replacement :: char where "replacement = CHR 0x1B"

definition utf8_encode :: "string \<Rightarrow> string" where
  "utf8_encode s = concat (map (\<lambda>c. let n = (of_char c :: nat) in
     if n < 128 then [c] else [char_of (192 + n div 64), char_of (128 + n mod 64)]) s)"

definition blob ::
  "'y work_lib_scheme \<Rightarrow> string \<Rightarrow> string \<Rightarrow> json option \<Rightarrow> json_obj \<Rightarrow> 'x work_db_scheme
   \<Rightarrow> work_error + (json_obj \<times> 'x work_db_scheme)" where
  "blob L data media_type name provenance db =
    ebind (case name of None \<Rightarrow> Inr None | Some JNull \<Rightarrow> Inr None | Some (JStr s) \<Rightarrow> Inr (Some s)
       | Some _ \<Rightarrow> Inl (WValueError ''filename'')) (\<lambda>filename.
    ebind (put_artifact L data media_type (json_or ''source'' provenance ''runtime'') ''tool_result'' filename db) (\<lambda>(a, db1).
    ebind (add_artifact a provenance db1) (\<lambda>db2.
    Inr ([(''artifact_id'', JStr (af_id a)), (''snapshot_sha256'', JStr (af_sha256 a)),
          (''snapshot_size_bytes'', JInt (int (af_size_bytes a)))], db2))))"

text \<open>The artifact a value already names, when it holds the same bytes.\<close>

definition existing_artifact ::
  "'y work_lib_scheme \<Rightarrow> string \<Rightarrow> json_obj \<Rightarrow> 'x work_db_scheme \<Rightarrow> work_error + artifact_row option" where
  "existing_artifact L data value db = (case json_true ''artifact_id'' value of
      None \<Rightarrow> Inr None
    | Some (JStr s) \<Rightarrow> Inr (case parse_uuid L s of None \<Rightarrow> None
        | Some i \<Rightarrow> (case tget af_id i (wd_artifacts db) of
            Some a \<Rightarrow> if sha256 L data = af_sha256 a then Some a else None | None \<Rightarrow> None))
    | Some _ \<Rightarrow> Inl WTypeError)"

definition freeze_resource ::
  "'y work_lib_scheme \<Rightarrow> json_obj \<Rightarrow> json_obj \<Rightarrow> json_obj \<Rightarrow> 'x work_db_scheme \<Rightarrow> work_error + (json \<times> 'x work_db_scheme)" where
  "freeze_resource L provenance value result db = (case json_get ''data_base64'' value of
      None \<Rightarrow> Inr (JObj result, db)
    | Some (JStr enc) \<Rightarrow>
        ebind (the_row (b64decode L enc) (WValueError ''Invalid base64-encoded string'')) (\<lambda>data.
        ebind (existing_artifact L data value db) (\<lambda>e. case e of
            Some a \<Rightarrow> Inr (JObj (json_merge result [(''artifact_id'', JStr (af_id a)), (''snapshot_sha256'', JStr (af_sha256 a)),
                (''snapshot_size_bytes'', JInt (int (af_size_bytes a)))]), db)
          | None \<Rightarrow> ebind (blob L data (json_or ''media_type'' value ''application/octet-stream'') (json_get ''name'' value)
                (json_merge provenance [(''resource'', JObj (filter (\<lambda>(k, _). k \<noteq> ''artifact_id'') result))]) db) (\<lambda>(ref, db1).
              Inr (JObj (json_merge result ref), db1))))
    | Some _ \<Rightarrow> Inl WTypeError)"

fun freeze ::
    "'y work_lib_scheme \<Rightarrow> json_obj \<Rightarrow> json \<Rightarrow> 'x work_db_scheme \<Rightarrow> work_error + (json \<times> 'x work_db_scheme)"
  and freeze_list ::
    "'y work_lib_scheme \<Rightarrow> json_obj \<Rightarrow> json list \<Rightarrow> 'x work_db_scheme \<Rightarrow> work_error + (json list \<times> 'x work_db_scheme)"
  and freeze_items ::
    "'y work_lib_scheme \<Rightarrow> json_obj \<Rightarrow> json_obj \<Rightarrow> 'x work_db_scheme \<Rightarrow> work_error + (json_obj \<times> 'x work_db_scheme)" where
  "freeze L p (JStr s) db =
    (if NUL \<in> set s
     then ebind (blob L (utf8_encode s) ''application/octet-stream'' (Some (JStr ''nul-containing-text.bin''))
            (json_merge p [(''encoding'', JStr ''utf-8''), (''reason'', JStr ''nul_in_text_payload'')]) db) (\<lambda>(ref, db1).
          Inr (JObj [(''text_artifact'', JObj ref), (''encoding'', JStr ''utf-8''), (''contains_nul'', JBool True),
            (''preview'', JStr (take 2000 (map (\<lambda>c. if c = NUL then replacement else c) s)))], db1))
     else Inr (JStr s, db))"
| "freeze L p (JList xs) db = ebind (freeze_list L p xs db) (\<lambda>(ys, db1). Inr (JList ys, db1))"
| "freeze L p (JObj kvs) db = ebind (freeze_items L p kvs db) (\<lambda>(result, db1). freeze_resource L p kvs result db1)"
| "freeze L p JNull db = Inr (JNull, db)"
| "freeze L p (JBool b) db = Inr (JBool b, db)"
| "freeze L p (JInt i) db = Inr (JInt i, db)"
| "freeze L p (JFloat r) db = Inr (JFloat r, db)"
| "freeze_list L p [] db = Inr ([], db)"
| "freeze_list L p (x # xs) db =
    ebind (freeze L p x db) (\<lambda>(y, db1). ebind (freeze_list L p xs db1) (\<lambda>(ys, db2). Inr (y # ys, db2)))"
| "freeze_items L p [] db = Inr ([], db)"
| "freeze_items L p ((k, v) # kvs) db =
    (if k = ''data_base64'' then freeze_items L p kvs db
     else ebind (freeze L p v db) (\<lambda>(w, db1). ebind (freeze_items L p kvs db1) (\<lambda>(ws, db2). Inr ((k, w) # ws, db2))))"

section \<open>Recording\<close>

record observation =
  ob_operation :: string
  ob_phase :: string
  ob_detail :: json_obj
  ob_run :: "uuid option"
  ob_action :: "uuid option"
  ob_arguments :: json_obj
  ob_checkpoint :: bool
  ob_trust :: string

definition observation_provenance :: "uuid \<Rightarrow> observation \<Rightarrow> json_obj" where
  "observation_provenance transcript_id e =
    [(''source'', JStr (ob_operation e)), (''trust'', JStr (ob_trust e)), (''run_id'', opt_json (ob_run e)),
     (''transcript_id'', JStr transcript_id), (''action_id'', opt_json (ob_action e))]"

definition observation_block :: "observation \<Rightarrow> json_obj \<Rightarrow> json \<Rightarrow> json \<Rightarrow> json" where
  "observation_block e provenance stored artifact_id = JObj
    [(''type'', JStr ''tool_observation''), (''action_id'', opt_json (ob_action e)), (''artifact_id'', artifact_id),
     (''operation'', JStr (ob_operation e)), (''phase'', JStr (ob_phase e)),
     (''summary'', JStr (ob_operation e @ '' '' @ [CHR 0xB7] @ '' '' @ ob_phase e)), (''detail'', stored),
     (''provenance'', JObj provenance)]"

definition doc_fields :: "json \<Rightarrow> json_obj" where
  "doc_fields v = (case v of JObj d \<Rightarrow> d | _ \<Rightarrow> [])"

text \<open>An observation of more than 32000 bytes is stored as an artifact.\<close>

definition store_payload ::
  "'y work_lib_scheme \<Rightarrow> observation \<Rightarrow> json_obj \<Rightarrow> json \<Rightarrow> 'x work_db_scheme \<Rightarrow> work_error + ((json \<times> json) \<times> 'x work_db_scheme)" where
  "store_payload L e provenance frozen db =
    (let encoded = utf8_encode (dumps_plain frozen) in
     if int (length encoded) \<le> 32000 then Inr ((frozen, JNull), db)
     else ebind (blob L encoded ''application/json'' (Some (JStr ''observation.json'')) provenance db) (\<lambda>(ref, db1).
       Inr ((JObj [(''evidence_payload'', JObj ref), (''status'', get_or_null ''status'' (doc_fields frozen)),
           (''operation_id'', JStr (ob_operation e))], get_or_null ''artifact_id'' ref), db1)))"

definition record_observation ::
  "'y work_lib_scheme \<Rightarrow> time \<Rightarrow> uuid \<Rightarrow> observation \<Rightarrow> 'x work_db_scheme \<Rightarrow> work_error + ((uuid \<times> json_obj) \<times> 'x work_db_scheme)" where
  "record_observation L now transcript_id e db =
    (let provenance = observation_provenance transcript_id e in
     ebind (freeze L provenance (JObj (ob_detail e)) db) (\<lambda>(frozen, db1).
     ebind (store_payload L e provenance frozen db1) (\<lambda>((stored, artifact_id), db2).
     case fresh_id L db2 of (turn_id, db3) \<Rightarrow>
     ebind (in_store (append_turn turn_id now transcript_id ''tool'' [observation_block e provenance stored artifact_id] db3)) (\<lambda>(turn, db4).
     if \<not> ob_checkpoint e then Inr ((turn_id, doc_fields frozen), db4)
     else (case fresh_id L db4 of (task_id, db5) \<Rightarrow>
       let event = \<lparr>ev_operation = ob_operation e, ev_phase = ob_phase e, ev_evidence_id = turn_id,
             ev_arguments = ob_arguments e, ev_detail = doc_fields frozen, ev_action_id = ob_action e\<rparr> in
       ebind (in_store (mutate_active_task_state task_id transcript_id (\<lambda>s. record_runtime_event task_id s event) None db5)) (\<lambda>(_, db6).
       Inr ((turn_id, doc_fields frozen), db6)))))))"

section \<open>Reading\<close>

definition artifact_bytes :: "'y work_lib_scheme \<Rightarrow> string \<Rightarrow> 'x work_db_scheme \<Rightarrow> work_error + string" where
  "artifact_bytes L artifact_id db =
    ebind (the_row (parse_uuid L artifact_id) (EvidenceError ''badly formed hexadecimal UUID string'')) (\<lambda>i.
    ebind (the_row (tget af_id i (wd_artifacts db)) (EvidenceError ''Evidence artifact not found'')) (\<lambda>a.
    ebind (the_row (map_of (wd_blobs db) (af_storage_key a)) (EvidenceError ''FileNotFoundError'')) (\<lambda>data.
    ebind (require (sha256 L data = af_sha256 a) (EvidenceError ''Evidence artifact integrity check failed'')) (\<lambda>_. Inr data))))"

fun mentions :: "string \<Rightarrow> json \<Rightarrow> bool" where
  "mentions a (JObj kvs) = (json_get ''artifact_id'' kvs = Some (JStr a) \<or> list_ex (\<lambda>(k, v). mentions a v) kvs)"
| "mentions a (JList xs) = list_ex (mentions a) xs"
| "mentions a _ = False"

text \<open>One step of a JSON pointer (RFC 6901); a list is indexed the way Python does.\<close>

fun replace_pair :: "char \<Rightarrow> char \<Rightarrow> char \<Rightarrow> string \<Rightarrow> string" where
  "replace_pair a b c (x # y # s) = (if x = a \<and> y = b then c # replace_pair a b c s else x # replace_pair a b c (y # s))"
| "replace_pair a b c s = s"

definition py_index :: "'a list \<Rightarrow> int \<Rightarrow> 'a option" where
  "py_index xs i = (let k = (if i < 0 then i + int (length xs) else i) in
     if 0 \<le> k \<and> k < int (length xs) then Some (xs ! nat k) else None)"

definition pointer_step :: "string \<Rightarrow> json \<Rightarrow> json option" where
  "pointer_step part v =
    (let key = replace_pair (CHR ''~'') (CHR ''0'') (CHR ''~'') (replace_pair (CHR ''~'') (CHR ''1'') (CHR ''/'') part) in
     case v of
       JList xs \<Rightarrow> (case signed unsigned_int (strip key) of None \<Rightarrow> None | Some i \<Rightarrow> py_index xs i)
     | JObj d \<Rightarrow> json_get key d
     | _ \<Rightarrow> None)"

definition follow_pointer :: "string \<Rightarrow> json \<Rightarrow> work_error + json" where
  "follow_pointer pointer v =
    (if pointer = [] then Inr v
     else ebind (require (hd pointer = CHR ''/'') (EvidenceError ''Use an RFC 6901 JSON pointer'')) (\<lambda>_.
       the_row (fold (\<lambda>part acc. case acc of None \<Rightarrow> None | Some x \<Rightarrow> pointer_step part x) (split_on (CHR ''/'') (tl pointer)) (Some v))
         (EvidenceError ''Evidence pointer does not exist'')))"

record evidence_page =
  pg_offset :: int
  pg_next_offset :: "int option"
  pg_total :: int
  pg_text :: string

definition make_page :: "string \<Rightarrow> int \<Rightarrow> int \<Rightarrow> evidence_page" where
  "make_page s offset limit =
    (let from = max 0 offset; width = max 1 (min limit 8000); stop = min (int (length s)) (from + width) in
     \<lparr>pg_offset = from, pg_next_offset = (if stop < int (length s) then Some stop else None), pg_total = int (length s),
      pg_text = take (nat (stop - from)) (drop (nat from) s)\<rparr>)"

text \<open>The observation of a turn with a single tool block.\<close>

definition tool_block :: "json list \<Rightarrow> json_obj option" where
  "tool_block blocks = (case blocks of
     [JObj b] \<Rightarrow> if json_get ''type'' b = Some (JStr ''tool_observation'') then Some b else None | _ \<Rightarrow> None)"

definition evidence_value ::
  "'y work_lib_scheme \<Rightarrow> turn_row \<Rightarrow> 'x work_db_scheme \<Rightarrow> work_error + json" where
  "evidence_value L row db = (case tool_block (tu_blocks row) of
      None \<Rightarrow> Inr (JList (tu_blocks row))
    | Some b \<Rightarrow>
        (case json_get ''evidence_payload'' (obj_at ''detail'' b) of
           Some (JObj ref) \<Rightarrow>
             ebind (artifact_bytes L (case json_get ''artifact_id'' ref of Some v \<Rightarrow> py_str v | None \<Rightarrow> []) db) (\<lambda>data.
             the_row (json_loads L data) (EvidenceError ''JSONDecodeError''))
         | _ \<Rightarrow> Inr (JObj (obj_at ''detail'' b))))"

definition read_evidence ::
  "'y work_lib_scheme \<Rightarrow> string \<Rightarrow> string \<Rightarrow> int \<Rightarrow> int \<Rightarrow> string option \<Rightarrow> 'x work_db_scheme \<Rightarrow> work_error + evidence_page" where
  "read_evidence L evidence_id pointer offset limit artifact_id db =
    ebind (the_row (parse_uuid L evidence_id) (EvidenceError ''badly formed hexadecimal UUID string'')) (\<lambda>i.
    ebind (the_row (tget tu_id i (md_turns db)) (EvidenceError ''Canonical evidence not found'')) (\<lambda>row.
    ebind (evidence_value L row db) (\<lambda>value.
    ebind (case artifact_id of None \<Rightarrow> Inr value
       | Some a \<Rightarrow>
           ebind (require (mentions a value) (EvidenceError ''Artifact is not referenced by this evidence'')) (\<lambda>_.
           ebind (artifact_bytes L a db) (\<lambda>data.
           ebind (the_row (utf8_decode L data) (EvidenceError ''Binary evidence requires native resource acquisition'')) (\<lambda>s.
           Inr (JStr s))))) (\<lambda>selected.
    ebind (follow_pointer pointer selected) (\<lambda>v.
    Inr (make_page (case v of JStr s \<Rightarrow> s | _ \<Rightarrow> dumps_plain v) offset limit))))))"

text \<open>\<^verbatim>\<open>text[offset:end]\<close> with the reading of a negative offset from the end.\<close>

definition py_slice :: "string \<Rightarrow> int \<Rightarrow> int \<Rightarrow> string" where
  "py_slice s a b = (let from = (if a < 0 then max 0 (a + int (length s)) else a) in
     take (nat (b - from)) (drop (nat from) s))"

definition task_read ::
  "string \<Rightarrow> int \<Rightarrow> int \<Rightarrow> int \<Rightarrow> 'x work_db_scheme \<Rightarrow> work_error + (string \<times> int option)" where
  "task_read task_id expected_revision offset limit db =
    (case filter (\<lambda>t. json_get ''task_id'' (tr_active_task_state t) = Some (JStr task_id)) (md_transcripts db) of
       [] \<Rightarrow> Inl (EvidenceError ''Task checkpoint not found'')
     | [row] \<Rightarrow>
         ebind (require (tr_active_task_revision row = expected_revision)
           (EvidenceError (''Task checkpoint changed; restart paging at revision '' @ show_int (tr_active_task_revision row)))) (\<lambda>_.
         let s = dumps_plain (JObj (tr_active_task_state row));
             stop = min (int (length s)) (max 0 offset + max 1 (min limit 8000)) in
         Inr (py_slice s offset stop, if stop < int (length s) then Some stop else None))
     | _ \<Rightarrow> Inl (Ledger MultipleResultsFound))"

end
