(* ===== verification/Recovery.thy ===== *)
theory Recovery
  imports Evidence
begin

text \<open>
  Interruption and recovery of inference runs (\<^verbatim>\<open>runtime/recovery.py\<close>). An interrupted run loses its
  inference, every effect it had dispatched becomes uncertain in the ledger, and the interruption is
  recorded as evidence, as a run event and, outside managed tasks, as a notice for the owner. Each
  definition is one transaction unless it says otherwise.
\<close>

text \<open>\<^verbatim>\<open>_managed_task_status\<close>: \<open>None\<close> for a conversation that is not a managed task.\<close>

definition managed_task_status :: "uuid option \<Rightarrow> 'x work_db_scheme \<Rightarrow> string option" where
  "managed_task_status transcript_id db = (case transcript_id of None \<Rightarrow> None
     | Some t \<Rightarrow> (case get_transcript t db of None \<Rightarrow> None
       | Some row \<Rightarrow> if is_managed (tr_active_task_state row)
           then Some (json_or ''status'' (tr_active_task_state row) ''active'') else None))"

definition interruption_observation :: "uuid \<Rightarrow> string \<Rightarrow> string option \<Rightarrow> observation" where
  "interruption_observation run_id reason managed =
    \<lparr>ob_operation = ''runtime.inference'', ob_phase = ''interrupted'',
     ob_detail = [(''run_id'', JStr run_id), (''reason'', JStr reason), (''managed_task'', JBool (managed \<noteq> None)),
       (''recovery'', JStr (case managed of Some s \<Rightarrow> if s = ''active'' then ''automatic'' else ''none'' | None \<Rightarrow> ''owner_turn''))],
     ob_run = Some run_id, ob_action = None, ob_arguments = [], ob_checkpoint = False, ob_trust = ''internal''\<rparr>"

text \<open>One dispatched effect of the run: it becomes uncertain unless another writer closed it.\<close>

definition uncertain_row :: "time \<Rightarrow> action_row \<Rightarrow> action_row" where
  "uncertain_row now a = a\<lparr>ac_status := AUNCERTAIN, ac_updated_at := now\<rparr>"

definition interrupt_action ::
  "'y work_lib_scheme \<Rightarrow> time \<Rightarrow> string \<Rightarrow> run_row \<Rightarrow> action_row \<Rightarrow> 'x work_db_scheme \<Rightarrow> work_error + 'x work_db_scheme" where
  "interrupt_action L now reason run a db =
    (case cas_action (ac_id a) EXECUTING (uncertain_row now) (ledger db) of
       None \<Rightarrow> Inr db
     | Some l1 \<Rightarrow> (case fresh_id L db of (att_id, db1) \<Rightarrow>
         ebind (in_ledger (mark_uncertain (lib.truncate L) att_id (uncertain_row now a) (Some reason) l1)) (\<lambda>l2.
         let db2 = put_ledger l2 db1 in
         case rn_transcript_id run of None \<Rightarrow> Inr db2
         | Some t \<Rightarrow> ebind (record_observation L now t
              \<lparr>ob_operation = ac_operation a, ob_phase = ''uncertain'',
               ob_detail = [(''status'', JStr ''uncertain''), (''reason'', JStr reason)], ob_run = Some (rn_id run),
               ob_action = Some (ac_id a), ob_arguments = [], ob_checkpoint = (rn_kind run = FOREGROUND), ob_trust = ''internal''\<rparr> db2)
             (\<lambda>(_, db3). Inr db3))))"

definition interrupted_attention :: "uuid \<Rightarrow> uuid \<Rightarrow> string \<Rightarrow> attention_row" where
  "interrupted_attention att_id run_id reason =
    \<lparr>at_id = att_id, at_run_id = Some run_id, at_action_id = None, at_state = ''interrupted'',
     at_title = ''Atlas work was interrupted'',
     at_detail = [(''message'', JStr reason),
       (''resume'', JStr ''Continue with a new owner message; exact prior evidence and task state are retained.'')],
     at_resolved = False, at_resolved_at = None\<rparr>"

definition notify_interruption ::
  "'y work_lib_scheme \<Rightarrow> uuid \<Rightarrow> string \<Rightarrow> 'x work_db_scheme \<Rightarrow> work_error + 'x work_db_scheme" where
  "notify_interruption L run_id reason db =
    ebind (in_ledger (scalar_one_or_none (filter (\<lambda>t. at_run_id t = Some run_id \<and> at_action_id t = None
        \<and> at_state t = ''interrupted'' \<and> \<not> at_resolved t) (wd_attention db)))) (\<lambda>existing.
    case existing of Some _ \<Rightarrow> Inr db
    | None \<Rightarrow> (case fresh_id L db of (att_id, db1) \<Rightarrow>
        on_ledger (insert_attention (interrupted_attention att_id run_id reason)) db1))"

definition stop_inference :: "uuid \<Rightarrow> 'x work_db_scheme \<Rightarrow> 'x work_db_scheme" where
  "stop_inference run_id db = db\<lparr>wd_runs := tset rn_id run_id
     (\<lambda>r. r\<lparr>rn_inference_active := False, rn_inference_status := ''interrupted''\<rparr>) (wd_runs db)\<rparr>"

definition interrupt_run ::
  "'y work_lib_scheme \<Rightarrow> time \<Rightarrow> uuid \<Rightarrow> string \<Rightarrow> 'x work_db_scheme \<Rightarrow> work_error + 'x work_db_scheme" where
  "interrupt_run L now run_id reason db =
    (case tget rn_id run_id (wd_runs db) of
       None \<Rightarrow> Inr db
     | Some run \<Rightarrow>
         if rn_inference_status run \<notin> {''running'', ''queued''} then Inr db
         else
           (let managed = managed_task_status (rn_transcript_id run) db; db1 = stop_inference run_id db in
            ebind (efold (interrupt_action L now reason run)
              (filter (\<lambda>a. ac_run_id a = run_id \<and> ac_status a = EXECUTING) (wd_actions db1)) db1) (\<lambda>db2.
            let db3 = put_ledger (recompute_run now run_id (ledger db2)) db2 in
            ebind (case rn_transcript_id run of None \<Rightarrow> Inr db3
              | Some t \<Rightarrow> ebind (record_observation L now t (interruption_observation run_id reason managed) db3) (\<lambda>(_, x). Inr x)) (\<lambda>db4.
            ebind (if managed \<noteq> None then Inr db4 else notify_interruption L run_id reason db4) (\<lambda>db5.
            append_run_event run_id ''interrupted''
              ((''message'', JStr reason) # (case managed of None \<Rightarrow> [] | Some s \<Rightarrow> [(''managed_task'', JBool True),
                 (''recovery'', JStr (if s = ''active'' then ''automatic'' else ''none''))])) db5)))))"

text \<open>
  The poll over runs without a heartbeat. Every run is given up in two transactions; an exception
  ends the poll and keeps what was committed.
\<close>

definition abandoned :: "time \<Rightarrow> run_row \<Rightarrow> bool" where
  "abandoned cutoff r = (rn_inference_status r = ''running''
     \<and> (case rn_heartbeat_at r of None \<Rightarrow> True | Some h \<Rightarrow> h < cutoff))"

definition abandoned_reason :: string where
  "abandoned_reason = ''Inference stopped before a durable completion. Task state and effect evidence were retained.''"

fun recover_loop ::
  "'y work_lib_scheme \<Rightarrow> time \<Rightarrow> time \<Rightarrow> uuid list \<Rightarrow> 'x work_db_scheme \<Rightarrow> (work_error + nat) \<times> 'x work_db_scheme" where
  "recover_loop L now cutoff [] db = (Inr 0, db)"
| "recover_loop L now cutoff (i # is) db =
    (case tget rn_id i (wd_runs db) of
       None \<Rightarrow> recover_loop L now cutoff is db
     | Some r \<Rightarrow>
         if \<not> abandoned cutoff r then recover_loop L now cutoff is db
         else
           (let db1 = db\<lparr>wd_runs := tset rn_id i (\<lambda>x. x\<lparr>rn_inference_active := False\<rparr>) (wd_runs db)\<rparr> in
            case interrupt_run L now i abandoned_reason db1 of
              Inl e \<Rightarrow> (Inl e, db1)
            | Inr db2 \<Rightarrow> (case recover_loop L now cutoff is db2 of (r', db3) \<Rightarrow> (map_sum id Suc r', db3))))"

definition recover_abandoned_runs ::
  "'y work_lib_scheme \<Rightarrow> time \<Rightarrow> int \<Rightarrow> 'x work_db_scheme \<Rightarrow> (work_error + nat) \<times> 'x work_db_scheme" where
  "recover_abandoned_runs L now stale_seconds db =
    (let cutoff = now - max 60 stale_seconds * 1000000 in
     recover_loop L now cutoff (map rn_id (filter (abandoned cutoff) (wd_runs db))) db)"

end
