(* ===== verification/Managed_Tasks.thy ===== *)
theory Managed_Tasks
  imports Recovery Mcp_Servers
begin

text \<open>
  Managed tasks: the lifecycle operations of \<^verbatim>\<open>workspace/tasks.py\<close> and the continuation worker of
  \<^verbatim>\<open>runtime/managed_tasks_worker.py\<close>. A managed task is a conversation of kind \<^verbatim>\<open>managed_task\<close> with its
  checkpoint. Each operation is the sequence of its transactions; a transaction that raises leaves
  the tables as they were. \<^verbatim>\<open>fromisoformat\<close> reads a text without offset as UTC. The coding session
  server and the authority resolution of the capability runtime are arguments.
\<close>

definition TASK_KIND :: string where "TASK_KIND = ''managed_task''"

section \<open>Worker settings\<close>

record worker_env =
  we_poll_seconds :: "string option"
  we_max_no_progress :: "string option"
  we_max_transient_failures :: "string option"

definition env_int :: "string option \<Rightarrow> int \<Rightarrow> int \<Rightarrow> int \<Rightarrow> int" where
  "env_int raw dflt low high = (case raw of None \<Rightarrow> max low (min dflt high)
     | Some s \<Rightarrow> (case signed unsigned_int (strip s) of None \<Rightarrow> dflt | Some i \<Rightarrow> max low (min i high)))"

definition poll_seconds :: "worker_env \<Rightarrow> int" where
  "poll_seconds E = env_int (we_poll_seconds E) 15 5 300"

definition max_no_progress :: "worker_env \<Rightarrow> int" where
  "max_no_progress E = env_int (we_max_no_progress E) 3 1 10"

definition max_transient_failures :: "worker_env \<Rightarrow> int" where
  "max_transient_failures E = env_int (we_max_transient_failures E) 48 1 200"

definition transient_retry_delay :: "worker_env \<Rightarrow> int \<Rightarrow> int" where
  "transient_retry_delay E retries = min 900 (max 15 (poll_seconds E) * 2 ^ nat (min (max 0 (retries - 1)) 6))"

text \<open>The exceptions of an iteration, as far as they are told apart.\<close>

datatype iteration_exception =
    APIConnectionError | OperationalError | Interrupted | TimeoutError | ConnectionError
  | APIStatusError int
  | RuntimeErr string
  | OtherError string

definition is_transient_iteration_failure :: "iteration_exception \<Rightarrow> bool" where
  "is_transient_iteration_failure e = (case e of
      APIStatusError status \<Rightarrow> status \<in> {408, 409, 425, 429} \<or> 500 \<le> status
    | RuntimeErr s \<Rightarrow> startswith s ''Provider response did not complete;''
    | OtherError _ \<Rightarrow> False
    | _ \<Rightarrow> True)"

section \<open>Checkpoint access\<close>

definition task_status :: "json_obj \<Rightarrow> json option" where
  "task_status state = json_get ''status'' state"

definition is_active :: "json_obj \<Rightarrow> bool" where
  "is_active state = (task_status state = Some (JStr ''active''))"

definition runtime_of :: "json_obj \<Rightarrow> json_obj" where
  "runtime_of state = obj_at ''runtime'' state"

definition pending_of :: "json_obj \<Rightarrow> json list" where
  "pending_of state = list_at ''pending_actions'' (runtime_of state)"

definition parse_time :: "'y work_lib_scheme \<Rightarrow> json option \<Rightarrow> time option" where
  "parse_time L v = (case v of None \<Rightarrow> None | Some x \<Rightarrow> if truthy x then fromisoformat L (py_str x) else None)"

definition or_empty :: "string \<Rightarrow> json_obj \<Rightarrow> json \<Rightarrow> json" where
  "or_empty k d dflt = (case json_true k d of Some v \<Rightarrow> v | None \<Rightarrow> dflt)"

definition progress_signature :: "json_obj \<Rightarrow> string" where
  "progress_signature state = dumps_gen quote_ascii '','' '':'' True (JObj
    [(''semantic'', or_empty ''semantic'' state (JObj [])),
     (''acceptance_criteria'', or_empty ''acceptance_criteria'' state (JList [])),
     (''checkpoints'', or_empty ''checkpoints'' state (JList [])),
     (''progress'', or_empty ''progress'' state (JObj [])),
     (''pending_actions'', or_empty ''pending_actions'' (runtime_of state) (JList [])),
     (''completion_rejected'', get_or_null ''completion_rejected'' (runtime_of state))])"

definition state_at :: "uuid \<Rightarrow> 'x work_db_scheme \<Rightarrow> json_obj" where
  "state_at t db = (case get_transcript t db of None \<Rightarrow> [] | Some row \<Rightarrow> tr_active_task_state row)"

definition mutate_state ::
  "'y work_lib_scheme \<Rightarrow> uuid \<Rightarrow> (uuid \<Rightarrow> json_obj \<Rightarrow> json_obj) \<Rightarrow> 'x work_db_scheme \<Rightarrow> work_error + 'x work_db_scheme" where
  "mutate_state L t f db = (case fresh_id L db of (i, db1) \<Rightarrow>
     ebind (in_store (mutate_active_task_state i t (f i) None db1)) (\<lambda>(_, db2). Inr db2))"

record controller_change =
  cc_state :: string
  cc_next_wake :: "time option"
  cc_retry :: "int option"
  cc_transient :: "int option"
  cc_run :: "uuid option"
  cc_finished :: bool

definition put_int :: "string \<Rightarrow> int option \<Rightarrow> json_obj \<Rightarrow> json_obj" where
  "put_int k v d = (case v of None \<Rightarrow> d | Some i \<Rightarrow> json_put k (JInt i) d)"

definition control_runtime :: "'y work_lib_scheme \<Rightarrow> time \<Rightarrow> controller_change \<Rightarrow> json_obj \<Rightarrow> json_obj" where
  "control_runtime L now c r =
    (let r1 = json_put ''next_wake_at'' (opt_json (map_option (isoformat L) (cc_next_wake c)))
           (json_put ''controller_state'' (JStr (cc_state c)) r);
         r2 = put_int ''transient_retry_count'' (cc_transient c) (put_int ''retry_count'' (cc_retry c) r1);
         r3 = (case cc_run c of None \<Rightarrow> r2 | Some i \<Rightarrow> json_put ''last_worker_run_id'' (JStr i) r2)
     in if cc_finished c then json_put ''last_worker_finished_at'' (JStr (isoformat L now)) r3 else r3)"

definition set_controller_state ::
  "'y work_lib_scheme \<Rightarrow> time \<Rightarrow> uuid \<Rightarrow> controller_change \<Rightarrow> 'x work_db_scheme \<Rightarrow> work_error + 'x work_db_scheme" where
  "set_controller_state L now t c db = mutate_state L t (\<lambda>_. Task_State.within ''runtime'' (control_runtime L now c)) db"

section \<open>Pending actions\<close>

type_synonym resolver = "(string \<Rightarrow> json_obj \<Rightarrow> authority_mode option) option"

definition proposal_arguments :: "action_row \<Rightarrow> json_obj" where
  "proposal_arguments a = obj_at ''arguments'' (obj_at ''proposal'' (ac_evidence a))"

text \<open>A prepared coding step whose operation the owner has since made automatic is superseded.\<close>

definition superseded :: "resolver \<Rightarrow> action_row \<Rightarrow> bool" where
  "superseded R a = (case R of None \<Rightarrow> False
     | Some resolve \<Rightarrow> ac_status a = PREPARED \<and> startswith (ac_operation a) ''coding.agent.''
         \<and> resolve (ac_operation a) (proposal_arguments a) = Some AUTO)"

definition supersede :: "time \<Rightarrow> action_row \<Rightarrow> 'x work_db_scheme \<Rightarrow> work_error + 'x work_db_scheme" where
  "supersede now a db = ebind (on_ledger (cancel now a) db) (\<lambda>db1.
     Inr (db1\<lparr>wd_actions := tset ac_id (ac_id a) (\<lambda>x. x\<lparr>ac_evidence :=
       json_put ''cancel_reason'' (JStr ''superseded_by_current_auto_authority'') (ac_evidence x)\<rparr>) (wd_actions db1)\<rparr>))"

definition settled_action :: "attention_row list \<Rightarrow> action_row \<Rightarrow> bool" where
  "settled_action attention a =
    (ac_status a \<in> {ASUCCEEDED, AFAILED, ACANCELLED}
     \<or> (ac_status a = AUNCERTAIN \<and> (json_true ''owner_acknowledged_at'' (ac_evidence a) \<noteq> None
         \<or> (\<exists>t \<in> set attention. at_action_id t = Some (ac_id a))
           \<and> (\<forall>t \<in> set attention. at_action_id t = Some (ac_id a) \<longrightarrow> at_resolved t))))"

definition reconcile_action ::
  "resolver \<Rightarrow> time \<Rightarrow> attention_row list \<Rightarrow> action_row \<Rightarrow> string list \<times> 'x work_db_scheme
   \<Rightarrow> work_error + (string list \<times> 'x work_db_scheme)" where
  "reconcile_action R now attention a st = (case st of (resolved, db) \<Rightarrow>
     if superseded R a then ebind (supersede now a db) (\<lambda>db1. Inr (resolved @ [ac_id a], db1))
     else Inr (if settled_action attention a then resolved @ [ac_id a] else resolved, db))"

definition pending_ids :: "'y work_lib_scheme \<Rightarrow> json_obj \<Rightarrow> uuid list" where
  "pending_ids L state = List.map_filter (\<lambda>item. parse_uuid L (item_str ''action_id'' item)) (pending_of state)"

definition reconcile_pending ::
  "'y work_lib_scheme \<Rightarrow> resolver \<Rightarrow> time \<Rightarrow> uuid \<Rightarrow> 'x work_db_scheme \<Rightarrow> work_error + 'x work_db_scheme" where
  "reconcile_pending L R now t db =
    (let ids = pending_ids L (state_at t db) in
     if ids = [] then Inr db
     else ebind (efold (reconcile_action R now (filter (\<lambda>x. at_action_id x \<in> Some ` set ids) (wd_attention db)))
            (filter (\<lambda>a. ac_id a \<in> set ids) (wd_actions db)) ([], db)) (\<lambda>(resolved, db1).
          if resolved = [] then Inr db1
          else mutate_state L t (\<lambda>i s. remove_resolved_pending_actions i s (set resolved)) db1))"

section \<open>Claiming\<close>

definition background_active :: "uuid \<Rightarrow> 'x work_db_scheme \<Rightarrow> bool" where
  "background_active t db = list_ex (\<lambda>r. rn_transcript_id r = Some t \<and> rn_kind r = BACKGROUND \<and> rn_inference_active r) (wd_runs db)"

definition waiting_change :: controller_change where
  "waiting_change = \<lparr>cc_state = ''waiting_for_owner'', cc_next_wake = None, cc_retry = None, cc_transient = None,
     cc_run = None, cc_finished = False\<rparr>"

definition task_intent :: "json_obj \<Rightarrow> string" where
  "task_intent state = (let semantic = obj_at ''semantic'' state in
     case json_true ''next_step'' semantic of Some v \<Rightarrow> py_str v
     | None \<Rightarrow> json_or ''objective'' semantic ''Continue managed task'')"

definition claim_snapshot :: "json_obj \<Rightarrow> int \<Rightarrow> json_obj" where
  "claim_snapshot state revision = [(''task_id'', get_or_null ''task_id'' state), (''project_id'', get_or_null ''project_id'' state),
     (''task_revision'', JInt revision), (''controller'', JStr ''managed_task_worker'')]"

text \<open>The run of a claimed task. The revision in the snapshot is that of the row after the reconciliation.\<close>

definition start_run ::
  "'y work_lib_scheme \<Rightarrow> time \<Rightarrow> uuid \<Rightarrow> 'x work_db_scheme \<Rightarrow> work_error + (uuid \<times> 'x work_db_scheme)" where
  "start_run L now t db =
    (let state = state_at t db; project = json_true ''project_id'' state;
         revision = (case get_transcript t db of None \<Rightarrow> 0 | Some r \<Rightarrow> tr_active_task_revision r) in
     case fresh_id L db of (new_id, db1) \<Rightarrow>
     ebind (on_ledger_ret (create_run now new_id (Some t) (task_intent state) BACKGROUND) db1) (\<lambda>(run_id, db2).
     let db3 = db2\<lparr>wd_runs := tset rn_id run_id (\<lambda>r. r\<lparr>rn_trigger_snapshot := claim_snapshot state revision\<rparr>) (wd_runs db2),
           wd_workspaces := (case project of None \<Rightarrow> wd_workspaces db2
             | Some p \<Rightarrow> (case parse_uuid L (py_str p) of None \<Rightarrow> wd_workspaces db2 | Some w \<Rightarrow> wd_workspaces db2 @ [(run_id, w)]))\<rparr> in
     ebind (set_controller_state L now t \<lparr>cc_state = ''running'', cc_next_wake = None, cc_retry = None, cc_transient = None,
         cc_run = Some run_id, cc_finished = False\<rparr> db3) (\<lambda>db4.
     ebind (append_run_event run_id ''accepted'' [(''transcript_id'', JStr t), (''task_id'', get_or_null ''task_id'' state),
         (''project_id'', get_or_null ''project_id'' state), (''automatic_continuation'', JBool True)] db4) (\<lambda>db5.
     Inr (run_id, db5)))))"

text \<open>What makes a task due: not stalled, its wake time reached, no background run at work.\<close>

definition due_now :: "'y work_lib_scheme \<Rightarrow> time \<Rightarrow> uuid \<Rightarrow> 'x work_db_scheme \<Rightarrow> bool" where
  "due_now L now t db =
    (json_get ''controller_state'' (runtime_of (state_at t db)) \<noteq> Some (JStr ''stalled'')
     \<and> (case parse_time L (json_get ''next_wake_at'' (runtime_of (state_at t db))) of None \<Rightarrow> True | Some w \<Rightarrow> w \<le> now)
     \<and> \<not> background_active t db)"

fun claim_loop ::
  "'y work_lib_scheme \<Rightarrow> resolver \<Rightarrow> time \<Rightarrow> transcript_row list \<Rightarrow> 'x work_db_scheme
   \<Rightarrow> work_error + (uuid \<times> 'x work_db_scheme) option" where
  "claim_loop L R now [] db = Inr None"
| "claim_loop L R now (row # rows) db =
    (let t = tr_id row; state = tr_active_task_state row in
     if \<not> is_managed state \<or> \<not> is_active state then claim_loop L R now rows db
     else ebind (reconcile_pending L R now t db) (\<lambda>db1.
       if pending_of (state_at t db1) \<noteq> []
       then ebind (set_controller_state L now t waiting_change db1) (claim_loop L R now rows)
       else if \<not> due_now L now t db1 then claim_loop L R now rows db1
       else ebind (start_run L now t db1) (\<lambda>(run_id, db2). Inr (Some (run_id, db2)))))"

definition oldest_tasks :: "'x work_db_scheme \<Rightarrow> transcript_row list" where
  "oldest_tasks db = take 20 (sort_key (\<lambda>t. (tr_updated_at t, tr_created_at t)) (filter (\<lambda>t. tr_kind t = TASK_KIND) (md_transcripts db)))"

text \<open>The claim commits with the run it starts; without a claim the session is closed uncommitted.\<close>

definition claim_one ::
  "'y work_lib_scheme \<Rightarrow> resolver \<Rightarrow> time \<Rightarrow> 'x work_db_scheme \<Rightarrow> (work_error + uuid option) \<times> 'x work_db_scheme" where
  "claim_one L R now db = (case claim_loop L R now (oldest_tasks db) db of
      Inl e \<Rightarrow> (Inl e, db)
    | Inr None \<Rightarrow> (Inr None, db)
    | Inr (Some (run_id, db1)) \<Rightarrow> (Inr (Some run_id), db1))"

section \<open>The outcome of an iteration\<close>

definition stalled_open :: "uuid \<Rightarrow> 'x work_db_scheme \<Rightarrow> attention_row list" where
  "stalled_open t db = filter (\<lambda>x. at_state x = ''managed_task_stalled'' \<and> \<not> at_resolved x
     \<and> (\<exists>r \<in> set (wd_runs db). at_run_id x = Some (rn_id r) \<and> rn_transcript_id r = Some t)) (wd_attention db)"

definition stall_message :: string where
  "stall_message = ''Atlas made no durable task progress across the bounded automatic retries.''"

definition stall_attention ::
  "'y work_lib_scheme \<Rightarrow> uuid \<Rightarrow> uuid \<Rightarrow> string \<Rightarrow> 'x work_db_scheme \<Rightarrow> work_error + 'x work_db_scheme" where
  "stall_attention L t run_id message db =
    (if stalled_open t db \<noteq> [] then Inr db
     else (case fresh_id L db of (att_id, db1) \<Rightarrow>
       let state = state_at t db in
       on_ledger (insert_attention \<lparr>at_id = att_id, at_run_id = Some run_id, at_action_id = None, at_state = ''managed_task_stalled'',
         at_title = ''Managed task needs attention: '' @ json_or ''project_title'' state ''Workspace task'',
         at_detail = [(''task_id'', get_or_null ''task_id'' state), (''project_id'', get_or_null ''project_id'' state),
           (''message'', JStr message), (''next_step'', get_or_null ''next_step'' (obj_at ''semantic'' state)),
           (''resume'', JStr ''Resume the task after correcting the blocker; its exact checkpoint and evidence were retained.'')],
         at_resolved = False, at_resolved_at = None\<rparr>) db1))"

record outcome =
  oc_initial_signature :: string
  oc_succeeded :: bool
  oc_failure_kind :: "string option"
  oc_failure_message :: "string option"

definition seconds :: "int \<Rightarrow> time" where
  "seconds n = n * 1000000"

definition exhausted_message :: "int \<Rightarrow> string option \<Rightarrow> string" where
  "exhausted_message n failure = ''Atlas exhausted '' @ show_int n @ '' automatic retries after transient provider/runtime failures. ''
     @ ''This is an execution-availability blocker, not a lack-of-progress decision.''
     @ (case failure of Some (c # cs) \<Rightarrow> '' Last failure: '' @ take 300 (c # cs) | _ \<Rightarrow> [])"

definition finished_change :: "uuid \<Rightarrow> string \<Rightarrow> time option \<Rightarrow> int \<Rightarrow> int \<Rightarrow> controller_change" where
  "finished_change run_id st wake retry transient = \<lparr>cc_state = st, cc_next_wake = wake, cc_retry = Some retry,
     cc_transient = Some transient, cc_run = Some run_id, cc_finished = True\<rparr>"

definition record_transient ::
  "'y work_lib_scheme \<Rightarrow> worker_env \<Rightarrow> time \<Rightarrow> uuid \<Rightarrow> uuid \<Rightarrow> int \<Rightarrow> int \<Rightarrow> string option \<Rightarrow> 'x work_db_scheme
   \<Rightarrow> work_error + 'x work_db_scheme" where
  "record_transient L E now run_id t retries transient failure db =
    (if max_transient_failures E \<le> transient
     then ebind (set_controller_state L now t (finished_change run_id ''stalled'' None retries transient) db)
       (stall_attention L t run_id (exhausted_message transient failure))
     else (let delay = transient_retry_delay E transient in
       ebind (set_controller_state L now t (finished_change run_id ''retrying'' (Some (now + seconds delay)) retries transient) db)
         (append_run_event run_id ''retry_scheduled'' [(''reason'', JStr ''transient_provider_or_runtime_failure''),
            (''attempt'', JInt transient), (''delay_seconds'', JInt delay)])))"

definition record_progress ::
  "'y work_lib_scheme \<Rightarrow> worker_env \<Rightarrow> time \<Rightarrow> uuid \<Rightarrow> uuid \<Rightarrow> bool \<Rightarrow> int \<Rightarrow> 'x work_db_scheme \<Rightarrow> work_error + 'x work_db_scheme" where
  "record_progress L E now run_id t moved retries db =
    (if max_no_progress E \<le> retries
     then ebind (set_controller_state L now t (finished_change run_id ''stalled'' None retries 0) db)
       (stall_attention L t run_id stall_message)
     else (let delay = (if moved then poll_seconds E else min 120 (poll_seconds E * 2 ^ nat (max 0 (retries - 1)))) in
       set_controller_state L now t (finished_change run_id ''ready'' (Some (now + seconds delay)) retries 0) db))"

definition record_iteration_outcome ::
  "'y work_lib_scheme \<Rightarrow> worker_env \<Rightarrow> time \<Rightarrow> uuid \<Rightarrow> outcome \<Rightarrow> 'x work_db_scheme \<Rightarrow> work_error + 'x work_db_scheme" where
  "record_iteration_outcome L E now run_id oc db =
    (case tget rn_id run_id (wd_runs db) of None \<Rightarrow> Inr db
     | Some run \<Rightarrow> (case rn_transcript_id run of None \<Rightarrow> Inr db
     | Some t \<Rightarrow> (case get_transcript t db of None \<Rightarrow> Inr db
     | Some row \<Rightarrow>
         (let state = tr_active_task_state row; runtime = runtime_of state in
          if \<not> is_active state
          then set_controller_state L now t (finished_change run_id (json_or ''status'' state ''complete'') None 0 0) db
          else if pending_of state \<noteq> []
          then set_controller_state L now t (finished_change run_id ''waiting_for_owner'' None 0 0) db
          else (let progressed = (progress_signature state \<noteq> oc_initial_signature oc);
                    retries = int_at ''retry_count'' runtime; transient = int_at ''transient_retry_count'' runtime in
            if \<not> oc_succeeded oc \<and> oc_failure_kind oc = Some ''transient''
            then record_transient L E now run_id t retries (transient + 1) (oc_failure_message oc) db
            else record_progress L E now run_id t (progressed \<and> oc_succeeded oc)
              (if progressed \<and> oc_succeeded oc then 0 else retries + 1) db)))))"

text \<open>
  The end of \<^verbatim>\<open>_execute_one\<close>: an iteration that did not complete is interrupted, then its outcome is
  recorded, each in its own transaction whose exceptions are suppressed.
\<close>

definition end_iteration ::
  "'y work_lib_scheme \<Rightarrow> worker_env \<Rightarrow> time \<Rightarrow> uuid \<Rightarrow> outcome \<Rightarrow> 'x work_db_scheme \<Rightarrow> 'x work_db_scheme" where
  "end_iteration L E now run_id oc db =
    (let db1 = (if oc_succeeded oc then db
       else case interrupt_run L now run_id ''Managed-task inference stopped before a durable completion; automatic recovery will use the retained checkpoint.'' db of
         Inl _ \<Rightarrow> db | Inr x \<Rightarrow> x)
     in case record_iteration_outcome L E now run_id oc db1 of Inl _ \<Rightarrow> db1 | Inr db2 \<Rightarrow> db2)"

section \<open>Lifecycle operations\<close>

fun unique_strings :: "nat \<Rightarrow> string list \<Rightarrow> json list \<Rightarrow> string list" where
  "unique_strings maximum result [] = result"
| "unique_strings maximum result (item # items) =
    (let s = strip (if truthy item then py_str item else []);
         result' = (if s \<noteq> [] \<and> s \<notin> set result then result @ [s] else result)
     in if maximum \<le> length result' then result' else unique_strings maximum result' items)"

definition argument_strings :: "string \<Rightarrow> json_obj \<Rightarrow> nat \<Rightarrow> string list" where
  "argument_strings key args maximum = (case json_get key args of Some (JList xs) \<Rightarrow> unique_strings maximum [] xs | _ \<Rightarrow> [])"

text \<open>\<^verbatim>\<open>str(arguments.get(key) or "").strip()\<close>, and the same with an empty text read as \<^verbatim>\<open>None\<close>.\<close>

definition argument_text :: "string \<Rightarrow> json_obj \<Rightarrow> string" where
  "argument_text key args = strip (json_or key args [])"

definition argument_option :: "string \<Rightarrow> json_obj \<Rightarrow> string option" where
  "argument_option key args = (if argument_text key args = [] then None else Some (argument_text key args))"

definition task_scope :: "json_obj \<Rightarrow> string list" where
  "task_scope args =
    (let scope = argument_strings ''scope'' args 16; line = ''Working directory: '' @ argument_text ''workspace_path'' args in
     if argument_text ''workspace_path'' args \<noteq> [] \<and> line \<notin> set scope then line # scope else scope)"

definition task_title :: "json_obj \<Rightarrow> string" where
  "task_title args = (let title = argument_text ''title'' args; objective = argument_text ''objective'' args in
     if title \<noteq> [] then title else if objective \<noteq> [] then take 160 objective else ''Managed task'')"

definition task_spec :: "json_obj \<Rightarrow> managed_spec" where
  "task_spec args = \<lparr>Task_State.managed_spec.ms_title = task_title args, ms_objective = argument_text ''objective'' args, ms_scope = task_scope args,
     ms_acceptance_criteria = argument_strings ''acceptance_criteria'' args 32,
     ms_checkpoints = argument_strings ''checkpoints'' args 32, ms_source_chat_id = argument_option ''source_chat_id'' args,
     ms_policy_preset = argument_option ''policy_preset'' args, ms_project_id = argument_option ''project_id'' args,
     ms_handoff = argument_text ''handoff'' args, ms_authority_grants = argument_strings ''authority_grants'' args 64\<rparr>"

definition ready_runtime :: "'y work_lib_scheme \<Rightarrow> time \<Rightarrow> json_obj" where
  "ready_runtime L now = [(''controller_state'', JStr ''ready''), (''next_wake_at'', JStr (isoformat L now)), (''retry_count'', JInt 0),
     (''transient_retry_count'', JInt 0), (''last_worker_run_id'', JNull), (''last_worker_finished_at'', JNull)]"

definition create_task ::
  "'y work_lib_scheme \<Rightarrow> time \<Rightarrow> json_obj \<Rightarrow> 'x work_db_scheme \<Rightarrow> work_error + (uuid \<times> 'x work_db_scheme)" where
  "create_task L now args db =
    ebind (require (argument_text ''objective'' args \<noteq> []) (WValueError ''objective is required'')) (\<lambda>_.
    ebind (require (argument_strings ''acceptance_criteria'' args 32 \<noteq> [])
      (WValueError ''acceptance_criteria must contain at least one item'')) (\<lambda>_.
    case fresh_id L db of (t, db1) \<Rightarrow> case fresh_id L db1 of (task_id, db2) \<Rightarrow> case fresh_id L db2 of (project_id, db3) \<Rightarrow>
    ebind (in_store (create_transcript t now TASK_KIND (Some (task_title args)) None db3)) (\<lambda>(_, db4).
    ebind (map_sum WValueError id (new_managed_task_state task_id project_id (task_spec args))) (\<lambda>state.
    let path = argument_text ''workspace_path'' args;
        state1 = Task_State.within ''runtime'' (\<lambda>r. json_merge r (ready_runtime L now))
          (json_put ''workspace_path'' (opt_json (if path = [] then None else Some path)) state) in
    ebind (mutate_state L t (\<lambda>_ _. state1) db4) (\<lambda>db5.
    Inr (t, db5))))))"

definition int_argument :: "string \<Rightarrow> json_obj \<Rightarrow> int \<Rightarrow> work_error + int" where
  "int_argument key args dflt = (case json_true key args of None \<Rightarrow> Inr dflt
     | Some v \<Rightarrow> (case py_int v of Inr i \<Rightarrow> Inr i | Inl e \<Rightarrow> if value_error e then Inl (WValueError key) else Inl WTypeError))"

text \<open>The page of tasks: the rows and the offset of the next page.\<close>

definition list_tasks :: "json_obj \<Rightarrow> 'x work_db_scheme \<Rightarrow> work_error + (transcript_row list \<times> int option)" where
  "list_tasks args db =
    ebind (int_argument ''limit'' args 20) (\<lambda>requested.
    ebind (int_argument ''offset'' args 0) (\<lambda>offset.
    let limit = max 1 (min requested 100);
        terminal = (case json_get ''include_terminal'' args of None \<Rightarrow> True | Some v \<Rightarrow> truthy v);
        status = (case json_get ''status'' args of Some v \<Rightarrow> v | None \<Rightarrow> JStr (if terminal then ''all'' else ''active''));
        wanted = (\<lambda>t. tr_kind t = TASK_KIND \<and>
          (status = JStr ''active'' \<longrightarrow> is_active (tr_active_task_state t)) \<and>
          (status = JStr ''terminal'' \<longrightarrow> task_status (tr_active_task_state t) \<in> {Some (JStr ''complete''), Some (JStr ''cancelled'')}))
    in ebind (require (status \<in> {JStr ''all'', JStr ''active'', JStr ''terminal''} \<and> 0 \<le> offset)
         (WValueError ''Invalid task status filter or offset'')) (\<lambda>_.
       let rows = take (nat (limit + 1)) (drop (nat offset)
             (rev (sort_key (\<lambda>t. (tr_updated_at t, tr_id t)) (filter wanted (md_transcripts db)))))
       in Inr (take (nat limit) rows, if limit < int (length rows) then Some (offset + limit) else None))))"

definition row_for_task :: "'y work_lib_scheme \<Rightarrow> string \<Rightarrow> 'x work_db_scheme \<Rightarrow> work_error + transcript_row" where
  "row_for_task L task_id db =
    ebind (the_row (parse_uuid L task_id) (WValueError ''task_id must be a UUID'')) (\<lambda>i.
    ebind (in_ledger (scalar_one_or_none (filter (\<lambda>t. tr_kind t = TASK_KIND
        \<and> json_get ''task_id'' (tr_active_task_state t) = Some (JStr i)) (md_transcripts db)))) (\<lambda>row.
    the_row row (TaskNotFound (''Managed task not found: '' @ i))))"

definition resolve_stall_attention :: "time \<Rightarrow> uuid \<Rightarrow> 'x work_db_scheme \<Rightarrow> 'x work_db_scheme" where
  "resolve_stall_attention now t db = db\<lparr>wd_attention := map (\<lambda>x. if x \<in> set (stalled_open t db)
     then x\<lparr>at_resolved := True, at_resolved_at := Some now\<rparr> else x) (wd_attention db)\<rparr>"

text \<open>The coding session of a task: its progress names it, or its last successful start, or an action.\<close>

definition started_session :: "json \<Rightarrow> string" where
  "started_session event = (case event of
      JObj e \<Rightarrow> if json_get ''operation'' e = Some (JStr ''coding.agent.start_session'') \<and> json_get ''phase'' e = Some (JStr ''succeeded'')
        then argument_text ''session_id'' (obj_at ''targets'' e) else []
    | _ \<Rightarrow> [])"

definition coding_session_id :: "json_obj \<Rightarrow> string option" where
  "coding_session_id state =
    (let explicit = argument_text ''coding_session_id'' (obj_at ''progress'' state) in
     if explicit \<noteq> [] then Some explicit
     else find (\<lambda>s. s \<noteq> []) (map started_session (rev (list_at ''recent_events'' (runtime_of state)))))"

definition action_session :: "action_row \<Rightarrow> string" where
  "action_session a = argument_text ''session_id'' (case json_get ''arguments'' (ac_evidence a) of
     Some (JObj x) \<Rightarrow> x | _ \<Rightarrow> proposal_arguments a)"

definition coding_session_from_actions :: "uuid \<Rightarrow> 'x work_db_scheme \<Rightarrow> string option" where
  "coding_session_from_actions t db = find (\<lambda>s. s \<noteq> []) (map action_session (take 20 (rev (sort_key ac_updated_at
     (filter (\<lambda>a. ac_operation a = ''coding.agent.start_session''
        \<and> (\<exists>r \<in> set (wd_runs db). rn_id r = ac_run_id a \<and> rn_transcript_id r = Some t)) (wd_actions db))))))"

definition cancelled_runtime :: "'y work_lib_scheme \<Rightarrow> time \<Rightarrow> string \<Rightarrow> json_obj" where
  "cancelled_runtime L now reason = [(''controller_state'', JStr ''cancelled''), (''next_wake_at'', JNull), (''pending_actions'', JList []),
     (''cancelled_at'', JStr (isoformat L now)), (''cancel_reason'', JStr reason)]"

definition cancelled_state :: "'y work_lib_scheme \<Rightarrow> time \<Rightarrow> string \<Rightarrow> json_obj \<Rightarrow> json_obj" where
  "cancelled_state L now reason state =
    Task_State.within ''runtime'' (\<lambda>r. json_merge r (cancelled_runtime L now reason))
      (Task_State.within ''semantic'' (json_put ''next_step'' JNull) (json_put ''status'' (JStr ''cancelled'') state))"

definition write_state ::
  "'y work_lib_scheme \<Rightarrow> transcript_row \<Rightarrow> json_obj \<Rightarrow> 'x work_db_scheme \<Rightarrow> work_error + 'x work_db_scheme" where
  "write_state L row state db = (case fresh_id L db of (i, db1) \<Rightarrow>
     ebind (in_store (update_active_task_state i (tr_id row) state (tr_active_task_revision row) db1)) (\<lambda>(_, db2). Inr db2))"

text \<open>The first transaction of a cancellation: the task is terminal before anything is cleaned up.\<close>

definition mark_cancelled ::
  "'y work_lib_scheme \<Rightarrow> time \<Rightarrow> string \<Rightarrow> string \<Rightarrow> 'x work_db_scheme \<Rightarrow> work_error + (transcript_row \<times> 'x work_db_scheme)" where
  "mark_cancelled L now task_id reason db =
    ebind (row_for_task L task_id db) (\<lambda>row.
    ebind (require (is_active (tr_active_task_state row)) (TaskConflict ''Only active managed tasks can be cancelled'')) (\<lambda>_.
    ebind (write_state L row (cancelled_state L now reason (tr_active_task_state row)) db) (\<lambda>db1.
    Inr (row, resolve_stall_attention now (tr_id row) db1))))"

record cleanup =
  cu_coding_session :: string
  cu_cancelled_actions :: "uuid list"
  cu_interrupted_runs :: "uuid list"
  cu_warnings :: "string list"

text \<open>Each prepared action is cancelled in a transaction of its own; a lost race is a warning.\<close>

definition cleanup_action ::
  "time \<Rightarrow> uuid \<Rightarrow> cleanup \<times> 'x work_db_scheme \<Rightarrow> work_error + (cleanup \<times> 'x work_db_scheme)" where
  "cleanup_action now i st = (case st of (c, db) \<Rightarrow>
     (case tget ac_id i (wd_actions db) of None \<Rightarrow> Inr (c, db)
      | Some a \<Rightarrow> if ac_status a \<noteq> PREPARED then Inr (c, db)
          else (case on_ledger (cancel now a) db of
              Inr db1 \<Rightarrow> Inr (c\<lparr>cu_cancelled_actions := cu_cancelled_actions c @ [i]\<rparr>, db1)
            | Inl (Ledger (ProposalIntegrityError m)) \<Rightarrow> Inr (c\<lparr>cu_warnings := cu_warnings c
                @ [''Prepared action '' @ i @ '' cleanup raced with another decision: '' @ m]\<rparr>, db)
            | Inl e \<Rightarrow> Inl e)))"

definition cleanup_run ::
  "'y work_lib_scheme \<Rightarrow> time \<Rightarrow> string \<Rightarrow> uuid \<Rightarrow> cleanup \<times> 'x work_db_scheme \<Rightarrow> work_error + (cleanup \<times> 'x work_db_scheme)" where
  "cleanup_run L now reason i st = (case st of (c, db) \<Rightarrow>
     (case interrupt_run L now i (''Managed task cancelled: '' @ reason) db of
        Inr db1 \<Rightarrow> Inr (c\<lparr>cu_interrupted_runs := cu_interrupted_runs c @ [i]\<rparr>, db1)
      | Inl WTypeError \<Rightarrow> Inl WTypeError
      | Inl e \<Rightarrow> Inr (c\<lparr>cu_warnings := cu_warnings c @ [''Run '' @ i @ '' cleanup failed'']\<rparr>, db)))"

text \<open>A loop of transactions: an exception ends it and keeps what was committed.\<close>

fun commit_each :: "('a \<Rightarrow> 'c \<times> 'd \<Rightarrow> 'e + ('c \<times> 'd)) \<Rightarrow> 'a list \<Rightarrow> 'c \<times> 'd \<Rightarrow> ('e + 'c) \<times> 'd" where
  "commit_each f [] st = (Inr (fst st), snd st)"
| "commit_each f (x # xs) st = (case f x st of Inl e \<Rightarrow> (Inl e, snd st) | Inr st1 \<Rightarrow> commit_each f xs st1)"

definition cancel_reason :: "json_obj \<Rightarrow> string" where
  "cancel_reason args = take 500 (strip (json_or ''reason'' args ''Cancelled by owner direction''))"

definition cancel_task ::
  "'y work_lib_scheme \<Rightarrow> (string \<Rightarrow> string + string) \<Rightarrow> time \<Rightarrow> json_obj \<Rightarrow> 'x work_db_scheme \<Rightarrow> (work_error + cleanup) \<times> 'x work_db_scheme" where
  "cancel_task L cancel_session now args db =
    (let reason = cancel_reason args in
     case mark_cancelled L now (argument_text ''task_id'' args) reason db of
       Inl e \<Rightarrow> (Inl e, db)
     | Inr (row, db1) \<Rightarrow>
         let t = tr_id row;
             session = (case coding_session_id (tr_active_task_state row) of Some s \<Rightarrow> Some s | None \<Rightarrow> coding_session_from_actions t db);
             of_task = (\<lambda>i. \<exists>r \<in> set (wd_runs db). rn_id r = i \<and> rn_transcript_id r = Some t);
             prepared = map ac_id (filter (\<lambda>a. ac_status a = PREPARED \<and> of_task (ac_run_id a)) (wd_actions db));
             active = map rn_id (filter (\<lambda>r. rn_transcript_id r = Some t \<and> rn_kind r = BACKGROUND \<and> rn_inference_active r) (wd_runs db));
             c0 = \<lparr>cu_coding_session = (if session = None then ''not_present'' else ''pending''), cu_cancelled_actions = [],
               cu_interrupted_runs = [], cu_warnings = []\<rparr>
         in case commit_each (cleanup_action now) prepared (c0, db1) of
              (Inl e, db2) \<Rightarrow> (Inl e, db2)
            | (Inr c1, db2) \<Rightarrow>
                let c2 = (case session of None \<Rightarrow> c1
                  | Some s \<Rightarrow> (case cancel_session s of
                      Inr status \<Rightarrow> c1\<lparr>cu_coding_session := status\<rparr>
                    | Inl m \<Rightarrow> c1\<lparr>cu_coding_session := ''cleanup_failed'',
                        cu_warnings := cu_warnings c1 @ [''Coding session cleanup failed: '' @ m]\<rparr>))
                in commit_each (cleanup_run L now reason) active (c2, db2))"

definition resumed_state :: "'y work_lib_scheme \<Rightarrow> time \<Rightarrow> json_obj \<Rightarrow> json_obj" where
  "resumed_state L now state = Task_State.within ''runtime'' (\<lambda>r. json_merge r [(''controller_state'', JStr ''ready''), (''retry_count'', JInt 0),
     (''transient_retry_count'', JInt 0), (''next_wake_at'', JStr (isoformat L now)),
     (''completion_rejected'', get_or_null ''completion_rejected'' r)]) state"

definition resume_task ::
  "'y work_lib_scheme \<Rightarrow> time \<Rightarrow> json_obj \<Rightarrow> 'x work_db_scheme \<Rightarrow> work_error + (uuid \<times> 'x work_db_scheme)" where
  "resume_task L now args db =
    ebind (row_for_task L (argument_text ''task_id'' args) db) (\<lambda>row.
    let state = tr_active_task_state row in
    ebind (require (is_active state) (TaskConflict ''Only active managed tasks can be resumed'')) (\<lambda>_.
    ebind (require (json_get ''controller_state'' (runtime_of state) = Some (JStr ''stalled''))
      (TaskConflict ''Only stalled managed tasks can be resumed'')) (\<lambda>_.
    ebind (write_state L row (resumed_state L now state) db) (\<lambda>db1.
    Inr (tr_id row, resolve_stall_attention now (tr_id row) db1)))))"

section \<open>The model's change of the checkpoint\<close>

text \<open>
  \<^verbatim>\<open>task_state_handler\<close>: the check that the run is live reads the conversation without a lock; the
  merge then locks and reads it again. Another transaction may commit in between, so the two parts
  are two steps.
\<close>

definition check_live :: "uuid \<Rightarrow> 'x work_db_scheme \<Rightarrow> work_error + run_row" where
  "check_live run_id db = in_ledger (require_live_run run_id (ledger db))"

definition merge_delta ::
  "'y work_lib_scheme \<Rightarrow> uuid \<Rightarrow> string option \<Rightarrow> task_delta \<Rightarrow> 'x work_db_scheme \<Rightarrow> work_error + 'x work_db_scheme" where
  "merge_delta L t expected_task_id d db = (case fresh_id L db of (i, db1) \<Rightarrow>
     ebind (in_store (mutate_active_task_state i t (\<lambda>s. merge_semantic_delta i s d) expected_task_id db1)) (\<lambda>(_, db2). Inr db2))"

end
