(* ===== verification/Managed_Properties.thy ===== *)
theory Managed_Properties
  imports Managed_Tasks
begin

text \<open>
  Properties of the managed tasks: what a claim of the worker guarantees, when the worker never reaches
  an active task, how the retries of an iteration are bounded, that a cancellation stops every new
  effect at once, and the window in which a late checkpoint change of the model undoes it.
\<close>

section \<open>Checkpoint writes\<close>

lemma fresh_frames [simp]:
  "md_transcripts (snd (fresh_id L db)) = md_transcripts db" "wd_runs (snd (fresh_id L db)) = wd_runs db"
  "wd_actions (snd (fresh_id L db)) = wd_actions db" "wd_attention (snd (fresh_id L db)) = wd_attention db"
  by (simp_all add: fresh_id_def)

text \<open>A checkpoint write touches one conversation and nothing else.\<close>

lemma stamped_get [simp]:
  "k \<noteq> ''revision'' \<Longrightarrow> k \<noteq> ''task_id'' \<Longrightarrow> json_get k (stamped_state i s n) = json_get k s"
  "k \<noteq> ''revision'' \<Longrightarrow> k \<noteq> ''task_id'' \<Longrightarrow> obj_at k (stamped_state i s n) = obj_at k s"
  by (simp_all add: stamped_state_def obj_at_def)

definition same_tables :: "'x work_db_scheme \<Rightarrow> 'x work_db_scheme \<Rightarrow> bool" where
  "same_tables db db' = (wd_runs db' = wd_runs db \<and> wd_actions db' = wd_actions db \<and> wd_attention db' = wd_attention db
     \<and> map tr_id (md_transcripts db') = map tr_id (md_transcripts db))"

lemma update_state_Inr:
  assumes "update_active_task_state i t s n db = Inr (s', db')"
  shows "s' = stamped_state i s (n + 1)"
    "get_transcript u db' = (if u = t then map_option (\<lambda>r. if tr_active_task_revision r = n
        then r\<lparr>tr_active_task_state := s', tr_active_task_revision := n + 1\<rparr> else r) (get_transcript t db) else get_transcript u db)"
    "same_tables (db :: 'x work_db_scheme) db'"
proof -
  let ?f = "\<lambda>r. if tr_active_task_revision r = n
    then r\<lparr>tr_active_task_state := stamped_state i s (n + 1), tr_active_task_revision := n + 1\<rparr> else r"
  have eff: "s' = stamped_state i s (n + 1)" "db' = upd_transcript t ?f db"
    using assms by (simp_all add: update_active_task_state_def Let_def)
  then show "s' = stamped_state i s (n + 1)" by simp
  show "get_transcript u db' = (if u = t then map_option (\<lambda>r. if tr_active_task_revision r = n
        then r\<lparr>tr_active_task_state := s', tr_active_task_revision := n + 1\<rparr> else r) (get_transcript t db) else get_transcript u db)"
    unfolding eff get_transcript_def upd_transcript_def by (simp add: tget_tset)
  show "same_tables db db'"
    unfolding eff same_tables_def upd_transcript_def by (simp add: tset_def)
qed

lemma mutate_state_Inr:
  assumes "mutate_state L t f db = Inr db'"
  obtains row i where "get_transcript t db = Some row"
    "u \<noteq> t \<Longrightarrow> get_transcript u db' = get_transcript u db"
    "k \<noteq> ''revision'' \<Longrightarrow> k \<noteq> ''task_id'' \<Longrightarrow> json_get k (state_at t db') = json_get k (f i (tr_active_task_state row))"
    "same_tables db db'"
proof -
  obtain i db1 where fr: "fresh_id L db = (i, db1)" by (cases "fresh_id L db")
  then have db1: "md_transcripts db1 = md_transcripts db" "same_tables db db1"
    by (auto simp: fresh_id_def same_tables_def)
  obtain s' row where m: "mutate_active_task_state i t (f i) None db1 = Inr (s', db')" and row: "get_transcript t db1 = Some row"
    using assms fr by (auto simp: mutate_state_def mutate_active_task_state_def)
  let ?s = "f i (tr_active_task_state row)"
  have row0: "get_transcript t db = Some row" using row db1 by (simp add: get_transcript_def)
  have other: "get_transcript u db1 = get_transcript u db" using db1 by (simp add: get_transcript_def)
  show thesis
  proof (cases "?s = tr_active_task_state row")
    case True
    then have "db' = db1" using m row by (simp add: mutate_active_task_state_def Let_def)
    then show thesis using that [of row i] row0 other db1 row True by (simp add: state_at_def)
  next
    case False
    then have up: "update_active_task_state i t ?s (tr_active_task_revision row) db1 = Inr (s', db')"
      using m row by (simp add: mutate_active_task_state_def Let_def)
    note eff = update_state_Inr [OF up]
    have st: "state_at t db' = stamped_state i ?s (tr_active_task_revision row + 1)"
      using eff(1) eff(2) [of t] row by (simp add: state_at_def)
    have "same_tables db db'" using eff(3) db1 by (simp add: same_tables_def)
    then show thesis using that [of row i] row0 other eff(2) [of u] st by simp
  qed
qed

lemma control_runtime_get:
  "json_get ''controller_state'' (control_runtime L now c r) = Some (JStr (cc_state c))"
  "json_get ''next_wake_at'' (control_runtime L now c r) = Some (opt_json (map_option (isoformat L) (cc_next_wake c)))"
  "list_at ''pending_actions'' (control_runtime L now c r) = list_at ''pending_actions'' r"
  "int_at ''retry_count'' (control_runtime L now c r) = (case cc_retry c of None \<Rightarrow> int_at ''retry_count'' r | Some n \<Rightarrow> n)"
  "int_at ''transient_retry_count'' (control_runtime L now c r)
     = (case cc_transient c of None \<Rightarrow> int_at ''transient_retry_count'' r | Some n \<Rightarrow> n)"
  by (simp_all add: control_runtime_def Let_def put_int_def split: option.splits)

lemma set_controller_state_Inr:
  assumes "set_controller_state L now t c db = Inr db'"
  shows "get_transcript t db \<noteq> None" "same_tables db db'"
    "u \<noteq> t \<Longrightarrow> state_at u db' = state_at u db"
    "runtime_of (state_at t db') = control_runtime L now c (runtime_of (state_at t db))"
    "k \<notin> {''revision'', ''task_id'', ''runtime''} \<Longrightarrow> json_get k (state_at u db') = json_get k (state_at u db)"
proof -
  note m = mutate_state_Inr [OF assms [unfolded set_controller_state_def]]
  obtain row where row: "get_transcript t db = Some row" by (rule m)
  then have s: "tr_active_task_state row = state_at t db" by (simp add: state_at_def)
  show "get_transcript t db \<noteq> None" using row by simp
  show "same_tables db db'" by (rule m)
  show other: "u \<noteq> t \<Longrightarrow> state_at u db' = state_at u db"
    by (rule m [where u = u]) (simp add: state_at_def)
  have here: "json_get k (state_at t db') = json_get k (Task_State.within ''runtime'' (control_runtime L now c) (state_at t db))"
    if "k \<noteq> ''revision''" "k \<noteq> ''task_id''" for k
    by (rule m [where k = k]) (use that row in \<open>simp add: state_at_def\<close>)
  show "runtime_of (state_at t db') = control_runtime L now c (runtime_of (state_at t db))"
    using here [of "''runtime''"] by (simp add: runtime_of_def obj_at_def)
  show "k \<notin> {''revision'', ''task_id'', ''runtime''} \<Longrightarrow> json_get k (state_at u db') = json_get k (state_at u db)"
    using other here [of k] by (cases "u = t") auto
qed

text \<open>Status and mode of every task are kept.\<close>

definition same_status :: "'x work_db_scheme \<Rightarrow> 'x work_db_scheme \<Rightarrow> bool" where
  "same_status db db' = (\<forall>u. json_get ''status'' (state_at u db') = json_get ''status'' (state_at u db)
     \<and> json_get ''mode'' (state_at u db') = json_get ''mode'' (state_at u db))"

lemma same_status_trans: "same_status a b \<Longrightarrow> same_status b c \<Longrightarrow> same_status a c"
  by (simp add: same_status_def)

lemma controller_status: "set_controller_state L now t c db = Inr db' \<Longrightarrow> same_status db db'"
  unfolding same_status_def by (auto simp: set_controller_state_Inr(5))

lemma on_ledger_chats: "on_ledger f db = Inr db' \<Longrightarrow> md_transcripts db' = md_transcripts db"
  by (auto simp: on_ledger_def)

lemma chats_status: "md_transcripts db' = md_transcripts db \<Longrightarrow> same_status db db'"
  by (simp add: same_status_def state_at_def get_transcript_def)

lemma reconcile_actions_chats:
  "efold (reconcile_action R now att) as (rs, db) = Inr (rs', db') \<Longrightarrow> md_transcripts db' = md_transcripts db"
proof (induction as arbitrary: rs db)
  case (Cons a as)
  obtain r1 d1 where s: "reconcile_action R now att a (rs, db) = Inr (r1, d1)"
      and r: "efold (reconcile_action R now att) as (r1, d1) = Inr (rs', db')"
    using Cons.prems by auto
  have "md_transcripts d1 = md_transcripts db"
    using s by (auto simp: reconcile_action_def supersede_def dest: on_ledger_chats split: if_splits)
  with Cons.IH [OF r] show ?case by simp
qed simp

lemma pending_ids_Nil [simp]: "pending_ids L [] = []"
  by (simp add: pending_ids_def pending_of_def runtime_of_def obj_at_def list_at_def)

lemma reconcile_status:
  assumes "reconcile_pending L R now t db = Inr db'"
  shows "same_status db db'"
proof (cases "pending_ids L (state_at t db) = []")
  case True
  then show ?thesis using assms by (simp add: reconcile_pending_def same_status_def)
next
  case False
  define att where "att = filter (\<lambda>x. at_action_id x \<in> Some ` set (pending_ids L (state_at t db))) (wd_attention db)"
  obtain rs db1 where loop: "efold (reconcile_action R now att)
        (filter (\<lambda>a. ac_id a \<in> set (pending_ids L (state_at t db))) (wd_actions db)) ([], db) = Inr (rs, db1)"
      and rest: "(if rs = [] then Inr db1 else mutate_state L t (\<lambda>i s. remove_resolved_pending_actions i s (set rs)) db1) = Inr db'"
    using assms False by (auto simp: reconcile_pending_def Let_def att_def)
  have chats: "md_transcripts db1 = md_transcripts db" by (rule reconcile_actions_chats [OF loop])
  show ?thesis
  proof (cases "rs = []")
    case True
    then show ?thesis using rest chats by (auto intro: chats_status)
  next
    case rs: False
    then have mut: "mutate_state L t (\<lambda>i s. remove_resolved_pending_actions i s (set rs)) db1 = Inr db'" using rest by simp
    note m = mutate_state_Inr [OF mut]
    obtain row where row: "get_transcript t db1 = Some row" by (rule m)
    have state: "tr_active_task_state row = state_at t db"
      using row chats by (simp add: state_at_def get_transcript_def)
    then have ne: "tr_active_task_state row \<noteq> []" using False by auto
    have keep: "json_get k (remove_resolved_pending_actions i (tr_active_task_state row) (set rs)) = json_get k (state_at t db)"
      if "k \<noteq> ''runtime''" for k i
      using ne rs that state by (simp add: remove_resolved_pending_actions_def Let_def)
    have "json_get k (state_at u db') = json_get k (state_at u db)" if "k \<in> {''status'', ''mode''}" for u k
    proof (cases "u = t")
      case True
      show ?thesis by (rule m [where k = k and u = u]) (use True that keep row in \<open>auto simp: state_at_def\<close>)
    next
      case False
      show ?thesis by (rule m [where k = k and u = u]) (use False chats in \<open>auto simp: state_at_def get_transcript_def\<close>)
    qed
    then show ?thesis by (simp add: same_status_def)
  qed
qed

section \<open>Claims\<close>

definition worker_runs :: "uuid \<Rightarrow> 'x work_db_scheme \<Rightarrow> run_row list" where
  "worker_runs t db = filter (\<lambda>r. rn_transcript_id r = Some t \<and> rn_kind r = BACKGROUND \<and> rn_inference_active r) (wd_runs db)"

lemma background_active_iff: "background_active t db \<longleftrightarrow> worker_runs t db \<noteq> []"
  by (auto simp: background_active_def worker_runs_def filter_empty_conv list_ex_iff)

lemma filter_tset: "(\<And>x. P (f x) = P x) \<Longrightarrow> filter P (tset key k f xs) = tset key k f (filter P xs)"
  by (induction xs) auto

lemma append_event_frames:
  "append_run_event i e p db = Inr db' \<Longrightarrow> md_transcripts db' = md_transcripts db \<and> wd_runs db' = wd_runs db
     \<and> wd_actions db' = wd_actions db \<and> wd_attention db' = wd_attention db"
  by (auto simp: append_run_event_def)

lemma create_background:
  assumes "create_run now i (Some t) intent BACKGROUND l = Inr (j, l')"
  shows "j = i" "db_runs l' = db_runs l @ [\<lparr>rn_id = i, rn_kind = BACKGROUND, rn_status = RUNNING, rn_transcript_id = Some t,
      rn_intent = Some intent, rn_finished_at = None, rn_inference_active = True, rn_inference_status = ''running'',
      rn_heartbeat_at = Some now, rn_schedule_id = None, rn_scheduled_for = None, rn_trigger_snapshot = []\<rparr>]"
    "db_actions l' = db_actions l" "db_attention l' = db_attention l"
  using assms by (auto simp: create_run_def Let_def tadd_def split: if_splits option.splits)

text \<open>What a started run leaves behind.\<close>

lemma start_run_Inr:
  assumes "start_run L now t db = Inr (run_id, db')" "worker_runs t db = []"
  shows "\<exists>r. worker_runs t db' = [r] \<and> rn_id r = run_id \<and> rn_inference_status r = ''running''"
    "json_get ''controller_state'' (runtime_of (state_at t db')) = Some (JStr ''running'')"
    "pending_of (state_at t db') = pending_of (state_at t db)" "same_status db db'"
proof -
  obtain new_id db1 where fr: "fresh_id L db = (new_id, db1)" by (cases "fresh_id L db")
  let ?snap = "\<lambda>r. r\<lparr>rn_trigger_snapshot := claim_snapshot (state_at t db)
      (case get_transcript t db of None \<Rightarrow> 0 | Some r \<Rightarrow> tr_active_task_revision r)\<rparr>"
  let ?change = "\<lparr>cc_state = ''running'', cc_next_wake = None, cc_retry = None, cc_transient = None, cc_run = Some run_id, cc_finished = False\<rparr>"
  obtain l ws db4 pl where cr: "create_run now new_id (Some t) (task_intent (state_at t db)) BACKGROUND (ledger db1) = Inr (run_id, l)"
      and st: "set_controller_state L now t ?change ((put_ledger l db1)\<lparr>wd_runs := tset rn_id run_id ?snap (db_runs l), wd_workspaces := ws\<rparr>) = Inr db4"
      and ev: "append_run_event run_id ''accepted'' pl db4 = Inr db'"
    using assms(1) fr unfolding start_run_def by (auto simp: Let_def on_ledger_ret_def)
  define db3 where "db3 = (put_ledger l db1)\<lparr>wd_runs := tset rn_id run_id ?snap (db_runs l), wd_workspaces := ws\<rparr>"
  note st = st [folded db3_def]
  have chats: "md_transcripts db3 = md_transcripts db" using fr by (auto simp: db3_def fresh_id_def)
  then have states: "state_at u db3 = state_at u db" for u by (simp add: state_at_def get_transcript_def)
  note runs = create_background [OF cr]
  note frames = append_event_frames [OF ev]
  have "wd_runs db' = wd_runs db3" using frames set_controller_state_Inr(2) [OF st] by (simp add: same_tables_def)
  then have "worker_runs t db' = worker_runs t db3" by (simp add: worker_runs_def)
  also have "\<dots> = tset rn_id run_id ?snap (filter (\<lambda>r. rn_transcript_id r = Some t \<and> rn_kind r = BACKGROUND \<and> rn_inference_active r) (db_runs l))"
    unfolding worker_runs_def db3_def by (simp add: filter_tset)
  also have "filter (\<lambda>r. rn_transcript_id r = Some t \<and> rn_kind r = BACKGROUND \<and> rn_inference_active r) (db_runs l) = [last (db_runs l)]"
    using runs(2) assms(2) fr by (auto simp: worker_runs_def fresh_id_def)
  finally show "\<exists>r. worker_runs t db' = [r] \<and> rn_id r = run_id \<and> rn_inference_status r = ''running''"
    using runs(1,2) by simp
  have state': "state_at u db' = state_at u db4" for u using frames by (simp add: state_at_def get_transcript_def)
  have rt: "runtime_of (state_at t db') = control_runtime L now ?change (runtime_of (state_at t db))"
    using set_controller_state_Inr(4) [OF st] states state' by simp
  show "json_get ''controller_state'' (runtime_of (state_at t db')) = Some (JStr ''running'')"
    unfolding rt by (simp add: control_runtime_get)
  show "pending_of (state_at t db') = pending_of (state_at t db)"
    unfolding pending_of_def rt by (simp add: control_runtime_get)
  show "same_status db db'"
    using controller_status [OF st] states state' by (simp add: same_status_def)
qed

lemma claim_loop_Some:
  assumes "claim_loop L R now rows db = Inr (Some (run_id, db'))"
  shows "\<exists>row \<in> set rows. is_managed (tr_active_task_state row) \<and> is_active (tr_active_task_state row)
    \<and> (\<exists>r. worker_runs (tr_id row) db' = [r] \<and> rn_id r = run_id \<and> rn_inference_status r = ''running'')
    \<and> pending_of (state_at (tr_id row) db') = []
    \<and> json_get ''controller_state'' (runtime_of (state_at (tr_id row) db')) = Some (JStr ''running'')
    \<and> same_status db db'"
  using assms
proof (induction rows arbitrary: db)
  case (Cons row rows)
  show ?case
  proof (cases "is_managed (tr_active_task_state row) \<and> is_active (tr_active_task_state row)")
    case False
    with Cons show ?thesis by (auto simp: Let_def)
  next
    case True
    then obtain db1 where rec: "reconcile_pending L R now (tr_id row) db = Inr db1"
        and rest: "(if pending_of (state_at (tr_id row) db1) \<noteq> []
          then ebind (set_controller_state L now (tr_id row) waiting_change db1) (claim_loop L R now rows)
          else if \<not> due_now L now (tr_id row) db1 then claim_loop L R now rows db1
          else ebind (start_run L now (tr_id row) db1) (\<lambda>(run_id, db2). Inr (Some (run_id, db2)))) = Inr (Some (run_id, db'))"
      using Cons.prems by (auto simp: Let_def)
    note keep = reconcile_status [OF rec]
    consider (wait) db2 where "set_controller_state L now (tr_id row) waiting_change db1 = Inr db2"
          "claim_loop L R now rows db2 = Inr (Some (run_id, db'))"
      | (idle) "claim_loop L R now rows db1 = Inr (Some (run_id, db'))"
      | (start) "pending_of (state_at (tr_id row) db1) = []" "due_now L now (tr_id row) db1"
          "start_run L now (tr_id row) db1 = Inr (run_id, db')"
      using rest by (auto split: if_splits)
    then show ?thesis
    proof cases
      case wait
      note trans = same_status_trans [OF keep same_status_trans [OF controller_status [OF wait(1)]]]
      from Cons.IH [OF wait(2)] show ?thesis using trans by (meson list.set_intros(2))
    next
      case idle
      from Cons.IH [OF idle] show ?thesis using same_status_trans [OF keep] by (meson list.set_intros(2))
    next
      case start
      have none: "worker_runs (tr_id row) db1 = []" using start(2) by (simp add: due_now_def background_active_iff)
      note eff = start_run_Inr [OF start(3) none]
      show ?thesis
        using True eff start(1) same_status_trans [OF keep eff(4)] by (intro bexI [of _ row]) auto
    qed
  qed
qed simp

text \<open>C21: A claim of the worker goes to one of the twenty tasks that were longest untouched, and only to an active
  managed task: the returned run is then the only background run at work on that task, the task has no
  pending decision and is marked as running, it is still active, and no task's status changed. Without a
  claim the tables are unchanged.\<close>

theorem claim_exclusive:
  assumes "keyed tr_id (md_transcripts db)" "claim_one L R now db = (Inr claimed, db')"
  shows "(case claimed of
      None \<Rightarrow> db' = db
    | Some run_id \<Rightarrow> \<exists>row \<in> set (oldest_tasks db). is_managed (tr_active_task_state row) \<and> is_active (state_at (tr_id row) db')
        \<and> (\<exists>r. worker_runs (tr_id row) db' = [r] \<and> rn_id r = run_id \<and> rn_inference_status r = ''running'')
        \<and> pending_of (state_at (tr_id row) db') = []
        \<and> json_get ''controller_state'' (runtime_of (state_at (tr_id row) db')) = Some (JStr ''running'')
        \<and> same_status db db')"
proof (cases claimed)
  case None
  then show ?thesis using assms(2) by (auto simp: claim_one_def split: sum.splits option.splits)
next
  case (Some run_id)
  then have loop: "claim_loop L R now (oldest_tasks db) db = Inr (Some (run_id, db'))"
    using assms(2) by (auto simp: claim_one_def split: sum.splits option.splits)
  obtain row where row: "row \<in> set (oldest_tasks db)" and act: "is_active (tr_active_task_state row)" and keep: "same_status db db'"
      and rest: "is_managed (tr_active_task_state row)"
      "\<exists>r. worker_runs (tr_id row) db' = [r] \<and> rn_id r = run_id \<and> rn_inference_status r = ''running''"
      "pending_of (state_at (tr_id row) db') = []"
      "json_get ''controller_state'' (runtime_of (state_at (tr_id row) db')) = Some (JStr ''running'')"
    using claim_loop_Some [OF loop] by blast
  have "row \<in> set (md_transcripts db)" using row by (auto simp: oldest_tasks_def dest!: in_set_takeD)
  then have "state_at (tr_id row) db = tr_active_task_state row"
    using keyed_tget [OF assms(1)] by (simp add: state_at_def get_transcript_def)
  then have "is_active (state_at (tr_id row) db')"
    using act keep by (simp add: is_active_def task_status_def same_status_def)
  then show ?thesis using Some row rest keep by auto
qed

text \<open>A small library and a database with one task for the witnesses.\<close>

definition plain_lib :: work_lib where
  "plain_lib = \<lparr>sha256 = (\<lambda>s. s), isoformat = show_int, fromisoformat = (\<lambda>_. None), uuid4 = (\<lambda>n. CHR ''u'' # show_nat n),
     parse_uuid = Some, b64decode = Some, utf8_decode = Some, json_loads = (\<lambda>_. None)\<rparr>"

definition task_row :: "uuid \<Rightarrow> string \<Rightarrow> time \<Rightarrow> transcript_row" where
  "task_row i status updated = \<lparr>tr_id = i, tr_kind = TASK_KIND, tr_retention_policy = ''standard'', tr_title = None, tr_closed_at = None,
     tr_context_summary = None, tr_summarized_through_turn_id = None,
     tr_active_task_state = [(''task_id'', JStr i), (''mode'', JStr ''managed''), (''status'', JStr status), (''runtime'', JObj [])],
     tr_active_task_revision = 1, tr_next_turn_sequence = 0, tr_content_revision = 0, tr_created_at = 0, tr_updated_at = updated\<rparr>"

definition work_of :: "transcript_row list \<Rightarrow> run_row list \<Rightarrow> work_db" where
  "work_of ts rs = \<lparr>md_turns = [], md_transcripts = ts, md_candidates = [], md_evidence = [], md_attempts = [], md_memories = [],
     md_commands = [], md_obligations = [], md_conflicts = [], md_provenance = [], wd_runs = rs, wd_actions = [], wd_attention = [],
     wd_schedules = [], wd_workspaces = [], wd_events = [], wd_artifacts = [], wd_blobs = [], wd_supply = 0\<rparr>"

definition one_task :: work_db where
  "one_task = work_of [task_row ''t'' ''active'' 1] []"

lemma one_task_claim: "fst (claim_one plain_lib None 5 one_task) = Inr (Some ''u0'')"
  by code_simp

theorem claim_exclusive_witness:
  "\<exists>db' r. claim_one plain_lib None 5 one_task = (Inr (Some ''u0''), db') \<and> worker_runs ''t'' db' = [r] \<and> rn_id r = ''u0''"
proof -
  obtain db' where c: "claim_one plain_lib None 5 one_task = (Inr (Some ''u0''), db')"
    using one_task_claim by (cases "claim_one plain_lib None 5 one_task") simp
  have k: "keyed tr_id (md_transcripts one_task)" by code_simp
  have rows: "oldest_tasks one_task = [task_row ''t'' ''active'' 1]"
    by (simp add: oldest_tasks_def one_task_def work_of_def task_row_def)
  from claim_exclusive [OF k c] c rows show ?thesis by (auto simp: task_row_def)
qed

section \<open>Starvation\<close>

lemma take_sort_key_before:
  assumes "x \<in> set (take n (sort_key f xs))"
  shows "length (filter (\<lambda>y. f y < f x) xs) < n"
proof -
  let ?ys = "sort_key f xs"
  obtain i where i: "i < n" "i < length ?ys" "x = ?ys ! i"
    using assms by (auto simp: in_set_conv_nth)
  have "\<not> f y < f x" if y: "y \<in> set (drop i ?ys)" for y
  proof -
    obtain j where "j < length (drop i ?ys)" "y = drop i ?ys ! j"
      using y unfolding in_set_conv_nth by blast
    then have j: "i + j < length ?ys" "y = ?ys ! (i + j)" using i(2) by simp_all
    have "f (?ys ! i) \<le> f (?ys ! (i + j))"
      using sorted_nth_mono [OF sorted_sort_key [of f xs], of i "i + j"] j(1) i(2) by simp
    then show ?thesis using i(3) j(2) by simp
  qed
  then have "filter (\<lambda>y. f y < f x) (drop i ?ys) = []" by (simp add: filter_empty_conv)
  then have "filter (\<lambda>y. f y < f x) ?ys = filter (\<lambda>y. f y < f x) (take i ?ys)"
    by (metis append_Nil2 append_take_drop_id filter_append)
  then have "length (filter (\<lambda>y. f y < f x) ?ys) \<le> i"
    by (metis i(2) length_filter_le length_take min.absorb2 nat_less_le)
  moreover have "length (filter (\<lambda>y. f y < f x) ?ys) = length (filter (\<lambda>y. f y < f x) xs)"
    by (simp add: filter_sort)
  ultimately show ?thesis using i(1) by simp
qed

lemma claim_loop_inactive:
  "\<forall>row \<in> set rows. \<not> is_active (tr_active_task_state row) \<Longrightarrow> claim_loop L R now rows db = Inr None"
  by (induction rows) (simp_all add: Let_def)

text \<open>The order in which the worker looks at the tasks.\<close>

definition older :: "transcript_row \<Rightarrow> transcript_row \<Rightarrow> bool" where
  "older y x = ((tr_updated_at y, tr_created_at y) < (tr_updated_at x, tr_created_at x))"

text \<open>C25: Twenty terminal managed tasks starve every younger one: when each active task is younger than
  at least twenty managed tasks that are not active, the worker never claims anything, whatever the time
  and however long the active tasks have been due. (The query takes the twenty longest untouched tasks
  of any status and only then skips those that are not active.)\<close>

theorem terminal_tasks_starve:
  assumes "\<And>x. x \<in> set (md_transcripts db) \<Longrightarrow> tr_kind x = TASK_KIND \<Longrightarrow> is_active (tr_active_task_state x) \<Longrightarrow>
    20 \<le> length (filter (\<lambda>y. tr_kind y = TASK_KIND \<and> \<not> is_active (tr_active_task_state y) \<and> older y x) (md_transcripts db))"
  shows "claim_one L R now db = (Inr None, db)"
proof -
  let ?tasks = "filter (\<lambda>t. tr_kind t = TASK_KIND) (md_transcripts db)"
  have "\<not> is_active (tr_active_task_state x)" if x: "x \<in> set (oldest_tasks db)" for x
  proof
    assume act: "is_active (tr_active_task_state x)"
    have "x \<in> set ?tasks" using x by (auto simp: oldest_tasks_def dest!: in_set_takeD)
    then have "20 \<le> length (filter (\<lambda>y. tr_kind y = TASK_KIND \<and> \<not> is_active (tr_active_task_state y) \<and> older y x) (md_transcripts db))"
      using assms act by simp
    also have "\<dots> \<le> length (filter (\<lambda>y. older y x) ?tasks)"
    proof -
      have "filter (\<lambda>y. tr_kind y = TASK_KIND \<and> \<not> is_active (tr_active_task_state y) \<and> older y x) (md_transcripts db)
          = filter (\<lambda>y. \<not> is_active (tr_active_task_state y)) (filter (\<lambda>y. older y x) ?tasks)"
        by (auto intro: filter_cong)
      then show ?thesis by (metis length_filter_le)
    qed
    also have "\<dots> < 20"
      using take_sort_key_before [OF x [unfolded oldest_tasks_def]] by (simp add: older_def)
    finally show False by simp
  qed
  then have "claim_loop L R now (oldest_tasks db) db = Inr None" by (intro claim_loop_inactive) blast
  then show ?thesis by (simp add: claim_one_def)
qed

definition crowded :: work_db where
  "crowded = work_of (map (\<lambda>n. task_row (CHR ''c'' # show_nat n) ''complete'' (int n)) [0..<20] @ [task_row ''t'' ''active'' 100]) []"

theorem terminal_tasks_starve_witness:
  "claim_one plain_lib None 1000 crowded = (Inr None, crowded) \<and> is_active (state_at ''t'' crowded)"
proof -
  have "list_all (\<lambda>x. is_active (tr_active_task_state x) \<longrightarrow> 20 \<le> length (filter (\<lambda>y. tr_kind y = TASK_KIND
      \<and> \<not> is_active (tr_active_task_state y) \<and> older y x) (md_transcripts crowded))) (md_transcripts crowded)" by code_simp
  then have "claim_one plain_lib None 1000 crowded = (Inr None, crowded)"
    by (intro terminal_tasks_starve) (auto simp: list_all_iff)
  moreover have "is_active (state_at ''t'' crowded)" by code_simp
  ultimately show ?thesis by blast
qed

section \<open>Retries\<close>

lemma mutate_total:
  assumes "keyed tr_id (md_transcripts db)" "get_transcript t db = Some row"
  shows "\<exists>db'. mutate_state L t f db = Inr db'"
proof -
  have row: "row \<in> set (md_transcripts db)" "tr_id row = t"
    using assms(2) by (auto simp: get_transcript_def dest: tget_key)
  have "filter (\<lambda>x. tr_id x = t \<and> tr_active_task_revision x = tr_active_task_revision row) ts = [row]"
    if "keyed tr_id ts" "row \<in> set ts" for ts
    using that row(2)
  proof (induction ts)
    case (Cons x ts)
    then show ?case by (cases "x = row") (auto simp: keyed_def filter_empty_conv image_iff)
  qed simp
  from this [OF assms(1) row(1)] show ?thesis
    using assms(2)
    by (auto simp: mutate_state_def fresh_id_def mutate_active_task_state_def update_active_task_state_def get_transcript_def Let_def)
qed

lemma controller_total:
  "keyed tr_id (md_transcripts db) \<Longrightarrow> get_transcript t db = Some row \<Longrightarrow> \<exists>db'. set_controller_state L now t c db = Inr db'"
  unfolding set_controller_state_def by (rule mutate_total)

lemma mutate_supply: "mutate_state L t f db = Inr db' \<Longrightarrow> wd_supply db' = Suc (wd_supply db)"
  by (auto simp: mutate_state_def fresh_id_def mutate_active_task_state_def update_active_task_state_def upd_transcript_def Let_def
      split: if_splits)

text \<open>UUIDs that were not handed out yet are unused in the attention table.\<close>

definition fresh_attention :: "'y work_lib_scheme \<Rightarrow> 'x work_db_scheme \<Rightarrow> bool" where
  "fresh_attention L db = (\<forall>n \<ge> wd_supply db. tget at_id (uuid4 L n) (wd_attention db) = None)"

lemma stall_attention_total:
  assumes "fresh_attention L db" "tget rn_id run_id (wd_runs db) = Some run" "rn_transcript_id run = Some t"
  shows "\<exists>db'. stall_attention L t run_id m db = Inr db' \<and> stalled_open t db' \<noteq> [] \<and> md_transcripts db' = md_transcripts db"
proof (cases "stalled_open t db = []")
  case False
  then show ?thesis by (simp add: stall_attention_def)
next
  case True
  have run: "run \<in> set (wd_runs db)" "rn_id run = run_id" using assms(2) by (auto dest: tget_key)
  have "tget at_id (uuid4 L (wd_supply db)) (wd_attention db) = None" using assms(1) by (simp add: fresh_attention_def)
  then show ?thesis
    using True assms(2) run assms(3)
    by (auto simp: stall_attention_def fresh_id_def on_ledger_def insert_attention_def get_run_def Let_def stalled_open_def
        put_ledger_def tadd_def ledger_def)
qed

lemma env_int_bounds: "low \<le> dflt \<Longrightarrow> dflt \<le> high \<Longrightarrow> low \<le> env_int raw dflt low high \<and> env_int raw dflt low high \<le> high"
  by (auto simp: env_int_def split: option.splits)

lemma setting_bounds:
  "5 \<le> poll_seconds E" "1 \<le> max_no_progress E" "max_no_progress E \<le> 10" "1 \<le> max_transient_failures E" "max_transient_failures E \<le> 200"
  using env_int_bounds [of 5 15 300] env_int_bounds [of 1 3 10] env_int_bounds [of 1 48 200]
  by (simp_all add: poll_seconds_def max_no_progress_def max_transient_failures_def)

lemma transient_delay_bounds: "0 < transient_retry_delay E n" "transient_retry_delay E n \<le> 900"
proof -
  have "(0 :: int) < max 15 (poll_seconds E) * 2 ^ k" for k by simp
  then show "0 < transient_retry_delay E n" by (simp add: transient_retry_delay_def)
  show "transient_retry_delay E n \<le> 900" by (simp add: transient_retry_delay_def)
qed

definition transient_failure :: "outcome \<Rightarrow> bool" where
  "transient_failure oc = (\<not> oc_succeeded oc \<and> oc_failure_kind oc = Some ''transient'')"

definition retry_count :: "uuid \<Rightarrow> 'x work_db_scheme \<Rightarrow> int" where
  "retry_count t db = int_at ''retry_count'' (runtime_of (state_at t db))"

definition transient_count :: "uuid \<Rightarrow> 'x work_db_scheme \<Rightarrow> int" where
  "transient_count t db = int_at ''transient_retry_count'' (runtime_of (state_at t db))"

text \<open>What \<open>set_controller_state\<close> with the end of an iteration leaves in the checkpoint.\<close>

lemma finished_Inr:
  assumes "set_controller_state L now t (finished_change run_id st wake r x) db = Inr db'"
  shows "retry_count t db' = r" "transient_count t db' = x"
    "json_get ''controller_state'' (runtime_of (state_at t db')) = Some (JStr st)"
    "json_get ''next_wake_at'' (runtime_of (state_at t db')) = Some (opt_json (map_option (isoformat L) wake))"
    "is_active (state_at t db') = is_active (state_at t db)"
    "wd_runs db' = wd_runs db" "fresh_attention L db \<Longrightarrow> fresh_attention L db'"
proof -
  note eff = set_controller_state_Inr [OF assms]
  show "retry_count t db' = r" "transient_count t db' = x"
    "json_get ''controller_state'' (runtime_of (state_at t db')) = Some (JStr st)"
    "json_get ''next_wake_at'' (runtime_of (state_at t db')) = Some (opt_json (map_option (isoformat L) wake))"
    unfolding retry_count_def transient_count_def eff(4) by (simp_all add: control_runtime_get finished_change_def)
  show "is_active (state_at t db') = is_active (state_at t db)"
    using controller_status [OF assms] by (simp add: is_active_def task_status_def same_status_def)
  show "wd_runs db' = wd_runs db" using eff(2) by (simp add: same_tables_def)
  show "fresh_attention L db'" if "fresh_attention L db"
    using that eff(2) mutate_supply [OF assms [unfolded set_controller_state_def]]
    by (simp add: fresh_attention_def same_tables_def)
qed

text \<open>A task that reached its limit: out of the worker's reach and in front of the owner.\<close>

definition stalled_task :: "'y work_lib_scheme \<Rightarrow> uuid \<Rightarrow> 'x work_db_scheme \<Rightarrow> bool" where
  "stalled_task L t db = (stalled_open t db \<noteq> [] \<and> (\<forall>n. \<not> due_now L n t db))"

lemma stall_task_total:
  assumes k: "keyed tr_id (md_transcripts db)" and row: "get_transcript t db = Some row"
    and run: "tget rn_id run_id (wd_runs db) = Some run" "rn_transcript_id run = Some t" and fr: "fresh_attention L db"
  shows "\<exists>db'. ebind (set_controller_state L now t (finished_change run_id ''stalled'' None r x) db) (stall_attention L t run_id m) = Inr db'
    \<and> retry_count t db' = r \<and> transient_count t db' = x \<and> is_active (state_at t db') = is_active (state_at t db) \<and> stalled_task L t db'"
proof -
  obtain db1 where st: "set_controller_state L now t (finished_change run_id ''stalled'' None r x) db = Inr db1"
    using controller_total [OF k row] by blast
  note eff = finished_Inr [OF st]
  obtain db' where at: "stall_attention L t run_id m db1 = Inr db'" "stalled_open t db' \<noteq> []" "md_transcripts db' = md_transcripts db1"
    using stall_attention_total [OF eff(7) [OF fr], of run_id run t m] run eff(6) by auto
  have same: "state_at t db' = state_at t db1" using at(3) by (simp add: state_at_def get_transcript_def)
  have "\<not> due_now L n t db'" for n using eff(3) same by (simp add: due_now_def)
  then show ?thesis
    using st at same eff by (auto simp: retry_count_def transient_count_def stalled_task_def)
qed

text \<open>A retry: the counters are written and the next wake lies in the future, within \<open>limit\<close> seconds.\<close>

definition wakes_within :: "'y work_lib_scheme \<Rightarrow> time \<Rightarrow> int \<Rightarrow> uuid \<Rightarrow> 'x work_db_scheme \<Rightarrow> bool" where
  "wakes_within L now limit t db = (\<exists>wake. json_get ''next_wake_at'' (runtime_of (state_at t db)) = Some (JStr (isoformat L wake))
     \<and> now < wake \<and> wake \<le> now + seconds limit)"

lemma finished_wakes:
  assumes "set_controller_state L now t (finished_change run_id st (Some (now + seconds d)) r x) db = Inr db'" "0 < d" "d \<le> limit"
  shows "wakes_within L now limit t db'"
  using finished_Inr(4) [OF assms(1)] assms(2,3)
  by (auto simp: wakes_within_def opt_json_def seconds_def intro!: exI [of _ "now + d * 1000000"])

lemma record_transient_total:
  assumes k: "keyed tr_id (md_transcripts db)" and row: "get_transcript t db = Some row"
    and run: "tget rn_id run_id (wd_runs db) = Some run" "rn_transcript_id run = Some t" and fr: "fresh_attention L db"
  shows "\<exists>db'. record_transient L E now run_id t r x m db = Inr db'
    \<and> retry_count t db' = r \<and> transient_count t db' = x \<and> is_active (state_at t db') = is_active (state_at t db)
    \<and> (if max_transient_failures E \<le> x then stalled_task L t db' else wakes_within L now 900 t db')"
proof (cases "max_transient_failures E \<le> x")
  case True
  then show ?thesis
    using stall_task_total [OF k row run fr, of now r x "exhausted_message x m"] by (simp add: record_transient_def)
next
  case False
  let ?d = "transient_retry_delay E x"
  obtain db1 where st: "set_controller_state L now t (finished_change run_id ''retrying'' (Some (now + seconds ?d)) r x) db = Inr db1"
    using controller_total [OF k row] by blast
  note eff = finished_Inr [OF st]
  obtain db' where ev: "append_run_event run_id ''retry_scheduled'' [(''reason'', JStr ''transient_provider_or_runtime_failure''),
            (''attempt'', JInt x), (''delay_seconds'', JInt ?d)] db1 = Inr db'"
    using run(1) eff(6) by (auto simp: append_run_event_def)
  have same: "state_at t db' = state_at t db1"
    using append_event_frames [OF ev] by (simp add: state_at_def get_transcript_def)
  have "wakes_within L now 900 t db1" by (rule finished_wakes [OF st transient_delay_bounds])
  then show ?thesis
    using False st ev eff same
    by (auto simp: record_transient_def Let_def retry_count_def transient_count_def wakes_within_def)
qed

lemma record_progress_total:
  assumes k: "keyed tr_id (md_transcripts db)" and row: "get_transcript t db = Some row"
    and run: "tget rn_id run_id (wd_runs db) = Some run" "rn_transcript_id run = Some t" and fr: "fresh_attention L db"
  shows "\<exists>db'. record_progress L E now run_id t False r db = Inr db'
    \<and> retry_count t db' = r \<and> transient_count t db' = 0 \<and> is_active (state_at t db') = is_active (state_at t db)
    \<and> (if max_no_progress E \<le> r then stalled_task L t db' else wakes_within L now 120 t db')"
proof (cases "max_no_progress E \<le> r")
  case True
  then show ?thesis
    using stall_task_total [OF k row run fr, of now r 0 stall_message] by (simp add: record_progress_def)
next
  case False
  let ?d = "min 120 (poll_seconds E * 2 ^ nat (max 0 (r - 1)))"
  obtain db' where st: "set_controller_state L now t (finished_change run_id ''ready'' (Some (now + seconds ?d)) r 0) db = Inr db'"
    using controller_total [OF k row] by blast
  have "0 < ?d" using setting_bounds(1) [of E] by simp
  then have "wakes_within L now 120 t db'" by (intro finished_wakes [OF st]) simp_all
  then show ?thesis
    using False st finished_Inr [OF st] by (simp add: record_progress_def Let_def)
qed

text \<open>C23: The retries of a managed task are bounded. An iteration of an active task without pending decisions that
  did not both succeed and make progress is always recorded; it raises the counter of its kind by one (a
  transient failure keeps the other counter, anything else resets the transient one). Below the limit (at
  most 10 iterations without progress, at most 200 transient failures) the task wakes up again within 120
  or 900 seconds; at the limit it is stalled: shown to the owner and never due until it is resumed.\<close>

theorem retry_budget:
  assumes "keyed tr_id (md_transcripts db)" "tget rn_id run_id (wd_runs db) = Some run" "rn_transcript_id run = Some t"
    "get_transcript t db = Some row" "is_active (tr_active_task_state row)" "pending_of (tr_active_task_state row) = []"
    "fresh_attention L db" "progress_signature (tr_active_task_state row) = oc_initial_signature oc \<or> \<not> oc_succeeded oc"
  shows "\<exists>db'. record_iteration_outcome L E now run_id oc db = Inr db' \<and> is_active (state_at t db')
    \<and> max_no_progress E \<in> {1..10} \<and> max_transient_failures E \<in> {1..200}
    \<and> (if transient_failure oc
       then retry_count t db' = retry_count t db \<and> transient_count t db' = transient_count t db + 1
         \<and> (if max_transient_failures E \<le> transient_count t db' then stalled_task L t db' else wakes_within L now 900 t db')
       else retry_count t db' = retry_count t db + 1 \<and> transient_count t db' = 0
         \<and> (if max_no_progress E \<le> retry_count t db' then stalled_task L t db' else wakes_within L now 120 t db'))"
proof -
  have st: "state_at t db = tr_active_task_state row" using assms(4) by (simp add: state_at_def)
  have call: "record_iteration_outcome L E now run_id oc db =
    (if transient_failure oc then record_transient L E now run_id t (retry_count t db) (transient_count t db + 1) (oc_failure_message oc) db
     else record_progress L E now run_id t False (retry_count t db + 1) db)"
    using assms(2-6,8) by (auto simp: record_iteration_outcome_def Let_def transient_failure_def retry_count_def transient_count_def st)
  have "max_no_progress E \<in> {1..10}" "max_transient_failures E \<in> {1..200}" using setting_bounds by simp_all
  then show ?thesis
    using record_transient_total [OF assms(1,4,2,3,7), of E now "retry_count t db" "transient_count t db + 1" "oc_failure_message oc"]
      record_progress_total [OF assms(1,4,2,3,7), of E now "retry_count t db + 1"] assms(5) st
    unfolding call by auto
qed

definition worker_run :: run_row where
  "worker_run = \<lparr>rn_id = ''r'', rn_kind = BACKGROUND, rn_status = RUNNING, rn_transcript_id = Some ''t'', rn_intent = None,
     rn_finished_at = None, rn_inference_active = True, rn_inference_status = ''running'', rn_heartbeat_at = None,
     rn_schedule_id = None, rn_scheduled_for = None, rn_trigger_snapshot = []\<rparr>"

definition one_run :: work_db where
  "one_run = work_of [task_row ''t'' ''active'' 1] [worker_run]"

definition default_env :: worker_env where
  "default_env = \<lparr>we_poll_seconds = None, we_max_no_progress = None, we_max_transient_failures = None\<rparr>"

definition failed_outcome :: outcome where
  "failed_outcome = \<lparr>oc_initial_signature = [], oc_succeeded = False, oc_failure_kind = Some ''execution'', oc_failure_message = None\<rparr>"

theorem retry_budget_witness:
  "\<exists>db'. record_iteration_outcome plain_lib default_env 7 ''r'' failed_outcome one_run = Inr db' \<and> retry_count ''t'' db' = 1"
proof -
  have zero: "retry_count ''t'' one_run = 0" by code_simp
  have nt: "\<not> transient_failure failed_outcome" by (simp add: transient_failure_def failed_outcome_def)
  have "\<exists>db'. record_iteration_outcome plain_lib default_env 7 ''r'' failed_outcome one_run = Inr db' \<and> is_active (state_at ''t'' db')
    \<and> max_no_progress default_env \<in> {1..10} \<and> max_transient_failures default_env \<in> {1..200}
    \<and> (if transient_failure failed_outcome
       then retry_count ''t'' db' = retry_count ''t'' one_run \<and> transient_count ''t'' db' = transient_count ''t'' one_run + 1
         \<and> (if max_transient_failures default_env \<le> transient_count ''t'' db' then stalled_task plain_lib ''t'' db'
            else wakes_within plain_lib 7 900 ''t'' db')
       else retry_count ''t'' db' = retry_count ''t'' one_run + 1 \<and> transient_count ''t'' db' = 0
         \<and> (if max_no_progress default_env \<le> retry_count ''t'' db' then stalled_task plain_lib ''t'' db'
            else wakes_within plain_lib 7 120 ''t'' db'))"
  proof (rule retry_budget)
    show "keyed tr_id (md_transcripts one_run)" by code_simp
    show "tget rn_id ''r'' (wd_runs one_run) = Some worker_run" by (simp add: one_run_def work_of_def worker_run_def)
    show "get_transcript ''t'' one_run = Some (task_row ''t'' ''active'' 1)"
      by (simp add: one_run_def work_of_def get_transcript_def task_row_def)
    show "is_active (tr_active_task_state (task_row ''t'' ''active'' 1))" "pending_of (tr_active_task_state (task_row ''t'' ''active'' 1)) = []"
      by code_simp+
    show "fresh_attention plain_lib one_run" by (simp add: fresh_attention_def one_run_def work_of_def)
  qed (simp_all add: worker_run_def failed_outcome_def)
  then show ?thesis using zero nt by auto
qed

section \<open>Cancellation\<close>

lemma cancelled_state_get:
  "json_get ''status'' (cancelled_state L now reason s) = Some (JStr ''cancelled'')"
  "k \<notin> {''status'', ''semantic'', ''runtime''} \<Longrightarrow> json_get k (cancelled_state L now reason s) = json_get k s"
  by (simp_all add: cancelled_state_def)

lemma row_for_task_Inr:
  assumes "row_for_task L task_id db = Inr row"
  shows "row \<in> set (md_transcripts db)" "tr_kind row = TASK_KIND"
    "\<exists>i. parse_uuid L task_id = Some i \<and> json_get ''task_id'' (tr_active_task_state row) = Some (JStr i)"
proof -
  obtain i where i: "parse_uuid L task_id = Some i"
      "filter (\<lambda>t. tr_kind t = TASK_KIND \<and> json_get ''task_id'' (tr_active_task_state t) = Some (JStr i)) (md_transcripts db) = [row]"
    using assms by (auto simp: row_for_task_def scalar_one_or_none_cases)
  then have "row \<in> set (filter (\<lambda>t. tr_kind t = TASK_KIND \<and> json_get ''task_id'' (tr_active_task_state t) = Some (JStr i)) (md_transcripts db))"
    by simp
  with i(1) show "row \<in> set (md_transcripts db)" "tr_kind row = TASK_KIND"
    "\<exists>i. parse_uuid L task_id = Some i \<and> json_get ''task_id'' (tr_active_task_state row) = Some (JStr i)" by auto
qed

lemma resolve_stall_frames [simp]:
  "md_transcripts (resolve_stall_attention now t db) = md_transcripts db" "wd_runs (resolve_stall_attention now t db) = wd_runs db"
  by (simp_all add: resolve_stall_attention_def)

lemma mark_cancelled_Inr:
  assumes "mark_cancelled L now task_id reason db = Inr (row, db')" "keyed tr_id (md_transcripts db)"
  obtains i j where "get_transcript (tr_id row) db = Some row" "is_active (tr_active_task_state row)"
    "get_transcript (tr_id row) db' = Some (row\<lparr>tr_active_task_state := stamped_state j
        (cancelled_state L now reason (tr_active_task_state row)) (tr_active_task_revision row + 1),
        tr_active_task_revision := tr_active_task_revision row + 1\<rparr>)"
    "wd_runs db' = wd_runs db" "keyed tr_id (md_transcripts db')"
    "parse_uuid L task_id = Some i" "json_get ''task_id'' (tr_active_task_state row) = Some (JStr i)"
proof -
  obtain db1 where r: "row_for_task L task_id db = Inr row" and act: "is_active (tr_active_task_state row)"
      and w: "write_state L row (cancelled_state L now reason (tr_active_task_state row)) db = Inr db1"
      and db': "db' = resolve_stall_attention now (tr_id row) db1"
    using assms(1) by (auto simp: mark_cancelled_def)
  obtain j db0 s where fr: "fresh_id L db = (j, db0)"
      and u: "update_active_task_state j (tr_id row) (cancelled_state L now reason (tr_active_task_state row))
        (tr_active_task_revision row) db0 = Inr (s, db1)"
    using w by (cases "fresh_id L db") (auto simp: write_state_def)
  have same0: "md_transcripts db0 = md_transcripts db" "wd_runs db0 = wd_runs db" using fr by (auto simp: fresh_id_def)
  note eff = update_state_Inr [OF u]
  have got: "get_transcript (tr_id row) db = Some row"
    using keyed_tget [OF assms(2) row_for_task_Inr(1) [OF r]] by (simp add: get_transcript_def)
  then have got0: "get_transcript (tr_id row) db0 = Some row" using same0 by (simp add: get_transcript_def)
  obtain i where i: "parse_uuid L task_id = Some i" "json_get ''task_id'' (tr_active_task_state row) = Some (JStr i)"
    using row_for_task_Inr(3) [OF r] by blast
  show thesis
  proof (rule that [OF got act _ _ _ i])
    show "get_transcript (tr_id row) db' = Some (row\<lparr>tr_active_task_state := stamped_state j
        (cancelled_state L now reason (tr_active_task_state row)) (tr_active_task_revision row + 1),
        tr_active_task_revision := tr_active_task_revision row + 1\<rparr>)"
      using eff(2) [of "tr_id row"] eff(1) got0 db' by (simp add: get_transcript_def)
    show "wd_runs db' = wd_runs db" "keyed tr_id (md_transcripts db')"
      using eff(3) same0 db' assms(2) by (simp_all add: same_tables_def keyed_def)
  qed
qed

text \<open>The guard of the ledger reads the checkpoint of the conversation.\<close>

lemma managed_guard:
  assumes "get_transcript t db = Some row" "rn_transcript_id r = Some t" "is_managed (tr_active_task_state row)"
  shows "require_managed_task_active (Some r) (ledger db) = (if is_active (tr_active_task_state row) then Inr ()
      else Inl (ProposalIntegrityError ''Managed task is no longer active; no new effects may be proposed or dispatched''))"
  using assms
  by (simp add: require_managed_task_active_def tget_chat_view get_transcript_def chat_view_def is_managed_def is_active_def task_status_def)

definition not_active_error :: auth_error where
  "not_active_error = ProposalIntegrityError ''Managed task is no longer active; no new effects may be proposed or dispatched''"


lemma one_run_cancel: "\<exists>row db'. mark_cancelled plain_lib 9 ''t'' [] one_run = Inr (row, db') \<and> tr_id row = ''t'' \<and> is_managed (tr_active_task_state row)"
proof -
  have "(case mark_cancelled plain_lib 9 ''t'' [] one_run of Inr (row, _) \<Rightarrow> tr_id row = ''t'' \<and> is_managed (tr_active_task_state row) | _ \<Rightarrow> False)"
    by code_simp
  then show ?thesis by (auto split: sum.splits)
qed

lemma one_run_facts:
  "keyed tr_id (md_transcripts one_run)" "tget rn_id ''r'' (wd_runs one_run) = Some worker_run" "rn_transcript_id worker_run = Some ''t''"
  by (simp_all add: one_run_def work_of_def worker_run_def keyed_def)


lemma progress_mode: "json_get ''mode'' (merge_progress d s) = json_get ''mode'' s"
proof -
  have "json_get ''mode'' (merge_checkpoints d s) = json_get ''mode'' s" for s
    by (auto simp: merge_checkpoints_def Let_def split: option.splits json.splits)
  moreover have "json_get ''mode'' (apply_acceptance_updates s us) = json_get ''mode'' s" for s us
    by (auto simp: apply_acceptance_updates_def split: option.splits json.splits)
  ultimately show ?thesis by (simp add: merge_progress_def Let_def split: option.splits)
qed

text \<open>C24: A late change of the checkpoint undoes a cancellation. The handler checks that the run is live, and only then
  locks and re-reads the checkpoint to merge the model's delta; if the cancellation commits in between and
  the delta says \<^verbatim>\<open>active\<close>, the merge succeeds and makes the cancelled task active again, and the ledger
  again accepts effects for its runs.\<close>

theorem late_delta_revives:
  assumes "keyed tr_id (md_transcripts db)" "check_live run_id db = Inr run" "rn_transcript_id run = Some (tr_id row)"
    "mark_cancelled L now task_id reason db = Inr (row, db1)" "is_managed (tr_active_task_state row)" "td_status d = Some DActive"
    "parse_uuid L task_id = Some tid"
  shows "\<exists>db2. merge_delta L (tr_id row) (Some tid) d db1 = Inr db2 \<and> is_active (state_at (tr_id row) db2)
    \<and> require_managed_task_active (Some run) (ledger db2) = Inr ()"
proof -
  let ?t = "tr_id row"
  obtain i j where row': "get_transcript ?t db1 = Some (row\<lparr>tr_active_task_state := stamped_state j
        (cancelled_state L now reason (tr_active_task_state row)) (tr_active_task_revision row + 1),
        tr_active_task_revision := tr_active_task_revision row + 1\<rparr>)" (is "_ = Some ?row'")
      and k: "keyed tr_id (md_transcripts db1)" and i: "parse_uuid L task_id = Some i" "json_get ''task_id'' (tr_active_task_state row) = Some (JStr i)"
    by (rule mark_cancelled_Inr [OF assms(4,1)])
  let ?s = "tr_active_task_state ?row'"
  obtain f db0 where fr: "fresh_id L db1 = (f, db0)" by (cases "fresh_id L db1")
  have same0: "md_transcripts db0 = md_transcripts db1" using fr by (auto simp: fresh_id_def)
  have tid: "json_get ''task_id'' ?s = Some (JStr tid)"
    using i assms(7) by (simp add: stamped_state_def cancelled_state_get)
  have status: "json_get ''status'' ?s = Some (JStr ''cancelled'')" by (simp add: cancelled_state_get)
  have ne: "?s \<noteq> []" using status by (metis json_get_Nil option.distinct(1))
  have mode: "json_get ''mode'' ?s = Some (JStr ''managed'')" using assms(5) by (simp add: is_managed_def cancelled_state_get)
  have merged: "json_get ''status'' (merge_semantic_delta f ?s d) = Some (JStr ''active'')"
    using assms(6) by (simp add: merge_semantic_delta_def merge_status_def Let_def)
  have mode': "json_get ''mode'' (merge_semantic_delta f ?s d) = Some (JStr ''managed'')"
    using assms(6) ne mode by (simp add: merge_semantic_delta_def merge_status_def Let_def is_managed_def progress_mode)
  have got0: "get_transcript ?t db0 = Some ?row'" using row' same0 by (simp add: get_transcript_def)
  have changed: "merge_semantic_delta f ?s d \<noteq> ?s" using merged status by auto
  obtain db2' where "mutate_state L ?t (\<lambda>x s. merge_semantic_delta x s d) db1 = Inr db2'"
    using mutate_total [OF k row'] by blast
  then obtain s2 where up: "update_active_task_state f ?t (merge_semantic_delta f ?s d) (tr_active_task_revision ?row') db0 = Inr (s2, db2')"
    using fr got0 changed by (auto simp: mutate_state_def mutate_active_task_state_def Let_def)
  have call: "merge_delta L ?t (Some tid) d db1 = Inr db2'"
    using fr got0 changed up tid by (simp add: merge_delta_def mutate_active_task_state_def Let_def)
  note eff = update_state_Inr [OF up]
  have got2: "get_transcript ?t db2' = Some (?row'\<lparr>tr_active_task_state := s2, tr_active_task_revision := tr_active_task_revision ?row' + 1\<rparr>)"
    using eff(2) [of ?t] got0 by simp
  have "is_active s2" "is_managed s2" using merged mode' unfolding eff(1) is_active_def task_status_def is_managed_def by simp_all
  then show ?thesis
    using call got2 managed_guard [OF got2, of run] assms(3) by (simp add: state_at_def)
qed

definition active_delta :: task_delta where
  "active_delta = \<lparr>td_objective = None, td_constraints = None, td_decisions = None, td_findings = None, td_open_questions = None,
     td_next_step = None, td_progress = None, td_current_checkpoint = None, td_completed_checkpoints = None,
     td_acceptance_updates = None, td_coding_session_id = None, td_status = Some DActive, td_replace = False\<rparr>"

theorem late_delta_revives_witness:
  "\<exists>row db1 db2. check_live ''r'' one_run = Inr worker_run \<and> mark_cancelled plain_lib 9 ''t'' [] one_run = Inr (row, db1)
     \<and> merge_delta plain_lib ''t'' (Some ''t'') active_delta db1 = Inr db2 \<and> is_active (state_at ''t'' db2)"
proof -
  obtain row db1 where c: "mark_cancelled plain_lib 9 ''t'' [] one_run = Inr (row, db1)" "tr_id row = ''t''" "is_managed (tr_active_task_state row)"
    using one_run_cancel by blast
  have live: "check_live ''r'' one_run = Inr worker_run" by code_simp
  have tr: "rn_transcript_id worker_run = Some (tr_id row)" using c(2) one_run_facts(3) by simp
  have "td_status active_delta = Some DActive" "parse_uuid plain_lib ''t'' = Some ''t''"
    by (simp_all add: active_delta_def plain_lib_def)
  from late_delta_revives [OF one_run_facts(1) live tr c(1,3) this] c live show ?thesis by auto
qed

end
