(* ===== verification/Capabilities.thy ===== *)
theory Capabilities
  imports Evidence Mcp_Servers
begin

text \<open>
  The capability runtime (\<^verbatim>\<open>capabilities/service.py\<close>): which operations exist, what authority the owner
  gives them now, whether arguments are valid, and the call of an operation. The owner's settings are read
  again at every step and may have changed or be unreadable, so each step takes its own reading. The
  executors and argument resolvers are outside code; the JSON schema validator is an argument.
\<close>

section \<open>The registered operations\<close>

datatype execution = Returned json | CapabilityFailure string string json_obj | Raised string

type_synonym executor = "json_obj \<Rightarrow> execution"

type_synonym argument_resolver = "json_obj \<Rightarrow> string + authority_mode"

record capability_runtime =
  cr_operations :: "(string \<times> operation_descriptor) list"
  cr_executors :: "(string \<times> executor) list"
  cr_resolvers :: "(string \<times> argument_resolver) list"
  cr_policy_reader :: bool
  cr_authority_reader :: bool

text \<open>One reading of the owner's settings; \<open>Inl\<close> is the message of the exception it raised.\<close>

record control_reading =
  cl_enabled :: "string + string list"
  cl_authority :: "string + json_obj"

datatype runtime_error =
    KeyErr string
  | PreflightErr string
  | Unreadable string
  | Unresolved string
  | SchemaErr
  | TypeErr
  | Session work_error

fun error_text :: "runtime_error \<Rightarrow> string" where
  "error_text (KeyErr k) = repr_str k"
| "error_text (PreflightErr m) = m"
| "error_text (Unreadable m) = m"
| "error_text (Unresolved m) = m"
| "error_text SchemaErr = ''SchemaError''"
| "error_text TypeErr = ''TypeError''"
| "error_text (Session _) = ''DatabaseError''"

definition NON_DELEGABLE_MANAGED_OPERATIONS :: "string list" where
  "NON_DELEGABLE_MANAGED_OPERATIONS = [''workspace.tasks.create'', ''workspace.tasks.cancel'', ''workspace.tasks.resume'']"

text \<open>A dictionary entry is replaced in place or added at the end.\<close>

definition dict_put :: "string \<Rightarrow> 'a \<Rightarrow> (string \<times> 'a) list \<Rightarrow> (string \<times> 'a) list" where
  "dict_put k v d = (if k \<in> fst ` set d then map (\<lambda>(x, y). if x = k then (x, v) else (x, y)) d else d @ [(k, v)])"

definition set_resolver :: "string \<Rightarrow> argument_resolver option \<Rightarrow> capability_runtime \<Rightarrow> capability_runtime" where
  "set_resolver i r rt = rt\<lparr>cr_resolvers := (case r of
     None \<Rightarrow> filter (\<lambda>(k, _). k \<noteq> i) (cr_resolvers rt) | Some f \<Rightarrow> dict_put i f (cr_resolvers rt))\<rparr>"

definition register :: "operation_descriptor \<Rightarrow> executor \<Rightarrow> argument_resolver option \<Rightarrow> capability_runtime \<Rightarrow> capability_runtime" where
  "register d ex r rt = set_resolver (od_id d) r (rt\<lparr>cr_operations := dict_put (od_id d) d (cr_operations rt),
     cr_executors := dict_put (od_id d) ex (cr_executors rt)\<rparr>)"

definition register_executor ::
  "string \<Rightarrow> executor \<Rightarrow> argument_resolver option \<Rightarrow> capability_runtime \<Rightarrow> runtime_error + capability_runtime" where
  "register_executor i ex r rt =
    ebind (require (i \<in> fst ` set (cr_operations rt))
      (KeyErr (''Operation is not registered in the Environment Registry: '' @ i))) (\<lambda>_.
    Inr (set_resolver i r (rt\<lparr>cr_executors := dict_put i ex (cr_executors rt)\<rparr>)))"

definition operations :: "capability_runtime \<Rightarrow> operation_descriptor list" where
  "operations rt = sort_key od_id (map snd (cr_operations rt))"

definition descriptor :: "capability_runtime \<Rightarrow> string \<Rightarrow> operation_descriptor option" where
  "descriptor rt i = map_of (cr_operations rt) i"

section \<open>The owner's settings\<close>

definition enabled_capabilities :: "capability_runtime \<Rightarrow> control_reading \<Rightarrow> runtime_error + string list" where
  "enabled_capabilities rt c =
    (if \<not> cr_policy_reader rt then Inr (map (\<lambda>(_, d). od_capability_id d) (cr_operations rt) @ [''openai.web''])
     else (case cl_enabled c of Inl m \<Rightarrow> Inl (Unreadable m) | Inr xs \<Rightarrow> Inr xs))"

text \<open>Values that name no authority are skipped.\<close>

definition valid_overrides :: "json_obj \<Rightarrow> (string \<times> authority_mode) list" where
  "valid_overrides raw = List.map_filter (\<lambda>(k, v). map_option (Pair k) (authority_of (py_str v))) raw"

definition authority_overrides :: "capability_runtime \<Rightarrow> control_reading \<Rightarrow> runtime_error + (string \<times> authority_mode) list" where
  "authority_overrides rt c =
    (if \<not> cr_authority_reader rt then Inr []
     else (case cl_authority c of Inl m \<Rightarrow> Inl (Unreadable m) | Inr raw \<Rightarrow> Inr (valid_overrides raw)))"

definition descriptor_current ::
  "capability_runtime \<Rightarrow> control_reading \<Rightarrow> control_reading \<Rightarrow> string \<Rightarrow> runtime_error + operation_descriptor option" where
  "descriptor_current rt c1 c2 i = (case descriptor rt i of None \<Rightarrow> Inr None
     | Some d \<Rightarrow> ebind (enabled_capabilities rt c1) (\<lambda>enabled.
         if od_capability_id d \<notin> set enabled then Inr None
         else ebind (authority_overrides rt c2) (\<lambda>overrides.
           Inr (Some (case map_of overrides i of Some a \<Rightarrow> d\<lparr>od_authority := a\<rparr> | None \<Rightarrow> d)))))"

text \<open>The owner's decision wins; a static prohibition is never relaxed by a resolver.\<close>

definition resolve_authority ::
  "capability_runtime \<Rightarrow> control_reading \<Rightarrow> string \<Rightarrow> json_obj \<Rightarrow> runtime_error + authority_mode" where
  "resolve_authority rt c i args =
    ebind (the_row (descriptor rt i) (KeyErr i)) (\<lambda>d.
    ebind (authority_overrides rt c) (\<lambda>overrides.
    case map_of overrides i of Some a \<Rightarrow> Inr a
    | None \<Rightarrow> (case map_of (cr_resolvers rt) i of
        None \<Rightarrow> Inr (od_authority d)
      | Some r \<Rightarrow> if od_authority d = FORBIDDEN then Inr (od_authority d)
          else (case r args of Inl m \<Rightarrow> Inl (Unresolved m) | Inr a \<Rightarrow> Inr a))))"

definition hard_forbidden :: "(string \<times> authority_mode) list \<Rightarrow> operation_descriptor \<Rightarrow> string \<Rightarrow> bool" where
  "hard_forbidden overrides d i = (case map_of overrides i of
     Some a \<Rightarrow> a = FORBIDDEN | None \<Rightarrow> od_authority d = FORBIDDEN)"

definition preflight_one ::
  "capability_runtime \<Rightarrow> string list \<Rightarrow> (string \<times> authority_mode) list \<Rightarrow> string \<Rightarrow> string list \<times> string list \<Rightarrow> string list \<times> string list" where
  "preflight_one rt enabled overrides raw st = (case st of (kept, problems) \<Rightarrow>
    (let i = strip raw in
     if i = [] \<or> i \<in> set kept then (kept, problems)
     else if i \<in> set NON_DELEGABLE_MANAGED_OPERATIONS
       then (kept, problems @ [i @ '': managed-task lifecycle authority cannot be delegated''])
     else (case descriptor rt i of
         None \<Rightarrow> (kept, problems @ [i @ '': operation is not registered''])
       | Some d \<Rightarrow>
           if od_capability_id d \<notin> set enabled
             then (kept, problems @ [i @ '': capability '' @ od_capability_id d @ '' is disabled''])
           else if hard_forbidden overrides d i
             then (kept, problems @ [i @ '': denied by current Atlas Control policy''])
           else (kept @ [i], problems))))"

definition preflight_authority_grants ::
  "capability_runtime \<Rightarrow> control_reading \<Rightarrow> string list \<Rightarrow> runtime_error + string list" where
  "preflight_authority_grants rt c ids =
    ebind (enabled_capabilities rt c) (\<lambda>enabled.
    ebind (authority_overrides rt c) (\<lambda>overrides.
    case fold (preflight_one rt enabled overrides) (take 64 ids) ([], []) of (kept, problems) \<Rightarrow>
      if problems \<noteq> [] then Inl (PreflightErr (''Managed-task authority preflight failed: '' @ join_with ''; '' problems))
      else Inr kept))"

text \<open>A task grant turns a question to the owner into permission, never a prohibition.\<close>

definition apply_task_grant ::
  "capability_runtime \<Rightarrow> control_reading \<Rightarrow> string \<Rightarrow> authority_mode \<Rightarrow> runtime_error + authority_mode" where
  "apply_task_grant rt c i resolved =
    (if i \<in> set NON_DELEGABLE_MANAGED_OPERATIONS \<or> resolved \<noteq> APPROVAL_REQUIRED then Inr resolved
     else (case descriptor rt i of None \<Rightarrow> Inr resolved
       | Some d \<Rightarrow> ebind (authority_overrides rt c) (\<lambda>overrides.
           Inr (if hard_forbidden overrides d i then FORBIDDEN else AUTO))))"

section \<open>Finding operations\<close>

definition compact_index :: "capability_runtime \<Rightarrow> (string \<times> string) list" where
  "compact_index rt = fold (\<lambda>d seen. if od_family d \<in> fst ` set seen then seen
     else seen @ [(od_family d, od_capability_id d)]) (operations rt) []"

definition compact_index_current :: "capability_runtime \<Rightarrow> control_reading \<Rightarrow> runtime_error + (string \<times> string) list" where
  "compact_index_current rt c = ebind (enabled_capabilities rt c) (\<lambda>enabled.
     Inr (filter (\<lambda>(_, cap). cap \<in> set enabled) (compact_index rt)))"

definition occurs_in :: "string \<Rightarrow> string \<Rightarrow> bool" where
  "occurs_in p s = list_ex (\<lambda>n. startswith (drop n s) p) [0..<Suc (length s)]"

definition search_terms :: "string \<Rightarrow> string list" where
  "search_terms query = remdups (split_ws (map (\<lambda>c. if c \<in> {CHR ''/'', CHR ''.''} then CHR '' '' else c) (casefold query)))"

definition search_score :: "string list \<Rightarrow> operation_descriptor \<Rightarrow> int" where
  "search_score terms d =
    (let haystack = casefold (od_id d @ '' '' @ od_family d @ '' '' @ od_description d) in
     sum_list (map (\<lambda>t. if occurs_in t haystack then if occurs_in t (casefold (od_id d)) then 3 else 1 else 0) terms))"

definition search_operations :: "capability_runtime \<Rightarrow> string \<Rightarrow> int \<Rightarrow> string list option \<Rightarrow> operation_descriptor list" where
  "search_operations rt query limit enabled =
    (let terms = search_terms query;
         shown = filter (\<lambda>d. case enabled of None \<Rightarrow> True | Some e \<Rightarrow> od_capability_id d \<in> set e) (operations rt);
         scored = filter (\<lambda>d. search_score terms d \<noteq> 0 \<or> terms = []) shown
     in take (nat (max 1 (min limit 20))) (sort_key (\<lambda>d. (- search_score terms d, od_id d)) scored))"

definition argument_type :: "json \<Rightarrow> json" where
  "argument_type v = (case v of JObj d \<Rightarrow> JStr (json_or ''type'' d ''any'') | _ \<Rightarrow> JStr ''any'')"

definition schema_properties :: "json_obj \<Rightarrow> json_obj" where
  "schema_properties schema = (case json_get ''properties'' schema of Some (JObj p) \<Rightarrow> p | _ \<Rightarrow> [])"

definition search_card :: "operation_descriptor \<Rightarrow> json_obj" where
  "search_card d = [(''id'', JStr (od_id d)), (''family'', JStr (od_family d)), (''description'', JStr (od_description d)),
     (''effect'', JStr (effect_value (od_effect d))), (''authority'', JStr (authority_value (od_authority d))),
     (''arguments'', JObj (map (\<lambda>(k, v). (k, argument_type v)) (schema_properties (od_input_schema d)))),
     (''required'', JList (case json_get ''required'' (od_input_schema d) of Some (JList ks) \<Rightarrow> map (\<lambda>k. JStr (py_str k)) ks | _ \<Rightarrow> []))]"

definition search_cards :: "capability_runtime \<Rightarrow> string \<Rightarrow> int \<Rightarrow> string list option \<Rightarrow> json_obj list" where
  "search_cards rt query limit enabled = map search_card (search_operations rt query limit enabled)"

definition card_with_override :: "(string \<times> authority_mode) list \<Rightarrow> json_obj \<Rightarrow> json_obj" where
  "card_with_override overrides d = (case map_of overrides (json_or ''id'' d []) of
     Some a \<Rightarrow> json_put ''authority'' (JStr (authority_value a)) d | None \<Rightarrow> d)"

definition search_cards_current ::
  "capability_runtime \<Rightarrow> control_reading \<Rightarrow> control_reading \<Rightarrow> string \<Rightarrow> int \<Rightarrow> runtime_error + json_obj list" where
  "search_cards_current rt c1 c2 query limit =
    ebind (enabled_capabilities rt c1) (\<lambda>enabled.
    ebind (authority_overrides rt c2) (\<lambda>overrides.
    Inr (map (card_with_override overrides) (search_cards rt query limit (Some enabled)))))"

section \<open>Arguments\<close>

datatype schema_verdict = Conforms | Violates string string | Bad_schema

type_synonym schema_validator = "json_obj \<Rightarrow> json_obj \<Rightarrow> schema_verdict"

fun hashable :: "json \<Rightarrow> bool" where
  "hashable (JList _) = False"
| "hashable (JObj _) = False"
| "hashable _ = True"

fun argument_at :: "json_obj \<Rightarrow> json \<Rightarrow> json option" where
  "argument_at args (JStr k) = json_get k args"
| "argument_at args _ = None"

definition empty_string :: "json_obj \<Rightarrow> json_obj \<Rightarrow> json \<Rightarrow> bool" where
  "empty_string properties args key = (case (argument_at properties key, argument_at args key) of
     (Some (JObj p), Some (JStr s)) \<Rightarrow> json_get ''type'' p = Some (JStr ''string'') \<and> strip s = []
   | _ \<Rightarrow> False)"

definition required_problem :: "json_obj \<Rightarrow> json_obj \<Rightarrow> runtime_error + string option" where
  "required_problem schema args = (case json_get ''required'' schema of
     Some (JList ks) \<Rightarrow>
       if \<not> list_all hashable ks then Inl TypeErr
       else (let missing = filter (\<lambda>k. argument_at args k = None) ks;
                 blank = filter (empty_string (schema_properties schema) args) ks in
         Inr (if missing \<noteq> [] then Some (''Missing required argument(s): '' @ join_with '', '' (map py_str missing))
              else if blank \<noteq> [] then Some (''Required argument(s) cannot be empty: '' @ join_with '', '' (map py_str blank))
              else None))
   | _ \<Rightarrow> Inr None)"

definition extra_arguments :: "json_obj \<Rightarrow> json_obj \<Rightarrow> string list" where
  "extra_arguments schema args =
    (if json_get ''additionalProperties'' schema = Some (JBool False)
     then sort (filter (\<lambda>k. k \<notin> fst ` set (schema_properties schema)) (map fst args)) else [])"

definition schema_problem :: "schema_validator \<Rightarrow> json_obj \<Rightarrow> json_obj \<Rightarrow> runtime_error + string option" where
  "schema_problem J schema args = (case J schema args of
     Conforms \<Rightarrow> Inr None
   | Violates path rule \<Rightarrow> Inr (Some (''Invalid '' @ (if path = [] then ''arguments'' else path) @ '': schema rule '' @ rule @ '' failed''))
   | Bad_schema \<Rightarrow> Inl SchemaErr)"

definition validate_arguments ::
  "capability_runtime \<Rightarrow> schema_validator \<Rightarrow> string \<Rightarrow> json \<Rightarrow> runtime_error + string option" where
  "validate_arguments rt J i arguments = (case descriptor rt i of
     None \<Rightarrow> Inr (Some ''Operation is not registered or enabled.'')
   | Some d \<Rightarrow> (case arguments of
       JObj args \<Rightarrow> ebind (required_problem (od_input_schema d) args) (\<lambda>p.
         if p \<noteq> None then Inr p
         else (let extras = extra_arguments (od_input_schema d) args in
           if extras \<noteq> [] then Inr (Some (''Unexpected argument(s): '' @ join_with '', '' extras))
           else schema_problem J (od_input_schema d) args))
     | _ \<Rightarrow> Inr (Some ''Capability arguments must be an object'')))"

section \<open>The call of an operation\<close>

text \<open>
  A handler works on the committed tables and keeps a log of what it handed to executors, each entry with the
  tables as of the handler's last commit before the dispatch.
\<close>

record 'd dispatched =
  dp_operation :: string
  dp_arguments :: json_obj
  dp_tables :: 'd

record 'd handler =
  hn_tables :: 'd
  hn_log :: "'d dispatched list"
  hn_artifacts :: "(string \<times> json_obj) list"
  hn_proposal_evidence :: "uuid option"

type_synonym ('d, 'a) effect = "'d handler \<Rightarrow> (runtime_error + 'a) \<times> 'd handler"

definition ret :: "'a \<Rightarrow> ('d, 'a) effect" where
  "ret a h = (Inr a, h)"

definition lift_result :: "runtime_error + 'a \<Rightarrow> ('d, 'a) effect" where
  "lift_result r h = (r, h)"

definition rbind :: "('d, 'a) effect \<Rightarrow> ('a \<Rightarrow> ('d, 'b) effect) \<Rightarrow> ('d, 'b) effect" where
  "rbind m f h = (case m h of (Inl e, h1) \<Rightarrow> (Inl e, h1) | (Inr a, h1) \<Rightarrow> f a h1)"

definition dispatch :: "string \<Rightarrow> executor \<Rightarrow> json_obj \<Rightarrow> ('d, execution) effect" where
  "dispatch i ex args h = (Inr (ex args), h\<lparr>hn_log := hn_log h @ [\<lparr>dp_operation = i, dp_arguments = args, dp_tables = hn_tables h\<rparr>]\<rparr>)"

record call_result =
  rs_status :: string
  rs_operation_id :: string
  rs_output :: json
  rs_proposal_id :: "string option"
  rs_message :: "string option"

definition answer :: "string \<Rightarrow> string \<Rightarrow> json \<Rightarrow> string \<Rightarrow> call_result" where
  "answer status i output message = \<lparr>rs_status = status, rs_operation_id = i, rs_output = output, rs_proposal_id = None, rs_message = Some message\<rparr>"

definition before_dispatch :: json where
  "before_dispatch = JObj [(''failure_phase'', JStr ''before_dispatch'')]"

definition outside_authority :: string where
  "outside_authority = ''Operation is outside current Atlas authority.''"

text \<open>\<^verbatim>\<open>CapabilityFailure\<close> knows two phases; any other exception leaves the outcome open.\<close>

definition failure_phase :: "string \<Rightarrow> string" where
  "failure_phase phase = (if phase \<in> {''completed'', ''before_dispatch''} then phase else ''completed'')"

fun execution_result :: "string \<Rightarrow> execution \<Rightarrow> call_result" where
  "execution_result i (Returned output) = \<lparr>rs_status = ''succeeded'', rs_operation_id = i, rs_output = output, rs_proposal_id = None, rs_message = None\<rparr>"
| "execution_result i (CapabilityFailure m phase output) =
    answer ''failed'' i (JObj (json_put ''failure_phase'' (JStr (failure_phase phase)) output)) m"
| "execution_result i (Raised m) = answer ''failed'' i (JObj [(''failure_phase'', JStr ''ambiguous_dispatch'')]) m"

definition statically_forbidden ::
  "capability_runtime \<Rightarrow> control_reading \<Rightarrow> operation_descriptor \<Rightarrow> string \<Rightarrow> authority_mode option \<Rightarrow> runtime_error + bool" where
  "statically_forbidden rt c d i authority =
    (if od_authority d = FORBIDDEN \<and> authority = None
     then ebind (authority_overrides rt c) (\<lambda>overrides. Inr (map_of overrides i = None)) else Inr False)"

definition perform ::
  "string \<Rightarrow> operation_descriptor \<Rightarrow> executor \<Rightarrow> json_obj \<Rightarrow> (operation_descriptor \<Rightarrow> json_obj \<Rightarrow> ('d, uuid) effect) option
   \<Rightarrow> bool \<Rightarrow> authority_mode \<Rightarrow> ('d, call_result) effect" where
  "perform i d ex args sink granted authority = (case authority of
     FORBIDDEN \<Rightarrow> ret (answer ''forbidden'' i JNull outside_authority)
   | _ \<Rightarrow> if authority = APPROVAL_REQUIRED \<and> \<not> granted
       then (case sink of
           None \<Rightarrow> ret (answer ''approval_required'' i JNull ''Owner approval is required before execution.'')
         | Some f \<Rightarrow> rbind (f d args) (\<lambda>proposal_id.
             ret ((answer ''approval_required'' i JNull ''Action prepared and waiting for owner approval.'')\<lparr>rs_proposal_id := Some proposal_id\<rparr>)))
       else rbind (dispatch i ex args) (\<lambda>x. ret (execution_result i x)))"

text \<open>
  The readings are those of the enabled capabilities (0), of the check for a static prohibition (1) and of
  the resolution when no authority is passed (2).
\<close>

definition call_operation ::
  "capability_runtime \<Rightarrow> schema_validator \<Rightarrow> (nat \<Rightarrow> control_reading) \<Rightarrow> string \<Rightarrow> json
   \<Rightarrow> (operation_descriptor \<Rightarrow> json_obj \<Rightarrow> ('d, uuid) effect) option \<Rightarrow> bool \<Rightarrow> authority_mode option \<Rightarrow> ('d, call_result) effect" where
  "call_operation rt J c i arguments sink granted authority = (case (descriptor rt i, map_of (cr_executors rt) i) of
     (Some d, Some ex) \<Rightarrow>
       rbind (lift_result (enabled_capabilities rt (c 0))) (\<lambda>enabled.
       if od_capability_id d \<notin> set enabled then ret (answer ''forbidden'' i before_dispatch
         ''The owner has not enabled this capability, or its current permission could not be verified.'')
       else rbind (lift_result (statically_forbidden rt (c 1) d i authority)) (\<lambda>blocked.
       if blocked then ret (answer ''forbidden'' i JNull outside_authority)
       else rbind (lift_result (validate_arguments rt J i arguments)) (\<lambda>problem. case problem of
         Some m \<Rightarrow> ret (answer ''failed'' i before_dispatch m)
       | None \<Rightarrow>
           (case (case authority of Some a \<Rightarrow> Inr a | None \<Rightarrow> resolve_authority rt (c 2) i (doc_fields arguments)) of
              Inl e \<Rightarrow> ret (answer ''failed'' i before_dispatch (''Authority could not be resolved: '' @ error_text e))
            | Inr a \<Rightarrow> perform i d ex (doc_fields arguments) sink granted a))))
   | _ \<Rightarrow> ret (answer ''unavailable'' i JNull ''Operation is not registered or enabled.''))"

end
