(* ===== verification/Run_Execution.thy ===== *)
theory Run_Execution
  imports Capabilities Managed_Tasks
begin

text \<open>
  The dispatch of a run's tool calls (\<^verbatim>\<open>runtime/execution.py\<close>): how a call of the model becomes a
  proposal for the owner, an automatic effect with its action committed before the executor runs, or a
  plain reading, and how the outcome reaches the ledger and the evidence. Every session is one transaction;
  before it starts, other processes (and the executor itself) may have changed the tables, which the argument
  \<open>su_others\<close> stands for.
\<close>

record run_executor =
  rx_run :: uuid
  rx_transcript :: uuid
  rx_checkpoint :: bool

record 'd surroundings =
  su_clock :: "nat \<Rightarrow> time"
  su_control :: "nat \<Rightarrow> control_reading"
  su_others :: "nat \<Rightarrow> 'd \<Rightarrow> 'd"
  su_session_id :: uuid

definition in_session :: "('d \<Rightarrow> 'd) \<Rightarrow> ('d \<Rightarrow> work_error + ('a \<times> 'd)) \<Rightarrow> ('d, 'a) effect" where
  "in_session others f h =
    (let db = others (hn_tables h) in
     case f db of Inl e \<Rightarrow> (Inl (Session e), h\<lparr>hn_tables := db\<rparr>) | Inr (a, db1) \<Rightarrow> (Inr a, h\<lparr>hn_tables := db1\<rparr>))"

section \<open>Results\<close>

fun action_status_value :: "action_status \<Rightarrow> string" where
  "action_status_value PREPARED = ''prepared''"
| "action_status_value EXECUTING = ''executing''"
| "action_status_value ASUCCEEDED = ''succeeded''"
| "action_status_value AFAILED = ''failed''"
| "action_status_value ACANCELLED = ''cancelled''"
| "action_status_value AUNCERTAIN = ''uncertain''"

definition action_status_for_result :: "call_result \<Rightarrow> action_status" where
  "action_status_for_result r =
    (if rs_status r = ''succeeded'' then ASUCCEEDED
     else if rs_status r \<in> {''forbidden'', ''unavailable''}
       \<or> json_get ''failure_phase'' (doc_fields (rs_output r)) \<in> {Some (JStr ''before_dispatch''), Some (JStr ''completed'')} then AFAILED
     else AUNCERTAIN)"

definition effect_id_at :: "json_obj \<Rightarrow> string \<Rightarrow> string" where
  "effect_id_at d key = (case json_get key d of
     Some (JStr s) \<Rightarrow> s | Some (JInt i) \<Rightarrow> show_int i | Some (JBool b) \<Rightarrow> py_str (JBool b) | _ \<Rightarrow> [])"

text \<open>No identity is the empty text.\<close>

definition external_effect_id :: "json \<Rightarrow> string" where
  "external_effect_id output =
    (case find (\<lambda>s. s \<noteq> []) (map (effect_id_at (doc_fields output)) [''id'', ''messageId'', ''message_id'', ''eventId'', ''event_id'']) of
       Some s \<Rightarrow> s | None \<Rightarrow> [])"

definition result_json :: "call_result \<Rightarrow> json_obj" where
  "result_json r = [(''status'', JStr (rs_status r)), (''operation_id'', JStr (rs_operation_id r)), (''output'', rs_output r),
     (''proposal_id'', opt_json (rs_proposal_id r)), (''message'', opt_json (rs_message r))]"

definition remember_output_artifact :: "call_result \<Rightarrow> ('d, unit) effect" where
  "remember_output_artifact r h =
    (Inr (), if rs_status r \<noteq> ''succeeded'' then h
     else (case json_get ''artifact'' (doc_fields (rs_output r)) of
         Some (JObj a) \<Rightarrow>
           (let i = json_or ''artifact_id'' a [] in
            if i = [] \<or> i \<in> fst ` set (hn_artifacts h) then h
            else h\<lparr>hn_artifacts := hn_artifacts h @ [(i, json_put ''operation'' (JStr (rs_operation_id r)) a)]\<rparr>)
       | _ \<Rightarrow> h))"

section \<open>Grants and evidence of the run\<close>

definition managed_task_grants :: "uuid \<Rightarrow> 'x work_db_scheme \<Rightarrow> string list" where
  "managed_task_grants t db =
    (let state = state_at t db in
     if \<not> is_managed state \<or> \<not> is_active state then []
     else filter (\<lambda>s. s \<noteq> []) (map (\<lambda>item. strip (py_str item)) (list_at ''authority_grants'' state)))"

definition prepare_managed_task_create ::
  "capability_runtime \<Rightarrow> control_reading \<Rightarrow> uuid \<Rightarrow> json_obj \<Rightarrow> runtime_error + json_obj" where
  "prepare_managed_task_create rt c t args =
    (let raw = (case json_get ''authority_grants'' args of Some (JList xs) \<Rightarrow> map (\<lambda>item. strip (py_str item)) xs | _ \<Rightarrow> []) in
     ebind (preflight_authority_grants rt c raw) (\<lambda>grants.
     let prepared = json_put ''authority_grants'' (JList (map JStr grants)) args in
     Inr (if json_get ''source_chat_id'' prepared = None then json_put ''source_chat_id'' (JStr t) prepared else prepared)))"

definition observe ::
  "run_executor \<Rightarrow> string \<Rightarrow> string \<Rightarrow> json_obj \<Rightarrow> uuid option \<Rightarrow> json \<Rightarrow> string \<Rightarrow> observation" where
  "observe X operation phase detail action_id arguments trust = \<lparr>ob_operation = operation, ob_phase = phase, ob_detail = detail,
     ob_run = Some (rx_run X), ob_action = action_id, ob_arguments = doc_fields arguments,
     ob_checkpoint = (rx_checkpoint X \<and> operation \<noteq> ''evidence.task.read''), ob_trust = trust\<rparr>"

definition live :: "run_executor \<Rightarrow> 'x work_db_scheme \<Rightarrow> work_error + run_row" where
  "live X db = in_ledger (require_live_run (rx_run X) (ledger db))"

section \<open>The end of an effect\<close>

definition staged_change :: "call_result \<Rightarrow> bool" where
  "staged_change r = (rs_status r = ''succeeded'' \<and> startswith (rs_operation_id r) ''storage.projects.''
     \<and> json_get ''status'' (doc_fields (rs_output r)) = Some (JStr ''staged''))"

definition announce_change ::
  "'y work_lib_scheme \<Rightarrow> uuid \<Rightarrow> json_obj \<Rightarrow> 'x work_db_scheme \<Rightarrow> work_error + 'x work_db_scheme" where
  "announce_change L run_id output db =
    ebind (the_row (json_get ''change_id'' output) (WValueError ''change_id'')) (\<lambda>raw.
    ebind (the_row (case raw of JStr s \<Rightarrow> parse_uuid L s | _ \<Rightarrow> None) (WValueError ''badly formed hexadecimal UUID string'')) (\<lambda>change_id.
    case fresh_id L db of (att_id, db1) \<Rightarrow>
    on_ledger (insert_attention \<lparr>at_id = att_id, at_run_id = Some run_id, at_action_id = None, at_state = ''staged_change'',
      at_title = ''Project change ready to review'',
      at_detail = [(''message'', JStr ''Live project files are unchanged. Download the bundle and integrate it through your editor or version-control workflow.''),
        (''download_url'', JStr (''/api/project-changes/'' @ change_id)), (''path'', get_or_null ''path'' output)],
      at_resolved = False, at_resolved_at = None\<rparr>) db1))"

definition note_evidence :: "string \<Rightarrow> uuid \<Rightarrow> uuid \<Rightarrow> 'x work_db_scheme \<Rightarrow> 'x work_db_scheme" where
  "note_evidence key action_id evidence_id db =
    db\<lparr>wd_actions := tset ac_id action_id (\<lambda>a. a\<lparr>ac_evidence := json_put key (JStr evidence_id) (ac_evidence a)\<rparr>) (wd_actions db)\<rparr>"

definition finish_action ::
  "'y work_lib_scheme \<Rightarrow> run_executor \<Rightarrow> time \<Rightarrow> uuid \<Rightarrow> call_result \<Rightarrow> json \<Rightarrow> 'x work_db_scheme
   \<Rightarrow> work_error + ((uuid \<times> json_obj) \<times> 'x work_db_scheme)" where
  "finish_action L X now action_id r arguments db =
    ebind (the_row (tget ac_id action_id (wd_actions db)) (Ledger AttributeError)) (\<lambda>action.
    let status = action_status_for_result r; late = (ac_status action \<noteq> EXECUTING) in
    ebind (record_observation L now (rx_transcript X) (observe X (rs_operation_id r)
        (if late then ''late_result'' else action_status_value status) (result_json r) (Some action_id) arguments ''external'') db)
      (\<lambda>((evidence_id, frozen), db1).
    ebind (if late then Inr (note_evidence ''late_result_evidence_id'' action_id evidence_id db1)
       else (case fresh_id L db1 of (att_id, db2) \<Rightarrow> on_ledger (complete (lib.truncate L) now att_id action_id status
           [(''status'', JStr (rs_status r)), (''evidence_id'', JStr evidence_id)] (external_effect_id (rs_output r))) db2)) (\<lambda>db3.
    ebind (if \<not> late \<and> staged_change r then announce_change L (rx_run X) (doc_fields (rs_output r)) db3 else Inr db3) (\<lambda>db4.
    let final = JStr (action_status_value (if late then ac_status action else status));
        frozen1 = json_put ''action_status'' final frozen in
    Inr ((evidence_id, if late then json_put ''late_reported_status'' (JStr (rs_status r)) (json_put ''status'' final frozen1) else frozen1), db4)))))"

text \<open>An execution without an action of its own is recorded afterwards; arguments that are no object are kept as they are.\<close>

definition executed_row ::
  "lib \<Rightarrow> time \<Rightarrow> uuid \<Rightarrow> uuid \<Rightarrow> string \<Rightarrow> json \<Rightarrow> string \<Rightarrow> string \<Rightarrow> action_row" where
  "executed_row L now new_id run_id operation arguments status summary =
    (let row = executed_action L now new_id run_id operation (doc_fields arguments) status summary JNull; stamp = JStr (isoformat L now) in
     case arguments of JObj _ \<Rightarrow> row
     | _ \<Rightarrow> row\<lparr>ac_evidence := json_put ''arguments'' arguments (ac_evidence row),
         ac_target_hash := sha256 L (dumps (JObj [(''operation'', JStr operation), (''arguments'', arguments),
           (''principal'', JStr OWNER_PRINCIPAL), (''created_at'', stamp), (''expires_at'', stamp),
           (''capability_id'', JStr (operation_family operation))]))\<rparr>)"

definition record_call ::
  "'y work_lib_scheme \<Rightarrow> run_executor \<Rightarrow> time \<Rightarrow> string \<Rightarrow> operation_descriptor option \<Rightarrow> call_result \<Rightarrow> json \<Rightarrow> 'x work_db_scheme
   \<Rightarrow> work_error + ((uuid \<times> json_obj) \<times> 'x work_db_scheme)" where
  "record_call L X now operation d r arguments db = (case fresh_id L db of (action_id, db1) \<Rightarrow>
     ebind (on_ledger (insert_action (executed_row (lib.truncate L) now action_id (rx_run X) operation arguments (rs_status r)
         (case d of Some x \<Rightarrow> od_description x | None \<Rightarrow> operation))) db1) (\<lambda>db2.
     ebind (on_ledger (\<lambda>l. Inr (set_idempotency_key action_id l)) db2) (\<lambda>db3.
     ebind (record_observation L now (rx_transcript X) (observe X operation (rs_status r) (result_json r) (Some action_id) arguments
         (case d of Some x \<Rightarrow> od_trust x | None \<Rightarrow> ''external'')) db3) (\<lambda>((evidence_id, frozen), db4).
     Inr ((evidence_id, frozen), note_evidence ''evidence_id'' action_id evidence_id db4)))))"

section \<open>The tool handler\<close>

definition propose ::
  "'y work_lib_scheme \<Rightarrow> run_executor \<Rightarrow> 'x work_db_scheme surroundings \<Rightarrow> string \<Rightarrow> operation_descriptor \<Rightarrow> json_obj
   \<Rightarrow> ('x work_db_scheme, uuid) effect" where
  "propose L X E operation d args =
    rbind (in_session (su_others E 4) (\<lambda>db.
      ebind (live X db) (\<lambda>_.
      case fresh_id L db of (new_id, db1) \<Rightarrow> case fresh_id L db1 of (att_id, db2) \<Rightarrow>
      ebind (on_ledger_ret (prepare_proposal (lib.truncate L) (su_clock E 4) new_id att_id (rx_run X) operation args
          (''Atlas proposes: '' @ od_description d) (od_capability_id d)) db2) (\<lambda>(proposal_id, db3).
      ebind (record_observation L (su_clock E 4) (rx_transcript X) (observe X operation ''prepared''
          [(''status'', JStr ''approval_required''), (''arguments'', JObj args), (''proposal_id'', JStr proposal_id)]
          (Some proposal_id) (JObj args) (od_trust d)) db3) (\<lambda>((evidence_id, _), db4).
      Inr ((proposal_id, evidence_id), db4)))))) (\<lambda>(proposal_id, evidence_id) h.
    (Inr proposal_id, h\<lparr>hn_proposal_evidence := Some evidence_id\<rparr>))"

text \<open>
  The authority of the call and whether a task grant gave it. An exception leaves it open (\<open>None\<close>), and the
  call resolves it again.
\<close>

definition decide_authority ::
  "capability_runtime \<Rightarrow> run_executor \<Rightarrow> 'x work_db_scheme surroundings \<Rightarrow> string \<Rightarrow> json_obj
   \<Rightarrow> ('x work_db_scheme, authority_mode option \<times> bool) effect" where
  "decide_authority rt X E operation args = (case resolve_authority rt (su_control E 1) operation args of
     Inl _ \<Rightarrow> ret (None, False)
   | Inr a \<Rightarrow> rbind (in_session (su_others E 3) (\<lambda>db. Inr (managed_task_grants (rx_transcript X) db, db))) (\<lambda>grants.
       if operation \<notin> set grants then ret (Some a, False)
       else (case apply_task_grant rt (su_control E 2) operation a of
           Inl _ \<Rightarrow> ret (None, False) | Inr g \<Rightarrow> ret (Some g, a = APPROVAL_REQUIRED \<and> g = AUTO))))"

text \<open>An automatic effect is an executing action, committed, before anything is dispatched.\<close>

definition begin_effect ::
  "'y work_lib_scheme \<Rightarrow> run_executor \<Rightarrow> 'x work_db_scheme surroundings \<Rightarrow> string \<Rightarrow> operation_descriptor \<Rightarrow> json_obj \<Rightarrow> bool
   \<Rightarrow> ('x work_db_scheme, uuid) effect" where
  "begin_effect L X E operation d args granted = in_session (su_others E 4) (\<lambda>db.
     ebind (live X db) (\<lambda>_.
     case fresh_id L db of (new_id, db1) \<Rightarrow>
     ebind (on_ledger_ret (begin_automatic_execution (lib.truncate L) (su_clock E 4) new_id (rx_run X) operation args
         (od_description d) (od_capability_id d)) db1) (\<lambda>(action_id, db2).
     ebind (record_observation L (su_clock E 4) (rx_transcript X) (observe X operation ''executing''
         [(''status'', JStr ''executing''), (''authority_source'', JStr (if granted then ''managed_task_grant'' else ''atlas_control''))]
         (Some action_id) (JObj args) ''internal'') db2) (\<lambda>(_, db3).
     Inr (action_id, db3)))))"

definition prepared_arguments ::
  "capability_runtime \<Rightarrow> run_executor \<Rightarrow> 'd surroundings \<Rightarrow> string \<Rightarrow> json \<Rightarrow> runtime_error + (json \<times> string option)" where
  "prepared_arguments rt X E operation raw = (case raw of
     JObj args \<Rightarrow>
       if operation = ''workspace.tasks.create''
       then (case prepare_managed_task_create rt (su_control E 0) (rx_transcript X) args of
           Inr args1 \<Rightarrow> Inr (JObj args1, None)
         | Inl (PreflightErr m) \<Rightarrow> Inr (raw, Some m)
         | Inl e \<Rightarrow> Inl e)
       else if operation = ''coding.agent.start_session'' \<and> argument_text ''session_id'' args = []
       then Inr (JObj (json_put ''session_id'' (JStr (su_session_id E)) args), None)
       else Inr (raw, None)
   | _ \<Rightarrow> Inr (raw, None))"

definition with_preflight :: "string \<Rightarrow> json \<Rightarrow> call_result \<Rightarrow> call_result" where
  "with_preflight operation arguments r =
    (case rs_output r of
       JObj output \<Rightarrow>
         if operation = ''workspace.tasks.create'' \<and> rs_status r = ''succeeded''
         then r\<lparr>rs_output := JObj (json_put ''authority_preflight'' (JObj [(''verified'', JBool True),
           (''operations'', JList (list_at ''authority_grants'' (doc_fields arguments)))]) output)\<rparr>
         else r
     | _ \<Rightarrow> r)"

text \<open>The binary content of a resource is handed back to the provider, not stored.\<close>

definition payload :: "call_result \<Rightarrow> uuid \<Rightarrow> json_obj \<Rightarrow> json_obj" where
  "payload r evidence_id frozen =
    (let result = json_put ''evidence_id'' (JStr evidence_id) frozen in
     case json_get ''resource'' (doc_fields (rs_output r)) of
       Some (JObj resource) \<Rightarrow>
         (case json_true ''data_base64'' resource of
            Some data \<Rightarrow> (let public = obj_at ''output'' result in
              json_put ''output'' (JObj (json_put ''resource'' (JObj (json_put ''data_base64'' data (obj_at ''resource'' public))) public)) result)
          | None \<Rightarrow> result)
     | _ \<Rightarrow> result)"

definition settle ::
  "'y work_lib_scheme \<Rightarrow> run_executor \<Rightarrow> 'x work_db_scheme surroundings \<Rightarrow> string \<Rightarrow> operation_descriptor option \<Rightarrow> uuid option
   \<Rightarrow> call_result \<Rightarrow> json \<Rightarrow> ('x work_db_scheme, uuid \<times> json_obj) effect" where
  "settle L X E operation d action r arguments h = (case hn_proposal_evidence h of
     Some evidence_id \<Rightarrow> ret (evidence_id, result_json r) h
   | None \<Rightarrow> in_session (su_others E 5) (case action of
       Some i \<Rightarrow> finish_action L X (su_clock E 5) i r arguments
     | None \<Rightarrow> record_call L X (su_clock E 5) operation d r arguments) h)"

definition start_effect ::
  "'y work_lib_scheme \<Rightarrow> run_executor \<Rightarrow> 'x work_db_scheme surroundings \<Rightarrow> string \<Rightarrow> operation_descriptor option \<Rightarrow> json
   \<Rightarrow> string option \<Rightarrow> authority_mode option \<times> bool \<Rightarrow> ('x work_db_scheme, uuid option) effect" where
  "start_effect L X E operation d args problem decision = (case d of
     Some x \<Rightarrow> if od_effect x \<noteq> READ \<and> fst decision = Some AUTO \<and> problem = None
       then rbind (begin_effect L X E operation x (doc_fields args) (snd decision)) (\<lambda>i. ret (Some i)) else ret None
   | None \<Rightarrow> ret None)"

definition obtain_result ::
  "'y work_lib_scheme \<Rightarrow> capability_runtime \<Rightarrow> schema_validator \<Rightarrow> run_executor \<Rightarrow> 'x work_db_scheme surroundings \<Rightarrow> string \<Rightarrow> json
   \<Rightarrow> string option \<Rightarrow> authority_mode option \<Rightarrow> ('x work_db_scheme, call_result) effect" where
  "obtain_result L rt J X E operation args preflight_error authority = (case preflight_error of
     Some m \<Rightarrow> ret (answer ''failed'' operation before_dispatch m)
   | None \<Rightarrow> rbind (call_operation rt J (\<lambda>n. su_control E (n + 3)) operation args (Some (propose L X E operation)) False authority) (\<lambda>c.
       ret (with_preflight operation args c)))"

definition conclude ::
  "'y work_lib_scheme \<Rightarrow> run_executor \<Rightarrow> 'x work_db_scheme surroundings \<Rightarrow> string \<Rightarrow> operation_descriptor option \<Rightarrow> uuid option
   \<Rightarrow> json \<Rightarrow> call_result \<Rightarrow> ('x work_db_scheme, json_obj) effect" where
  "conclude L X E operation d action args c =
    rbind (remember_output_artifact c) (\<lambda>_.
    rbind (settle L X E operation d action c args) (\<lambda>(evidence_id, frozen).
    ret (payload c evidence_id frozen)))"

definition capability_call ::
  "'y work_lib_scheme \<Rightarrow> capability_runtime \<Rightarrow> schema_validator \<Rightarrow> run_executor \<Rightarrow> 'x work_db_scheme surroundings \<Rightarrow> json_obj
   \<Rightarrow> ('x work_db_scheme, json_obj) effect" where
  "capability_call L rt J X E arguments =
    (let operation = json_or ''operation_id'' arguments [];
         raw = (case json_get ''arguments'' arguments of Some v \<Rightarrow> v | None \<Rightarrow> JObj []);
         d = descriptor rt operation in
     rbind (lift_result (prepared_arguments rt X E operation raw)) (\<lambda>(args, preflight_error).
     rbind (lift_result (case preflight_error of Some m \<Rightarrow> Inr (Some m) | None \<Rightarrow> validate_arguments rt J operation args)) (\<lambda>problem.
     rbind (if d \<noteq> None \<and> problem = None then decide_authority rt X E operation (doc_fields args) else ret (None, False)) (\<lambda>decision.
     rbind (start_effect L X E operation d args problem decision) (\<lambda>action.
     rbind (obtain_result L rt J X E operation args preflight_error (fst decision))
       (conclude L X E operation d action args))))))"

definition card_with_grant :: "string list \<Rightarrow> json_obj \<Rightarrow> json_obj" where
  "card_with_grant grants d =
    (if json_or ''id'' d [] \<in> set grants \<and> json_get ''authority'' d = Some (JStr (authority_value APPROVAL_REQUIRED))
     then json_put ''authority_source'' (JStr ''managed_task_grant'') (json_put ''authority'' (JStr (authority_value AUTO)) d) else d)"

definition capability_search ::
  "'y work_lib_scheme \<Rightarrow> capability_runtime \<Rightarrow> run_executor \<Rightarrow> 'x work_db_scheme surroundings \<Rightarrow> json_obj
   \<Rightarrow> ('x work_db_scheme, json_obj) effect" where
  "capability_search L rt X E arguments =
    (let query = json_or ''query'' arguments [] in
     rbind (lift_result (map_sum Session id (int_argument ''limit'' arguments 8))) (\<lambda>limit.
     rbind (lift_result (search_cards_current rt (su_control E 0) (su_control E 1) query limit)) (\<lambda>cards.
     rbind (in_session (su_others E 1) (\<lambda>db. Inr (managed_task_grants (rx_transcript X) db, db))) (\<lambda>grants.
     let result = [(''operations'', JList (map (JObj \<circ> card_with_grant grants) cards))] in
     rbind (in_session (su_others E 2) (record_observation L (su_clock E 2) (rx_transcript X)
         \<lparr>ob_operation = ''atlas_capability_search'', ob_phase = ''searched'',
          ob_detail = [(''query'', JStr query), (''result'', JObj result)], ob_run = Some (rx_run X), ob_action = None,
          ob_arguments = [], ob_checkpoint = False, ob_trust = ''internal''\<rparr>)) (\<lambda>(evidence_id, _).
     ret (json_put ''evidence_id'' (JStr evidence_id) result))))))"

definition tool_handler ::
  "'y work_lib_scheme \<Rightarrow> capability_runtime \<Rightarrow> schema_validator \<Rightarrow> run_executor \<Rightarrow> 'x work_db_scheme surroundings \<Rightarrow> string \<Rightarrow> json_obj
   \<Rightarrow> ('x work_db_scheme, json_obj) effect" where
  "tool_handler L rt J X E name arguments =
    rbind (in_session (su_others E 0) (\<lambda>db. ebind (live X db) (\<lambda>_. Inr ((), db)))) (\<lambda>_ h.
    let h0 = h\<lparr>hn_proposal_evidence := None\<rparr> in
    if name = ''atlas_capability_search'' then capability_search L rt X E arguments h0
    else if name \<noteq> ''atlas_capability_call''
    then ret [(''status'', JStr ''unavailable''), (''message'', JStr ''Unknown Atlas capability control tool.'')] h0
    else capability_call L rt J X E arguments h0)"

end
