(* ===== verification/Dispatch_Properties.thy ===== *)
theory Dispatch_Properties
  imports Run_Execution Action_Ledger Managed_Properties
begin

text \<open>
  Governed dispatch: what has to be true before an executor receives a call of the model, what the ledger
  holds at that moment, and how the outcome is settled.
\<close>

section \<open>Effects of the handler\<close>

lemma rbind_eq:
  "rbind m f h = (r, h') \<longleftrightarrow>
    (\<exists>e. m h = (Inl e, h') \<and> r = Inl e) \<or> (\<exists>a h1. m h = (Inr a, h1) \<and> f a h1 = (r, h'))"
  by (auto simp: rbind_def split: prod.splits sum.splits)

lemma rbind_cases:
  assumes "rbind m f h = (r, h')"
  obtains (failed) e where "m h = (Inl e, h')" "r = Inl e" | (passed) a h1 where "m h = (Inr a, h1)" "f a h1 = (r, h')"
  using assms by (auto simp: rbind_eq)

lemma effect_simps [simp]:
  "ret a h = (Inr a, h)" "lift_result x h = (x, h)"
  by (simp_all add: ret_def lift_result_def)

lemma rbind_simps [simp]:
  "rbind (ret a) f h = f a h" "rbind (lift_result (Inr a)) f h = f a h" "rbind (lift_result (Inl e)) f h = (Inl e, h)"
  by (simp_all add: rbind_def)

text \<open>An effect that hands nothing to an executor.\<close>

definition quiet :: "('d, 'a) effect \<Rightarrow> bool" where
  "quiet m = (\<forall>h r h'. m h = (r, h') \<longrightarrow> hn_log h' = hn_log h)"

lemma quietD: "quiet m \<Longrightarrow> m h = (r, h') \<Longrightarrow> hn_log h' = hn_log h"
  by (simp add: quiet_def)

lemma quiet_basic [simp, intro]: "quiet (ret a)" "quiet (lift_result x)" "quiet (in_session others f)" "quiet (remember_output_artifact c)"
  by (auto simp: quiet_def in_session_def remember_output_artifact_def Let_def split: sum.splits prod.splits if_splits option.splits json.splits)

lemma quiet_rbind [intro]:
  assumes "quiet m" "\<And>a. quiet (f a)"
  shows "quiet (rbind m f)"
  using assms unfolding quiet_def by (metis (mono_tags, lifting) rbind_cases)

lemma rbind_quiet:
  assumes "quiet m" "rbind m f h = (r, h')" "hn_log h' \<noteq> hn_log h"
  obtains a h1 where "m h = (Inr a, h1)" "f a h1 = (r, h')" "hn_log h1 = hn_log h"
  using assms(2)
proof (cases rule: rbind_cases)
  case (failed e)
  then show ?thesis using assms(1,3) by (simp add: quiet_def)
next
  case (passed a h1)
  then show ?thesis using that quietD [OF assms(1)] by blast
qed

lemma quiet_propose [simp]: "quiet (propose L X E operation d args)"
  unfolding propose_def by (rule quiet_rbind, rule quiet_basic) (auto simp: quiet_def)

lemma quiet_settle [simp]: "quiet (settle L X E operation d action c args)"
  unfolding quiet_def settle_def by (auto split: option.splits dest: quietD [OF quiet_basic(3)])

lemma quiet_decide [simp]: "quiet (decide_authority rt X E operation args)"
  unfolding decide_authority_def by (auto split: sum.splits intro!: quiet_rbind)

lemma quiet_begin [simp]: "quiet (begin_effect L X E operation d args granted)"
  unfolding begin_effect_def by blast

lemma quiet_search [simp]: "quiet (capability_search L rt X E arguments)"
  unfolding capability_search_def Let_def by (intro quiet_rbind) (auto split: prod.splits)

section \<open>The call\<close>

definition quiet_sink :: "(operation_descriptor \<Rightarrow> json_obj \<Rightarrow> ('d, uuid) effect) option \<Rightarrow> bool" where
  "quiet_sink sink = (\<forall>f d args. sink = Some f \<longrightarrow> quiet (f d args))"

definition handed :: "string \<Rightarrow> json_obj \<Rightarrow> 'd handler \<Rightarrow> 'd handler" where
  "handed i args h = h\<lparr>hn_log := hn_log h @ [\<lparr>dp_operation = i, dp_arguments = args, dp_tables = hn_tables h\<rparr>]\<rparr>"

lemma perform_log:
  assumes "perform i d ex args sink False a h = (r, h')" "quiet_sink sink"
  shows "hn_log h' = hn_log h \<or>
    a = AUTO \<and> h' = handed i args h"
proof (cases a)
  case APPROVAL_REQUIRED
  show ?thesis
  proof (cases sink)
    case (Some f)
    have "quiet (rbind (f d args) (\<lambda>proposal_id. ret ((answer ''approval_required'' i JNull
        ''Action prepared and waiting for owner approval.'')\<lparr>rs_proposal_id := Some proposal_id\<rparr>)))"
      using assms(2) Some by (intro quiet_rbind) (auto simp: quiet_sink_def)
    then show ?thesis using assms(1) APPROVAL_REQUIRED Some by (auto simp: perform_def quiet_def)
  qed (use assms(1) APPROVAL_REQUIRED in \<open>auto simp: perform_def\<close>)
qed (use assms(1) in \<open>auto simp: perform_def rbind_eq dispatch_def handed_def\<close>)

lemma call_log:
  assumes "call_operation rt J c i arguments sink False authority h = (r, h')" "quiet_sink sink"
    "hn_log h' \<noteq> hn_log h"
  shows "\<exists>d enabled args. descriptor rt i = Some d \<and> enabled_capabilities rt (c 0) = Inr enabled \<and> od_capability_id d \<in> set enabled
    \<and> arguments = JObj args \<and> validate_arguments rt J i arguments = Inr None
    \<and> (case authority of Some a \<Rightarrow> a = AUTO | None \<Rightarrow> resolve_authority rt (c 2) i args = Inr AUTO)
    \<and> h' = handed i args h"
proof -
  obtain d ex where d: "descriptor rt i = Some d" "map_of (cr_executors rt) i = Some ex"
    using assms(1,3) by (auto simp: call_operation_def split: option.splits)
  obtain enabled where e: "enabled_capabilities rt (c 0) = Inr enabled" "od_capability_id d \<in> set enabled"
    using assms(1,3) d by (cases "enabled_capabilities rt (c 0)") (auto simp: call_operation_def split: if_splits)
  have f: "statically_forbidden rt (c 1) d i authority = Inr False"
    using assms(1,3) d e by (cases "statically_forbidden rt (c 1) d i authority") (auto simp: call_operation_def split: if_splits)
  have v: "validate_arguments rt J i arguments = Inr None"
    using assms(1,3) d e f by (cases "validate_arguments rt J i arguments") (auto simp: call_operation_def split: option.splits)
  obtain args where args: "arguments = JObj args"
    using v d by (cases arguments) (auto simp: validate_arguments_def)
  have run: "(case (case authority of Some a \<Rightarrow> Inr a | None \<Rightarrow> resolve_authority rt (c 2) i args) of
      Inl e \<Rightarrow> ret (answer ''failed'' i before_dispatch (''Authority could not be resolved: '' @ error_text e))
    | Inr a \<Rightarrow> perform i d ex args sink False a) h = (r, h')"
    using assms(1) d e f v args by (simp add: call_operation_def doc_fields_def cong: option.case_cong sum.case_cong)
  then obtain a where a: "(case authority of Some a \<Rightarrow> Inr a | None \<Rightarrow> resolve_authority rt (c 2) i args) = Inr a"
    "perform i d ex args sink False a h = (r, h')"
    using assms(3) by (cases "case authority of Some a \<Rightarrow> Inr a | None \<Rightarrow> resolve_authority rt (c 2) i args") auto
  have "hn_log h' = hn_log h \<or> a = AUTO \<and> h' = handed i args h"
    by (rule perform_log [OF a(2) assms(2)])
  then show ?thesis using assms(3) d e v args a(1) by (auto split: option.splits)
qed

lemma handler_call_log:
  assumes "call_operation rt J (\<lambda>n. su_control E (n + 3)) i arguments (Some (propose L X E i)) False authority h = (r, h')"
    "hn_log h' \<noteq> hn_log h"
  shows "\<exists>d enabled args. descriptor rt i = Some d \<and> enabled_capabilities rt (su_control E 3) = Inr enabled \<and> od_capability_id d \<in> set enabled
    \<and> arguments = JObj args \<and> validate_arguments rt J i arguments = Inr None
    \<and> (case authority of Some a \<Rightarrow> a = AUTO | None \<Rightarrow> resolve_authority rt (su_control E 5) i args = Inr AUTO)
    \<and> h' = handed i args h"
proof -
  have q: "quiet_sink (Some (propose L X E i))" by (auto simp: quiet_sink_def)
  have "(0::nat) + 3 = 3" "(2::nat) + 3 = 5" by simp_all
  then show ?thesis using call_log [OF assms(1) q assms(2)] by (simp only:)
qed

section \<open>Evidence leaves the ledger alone\<close>

definition ledger_kept :: "'x work_db_scheme \<Rightarrow> 'x work_db_scheme \<Rightarrow> bool" where
  "ledger_kept db db' = (wd_runs db' = wd_runs db \<and> wd_actions db' = wd_actions db)"

lemma ledger_kept_refl [simp]: "ledger_kept db db"
  by (simp add: ledger_kept_def)

lemma ledger_kept_trans: "ledger_kept db db1 \<Longrightarrow> ledger_kept db1 db2 \<Longrightarrow> ledger_kept db db2"
  by (simp add: ledger_kept_def)

lemma fresh_keeps: "fresh_id L db = (i, db') \<Longrightarrow> ledger_kept db db'"
  by (auto simp: fresh_id_def ledger_kept_def)

lemma blob_keeps:
  assumes "blob L data media_type name p db = Inr (ref, db')"
  shows "ledger_kept db db'"
  using assms by (auto simp: blob_def put_artifact_def add_artifact_def fresh_id_def ledger_kept_def Let_def ebind_Inr require_Inr
      split: option.splits json.splits)

lemma freeze_resource_keeps:
  assumes "freeze_resource L p value result db = Inr (v, db')"
  shows "ledger_kept db db'"
  using assms by (auto simp: freeze_resource_def ebind_Inr the_row_Inr split: option.splits json.splits dest: blob_keeps)

lemma freeze_keeps:
  "freeze L p v db = Inr (w, db') \<Longrightarrow> ledger_kept db db'"
  "freeze_list L p vs db = Inr (ws, db') \<Longrightarrow> ledger_kept db db'"
  "freeze_items L p kvs db = Inr (us, db') \<Longrightarrow> ledger_kept db db'"
proof (induction L p v db and L p vs db and L p kvs db arbitrary: w db' and ws db' and us db' rule: freeze_freeze_list_freeze_items.induct)
  case (3 L p kvs db)
  then show ?case by (auto simp: ebind_Inr dest!: freeze_resource_keeps intro: ledger_kept_trans)
next
  case (9 L p x xs db)
  then show ?case by (auto simp: ebind_Inr intro: ledger_kept_trans)
next
  case (11 L p k v kvs db)
  then show ?case by (auto simp: ebind_Inr split: if_splits intro: ledger_kept_trans)
qed (auto simp: ebind_Inr split: if_splits dest: blob_keeps)

lemma record_observation_keeps:
  assumes "record_observation L now t e db = Inr (x, db')"
  shows "ledger_kept db db'"
proof -
  obtain frozen db1 stored artifact db2 where f: "freeze L (observation_provenance t e) (JObj (ob_detail e)) db = Inr (frozen, db1)"
    "store_payload L e (observation_provenance t e) frozen db1 = Inr ((stored, artifact), db2)"
    using assms by (auto simp: record_observation_def Let_def ebind_Inr)
  have "ledger_kept db1 db2"
    using f(2) by (auto simp: store_payload_def Let_def ebind_Inr split: if_splits dest: blob_keeps)
  moreover have "ledger_kept db2 db'"
    using assms f by (auto simp: record_observation_def Let_def ebind_Inr the_row_Inr append_turn_def flush_chats_def fresh_id_def
        ledger_kept_def upd_transcript_def mutate_active_task_state_def update_active_task_state_def require_Inr split: if_splits)
  ultimately show ?thesis using freeze_keeps(1) [OF f(1)] by (blast intro: ledger_kept_trans)
qed

section \<open>An effect is recorded before it is dispatched\<close>

definition begun :: "uuid \<Rightarrow> string \<Rightarrow> json_obj \<Rightarrow> 'x work_db_scheme \<Rightarrow> action_row \<Rightarrow> bool" where
  "begun run_id operation args db a = (tget ac_id (ac_id a) (wd_actions db) = Some a \<and> ac_run_id a = run_id \<and> ac_operation a = operation
     \<and> ac_status a = EXECUTING \<and> json_get ''arguments'' (ac_evidence a) = Some (JObj args))"

lemma automatic_action_sel [simp]:
  "ac_id (automatic_action L now new_id run_id operation args summary cap) = new_id"
  "ac_run_id (automatic_action L now new_id run_id operation args summary cap) = run_id"
  "ac_operation (automatic_action L now new_id run_id operation args summary cap) = operation"
  "ac_status (automatic_action L now new_id run_id operation args summary cap) = EXECUTING"
  "json_get ''arguments'' (ac_evidence (automatic_action L now new_id run_id operation args summary cap)) = Some (JObj args)"
  by (simp_all add: automatic_action_def Let_def)

lemma begin_automatic_row:
  assumes "begin_automatic_execution L now new_id run_id operation args summary cap db = Inr (i, db')"
  shows "i = new_id" "\<exists>k. get_action i db' = Some ((automatic_action L now new_id run_id operation args summary cap)\<lparr>ac_idempotency_key := k\<rparr>)"
proof -
  let ?a = "automatic_action L now new_id run_id operation args summary cap"
  obtain db1 where ins: "insert_action ?a db = Inr db1" and db': "i = new_id" "db' = set_idempotency_key new_id db1"
    using assms by (auto simp: begin_automatic_execution_def ebind_Inr)
  show "i = new_id" by (rule db'(1))
  show "\<exists>k. get_action i db' = Some (?a\<lparr>ac_idempotency_key := k\<rparr>)"
    using ins get_action_add [of ?a db] unfolding db' by (auto simp: insert_action_Inr set_idempotency_key_get)
qed

lemma begin_effect_begun:
  assumes "begin_effect L X E operation d args granted h = (Inr i, h')"
  shows "\<exists>a. begun (rx_run X) operation args (hn_tables h') a \<and> ac_id a = i"
proof -
  obtain db db1 db2 db3 new_id x where st: "fresh_id L db = (new_id, db1)"
    "on_ledger_ret (begin_automatic_execution (lib.truncate L) (su_clock E 4) new_id (rx_run X) operation args
        (od_description d) (od_capability_id d)) db1 = Inr (i, db2)"
    "record_observation L (su_clock E 4) (rx_transcript X) (observe X operation ''executing''
         [(''status'', JStr ''executing''), (''authority_source'', JStr (if granted then ''managed_task_grant'' else ''atlas_control''))]
         (Some i) (JObj args) ''internal'') db2 = Inr (x, db3)" "hn_tables h' = db3"
    using assms unfolding begin_effect_def in_session_def Let_def
    by (auto simp: ebind_Inr split: sum.splits prod.splits)
  obtain l where l: "begin_automatic_execution (lib.truncate L) (su_clock E 4) new_id (rx_run X) operation args
      (od_description d) (od_capability_id d) (ledger db1) = Inr (i, l)" "db2 = put_ledger l db1"
    using st(2) by (auto simp: on_ledger_ret_def ebind_Inr)
  have acts: "wd_actions db3 = db_actions l"
    using record_observation_keeps [OF st(3)] by (simp add: ledger_kept_def l(2) put_ledger_def)
  obtain a k where "tget ac_id i (wd_actions db3) = Some a" and a: "a = (automatic_action (lib.truncate L) (su_clock E 4) new_id
      (rx_run X) operation args (od_description d) (od_capability_id d))\<lparr>ac_idempotency_key := k\<rparr>"
    using begin_automatic_row [OF l(1)] by (auto simp: get_action_def acts)
  then show ?thesis unfolding st(4) begun_def using begin_automatic_row(1) [OF l(1)] by (intro exI [of _ a]) (simp add: a)
qed

section \<open>The decision\<close>

text \<open>What the owner's settings and the grants of the task allow, at the readings of the decision.\<close>

definition permitted ::
  "capability_runtime \<Rightarrow> run_executor \<Rightarrow> 'x work_db_scheme surroundings \<Rightarrow> string \<Rightarrow> json_obj \<Rightarrow> 'x work_db_scheme \<Rightarrow> bool" where
  "permitted rt X E operation args db = (case resolve_authority rt (su_control E 1) operation args of
     Inr AUTO \<Rightarrow> True
   | Inr APPROVAL_REQUIRED \<Rightarrow> operation \<in> set (managed_task_grants (rx_transcript X) db)
       \<and> operation \<notin> set NON_DELEGABLE_MANAGED_OPERATIONS \<and> apply_task_grant rt (su_control E 2) operation APPROVAL_REQUIRED = Inr AUTO
   | _ \<Rightarrow> False)"

definition undecided :: "capability_runtime \<Rightarrow> 'd surroundings \<Rightarrow> string \<Rightarrow> json_obj \<Rightarrow> bool" where
  "undecided rt E operation args = (case resolve_authority rt (su_control E 1) operation args of
     Inl _ \<Rightarrow> True | Inr a \<Rightarrow> isl (apply_task_grant rt (su_control E 2) operation a))"

lemma decide_tables:
  assumes "decide_authority rt X E operation args h = (r, h')"
  shows "hn_tables h' = hn_tables h \<or> hn_tables h' = su_others E 3 (hn_tables h)" "\<exists>x. r = Inr x"
  using assms by (auto simp: decide_authority_def rbind_eq in_session_def Let_def split: sum.splits if_splits)

lemma decide_permitted:
  assumes "decide_authority rt X E operation args h = (Inr (authority, granted), h')"
  shows "authority = Some AUTO \<Longrightarrow> permitted rt X E operation args (su_others E 3 (hn_tables h))"
    and "authority = None \<Longrightarrow> undecided rt E operation args"
proof -
  show "permitted rt X E operation args (su_others E 3 (hn_tables h))" if "authority = Some AUTO"
    using assms that by (auto simp: decide_authority_def permitted_def rbind_eq in_session_def Let_def apply_task_grant_def
        split: sum.splits if_splits authority_mode.splits)
  show "undecided rt E operation args" if "authority = None"
    using assms that by (auto simp: decide_authority_def undecided_def rbind_eq in_session_def Let_def
        split: sum.splits if_splits)
qed

section \<open>Governed dispatch\<close>

lemma quiet_start [simp]: "quiet (start_effect L X E operation d args problem decision)"
  unfolding start_effect_def by (auto split: option.splits intro!: quiet_rbind)

lemma quiet_conclude [simp]: "quiet (conclude L X E operation d action args c)"
  unfolding conclude_def by (intro quiet_rbind) (auto split: prod.splits)

lemma in_session_proposal: "in_session others f h = (r, h') \<Longrightarrow> hn_proposal_evidence h' = hn_proposal_evidence h"
  by (auto simp: in_session_def Let_def split: sum.splits prod.splits)

lemma decide_proposal: "decide_authority rt X E operation args h = (r, h') \<Longrightarrow> hn_proposal_evidence h' = hn_proposal_evidence h"
  by (auto simp: decide_authority_def rbind_eq split: sum.splits if_splits dest!: in_session_proposal)

lemma start_proposal: "start_effect L X E operation d args problem decision h = (r, h') \<Longrightarrow> hn_proposal_evidence h' = hn_proposal_evidence h"
  by (auto simp: start_effect_def begin_effect_def rbind_eq split: option.splits if_splits dest!: in_session_proposal)

text \<open>A call that hands something to an executor has passed every stage: the decision is made and an automatic effect is begun.\<close>

lemma capability_call_stages:
  assumes "capability_call L rt J X E arguments h = (r, h')" "hn_log h' \<noteq> hn_log h"
  obtains operation args d decision action h1 h2 c h3 where
    "descriptor rt operation = Some d" "validate_arguments rt J operation args = Inr None"
    "decide_authority rt X E operation (doc_fields args) h = (Inr decision, h1)"
    "start_effect L X E operation (Some d) args None decision h1 = (Inr action, h2)"
    "call_operation rt J (\<lambda>n. su_control E (n + 3)) operation args (Some (propose L X E operation)) False (fst decision) h2 = (c, h3)"
    "hn_log h' = hn_log h3" "hn_log h2 = hn_log h" "hn_proposal_evidence h2 = hn_proposal_evidence h"
    "\<And>x. r = Inr x \<Longrightarrow> \<exists>c1. c = Inr c1 \<and> conclude L X E operation (Some d) action args (with_preflight operation args c1) h3 = (r, h')"
proof -
  define operation where "operation = json_or ''operation_id'' arguments []"
  define raw where "raw = (case json_get ''arguments'' arguments of Some v \<Rightarrow> v | None \<Rightarrow> JObj [])"
  note unfolded = assms(1) [unfolded capability_call_def Let_def, folded operation_def raw_def]
  obtain args preflight where prep1: "prepared_arguments rt X E operation raw = Inr (args, preflight)"
    using unfolded assms(2) by (cases "prepared_arguments rt X E operation raw") auto
  define checked where "checked = (case preflight of Some m \<Rightarrow> Inr (Some m) | None \<Rightarrow> validate_arguments rt J operation args)"
  note rest = unfolded [unfolded prep1 rbind_simps prod.case, folded checked_def]
  obtain problem where prep2: "checked = Inr problem" using rest assms(2) by (cases checked) auto
  note tail = rest [unfolded prep2 rbind_simps]
  have qd: "quiet (if descriptor rt operation \<noteq> None \<and> problem = None
      then decide_authority rt X E operation (doc_fields args) else ret (None, False))" by simp
  obtain decision h1 where dec: "(if descriptor rt operation \<noteq> None \<and> problem = None
      then decide_authority rt X E operation (doc_fields args) else ret (None, False)) h = (Inr decision, h1)"
    and tail1: "rbind (start_effect L X E operation (descriptor rt operation) args problem decision) (\<lambda>action.
        rbind (obtain_result L rt J X E operation args preflight (fst decision))
          (conclude L X E operation (descriptor rt operation) action args)) h1 = (r, h')" and l1: "hn_log h1 = hn_log h"
    by (rule rbind_quiet [OF qd tail assms(2)])
  obtain action h2 where act: "start_effect L X E operation (descriptor rt operation) args problem decision h1 = (Inr action, h2)"
    and tail2: "rbind (obtain_result L rt J X E operation args preflight (fst decision))
          (conclude L X E operation (descriptor rt operation) action args) h2 = (r, h')" and l21: "hn_log h2 = hn_log h1"
    by (rule rbind_quiet [OF quiet_start tail1]) (use assms(2) l1 in auto)
  have l2: "hn_log h2 = hn_log h" using l21 l1 by simp
  obtain c h3 where c: "obtain_result L rt J X E operation args preflight (fst decision) h2 = (c, h3)" and l3: "hn_log h' = hn_log h3"
    and done1: "\<And>x. r = Inr x \<Longrightarrow> \<exists>c1. c = Inr c1 \<and> conclude L X E operation (descriptor rt operation) action args c1 h3 = (r, h')"
    by (rule rbind_cases [OF tail2]) (auto dest: quietD [OF quiet_conclude])
  have pre: "preflight = None" using c l2 l3 assms(2) by (auto simp: obtain_result_def split: option.splits)
  then have v: "validate_arguments rt J operation args = Inr problem" using prep2 checked_def by simp
  obtain c0 h30 where call: "call_operation rt J (\<lambda>n. su_control E (n + 3)) operation args (Some (propose L X E operation)) False (fst decision) h2 = (c0, h30)"
    by (cases "call_operation rt J (\<lambda>n. su_control E (n + 3)) operation args (Some (propose L X E operation)) False (fst decision) h2")
  have h3: "h3 = h30" and c1: "c = map_sum id (with_preflight operation args) c0"
    using c call pre by (auto simp: obtain_result_def rbind_eq)
  have ne: "hn_log h30 \<noteq> hn_log h2" using l2 l3 assms(2) h3 by simp
  have "\<exists>d enabled args'. descriptor rt operation = Some d \<and> validate_arguments rt J operation args = Inr None"
    using handler_call_log [OF call ne] by blast
  then obtain d where d: "descriptor rt operation = Some d" "problem = None" using v by auto
  show thesis
  proof (rule that [of operation d args decision h1 action h2 c0 h30])
    show "decide_authority rt X E operation (doc_fields args) h = (Inr decision, h1)" using dec d by simp
    then show "hn_proposal_evidence h2 = hn_proposal_evidence h" using act by (auto dest!: decide_proposal start_proposal)
    show "\<exists>c1. c0 = Inr c1 \<and> conclude L X E operation (Some d) action args (with_preflight operation args c1) h30 = (r, h')" if "r = Inr x" for x
      using done1 [OF that] c1 d(1) h3 by (cases c0) auto
  qed (use d act v call l2 l3 h3 in auto)
qed

lemma handler_reaches_call:
  assumes "tool_handler L rt J X E name arguments h = (r, h')" "hn_log h' \<noteq> hn_log h"
  obtains h0 where "hn_tables h0 = su_others E 0 (hn_tables h)" "hn_log h0 = hn_log h" "hn_proposal_evidence h0 = None"
    "name = ''atlas_capability_call''" "capability_call L rt J X E arguments h0 = (r, h')"
proof (rule rbind_cases [OF assms(1) [unfolded tool_handler_def]])
  fix e assume "in_session (su_others E 0) (\<lambda>db. ebind (live X db) (\<lambda>_. Inr ((), db))) h = (Inl e, h')"
  then show thesis using assms(2) quietD [OF quiet_basic(3)] by blast
next
  fix u h1 assume h1: "in_session (su_others E 0) (\<lambda>db. ebind (live X db) (\<lambda>_. Inr ((), db))) h = (Inr u, h1)"
    and rest: "(let h0 = h1\<lparr>hn_proposal_evidence := None\<rparr> in
      if name = ''atlas_capability_search'' then capability_search L rt X E arguments h0
      else if name \<noteq> ''atlas_capability_call''
      then ret [(''status'', JStr ''unavailable''), (''message'', JStr ''Unknown Atlas capability control tool.'')] h0
      else capability_call L rt J X E arguments h0) = (r, h')"
  have t: "hn_tables h1 = su_others E 0 (hn_tables h)" "hn_log h1 = hn_log h"
    using h1 by (auto simp: in_session_def Let_def ebind_Inr split: sum.splits)
  have "name = ''atlas_capability_call''"
    using rest assms(2) t(2) by (auto simp: Let_def split: if_splits dest!: quietD [OF quiet_search])
  then show thesis using that [of "h1\<lparr>hn_proposal_evidence := None\<rparr>"] t rest by (simp add: Let_def)
qed

text \<open>C8: The model cannot reach an executor past the owner. A tool call hands over at most one operation, which is
  registered, of a capability that is enabled when it is called, with valid arguments. Either the decision found
  it permitted (automatic by the owner's settings or the policy of the operation, or granted to the active managed
  task, and then neither prohibited nor a lifecycle operation), and unless it only reads, an executing
  action of this run with exactly these arguments was committed before; or the decision could not be made, and
  the settings read at the call made the operation automatic.\<close>

theorem governed_dispatch:
  assumes "tool_handler L rt J X E name arguments h = (r, h')"
  shows "hn_log h' = hn_log h \<or> (\<exists>p d enabled. hn_log h' = hn_log h @ [p] \<and> name = ''atlas_capability_call''
    \<and> descriptor rt (dp_operation p) = Some d \<and> enabled_capabilities rt (su_control E 3) = Inr enabled \<and> od_capability_id d \<in> set enabled
    \<and> validate_arguments rt J (dp_operation p) (JObj (dp_arguments p)) = Inr None
    \<and> (permitted rt X E (dp_operation p) (dp_arguments p) (su_others E 3 (su_others E 0 (hn_tables h)))
         \<and> (od_effect d = READ \<or> (\<exists>a. begun (rx_run X) (dp_operation p) (dp_arguments p) (dp_tables p) a))
       \<or> undecided rt E (dp_operation p) (dp_arguments p)
         \<and> resolve_authority rt (su_control E 5) (dp_operation p) (dp_arguments p) = Inr AUTO))"
proof (cases "hn_log h' = hn_log h")
  case False
  obtain h0 where h0: "hn_tables h0 = su_others E 0 (hn_tables h)" "hn_log h0 = hn_log h" and name: "name = ''atlas_capability_call''"
    and call: "capability_call L rt J X E arguments h0 = (r, h')"
    by (rule handler_reaches_call [OF assms False])
  have ne: "hn_log h' \<noteq> hn_log h0" using False h0(2) by simp
  obtain operation args d decision action h1 h2 c h3 where st: "descriptor rt operation = Some d" "validate_arguments rt J operation args = Inr None"
    "decide_authority rt X E operation (doc_fields args) h0 = (Inr decision, h1)"
    "start_effect L X E operation (Some d) args None decision h1 = (Inr action, h2)"
    "call_operation rt J (\<lambda>n. su_control E (n + 3)) operation args (Some (propose L X E operation)) False (fst decision) h2 = (c, h3)"
    "hn_log h' = hn_log h3" "hn_log h2 = hn_log h0"
    by (rule capability_call_stages [OF call ne])
  obtain args1 enabled where c: "enabled_capabilities rt (su_control E 3) = Inr enabled" "od_capability_id d \<in> set enabled" "args = JObj args1"
    "(case fst decision of Some a \<Rightarrow> a = AUTO | None \<Rightarrow> resolve_authority rt (su_control E 5) operation args1 = Inr AUTO)"
    "h3 = handed operation args1 h2"
    using handler_call_log [OF st(5)] ne st(1,6,7) by auto
  have dec: "decide_authority rt X E operation args1 h0 = (Inr (fst decision, snd decision), h1)" using st(3) c(3) by (simp add: doc_fields_def)
  have started: "\<exists>a. begun (rx_run X) operation args1 (hn_tables h2) a" if "fst decision = Some AUTO" "od_effect d \<noteq> READ"
    using st(4) that c(3) by (auto simp: start_effect_def doc_fields_def rbind_eq dest!: begin_effect_begun)
  show ?thesis
    using c(4) decide_permitted [OF dec] started st(1,2,6,7) c(1,2,3,5) h0 name by (auto simp: handed_def split: option.splits)
qed simp

section \<open>A run with one automatic operation\<close>

definition mail_descriptor :: operation_descriptor where
  "mail_descriptor = \<lparr>od_id = ''mail.send'', od_capability_id = ''mail'', od_family = ''mail'', od_description = ''Send a mail.'',
     od_input_schema = [], od_effect = EXECUTE, od_authority = AUTO, od_trust = ''external''\<rparr>"

definition mail_runtime :: capability_runtime where
  "mail_runtime = \<lparr>cr_operations = [(''mail.send'', mail_descriptor)], cr_executors = [(''mail.send'', \<lambda>_. Returned (JObj [(''id'', JStr ''m1'')]))],
     cr_resolvers = [], cr_policy_reader = False, cr_authority_reader = True\<rparr>"

definition mail_executor :: run_executor where
  "mail_executor = \<lparr>rx_run = ''r'', rx_transcript = ''t'', rx_checkpoint = False\<rparr>"

definition readable :: control_reading where
  "readable = \<lparr>cl_enabled = Inr [], cl_authority = Inr []\<rparr>"

definition alone :: "(nat \<Rightarrow> control_reading) \<Rightarrow> work_db surroundings" where
  "alone c = \<lparr>su_clock = (\<lambda>_. 5), su_control = c, su_others = (\<lambda>_ db. db), su_session_id = ''s''\<rparr>"

definition mail_arguments :: json_obj where
  "mail_arguments = [(''operation_id'', JStr ''mail.send''), (''arguments'', JObj [])]"

definition idle :: "work_db handler" where
  "idle = \<lparr>hn_tables = one_run, hn_log = [], hn_artifacts = [], hn_proposal_evidence = None\<rparr>"

definition send_mail :: "(nat \<Rightarrow> control_reading) \<Rightarrow> (runtime_error + json_obj) \<times> work_db handler" where
  "send_mail c = tool_handler plain_lib mail_runtime (\<lambda>_ _. Conforms) mail_executor (alone c) ''atlas_capability_call'' mail_arguments idle"

lemma send_mail_run:
  "(case send_mail (\<lambda>_. readable) of (r, h) \<Rightarrow> (isl r, map (\<lambda>p. (dp_operation p, dp_arguments p)) (hn_log h))) = (False, [(''mail.send'', [])])"
  by code_simp

lemma mail_sel: "descriptor mail_runtime ''mail.send'' = Some mail_descriptor" "od_effect mail_descriptor \<noteq> READ"
  "\<not> undecided mail_runtime (alone (\<lambda>_. readable)) ''mail.send'' []" "rx_run mail_executor = ''r''" "hn_log idle = []"
  by (code_simp, simp add: mail_descriptor_def, code_simp, simp add: mail_executor_def, simp add: idle_def)

lemma send_mail_outcome:
  obtains result h' p where "send_mail (\<lambda>_. readable) = (Inr result, h')" "hn_log h' = [p]" "dp_operation p = ''mail.send''" "dp_arguments p = []"
proof (cases "send_mail (\<lambda>_. readable)")
  case (Pair r h')
  then show thesis using send_mail_run that by (cases r) (auto simp: map_eq_Cons_conv)
qed

theorem governed_dispatch_witness:
  "\<exists>r h' p a. send_mail (\<lambda>_. readable) = (r, h') \<and> hn_log h' = [p] \<and> begun ''r'' ''mail.send'' [] (dp_tables p) a"
proof -
  obtain result h' p where m: "send_mail (\<lambda>_. readable) = (Inr result, h')" "hn_log h' = [p]" "dp_operation p = ''mail.send''" "dp_arguments p = []"
    by (rule send_mail_outcome)
  show ?thesis
    using governed_dispatch [OF m(1) [unfolded send_mail_def]] m mail_sel by auto
qed

section \<open>The outcome reaches the ledger\<close>

lemma announce_keeps:
  assumes "announce_change L run_id output db = Inr db'"
  shows "wd_actions db' = wd_actions db"
proof -
  obtain att l db1 where "insert_attention att (ledger db1) = Inr l" "db' = put_ledger l db1" "wd_actions db1 = wd_actions db"
    using assms unfolding announce_change_def fresh_id_def prod.case on_ledger_def ebind_Inr the_row_Inr in_ledger_Inr sum.inject
    by (elim exE conjE) force
  then show ?thesis by (auto simp: insert_attention_def put_ledger_def split: if_splits)
qed

lemma complete_status:
  assumes "complete L now att_id i status result ext l = Inr l'"
  shows "\<exists>b. get_action i l' = Some b \<and> ac_status b = status \<and> status \<noteq> EXECUTING"
proof -
  obtain a f where a: "get_action i l = Some a" "status \<in> {ASUCCEEDED, AFAILED, AUNCERTAIN}"
    "f = completed_row now status (completion_evidence a result ext)"
    and fin: "(if status = AUNCERTAIN then mark_uncertain L att_id (f a) None (upd_action i f l)
         else resolve_attention_and_run now (f a) (upd_action i f l)) = Inr l'"
    using assms by (auto simp: complete_Inr)
  have "db_actions l' = db_actions (upd_action i f l)"
    using fin mark_uncertain_frames(1) resolve_actions by (metis (full_types))
  then have "get_action i l' = Some (f a)" using a(1,3) by (simp add: get_action_def upd_action_def tget_tset)
  then show ?thesis using a(2,3) by auto
qed

lemma finish_action_status:
  assumes "finish_action L X now i r args db = Inr ((evidence_id, frozen), db')"
  shows "\<exists>b. tget ac_id i (wd_actions db') = Some b \<and> ac_status b \<noteq> EXECUTING
    \<and> json_get ''action_status'' frozen = Some (JStr (action_status_value (ac_status b)))"
proof -
  let ?status = "action_status_for_result r"
  obtain a where a: "tget ac_id i (wd_actions db) = Some a" using assms by (auto simp: finish_action_def ebind_Inr the_row_Inr)
  show ?thesis
  proof (cases "ac_status a = EXECUTING")
    case True
    obtain fz att db2 db3 where st: "on_ledger (complete (lib.truncate L) now att i ?status [(''status'', JStr (rs_status r)), (''evidence_id'', JStr evidence_id)]
          (external_effect_id (rs_output r))) db2 = Inr db3"
      "(if staged_change r then announce_change L (rx_run X) (doc_fields (rs_output r)) db3 else Inr db3) = Inr db'"
      "frozen = json_put ''action_status'' (JStr (action_status_value ?status)) fz"
      using assms a True by (auto simp: finish_action_def ebind_Inr Let_def fresh_id_def)
    have keep: "wd_actions db' = wd_actions db3" using st(2) by (auto split: if_splits dest: announce_keeps)
    obtain l where l: "complete (lib.truncate L) now att i ?status [(''status'', JStr (rs_status r)), (''evidence_id'', JStr evidence_id)]
          (external_effect_id (rs_output r)) (ledger db2) = Inr l" "db3 = put_ledger l db2"
      using st(1) by (auto simp: on_ledger_def ebind_Inr)
    show ?thesis using complete_status [OF l(1)] keep st(3) by (auto simp: l(2) put_ledger_def get_action_def)
  next
    case False
    obtain x fz db1 where st: "record_observation L now (rx_transcript X) (observe X (rs_operation_id r) ''late_result''
        (result_json r) (Some i) args ''external'') db = Inr ((x, fz), db1)" "db' = note_evidence ''late_result_evidence_id'' i x db1"
      "frozen = json_put ''late_reported_status'' (JStr (rs_status r)) (json_put ''status'' (JStr (action_status_value (ac_status a)))
        (json_put ''action_status'' (JStr (action_status_value (ac_status a))) fz))"
      using assms a False by (auto simp: finish_action_def ebind_Inr Let_def)
    have "wd_actions db1 = wd_actions db" using record_observation_keeps [OF st(1)] by (simp add: ledger_kept_def)
    then show ?thesis using a False by (simp add: st(2,3) note_evidence_def tget_tset)
  qed
qed

lemma payload_status: "json_get ''action_status'' (payload c evidence_id frozen) = json_get ''action_status'' frozen"
  by (simp add: payload_def Let_def split: option.split json.split)

lemma remember_keeps:
  "remember_output_artifact c h = (r, h') \<Longrightarrow> r = Inr () \<and> hn_tables h' = hn_tables h \<and> hn_proposal_evidence h' = hn_proposal_evidence h"
  by (auto simp: remember_output_artifact_def Let_def split: if_splits option.splits json.splits)

lemma conclude_settled:
  assumes "conclude L X E operation d (Some i) args c h = (Inr result, h')" "hn_proposal_evidence h = None"
  shows "\<exists>b. tget ac_id i (wd_actions (hn_tables h')) = Some b \<and> ac_status b \<noteq> EXECUTING
    \<and> json_get ''action_status'' result = Some (JStr (action_status_value (ac_status b)))"
proof -
  obtain h1 evidence_id frozen where h1: "hn_proposal_evidence h1 = None"
    and settle: "settle L X E operation d (Some i) c args h1 = (Inr (evidence_id, frozen), h')" and result: "result = payload c evidence_id frozen"
    using assms by (auto simp: conclude_def rbind_eq dest!: remember_keeps)
  obtain db where fin: "finish_action L X (su_clock E 5) i c args (su_others E 5 (hn_tables h1)) = Inr ((evidence_id, frozen), db)"
    and h': "hn_tables h' = db"
    using settle h1 by (auto simp: settle_def in_session_def Let_def split: sum.splits)
  show ?thesis using finish_action_status [OF fin] by (simp add: h' result payload_status)
qed

text \<open>C9: No automatic effect is left open by its handler. When the handler answers a call whose decision was made and that is
  more than a reading, the executing action that was committed before the dispatch has left that state in the
  final tables, by this handler or by another process in the meantime, and the answer reports its status.\<close>

theorem effect_settled:
  assumes "tool_handler L rt J X E name arguments h = (Inr result, h')" "hn_log h' = hn_log h @ [p]"
    "descriptor rt (dp_operation p) = Some d" "od_effect d \<noteq> READ" "\<not> undecided rt E (dp_operation p) (dp_arguments p)"
  shows "\<exists>a b. begun (rx_run X) (dp_operation p) (dp_arguments p) (dp_tables p) a
    \<and> tget ac_id (ac_id a) (wd_actions (hn_tables h')) = Some b \<and> ac_status b \<noteq> EXECUTING
    \<and> json_get ''action_status'' result = Some (JStr (action_status_value (ac_status b)))"
proof -
  have ne0: "hn_log h' \<noteq> hn_log h" using assms(2) by simp
  obtain h0 where h0: "hn_log h0 = hn_log h" "hn_proposal_evidence h0 = None" "capability_call L rt J X E arguments h0 = (Inr result, h')"
    by (rule handler_reaches_call [OF assms(1) ne0])
  have ne: "hn_log h' \<noteq> hn_log h0" using ne0 h0(1) by simp
  obtain operation args d' decision action h1 h2 c h3 where st: "descriptor rt operation = Some d'"
    "decide_authority rt X E operation (doc_fields args) h0 = (Inr decision, h1)"
    "start_effect L X E operation (Some d') args None decision h1 = (Inr action, h2)"
    "call_operation rt J (\<lambda>n. su_control E (n + 3)) operation args (Some (propose L X E operation)) False (fst decision) h2 = (c, h3)"
    "hn_log h' = hn_log h3" "hn_log h2 = hn_log h0" "hn_proposal_evidence h2 = hn_proposal_evidence h0"
    and fin: "\<And>x. Inr result = Inr x \<Longrightarrow> \<exists>c1. c = Inr c1 \<and> conclude L X E operation (Some d') action args (with_preflight operation args c1) h3 = (Inr result, h')"
    by (rule capability_call_stages [OF h0(3) ne]) blast
  obtain args1 where c: "args = JObj args1" "case fst decision of Some a \<Rightarrow> a = AUTO | None \<Rightarrow> True" "h3 = handed operation args1 h2"
    using handler_call_log [OF st(4)] ne st(5,6) by (auto split: option.splits)
  have p: "dp_operation p = operation" "dp_arguments p = args1" "dp_tables p = hn_tables h2" "d' = d"
    using assms(2,3) st(1,5,6) h0(1) c(3) by (auto simp: handed_def)
  have dec: "decide_authority rt X E operation args1 h0 = (Inr (fst decision, snd decision), h1)" using st(2) c(1) by (simp add: doc_fields_def)
  have auto_decision: "fst decision = Some AUTO" using decide_permitted(2) [OF dec] assms(5) c(2) p by (auto split: option.splits)
  obtain i where i: "action = Some i" "begin_effect L X E operation d args1 (snd decision) h1 = (Inr i, h2)"
    using st(3) auto_decision assms(4) p(4) c(1) by (auto simp: start_effect_def doc_fields_def rbind_eq)
  obtain c1 where "conclude L X E operation (Some d') (Some i) args (with_preflight operation args c1) h3 = (Inr result, h')"
    using fin [OF refl] unfolding i(1) by (elim exE conjE) (rule that)
  from conclude_settled [OF this] begin_effect_begun [OF i(2)] show ?thesis
    using st(7) h0(2) c(3) p by (auto simp: handed_def)
qed

theorem effect_settled_witness:
  "\<exists>result h' p a b. send_mail (\<lambda>_. readable) = (Inr result, h') \<and> hn_log h' = [p] \<and> begun ''r'' ''mail.send'' [] (dp_tables p) a
     \<and> tget ac_id (ac_id a) (wd_actions (hn_tables h')) = Some b \<and> ac_status b \<noteq> EXECUTING"
proof -
  obtain result h' p where m: "send_mail (\<lambda>_. readable) = (Inr result, h')" "hn_log h' = [p]" "dp_operation p = ''mail.send''" "dp_arguments p = []"
    by (rule send_mail_outcome)
  have "\<exists>a b. begun (rx_run mail_executor) (dp_operation p) (dp_arguments p) (dp_tables p) a
      \<and> tget ac_id (ac_id a) (wd_actions (hn_tables h')) = Some b \<and> ac_status b \<noteq> EXECUTING
      \<and> json_get ''action_status'' result = Some (JStr (action_status_value (ac_status b)))"
    by (rule effect_settled [OF m(1) [unfolded send_mail_def]]) (use m mail_sel in auto)
  then show ?thesis using m mail_sel by auto
qed

section \<open>An undecided call\<close>

text \<open>C10: The two readings of the authority can disagree. When the settings cannot be read at the decision but at the call,
  an operation they make automatic is dispatched although the handler has committed nothing: the tables at the
  dispatch are those the other processes left, whatever the operation does.\<close>

theorem unresolved_effect_unrecorded:
  assumes "live X (su_others E 0 (hn_tables h)) = Inr run" "json_or ''operation_id'' arguments [] = operation"
    "json_get ''arguments'' arguments = Some (JObj args)" "operation \<noteq> ''workspace.tasks.create''" "operation \<noteq> ''coding.agent.start_session''"
    "descriptor rt operation = Some d" "od_authority d \<noteq> FORBIDDEN" "map_of (cr_executors rt) operation = Some ex"
    "validate_arguments rt J operation (JObj args) = Inr None" "resolve_authority rt (su_control E 1) operation args = Inl e"
    "enabled_capabilities rt (su_control E 3) = Inr enabled" "od_capability_id d \<in> set enabled"
    "resolve_authority rt (su_control E 5) operation args = Inr AUTO"
  shows "hn_log (snd (tool_handler L rt J X E ''atlas_capability_call'' arguments h)) =
    hn_log h @ [\<lparr>dp_operation = operation, dp_arguments = args, dp_tables = su_others E 0 (hn_tables h)\<rparr>]"
proof -
  define h0 where "h0 = h\<lparr>hn_tables := su_others E 0 (hn_tables h), hn_proposal_evidence := None\<rparr>"
  have first: "tool_handler L rt J X E ''atlas_capability_call'' arguments h = capability_call L rt J X E arguments h0"
    using assms(1) by (simp add: tool_handler_def rbind_def in_session_def Let_def h0_def)
  have prep: "prepared_arguments rt X E operation (JObj args) = Inr (JObj args, None)"
    using assms(4,5) by (simp add: prepared_arguments_def)
  have decide: "decide_authority rt X E operation args h0 = (Inr (None, False), h0)"
    using assms(10) by (simp add: decide_authority_def)
  have readings: "(0::nat) + 3 = 3" "(2::nat) + 3 = 5" by simp_all
  have called: "call_operation rt J (\<lambda>n. su_control E (n + 3)) operation (JObj args) (Some (propose L X E operation)) False None h0
      = (Inr (execution_result operation (ex args)), handed operation args h0)"
    using assms(6-9,11-13)
    by (simp add: call_operation_def statically_forbidden_def perform_def rbind_def dispatch_def handed_def doc_fields_def readings del: add_2_eq_Suc')
  have whole: "capability_call L rt J X E arguments h0 = conclude L X E operation (Some d) None (JObj args)
      (with_preflight operation (JObj args) (execution_result operation (ex args))) (handed operation args h0)"
    using assms(2,3,6,9) prep decide called
    by (simp add: capability_call_def Let_def rbind_def [of "decide_authority rt X E operation args"] start_effect_def obtain_result_def
        rbind_def [of "call_operation rt J c i a k g b" for c i a k g b] rbind_def [of "\<lambda>h. rbind m f h" for m f] doc_fields_def)
  have "hn_log (snd (capability_call L rt J X E arguments h0)) = hn_log (handed operation args h0)"
    unfolding whole by (rule quietD [OF quiet_conclude prod.collapse [symmetric]])
  then show ?thesis by (simp add: first handed_def h0_def)
qed

definition unreadable_once :: "nat \<Rightarrow> control_reading" where
  "unreadable_once n = (if n = 1 then readable\<lparr>cl_authority := Inl ''timeout''\<rparr> else readable)"

theorem unresolved_effect_unrecorded_witness:
  "hn_log (snd (send_mail unreadable_once)) = [\<lparr>dp_operation = ''mail.send'', dp_arguments = [], dp_tables = one_run\<rparr>] \<and> wd_actions one_run = []"
proof -
  have l: "live mail_executor (su_others (alone unreadable_once) 0 (hn_tables idle)) = Inr worker_run"
    by (simp add: idle_def alone_def) code_simp
  have e: "resolve_authority mail_runtime (su_control (alone unreadable_once) 1) ''mail.send'' [] = Inl (Unreadable ''timeout'')"
    by (simp add: alone_def) code_simp
  have enabled: "enabled_capabilities mail_runtime (su_control (alone unreadable_once) 3) = Inr [''mail'', ''openai.web'']"
    by (simp add: alone_def) code_simp
  have again: "resolve_authority mail_runtime (su_control (alone unreadable_once) 5) ''mail.send'' [] = Inr AUTO"
    by (simp add: alone_def) code_simp
  have v: "validate_arguments mail_runtime (\<lambda>_ _. Conforms) ''mail.send'' (JObj []) = Inr None" by code_simp
  have "hn_log (snd (send_mail unreadable_once)) = hn_log idle @
      [\<lparr>dp_operation = ''mail.send'', dp_arguments = [], dp_tables = su_others (alone unreadable_once) 0 (hn_tables idle)\<rparr>]"
    unfolding send_mail_def
    by (rule unresolved_effect_unrecorded [OF l _ _ _ _ mail_sel(1) _ _ v e enabled _ again])
      (simp_all add: mail_arguments_def json_or_def json_true_def mail_descriptor_def mail_runtime_def)
  then show ?thesis by (simp add: idle_def alone_def) code_simp
qed

end
