(* ===== verification/Owner_Auth.thy ===== *)
theory Owner_Auth
  imports Config_Text
begin

text \<open>
  The owner's passkey sign-in (\<^verbatim>\<open>auth/service.py\<close>, the rate limit of \<^verbatim>\<open>auth/api.py\<close>): enrolment with a one-time code,
  login challenges, sessions known by the digest of their token. WebAuthn, base64url and the digest are outside
  code (\<open>webauthn\<close>). The two verifying operations read without locks and write at the end of their transaction, so
  each is a check and a write between which other transactions may commit.
\<close>

section \<open>Tables\<close>

record challenge_row =
  cg_id :: uuid
  cg_kind :: string
  cg_challenge :: string
  cg_user_handle :: "string option"
  cg_expires_at :: time

record credential_row =
  ky_id :: uuid
  ky_credential_id :: string
  ky_public_key :: string
  ky_sign_count :: int
  ky_user_handle :: string
  ky_transports :: "string list"
  ky_device_type :: "string option"
  ky_backed_up :: bool
  ky_last_used_at :: "time option"

record session_row =
  ss_id :: uuid
  ss_token_hash :: string
  ss_expires_at :: time
  ss_last_seen_at :: time

text \<open>The tables, the file with the enrolment code and the marker file.\<close>

record owner_db =
  ow_challenges :: "challenge_row list"
  ow_credentials :: "credential_row list"
  ow_sessions :: "session_row list"
  ow_code_file :: "string option"
  ow_marker_file :: "string option"

record auth_settings =
  as_rp_id :: string
  as_origin :: string
  as_session_hours :: int

record registration_proof =
  rp_credential_id :: string
  rp_public_key :: string
  rp_sign_count :: int
  rp_device_type :: "string option"
  rp_backed_up :: bool

record login_proof =
  lp_sign_count :: int
  lp_device_type :: "string option"
  lp_backed_up :: bool

record webauthn =
  wa_registration :: "json_obj \<Rightarrow> string \<Rightarrow> string \<Rightarrow> string \<Rightarrow> string + registration_proof"
  wa_login :: "json_obj \<Rightarrow> string \<Rightarrow> string \<Rightarrow> string \<Rightarrow> string \<Rightarrow> int \<Rightarrow> string + login_proof"
  wa_base64url :: "string \<Rightarrow> string option"
  wa_sha256 :: "string \<Rightarrow> string"

datatype owner_error =
    AuthValueError string
  | AuthPermissionError string
  | AuthTypeError
  | AuthIntegrityError
  | TooManyAttempts

definition minutes :: "int \<Rightarrow> time" where
  "minutes n = n * 60000000"

definition hours :: "int \<Rightarrow> time" where
  "hours n = n * 3600000000"

section \<open>Enrolment code and expiry\<close>

definition is_enrolled :: "owner_db \<Rightarrow> bool" where
  "is_enrolled db = (ow_credentials db \<noteq> [])"

definition ascii :: "string \<Rightarrow> bool" where
  "ascii s = list_all (\<lambda>c. (of_char c :: nat) < 128) s"

text \<open>\<^verbatim>\<open>hmac.compare_digest\<close> takes ASCII texts only.\<close>

definition enrollment_code_valid :: "string \<Rightarrow> owner_db \<Rightarrow> owner_error + bool" where
  "enrollment_code_valid supplied db = (case ow_code_file db of
     None \<Rightarrow> Inr False
   | Some content \<Rightarrow>
       if supplied = [] then Inr False
       else if ascii (strip supplied) \<and> ascii (strip content) then Inr (strip supplied = strip content)
       else Inl AuthTypeError)"

definition prune_expired :: "time \<Rightarrow> owner_db \<Rightarrow> owner_db" where
  "prune_expired now db = db\<lparr>ow_challenges := filter (\<lambda>c. now < cg_expires_at c) (ow_challenges db),
     ow_sessions := filter (\<lambda>s. now < ss_expires_at s) (ow_sessions db)\<rparr>"

definition add_challenge :: "challenge_row \<Rightarrow> owner_db \<Rightarrow> owner_error + owner_db" where
  "add_challenge c db = (if tget cg_id (cg_id c) (ow_challenges db) \<noteq> None then Inl AuthIntegrityError
     else Inr (db\<lparr>ow_challenges := tadd c (ow_challenges db)\<rparr>))"

definition registration_options ::
  "time \<Rightarrow> uuid \<Rightarrow> string \<Rightarrow> string \<Rightarrow> string \<Rightarrow> owner_db \<Rightarrow> owner_error + (uuid \<times> owner_db)" where
  "registration_options now new_id challenge user_handle enrollment_code db =
    (let db1 = prune_expired now db in
     ebind (require (\<not> is_enrolled db1) (AuthValueError ''Atlas already has an owner passkey'')) (\<lambda>_.
     ebind (enrollment_code_valid enrollment_code db1) (\<lambda>valid.
     ebind (require valid (AuthPermissionError ''Invalid enrollment code'')) (\<lambda>_.
     ebind (add_challenge \<lparr>cg_id = new_id, cg_kind = ''register'', cg_challenge = challenge, cg_user_handle = Some user_handle,
       cg_expires_at = now + minutes 5\<rparr> db1) (\<lambda>db2. Inr (new_id, db2))))))"

definition login_options :: "time \<Rightarrow> uuid \<Rightarrow> string \<Rightarrow> owner_db \<Rightarrow> owner_error + (uuid \<times> owner_db)" where
  "login_options now new_id challenge db =
    (let db1 = prune_expired now db in
     ebind (require (ow_credentials db1 \<noteq> []) (AuthValueError ''Atlas has no enrolled owner passkey'')) (\<lambda>_.
     ebind (add_challenge \<lparr>cg_id = new_id, cg_kind = ''login'', cg_challenge = challenge, cg_user_handle = None,
       cg_expires_at = now + minutes 5\<rparr> db1) (\<lambda>db2. Inr (new_id, db2))))"

text \<open>The deletion of an expired challenge is rolled back with the request that raises.\<close>

definition find_challenge :: "time \<Rightarrow> uuid \<Rightarrow> string \<Rightarrow> owner_db \<Rightarrow> owner_error + challenge_row" where
  "find_challenge now i kind db = (case tget cg_id i (ow_challenges db) of
     None \<Rightarrow> Inl (AuthValueError ''Authentication challenge was not found'')
   | Some c \<Rightarrow>
       if cg_kind c \<noteq> kind then Inl (AuthValueError ''Authentication challenge was not found'')
       else if cg_expires_at c \<le> now then Inl (AuthValueError ''Authentication challenge expired'')
       else Inr c)"

definition drop_challenge :: "uuid \<Rightarrow> owner_db \<Rightarrow> owner_db" where
  "drop_challenge i db = db\<lparr>ow_challenges := filter (\<lambda>c. cg_id c \<noteq> i) (ow_challenges db)\<rparr>"

section \<open>Sessions\<close>

definition create_session :: "webauthn \<Rightarrow> auth_settings \<Rightarrow> time \<Rightarrow> uuid \<Rightarrow> string \<Rightarrow> owner_db \<Rightarrow> owner_error + owner_db" where
  "create_session W S now new_id token db =
    (let db1 = prune_expired now db; h = wa_sha256 W token in
     if tget ss_id new_id (ow_sessions db1) \<noteq> None \<or> tget ss_token_hash h (ow_sessions db1) \<noteq> None then Inl AuthIntegrityError
     else Inr (db1\<lparr>ow_sessions := tadd \<lparr>ss_id = new_id, ss_token_hash = h, ss_expires_at = now + hours (as_session_hours S),
       ss_last_seen_at = now\<rparr> (ow_sessions db1)\<rparr>))"

definition validate_session :: "webauthn \<Rightarrow> time \<Rightarrow> string option \<Rightarrow> owner_db \<Rightarrow> session_row option \<times> owner_db" where
  "validate_session W now token db = (case token of
     None \<Rightarrow> (None, db)
   | Some tok \<Rightarrow>
       if tok = [] then (None, db)
       else (case tget ss_token_hash (wa_sha256 W tok) (ow_sessions db) of
           None \<Rightarrow> (None, db)
         | Some s \<Rightarrow>
             if ss_expires_at s \<le> now then (None, db\<lparr>ow_sessions := filter (\<lambda>x. ss_id x \<noteq> ss_id s) (ow_sessions db)\<rparr>)
             else (let s1 = (if ss_last_seen_at s \<le> now - minutes 5 then s\<lparr>ss_last_seen_at := now\<rparr> else s) in
               (Some s1, db\<lparr>ow_sessions := tset ss_id (ss_id s) (\<lambda>_. s1) (ow_sessions db)\<rparr>))))"

definition logout :: "webauthn \<Rightarrow> string option \<Rightarrow> owner_db \<Rightarrow> owner_db" where
  "logout W token db = (case token of
     None \<Rightarrow> db
   | Some tok \<Rightarrow> if tok = [] then db
       else db\<lparr>ow_sessions := filter (\<lambda>s. ss_token_hash s \<noteq> wa_sha256 W tok) (ow_sessions db)\<rparr>)"

section \<open>Verification\<close>

definition response_transports :: "json_obj \<Rightarrow> owner_error + string list" where
  "response_transports credential = (case json_get ''response'' credential of
     Some (JObj r) \<Rightarrow> (case json_get ''transports'' r of
         None \<Rightarrow> Inr []
       | Some (JList xs) \<Rightarrow> Inr (map py_str xs)
       | Some (JStr s) \<Rightarrow> Inr (map (\<lambda>c. [c]) s)
       | Some (JObj d) \<Rightarrow> Inr (map fst d)
       | Some _ \<Rightarrow> Inl AuthTypeError)
   | _ \<Rightarrow> Inr [])"

definition check_registration ::
  "webauthn \<Rightarrow> auth_settings \<Rightarrow> time \<Rightarrow> uuid \<Rightarrow> string \<Rightarrow> json_obj \<Rightarrow> owner_db \<Rightarrow> owner_error + (challenge_row \<times> credential_row)" where
  "check_registration W S now challenge_id enrollment_code credential db =
    ebind (require (\<not> is_enrolled db) (AuthValueError ''Atlas already has an owner passkey'')) (\<lambda>_.
    ebind (enrollment_code_valid enrollment_code db) (\<lambda>valid.
    ebind (require valid (AuthPermissionError ''Invalid enrollment code'')) (\<lambda>_.
    ebind (find_challenge now challenge_id ''register'' db) (\<lambda>c.
    ebind (map_sum (\<lambda>m. AuthPermissionError (''Passkey registration failed: '' @ m)) id
        (wa_registration W credential (cg_challenge c) (as_rp_id S) (as_origin S))) (\<lambda>p.
    ebind (response_transports credential) (\<lambda>transports.
    Inr (c, \<lparr>ky_id = [], ky_credential_id = rp_credential_id p, ky_public_key = rp_public_key p, ky_sign_count = rp_sign_count p,
      ky_user_handle = (case cg_user_handle c of Some u \<Rightarrow> u | None \<Rightarrow> []), ky_transports = transports,
      ky_device_type = rp_device_type p, ky_backed_up = rp_backed_up p, ky_last_used_at = None\<rparr>)))))))"

definition write_registration ::
  "webauthn \<Rightarrow> auth_settings \<Rightarrow> time \<Rightarrow> uuid \<Rightarrow> uuid \<Rightarrow> string \<Rightarrow> challenge_row \<times> credential_row \<Rightarrow> owner_db \<Rightarrow> owner_error + owner_db" where
  "write_registration W S now key_id session_id token plan db =
    (let k = (snd plan)\<lparr>ky_id := key_id\<rparr> in
     if tget ky_id key_id (ow_credentials db) \<noteq> None \<or> tget ky_credential_id (ky_credential_id k) (ow_credentials db) \<noteq> None
     then Inl AuthIntegrityError
     else create_session W S now session_id token
       (drop_challenge (cg_id (fst plan)) (db\<lparr>ow_credentials := tadd k (ow_credentials db)\<rparr>)))"

definition verify_registration ::
  "webauthn \<Rightarrow> auth_settings \<Rightarrow> time \<Rightarrow> uuid \<Rightarrow> string \<Rightarrow> json_obj \<Rightarrow> uuid \<Rightarrow> uuid \<Rightarrow> string \<Rightarrow> owner_db \<Rightarrow> owner_error + owner_db" where
  "verify_registration W S now challenge_id enrollment_code credential key_id session_id token db =
    ebind (check_registration W S now challenge_id enrollment_code credential db) (\<lambda>plan.
    write_registration W S now key_id session_id token plan db)"

definition finalize_enrollment :: "owner_db \<Rightarrow> owner_db" where
  "finalize_enrollment db = db\<lparr>ow_marker_file := Some (''enrolled'' @ [NEWLINE]), ow_code_file := None\<rparr>"

record login_plan =
  pn_challenge :: challenge_row
  pn_key :: credential_row
  pn_response :: json_obj
  pn_proof :: login_proof

definition check_login ::
  "webauthn \<Rightarrow> auth_settings \<Rightarrow> time \<Rightarrow> uuid \<Rightarrow> json_obj \<Rightarrow> owner_db \<Rightarrow> owner_error + login_plan" where
  "check_login W S now challenge_id credential db =
    ebind (find_challenge now challenge_id ''login'' db) (\<lambda>c.
    ebind (case json_get ''id'' credential of Some (JStr s) \<Rightarrow> Inr s
       | _ \<Rightarrow> Inl (AuthPermissionError ''Passkey credential id is missing'')) (\<lambda>s.
    ebind (the_row (wa_base64url W s) (AuthValueError ''Invalid base64-encoded string'')) (\<lambda>credential_id.
    ebind (the_row (tget ky_credential_id credential_id (ow_credentials db))
      (AuthPermissionError ''Passkey is not enrolled for Atlas'')) (\<lambda>k.
    ebind (map_sum (\<lambda>m. AuthPermissionError (''Passkey authentication failed: '' @ m)) id
        (wa_login W credential (cg_challenge c) (as_rp_id S) (as_origin S) (ky_public_key k) (ky_sign_count k))) (\<lambda>p.
    Inr \<lparr>pn_challenge = c, pn_key = k, pn_response = credential, pn_proof = p\<rparr>)))))"

definition write_login ::
  "webauthn \<Rightarrow> auth_settings \<Rightarrow> time \<Rightarrow> uuid \<Rightarrow> string \<Rightarrow> login_plan \<Rightarrow> owner_db \<Rightarrow> owner_error + owner_db" where
  "write_login W S now session_id token plan db =
    create_session W S now session_id token (drop_challenge (cg_id (pn_challenge plan))
      (db\<lparr>ow_credentials := tset ky_id (ky_id (pn_key plan)) (\<lambda>k. k\<lparr>ky_sign_count := lp_sign_count (pn_proof plan),
         ky_device_type := Some (case lp_device_type (pn_proof plan) of Some d \<Rightarrow> d | None \<Rightarrow> ''None''),
         ky_backed_up := lp_backed_up (pn_proof plan), ky_last_used_at := Some now\<rparr>) (ow_credentials db)\<rparr>))"

definition verify_login ::
  "webauthn \<Rightarrow> auth_settings \<Rightarrow> time \<Rightarrow> uuid \<Rightarrow> json_obj \<Rightarrow> uuid \<Rightarrow> string \<Rightarrow> owner_db \<Rightarrow> owner_error + owner_db" where
  "verify_login W S now challenge_id credential session_id token db =
    ebind (check_login W S now challenge_id credential db) (\<lambda>plan. write_login W S now session_id token plan db)"

section \<open>The rate limit\<close>

text \<open>The attempts of each client, oldest first; they are pruned and kept also when the request is refused.\<close>

type_synonym attempts = "(string \<times> time list) list"

definition client_key :: "string \<Rightarrow> string option \<Rightarrow> attempts \<Rightarrow> string" where
  "client_key forwarded host recorded =
    (let first = strip (hd (split_on (CHR '','') forwarded));
         key = (if first \<noteq> [] then first else case host of Some h \<Rightarrow> h | None \<Rightarrow> ''unknown'') in
     if key \<notin> fst ` set recorded \<and> 4096 \<le> length recorded then ''__overflow__'' else key)"

definition rate_limit ::
  "nat \<Rightarrow> time \<Rightarrow> time \<Rightarrow> string \<Rightarrow> string option \<Rightarrow> attempts \<Rightarrow> (owner_error + unit) \<times> attempts" where
  "rate_limit limit window now forwarded host recorded =
    (let key = client_key forwarded host recorded;
         old = (case map_of recorded key of Some ts \<Rightarrow> ts | None \<Rightarrow> []);
         live = dropWhile (\<lambda>t. t \<le> now - window) old;
         others = filter (\<lambda>(k, _). k \<noteq> key) recorded
     in if limit \<le> length live then (Inl TooManyAttempts, others @ [(key, live)])
        else (Inr (), others @ [(key, live @ [now])]))"

end
