(* ===== verification/Auth_Properties.thy ===== *)
theory Auth_Properties
  imports Owner_Auth
begin

text \<open>
  Properties of the owner's sign-in: every accepted session goes back to a verified passkey response, is within its
  time and was not ended, whatever requests interleave; and a challenge can be used twice by two requests that
  overlap. The history keeps what was issued and ended, and the requests that have checked but not yet written.
\<close>

section \<open>Histories\<close>

datatype authority_grant =
    By_login login_plan time
  | By_enrolment "challenge_row \<times> credential_row" json_obj time

datatype auth_event = Issued string time authority_grant | Ended string

record auth_history =
  ah_db :: owner_db
  ah_checked :: "authority_grant list"
  ah_log :: "auth_event list"

text \<open>What a check has established at its time: the passkey answered this challenge before it expired.\<close>

fun verified :: "webauthn \<Rightarrow> auth_settings \<Rightarrow> authority_grant \<Rightarrow> bool" where
  "verified W S (By_login p t) = (cg_kind (pn_challenge p) = ''login'' \<and> t < cg_expires_at (pn_challenge p)
     \<and> wa_login W (pn_response p) (cg_challenge (pn_challenge p)) (as_rp_id S) (as_origin S) (ky_public_key (pn_key p)) (ky_sign_count (pn_key p))
       = Inr (pn_proof p))"
| "verified W S (By_enrolment p response t) = (cg_kind (fst p) = ''register'' \<and> t < cg_expires_at (fst p)
     \<and> (\<exists>proof. wa_registration W response (cg_challenge (fst p)) (as_rp_id S) (as_origin S) = Inr proof
        \<and> ky_public_key (snd p) = rp_public_key proof \<and> ky_credential_id (snd p) = rp_credential_id proof))"

inductive auth_change :: "webauthn \<Rightarrow> auth_settings \<Rightarrow> auth_history \<Rightarrow> auth_history \<Rightarrow> bool" for W S where
  ask_registration: "registration_options now i c u code (ah_db s) = Inr (j, db) \<Longrightarrow> auth_change W S s (s\<lparr>ah_db := db\<rparr>)"
| ask_login: "login_options now i c (ah_db s) = Inr (j, db) \<Longrightarrow> auth_change W S s (s\<lparr>ah_db := db\<rparr>)"
| checked_login: "check_login W S now i response (ah_db s) = Inr p \<Longrightarrow> auth_change W S s (s\<lparr>ah_checked := By_login p now # ah_checked s\<rparr>)"
| checked_registration: "check_registration W S now i code response (ah_db s) = Inr p \<Longrightarrow>
    auth_change W S s (s\<lparr>ah_checked := By_enrolment p response now # ah_checked s\<rparr>)"
| written_login: "By_login p t \<in> set (ah_checked s) \<Longrightarrow> write_login W S now i tok p (ah_db s) = Inr db \<Longrightarrow>
    auth_change W S s (s\<lparr>ah_db := db, ah_log := ah_log s @ [Issued (wa_sha256 W tok) now (By_login p t)]\<rparr>)"
| written_registration: "By_enrolment p response t \<in> set (ah_checked s) \<Longrightarrow> write_registration W S now k i tok p (ah_db s) = Inr db \<Longrightarrow>
    auth_change W S s (s\<lparr>ah_db := db, ah_log := ah_log s @ [Issued (wa_sha256 W tok) now (By_enrolment p response t)]\<rparr>)"
| used: "auth_change W S s (s\<lparr>ah_db := snd (validate_session W now tok (ah_db s))\<rparr>)"
| ended: "tok \<noteq> [] \<Longrightarrow> auth_change W S s (s\<lparr>ah_db := logout W (Some tok) (ah_db s), ah_log := ah_log s @ [Ended (wa_sha256 W tok)]\<rparr>)"
| finalized: "auth_change W S s (s\<lparr>ah_db := finalize_enrollment (ah_db s)\<rparr>)"

inductive_cases auth_change_cases: "auth_change W S s t"

section \<open>Every session was earned\<close>

definition earned :: "webauthn \<Rightarrow> auth_settings \<Rightarrow> auth_event list \<Rightarrow> string \<Rightarrow> time \<Rightarrow> bool" where
  "earned W S evs h expiry = (\<exists>before t g after. evs = before @ Issued h t g # after \<and> Ended h \<notin> set after
     \<and> expiry = t + hours (as_session_hours S) \<and> verified W S g)"

definition auth_inv :: "webauthn \<Rightarrow> auth_settings \<Rightarrow> auth_history \<Rightarrow> bool" where
  "auth_inv W S s = ((\<forall>g \<in> set (ah_checked s). verified W S g)
     \<and> (\<forall>x \<in> set (ow_sessions (ah_db s)). earned W S (ah_log s) (ss_token_hash x) (ss_expires_at x)))"

definition log_le :: "auth_history \<Rightarrow> auth_history \<Rightarrow> bool" where
  "log_le s t = (\<exists>later. ah_log t = ah_log s @ later)"

lemma earned_more: "earned W S evs h e \<Longrightarrow> Ended h \<notin> set later \<Longrightarrow> earned W S (evs @ later) h e"
  unfolding earned_def by (metis append.assoc append_Cons Un_iff set_append)

lemma earned_now: "verified W S g \<Longrightarrow> earned W S (evs @ [Issued h t g]) h (t + hours (as_session_hours S))"
  unfolding earned_def by fastforce

lemma find_challenge_Inr: "find_challenge now i kind db = Inr c \<longleftrightarrow> tget cg_id i (ow_challenges db) = Some c \<and> cg_kind c = kind \<and> now < cg_expires_at c"
  by (auto simp: find_challenge_def split: option.splits if_splits)

lemma map_sum_Inr: "map_sum f id r = Inr x \<longleftrightarrow> r = Inr x"
  by (cases r) auto

lemma checked_verified:
  "check_login W S now i response db = Inr p \<Longrightarrow> verified W S (By_login p now)"
  "check_registration W S now i code response db = Inr q \<Longrightarrow> verified W S (By_enrolment q response now)"
  by (auto simp: check_login_def check_registration_def ebind_Inr find_challenge_Inr map_sum_Inr the_row_Inr)

lemma options_sessions:
  "registration_options now i c u code db = Inr (j, db') \<Longrightarrow> set (ow_sessions db') \<subseteq> set (ow_sessions db)"
  "login_options now i c db = Inr (j, db') \<Longrightarrow> set (ow_sessions db') \<subseteq> set (ow_sessions db)"
  by (auto simp: registration_options_def login_options_def Let_def ebind_Inr add_challenge_def prune_expired_def split: if_splits)

lemma create_session_sessions:
  "create_session W S now i tok db = Inr db' \<Longrightarrow> x \<in> set (ow_sessions db') \<Longrightarrow>
     x \<in> set (ow_sessions db) \<or> ss_token_hash x = wa_sha256 W tok \<and> ss_expires_at x = now + hours (as_session_hours S)"
  by (auto simp: create_session_def Let_def prune_expired_def tadd_def split: if_splits)

lemma write_sessions:
  "write_login W S now i tok p db = Inr db' \<Longrightarrow> x \<in> set (ow_sessions db') \<Longrightarrow>
     x \<in> set (ow_sessions db) \<or> ss_token_hash x = wa_sha256 W tok \<and> ss_expires_at x = now + hours (as_session_hours S)"
  "write_registration W S now k i tok q db = Inr db' \<Longrightarrow> x \<in> set (ow_sessions db') \<Longrightarrow>
     x \<in> set (ow_sessions db) \<or> ss_token_hash x = wa_sha256 W tok \<and> ss_expires_at x = now + hours (as_session_hours S)"
  by (auto simp: write_login_def write_registration_def Let_def drop_challenge_def split: if_splits dest!: create_session_sessions)

lemma validate_sessions:
  assumes "x \<in> set (ow_sessions (snd (validate_session W now tok db)))"
  shows "\<exists>y \<in> set (ow_sessions db). ss_token_hash x = ss_token_hash y \<and> ss_expires_at x = ss_expires_at y"
proof (cases "\<exists>k y. tok = Some k \<and> k \<noteq> [] \<and> tget ss_token_hash (wa_sha256 W k) (ow_sessions db) = Some y")
  case True
  then obtain k y where k: "tok = Some k" "k \<noteq> []" "tget ss_token_hash (wa_sha256 W k) (ow_sessions db) = Some y" by blast
  have y: "y \<in> set (ow_sessions db)" using tget_key [OF k(3)] by simp
  show ?thesis using assms k y by (fastforce simp: validate_session_def Let_def set_tset split: if_splits)
next
  case False
  then show ?thesis using assms by (auto simp: validate_session_def split: option.splits if_splits)
qed

lemma logout_sessions:
  "tok \<noteq> [] \<Longrightarrow> x \<in> set (ow_sessions (logout W (Some tok) db)) \<Longrightarrow> x \<in> set (ow_sessions db) \<and> ss_token_hash x \<noteq> wa_sha256 W tok"
  by (simp add: logout_def)

lemma issue_inv:
  assumes "auth_inv W S s" "g \<in> set (ah_checked s)"
    "\<And>x. x \<in> set (ow_sessions db) \<Longrightarrow> x \<in> set (ow_sessions (ah_db s))
       \<or> ss_token_hash x = wa_sha256 W tok \<and> ss_expires_at x = now + hours (as_session_hours S)"
  shows "auth_inv W S (s\<lparr>ah_db := db, ah_log := ah_log s @ [Issued (wa_sha256 W tok) now g]\<rparr>)"
proof -
  have g: "verified W S g" using assms(1,2) by (simp add: auth_inv_def)
  have "earned W S (ah_log s @ [Issued (wa_sha256 W tok) now g]) (ss_token_hash x) (ss_expires_at x)" if "x \<in> set (ow_sessions db)" for x
    using assms(3) [OF that]
  proof
    assume "x \<in> set (ow_sessions (ah_db s))"
    then show ?thesis using assms(1) by (intro earned_more) (auto simp: auth_inv_def)
  next
    assume "ss_token_hash x = wa_sha256 W tok \<and> ss_expires_at x = now + hours (as_session_hours S)"
    then show ?thesis using earned_now [OF g] by simp
  qed
  then show ?thesis using assms(1) by (simp add: auth_inv_def)
qed

lemma auth_change_inv:
  assumes "auth_change W S s t" "auth_inv W S s"
  shows "auth_inv W S t"
  using assms
proof cases
  case (ask_registration now i c u code j db)
  then show ?thesis using assms(2) options_sessions(1) by (fastforce simp: auth_inv_def)
next
  case (ask_login now i c j db)
  then show ?thesis using assms(2) options_sessions(2) by (fastforce simp: auth_inv_def)
next
  case (written_login p v now i tok db)
  then show ?thesis using assms(2) issue_inv write_sessions(1) by blast
next
  case (written_registration p response v now k i tok db)
  then show ?thesis using assms(2) issue_inv write_sessions(2) by blast
next
  case (used now tok)
  then show ?thesis using assms(2) validate_sessions by (fastforce simp: auth_inv_def)
next
  case (ended tok)
  then show ?thesis using assms(2) logout_sessions by (fastforce simp: auth_inv_def intro!: earned_more)
qed (use assms(2) checked_verified in \<open>auto simp: auth_inv_def finalize_enrollment_def simp del: verified.simps\<close>)

interpretation sign_in: guarded_steps "auth_change W S" "auth_inv W S" log_le for W S
proof
  show "log_le s t" if "auth_change W S s t" for s t using that by cases (auto simp: log_le_def)
  show "log_le s u" if "log_le s t" "log_le t u" for s t u using that by (auto simp: log_le_def)
qed (auto simp: log_le_def intro: auth_change_inv)

text \<open>C11: A session token opens Atlas only when it was earned. Whatever requests ran and however their checks and writes
  interleaved, a token that is accepted was issued after a passkey response was verified against an unexpired
  challenge of Atlas for this site and origin, its hours have not passed since, and no later request ended it.
  (Tokens are compared by their digest.)\<close>

theorem owner_session_sound:
  assumes "(auth_change W S)\<^sup>*\<^sup>* s0 s" "ow_sessions (ah_db s0) = []" "ah_checked s0 = []"
    "fst (validate_session W now (Some tok) (ah_db s)) = Some row"
  shows "\<exists>before t g after. ah_log s = before @ Issued (wa_sha256 W tok) t g # after \<and> Ended (wa_sha256 W tok) \<notin> set after
    \<and> now < t + hours (as_session_hours S) \<and> verified W S g"
proof -
  have "auth_inv W S s" using sign_in.reachable_inv [OF assms(1)] assms(2,3) by (simp add: auth_inv_def)
  moreover obtain x where x: "tget ss_token_hash (wa_sha256 W tok) (ow_sessions (ah_db s)) = Some x" "now < ss_expires_at x"
    using assms(4) by (auto simp: validate_session_def Let_def split: if_splits option.splits)
  ultimately have "earned W S (ah_log s) (wa_sha256 W tok) (ss_expires_at x)"
    using tget_key [OF x(1)] by (auto simp: auth_inv_def)
  then show ?thesis using x(2) unfolding earned_def by (elim exE conjE) (metis)
qed

definition trusting :: webauthn where
  "trusting = \<lparr>wa_registration = (\<lambda>_ _ _ _. Inl []), wa_login = (\<lambda>_ _ _ _ _ n. Inr \<lparr>lp_sign_count = n + 1, lp_device_type = None, lp_backed_up = False\<rparr>),
     wa_base64url = Some, wa_sha256 = (\<lambda>s. s)\<rparr>"

definition one_day :: auth_settings where
  "one_day = \<lparr>as_rp_id = ''atlas'', as_origin = ''https://atlas'', as_session_hours = 24\<rparr>"

definition owner_key :: credential_row where
  "owner_key = \<lparr>ky_id = ''k'', ky_credential_id = ''passkey'', ky_public_key = ''pk'', ky_sign_count = 0, ky_user_handle = [],
     ky_transports = [], ky_device_type = None, ky_backed_up = False, ky_last_used_at = None\<rparr>"

definition login_challenge :: challenge_row where
  "login_challenge = \<lparr>cg_id = ''c'', cg_kind = ''login'', cg_challenge = ''nonce'', cg_user_handle = None, cg_expires_at = 100\<rparr>"

definition asked :: owner_db where
  "asked = \<lparr>ow_challenges = [login_challenge], ow_credentials = [owner_key], ow_sessions = [], ow_code_file = None, ow_marker_file = None\<rparr>"

definition passkey_response :: json_obj where
  "passkey_response = [(''id'', JStr ''passkey'')]"

definition owner_plan :: login_plan where
  "owner_plan = \<lparr>pn_challenge = login_challenge, pn_key = owner_key, pn_response = passkey_response,
     pn_proof = \<lparr>lp_sign_count = 1, lp_device_type = None, lp_backed_up = False\<rparr>\<rparr>"

lemma owner_check: "check_login trusting one_day 5 ''c'' passkey_response asked = Inr owner_plan"
  by code_simp

lemma owner_signs_in: "\<not> isl (write_login trusting one_day 6 ''s'' ''token'' owner_plan asked)"
  "fst (validate_session trusting 7 (Some ''token'') (projr (write_login trusting one_day 6 ''s'' ''token'' owner_plan asked))) \<noteq> None"
  by code_simp+

theorem owner_session_sound_witness:
  "\<exists>s row before t g after. (auth_change trusting one_day)\<^sup>*\<^sup>* \<lparr>ah_db = asked, ah_checked = [], ah_log = []\<rparr> s
     \<and> fst (validate_session trusting 7 (Some ''token'') (ah_db s)) = Some row
     \<and> ah_log s = before @ Issued ''token'' t g # after \<and> verified trusting one_day g"
proof -
  let ?s0 = "\<lparr>ah_db = asked, ah_checked = [], ah_log = []\<rparr>"
  let ?s1 = "?s0\<lparr>ah_checked := [By_login owner_plan 5]\<rparr>"
  obtain db where w: "write_login trusting one_day 6 ''s'' ''token'' owner_plan asked = Inr db"
    using owner_signs_in(1) by (cases "write_login trusting one_day 6 ''s'' ''token'' owner_plan asked") auto
  obtain row where row: "fst (validate_session trusting 7 (Some ''token'') db) = Some row" using owner_signs_in(2) w by auto
  let ?s2 = "?s1\<lparr>ah_db := db, ah_log := ah_log ?s1 @ [Issued (wa_sha256 trusting ''token'') 6 (By_login owner_plan 5)]\<rparr>"
  have a: "auth_change trusting one_day ?s0 ?s1" using auth_change.checked_login [of trusting one_day 5 "''c''" passkey_response ?s0] owner_check by simp
  have b: "auth_change trusting one_day ?s1 ?s2"
    using auth_change.written_login [of owner_plan 5 ?s1 trusting one_day 6 "''s''" "''token''" db] w by simp
  have reach: "(auth_change trusting one_day)\<^sup>*\<^sup>* ?s0 ?s2" using a b by (meson rtranclp.rtrancl_into_rtrancl rtranclp.rtrancl_refl)
  have sha: "wa_sha256 trusting ''token'' = ''token''" by (simp add: trusting_def)
  have row2: "fst (validate_session trusting 7 (Some ''token'') (ah_db ?s2)) = Some row" using row by simp
  have "\<exists>before t g after. ah_log ?s2 = before @ Issued (wa_sha256 trusting ''token'') t g # after
      \<and> Ended (wa_sha256 trusting ''token'') \<notin> set after \<and> 7 < t + hours (as_session_hours one_day) \<and> verified trusting one_day g"
    by (rule owner_session_sound [OF reach _ _ row2]) (simp_all add: asked_def)
  then show ?thesis using reach row2 unfolding sha by blast
qed

section \<open>Two requests with one challenge\<close>

lemma write_login_total:
  assumes "i \<notin> ss_id ` set (ow_sessions db)" "wa_sha256 W tok \<notin> ss_token_hash ` set (ow_sessions db)"
  shows "\<exists>db'. write_login W S now i tok p db = Inr db' \<and> ow_sessions db' = filter (\<lambda>x. now < ss_expires_at x) (ow_sessions db) @
      [\<lparr>ss_id = i, ss_token_hash = wa_sha256 W tok, ss_expires_at = now + hours (as_session_hours S), ss_last_seen_at = now\<rparr>]
    \<and> tget cg_id (cg_id (pn_challenge p)) (ow_challenges db') = None"
  using assms by (auto simp: write_login_def create_session_def drop_challenge_def prune_expired_def Let_def tget_None_iff tadd_def)

lemma validate_open:
  assumes "tok \<noteq> []" "wa_sha256 W tok \<in> ss_token_hash ` set (ow_sessions db)" "\<And>x. x \<in> set (ow_sessions db) \<Longrightarrow> now < ss_expires_at x"
  shows "fst (validate_session W now (Some tok) db) \<noteq> None"
proof -
  obtain x where x: "tget ss_token_hash (wa_sha256 W tok) (ow_sessions db) = Some x"
    using assms(2) by (cases "tget ss_token_hash (wa_sha256 W tok) (ow_sessions db)") (auto simp: tget_None_iff)
  then have "now < ss_expires_at x" using assms(3) tget_key by fastforce
  then show ?thesis using x assms(1) by (simp add: validate_session_def Let_def)
qed

text \<open>C12: Overlapping requests use a challenge twice. When two requests carry the same verified response and both check before
  either writes, both are given a session; a request that starts after the first has written is refused, since the
  challenge is gone. (The deletion of a row that another transaction has deleted is not an error.)\<close>

theorem challenge_used_twice:
  assumes "check_login W S now i response db = Inr p" "0 < as_session_hours S" "a \<noteq> b" "wa_sha256 W t1 \<noteq> wa_sha256 W t2" "t1 \<noteq> []" "t2 \<noteq> []"
    "\<And>x. x \<in> set (ow_sessions db) \<Longrightarrow> ss_id x \<notin> {a, b} \<and> ss_token_hash x \<notin> {wa_sha256 W t1, wa_sha256 W t2}"
  shows "\<exists>db1 db2. write_login W S now a t1 p db = Inr db1
    \<and> check_login W S now i response db1 = Inl (AuthValueError ''Authentication challenge was not found'')
    \<and> write_login W S now b t2 p db1 = Inr db2
    \<and> fst (validate_session W now (Some t1) db2) \<noteq> None \<and> fst (validate_session W now (Some t2) db2) \<noteq> None"
proof -
  have c: "tget cg_id i (ow_challenges db) = Some (pn_challenge p)"
    using assms(1) by (auto simp: check_login_def ebind_Inr find_challenge_Inr)
  then have i: "cg_id (pn_challenge p) = i" using tget_key by fastforce
  have life: "now < now + hours (as_session_hours S)" using assms(2) by (simp add: hours_def)
  obtain db1 where w1: "write_login W S now a t1 p db = Inr db1" "ow_sessions db1 = filter (\<lambda>x. now < ss_expires_at x) (ow_sessions db) @
      [\<lparr>ss_id = a, ss_token_hash = wa_sha256 W t1, ss_expires_at = now + hours (as_session_hours S), ss_last_seen_at = now\<rparr>]"
    "tget cg_id i (ow_challenges db1) = None"
    using write_login_total [of a db W t1 S now p] assms(7) i by fastforce
  obtain db2 where w2: "write_login W S now b t2 p db1 = Inr db2" "ow_sessions db2 = filter (\<lambda>x. now < ss_expires_at x) (ow_sessions db1) @
      [\<lparr>ss_id = b, ss_token_hash = wa_sha256 W t2, ss_expires_at = now + hours (as_session_hours S), ss_last_seen_at = now\<rparr>]"
    using write_login_total [of b db1 W t2 S now p] assms(3,4,7) w1(2) by fastforce
  have "check_login W S now i response db1 = Inl (AuthValueError ''Authentication challenge was not found'')"
    using w1(3) by (simp add: check_login_def find_challenge_def)
  moreover have "fst (validate_session W now (Some t1) db2) \<noteq> None" "fst (validate_session W now (Some t2) db2) \<noteq> None"
    by (rule validate_open; use assms(5,6) w1(2) w2(2) life in auto)+
  ultimately show ?thesis using w1(1) w2(1) by blast
qed

theorem challenge_used_twice_witness:
  "\<exists>db1 db2. write_login trusting one_day 5 ''s'' ''t1'' owner_plan asked = Inr db1
    \<and> write_login trusting one_day 5 ''r'' ''t2'' owner_plan db1 = Inr db2
    \<and> fst (validate_session trusting 5 (Some ''t1'') db2) \<noteq> None \<and> fst (validate_session trusting 5 (Some ''t2'') db2) \<noteq> None"
proof -
  have "\<exists>db1 db2. write_login trusting one_day 5 ''s'' ''t1'' owner_plan asked = Inr db1
    \<and> check_login trusting one_day 5 ''c'' passkey_response db1 = Inl (AuthValueError ''Authentication challenge was not found'')
    \<and> write_login trusting one_day 5 ''r'' ''t2'' owner_plan db1 = Inr db2
    \<and> fst (validate_session trusting 5 (Some ''t1'') db2) \<noteq> None \<and> fst (validate_session trusting 5 (Some ''t2'') db2) \<noteq> None"
    by (rule challenge_used_twice [OF owner_check]) (simp_all add: one_day_def trusting_def asked_def)
  then show ?thesis by blast
qed

section \<open>The rate limit\<close>

text \<open>A client has at most \<open>limit\<close> recorded attempts, and a refused request records none.\<close>

lemma rate_limit_bound:
  assumes "rate_limit limit window now forwarded host recorded = (r, recorded')" "\<And>k ts. (k, ts) \<in> set recorded \<Longrightarrow> length ts \<le> limit"
  shows "(k, ts) \<in> set recorded' \<Longrightarrow> length ts \<le> limit"
proof -
  let ?old = "case map_of recorded (client_key forwarded host recorded) of Some ts \<Rightarrow> ts | None \<Rightarrow> []"
  have "length (dropWhile (\<lambda>t. t \<le> now - window) ?old) \<le> length ?old" by (rule length_dropWhile_le)
  moreover have "length ?old \<le> limit" using assms(2) by (auto split: option.splits dest: map_of_SomeD)
  ultimately show "(k, ts) \<in> set recorded' \<Longrightarrow> length ts \<le> limit"
    using assms by (auto simp: rate_limit_def Let_def split: if_splits)
qed

end
